(* ===== verification/Lb_Prelude.thy ===== *)
theory Lb_Prelude
  imports Main "HOL-Library.Sublist"
begin

text \<open>
  Shared vocabulary of the development: results as sums, Rust string operations on UTF-8 byte
  lists (\<open>trim\<close>, slicing, decimal formatting and parsing), machine-integer ranges, the
  \<open>str_enum\<close> interface of an enum with a wire form (a \<open>Display\<close>/\<open>FromStr\<close> pair), and the
  \<open>kept_by\<close> interface of a step function with an invariant. A Rust \<open>String\<close> is its list of UTF-8
  bytes, so \<open>length\<close> is Rust's \<open>len()\<close>.
\<close>

named_theorems i64_simps "range predicates of the machine integers"

subsection \<open>Results\<close>

type_synonym ('e, 'a) result = "'e + 'a"

definition res_bind :: "('e, 'a) result \<Rightarrow> ('a \<Rightarrow> ('e, 'b) result) \<Rightarrow> ('e, 'b) result" where
  "res_bind r f = (case r of Inl e \<Rightarrow> Inl e | Inr a \<Rightarrow> f a)"

definition map_err :: "('e \<Rightarrow> 'f) \<Rightarrow> ('e, 'a) result \<Rightarrow> ('f, 'a) result" where
  "map_err h r = (case r of Inl e \<Rightarrow> Inl (h e) | Inr a \<Rightarrow> Inr a)"

definition is_err :: "('e, 'a) result \<Rightarrow> bool" where
  "is_err r = (case r of Inl _ \<Rightarrow> True | Inr _ \<Rightarrow> False)"

lemma res_bind_simps [simp]:
  "res_bind (Inl e) f = Inl e"
  "res_bind (Inr a) f = f a"
  by (simp_all add: res_bind_def)

lemma map_err_simps [simp]:
  "map_err h (Inl e) = Inl (h e)"
  "map_err h (Inr a) = Inr a"
  by (simp_all add: map_err_def)

lemma is_err_simps [simp]: "is_err (Inl e)" "\<not> is_err (Inr a)"
  by (simp_all add: is_err_def)

lemma res_bind_eq_Inr_conv:
  "res_bind r f = Inr b \<longleftrightarrow> (\<exists>a. r = Inr a \<and> f a = Inr b)"
  by (cases r) auto

lemma res_bind_eq_Inl_conv:
  "res_bind r f = Inl e \<longleftrightarrow> r = Inl e \<or> (\<exists>a. r = Inr a \<and> f a = Inl e)"
  by (cases r) auto

lemma map_err_eq_conv [simp]:
  "map_err h r = Inr a \<longleftrightarrow> r = Inr a"
  "map_err h r = Inl f \<longleftrightarrow> (\<exists>e. r = Inl e \<and> f = h e)"
  by (cases r; auto)+

text \<open>\<open>iter.map(f).collect::<Result<Vec<_>, _>>()\<close>: the first error wins.\<close>

fun collect_results :: "('e, 'a) result list \<Rightarrow> ('e, 'a list) result" where
  "collect_results [] = Inr []"
| "collect_results (r # rs) =
     res_bind r (\<lambda>a. res_bind (collect_results rs) (\<lambda>as. Inr (a # as)))"

lemma collect_results_Inr_iff: "collect_results rs = Inr as \<longleftrightarrow> rs = map Inr as"
proof (induction rs arbitrary: as)
  case Nil
  then show ?case by auto
next
  case (Cons r rs)
  show ?case
    by (cases as) (auto simp: res_bind_eq_Inr_conv Cons.IH)
qed

text \<open>\<open>opt.map(f).transpose()\<close>.\<close>

definition transpose_map :: "('a \<Rightarrow> ('e, 'b) result) \<Rightarrow> 'a option \<Rightarrow> ('e, 'b option) result" where
  "transpose_map f x = (case x of None \<Rightarrow> Inr None | Some a \<Rightarrow> res_bind (f a) (\<lambda>b. Inr (Some b)))"

lemma transpose_map_simps [simp]:
  "transpose_map f None = Inr None"
  "transpose_map f (Some a) = res_bind (f a) (\<lambda>b. Inr (Some b))"
  by (simp_all add: transpose_map_def)

subsection \<open>Searching a list\<close>

lemma find_SomeD: "find P xs = Some x \<Longrightarrow> x \<in> set xs \<and> P x"
  by (induction xs) (auto split: if_splits)

lemma find_unique:
  assumes "x \<in> set xs" "P x" "\<forall>y\<in>set xs. P y \<longrightarrow> y = x"
  shows "find P xs = Some x"
proof (cases "find P xs")
  case None
  with assms(1,2) show ?thesis by (auto simp: find_None_iff)
next
  case (Some y)
  with find_SomeD [OF Some] assms(3) show ?thesis by simp
qed

lemma filter_key: "distinct (map key xs) \<Longrightarrow> x \<in> set xs \<Longrightarrow> filter (\<lambda>y. key y = key x) xs = [x]"
proof (induction xs)
  case (Cons a xs)
  show ?case
  proof (cases "a = x")
    case True
    with Cons.prems have "\<forall>y\<in>set xs. key y \<noteq> key x" by (metis distinct.simps(2) image_eqI list.simps(9) list.set_map)
    with True show ?thesis by simp
  next
    case False
    with Cons have "key a \<noteq> key x" by (metis distinct.simps(2) image_eqI list.simps(9) list.set_map set_ConsD)
    with False Cons show ?thesis by simp
  qed
qed simp

subsection \<open>Machine integers\<close>

definition fits_i64 :: "int \<Rightarrow> bool" where
  "fits_i64 n \<longleftrightarrow> - (2 ^ 63) \<le> n \<and> n < 2 ^ 63"

definition fits_i32 :: "int \<Rightarrow> bool" where
  "fits_i32 n \<longleftrightarrow> - (2 ^ 31) \<le> n \<and> n < 2 ^ 31"

declare fits_i64_def [i64_simps] fits_i32_def [i64_simps]

text \<open>\<open>i64::clamp(lo, hi)\<close>.\<close>

definition clamp_int :: "int \<Rightarrow> int \<Rightarrow> int \<Rightarrow> int" where
  "clamp_int lo hi n = (if n < lo then lo else if n > hi then hi else n)"

lemma clamp_int_bounds: "lo \<le> hi \<Longrightarrow> lo \<le> clamp_int lo hi n \<and> clamp_int lo hi n \<le> hi"
  by (simp add: clamp_int_def)

subsection \<open>Trimming white space\<close>

text \<open>
  The UTF-8 encodings of the code points with Unicode's White_Space property, which is what
  \<open>str::trim\<close> and \<open>str::split_whitespace\<close> use.
\<close>

definition utf8_whitespace :: "string list" where
  "utf8_whitespace =
     [[CHR 0x09], [CHR 0x0A], [CHR 0x0B], [CHR 0x0C], [CHR 0x0D], [CHR 0x20],
      [CHR 0xC2, CHR 0x85], [CHR 0xC2, CHR 0xA0], [CHR 0xE1, CHR 0x9A, CHR 0x80],
      [CHR 0xE2, CHR 0x80, CHR 0x80], [CHR 0xE2, CHR 0x80, CHR 0x81],
      [CHR 0xE2, CHR 0x80, CHR 0x82], [CHR 0xE2, CHR 0x80, CHR 0x83],
      [CHR 0xE2, CHR 0x80, CHR 0x84], [CHR 0xE2, CHR 0x80, CHR 0x85],
      [CHR 0xE2, CHR 0x80, CHR 0x86], [CHR 0xE2, CHR 0x80, CHR 0x87],
      [CHR 0xE2, CHR 0x80, CHR 0x88], [CHR 0xE2, CHR 0x80, CHR 0x89],
      [CHR 0xE2, CHR 0x80, CHR 0x8A], [CHR 0xE2, CHR 0x80, CHR 0xA8],
      [CHR 0xE2, CHR 0x80, CHR 0xA9], [CHR 0xE2, CHR 0x80, CHR 0xAF],
      [CHR 0xE2, CHR 0x81, CHR 0x9F], [CHR 0xE3, CHR 0x80, CHR 0x80]]"

fun strip_one :: "string list \<Rightarrow> string \<Rightarrow> string option" where
  "strip_one [] s = None"
| "strip_one (w # ws) s =
     (if w \<noteq> [] \<and> take (length w) s = w then Some (drop (length w) s) else strip_one ws s)"

lemma take_eq_nonempty_shorter:
  "w \<noteq> [] \<Longrightarrow> take (length w) s = w \<Longrightarrow> length s - length w < length s"
  by (cases s) auto

lemma strip_one_shorter: "strip_one ws s = Some t \<Longrightarrow> length t < length s"
  by (induction ws) (auto split: if_splits intro: take_eq_nonempty_shorter)

function trim_left :: "string list \<Rightarrow> string \<Rightarrow> string" where
  "trim_left ws s = (case strip_one ws s of None \<Rightarrow> s | Some t \<Rightarrow> trim_left ws t)"
  by pat_completeness auto
termination
  by (relation "measure (\<lambda>(ws, s). length s)") (auto dest: strip_one_shorter)

declare trim_left.simps [simp del]

definition str_trim :: "string \<Rightarrow> string" where
  "str_trim s =
     rev (trim_left (map rev utf8_whitespace) (rev (trim_left utf8_whitespace s)))"

text \<open>\<open>s.trim().is_empty()\<close>.\<close>

definition is_blank :: "string \<Rightarrow> bool" where
  "is_blank s \<longleftrightarrow> str_trim s = []"

lemma trim_left_stop: "strip_one ws s = None \<Longrightarrow> trim_left ws s = s"
  by (subst trim_left.simps) simp

lemma strip_one_Nil [simp]: "strip_one ws [] = None"
  by (induction ws) auto

lemma trim_left_Nil [simp]: "trim_left ws [] = []"
  by (simp add: trim_left_stop)

lemma trim_left_idem: "strip_one ws (trim_left ws s) = None"
proof (induction ws s rule: trim_left.induct)
  case (1 ws s)
  then show ?case
    by (cases "strip_one ws s") (simp_all add: trim_left.simps [of ws s])
qed

lemma str_trim_Nil [simp]: "str_trim [] = []"
  by (simp add: str_trim_def)

lemma is_blank_Nil [simp]: "is_blank []"
  by (simp add: is_blank_def)

text \<open>A printable ASCII byte survives trimming, so a string that holds one is not blank.\<close>

definition is_graphic :: "char \<Rightarrow> bool" where
  "is_graphic c \<longleftrightarrow> 33 \<le> (of_char c :: nat) \<and> (of_char c :: nat) < 127"

lemma graphic_not_whitespace: "w \<in> set utf8_whitespace \<Longrightarrow> c \<in> set w \<Longrightarrow> \<not> is_graphic c"
  by (auto simp: utf8_whitespace_def is_graphic_def)

lemma strip_one_keeps:
  "strip_one ws s = Some t \<Longrightarrow> c \<in> set s \<Longrightarrow> (\<And>w. w \<in> set ws \<Longrightarrow> c \<notin> set w) \<Longrightarrow> c \<in> set t"
proof (induction ws)
  case (Cons w ws)
  show ?case
  proof (cases "w \<noteq> [] \<and> take (length w) s = w")
    case True
    with Cons.prems(1) have t: "t = drop (length w) s" by simp
    have "c \<in> set (take (length w) s @ drop (length w) s)" using Cons.prems(2) by simp
    then show ?thesis using True Cons.prems(3) [of w] t by auto
  next
    case False
    with Cons.prems(1) have "strip_one ws s = Some t" by auto
    then show ?thesis using Cons.IH Cons.prems(2,3) by auto
  qed
qed simp

lemma trim_left_keeps:
  "c \<in> set s \<Longrightarrow> (\<And>w. w \<in> set ws \<Longrightarrow> c \<notin> set w) \<Longrightarrow> c \<in> set (trim_left ws s)"
proof (induction ws s rule: trim_left.induct)
  case (1 ws s)
  show ?case
  proof (cases "strip_one ws s")
    case None
    with 1 show ?thesis by (simp add: trim_left_stop)
  next
    case (Some t)
    with "1.prems" have "c \<in> set t" by (blast intro: strip_one_keeps)
    with 1 Some show ?thesis by (simp add: trim_left.simps [of ws s])
  qed
qed

lemma graphic_not_blank:
  assumes "c \<in> set s" "is_graphic c"
  shows "\<not> is_blank s"
proof -
  have "c \<in> set (str_trim s)"
    unfolding str_trim_def using assms graphic_not_whitespace by (auto intro!: trim_left_keeps)
  then show ?thesis by (auto simp: is_blank_def)
qed

lemma graphic_Cons_not_blank [simp]: "is_graphic c \<Longrightarrow> \<not> is_blank (c # s)"
  by (rule graphic_not_blank [of c]) simp_all

subsection \<open>Decimal digits\<close>

definition is_digit :: "char \<Rightarrow> bool" where
  "is_digit c \<longleftrightarrow> 48 \<le> (of_char c :: nat) \<and> (of_char c :: nat) \<le> 57"

definition digit_val :: "char \<Rightarrow> nat" where
  "digit_val c = of_char c - 48"

definition digit_char :: "nat \<Rightarrow> char" where
  "digit_char d = char_of (48 + d)"

fun dec_of_nat :: "nat \<Rightarrow> string" where
  "dec_of_nat n =
     (if n < 10 then [digit_char n] else dec_of_nat (n div 10) @ [digit_char (n mod 10)])"

declare dec_of_nat.simps [simp del]

definition dec_value :: "string \<Rightarrow> nat" where
  "dec_value s = foldl (\<lambda>a c. 10 * a + digit_val c) 0 s"

text \<open>Rust's \<open>{n:0k}\<close>.\<close>

definition pad0 :: "nat \<Rightarrow> string \<Rightarrow> string" where
  "pad0 k s = replicate (k - length s) (CHR ''0'') @ s"

text \<open>\<open>to_string()\<close> of a signed integer.\<close>

definition dec_of_int :: "int \<Rightarrow> string" where
  "dec_of_int n = (if n < 0 then CHR ''-'' # dec_of_nat (nat (- n)) else dec_of_nat (nat n))"

text \<open>\<open>str::parse\<close> for an unsigned type below \<open>bound\<close>: an optional \<open>+\<close>, then at least one digit.\<close>

definition parse_unsigned :: "nat \<Rightarrow> string \<Rightarrow> nat option" where
  "parse_unsigned bound s =
     (let t = (case s of c # cs \<Rightarrow> if c = CHR ''+'' then cs else s | [] \<Rightarrow> s)
      in if t \<noteq> [] \<and> list_all is_digit t \<and> dec_value t < bound then Some (dec_value t) else None)"

text \<open>\<open>str::parse::<i64>\<close>.\<close>

definition parse_i64 :: "string \<Rightarrow> int option" where
  "parse_i64 s =
     (let (neg, t) = (case s of c # cs \<Rightarrow> if c = CHR ''+'' then (False, cs)
                                        else if c = CHR ''-'' then (True, cs) else (False, s)
                              | [] \<Rightarrow> (False, s));
          v = (if neg then - int (dec_value t) else int (dec_value t))
      in if t \<noteq> [] \<and> list_all is_digit t \<and> fits_i64 v then Some v else None)"

text \<open>
  \<open>&s[a..b]\<close>: \<open>None\<close> is the panic on an index that is out of range or inside a code point.
\<close>

definition is_char_boundary :: "string \<Rightarrow> nat \<Rightarrow> bool" where
  "is_char_boundary s i \<longleftrightarrow>
     i = 0 \<or> i = length s \<or>
     (i < length s \<and> \<not> (128 \<le> (of_char (s ! i) :: nat) \<and> (of_char (s ! i) :: nat) < 192))"

definition str_slice :: "nat \<Rightarrow> nat \<Rightarrow> string \<Rightarrow> string option" where
  "str_slice a b s =
     (if a \<le> b \<and> b \<le> length s \<and> is_char_boundary s a \<and> is_char_boundary s b
      then Some (take (b - a) (drop a s)) else None)"

lemma of_char_digit_char [simp]: "d < 10 \<Longrightarrow> (of_char (digit_char d) :: nat) = 48 + d"
  by (simp add: digit_char_def)

lemma digit_char_eval:
  "digit_char 0 = CHR ''0''" "digit_char (Suc 0) = CHR ''1''" "digit_char 2 = CHR ''2''"
  "digit_char 3 = CHR ''3''" "digit_char 4 = CHR ''4''" "digit_char 5 = CHR ''5''"
  "digit_char 6 = CHR ''6''" "digit_char 7 = CHR ''7''" "digit_char 8 = CHR ''8''"
  "digit_char 9 = CHR ''9''"
  by (simp_all add: digit_char_def char_of_def bit_iff_odd)

lemma replicate_eval: "replicate 2 c = [c, c]" "replicate 3 c = [c, c, c]"
  by (simp_all add: numeral_2_eq_2 numeral_3_eq_3)

lemma is_digit_digit_char [simp]: "d < 10 \<Longrightarrow> is_digit (digit_char d)"
  by (simp add: is_digit_def)

lemma digit_val_digit_char [simp]: "d < 10 \<Longrightarrow> digit_val (digit_char d) = d"
  by (simp add: digit_val_def)

lemma digit_char_digit_val [simp]: "is_digit c \<Longrightarrow> digit_char (digit_val c) = c"
  by (simp add: is_digit_def digit_val_def digit_char_def)

lemma digit_val_less: "is_digit c \<Longrightarrow> digit_val c < 10"
  by (auto simp: is_digit_def digit_val_def)

lemma digit_not_sign: "is_digit c \<Longrightarrow> c \<noteq> CHR ''+'' \<and> c \<noteq> CHR ''-''"
  by (auto simp: is_digit_def)

lemma digit_boundary:
  "i < length s \<Longrightarrow> is_digit (s ! i) \<Longrightarrow> is_char_boundary s i"
  by (simp add: is_char_boundary_def is_digit_def)

lemma dec_value_Nil [simp]: "dec_value [] = 0"
  by (simp add: dec_value_def)

lemma dec_value_snoc [simp]: "dec_value (s @ [c]) = 10 * dec_value s + digit_val c"
  by (simp add: dec_value_def)

lemma dec_of_nat_digits: "list_all is_digit (dec_of_nat n)"
proof (induction n rule: dec_of_nat.induct)
  case (1 n)
  then show ?case by (subst dec_of_nat.simps) auto
qed

lemma dec_of_nat_nonempty [simp]: "dec_of_nat n \<noteq> []"
  by (subst dec_of_nat.simps) simp

lemma dec_value_dec_of_nat [simp]: "dec_value (dec_of_nat n) = n"
proof (induction n rule: dec_of_nat.induct)
  case (1 n)
  show ?case
  proof (cases "n < 10")
    case True
    then show ?thesis using dec_value_snoc [of "[]"] by (subst dec_of_nat.simps) simp
  next
    case False
    with 1 show ?thesis by (subst dec_of_nat.simps) simp
  qed
qed

lemma dec_of_nat_length: "n < 10 ^ k \<Longrightarrow> 0 < k \<Longrightarrow> length (dec_of_nat n) \<le> k"
proof (induction k arbitrary: n)
  case 0
  then show ?case by simp
next
  case (Suc k)
  show ?case
  proof (cases "n < 10")
    case True
    then show ?thesis by (subst dec_of_nat.simps) simp
  next
    case False
    then have k: "0 < k" using Suc.prems by (cases k) auto
    have "n div 10 < 10 ^ k" using Suc.prems by (simp add: less_mult_imp_div_less mult.commute)
    then have "length (dec_of_nat (n div 10)) \<le> k" using Suc.IH k by blast
    with False show ?thesis by (subst dec_of_nat.simps) simp
  qed
qed

lemma dec_of_nat_length_ge: "10 ^ k \<le> n \<Longrightarrow> k < length (dec_of_nat n)"
proof (induction k arbitrary: n)
  case 0
  then show ?case by (metis dec_of_nat_nonempty length_greater_0_conv)
next
  case (Suc k)
  then have "10 ^ k \<le> n div 10" and ge: "\<not> n < 10"
    using order.trans [OF _ Suc.prems, of 10] by (auto simp: less_eq_div_iff_mult_less_eq mult.commute)
  then have "k < length (dec_of_nat (n div 10))" using Suc.IH by blast
  with ge show ?case by (subst dec_of_nat.simps) simp
qed

lemma dec_value_zeros [simp]: "dec_value (replicate k (CHR ''0'') @ s) = dec_value s"
  by (induction k) (simp_all add: dec_value_def digit_val_def)

lemma dec_value_pad0 [simp]: "dec_value (pad0 k s) = dec_value s"
  by (simp add: pad0_def)

lemma pad0_digits: "list_all is_digit s \<Longrightarrow> list_all is_digit (pad0 k s)"
  by (auto simp: pad0_def list_all_iff is_digit_def)

lemma pad0_length: "length (pad0 k s) = max k (length s)"
  by (simp add: pad0_def)

lemma dec_value_bound: "list_all is_digit s \<Longrightarrow> dec_value s < 10 ^ length s"
proof (induction s rule: rev_induct)
  case Nil
  then show ?case by simp
next
  case (snoc c s)
  then show ?case using digit_val_less [of c] by simp
qed

text \<open>Formatting a number back to the width of the digits it was read from gives those digits.\<close>

lemma dec_value_inj:
  "length s = length t \<Longrightarrow> list_all is_digit s \<Longrightarrow> list_all is_digit t \<Longrightarrow>
   dec_value s = dec_value t \<Longrightarrow> s = t"
proof (induction s arbitrary: t rule: rev_induct)
  case Nil
  then show ?case by simp
next
  case (snoc c s)
  from snoc.prems(1) obtain u d where t: "t = u @ [d]"
    by (cases t rule: rev_cases) auto
  have dig: "is_digit c" "is_digit d" using snoc.prems t by auto
  then have lt: "digit_val c < 10" "digit_val d < 10" by (simp_all add: digit_val_less)
  have eq: "10 * dec_value s + digit_val c = 10 * dec_value u + digit_val d"
    using snoc.prems(4) t by simp
  then have v: "digit_val c = digit_val d" "dec_value s = dec_value u" using lt by arith+
  from v(1) dig have "c = d" by (metis digit_char_digit_val)
  moreover have "s = u" using snoc.IH [of u] snoc.prems t v by auto
  ultimately show ?case using t by simp
qed

lemma pad0_dec_value:
  assumes "list_all is_digit s" "s \<noteq> []"
  shows "pad0 (length s) (dec_of_nat (dec_value s)) = s"
proof (rule dec_value_inj)
  have "length (dec_of_nat (dec_value s)) \<le> length s"
    using dec_of_nat_length [OF dec_value_bound [OF assms(1)]] assms(2) by simp
  then show "length (pad0 (length s) (dec_of_nat (dec_value s))) = length s"
    by (simp add: pad0_length)
qed (use assms dec_of_nat_digits pad0_digits in auto)

lemma parse_unsigned_digits:
  assumes "list_all is_digit s" "s \<noteq> []"
  shows "parse_unsigned bound s = (if dec_value s < bound then Some (dec_value s) else None)"
proof (cases s)
  case (Cons c cs)
  with assms digit_not_sign [of c] show ?thesis
    by (simp add: parse_unsigned_def Let_def)
qed (use assms in simp)

lemma parse_i64_dec_of_int: "fits_i64 n \<Longrightarrow> parse_i64 (dec_of_int n) = Some n"
proof (cases "n < 0")
  case True
  assume "fits_i64 n"
  with True show ?thesis
    by (simp add: parse_i64_def dec_of_int_def dec_of_nat_digits)
next
  case False
  assume "fits_i64 n"
  moreover obtain c cs where c: "dec_of_nat (nat n) = c # cs"
    by (meson dec_of_nat_nonempty neq_Nil_conv)
  moreover have "is_digit c" using dec_of_nat_digits [of "nat n"] c by simp
  ultimately show ?thesis
    using False digit_not_sign [of c] dec_of_nat_digits [of "nat n"]
      dec_value_dec_of_nat [of "nat n"]
    by (simp add: parse_i64_def dec_of_int_def)
qed

subsection \<open>Enums with a wire form\<close>

text \<open>
  The contract of a \<open>Display\<close> and a \<open>FromStr\<close> implementation that belong together: what is
  printed parses back, nothing else parses, and a string that does not parse is named in the error.
\<close>

locale str_enum =
  fixes as_str :: "'a \<Rightarrow> string"
    and from_str :: "string \<Rightarrow> ('e, 'a) result"
    and unknown :: "string \<Rightarrow> 'e"
  assumes from_as_str: "from_str (as_str v) = Inr v"
    and from_str_only: "from_str s = Inr v \<Longrightarrow> s = as_str v"
    and from_str_err: "from_str s = Inl e \<Longrightarrow> e = unknown s"
begin

lemma from_str_iff: "from_str s = Inr v \<longleftrightarrow> s = as_str v"
  using from_as_str from_str_only by auto

lemma as_str_eq_iff: "as_str v = as_str w \<longleftrightarrow> v = w"
  by (metis from_as_str sum.inject(2))

lemma inj_as_str: "inj as_str"
  by (simp add: inj_def as_str_eq_iff)

lemma from_str_unknown_iff: "from_str s = Inl (unknown s) \<longleftrightarrow> s \<notin> range as_str"
proof
  assume "from_str s = Inl (unknown s)"
  then show "s \<notin> range as_str" by (auto simp: from_as_str)
next
  assume "s \<notin> range as_str"
  then show "from_str s = Inl (unknown s)"
    by (cases "from_str s") (auto dest: from_str_err from_str_only)
qed

end

subsection \<open>Steps that keep an invariant\<close>

text \<open>
  A step function over a list of inputs, as a server runs its calls one after the other, and an
  invariant every step keeps.
\<close>

locale kept_by =
  fixes step :: "'s \<Rightarrow> 'i \<Rightarrow> 's"
    and inv :: "'s \<Rightarrow> bool"
  assumes step_keeps: "inv s \<Longrightarrow> inv (step s i)"
begin

lemma run_keeps: "inv s \<Longrightarrow> inv (foldl step s is)"
  by (induction "is" arbitrary: s) (simp_all add: step_keeps)

end

end
