(* ===== verification/Budget_Domain.thy ===== *)
theory Budget_Domain
  imports Lb_Prelude
begin

text \<open>
  The value types of the budget crate (crates/lightbridge-authz-budget/src): error.rs, amount.rs,
  source.rs, tier.rs, period.rs, the \<open>Spend\<close> enum of spend.rs, facts.rs, decision.rs and the status
  enum of augmentation.rs. An \<open>i64\<close> is an \<open>int\<close>; where a value can leave the range, the range is
  checked by \<open>fits_i64\<close>. A \<open>DateTime<Utc>\<close> is an \<open>int\<close> (microseconds since the epoch). A function that
  can panic (\<open>expect\<close>, slicing) has an option type, \<open>None\<close> being the panic. Inside \<open>StorageFailed\<close>,
  the wording of sqlx is replaced by a short tag that names the cause.
\<close>

subsection \<open>error.rs\<close>

datatype budget_error =
    InvalidAmount int
  | InvalidPeriod string
  | UnknownSource string
  | UnknownTier string
  | AlreadyGranted
  | PolicyDenied string
  | StorageFailed string
  | InvalidRuleData string
  | NotFound string
  | UnknownStatus string
  | InvalidReviewOutcome string
  | MissingRejectionReason
  | AlreadyReviewed string
  | AmountNotOffered int

type_synonym 'a bresult = "(budget_error, 'a) result"

fun budget_error_display :: "budget_error \<Rightarrow> string" where
  "budget_error_display (InvalidAmount n) =
     ''amount must be positive micro-USD, got '' @ dec_of_int n"
| "budget_error_display (InvalidPeriod s) = ''invalid period, expected YYYY-MM: '' @ s"
| "budget_error_display (UnknownSource s) = ''unknown grant source: '' @ s"
| "budget_error_display (UnknownTier s) = ''unknown budget tier: '' @ s"
| "budget_error_display AlreadyGranted = ''a grant already exists for this idempotency key''"
| "budget_error_display (PolicyDenied s) = ''policy denied this request: '' @ s"
| "budget_error_display (StorageFailed s) = ''storage operation failed: '' @ s"
| "budget_error_display (InvalidRuleData s) = ''invalid rule data: '' @ s"
| "budget_error_display (NotFound s) = ''not found: '' @ s"
| "budget_error_display (UnknownStatus s) = ''unknown augmentation request status: '' @ s"
| "budget_error_display (InvalidReviewOutcome s) =
     CHR 0x27 # s @ CHR 0x27 # '' is not a legitimate review outcome''"
| "budget_error_display MissingRejectionReason =
     ''a rejection must carry a non-empty rejection reason''"
| "budget_error_display (AlreadyReviewed s) =
     ''augmentation request '' @ CHR 0x27 # s @ CHR 0x27 #
     '' is not pending review (already reviewed, or does not exist)''"
| "budget_error_display (AmountNotOffered n) =
     dec_of_int n @ '' is not a currently offered refill amount (micro-USD)''"

subsection \<open>amount.rs\<close>

datatype amount_micros = AmountMicros (amount_get: int)

definition amount_new :: "int \<Rightarrow> amount_micros bresult" where
  "amount_new v = (if v \<le> 0 then Inl (InvalidAmount v) else Inr (AmountMicros v))"

subsection \<open>source.rs\<close>

datatype grant_source =
  Base | SelfService | Admin | Automatic | ManualApproval | Refund | Correction | Promotion | Migration

fun source_as_str :: "grant_source \<Rightarrow> string" where
  "source_as_str Base = ''base''"
| "source_as_str SelfService = ''self_service''"
| "source_as_str Admin = ''admin''"
| "source_as_str Automatic = ''automatic''"
| "source_as_str ManualApproval = ''manual_approval''"
| "source_as_str Refund = ''refund''"
| "source_as_str Correction = ''correction''"
| "source_as_str Promotion = ''promotion''"
| "source_as_str Migration = ''migration''"

definition source_from_str :: "string \<Rightarrow> grant_source bresult" where
  "source_from_str s =
     (if s = ''base'' then Inr Base
      else if s = ''self_service'' then Inr SelfService
      else if s = ''admin'' then Inr Admin
      else if s = ''automatic'' then Inr Automatic
      else if s = ''manual_approval'' then Inr ManualApproval
      else if s = ''refund'' then Inr Refund
      else if s = ''correction'' then Inr Correction
      else if s = ''promotion'' then Inr Promotion
      else if s = ''migration'' then Inr Migration
      else Inl (UnknownSource s))"

interpretation source_enum: str_enum source_as_str source_from_str UnknownSource
proof
  show "source_from_str (source_as_str v) = Inr v" for v
    by (cases v) (simp_all add: source_from_str_def)
qed (auto simp: source_from_str_def split: if_splits)

subsection \<open>tier.rs\<close>

datatype budget_tier = B15 | B30 | B60 | B120 | B250 | B500 | B1000

definition tier_all :: "budget_tier list" where
  "tier_all = [B15, B30, B60, B120, B250, B500, B1000]"

text \<open>\<open>derive(PartialOrd, Ord)\<close> compares the variants by their position in the declaration.\<close>

fun tier_rank :: "budget_tier \<Rightarrow> nat" where
  "tier_rank B15 = 0" | "tier_rank B30 = 1" | "tier_rank B60 = 2" | "tier_rank B120 = 3"
| "tier_rank B250 = 4" | "tier_rank B500 = 5" | "tier_rank B1000 = 6"

lemma tier_rank_inj: "tier_rank a = tier_rank b \<Longrightarrow> a = b"
  by (cases a; cases b) simp_all

instantiation budget_tier :: linorder
begin

definition less_eq_budget_tier :: "budget_tier \<Rightarrow> budget_tier \<Rightarrow> bool" where
  "less_eq_budget_tier a b \<longleftrightarrow> tier_rank a \<le> tier_rank b"

definition less_budget_tier :: "budget_tier \<Rightarrow> budget_tier \<Rightarrow> bool" where
  "less_budget_tier a b \<longleftrightarrow> tier_rank a < tier_rank b"

instance
  by standard (auto simp: less_eq_budget_tier_def less_budget_tier_def dest: tier_rank_inj)

end

fun tier_micros :: "budget_tier \<Rightarrow> int" where
  "tier_micros B15 = 15000000"
| "tier_micros B30 = 30000000"
| "tier_micros B60 = 60000000"
| "tier_micros B120 = 120000000"
| "tier_micros B250 = 250000000"
| "tier_micros B500 = 500000000"
| "tier_micros B1000 = 1000000000"

text \<open>\<open>AmountMicros::new(micros).expect(\<dots>)\<close>: \<open>None\<close> would be the panic.\<close>

definition tier_amount :: "budget_tier \<Rightarrow> amount_micros option" where
  "tier_amount t = (case amount_new (tier_micros t) of Inl _ \<Rightarrow> None | Inr a \<Rightarrow> Some a)"

fun tier_label :: "budget_tier \<Rightarrow> string" where
  "tier_label B15 = ''b-15''"
| "tier_label B30 = ''b-30''"
| "tier_label B60 = ''b-60''"
| "tier_label B120 = ''b-120''"
| "tier_label B250 = ''b-250''"
| "tier_label B500 = ''b-500''"
| "tier_label B1000 = ''b-1000''"

fun tier_next :: "budget_tier \<Rightarrow> budget_tier option" where
  "tier_next B15 = Some B30"
| "tier_next B30 = Some B60"
| "tier_next B60 = Some B120"
| "tier_next B120 = Some B250"
| "tier_next B250 = Some B500"
| "tier_next B500 = Some B1000"
| "tier_next B1000 = None"

definition tier_from_amount_micros :: "int \<Rightarrow> budget_tier option" where
  "tier_from_amount_micros a =
     (if a = 15000000 then Some B15
      else if a = 30000000 then Some B30
      else if a = 60000000 then Some B60
      else if a = 120000000 then Some B120
      else if a = 250000000 then Some B250
      else if a = 500000000 then Some B500
      else if a = 1000000000 then Some B1000
      else None)"

definition tier_from_str :: "string \<Rightarrow> budget_tier bresult" where
  "tier_from_str s =
     (if s = ''b-15'' then Inr B15
      else if s = ''b-30'' then Inr B30
      else if s = ''b-60'' then Inr B60
      else if s = ''b-120'' then Inr B120
      else if s = ''b-250'' then Inr B250
      else if s = ''b-500'' then Inr B500
      else if s = ''b-1000'' then Inr B1000
      else Inl (UnknownTier s))"

interpretation tier_enum: str_enum tier_label tier_from_str UnknownTier
proof
  show "tier_from_str (tier_label v) = Inr v" for v
    by (cases v) (simp_all add: tier_from_str_def)
qed (auto simp: tier_from_str_def split: if_splits)

lemma tier_from_amount_iff: "tier_from_amount_micros a = Some t \<longleftrightarrow> a = tier_micros t"
  by (cases t) (auto simp: tier_from_amount_micros_def)

subsection \<open>spend.rs (the enum), facts.rs, decision.rs\<close>

datatype spend = Known int | Unavailable

record facts =
  effective_balance_micros :: int
  self_service_grant_count :: int
  spend_this_period :: spend
  spend_last_period :: spend

datatype effect = AutoApprove | AutoApproveCapped | ManualReview | Deny | NoAction

record obligations =
  required_approver_role :: "string option"

definition obligations_default :: obligations where
  "obligations_default = \<lparr>required_approver_role = None\<rparr>"

record decision =
  effect :: effect
  approved_amount_micros :: int
  maximum_amount_micros :: int
  reason_codes :: "string list"
  matched_rule_ids :: "string list"
  policy_revision :: string
  decision_obligations :: obligations

text \<open>The only effects that authorize a grant.\<close>

definition authorizes_grant :: "effect \<Rightarrow> bool" where
  "authorizes_grant e \<longleftrightarrow> e = AutoApprove \<or> e = AutoApproveCapped"

text \<open>\<open>effect_to_db\<close> and \<open>effect_from_db\<close> of augmentation.rs: serde's snake_case names.\<close>

fun effect_to_db :: "effect \<Rightarrow> string" where
  "effect_to_db AutoApprove = ''auto_approve''"
| "effect_to_db AutoApproveCapped = ''auto_approve_capped''"
| "effect_to_db ManualReview = ''manual_review''"
| "effect_to_db Deny = ''deny''"
| "effect_to_db NoAction = ''no_action''"

definition effect_bad :: "string \<Rightarrow> budget_error" where
  "effect_bad s =
     StorageFailed (''stored policy_effect '' @ CHR 0x27 # s @ CHR 0x27 # '' is invalid'')"

definition effect_from_db :: "string \<Rightarrow> effect bresult" where
  "effect_from_db s =
     (if s = ''auto_approve'' then Inr AutoApprove
      else if s = ''auto_approve_capped'' then Inr AutoApproveCapped
      else if s = ''manual_review'' then Inr ManualReview
      else if s = ''deny'' then Inr Deny
      else if s = ''no_action'' then Inr NoAction
      else Inl (effect_bad s))"

interpretation effect_enum: str_enum effect_to_db effect_from_db effect_bad
proof
  show "effect_from_db (effect_to_db v) = Inr v" for v
    by (cases v) (simp_all add: effect_from_db_def)
qed (auto simp: effect_from_db_def split: if_splits)

subsection \<open>augmentation.rs: the request status\<close>

datatype augmentation_status =
    Created | Evaluating | AutoApproved | PendingReview | Approved | PartiallyApproved
  | Denied | Cancelled | Expired | Applied

fun status_as_str :: "augmentation_status \<Rightarrow> string" where
  "status_as_str Created = ''created''"
| "status_as_str Evaluating = ''evaluating''"
| "status_as_str AutoApproved = ''auto_approved''"
| "status_as_str PendingReview = ''pending_review''"
| "status_as_str Approved = ''approved''"
| "status_as_str PartiallyApproved = ''partially_approved''"
| "status_as_str Denied = ''denied''"
| "status_as_str Cancelled = ''cancelled''"
| "status_as_str Expired = ''expired''"
| "status_as_str Applied = ''applied''"

definition status_from_str :: "string \<Rightarrow> augmentation_status bresult" where
  "status_from_str s =
     (if s = ''created'' then Inr Created
      else if s = ''evaluating'' then Inr Evaluating
      else if s = ''auto_approved'' then Inr AutoApproved
      else if s = ''pending_review'' then Inr PendingReview
      else if s = ''approved'' then Inr Approved
      else if s = ''partially_approved'' then Inr PartiallyApproved
      else if s = ''denied'' then Inr Denied
      else if s = ''cancelled'' then Inr Cancelled
      else if s = ''expired'' then Inr Expired
      else if s = ''applied'' then Inr Applied
      else Inl (UnknownStatus s))"

interpretation status_enum: str_enum status_as_str status_from_str UnknownStatus
proof
  show "status_from_str (status_as_str v) = Inr v" for v
    by (cases v) (simp_all add: status_from_str_def)
qed (auto simp: status_from_str_def split: if_splits)

lemmas wire_enum_simps =
  source_enum.from_as_str tier_enum.from_as_str effect_enum.from_as_str status_enum.from_as_str

declare wire_enum_simps [simp]

text \<open>
  C18 The four wire enums of the budget tables: every value a column holds reads back as the variant
  that was written, and no two variants share a string.
\<close>

theorem budget_enums_round_trip:
  "source_from_str (source_as_str s) = Inr s \<and> (source_as_str s = source_as_str s' \<longleftrightarrow> s = s') \<and>
   tier_from_str (tier_label t) = Inr t \<and> (tier_label t = tier_label t' \<longleftrightarrow> t = t') \<and>
   status_from_str (status_as_str u) = Inr u \<and> (status_as_str u = status_as_str u' \<longleftrightarrow> u = u') \<and>
   effect_from_db (effect_to_db e) = Inr e \<and> (effect_to_db e = effect_to_db e' \<longleftrightarrow> e = e')"
  by (simp add: source_enum.as_str_eq_iff tier_enum.as_str_eq_iff status_enum.as_str_eq_iff
      effect_enum.as_str_eq_iff)

lemma tier_all_complete: "t \<in> set tier_all"
  by (cases t) (simp_all add: tier_all_def)

lemma tier_micros_mono: "tier_rank a < tier_rank b \<longleftrightarrow> tier_micros a < tier_micros b"
  by (cases a; cases b) simp_all

lemma tier_next_least: "tier_next t = Some u \<longleftrightarrow> t < u \<and> {t <..< u} = {}"
proof -
  have "{t <..< u} = set (filter (\<lambda>v. t < v \<and> v < u) tier_all)"
    using tier_all_complete by auto
  then show ?thesis
    by (cases t; cases u) (simp_all add: tier_all_def less_budget_tier_def)
qed

text \<open>
  C13 The tier ladder: climbing from \<open>B15\<close> visits every rung once in declaration order, each step goes to
  the least rung above and raises the amount, the amounts are valid \<open>AmountMicros\<close> (so \<open>expect\<close>
  never panics) and \<open>from_amount_micros\<close> inverts them.
\<close>

theorem tier_ladder:
  "sorted_wrt (<) tier_all \<and> set tier_all = UNIV \<and>
   (tier_next t = Some u \<longleftrightarrow> t < u \<and> {t <..< u} = {}) \<and>
   (t < u \<longleftrightarrow> tier_micros t < tier_micros u) \<and>
   tier_amount t = Some (AmountMicros (tier_micros t)) \<and>
   (tier_from_amount_micros a = Some t \<longleftrightarrow> a = tier_micros t)"
proof (intro conjI)
  show "sorted_wrt (<) tier_all"
    by (simp add: tier_all_def less_budget_tier_def)
  show "set tier_all = UNIV" using tier_all_complete by blast
  show "tier_next t = Some u \<longleftrightarrow> t < u \<and> {t <..< u} = {}" by (rule tier_next_least)
  show "t < u \<longleftrightarrow> tier_micros t < tier_micros u"
    by (simp add: less_budget_tier_def tier_micros_mono)
  show "tier_amount t = Some (AmountMicros (tier_micros t))"
    by (cases t) (simp_all add: tier_amount_def amount_new_def)
  show "tier_from_amount_micros a = Some t \<longleftrightarrow> a = tier_micros t" by (rule tier_from_amount_iff)
qed

end
