(* ===== verification/Prog.thy ===== *)
theory Prog
  imports Budget_Domain
begin

text \<open>
  How asynchronous, fallible, concurrent code over a shared store is modelled. A call of a service
  is a program: a tree of atomic actions on the shared state, each one SQL statement, one whole
  transaction or one step of the process itself, with waiting for an advisory lock and releasing it
  as constructors of their own. What the environment decides at an action (whether the statement's
  request or its reply is lost, the clock, the fresh identifier) is an argument of the action, the
  weather. \<open>run\<close> executes one program alone; the relation \<open>pool_step\<close> interleaves the actions of
  any number of programs, crashes some of them and breaks lock connections. The locale
  \<open>guarantee\<close> carries a property of every single action over to both.
\<close>

subsection \<open>Programs\<close>

datatype delivery = Delivered | Refused | Lost

record outcome =
  o_net :: delivery
  o_now :: int
  o_cuid :: string

type_synonym weather = "nat \<Rightarrow> outcome"

datatype ('s, 'a) prog =
    Ret 'a
  | Act "weather \<Rightarrow> 's \<Rightarrow> 's" "weather \<Rightarrow> 's \<Rightarrow> ('s, 'a) prog"
  | Lock string "('s, 'a) prog"
  | Unlock string "('s, 'a) prog"

type_synonym ('s, 'a) op = "('s, 'a bresult) prog"

lemma prog_tree_induct [case_names Ret Act Lock Unlock, induct type]:
  assumes "\<And>a. P (Ret a)"
    and "\<And>u c. (\<And>w s. P (c w s)) \<Longrightarrow> P (Act u c)"
    and "\<And>l p. P p \<Longrightarrow> P (Lock l p)"
    and "\<And>l p. P p \<Longrightarrow> P (Unlock l p)"
  shows "P p"
proof (induction p rule: prog.induct)
  case (Act u c)
  have "P (c w s)" for w s by (rule Act.IH [of "c w"]) simp_all
  then show ?case by (rule assms(2))
qed (use assms in auto)

primrec pbind :: "('s, 'a) prog \<Rightarrow> ('a \<Rightarrow> ('s, 'b) prog) \<Rightarrow> ('s, 'b) prog" where
  "pbind (Ret a) k = k a"
| "pbind (Act u c) k = Act u (\<lambda>w s. pbind (c w s) k)"
| "pbind (Lock l p) k = Lock l (pbind p k)"
| "pbind (Unlock l p) k = Unlock l (pbind p k)"

text \<open>The \<open>?\<close> operator after an \<open>.await\<close>: an error ends the call.\<close>

definition obind ::
  "('s, ('e, 'a) result) prog \<Rightarrow> ('a \<Rightarrow> ('s, ('e, 'b) result) prog) \<Rightarrow> ('s, ('e, 'b) result) prog" where
  "obind m k = pbind m (\<lambda>r. case r of Inl e \<Rightarrow> Ret (Inl e) | Inr a \<Rightarrow> k a)"

abbreviation ok :: "'a \<Rightarrow> ('s, 'a) op" where
  "ok a \<equiv> Ret (Inr a)"

abbreviation fail :: "budget_error \<Rightarrow> ('s, 'a) op" where
  "fail e \<equiv> Ret (Inl e)"

text \<open>An action that yields a value, and one that only looks at the state or the weather.\<close>

definition atomic :: "(weather \<Rightarrow> 's \<Rightarrow> 'a \<times> 's) \<Rightarrow> ('s, 'a) prog" where
  "atomic f = Act (\<lambda>w s. snd (f w s)) (\<lambda>w s. Ret (fst (f w s)))"

definition observe :: "(weather \<Rightarrow> 's \<Rightarrow> 'a) \<Rightarrow> ('s, 'a) prog" where
  "observe f = atomic (\<lambda>w s. (f w s, s))"

subsection \<open>Running a program alone\<close>

primrec run :: "('s, 'a) prog \<Rightarrow> (nat \<Rightarrow> weather) \<Rightarrow> nat \<Rightarrow> 's \<Rightarrow> 'a \<times> nat \<times> 's" where
  "run (Ret a) env n s = (a, n, s)"
| "run (Act u c) env n s = run (c (env n) s) env (Suc n) (u (env n) s)"
| "run (Lock l p) env n s = run p env n s"
| "run (Unlock l p) env n s = run p env n s"

definition result_of :: "('s, 'a) prog \<Rightarrow> (nat \<Rightarrow> weather) \<Rightarrow> 's \<Rightarrow> 'a" where
  "result_of p env s = fst (run p env 0 s)"

definition state_of :: "('s, 'a) prog \<Rightarrow> (nat \<Rightarrow> weather) \<Rightarrow> 's \<Rightarrow> 's" where
  "state_of p env s = snd (snd (run p env 0 s))"

text \<open>
  A statement: \<open>Refused\<close> means it never reached the database, \<open>Lost\<close> that it was executed (and, outside
  a transaction, committed) and the reply did not arrive. The statement itself yields a database error or a
  value and a new state. The transaction's time stamp \<open>now()\<close> is an argument.
\<close>

definition statement ::
  "(string \<Rightarrow> 'e) \<Rightarrow> (int \<Rightarrow> 's \<Rightarrow> (string, 'a \<times> 's) result) \<Rightarrow> ('s, ('e, 'a) result) prog" where
  "statement fails f = atomic (\<lambda>w s.
     case o_net (w 0) of
       Refused \<Rightarrow> (Inl (fails ''connection refused''), s)
     | Lost \<Rightarrow> (Inl (fails ''connection lost''),
                case f (o_now (w 0)) s of Inl _ \<Rightarrow> s | Inr (a, s') \<Rightarrow> s')
     | Delivered \<Rightarrow> (case f (o_now (w 0)) s of
                      Inl e \<Rightarrow> (Inl (fails e), s)
                    | Inr (a, s') \<Rightarrow> (Inr a, s')))"

definition reading :: "(string \<Rightarrow> 'e) \<Rightarrow> ('s \<Rightarrow> (string, 'a) result) \<Rightarrow> ('s, ('e, 'a) result) prog" where
  "reading fails q = statement fails (\<lambda>_ s. res_bind (q s) (\<lambda>a. Inr (a, s)))"

text \<open>The budget crate maps every database error to \<open>StorageFailed\<close>.\<close>

abbreviation stmt :: "(int \<Rightarrow> 's \<Rightarrow> (string, 'a \<times> 's) result) \<Rightarrow> ('s, 'a) op" where
  "stmt \<equiv> statement StorageFailed"

abbreviation query :: "('s \<Rightarrow> (string, 'a) result) \<Rightarrow> ('s, 'a) op" where
  "query \<equiv> reading StorageFailed"

lemmas stmt_def = statement_def [of StorageFailed]
lemmas query_def = reading_def [of StorageFailed]

definition cuid2 :: "('s, ('e, string) result) prog" where
  "cuid2 = observe (\<lambda>w s. Inr (o_cuid (w 0)))"

definition utc_now :: "('s, ('e, int) result) prog" where
  "utc_now = observe (\<lambda>w s. Inr (o_now (w 0)))"

text \<open>
  \<open>pool.begin()\<close>, the body, \<open>tx.commit()\<close>. An error of the body drops the transaction, which rolls
  it back; a commit can be lost before or after it took effect. The transaction is one action: its statements see one state and its
  writes appear together; the body is run on its own weather. Under READ COMMITTED this is an order the database
  can have produced only for bodies that lock what they decide on before they decide (\<open>FOR UPDATE\<close>, an advisory
  lock, an upsert that waits for the other) or that only write; the bodies given to \<open>transacted\<close> are of these kinds. A transaction that
  decides on rows it has read without a lock is written with those reads as actions of their own before it, so that others may
  come in between, and with the constraints the database checks when the writes are made.
\<close>

definition transacted ::
  "(string \<Rightarrow> 'e) \<Rightarrow> (int \<Rightarrow> ('s, ('e, 'a) result) prog) \<Rightarrow> ('s, ('e, 'a) result) prog" where
  "transacted fails body = atomic (\<lambda>w s.
     if o_net (w 0) \<noteq> Delivered then (Inl (fails ''begin''), s)
     else case run (body (o_now (w 0))) (\<lambda>n i. w (Suc (n + i))) 0 s of
       (Inl e, n, s') \<Rightarrow> (Inl e, s)
     | (Inr a, n, s') \<Rightarrow>
         (case o_net (w (Suc n)) of
            Delivered \<Rightarrow> (Inr a, s')
          | Refused \<Rightarrow> (Inl (fails ''commit''), s)
          | Lost \<Rightarrow> (Inl (fails ''commit''), s')))"

abbreviation transaction :: "(int \<Rightarrow> ('s, 'a) op) \<Rightarrow> ('s, 'a) op" where
  "transaction \<equiv> transacted StorageFailed"

lemmas transaction_def = transacted_def [of StorageFailed]

subsection \<open>Executing programs\<close>

named_theorems run_simps "one-step equations of run"

lemma run_pbind [run_simps]:
  "run (pbind p k) env n s = (case run p env n s of (a, n', s') \<Rightarrow> run (k a) env n' s')"
  by (induction p arbitrary: n s) auto

lemma run_obind [run_simps]:
  "run (obind m k) env n s =
     (case run m env n s of (Inl e, n', s') \<Rightarrow> (Inl e, n', s') | (Inr a, n', s') \<Rightarrow> run (k a) env n' s')"
  by (auto simp: obind_def run_pbind split: prod.split sum.split)

lemma run_atomic [run_simps]:
  "run (atomic f) env n s = (fst (f (env n) s), Suc n, snd (f (env n) s))"
  by (simp add: atomic_def)

lemma run_observe [run_simps]: "run (observe f) env n s = (f (env n) s, Suc n, s)"
  by (simp add: observe_def run_atomic)

lemma run_shift: "run p env (m + n) s = (case run p (\<lambda>i. env (m + i)) n s of (a, n', s') \<Rightarrow> (a, m + n', s'))"
proof (induction p arbitrary: n s)
  case (Act u c)
  have "run (Act u c) env (m + n) s = run (c (env (m + n)) s) env (m + Suc n) (u (env (m + n)) s)"
    by simp
  also have "\<dots> = (case run (c (env (m + n)) s) (\<lambda>i. env (m + i)) (Suc n) (u (env (m + n)) s) of
                    (a, n', s') \<Rightarrow> (a, m + n', s'))"
    by (rule Act.IH)
  finally show ?case by simp
qed auto

text \<open>All messages delivered.\<close>

definition calm :: "(nat \<Rightarrow> weather) \<Rightarrow> bool" where
  "calm env \<longleftrightarrow> (\<forall>n i. o_net (env n i) = Delivered)"

lemma calmD [simp]: "calm env \<Longrightarrow> o_net (env n i) = Delivered"
  by (simp add: calm_def)

lemma run_stmt_calm:
  "calm env \<Longrightarrow> run (statement fails f) env n s =
     (case f (o_now (env n 0)) s of
        Inl e \<Rightarrow> (Inl (fails e), Suc n, s) | Inr (a, s') \<Rightarrow> (Inr a, Suc n, s'))"
  by (simp add: statement_def run_atomic split: sum.split prod.split)

lemma run_query_calm:
  "calm env \<Longrightarrow> run (reading fails q) env n s = (map_err fails (q s), Suc n, s)"
  by (cases "q s") (simp_all add: reading_def run_stmt_calm)

text \<open>Outcomes of a statement, a query and a transaction in any weather.\<close>

lemma run_stmt_cases:
  assumes "run (statement fails f) env n s = (r, n', s')"
  obtains (failed) e where "r = Inl (fails e)" "s' = s"
    | (executed) a where "f (o_now (env n 0)) s = Inr (a, s')" "r = Inr a"
    | (lost) a e where "f (o_now (env n 0)) s = Inr (a, s')" "r = Inl (fails e)"
  using assms
  by (auto simp: statement_def run_atomic split: delivery.splits sum.splits prod.splits)

lemma run_query_state: "run (reading fails q) env n s = (r, n', s') \<Longrightarrow> s' = s"
  by (erule run_stmt_cases [of fails "\<lambda>_ s. res_bind (q s) (\<lambda>a. Inr (a, s))", folded reading_def])
    (auto simp: res_bind_eq_Inr_conv)

lemma run_query_Inr: "run (reading fails q) env n s = (Inr a, n', s') \<Longrightarrow> q s = Inr a \<and> s' = s"
  by (erule run_stmt_cases [of fails "\<lambda>_ s. res_bind (q s) (\<lambda>a. Inr (a, s))", folded reading_def])
    (auto simp: res_bind_eq_Inr_conv)

lemma run_transaction_cases:
  assumes "run (transacted fails body) env n s = (r, n', s')"
  obtains (failed) e where "r = Inl e" "s' = s"
    | (committed) now env' n1 a where "run (body now) env' 0 s = (Inr a, n1, s')" "r = Inr a"
    | (lost) now env' n1 a e where "run (body now) env' 0 s = (Inr a, n1, s')" "r = Inl e"
  using assms
  by (auto simp: transacted_def run_atomic split: if_splits delivery.splits sum.splits prod.splits)

lemma run_obind_Inr:
  assumes "run (obind m k) env n s = (Inr b, n', s')"
  obtains a n1 s1 where "run m env n s = (Inr a, n1, s1)" "run (k a) env n1 s1 = (Inr b, n', s')"
  using assms by (auto simp: run_obind split: sum.splits prod.splits)

lemma run_obind_cases:
  assumes "run (obind m k) env n s = (r, n', s')"
  obtains (stopped) e where "run m env n s = (Inl e, n', s')" "r = Inl e"
    | (went_on) a n1 s1 where "run m env n s = (Inr a, n1, s1)" "run (k a) env n1 s1 = (r, n', s')"
  using assms by (auto simp: run_obind split: sum.splits prod.splits)

lemma run_stmt_Inr:
  "run (statement fails f) env n s = (Inr a, n', s') \<Longrightarrow> f (o_now (env n 0)) s = Inr (a, s')"
  by (auto elim: run_stmt_cases)

subsection \<open>Interleaving programs\<close>

text \<open>
  A pool of calls on one shared state: each live thread's next action may be the next to happen. A
  lock is granted only when free. A thread can crash, which closes its connections and so releases
  its locks; and the connection that holds a lock can break while its thread goes on.
\<close>

record ('s, 'a) config =
  threads :: "('s, 'a) prog option list"
  held :: "string \<Rightarrow> nat option"
  store :: 's

datatype event = Acts nat weather | Locks nat string | Unlocks nat string | Crashes nat | Breaks string

definition release :: "nat \<Rightarrow> (string \<Rightarrow> nat option) \<Rightarrow> string \<Rightarrow> nat option" where
  "release i h = (\<lambda>l. if h l = Some i then None else h l)"

inductive pool_step :: "('s, 'a) config \<Rightarrow> event \<Rightarrow> ('s, 'a) config \<Rightarrow> bool" where
  acts: "i < length (threads c) \<Longrightarrow> threads c ! i = Some (Act u k) \<Longrightarrow>
    pool_step c (Acts i w)
      (c\<lparr>threads := (threads c)[i := Some (k w (store c))], store := u w (store c)\<rparr>)"
| locks: "i < length (threads c) \<Longrightarrow> threads c ! i = Some (Lock l p) \<Longrightarrow> held c l = None \<Longrightarrow>
    pool_step c (Locks i l)
      (c\<lparr>threads := (threads c)[i := Some p], held := (held c)(l := Some i)\<rparr>)"
| unlocks: "i < length (threads c) \<Longrightarrow> threads c ! i = Some (Unlock l p) \<Longrightarrow>
    pool_step c (Unlocks i l)
      (c\<lparr>threads := (threads c)[i := Some p],
         held := (if held c l = Some i then (held c)(l := None) else held c)\<rparr>)"
| crashes: "i < length (threads c) \<Longrightarrow>
    pool_step c (Crashes i) (c\<lparr>threads := (threads c)[i := None], held := release i (held c)\<rparr>)"
| breaks: "pool_step c (Breaks l) (c\<lparr>held := (held c)(l := None)\<rparr>)"

inductive_cases pool_stepE: "pool_step c ev c'"

inductive pool_reach :: "(event \<Rightarrow> bool) \<Rightarrow> ('s, 'a) config \<Rightarrow> ('s, 'a) config \<Rightarrow> bool"
  for allowed where
  start: "pool_reach allowed c c"
| continue: "pool_reach allowed c c' \<Longrightarrow> pool_step c' ev c'' \<Longrightarrow> allowed ev \<Longrightarrow>
    pool_reach allowed c c''"

definition initial :: "('s, 'a) prog list \<Rightarrow> 's \<Rightarrow> ('s, 'a) config" where
  "initial ps s = \<lparr>threads = map Some ps, held = (\<lambda>_. None), store = s\<rparr>"

text \<open>No thread crashes, no lock connection breaks, and the weather is of a given kind.\<close>

fun orderly :: "(weather \<Rightarrow> bool) \<Rightarrow> event \<Rightarrow> bool" where
  "orderly W (Acts i w) = W w"
| "orderly W (Locks i l) = True"
| "orderly W (Unlocks i l) = True"
| "orderly W (Crashes i) = False"
| "orderly W (Breaks l) = False"

definition delivered :: "weather \<Rightarrow> bool" where
  "delivered w \<longleftrightarrow> (\<forall>i. o_net (w i) = Delivered)"

subsection \<open>Guarantees of single actions\<close>

primrec guar :: "('s \<Rightarrow> 's \<Rightarrow> bool) \<Rightarrow> ('s, 'a) prog \<Rightarrow> bool" where
  "guar R (Ret a) \<longleftrightarrow> True"
| "guar R (Act u k) \<longleftrightarrow> (\<forall>w s. R s (u w s) \<and> guar R (k w s))"
| "guar R (Lock l p) \<longleftrightarrow> guar R p"
| "guar R (Unlock l p) \<longleftrightarrow> guar R p"

lemma guar_pbind: "guar R p \<Longrightarrow> (\<And>a. guar R (k a)) \<Longrightarrow> guar R (pbind p k)"
  by (induction p) auto

lemma guar_conj: "guar R p \<Longrightarrow> guar R' p \<Longrightarrow> guar (\<lambda>s s'. R s s' \<and> R' s s') p"
  by (induction p) auto

lemma guar_mono: "guar R p \<Longrightarrow> (\<And>s s'. R s s' \<Longrightarrow> R' s s') \<Longrightarrow> guar R' p"
  by (induction p) auto

text \<open>
  \<open>R s s'\<close> says how a single action may change the state; an invariant is the instance
  \<open>I s \<longrightarrow> I s'\<close>. When every action of every thread satisfies \<open>R\<close>, so does a call run alone and every
  interleaving of any number of calls, crashes included.
\<close>

locale guarantee =
  fixes R :: "'s \<Rightarrow> 's \<Rightarrow> bool"
  assumes refl: "R s s"
    and trans: "R s s' \<Longrightarrow> R s' s'' \<Longrightarrow> R s s''"
begin

lemma guar_obind: "guar R m \<Longrightarrow> (\<And>a. guar R (k a)) \<Longrightarrow> guar R (obind m k)"
  unfolding obind_def by (rule guar_pbind) (auto split: sum.split)

lemma guar_observe: "guar R (observe f)"
  by (simp add: observe_def atomic_def refl)

lemma guar_cuid2: "guar R cuid2" and guar_utc_now: "guar R utc_now"
  unfolding cuid2_def utc_now_def by (rule guar_observe)+

lemma guar_stmt: "(\<And>now s a s'. f now s = Inr (a, s') \<Longrightarrow> R s s') \<Longrightarrow> guar R (statement fails f)"
  by (auto simp: statement_def atomic_def refl split: delivery.split sum.split prod.split)

lemma guar_query: "guar R (reading fails q)"
  unfolding reading_def by (rule guar_stmt) (auto simp: res_bind_eq_Inr_conv refl)

lemma run_guar: "guar R p \<Longrightarrow> run p env n s = (a, n', s') \<Longrightarrow> R s s'"
proof (induction p arbitrary: n s)
  case (Act u k)
  then have "R s (u (env n) s)" "R (u (env n) s) s'" by (auto intro!: Act.IH)
  then show ?case by (rule trans)
qed (auto intro: refl)

lemma state_of_guar: "guar R p \<Longrightarrow> R s (state_of p env s)"
  by (cases "run p env 0 s") (auto simp: state_of_def dest: run_guar)

text \<open>A transaction only has to satisfy \<open>R\<close> from its start to its successful end.\<close>

lemma guar_transaction:
  assumes "\<And>now env n s a n' s'. run (body now) env n s = (Inr a, n', s') \<Longrightarrow> R s s'"
  shows "guar R (transacted fails body)"
  by (auto simp: transacted_def atomic_def refl split: sum.split prod.split delivery.split
      intro: assms)

lemma pool_step_guar:
  assumes "pool_step c ev c'" and "\<And>p. Some p \<in> set (threads c) \<Longrightarrow> guar R p"
  shows "R (store c) (store c')" and "Some p \<in> set (threads c') \<Longrightarrow> guar R p"
proof -
  have at: "guar R q" if "i < length (threads c)" "threads c ! i = Some q" for i q
    using assms(2) that by (metis nth_mem)
  show "R (store c) (store c')"
    using assms(1) by (cases rule: pool_step.cases) (use at in \<open>force simp: refl\<close>)+
  have "\<forall>q. Some q \<in> set (threads c') \<longrightarrow> guar R q"
    using assms(1)
    by (cases rule: pool_step.cases)
      (use at assms(2) in \<open>force dest!: set_update_subset_insert [THEN subsetD]\<close>)+
  then show "Some p \<in> set (threads c') \<Longrightarrow> guar R p" by blast
qed

lemma pool_guar:
  assumes "pool_reach allowed c c'" and "\<And>p. Some p \<in> set (threads c) \<Longrightarrow> guar R p"
  shows "R (store c) (store c') \<and> (\<forall>p. Some p \<in> set (threads c') \<longrightarrow> guar R p)"
  using assms
proof (induction rule: pool_reach.induct)
  case (continue c c' ev c'')
  then show ?case using pool_step_guar [OF continue.hyps(2)] trans by blast
qed (auto intro: refl)

lemma initial_guar:
  assumes "pool_reach allowed (initial ps s) c" and "\<And>p. p \<in> set ps \<Longrightarrow> guar R p"
  shows "R s (store c)"
  using pool_guar [OF assms(1)] assms(2) by (auto simp: initial_def)

end

subsection \<open>Critical sections\<close>

text \<open>
  \<open>csafe W rely I l p m s\<close>: the program \<open>p\<close>, inside the critical section of the lock \<open>l\<close> when \<open>m\<close>, keeps to
  the discipline that makes \<open>I\<close> hold whenever \<open>l\<close> is free. Outside, every action is one the others may
  rely on (\<open>rely\<close>); inside, actions are arbitrary as long as \<open>I\<close> is restored when the lock is
  released, whatever the others did in between as far as \<open>rely\<close> allows.
\<close>

primrec csafe ::
  "(weather \<Rightarrow> bool) \<Rightarrow> ('s \<Rightarrow> 's \<Rightarrow> bool) \<Rightarrow> ('s \<Rightarrow> bool) \<Rightarrow> string \<Rightarrow> ('s, 'a) prog \<Rightarrow>
   bool \<Rightarrow> 's \<Rightarrow> bool" where
  "csafe W rely I l (Ret a) m s \<longleftrightarrow> \<not> m"
| "csafe W rely I l (Act u k) m s \<longleftrightarrow>
     (if m then \<forall>s' w. W w \<longrightarrow> rely s s' \<longrightarrow> csafe W rely I l (k w s') True (u w s')
      else \<forall>s' w. W w \<longrightarrow> rely s' (u w s') \<and> csafe W rely I l (k w s') False s')"
| "csafe W rely I l (Lock l' p) m s \<longleftrightarrow>
     (if l' = l then \<not> m \<and> (\<forall>s'. I s' \<longrightarrow> csafe W rely I l p True s') else csafe W rely I l p m s)"
| "csafe W rely I l (Unlock l' p) m s \<longleftrightarrow>
     (if l' = l then m \<and> I s \<and> csafe W rely I l p False s else csafe W rely I l p m s)"

lemma csafe_outside: "csafe W rely I l p False s \<Longrightarrow> csafe W rely I l p False s'"
  by (induction p arbitrary: s s') (auto split: if_splits)

primrec lock_free :: "('s, 'a) prog \<Rightarrow> bool" where
  "lock_free (Ret a) \<longleftrightarrow> True"
| "lock_free (Act u k) \<longleftrightarrow> (\<forall>w s. lock_free (k w s))"
| "lock_free (Lock l p) \<longleftrightarrow> False"
| "lock_free (Unlock l p) \<longleftrightarrow> False"

text \<open>A program that takes other locks only.\<close>

primrec avoids :: "string \<Rightarrow> ('s, 'a) prog \<Rightarrow> bool" where
  "avoids l (Ret a) \<longleftrightarrow> True"
| "avoids l (Act u k) \<longleftrightarrow> (\<forall>w s. avoids l (k w s))"
| "avoids l (Lock l' p) \<longleftrightarrow> l' \<noteq> l \<and> avoids l p"
| "avoids l (Unlock l' p) \<longleftrightarrow> l' \<noteq> l \<and> avoids l p"

lemma avoids_csafe: "guar rely p \<Longrightarrow> avoids l p \<Longrightarrow> csafe W rely I l p False s"
  by (induction p arbitrary: s) auto

lemma lock_free_avoids: "lock_free p \<Longrightarrow> avoids l p"
  by (induction p) auto

lemma avoids_pbind: "avoids l p \<Longrightarrow> (\<And>a. avoids l (k a)) \<Longrightarrow> avoids l (pbind p k)"
  by (induction p) auto

lemma avoids_obind: "avoids l p \<Longrightarrow> (\<And>a. avoids l (k a)) \<Longrightarrow> avoids l (obind p k)"
  unfolding obind_def by (rule avoids_pbind) (auto split: sum.split)

lemma csafe_forget: "csafe W rely I l p m s \<Longrightarrow> csafe W rely I l (pbind p (\<lambda>a. Ret (f a))) m s"
  by (induction p arbitrary: m s) (auto split: if_splits)

definition lock_inv ::
  "(weather \<Rightarrow> bool) \<Rightarrow> ('s \<Rightarrow> 's \<Rightarrow> bool) \<Rightarrow> ('s \<Rightarrow> bool) \<Rightarrow> string \<Rightarrow> ('s, 'a) config \<Rightarrow> bool" where
  "lock_inv W rely I l c \<longleftrightarrow>
     (\<forall>j p. j < length (threads c) \<longrightarrow> threads c ! j = Some p \<longrightarrow>
        csafe W rely I l p (held c l = Some j) (store c)) \<and>
     (held c l = None \<longrightarrow> I (store c)) \<and>
     (\<forall>j. held c l = Some j \<longrightarrow> j < length (threads c) \<and> threads c ! j \<noteq> None)"

text \<open>An invariant that the others keep, and a relation they may be relied on to satisfy.\<close>

locale rely_section = guarantee rely for rely :: "'s \<Rightarrow> 's \<Rightarrow> bool" +
  fixes I :: "'s \<Rightarrow> bool"
  assumes stable: "I s \<Longrightarrow> rely s s' \<Longrightarrow> I s'"
begin

lemma csafe_inside: "csafe W rely I l p True s \<Longrightarrow> rely s s' \<Longrightarrow> csafe W rely I l p True s'"
proof (induction p arbitrary: s s')
  case (Act u k)
  have "rely s t" if "rely s' t" for t using that Act.prems(2) trans by blast
  with Act.prems(1) show ?case by simp
next
  case (Lock l' p)
  then show ?case by (auto split: if_splits)
next
  case (Unlock l' p)
  then show ?case by (auto split: if_splits intro: stable csafe_outside)
qed simp

lemma csafe_rely: "csafe W rely I l p m s \<Longrightarrow> rely s s' \<Longrightarrow> csafe W rely I l p m s'"
  by (cases m) (auto intro: csafe_inside csafe_outside)

lemma lock_inv_acts:
  assumes inv: "lock_inv W rely I l c" and "W w" and i: "i < length (threads c)" "threads c ! i = Some (Act u k)"
  shows "lock_inv W rely I l
    (c\<lparr>threads := (threads c)[i := Some (k w (store c))], store := u w (store c)\<rparr>)"
proof (cases "held c l = Some i")
  case True
  with inv i \<open>W w\<close> have mine: "csafe W rely I l (k w (store c)) True (u w (store c))"
    by (fastforce simp: lock_inv_def intro: refl)
  have "csafe W rely I l p False s" if "j < length (threads c)" "threads c ! j = Some p" "j \<noteq> i" for j p s
    using inv that True csafe_outside by (fastforce simp: lock_inv_def)
  with mine True inv show ?thesis by (auto simp: lock_inv_def nth_list_update)
next
  case False
  with inv i have "csafe W rely I l (Act u k) False (store c)" by (fastforce simp: lock_inv_def)
  with \<open>W w\<close> have r: "rely (store c) (u w (store c))" and next_ok: "\<And>s. csafe W rely I l (k w (store c)) False s"
    by (auto intro: csafe_outside)
  have "csafe W rely I l p (held c l = Some j) (u w (store c))"
    if "j < length (threads c)" "threads c ! j = Some p" for j p
    using inv that by (intro csafe_rely [OF _ r]) (simp add: lock_inv_def)
  with inv i False next_ok stable [OF _ r] show ?thesis
    by (auto simp: lock_inv_def nth_list_update)
qed

lemma lock_inv_step:
  assumes "pool_step c ev c'" and "orderly W ev" and inv: "lock_inv W rely I l c"
  shows "lock_inv W rely I l c'"
  using assms(1)
proof (cases rule: pool_step.cases)
  case (acts i u k w)
  then show ?thesis using lock_inv_acts [OF inv] assms(2) by simp
next
  case (locks i l' p)
  then have "csafe W rely I l (Lock l' p) (held c l = Some i) (store c)"
    using inv by (fastforce simp: lock_inv_def)
  with locks inv show ?thesis
    by (cases "l' = l") (auto simp: lock_inv_def nth_list_update split: if_splits)
next
  case (unlocks i l' p)
  then have "csafe W rely I l (Unlock l' p) (held c l = Some i) (store c)"
    using inv by (fastforce simp: lock_inv_def)
  with unlocks inv show ?thesis
    by (cases "l' = l") (auto simp: lock_inv_def nth_list_update split: if_splits)
qed (use assms(2) in auto)

lemma lock_inv_reach:
  "pool_reach (orderly W) c c' \<Longrightarrow> lock_inv W rely I l c \<Longrightarrow> lock_inv W rely I l c'"
  by (induction rule: pool_reach.induct) (auto intro: lock_inv_step)

text \<open>Whenever nobody holds the lock, in particular when all calls have returned, \<open>I\<close> holds.\<close>

lemma section_invariant:
  assumes "pool_reach (orderly W) (initial ps s) c" and "I s"
    and "\<And>p. p \<in> set ps \<Longrightarrow> csafe W rely I l p False s"
    and "held c l = None"
  shows "I (store c)"
  using lock_inv_reach [OF assms(1), of l] assms(2-4)
  by (auto simp: lock_inv_def initial_def)

lemma section_finished:
  assumes "pool_reach (orderly W) (initial ps s) c" and "I s"
    and "\<And>p. p \<in> set ps \<Longrightarrow> csafe W rely I l p False s"
    and "\<forall>p\<in>set (threads c). \<exists>a. p = Some (Ret a)"
  shows "I (store c)"
proof -
  have inv: "lock_inv W rely I l c"
    using lock_inv_reach [OF assms(1), of l] assms(2,3) by (auto simp: lock_inv_def initial_def)
  have "held c l = None"
  proof (rule ccontr)
    assume "held c l \<noteq> None"
    then obtain j where j: "held c l = Some j" by blast
    with inv have "j < length (threads c)" by (simp add: lock_inv_def)
    with assms(4) obtain a where "threads c ! j = Some (Ret a)" by (metis nth_mem)
    with inv j \<open>j < length (threads c)\<close> show False by (force simp: lock_inv_def)
  qed
  with inv show ?thesis by (simp add: lock_inv_def)
qed

end

subsection \<open>Scheduling a part of a call without interruption\<close>

lemma pool_reach_trans:
  "pool_reach allowed c2 c3 \<Longrightarrow> pool_reach allowed c1 c2 \<Longrightarrow> pool_reach allowed c1 c3"
  by (induction rule: pool_reach.induct) (auto intro: pool_reach.continue)

lemma pool_prefix_any:
  assumes "lock_free m" "run m env n s = (a, n', s')" "i < length ts" "ts ! i = Some (pbind m k)"
    "\<And>j. allowed (Acts i (env j))"
  shows "pool_reach allowed \<lparr>threads = ts, held = h, store = s\<rparr>
           \<lparr>threads = ts[i := Some (k a)], held = h, store = s'\<rparr>"
  using assms
proof (induction m arbitrary: n s ts)
  case (Ret b)
  then have "ts[i := Some (k a)] = ts" by (auto intro: list_update_same_conv [THEN iffD2])
  with Ret show ?case by (simp add: pool_reach.start)
next
  case (Act u c)
  let ?ts = "ts[i := Some (pbind (c (env n) s) k)]"
  let ?c1 = "\<lparr>threads = ?ts, held = h, store = u (env n) s\<rparr>"
  have "pool_step \<lparr>threads = ts, held = h, store = s\<rparr> (Acts i (env n)) ?c1"
    using pool_step.acts [of i "\<lparr>threads = ts, held = h, store = s\<rparr>" u "\<lambda>w s. pbind (c w s) k" "env n"]
      Act.prems by simp
  then have "pool_reach allowed \<lparr>threads = ts, held = h, store = s\<rparr> ?c1"
    using Act.prems(5) by (auto intro: pool_reach.intros)
  moreover have "pool_reach allowed ?c1 \<lparr>threads = ?ts[i := Some (k a)], held = h, store = s'\<rparr>"
    using Act.prems by (intro Act.IH [of "env n" s "Suc n"]) auto
  ultimately show ?case by (auto intro: pool_reach_trans)
qed simp_all

lemma pool_prefix:
  assumes "lock_free m" "run m env n s = (a, n', s')" "i < length ts" "ts ! i = Some (pbind m k)" "\<And>j. W (env j)"
  shows "pool_reach (orderly W) \<lparr>threads = ts, held = h, store = s\<rparr>
           \<lparr>threads = ts[i := Some (k a)], held = h, store = s'\<rparr>"
  using assms by (intro pool_prefix_any) simp_all

lemma pool_alone:
  assumes "lock_free p" "run p env 0 s = (a, n', s')" "\<And>j. W (env j)"
  shows "pool_reach (orderly W) (initial [p] s) \<lparr>threads = [Some (Ret a)], held = (\<lambda>_. None), store = s'\<rparr>"
proof -
  have "pbind p Ret = p" by (induction p) auto
  with pool_prefix [OF assms(1,2), of 0 "[Some p]" Ret W] assms(3) show ?thesis by (simp add: initial_def)
qed

text \<open>The same, read backwards: the rest of the schedule starts where the part has returned.\<close>

lemma hop_any:
  assumes "run m env n s = (a, n', s')" "lock_free m" "\<And>j. allowed (Acts i (env j))" "i < length ts"
    and "pool_reach allowed \<lparr>threads = ts[i := Some (k a)], held = h, store = s'\<rparr> c"
  shows "pool_reach allowed \<lparr>threads = ts[i := Some (pbind m k)], held = h, store = s\<rparr> c"
  using pool_reach_trans [OF assms(5) pool_prefix_any [OF assms(2,1), of i "ts[i := Some (pbind m k)]" k allowed h, simplified]]
    assms(3,4) by simp

lemma hop_pbind:
  assumes "run m env n s = (a, n', s')" "lock_free m" "\<And>j. W (env j)" "i < length ts"
    and "pool_reach (orderly W) \<lparr>threads = ts[i := Some (k a)], held = h, store = s'\<rparr> c"
  shows "pool_reach (orderly W) \<lparr>threads = ts[i := Some (pbind m k)], held = h, store = s\<rparr> c"
  using assms by (intro hop_any [OF assms(1,2)]) simp_all

lemma hop_obind:
  assumes "run m env n s = (Inr a, n', s')" "lock_free m" "\<And>j. W (env j)" "i < length ts"
    and "pool_reach (orderly W) \<lparr>threads = ts[i := Some (k a)], held = h, store = s'\<rparr> c"
  shows "pool_reach (orderly W) \<lparr>threads = ts[i := Some (obind m k)], held = h, store = s\<rparr> c"
  unfolding obind_def by (rule hop_pbind [where W = W, OF assms(1-4)]) (simp add: assms(5))

lemma pool_reach_mono: "pool_reach A c c' \<Longrightarrow> (\<And>ev. A ev \<Longrightarrow> B ev) \<Longrightarrow> pool_reach B c c'"
  by (induction rule: pool_reach.induct) (auto intro: pool_reach.intros)

lemma hop_lock:
  assumes "i < length ts" "h l = None"
    and "pool_reach (orderly W) \<lparr>threads = ts[i := Some p], held = h(l := Some i), store = s\<rparr> c"
  shows "pool_reach (orderly W) \<lparr>threads = ts[i := Some (Lock l p)], held = h, store = s\<rparr> c"
proof (rule pool_reach_trans [OF assms(3)], rule pool_reach.continue [OF pool_reach.start])
  show "pool_step \<lparr>threads = ts[i := Some (Lock l p)], held = h, store = s\<rparr> (Locks i l)
      \<lparr>threads = ts[i := Some p], held = h(l := Some i), store = s\<rparr>"
    using pool_step.locks [of i "\<lparr>threads = ts[i := Some (Lock l p)], held = h, store = s\<rparr>" l p] assms(1,2)
    by simp
qed simp

lemma hop_unlock:
  assumes "i < length ts" "h l = Some i"
    and "pool_reach (orderly W) \<lparr>threads = ts[i := Some p], held = h(l := None), store = s\<rparr> c"
  shows "pool_reach (orderly W) \<lparr>threads = ts[i := Some (Unlock l p)], held = h, store = s\<rparr> c"
proof (rule pool_reach_trans [OF assms(3)], rule pool_reach.continue [OF pool_reach.start])
  show "pool_step \<lparr>threads = ts[i := Some (Unlock l p)], held = h, store = s\<rparr> (Unlocks i l)
      \<lparr>threads = ts[i := Some p], held = h(l := None), store = s\<rparr>"
    using pool_step.unlocks [of i "\<lparr>threads = ts[i := Some (Unlock l p)], held = h, store = s\<rparr>" l p] assms(1,2)
    by simp
qed simp

lemma lock_free_pbind: "lock_free p \<Longrightarrow> (\<And>a. lock_free (k a)) \<Longrightarrow> lock_free (pbind p k)"
  by (induction p) auto

lemma lock_free_obind: "lock_free p \<Longrightarrow> (\<And>a. lock_free (k a)) \<Longrightarrow> lock_free (obind p k)"
  unfolding obind_def by (rule lock_free_pbind) (auto split: sum.split)

lemma lock_free_simps [simp]:
  "lock_free (atomic f)" "lock_free (observe g)" "lock_free (statement fails h)" "lock_free (reading fails q)"
  "lock_free cuid2" "lock_free (transacted fails body)"
  by (simp_all add: atomic_def observe_def statement_def reading_def cuid2_def transacted_def)

subsection \<open>Critical sections call by call\<close>

text \<open>A call that is a single action or none.\<close>

definition single :: "('s, 'a) prog \<Rightarrow> bool" where
  "single m \<longleftrightarrow> (\<exists>a. m = Ret a) \<or> (\<exists>u h. m = Act u (\<lambda>w s. Ret (h w s)))"

lemma single_simps [simp]:
  "single (Ret a)" "single (atomic f)" "single (observe g)" "single (statement fails h)" "single (reading fails q)"
  "single (transacted fails body)"
  by (auto simp: single_def atomic_def observe_def statement_def reading_def transacted_def)

lemma single_obind: "single m \<Longrightarrow> (\<And>a. \<exists>b. k a = Ret b) \<Longrightarrow> single (obind m k)"
proof -
  assume m: "single m" and k: "\<And>a. \<exists>b. k a = Ret b"
  then obtain g where g: "k a = Ret (g a)" for a by metis
  have "(case r of Inl e \<Rightarrow> Ret (Inl e) | Inr a \<Rightarrow> k a) =
      Ret (case r of Inl e \<Rightarrow> Inl e | Inr a \<Rightarrow> g a)" for r
    by (cases r) (simp_all add: g)
  with m show ?thesis unfolding single_def obind_def by auto
qed

lemma pbind_obind:
  "pbind (obind m f) k = pbind m (\<lambda>r. case r of Inl e \<Rightarrow> k (Inl e) | Inr a \<Rightarrow> pbind (f a) k)"
  unfolding obind_def
proof (induction m)
  case (Ret r)
  then show ?case by (cases r) simp_all
qed simp_all

lemma pbind_assoc: "pbind (pbind m f) k = pbind m (\<lambda>a. pbind (f a) k)"
  by (induction m) simp_all

context rely_section
begin

lemma csafe_single:
  assumes "single m" "W w0"
    and "\<And>w s' r n s''. W w \<Longrightarrow> rely s s' \<Longrightarrow> run m (\<lambda>_. w) 0 s' = (r, n, s'') \<Longrightarrow>
           csafe W rely I l (k r) True s''"
  shows "csafe W rely I l (pbind m k) True s"
  using assms(1) unfolding single_def
proof (elim disjE exE)
  fix a
  assume "m = Ret a"
  then show ?thesis using assms(3) [OF assms(2) refl, of a 0 s] by simp
next
  fix u h
  assume "m = Act u (\<lambda>w s. Ret (h w s))"
  then show ?thesis using assms(3) by simp
qed

lemma csafe_observe: "(\<And>a. csafe W rely I l (k a) False s) \<Longrightarrow> csafe W rely I l (pbind (observe f) k) False s"
  by (auto simp: observe_def atomic_def refl intro: csafe_outside)

end

subsection \<open>Rely and guarantee\<close>

text \<open>
  \<open>rg R p Q s\<close>: from \<open>s\<close> on, every action of \<open>p\<close> satisfies \<open>R\<close> and its result satisfies \<open>Q\<close>, whatever
  actions satisfying \<open>R\<close> the others take in between. Unlike \<open>guar\<close> this lets an action depend on what
  the program read before.
\<close>

primrec rg :: "('s \<Rightarrow> 's \<Rightarrow> bool) \<Rightarrow> ('s, 'a) prog \<Rightarrow> ('a \<Rightarrow> 's \<Rightarrow> bool) \<Rightarrow> 's \<Rightarrow> bool" where
  "rg R (Ret a) Q s \<longleftrightarrow> (\<forall>s'. R s s' \<longrightarrow> Q a s')"
| "rg R (Act u k) Q s \<longleftrightarrow> (\<forall>s' w. R s s' \<longrightarrow> R s' (u w s') \<and> rg R (k w s') Q (u w s'))"
| "rg R (Lock l p) Q s \<longleftrightarrow> rg R p Q s"
| "rg R (Unlock l p) Q s \<longleftrightarrow> rg R p Q s"

lemma rg_weaken: "rg R p Q s \<Longrightarrow> (\<And>a t. Q a t \<Longrightarrow> Q' a t) \<Longrightarrow> rg R p Q' s"
  by (induction p arbitrary: s) auto

context guarantee
begin

lemma rg_stable: "rg R p Q s \<Longrightarrow> R s s' \<Longrightarrow> rg R p Q s'"
proof (induction p arbitrary: s s')
  case (Act u k)
  have "R s t" if "R s' t" for t using that Act.prems(2) trans by blast
  with Act.prems(1) show ?case by simp
qed (auto intro: trans)

lemma rg_pbind: "rg R p (\<lambda>a. rg R (k a) Q) s \<Longrightarrow> rg R (pbind p k) Q s"
  by (induction p arbitrary: s) (auto intro: refl)

lemma rg_obind:
  "rg R m (\<lambda>r t. case r of Inl e \<Rightarrow> \<forall>t'. R t t' \<longrightarrow> Q (Inl e) t' | Inr a \<Rightarrow> rg R (k a) Q t) s \<Longrightarrow> rg R (obind m k) Q s"
  unfolding obind_def by (rule rg_pbind) (erule rg_weaken, simp split: sum.splits)

lemma rg_guar: "guar R p \<Longrightarrow> (\<And>a t. Q a t) \<Longrightarrow> rg R p Q s"
  by (induction p arbitrary: s) auto

lemma rg_track: "rg R p Q s \<Longrightarrow> R s0 s \<Longrightarrow> rg R p (\<lambda>a t. R s0 t \<and> Q a t) s"
proof (induction p arbitrary: s)
  case (Act u k)
  have "R s0 (u w t)" if "R s t" for t w
  proof -
    have "R t (u w t)" using that Act.prems(1) by simp
    with Act.prems(2) that show ?thesis by (blast intro: trans)
  qed
  with Act show ?case by simp
qed (auto intro: trans)

lemma rg_guar_track: "guar R p \<Longrightarrow> (\<And>a t. R s t \<Longrightarrow> Q a t) \<Longrightarrow> rg R p Q s"
  by (rule rg_weaken [OF rg_track [OF rg_guar [of p "\<lambda>_ _. True"] refl]]) auto

lemma rg_then:
  "rg R m (\<lambda>r t. \<forall>a. r = Inr a \<longrightarrow> rg R (k a) (\<lambda>_ _. True) t) s \<Longrightarrow> rg R (obind m k) (\<lambda>_ _. True) s"
  by (rule rg_obind) (erule rg_weaken, simp split: sum.split)

lemma rg_atomic:
  assumes "\<And>t w. R s t \<Longrightarrow> R t (snd (f w t))"
    and "\<And>t w t'. R s t \<Longrightarrow> R (snd (f w t)) t' \<Longrightarrow> Q (fst (f w t)) t'"
  shows "rg R (atomic f) Q s"
  using assms by (auto simp: atomic_def)

lemma rg_observe: "(\<And>t w t'. R s t \<Longrightarrow> R t t' \<Longrightarrow> Q (f w t) t') \<Longrightarrow> rg R (observe f) Q s"
  unfolding observe_def by (rule rg_atomic) (auto intro: refl)

lemma rg_query:
  assumes "\<And>t a t'. R s t \<Longrightarrow> q t = Inr a \<Longrightarrow> R t t' \<Longrightarrow> Q (Inr a) t'" and "\<And>e t. R s t \<Longrightarrow> Q (Inl e) t"
  shows "rg R (reading fails q) Q s"
proof -
  have "reading fails q = observe (\<lambda>w t. case o_net (w 0) of
      Refused \<Rightarrow> Inl (fails ''connection refused'')
    | Lost \<Rightarrow> Inl (fails ''connection lost'')
    | Delivered \<Rightarrow> (case q t of Inl e \<Rightarrow> Inl (fails e) | Inr a \<Rightarrow> Inr a))"
    unfolding reading_def statement_def observe_def
    by (rule arg_cong [where f = atomic]) (auto simp: fun_eq_iff res_bind_def split: delivery.split sum.split)
  then show ?thesis
    using assms trans by (auto intro!: rg_observe split: delivery.split sum.split)
qed

lemma rg_transaction:
  assumes "\<And>t now env n a n' t'. R s t \<Longrightarrow> run (body now) env n t = (Inr a, n', t') \<Longrightarrow> R t t'"
    and "\<And>r t. Q r t"
  shows "rg R (transacted fails body) Q s"
  unfolding transacted_def
  by (rule rg_atomic) (auto simp: assms(2) refl split: sum.split prod.split delivery.split intro: assms(1))

text \<open>When every thread is safe against the others, all steps of the pool satisfy the relation.\<close>

lemma rg_pool:
  assumes "pool_reach allowed c c'" and "\<And>p. Some p \<in> set (threads c) \<Longrightarrow> rg R p (\<lambda>_ _. True) (store c)"
  shows "R (store c) (store c') \<and> (\<forall>p. Some p \<in> set (threads c') \<longrightarrow> rg R p (\<lambda>_ _. True) (store c'))"
  using assms
proof (induction rule: pool_reach.induct)
  case (continue c c' ev c'')
  then have IH: "R (store c) (store c')" "\<And>p. Some p \<in> set (threads c') \<Longrightarrow> rg R p (\<lambda>_ _. True) (store c')"
    by auto
  have at: "rg R q (\<lambda>_ _. True) (store c')" if "i < length (threads c')" "threads c' ! i = Some q" for i q
    using IH(2) that by (metis nth_mem)
  have step: "R (store c') (store c'')"
    using continue.hyps(2) by (cases rule: pool_step.cases) (use at in \<open>force simp: refl\<close>)+
  have "rg R q (\<lambda>_ _. True) (store c'')" if "Some q \<in> set (threads c'')" for q
    using continue.hyps(2)
  proof (cases rule: pool_step.cases)
    case (acts i u k w)
    with that consider "q = k w (store c')" | "Some q \<in> set (threads c')"
      by (auto dest!: set_update_subset_insert [THEN subsetD])
    then show ?thesis
    proof cases
      case 1
      with acts at [of i "Act u k"] refl show ?thesis by simp
    next
      case 2
      then show ?thesis using IH(2) step rg_stable by blast
    qed
  qed (use that at IH(2) in \<open>force dest!: set_update_subset_insert [THEN subsetD]\<close>)+
  with IH(1) step trans show ?case by blast
qed (auto intro: refl)

lemma rg_initial:
  assumes "pool_reach allowed (initial ps s) c" and "\<And>p. p \<in> set ps \<Longrightarrow> rg R p (\<lambda>_ _. True) s"
  shows "R s (store c)"
  using rg_pool [OF assms(1)] assms(2) by (auto simp: initial_def)

end

end
