(* ===== verification/Budget_Period.thy ===== *)
theory Budget_Period
  imports Budget_Domain
begin

text \<open>
  period.rs: the calendar-month period \<open>YYYY-MM\<close>. \<open>Period(String)\<close> is a datatype over its text; years
  are \<open>u32\<close> values and months \<open>u8\<close> values, both as \<open>nat\<close>. \<open>previous\<close> subtracts on a \<open>u32\<close>, which panics
  in a build with overflow checks (\<open>cargo test\<close>, \<open>[profile.dev]\<close>) and wraps in the \<open>prod\<close> profile, so
  the build mode is an argument.
\<close>

datatype period = Period (period_str: string)

definition all_digits :: "string \<Rightarrow> bool" where
  "all_digits s \<longleftrightarrow> list_all is_digit s"

definition period_parse :: "string \<Rightarrow> period bresult" where
  "period_parse s =
     (if length s \<noteq> 7 \<or> s ! 4 \<noteq> CHR ''-'' then Inl (InvalidPeriod s)
      else if \<not> all_digits (take 4 s) \<or> \<not> all_digits (take 2 (drop 5 s)) then Inl (InvalidPeriod s)
      else case parse_unsigned (2 ^ 32) (take 2 (drop 5 s)) of
        None \<Rightarrow> Inl (InvalidPeriod s)
      | Some m \<Rightarrow> if \<not> (1 \<le> m \<and> m \<le> 12) then Inl (InvalidPeriod s) else Inr (Period s))"

definition ym_text :: "nat \<Rightarrow> nat \<Rightarrow> string" where
  "ym_text y m = pad0 4 (dec_of_nat y) @ CHR ''-'' # pad0 2 (dec_of_nat m)"

definition period_from_ymd :: "nat \<Rightarrow> nat \<Rightarrow> period bresult" where
  "period_from_ymd y m =
     (if \<not> (1 \<le> m \<and> m \<le> 12) then Inl (InvalidPeriod (ym_text y m)) else Inr (Period (ym_text y m)))"

text \<open>\<open>now.year() as u32\<close> keeps the low 32 bits of a signed year.\<close>

definition period_current :: "int \<Rightarrow> nat \<Rightarrow> period option" where
  "period_current now_year now_month =
     (case period_from_ymd (nat (now_year mod 2 ^ 32)) (now_month mod 2 ^ 8) of
        Inl _ \<Rightarrow> None | Inr p \<Rightarrow> Some p)"

definition period_year :: "period \<Rightarrow> nat option" where
  "period_year p = Option.bind (str_slice 0 4 (period_str p)) (parse_unsigned (2 ^ 32))"

definition period_month :: "period \<Rightarrow> nat option" where
  "period_month p = Option.bind (str_slice 5 7 (period_str p)) (parse_unsigned (2 ^ 8))"

definition u32_pred :: "bool \<Rightarrow> nat \<Rightarrow> nat option" where
  "u32_pred overflow_checks y =
     (if y = 0 then (if overflow_checks then None else Some (2 ^ 32 - 1)) else Some (y - 1))"

definition period_previous :: "bool \<Rightarrow> period \<Rightarrow> period option" where
  "period_previous overflow_checks p =
     Option.bind (period_year p) (\<lambda>year.
     Option.bind (period_month p) (\<lambda>month.
     Option.bind (if month = 1 then map_option (\<lambda>y. (y, 12)) (u32_pred overflow_checks year)
                  else Some (year, month - 1)) (\<lambda>(prev_year, prev_month).
     case period_from_ymd prev_year prev_month of Inl _ \<Rightarrow> None | Inr q \<Rightarrow> Some q)))"

text \<open>The invariant \<open>Period\<close>'s doc comments rely on: the text passed \<open>parse\<close>.\<close>

definition period_valid :: "period \<Rightarrow> bool" where
  "period_valid p \<longleftrightarrow> period_parse (period_str p) = Inr p"

subsection \<open>The text of a year and a month\<close>

lemma ym_text_length: "y \<le> 9999 \<Longrightarrow> m \<le> 99 \<Longrightarrow> length (ym_text y m) = 7"
  using dec_of_nat_length [of y 4] dec_of_nat_length [of m 2]
  by (simp add: ym_text_def pad0_length)

lemma pad_width:
  "y \<le> 9999 \<Longrightarrow> length (pad0 4 (dec_of_nat y)) = 4"
  "m \<le> 99 \<Longrightarrow> length (pad0 2 (dec_of_nat m)) = 2"
  using dec_of_nat_length [of y 4] dec_of_nat_length [of m 2] by (simp_all add: pad0_length)

lemma ym_text_parts:
  assumes "y \<le> 9999" "m \<le> 99"
  shows "take 4 (ym_text y m) = pad0 4 (dec_of_nat y)"
    and "take 2 (drop 5 (ym_text y m)) = pad0 2 (dec_of_nat m)"
    and "ym_text y m ! 4 = CHR ''-''"
  using pad_width(1) [OF assms(1)] pad_width(2) [OF assms(2)]
  by (simp_all add: ym_text_def nth_append)

lemma pad0_all_digits [simp]: "list_all is_digit (pad0 k (dec_of_nat n))"
  by (simp add: pad0_digits dec_of_nat_digits)

lemma pad0_nonempty [simp]: "pad0 k (dec_of_nat n) \<noteq> []"
  by (simp add: pad0_def)

lemmas ym_text_eval =
  ym_text_def dec_of_nat.simps pad0_def digit_char_eval replicate_eval

lemma period_parse_ym_text:
  assumes "y \<le> 9999" "1 \<le> m" "m \<le> 12"
  shows "period_parse (ym_text y m) = Inr (Period (ym_text y m))"
proof -
  have m: "m \<le> 99" using assms(3) by simp
  show ?thesis
    using assms ym_text_length [OF assms(1) m] ym_text_parts [OF assms(1) m]
    by (simp add: period_parse_def all_digits_def parse_unsigned_digits pad_width(2) [OF m]
        del: take_drop)
qed

lemma slice_at_dash:
  assumes "length s = 7" "s ! 4 = CHR ''-''" "all_digits (take 4 s)" "all_digits (take 2 (drop 5 s))"
  shows "str_slice 0 4 s = Some (take 4 s)" "str_slice 5 7 s = Some (take 2 (drop 5 s))"
proof -
  have "length (take 2 (drop 5 s)) = 2" using assms(1) by simp
  then have "\<exists>c cs. take 2 (drop 5 s) = c # cs" by (cases "take 2 (drop 5 s)") auto
  moreover have "drop 5 s = s ! 5 # drop 6 s"
    using assms(1) Cons_nth_drop_Suc [of 5 s] by simp
  ultimately have "is_digit (s ! 5)" using assms(4) by (auto simp: all_digits_def)
  then have "is_char_boundary s 5" using assms(1) by (intro digit_boundary) auto
  moreover have "is_char_boundary s 4" using assms(1,2) by (simp add: is_char_boundary_def)
  ultimately show "str_slice 0 4 s = Some (take 4 s)" "str_slice 5 7 s = Some (take 2 (drop 5 s))"
    using assms(1) by (simp_all add: str_slice_def is_char_boundary_def)
qed

lemma ym_text_accessors:
  assumes "y \<le> 9999" "1 \<le> m" "m \<le> 12"
  shows "period_year (Period (ym_text y m)) = Some y"
    and "period_month (Period (ym_text y m)) = Some m"
proof -
  have m: "m \<le> 99" using assms(3) by simp
  note parts = ym_text_parts [OF assms(1) m]
  have "str_slice 0 4 (ym_text y m) = Some (pad0 4 (dec_of_nat y))"
    and "str_slice 5 7 (ym_text y m) = Some (pad0 2 (dec_of_nat m))"
    using slice_at_dash [of "ym_text y m"] ym_text_length [OF assms(1) m] parts
    by (simp_all add: all_digits_def del: take_drop)
  then show "period_year (Period (ym_text y m)) = Some y"
    and "period_month (Period (ym_text y m)) = Some m"
    using assms by (simp_all add: period_year_def period_month_def parse_unsigned_digits)
qed

lemma seven_chars:
  assumes "length s = 7"
  shows "s = take 4 s @ s ! 4 # take 2 (drop 5 s)"
proof -
  have "s = take 4 s @ drop 4 s" by simp
  moreover have "drop 4 s = s ! 4 # drop 5 s" using assms Cons_nth_drop_Suc [of 4 s] by simp
  ultimately show ?thesis using assms by simp
qed

lemma period_parse_Inr_text:
  assumes "period_parse s = Inr p"
  obtains y m where "y \<le> 9999" "1 \<le> m" "m \<le> 12" "s = ym_text y m" "p = Period s"
proof -
  let ?ys = "take 4 s" and ?ms = "take 2 (drop 5 s)"
  have len: "length s = 7" and dash: "s ! 4 = CHR ''-''"
    and ys: "list_all is_digit ?ys" and ms: "list_all is_digit ?ms"
    using assms by (auto simp: period_parse_def all_digits_def split: if_splits)
  then have l: "length ?ys = 4" "length ?ms = 2" by simp_all
  then have ne: "?ys \<noteq> []" "?ms \<noteq> []" by (auto simp del: take_drop)
  have mb: "dec_value ?ms < 10 ^ 2" using dec_value_bound [OF ms] l(2) by (simp del: take_drop)
  then have range: "1 \<le> dec_value ?ms" "dec_value ?ms \<le> 12" and p: "p = Period s"
    using assms parse_unsigned_digits [OF ms ne(2), of "2 ^ 32"]
    by (auto simp: period_parse_def split: if_splits simp del: take_drop)
  have "s = ym_text (dec_value ?ys) (dec_value ?ms)"
    using seven_chars [OF len] pad0_dec_value [OF ys ne(1)] pad0_dec_value [OF ms ne(2)] l dash
    by (simp add: ym_text_def del: take_drop)
  moreover have "dec_value ?ys \<le> 9999" using dec_value_bound [OF ys] l(1) by simp
  ultimately show thesis using that range p by blast
qed

lemma period_valid_iff:
  "period_valid p \<longleftrightarrow> (\<exists>y m. y \<le> 9999 \<and> 1 \<le> m \<and> m \<le> 12 \<and> p = Period (ym_text y m))"
  unfolding period_valid_def
  by (metis period_parse_Inr_text period.collapse period_parse_ym_text period.sel)

lemma period_parse_valid: "period_parse s = Inr p \<Longrightarrow> period_valid p \<and> period_str p = s"
  by (metis period.sel period_parse_Inr_text period_valid_def)

lemma period_valid_parse [simp]: "period_valid p \<Longrightarrow> period_parse (period_str p) = Inr p"
  by (simp add: period_valid_def)

lemma period_previous_ym_text:
  assumes "y \<le> 9999" "1 \<le> m" "m \<le> 12" "\<not> (y = 0 \<and> m = 1)"
  shows "period_previous oc (Period (ym_text y m)) =
         Some (Period (if m = 1 then ym_text (y - 1) 12 else ym_text y (m - 1)))"
  using assms ym_text_accessors [OF assms(1-3)]
  by (auto simp: period_previous_def u32_pred_def period_from_ymd_def)

text \<open>Months since year 0, the calendar position of a period.\<close>

definition period_index :: "period \<Rightarrow> nat option" where
  "period_index p =
     Option.bind (period_year p) (\<lambda>y. map_option (\<lambda>m. 12 * y + (m - 1)) (period_month p))"

lemma period_index_ym_text:
  "y \<le> 9999 \<Longrightarrow> 1 \<le> m \<Longrightarrow> m \<le> 12 \<Longrightarrow>
   period_index (Period (ym_text y m)) = Some (12 * y + (m - 1))"
  by (simp add: period_index_def ym_text_accessors)

subsection \<open>Properties\<close>

text \<open>
  A period text is accepted exactly when it is the text \<open>C28 from_ymd\<close> builds for a four-digit year and a
  calendar month, and then \<open>year\<close> and \<open>month\<close> read those numbers back without panicking.
\<close>

theorem period_round_trip:
  "period_valid p \<longleftrightarrow>
   (\<exists>y m. y \<le> 9999 \<and> 1 \<le> m \<and> m \<le> 12 \<and> period_from_ymd y m = Inr p \<and>
          period_year p = Some y \<and> period_month p = Some m)"
proof
  assume "period_valid p"
  then obtain y m where ym: "y \<le> 9999" "1 \<le> m" "m \<le> 12" and p: "p = Period (ym_text y m)"
    unfolding period_valid_iff by blast
  have "period_from_ymd y m = Inr p" using ym p by (simp add: period_from_ymd_def)
  with ym p ym_text_accessors [OF ym] show "\<exists>y m. y \<le> 9999 \<and> 1 \<le> m \<and> m \<le> 12 \<and>
      period_from_ymd y m = Inr p \<and> period_year p = Some y \<and> period_month p = Some m" by blast
next
  assume "\<exists>y m. y \<le> 9999 \<and> 1 \<le> m \<and> m \<le> 12 \<and>
      period_from_ymd y m = Inr p \<and> period_year p = Some y \<and> period_month p = Some m"
  then show "period_valid p" unfolding period_valid_iff period_from_ymd_def
    by (metis sum.inject(2))
qed

text \<open>
  C17 \<open>previous\<close> steps exactly one calendar month back, in either build mode, for every accepted period
  except January of year 0.
\<close>

theorem period_previous_one_month:
  assumes "period_valid p" and "p \<noteq> Period ''0000-01''"
  shows "\<exists>q. period_previous overflow_checks p = Some q \<and> period_valid q \<and>
             map_option Suc (period_index q) = period_index p"
proof -
  from assms(1) obtain y m where ym: "y \<le> 9999" "1 \<le> m" "m \<le> 12" and p: "p = Period (ym_text y m)"
    unfolding period_valid_iff by blast
  have "ym_text 0 1 = ''0000-01''" by (simp add: ym_text_eval)
  with p assms(2) have no: "\<not> (y = 0 \<and> m = 1)" by auto
  let ?y = "if m = 1 then y - 1 else y" and ?m = "if m = 1 then 12 else m - 1"
  have ok: "?y \<le> 9999" "1 \<le> ?m" "?m \<le> 12" using ym by auto
  have "period_previous overflow_checks p = Some (Period (ym_text ?y ?m))"
    using period_previous_ym_text [OF ym no] p by auto
  moreover have "period_valid (Period (ym_text ?y ?m))"
    using ok period_valid_iff by blast
  moreover have "map_option Suc (period_index (Period (ym_text ?y ?m))) = period_index p"
    using ok ym no p by (cases "m = 1") (auto simp: period_index_ym_text)
  ultimately show ?thesis by blast
qed

theorem period_previous_one_month_witness:
  "period_valid (Period ''2026-01'') \<and> Period ''2026-01'' \<noteq> Period ''0000-01'' \<and>
   (\<exists>q. period_previous False (Period ''2026-01'') = Some q \<and> period_valid q \<and>
        map_option Suc (period_index q) = period_index (Period ''2026-01''))"
proof -
  have "ym_text 2026 1 = ''2026-01''" by (simp add: ym_text_eval)
  then have v: "period_valid (Period ''2026-01'')"
    unfolding period_valid_iff by (intro exI [of _ 2026] exI [of _ 1]) simp
  have n: "Period ''2026-01'' \<noteq> Period ''0000-01''" by simp
  show ?thesis using v n period_previous_one_month [OF v n, of False] by simp
qed

text \<open>
  C11 January of year 0 is accepted by \<open>parse\<close>, but stepping back from it panics with overflow checks and
  otherwise builds a period text that \<open>parse\<close> rejects and whose \<open>month\<close> reads as 67, so the calendar
  date \<open>period_bounds_utc\<close> expects of it does not exist.
\<close>

theorem period_previous_year_zero:
  "period_valid (Period ''0000-01'') \<and>
   period_previous True (Period ''0000-01'') = None \<and>
   period_previous False (Period ''0000-01'') = Some (Period ''4294967295-12'') \<and>
   \<not> period_valid (Period ''4294967295-12'') \<and>
   period_month (Period ''4294967295-12'') = Some 67"
proof (intro conjI)
  have ym: "ym_text 0 (Suc 0) = ''0000-01''" by (simp add: ym_text_eval)
  have acc: "period_year (Period ''0000-01'') = Some 0" "period_month (Period ''0000-01'') = Some 1"
    using ym_text_accessors [of 0 1] by (simp_all add: ym)
  show "period_valid (Period ''0000-01'')"
    unfolding period_valid_iff using ym by (intro exI [of _ 0] exI [of _ 1]) simp
  show "period_previous True (Period ''0000-01'') = None"
    by (simp add: period_previous_def acc u32_pred_def)
  show "period_previous False (Period ''0000-01'') = Some (Period ''4294967295-12'')"
    by (simp add: period_previous_def acc u32_pred_def period_from_ymd_def ym_text_eval)
  show "\<not> period_valid (Period ''4294967295-12'')"
    by (simp add: period_valid_def period_parse_def)
  show "period_month (Period ''4294967295-12'') = Some 67"
    by (simp add: period_month_def str_slice_def is_char_boundary_def parse_unsigned_def
        is_digit_def Let_def dec_value_def digit_val_def)
qed

end
