(* ===== verification/Rule_Data.thy ===== *)
theory Rule_Data
  imports Budget_Domain
begin

text \<open>
  rule_data.rs: the rule-data policy schema, its validation, the condition evaluator with its
  node-count budget, and the hot-swappable engine; and the \<open>PolicyEngine\<close> trait of decision.rs as a
  locale, interpreted on that engine. \<open>serde_json::from_str::<RuleSet>\<close> is the argument \<open>parse\<close> of the
  definitions that use it. The \<open>&mut usize\<close> node counter is threaded explicitly.
\<close>

subsection \<open>The rule-data schema\<close>

datatype field =
    SelfServiceGrantCount | EffectiveBalanceMicros | SpendThisPeriodMicros
  | SpendLastPeriodMicros | RequestedAmountMicros

datatype operator = Lt | Lte | Gt | Gte | OpEq

datatype condition =
    Threshold field operator int
  | All "condition list"
  | Any "condition list"

record rule =
  rule_id :: string
  rule_condition :: condition
  rule_effect :: effect
  reason_code :: string
  cap_micros :: "int option"

record rule_set =
  rs_policy_revision :: string
  rs_rules :: "rule list"
  default_effect :: effect
  default_reason_code :: string
  allowed_amounts_micros :: "int list"
  starting_amount_micros :: int
  fail_closed_floor_micros :: int

definition default_rule_set :: rule_set where
  "default_rule_set =
     \<lparr>rs_policy_revision = ''budget-policy-v1'',
      rs_rules =
        [\<lparr>rule_id = ''within-unaided-allowance'',
          rule_condition = Threshold SelfServiceGrantCount Lt 2,
          rule_effect = AutoApprove,
          reason_code = ''within_unaided_allowance'',
          cap_micros = None\<rparr>],
      default_effect = ManualReview,
      default_reason_code = ''unaided_allowance_exhausted'',
      allowed_amounts_micros = [6000000, 15000000, 30000000],
      starting_amount_micros = 15000000,
      fail_closed_floor_micros = 6000000\<rparr>"

subsection \<open>Validation\<close>

fun validate_rules :: "string list \<Rightarrow> rule list \<Rightarrow> unit bresult" where
  "validate_rules seen_ids [] = Inr ()"
| "validate_rules seen_ids (r # rs) =
     (if is_blank (rule_id r) then Inl (InvalidRuleData ''rule id must not be empty'')
      else if is_blank (reason_code r)
      then Inl (InvalidRuleData (''rule '' @ CHR 0x27 # rule_id r @ CHR 0x27 #
                                 '' reason_code must not be empty''))
      else if rule_id r \<in> set seen_ids
      then Inl (InvalidRuleData (''duplicate rule id: '' @ rule_id r))
      else validate_rules (rule_id r # seen_ids) rs)"

fun validate_amounts :: "int list \<Rightarrow> int option \<Rightarrow> int list \<Rightarrow> unit bresult" where
  "validate_amounts seen previous [] = Inr ()"
| "validate_amounts seen previous (a # as) =
     (if a \<le> 0
      then Inl (InvalidRuleData (''allowed_amounts_micros entries must be positive, got '' @ dec_of_int a))
      else if a \<in> set seen
      then Inl (InvalidRuleData (''duplicate entry in allowed_amounts_micros: '' @ dec_of_int a))
      else if (case previous of None \<Rightarrow> False | Some p \<Rightarrow> a \<le> p)
      then Inl (InvalidRuleData ''allowed_amounts_micros must be strictly ascending'')
      else validate_amounts (a # seen) (Some a) as)"

definition validate :: "rule_set \<Rightarrow> unit bresult" where
  "validate rs =
     (if is_blank (rs_policy_revision rs)
      then Inl (InvalidRuleData ''policy_revision must not be empty'')
      else if is_blank (default_reason_code rs)
      then Inl (InvalidRuleData ''default_reason_code must not be empty'')
      else res_bind (validate_rules [] (rs_rules rs)) (\<lambda>_.
        if allowed_amounts_micros rs = []
        then Inl (InvalidRuleData ''allowed_amounts_micros must not be empty'')
        else res_bind (validate_amounts [] None (allowed_amounts_micros rs)) (\<lambda>_.
          if starting_amount_micros rs \<le> 0
          then Inl (InvalidRuleData (''starting_amount_micros must be positive, got '' @
                                     dec_of_int (starting_amount_micros rs)))
          else if fail_closed_floor_micros rs \<le> 0
          then Inl (InvalidRuleData (''fail_closed_floor_micros must be positive, got '' @
                                     dec_of_int (fail_closed_floor_micros rs)))
          else if fail_closed_floor_micros rs > starting_amount_micros rs
          then Inl (InvalidRuleData (''fail_closed_floor_micros ('' @
                 dec_of_int (fail_closed_floor_micros rs) @
                 '') must not exceed starting_amount_micros ('' @
                 dec_of_int (starting_amount_micros rs) @
                 ''): an outage must never grant more than a legitimate new signup would get''))
          else Inr ())))"

definition validate_rule_data ::
  "(string \<Rightarrow> (string, rule_set) result) \<Rightarrow> string \<Rightarrow> rule_set bresult" where
  "validate_rule_data parse json =
     res_bind (map_err (\<lambda>err. InvalidRuleData (''failed to parse rule data JSON: '' @ err))
                       (parse json))
              (\<lambda>rs. res_bind (validate rs) (\<lambda>_. Inr rs))"

subsection \<open>Evaluation\<close>

datatype eval_abort = BudgetExceeded | FieldUnavailable

fun resolve_field :: "field \<Rightarrow> facts \<Rightarrow> int \<Rightarrow> (field, int) result" where
  "resolve_field SelfServiceGrantCount facts req = Inr (self_service_grant_count facts)"
| "resolve_field EffectiveBalanceMicros facts req = Inr (effective_balance_micros facts)"
| "resolve_field SpendThisPeriodMicros facts req =
     (case spend_this_period facts of Known v \<Rightarrow> Inr v | Unavailable \<Rightarrow> Inl SpendThisPeriodMicros)"
| "resolve_field SpendLastPeriodMicros facts req =
     (case spend_last_period facts of Known v \<Rightarrow> Inr v | Unavailable \<Rightarrow> Inl SpendLastPeriodMicros)"
| "resolve_field RequestedAmountMicros facts req = Inr req"

fun compare :: "int \<Rightarrow> operator \<Rightarrow> int \<Rightarrow> bool" where
  "compare actual Lt expected = (actual < expected)"
| "compare actual Lte expected = (actual \<le> expected)"
| "compare actual Gt expected = (actual > expected)"
| "compare actual Gte expected = (actual \<ge> expected)"
| "compare actual OpEq expected = (actual = expected)"

fun eval_condition ::
  "condition \<Rightarrow> facts \<Rightarrow> int \<Rightarrow> nat \<Rightarrow> nat \<Rightarrow> (eval_abort, bool) result \<times> nat"
and eval_all ::
  "condition list \<Rightarrow> facts \<Rightarrow> int \<Rightarrow> nat \<Rightarrow> nat \<Rightarrow> (eval_abort, bool) result \<times> nat"
and eval_any ::
  "condition list \<Rightarrow> facts \<Rightarrow> int \<Rightarrow> nat \<Rightarrow> nat \<Rightarrow> (eval_abort, bool) result \<times> nat"
where
  "eval_condition c facts req nodes budget =
     (if Suc nodes > budget then (Inl BudgetExceeded, Suc nodes)
      else (case c of
          Threshold f op v \<Rightarrow>
            (case resolve_field f facts req of
               Inl _ \<Rightarrow> (Inl FieldUnavailable, Suc nodes)
             | Inr actual \<Rightarrow> (Inr (compare actual op v), Suc nodes))
        | All cs \<Rightarrow> eval_all cs facts req (Suc nodes) budget
        | Any cs \<Rightarrow> eval_any cs facts req (Suc nodes) budget))"
| "eval_all [] facts req nodes budget = (Inr True, nodes)"
| "eval_all (c # cs) facts req nodes budget =
     (case eval_condition c facts req nodes budget of
        (Inl abort, n) \<Rightarrow> (Inl abort, n)
      | (Inr b, n) \<Rightarrow> if \<not> b then (Inr False, n) else eval_all cs facts req n budget)"
| "eval_any [] facts req nodes budget = (Inr False, nodes)"
| "eval_any (c # cs) facts req nodes budget =
     (case eval_condition c facts req nodes budget of
        (Inl abort, n) \<Rightarrow> (Inl abort, n)
      | (Inr b, n) \<Rightarrow> if b then (Inr True, n) else eval_any cs facts req n budget)"

declare eval_condition.simps [simp del]

definition decision_for_effect ::
  "effect \<Rightarrow> int option \<Rightarrow> int \<Rightarrow> string \<Rightarrow> string list \<Rightarrow> string \<Rightarrow> decision" where
  "decision_for_effect eff cap req reason matched revision =
     (let amounts = (case eff of
            AutoApprove \<Rightarrow> (req, req)
          | AutoApproveCapped \<Rightarrow> (let c = (case cap of None \<Rightarrow> req | Some c \<Rightarrow> c) in (min req c, c))
          | _ \<Rightarrow> (0, req))
      in \<lparr>effect = eff, approved_amount_micros = fst amounts, maximum_amount_micros = snd amounts,
          reason_codes = [reason], matched_rule_ids = matched, policy_revision = revision,
          decision_obligations = obligations_default\<rparr>)"

definition abort_decision :: "eval_abort \<Rightarrow> int \<Rightarrow> string \<Rightarrow> decision" where
  "abort_decision abort req revision =
     \<lparr>effect = (case abort of BudgetExceeded \<Rightarrow> Deny | FieldUnavailable \<Rightarrow> ManualReview),
      approved_amount_micros = 0, maximum_amount_micros = req,
      reason_codes = (case abort of BudgetExceeded \<Rightarrow> [''evaluation_budget_exceeded'']
                                  | FieldUnavailable \<Rightarrow> [''required_fact_unavailable'']),
      matched_rule_ids = [], policy_revision = revision,
      decision_obligations = obligations_default\<rparr>"

subsection \<open>The engine\<close>

record rule_data_engine =
  active :: rule_set
  evaluation_budget :: nat

definition engine_new ::
  "(string \<Rightarrow> (string, rule_set) result) \<Rightarrow> string \<Rightarrow> nat \<Rightarrow> rule_data_engine bresult" where
  "engine_new parse json budget =
     res_bind (validate_rule_data parse json)
              (\<lambda>rs. Inr \<lparr>active = rs, evaluation_budget = budget\<rparr>)"

definition engine_load ::
  "(string \<Rightarrow> (string, rule_set) result) \<Rightarrow> rule_data_engine \<Rightarrow> string \<Rightarrow>
   unit bresult \<times> rule_data_engine" where
  "engine_load parse e json =
     (case validate_rule_data parse json of
        Inr rs \<Rightarrow> (Inr (), e\<lparr>active := rs\<rparr>)
      | Inl err \<Rightarrow> (Inl err, e))"

definition active_policy_revision :: "rule_data_engine \<Rightarrow> string" where
  "active_policy_revision e = rs_policy_revision (active e)"

fun eval_rules :: "rule_set \<Rightarrow> rule list \<Rightarrow> facts \<Rightarrow> int \<Rightarrow> nat \<Rightarrow> nat \<Rightarrow> decision" where
  "eval_rules rs [] facts req nodes budget =
     decision_for_effect (default_effect rs) None req (default_reason_code rs) []
       (rs_policy_revision rs)"
| "eval_rules rs (r # rules) facts req nodes budget =
     (case eval_condition (rule_condition r) facts req nodes budget of
        (Inr b, n) \<Rightarrow>
          if b then decision_for_effect (rule_effect r) (cap_micros r) req (reason_code r) [rule_id r]
                      (rs_policy_revision rs)
          else eval_rules rs rules facts req n budget
      | (Inl abort, n) \<Rightarrow> abort_decision abort req (rs_policy_revision rs))"

definition engine_evaluate :: "rule_data_engine \<Rightarrow> facts \<Rightarrow> int \<Rightarrow> decision bresult" where
  "engine_evaluate e facts req =
     Inr (eval_rules (active e) (rs_rules (active e)) facts req 0 (evaluation_budget e))"

definition engine_allowed_amounts :: "rule_data_engine \<Rightarrow> int list" where
  "engine_allowed_amounts e = allowed_amounts_micros (active e)"

definition engine_starting_amount :: "rule_data_engine \<Rightarrow> int" where
  "engine_starting_amount e = starting_amount_micros (active e)"

definition engine_fail_closed_floor :: "rule_data_engine \<Rightarrow> int" where
  "engine_fail_closed_floor e = fail_closed_floor_micros (active e)"

definition engine_ok :: "rule_data_engine \<Rightarrow> bool" where
  "engine_ok e \<longleftrightarrow> validate (active e) = Inr ()"

subsection \<open>What validation accepts\<close>

definition rule_set_wf :: "rule_set \<Rightarrow> bool" where
  "rule_set_wf rs \<longleftrightarrow>
     \<not> is_blank (rs_policy_revision rs) \<and> \<not> is_blank (default_reason_code rs) \<and>
     list_all (\<lambda>r. \<not> is_blank (rule_id r) \<and> \<not> is_blank (reason_code r)) (rs_rules rs) \<and>
     distinct (map rule_id (rs_rules rs)) \<and>
     allowed_amounts_micros rs \<noteq> [] \<and> list_all (\<lambda>a. 0 < a) (allowed_amounts_micros rs) \<and>
     sorted_wrt (<) (allowed_amounts_micros rs) \<and>
     0 < fail_closed_floor_micros rs \<and>
     fail_closed_floor_micros rs \<le> starting_amount_micros rs"

lemma validate_rules_ok_iff:
  "validate_rules seen rs = Inr () \<longleftrightarrow>
   list_all (\<lambda>r. \<not> is_blank (rule_id r) \<and> \<not> is_blank (reason_code r)) rs \<and>
   distinct (map rule_id rs) \<and> set (map rule_id rs) \<inter> set seen = {}"
  by (induction rs arbitrary: seen) auto

lemma validate_amounts_ok_iff:
  assumes "\<And>s. s \<in> set seen \<Longrightarrow> \<exists>p. previous = Some p \<and> s \<le> p"
  shows "validate_amounts seen previous as = Inr () \<longleftrightarrow>
         list_all (\<lambda>a. 0 < a) as \<and> sorted_wrt (<) as \<and>
         (case previous of None \<Rightarrow> True | Some p \<Rightarrow> list_all (\<lambda>a. p < a) as)"
  using assms
proof (induction as arbitrary: seen previous)
  case Nil
  then show ?case by (simp split: option.split)
next
  case (Cons a as)
  show ?case
  proof (cases "0 < a \<and> (case previous of None \<Rightarrow> True | Some p \<Rightarrow> p < a)")
    case True
    then have fresh: "a \<notin> set seen" using Cons.prems by (force split: option.splits)
    have "validate_amounts (a # seen) (Some a) as = Inr () \<longleftrightarrow>
          list_all (\<lambda>a. 0 < a) as \<and> sorted_wrt (<) as \<and> list_all (\<lambda>b. a < b) as"
      using Cons.IH [of "a # seen" "Some a"] Cons.prems True by (force split: option.splits)
    with True fresh show ?thesis
      by (auto split: option.splits simp: list_all_iff) (meson less_trans)
  next
    case False
    then show ?thesis by (auto split: option.splits)
  qed
qed

lemma validate_ok_iff: "validate rs = Inr () \<longleftrightarrow> rule_set_wf rs"
  using validate_amounts_ok_iff [of "[]" None "allowed_amounts_micros rs"]
  by (auto simp: validate_def rule_set_wf_def res_bind_eq_Inr_conv validate_rules_ok_iff)

lemma engine_ok_wf: "engine_ok e \<longleftrightarrow> rule_set_wf (active e)"
  by (simp add: engine_ok_def validate_ok_iff)

lemma validate_rule_data_Inr:
  "validate_rule_data parse json = Inr rs \<longleftrightarrow> parse json = Inr rs \<and> rule_set_wf rs"
  by (auto simp: validate_rule_data_def res_bind_eq_Inr_conv validate_ok_iff)

lemma default_rule_set_wf: "rule_set_wf default_rule_set"
  by (simp add: rule_set_wf_def default_rule_set_def is_graphic_def)

subsection \<open>Reference semantics of conditions\<close>

text \<open>
  The value of a condition with no node budget: \<open>None\<close> when evaluation meets a spend fact that is
  unavailable before the value is decided, and the number of nodes a left-to-right short-circuit
  walk visits.
\<close>

fun sem :: "condition \<Rightarrow> facts \<Rightarrow> int \<Rightarrow> bool option"
and sem_all :: "condition list \<Rightarrow> facts \<Rightarrow> int \<Rightarrow> bool option"
and sem_any :: "condition list \<Rightarrow> facts \<Rightarrow> int \<Rightarrow> bool option" where
  "sem (Threshold f op v) facts req =
     (case resolve_field f facts req of Inl _ \<Rightarrow> None | Inr a \<Rightarrow> Some (compare a op v))"
| "sem (All cs) facts req = sem_all cs facts req"
| "sem (Any cs) facts req = sem_any cs facts req"
| "sem_all [] facts req = Some True"
| "sem_all (c # cs) facts req =
     (case sem c facts req of None \<Rightarrow> None | Some b \<Rightarrow> if b then sem_all cs facts req else Some False)"
| "sem_any [] facts req = Some False"
| "sem_any (c # cs) facts req =
     (case sem c facts req of None \<Rightarrow> None | Some b \<Rightarrow> if b then Some True else sem_any cs facts req)"

fun visited :: "condition \<Rightarrow> facts \<Rightarrow> int \<Rightarrow> nat"
and visited_all :: "condition list \<Rightarrow> facts \<Rightarrow> int \<Rightarrow> nat"
and visited_any :: "condition list \<Rightarrow> facts \<Rightarrow> int \<Rightarrow> nat" where
  "visited (Threshold f op v) facts req = 1"
| "visited (All cs) facts req = Suc (visited_all cs facts req)"
| "visited (Any cs) facts req = Suc (visited_any cs facts req)"
| "visited_all [] facts req = 0"
| "visited_all (c # cs) facts req =
     visited c facts req + (if sem c facts req = Some True then visited_all cs facts req else 0)"
| "visited_any [] facts req = 0"
| "visited_any (c # cs) facts req =
     visited c facts req + (if sem c facts req = Some False then visited_any cs facts req else 0)"

definition outcome :: "bool option \<Rightarrow> (eval_abort, bool) result" where
  "outcome v = (case v of None \<Rightarrow> Inl FieldUnavailable | Some b \<Rightarrow> Inr b)"

lemma outcome_simps [simp]: "outcome None = Inl FieldUnavailable" "outcome (Some b) = Inr b"
  by (simp_all add: outcome_def)

definition bounded :: "bool option \<Rightarrow> nat \<Rightarrow> nat \<Rightarrow> (eval_abort, bool) result \<times> nat" where
  "bounded v n budget = (if n \<le> budget then (outcome v, n) else (Inl BudgetExceeded, Suc budget))"

text \<open>
  The budgeted evaluator computes the reference value as long as the walk fits the budget, and
  stops at the first node beyond it otherwise.
\<close>

lemma eval_condition_ref:
  "nodes \<le> budget \<Longrightarrow> eval_condition c facts req nodes budget =
     bounded (sem c facts req) (nodes + visited c facts req) budget"
  "nodes \<le> budget \<Longrightarrow> eval_all cs facts req nodes budget =
     bounded (sem_all cs facts req) (nodes + visited_all cs facts req) budget"
  "nodes \<le> budget \<Longrightarrow> eval_any cs facts req nodes budget =
     bounded (sem_any cs facts req) (nodes + visited_any cs facts req) budget"
proof (induction c facts req nodes budget and cs facts req nodes budget and
    cs facts req nodes budget rule: eval_condition_eval_all_eval_any.induct)
  case (1 c facts req nodes budget)
  show ?case
  proof (cases c)
    case (Threshold f op v)
    with "1.prems" show ?thesis
      by (cases "resolve_field f facts req") (simp_all add: eval_condition.simps bounded_def)
  next
    case (All cs)
    with 1 show ?thesis by (auto simp: eval_condition.simps bounded_def)
  next
    case (Any cs)
    with 1 show ?thesis by (auto simp: eval_condition.simps bounded_def)
  qed
next
  case (3 c cs facts req nodes budget)
  then show ?case
    by (cases "sem c facts req") (auto simp: bounded_def)
next
  case (5 c cs facts req nodes budget)
  then show ?case
    by (cases "sem c facts req") (auto simp: bounded_def)
qed (simp_all add: bounded_def)

text \<open>The nodes of a condition, an upper bound of what any walk visits.\<close>

fun cond_nodes :: "condition \<Rightarrow> nat" and conds_nodes :: "condition list \<Rightarrow> nat" where
  "cond_nodes (Threshold f op v) = 1"
| "cond_nodes (All cs) = Suc (conds_nodes cs)"
| "cond_nodes (Any cs) = Suc (conds_nodes cs)"
| "conds_nodes [] = 0"
| "conds_nodes (c # cs) = cond_nodes c + conds_nodes cs"

lemma visited_le_nodes:
  "visited c facts req \<le> cond_nodes c"
  "visited_all cs facts req \<le> conds_nodes cs \<and> visited_any cs facts req \<le> conds_nodes cs"
  by (induction c and cs rule: cond_nodes_conds_nodes.induct) auto

subsection \<open>Reference semantics of a rule set\<close>

fun first_match :: "rule list \<Rightarrow> facts \<Rightarrow> int \<Rightarrow> rule option option" where
  "first_match [] facts req = Some None"
| "first_match (r # rules) facts req =
     (case sem (rule_condition r) facts req of
        None \<Rightarrow> None
      | Some b \<Rightarrow> if b then Some (Some r) else first_match rules facts req)"

fun visited_rules :: "rule list \<Rightarrow> facts \<Rightarrow> int \<Rightarrow> nat" where
  "visited_rules [] facts req = 0"
| "visited_rules (r # rules) facts req =
     visited (rule_condition r) facts req +
     (if sem (rule_condition r) facts req = Some False then visited_rules rules facts req else 0)"

definition policy_decision :: "rule_set \<Rightarrow> facts \<Rightarrow> int \<Rightarrow> decision" where
  "policy_decision rs facts req =
     (case first_match (rs_rules rs) facts req of
        None \<Rightarrow> abort_decision FieldUnavailable req (rs_policy_revision rs)
      | Some None \<Rightarrow> decision_for_effect (default_effect rs) None req (default_reason_code rs) []
                      (rs_policy_revision rs)
      | Some (Some r) \<Rightarrow> decision_for_effect (rule_effect r) (cap_micros r) req (reason_code r)
                          [rule_id r] (rs_policy_revision rs))"

lemma eval_rules_ref:
  "nodes \<le> budget \<Longrightarrow> eval_rules rs rules facts req nodes budget =
     (if nodes + visited_rules rules facts req \<le> budget
      then policy_decision (rs\<lparr>rs_rules := rules\<rparr>) facts req
      else abort_decision BudgetExceeded req (rs_policy_revision rs))"
proof (induction rules arbitrary: nodes)
  case Nil
  then show ?case by (simp add: policy_decision_def)
next
  case (Cons r rules)
  show ?case
  proof (cases "sem (rule_condition r) facts req")
    case None
    with Cons.prems show ?thesis
      by (simp add: eval_condition_ref bounded_def policy_decision_def)
  next
    case (Some b)
    with Cons show ?thesis
      by (cases b) (auto simp: eval_condition_ref bounded_def policy_decision_def
          split: option.split)
  qed
qed

lemma first_match_Some:
  "first_match rules facts req = Some (Some r) \<Longrightarrow>
   r \<in> set rules \<and> sem (rule_condition r) facts req = Some True"
  by (induction rules) (auto split: option.splits if_splits)

lemma visited_rules_le: "visited_rules rules facts req \<le> sum_list (map (cond_nodes \<circ> rule_condition) rules)"
  by (induction rules) (auto intro: add_mono visited_le_nodes trans_le_add1)

lemma engine_evaluate_eq:
  "engine_evaluate e facts req =
     Inr (if visited_rules (rs_rules (active e)) facts req \<le> evaluation_budget e
          then policy_decision (active e) facts req
          else abort_decision BudgetExceeded req (rs_policy_revision (active e)))"
  by (simp add: engine_evaluate_def eval_rules_ref)

subsection \<open>The PolicyEngine interface\<close>

text \<open>
  What a caller of \<open>dyn PolicyEngine\<close> relies on: an effect that does not authorize a grant carries
  no amount, an approval never exceeds the request and a full approval equals it, and the active
  policy offers positive, strictly ascending amounts with a floor not above the starting amount.
\<close>

locale policy_engine =
  fixes evaluate :: "'e \<Rightarrow> facts \<Rightarrow> int \<Rightarrow> decision bresult"
    and allowed :: "'e \<Rightarrow> int list"
    and starting :: "'e \<Rightarrow> int"
    and floor_micros :: "'e \<Rightarrow> int"
    and engine_inv :: "'e \<Rightarrow> bool"
  assumes unauthorized_is_zero:
      "evaluate e facts req = Inr d \<Longrightarrow> \<not> authorizes_grant (effect d) \<Longrightarrow> approved_amount_micros d = 0"
    and full_approval: "evaluate e facts req = Inr d \<Longrightarrow> effect d = AutoApprove \<Longrightarrow>
      approved_amount_micros d = req"
    and approval_bounded: "evaluate e facts req = Inr d \<Longrightarrow> 0 \<le> req \<Longrightarrow> approved_amount_micros d \<le> req"
    and offered_positive: "engine_inv e \<Longrightarrow> a \<in> set (allowed e) \<Longrightarrow> 0 < a"
    and offered_ascending: "engine_inv e \<Longrightarrow> sorted_wrt (<) (allowed e)"
    and floor_below_start: "engine_inv e \<Longrightarrow> 0 < floor_micros e \<and> floor_micros e \<le> starting e"
begin

lemma offered_approval_bounded:
  "engine_inv e \<Longrightarrow> req \<in> set (allowed e) \<Longrightarrow> evaluate e facts req = Inr d \<Longrightarrow>
   approved_amount_micros d \<le> req"
  by (meson approval_bounded less_imp_le offered_positive)

lemma positive_amount_authorized:
  "evaluate e facts req = Inr d \<Longrightarrow> approved_amount_micros d \<noteq> 0 \<Longrightarrow> authorizes_grant (effect d)"
  using unauthorized_is_zero by blast

end

lemmas decision_defs = decision_for_effect_def abort_decision_def Let_def

lemma decision_amounts:
  assumes "engine_evaluate e facts req = Inr d"
  shows "\<not> authorizes_grant (effect d) \<Longrightarrow> approved_amount_micros d = 0"
    and "effect d = AutoApprove \<Longrightarrow> approved_amount_micros d = req"
    and "0 \<le> req \<Longrightarrow> approved_amount_micros d \<le> req"
  using assms
  by (auto simp: engine_evaluate_eq policy_decision_def decision_defs authorizes_grant_def
      split: if_splits option.splits eval_abort.splits effect.splits)

interpretation rule_engine: policy_engine engine_evaluate engine_allowed_amounts
  engine_starting_amount engine_fail_closed_floor engine_ok
proof
  show "engine_ok e \<Longrightarrow> a \<in> set (engine_allowed_amounts e) \<Longrightarrow> 0 < a" for e a
    by (simp add: engine_ok_wf rule_set_wf_def engine_allowed_amounts_def list_all_iff)
  show "engine_ok e \<Longrightarrow> sorted_wrt (<) (engine_allowed_amounts e)" for e
    by (simp add: engine_ok_wf rule_set_wf_def engine_allowed_amounts_def)
  show "engine_ok e \<Longrightarrow> 0 < engine_fail_closed_floor e \<and>
          engine_fail_closed_floor e \<le> engine_starting_amount e" for e
    by (simp add: engine_ok_wf rule_set_wf_def engine_fail_closed_floor_def engine_starting_amount_def)
qed (use decision_amounts in blast)+

end
