(* ===== verification/Budget_Schema.thy ===== *)
theory Budget_Schema
  imports Prog Budget_Period Rule_Data "HOL-Library.Multiset"
begin

text \<open>
  The shared state of the budget services: the tables of migrations/2026080*_budget_*.sql with their
  constraints, in the row types of repo.rs and augmentation.rs, and the live policy engine of
  policy_store.rs. A row type and the domain type its \<open>TryFrom\<close> yields differ only in the types of some
  columns, so they are instances of one record: \<open>grant_row\<close> and \<open>budget_grant\<close>, \<open>balance_row\<close> and
  \<open>balance_snapshot\<close>, \<open>request_row\<close> and \<open>augmentation_request\<close>. A table is a list of rows in insertion
  order.
\<close>

subsection \<open>Rows\<close>

record ('p, 's) grant_data =
  g_id :: string
  g_budget_account_id :: string
  g_account_id :: string
  g_project_id :: "string option"
  g_period :: 'p
  g_amount_micros :: int
  g_source :: 's
  g_actor_id :: "string option"
  g_reason :: "string option"
  g_policy_revision :: "string option"
  g_matched_rule_ids :: "string list option"
  g_idempotency_key :: "string option"
  g_trigger_key :: "string option"
  g_created_at :: int
  g_expires_at :: "int option"
  g_revoked_at :: "int option"

type_synonym grant_row = "(string, string) grant_data"
type_synonym budget_grant = "(period, grant_source) grant_data"

record 'p balance_data =
  b_budget_account_id :: string
  b_period :: 'p
  b_base_total_micros :: int
  b_self_service_total_micros :: int
  b_admin_total_micros :: int
  b_automatic_total_micros :: int
  b_refund_total_micros :: int
  b_effective_budget_micros :: int
  b_self_service_grant_count :: int
  b_automatic_grant_count :: int
  b_version :: int
  b_updated_at :: int

type_synonym balance_row = "string balance_data"
type_synonym balance_snapshot = "period balance_data"

record ('p, 't, 'st, 'e) request_data =
  q_id :: string
  q_budget_account_id :: string
  q_account_id :: string
  q_project_id :: "string option"
  q_period :: 'p
  q_requested_tier :: 't
  q_requested_amount_micros :: int
  q_status :: 'st
  q_policy_effect :: "'e option"
  q_policy_reason_codes :: "string list option"
  q_matched_rule_ids :: "string list option"
  q_policy_revision :: "string option"
  q_approved_amount_micros :: "int option"
  q_grant_id :: "string option"
  q_idempotency_key :: "string option"
  q_reviewed_by :: "string option"
  q_rejection_reason :: "string option"
  q_created_at :: int
  q_reviewed_at :: "int option"

type_synonym request_row = "(string, string, string, string) request_data"
type_synonym augmentation_request =
  "(period, budget_tier, augmentation_status, effect) request_data"

record policy_set_row =
  ps_id :: string
  ps_active_revision_id :: "string option"

record policy_revision_row =
  pr_id :: string
  pr_policy_set_id :: string
  pr_policy_revision :: string
  pr_rule_data_json :: string
  pr_created_at :: int
  pr_created_by :: "string option"

record sys =
  accounts :: "string list"
  projects :: "string list"
  grants :: "grant_row list"
  balances :: "balance_row list"
  requests :: "request_row list"
  policy_sets :: "policy_set_row list"
  policy_revisions :: "policy_revision_row list"
  live_engine :: rule_data_engine

subsection \<open>Constraints and query building blocks\<close>

text \<open>\<open>CHECK (period ~ '^\d{4}-\d{2}$')\<close>.\<close>

definition period_check :: "string \<Rightarrow> bool" where
  "period_check s \<longleftrightarrow> length s = 7 \<and> all_digits (take 4 s) \<and> s ! 4 = CHR ''-'' \<and> all_digits (drop 5 s)"

text \<open>A nullable reference: \<open>NULL\<close> satisfies a foreign key.\<close>

definition fk_ok :: "string list \<Rightarrow> string option \<Rightarrow> bool" where
  "fk_ok ids k \<longleftrightarrow> (case k of None \<Rightarrow> True | Some i \<Rightarrow> i \<in> set ids)"

text \<open>A partial unique index (\<open>WHERE key IS NOT NULL\<close>): the new key is already there.\<close>

definition key_taken :: "('r \<Rightarrow> string option) \<Rightarrow> 'r list \<Rightarrow> string option \<Rightarrow> bool" where
  "key_taken key rows k \<longleftrightarrow> k \<noteq> None \<and> list_ex (\<lambda>r. key r = k) rows"

text \<open>\<open>fetch_one\<close> fails on an empty result.\<close>

definition fetch_one :: "'r option \<Rightarrow> (string, 'r) result" where
  "fetch_one r = (case r of None \<Rightarrow> Inl ''RowNotFound'' | Some x \<Rightarrow> Inr x)"

text \<open>\<open>WHERE col = $1\<close> on a nullable column bound to a nullable parameter: \<open>NULL = NULL\<close> is not true.\<close>

definition sql_eq :: "'a option \<Rightarrow> 'a option \<Rightarrow> bool" where
  "sql_eq a b \<longleftrightarrow> a \<noteq> None \<and> a = b"

text \<open>\<open>($n IS NULL OR P)\<close>.\<close>

definition null_or :: "'a option \<Rightarrow> ('a \<Rightarrow> bool) \<Rightarrow> bool" where
  "null_or x P \<longleftrightarrow> (case x of None \<Rightarrow> True | Some a \<Rightarrow> P a)"

text \<open>\<open>ORDER BY created_at ASC\<close> and \<open>DESC\<close>; SQL leaves the order of ties open, here they keep the insertion order.\<close>

definition order_asc :: "('r \<Rightarrow> int) \<Rightarrow> 'r list \<Rightarrow> 'r list" where
  "order_asc at rows = sort_key at rows"

definition order_desc :: "('r \<Rightarrow> int) \<Rightarrow> 'r list \<Rightarrow> 'r list" where
  "order_desc at rows = sort_key (\<lambda>r. - at r) rows"

definition limit_rows :: "int \<Rightarrow> 'r list \<Rightarrow> 'r list" where
  "limit_rows n rows = take (nat n) rows"

definition unique_keys :: "('r \<Rightarrow> string option) \<Rightarrow> 'r list \<Rightarrow> bool" where
  "unique_keys key rows \<longleftrightarrow> distinct (filter (\<lambda>k. k \<noteq> None) (map key rows))"

lemma key_taken_iff: "key_taken key rows k \<longleftrightarrow> k \<noteq> None \<and> k \<in> key ` set rows"
  by (auto simp: key_taken_def list_ex_iff)

lemma unique_keys_append [simp]:
  "unique_keys key (rows @ [r]) \<longleftrightarrow> unique_keys key rows \<and> \<not> key_taken key rows (key r)"
  by (auto simp: unique_keys_def key_taken_iff)

lemma unique_keysD:
  assumes "unique_keys key rows" "r \<in> set rows" "r' \<in> set rows" "key r = key r'" "key r \<noteq> None"
  shows "r = r'"
  using assms by (induction rows) (auto simp: unique_keys_def split: if_splits intro: rev_image_eqI)

lemma find_unique_key:
  assumes "unique_keys key rows" "r \<in> set rows" "key r = Some k"
  shows "find (\<lambda>r. sql_eq (key r) (Some k)) rows = Some r"
proof -
  from assms obtain r' where r': "find (\<lambda>r. sql_eq (key r) (Some k)) rows = Some r'"
    by (cases "find (\<lambda>r. sql_eq (key r) (Some k)) rows") (auto simp: find_None_iff sql_eq_def)
  then have "r' \<in> set rows" "key r' = Some k" by (auto simp: find_Some_iff sql_eq_def in_set_conv_nth)
  with unique_keysD [OF assms(1), of r r'] assms r' show ?thesis by simp
qed

lemma period_valid_check: "period_valid p \<Longrightarrow> period_check (period_str p)"
proof -
  assume "period_valid p"
  then have "length (period_str p) = 7" "period_str p ! 4 = CHR ''-''"
    "all_digits (take 4 (period_str p))" "all_digits (take 2 (drop 5 (period_str p)))"
    by (auto simp: period_valid_def period_parse_def split: if_splits option.splits)
  then show ?thesis by (simp add: period_check_def)
qed

subsection \<open>Walking a list page by page\<close>

text \<open>
  The walk the doc comments of the list operations describe: ask for a page, then for the page
  beyond the \<open>created_at\<close> of its last row, until a page is empty. \<open>fuel\<close> bounds the number of pages.
\<close>

fun walk_pages :: "nat \<Rightarrow> (int option \<Rightarrow> 'r list) \<Rightarrow> ('r \<Rightarrow> int) \<Rightarrow> int option \<Rightarrow> 'r list" where
  "walk_pages 0 page at cursor = []"
| "walk_pages (Suc fuel) page at cursor =
     (let rows = page cursor in
      if rows = [] then [] else rows @ walk_pages fuel page at (Some (at (last rows))))"

text \<open>
  What a paged read promises when no two of its rows share a \<open>created_at\<close>: \<open>rows\<close> is the full result in
  its order, a page is at most \<open>size\<close> rows of it, and a cursor taken from a row continues after it.
\<close>

locale keyset_pages =
  fixes rows :: "'r list" and at :: "'r \<Rightarrow> int" and size :: nat
    and page :: "int option \<Rightarrow> 'r list"
  assumes first: "page None = take size rows"
    and beyond: "distinct (map at rows) \<Longrightarrow> i < length rows \<Longrightarrow>
      page (Some (at (rows ! i))) = take size (drop (Suc i) rows)"
    and size_pos: "0 < size"
begin

lemma walk_from:
  assumes "distinct (map at rows)" "page cursor = take size (drop k rows)" "length rows < k + fuel"
  shows "walk_pages fuel page at cursor = drop k rows"
  using assms(2,3)
proof (induction fuel arbitrary: k cursor)
  case 0
  then show ?case by simp
next
  case (Suc fuel)
  show ?case
  proof (cases "k < length rows")
    case False
    then show ?thesis using Suc.prems by simp
  next
    case True
    define m where "m = min size (length rows - k)"
    have m: "0 < m" "k + m \<le> length rows" using True size_pos by (auto simp: m_def)
    have page_eq: "page cursor = take m (drop k rows)" using Suc.prems by (simp add: m_def min_def)
    have last: "last (page cursor) = rows ! (k + m - 1)"
      using m by (simp add: page_eq last_conv_nth)
    have "page (Some (at (rows ! (k + m - 1)))) = take size (drop (k + m) rows)"
      using beyond [OF assms(1), of "k + m - 1"] m by simp
    then have "walk_pages fuel page at (Some (at (rows ! (k + m - 1)))) = drop (k + m) rows"
      using Suc.prems m by (intro Suc.IH) auto
    moreover have "page cursor \<noteq> []" using m True by (simp add: page_eq)
    ultimately have "walk_pages (Suc fuel) page at cursor = take m (drop k rows) @ drop (k + m) rows"
      using page_eq last by (simp add: Let_def)
    also have "\<dots> = drop k rows" by (metis add.commute append_take_drop_id drop_drop)
    finally show ?thesis .
  qed
qed

lemma walk_all:
  "distinct (map at rows) \<Longrightarrow> length rows < fuel \<Longrightarrow> walk_pages fuel page at None = rows"
  using walk_from [of None 0 fuel] first by simp

end

text \<open>The rows of a strictly sorted list beyond one of its rows.\<close>

lemma filter_beyond:
  "sorted_wrt (<) (map f rows) \<Longrightarrow> i < length rows \<Longrightarrow>
   filter (\<lambda>r. (f (rows ! i) :: int) < f r) rows = drop (Suc i) rows"
proof (induction rows arbitrary: i)
  case (Cons r rows)
  show ?case
  proof (cases i)
    case 0
    with Cons.prems show ?thesis by (simp add: filter_id_conv)
  next
    case (Suc j)
    with Cons.prems have "j < length rows" by simp
    then have "f r < f (rows ! j)" using Cons.prems by simp
    then have "\<not> f (rows ! j) < f r" by simp
    with Suc Cons show ?thesis by simp
  qed
qed simp

lemma strict_sort_key:
  "distinct (map f rows) \<Longrightarrow> sorted_wrt (<) (map f (sort_key f rows :: 'r list) :: int list)"
proof -
  assume "distinct (map f rows)"
  moreover have "mset (map f (sort_key f rows)) = mset (map f rows)" by simp
  ultimately have "distinct (map f (sort_key f rows))" by (metis mset_eq_imp_distinct_iff)
  then show ?thesis by (simp add: strict_sorted_iff)
qed

lemma sort_key_beyond:
  assumes "distinct (map (f :: 'r \<Rightarrow> int) (sort_key f rows))" "i < length (sort_key f rows)"
  shows "sort_key f (filter (\<lambda>r. f (sort_key f rows ! i) < f r) rows) = drop (Suc i) (sort_key f rows)"
proof -
  have "mset (map f (sort_key f rows)) = mset (map f rows)" by simp
  then have "distinct (map f rows)" using assms(1) by (metis mset_eq_imp_distinct_iff)
  then have "sorted_wrt (<) (map f (sort_key f rows))" by (rule strict_sort_key)
  from filter_beyond [OF this assms(2)] show ?thesis by (simp add: filter_sort)
qed

subsection \<open>Concrete states\<close>

text \<open>
  A small state for evaluating the definitions on: two accounts, one project, an empty ledger and the
  shipped policy; and weather in which everything is delivered at one time with one fresh identifier.
\<close>

definition demo_sys :: sys where
  "demo_sys = \<lparr>accounts = [''alice'', ''bob''], projects = [''proj''], grants = [], balances = [],
     requests = [], policy_sets = [], policy_revisions = [],
     live_engine = \<lparr>active = default_rule_set, evaluation_budget = 1000\<rparr>\<rparr>"

definition fair :: "int \<Rightarrow> string \<Rightarrow> nat \<Rightarrow> weather" where
  "fair now fresh_id = (\<lambda>n i. \<lparr>o_net = Delivered, o_now = now, o_cuid = fresh_id\<rparr>)"

definition aug_2026 :: period where
  "aug_2026 = Period ''2026-08''"

lemma demo_sys_simps:
  "accounts demo_sys = [''alice'', ''bob'']" "projects demo_sys = [''proj'']" "grants demo_sys = []"
  "balances demo_sys = []" "requests demo_sys = []" "policy_sets demo_sys = []"
  "policy_revisions demo_sys = []"
  "live_engine demo_sys = \<lparr>active = default_rule_set, evaluation_budget = 1000\<rparr>"
  by (simp_all add: demo_sys_def)

lemma calm_fair [simp]: "calm (fair now fresh_id)"
  by (simp add: calm_def fair_def)

lemma fair_simps [simp]:
  "o_net (fair now fresh_id n i) = Delivered" "o_now (fair now fresh_id n i) = now"
  "o_cuid (fair now fresh_id n i) = fresh_id"
  by (simp_all add: fair_def)

lemma aug_2026_valid [simp]: "period_valid aug_2026"
proof -
  have lit: "''2026-08'' = ym_text 2026 8" by (simp add: ym_text_eval)
  show ?thesis unfolding aug_2026_def period_valid_iff
    by (rule exI [of _ 2026], rule exI [of _ 8]) (simp add: lit)
qed

end
