(* ===== verification/Grant_Ledger.thy ===== *)
theory Grant_Ledger
  imports Budget_Schema
begin

text \<open>
  repo.rs: the append-only grant ledger and its balance projection. The transaction of \<open>grant\<close> is
  built statement by statement as the code has it; the reads are one query each. \<open>ledger_ok\<close> is the
  invariant of the two tables: the constraints of the migrations and the replay equation, that every
  stored balance is what rebuilding it from the ledger gives.
\<close>

subsection \<open>Requests and conversions\<close>

record grant_request =
  gq_budget_account_id :: string
  gq_account_id :: string
  gq_project_id :: "string option"
  gq_period :: period
  gq_amount_micros :: int
  gq_source :: grant_source
  gq_actor_id :: "string option"
  gq_reason :: "string option"
  gq_policy_revision :: "string option"
  gq_matched_rule_ids :: "string list option"
  gq_idempotency_key :: "string option"
  gq_trigger_key :: "string option"
  gq_expires_at :: "int option"

definition stored_invalid :: "string \<Rightarrow> budget_error \<Rightarrow> budget_error" where
  "stored_invalid column err =
     StorageFailed (''stored '' @ column @ '' is invalid: '' @ budget_error_display err)"

definition grant_try_from :: "grant_row \<Rightarrow> budget_grant bresult" where
  "grant_try_from row =
     res_bind (map_err (stored_invalid ''budget_grants.period'') (period_parse (g_period row))) (\<lambda>p.
     res_bind (map_err (stored_invalid ''budget_grants.source'') (source_from_str (g_source row))) (\<lambda>src.
     Inr \<lparr>g_id = g_id row, g_budget_account_id = g_budget_account_id row,
          g_account_id = g_account_id row, g_project_id = g_project_id row, g_period = p,
          g_amount_micros = g_amount_micros row, g_source = src, g_actor_id = g_actor_id row,
          g_reason = g_reason row, g_policy_revision = g_policy_revision row,
          g_matched_rule_ids = g_matched_rule_ids row,
          g_idempotency_key = g_idempotency_key row, g_trigger_key = g_trigger_key row,
          g_created_at = g_created_at row, g_expires_at = g_expires_at row,
          g_revoked_at = g_revoked_at row\<rparr>))"

definition balance_try_from :: "balance_row \<Rightarrow> balance_snapshot bresult" where
  "balance_try_from row =
     res_bind (map_err (stored_invalid ''budget_balances.period'') (period_parse (b_period row))) (\<lambda>p.
     Inr \<lparr>b_budget_account_id = b_budget_account_id row, b_period = p,
          b_base_total_micros = b_base_total_micros row,
          b_self_service_total_micros = b_self_service_total_micros row,
          b_admin_total_micros = b_admin_total_micros row,
          b_automatic_total_micros = b_automatic_total_micros row,
          b_refund_total_micros = b_refund_total_micros row,
          b_effective_budget_micros = b_effective_budget_micros row,
          b_self_service_grant_count = b_self_service_grant_count row,
          b_automatic_grant_count = b_automatic_grant_count row,
          b_version = b_version row, b_updated_at = b_updated_at row\<rparr>)"

text \<open>\<open>BalanceSnapshot::zero\<close> stamps the clock.\<close>

definition zero_balance :: "int \<Rightarrow> string \<Rightarrow> 'p \<Rightarrow> 'p balance_data" where
  "zero_balance now acct p =
     \<lparr>b_budget_account_id = acct, b_period = p, b_base_total_micros = 0,
      b_self_service_total_micros = 0, b_admin_total_micros = 0, b_automatic_total_micros = 0,
      b_refund_total_micros = 0, b_effective_budget_micros = 0, b_self_service_grant_count = 0,
      b_automatic_grant_count = 0, b_version = 0, b_updated_at = now\<rparr>"

definition sign_is_valid :: "grant_source \<Rightarrow> int \<Rightarrow> bool" where
  "sign_is_valid src amount = (case src of Correction \<Rightarrow> amount \<noteq> 0 | _ \<Rightarrow> amount > 0)"

definition validate_amount_sign :: "grant_source \<Rightarrow> int \<Rightarrow> unit bresult" where
  "validate_amount_sign src amount =
     (if sign_is_valid src amount then Inr () else Inl (InvalidAmount amount))"

subsection \<open>The statements of the grant transaction\<close>

definition balance_at :: "string \<Rightarrow> string \<Rightarrow> balance_row \<Rightarrow> bool" where
  "balance_at acct per b \<longleftrightarrow> b_budget_account_id b = acct \<and> b_period b = per"

definition bootstrap_balance :: "string \<Rightarrow> string \<Rightarrow> int \<Rightarrow> sys \<Rightarrow> (string, unit \<times> sys) result" where
  "bootstrap_balance acct per now s =
     (if \<not> period_check per then Inl ''budget_balances_period_format_chk''
      else if list_ex (balance_at acct per) (balances s) then Inr ((), s)
      else if acct \<notin> set (accounts s) then Inl ''budget_balances_budget_account_id_fkey''
      else Inr ((), s\<lparr>balances := balances s @ [zero_balance now acct per]\<rparr>))"

definition lock_balance :: "string \<Rightarrow> string \<Rightarrow> sys \<Rightarrow> (string, string) result" where
  "lock_balance acct per s =
     fetch_one (map_option b_budget_account_id (find (balance_at acct per) (balances s)))"

text \<open>The columns \<open>GRANT_INSERT_SQL\<close> names; \<open>created_at\<close> and \<open>revoked_at\<close> take their defaults.\<close>

definition new_grant_row :: "string \<Rightarrow> grant_request \<Rightarrow> int \<Rightarrow> grant_row" where
  "new_grant_row gid req now =
     \<lparr>g_id = gid, g_budget_account_id = gq_budget_account_id req, g_account_id = gq_account_id req,
      g_project_id = gq_project_id req, g_period = period_str (gq_period req),
      g_amount_micros = gq_amount_micros req, g_source = source_as_str (gq_source req),
      g_actor_id = gq_actor_id req, g_reason = gq_reason req,
      g_policy_revision = gq_policy_revision req, g_matched_rule_ids = gq_matched_rule_ids req,
      g_idempotency_key = gq_idempotency_key req, g_trigger_key = gq_trigger_key req,
      g_created_at = now, g_expires_at = gq_expires_at req, g_revoked_at = None\<rparr>"

definition source_values :: "string list" where
  "source_values = [''base'', ''self_service'', ''admin'', ''automatic'', ''manual_approval'',
                    ''refund'', ''correction'', ''promotion'', ''migration'']"

definition amount_sign_check :: "string \<Rightarrow> int \<Rightarrow> bool" where
  "amount_sign_check src amount \<longleftrightarrow>
     (src = ''correction'' \<and> amount \<noteq> 0) \<or> (src \<noteq> ''correction'' \<and> amount > 0)"

definition grant_checks :: "grant_row \<Rightarrow> bool" where
  "grant_checks r \<longleftrightarrow> period_check (g_period r) \<and> g_source r \<in> set source_values \<and>
     amount_sign_check (g_source r) (g_amount_micros r)"

definition grant_fks :: "sys \<Rightarrow> grant_row \<Rightarrow> bool" where
  "grant_fks s r \<longleftrightarrow> g_budget_account_id r \<in> set (accounts s) \<and> g_account_id r \<in> set (accounts s) \<and>
     fk_ok (projects s) (g_project_id r)"

text \<open>
  The \<open>CHECK\<close> constraints are tested before \<open>ON CONFLICT\<close>, the other unique indexes and the foreign
  keys only for a row that is inserted.
\<close>

definition insert_grant :: "grant_row \<Rightarrow> sys \<Rightarrow> (string, grant_row option \<times> sys) result" where
  "insert_grant r s =
     (if \<not> grant_checks r then Inl ''budget_grants check constraint''
      else if key_taken g_idempotency_key (grants s) (g_idempotency_key r) then Inr (None, s)
      else if g_id r \<in> g_id ` set (grants s) then Inl ''budget_grants_pkey''
      else if key_taken g_trigger_key (grants s) (g_trigger_key r)
      then Inl ''budget_grants_trigger_key_uidx''
      else if \<not> grant_fks s r then Inl ''budget_grants foreign key''
      else Inr (Some r, s\<lparr>grants := grants s @ [r]\<rparr>))"

definition select_grant_by_key :: "string option \<Rightarrow> sys \<Rightarrow> (string, grant_row) result" where
  "select_grant_by_key k s = fetch_one (find (\<lambda>r. sql_eq (g_idempotency_key r) k) (grants s))"

definition bump_balance :: "string \<Rightarrow> int \<Rightarrow> int \<Rightarrow> balance_row \<Rightarrow> balance_row" where
  "bump_balance src amount now b =
     b\<lparr>b_base_total_micros := b_base_total_micros b +
         (if src \<in> {''base'', ''migration''} then amount else 0),
       b_self_service_total_micros := b_self_service_total_micros b +
         (if src = ''self_service'' then amount else 0),
       b_admin_total_micros := b_admin_total_micros b +
         (if src \<in> {''admin'', ''manual_approval'', ''promotion''} then amount else 0),
       b_automatic_total_micros := b_automatic_total_micros b +
         (if src = ''automatic'' then amount else 0),
       b_refund_total_micros := b_refund_total_micros b + (if src = ''refund'' then amount else 0),
       b_effective_budget_micros := b_effective_budget_micros b + amount,
       b_self_service_grant_count := b_self_service_grant_count b +
         (if src = ''self_service'' then 1 else 0),
       b_automatic_grant_count := b_automatic_grant_count b + (if src = ''automatic'' then 1 else 0),
       b_version := b_version b + 1,
       b_updated_at := now\<rparr>"

text \<open>\<open>BIGINT\<close> and \<open>INTEGER\<close> columns: an out-of-range result is a database error.\<close>

definition balance_fits :: "balance_row \<Rightarrow> bool" where
  "balance_fits b \<longleftrightarrow>
     fits_i64 (b_base_total_micros b) \<and> fits_i64 (b_self_service_total_micros b) \<and>
     fits_i64 (b_admin_total_micros b) \<and> fits_i64 (b_automatic_total_micros b) \<and>
     fits_i64 (b_refund_total_micros b) \<and> fits_i64 (b_effective_budget_micros b) \<and>
     fits_i32 (b_self_service_grant_count b) \<and> fits_i32 (b_automatic_grant_count b) \<and>
     fits_i64 (b_version b)"

definition update_balance ::
  "string \<Rightarrow> string \<Rightarrow> string \<Rightarrow> int \<Rightarrow> int \<Rightarrow> sys \<Rightarrow> (string, unit \<times> sys) result" where
  "update_balance acct per src amount now s =
     (if list_all (\<lambda>b. balance_at acct per b \<longrightarrow> balance_fits (bump_balance src amount now b)) (balances s)
      then Inr ((), s\<lparr>balances :=
             map (\<lambda>b. if balance_at acct per b then bump_balance src amount now b else b) (balances s)\<rparr>)
      else Inl ''out of range'')"

subsection \<open>BudgetRepo\<close>

definition grant_body :: "grant_request \<Rightarrow> int \<Rightarrow> (sys, grant_row) op" where
  "grant_body req now =
     (let acct = gq_budget_account_id req; per = period_str (gq_period req);
          src = source_as_str (gq_source req) in
      obind (stmt (\<lambda>_. bootstrap_balance acct per now)) (\<lambda>_.
      obind (query (lock_balance acct per)) (\<lambda>_.
      obind cuid2 (\<lambda>gid.
      obind (stmt (\<lambda>_. insert_grant (new_grant_row gid req now))) (\<lambda>inserted.
      case inserted of
        Some row \<Rightarrow>
          obind (stmt (\<lambda>_. update_balance acct per src (gq_amount_micros req) now)) (\<lambda>_. ok row)
      | None \<Rightarrow> query (select_grant_by_key (gq_idempotency_key req)))))))"

definition grant :: "grant_request \<Rightarrow> (sys, budget_grant) op" where
  "grant req =
     obind (Ret (validate_amount_sign (gq_source req) (gq_amount_micros req))) (\<lambda>_.
     obind (transaction (grant_body req)) (\<lambda>row. Ret (grant_try_from row)))"

record derived_balance =
  d_budget_account_id :: string
  d_period :: string
  d_base_total_micros :: int
  d_self_service_total_micros :: int
  d_admin_total_micros :: int
  d_automatic_total_micros :: int
  d_refund_total_micros :: int
  d_effective_budget_micros :: int
  d_self_service_grant_count :: int
  d_automatic_grant_count :: int

definition grant_key :: "grant_row \<Rightarrow> string \<times> string" where
  "grant_key r = (g_budget_account_id r, g_period r)"

definition sum_where :: "(string \<Rightarrow> bool) \<Rightarrow> grant_row list \<Rightarrow> int" where
  "sum_where P rows = sum_list (map (\<lambda>r. if P (g_source r) then g_amount_micros r else 0) rows)"

definition count_where :: "(string \<Rightarrow> bool) \<Rightarrow> grant_row list \<Rightarrow> int" where
  "count_where P rows = sum_list (map (\<lambda>r. if P (g_source r) then 1 else 0) rows)"

text \<open>One group of \<open>REBUILD_ALL_BALANCES_SQL\<close>.\<close>

definition derive_balance :: "string \<times> string \<Rightarrow> grant_row list \<Rightarrow> derived_balance" where
  "derive_balance k all_rows =
     (let rows = filter (\<lambda>r. grant_key r = k) all_rows in
      \<lparr>d_budget_account_id = fst k, d_period = snd k,
       d_base_total_micros = sum_where (\<lambda>src. src \<in> {''base'', ''migration''}) rows,
       d_self_service_total_micros = sum_where (\<lambda>src. src = ''self_service'') rows,
       d_admin_total_micros =
         sum_where (\<lambda>src. src \<in> {''admin'', ''manual_approval'', ''promotion''}) rows,
       d_automatic_total_micros = sum_where (\<lambda>src. src = ''automatic'') rows,
       d_refund_total_micros = sum_where (\<lambda>src. src = ''refund'') rows,
       d_effective_budget_micros = sum_where (\<lambda>_. True) rows,
       d_self_service_grant_count = count_where (\<lambda>src. src = ''self_service'') rows,
       d_automatic_grant_count = count_where (\<lambda>src. src = ''automatic'') rows\<rparr>)"

definition derived_fits :: "derived_balance \<Rightarrow> bool" where
  "derived_fits d \<longleftrightarrow>
     fits_i64 (d_base_total_micros d) \<and> fits_i64 (d_self_service_total_micros d) \<and>
     fits_i64 (d_admin_total_micros d) \<and> fits_i64 (d_automatic_total_micros d) \<and>
     fits_i64 (d_refund_total_micros d) \<and> fits_i64 (d_effective_budget_micros d) \<and>
     fits_i32 (d_self_service_grant_count d) \<and> fits_i32 (d_automatic_grant_count d)"

definition rebuild_all_balances :: "(sys, derived_balance list) op" where
  "rebuild_all_balances = query (\<lambda>s.
     let ds = map (\<lambda>k. derive_balance k (grants s)) (remdups (map grant_key (grants s))) in
     if list_all derived_fits ds then Inr ds else Inl ''out of range'')"

definition counts_at :: "int \<Rightarrow> grant_row \<Rightarrow> bool" where
  "counts_at as_of r \<longleftrightarrow> null_or (g_expires_at r) (\<lambda>e. e > as_of) \<and> g_revoked_at r = None"

definition effective_balance :: "string \<Rightarrow> period \<Rightarrow> int \<Rightarrow> (sys, int) op" where
  "effective_balance acct per as_of = query (\<lambda>s.
     let total = sum_list (map g_amount_micros
           (filter (\<lambda>r. g_budget_account_id r = acct \<and> g_period r = period_str per \<and> counts_at as_of r)
              (grants s)))
     in if fits_i64 total then Inr total else Inl ''bigint out of range'')"

definition tier_sources :: "string list" where
  "tier_sources = [''base'', ''self_service'', ''automatic'', ''admin'', ''manual_approval'', ''promotion'']"

definition latest_tier_amount :: "string \<Rightarrow> string \<Rightarrow> sys \<Rightarrow> int option" where
  "latest_tier_amount acct per s =
     (case order_desc g_created_at (filter (\<lambda>r. g_budget_account_id r = acct \<and> g_period r = per \<and>
             g_source r \<in> set tier_sources) (grants s)) of
        [] \<Rightarrow> None | r # _ \<Rightarrow> Some (g_amount_micros r))"

definition current_tier :: "string \<Rightarrow> period \<Rightarrow> (sys, budget_tier) op" where
  "current_tier acct per =
     obind (query (\<lambda>s. Inr (latest_tier_amount acct (period_str per) s))) (\<lambda>row.
     ok (case row of
           Some amount \<Rightarrow> (case tier_from_amount_micros amount of None \<Rightarrow> B15 | Some t \<Rightarrow> t)
         | None \<Rightarrow> B15))"

definition get_balance :: "string \<Rightarrow> period \<Rightarrow> (sys, balance_snapshot option) op" where
  "get_balance acct per =
     obind (query (\<lambda>s. Inr (find (balance_at acct (period_str per)) (balances s)))) (\<lambda>row.
     Ret (transpose_map balance_try_from row))"

definition get_grant_by_id :: "string \<Rightarrow> (sys, budget_grant) op" where
  "get_grant_by_id gid =
     obind (query (\<lambda>s. Inr (find (\<lambda>r. g_id r = gid) (grants s)))) (\<lambda>row.
     case row of
       None \<Rightarrow> fail (NotFound (''budget grant '' @ CHR 0x27 # gid @ [CHR 0x27]))
     | Some r \<Rightarrow> Ret (grant_try_from r))"

definition MAX_LIST_GRANTS_LIMIT :: int where
  "MAX_LIST_GRANTS_LIMIT = 200"

definition grants_page :: "string \<Rightarrow> string option \<Rightarrow> int option \<Rightarrow> int \<Rightarrow> sys \<Rightarrow> grant_row list" where
  "grants_page acct per before lim s =
     limit_rows lim (order_desc g_created_at
       (filter (\<lambda>r. g_budget_account_id r = acct \<and> null_or per (\<lambda>p. g_period r = p) \<and>
                    null_or before (\<lambda>t. g_created_at r < t)) (grants s)))"

definition list_grants ::
  "string \<Rightarrow> period option \<Rightarrow> int option \<Rightarrow> int \<Rightarrow> (sys, budget_grant list) op" where
  "list_grants acct per before lim =
     (let clamped = clamp_int 1 MAX_LIST_GRANTS_LIMIT lim in
      obind (query (\<lambda>s. Inr (grants_page acct (map_option period_str per) before clamped s))) (\<lambda>rows.
      Ret (collect_results (map grant_try_from rows))))"

subsection \<open>The ledger invariant\<close>

text \<open>What the projection of a balance row is compared on: everything but \<open>version\<close> and \<open>updated_at\<close>.\<close>

definition projection :: "balance_row \<Rightarrow> derived_balance" where
  "projection b =
     \<lparr>d_budget_account_id = b_budget_account_id b, d_period = b_period b,
      d_base_total_micros = b_base_total_micros b,
      d_self_service_total_micros = b_self_service_total_micros b,
      d_admin_total_micros = b_admin_total_micros b,
      d_automatic_total_micros = b_automatic_total_micros b,
      d_refund_total_micros = b_refund_total_micros b,
      d_effective_budget_micros = b_effective_budget_micros b,
      d_self_service_grant_count = b_self_service_grant_count b,
      d_automatic_grant_count = b_automatic_grant_count b\<rparr>"

definition balance_key :: "balance_row \<Rightarrow> string \<times> string" where
  "balance_key b = (b_budget_account_id b, b_period b)"

definition grants_ok :: "sys \<Rightarrow> bool" where
  "grants_ok s \<longleftrightarrow>
     distinct (map g_id (grants s)) \<and> unique_keys g_idempotency_key (grants s) \<and>
     unique_keys g_trigger_key (grants s) \<and>
     (\<forall>r\<in>set (grants s). grant_checks r \<and> grant_fks s r)"

definition balances_ok :: "sys \<Rightarrow> bool" where
  "balances_ok s \<longleftrightarrow>
     distinct (map balance_key (balances s)) \<and>
     (\<forall>b\<in>set (balances s). projection b = derive_balance (balance_key b) (grants s) \<and> balance_fits b) \<and>
     grant_key ` set (grants s) \<subseteq> balance_key ` set (balances s)"

definition ledger_ok :: "sys \<Rightarrow> bool" where
  "ledger_ok s \<longleftrightarrow> grants_ok s \<and> balances_ok s"

subsection \<open>What a committed grant transaction did\<close>

definition boot :: "grant_request \<Rightarrow> int \<Rightarrow> sys \<Rightarrow> sys" where
  "boot req now s =
     (let acct = gq_budget_account_id req; per = period_str (gq_period req) in
      if list_ex (balance_at acct per) (balances s) then s
      else s\<lparr>balances := balances s @ [zero_balance now acct per]\<rparr>)"

definition replayed :: "grant_request \<Rightarrow> int \<Rightarrow> sys \<Rightarrow> grant_row \<Rightarrow> sys \<Rightarrow> bool" where
  "replayed req now s row s' \<longleftrightarrow>
     gq_idempotency_key req \<noteq> None \<and> g_idempotency_key row = gq_idempotency_key req \<and>
     row \<in> set (grants s) \<and> s' = boot req now s \<and> period_check (period_str (gq_period req)) \<and>
     (list_ex (balance_at (gq_budget_account_id req) (period_str (gq_period req))) (balances s) \<or>
      gq_budget_account_id req \<in> set (accounts s))"

definition recorded :: "grant_request \<Rightarrow> int \<Rightarrow> sys \<Rightarrow> grant_row \<Rightarrow> sys \<Rightarrow> bool" where
  "recorded req now s row s' \<longleftrightarrow>
     (\<exists>gid. row = new_grant_row gid req now) \<and> grant_checks row \<and> grant_fks s row \<and>
     \<not> key_taken g_idempotency_key (grants s) (g_idempotency_key row) \<and>
     \<not> key_taken g_trigger_key (grants s) (g_trigger_key row) \<and> g_id row \<notin> g_id ` set (grants s) \<and>
     (\<forall>b\<in>set (balances (boot req now s)). balance_key b = grant_key row \<longrightarrow>
        balance_fits (bump_balance (g_source row) (g_amount_micros row) now b)) \<and>
     s' = (boot req now s)\<lparr>grants := grants s @ [row],
            balances := map (\<lambda>b. if balance_key b = grant_key row
              then bump_balance (g_source row) (g_amount_micros row) now b else b)
              (balances (boot req now s))\<rparr>"

lemma boot_simps [simp]:
  "grants (boot req now s) = grants s" "accounts (boot req now s) = accounts s"
  "projects (boot req now s) = projects s" "requests (boot req now s) = requests s"
  "policy_sets (boot req now s) = policy_sets s"
  "policy_revisions (boot req now s) = policy_revisions s"
  "live_engine (boot req now s) = live_engine s"
  by (simp_all add: boot_def Let_def)

lemma balance_at_key: "balance_at acct per b \<longleftrightarrow> balance_key b = (acct, per)"
  by (auto simp: balance_at_def balance_key_def)

lemma new_grant_row_simps [simp]:
  "g_id (new_grant_row gid req now) = gid"
  "grant_key (new_grant_row gid req now) = (gq_budget_account_id req, period_str (gq_period req))"
  "g_source (new_grant_row gid req now) = source_as_str (gq_source req)"
  "g_amount_micros (new_grant_row gid req now) = gq_amount_micros req"
  "g_idempotency_key (new_grant_row gid req now) = gq_idempotency_key req"
  "g_trigger_key (new_grant_row gid req now) = gq_trigger_key req"
  "g_created_at (new_grant_row gid req now) = now"
  by (simp_all add: new_grant_row_def grant_key_def)

lemma bootstrap_balance_Inr:
  "bootstrap_balance (gq_budget_account_id req) (period_str (gq_period req)) now s = Inr (u, s1) \<longleftrightarrow>
   s1 = boot req now s \<and> period_check (period_str (gq_period req)) \<and>
   (list_ex (balance_at (gq_budget_account_id req) (period_str (gq_period req))) (balances s) \<or>
    gq_budget_account_id req \<in> set (accounts s))"
  by (auto simp: bootstrap_balance_def boot_def Let_def)

lemma select_grant_by_key_Inr:
  "select_grant_by_key k s = Inr row \<Longrightarrow>
   row \<in> set (grants s) \<and> k \<noteq> None \<and> g_idempotency_key row = k"
  by (auto simp: select_grant_by_key_def fetch_one_def sql_eq_def find_Some_iff split: option.splits)

lemma insert_grant_Inr:
  "insert_grant r s = Inr (ins, s') \<Longrightarrow>
   grant_checks r \<and>
   (case ins of
      None \<Rightarrow> key_taken g_idempotency_key (grants s) (g_idempotency_key r) \<and> s' = s
    | Some r' \<Rightarrow> r' = r \<and> \<not> key_taken g_idempotency_key (grants s) (g_idempotency_key r) \<and>
        g_id r \<notin> g_id ` set (grants s) \<and> \<not> key_taken g_trigger_key (grants s) (g_trigger_key r) \<and>
        grant_fks s r \<and> s' = s\<lparr>grants := grants s @ [r]\<rparr>)"
  by (auto simp: insert_grant_def split: if_splits)

lemma grant_body_Inr:
  assumes "run (grant_body req now) env n s = (Inr row, n', s')"
  shows "replayed req now s row s' \<or> recorded req now s row s'"
proof -
  let ?acct = "gq_budget_account_id req" and ?per = "period_str (gq_period req)"
  obtain gid ins n1 s1 s2 where
    boot: "bootstrap_balance ?acct ?per now s = Inr ((), s1)" and
    ins: "insert_grant (new_grant_row gid req now) s1 = Inr (ins, s2)" and
    rest: "run (case ins of
        None \<Rightarrow> query (select_grant_by_key (gq_idempotency_key req))
      | Some row \<Rightarrow> obind (stmt (\<lambda>_. update_balance ?acct ?per (source_as_str (gq_source req))
                       (gq_amount_micros req) now)) (\<lambda>_. ok row)) env n1 s2 = (Inr row, n', s')"
    using assms
    by (auto simp: grant_body_def Let_def cuid2_def run_observe elim!: run_obind_Inr
        dest!: run_stmt_Inr run_query_Inr)
  note facts = boot [unfolded bootstrap_balance_Inr] insert_grant_Inr [OF ins]
  show ?thesis
  proof (cases ins)
    case None
    with rest facts show ?thesis
      by (auto simp: replayed_def dest!: run_query_Inr select_grant_by_key_Inr)
  next
    case (Some r)
    with rest have "update_balance ?acct ?per (source_as_str (gq_source req)) (gq_amount_micros req)
        now s2 = Inr ((), s') \<and> row = r"
      by (auto elim!: run_obind_Inr dest!: run_stmt_Inr)
    with facts Some show ?thesis
      by (auto simp: recorded_def update_balance_def grant_fks_def balance_at_key list_all_iff
          split: if_splits)
  qed
qed

subsection \<open>The replay equation is kept\<close>

definition derived_add :: "string \<Rightarrow> int \<Rightarrow> derived_balance \<Rightarrow> derived_balance" where
  "derived_add src amount d =
     d\<lparr>d_base_total_micros := d_base_total_micros d +
         (if src \<in> {''base'', ''migration''} then amount else 0),
       d_self_service_total_micros := d_self_service_total_micros d +
         (if src = ''self_service'' then amount else 0),
       d_admin_total_micros := d_admin_total_micros d +
         (if src \<in> {''admin'', ''manual_approval'', ''promotion''} then amount else 0),
       d_automatic_total_micros := d_automatic_total_micros d +
         (if src = ''automatic'' then amount else 0),
       d_refund_total_micros := d_refund_total_micros d + (if src = ''refund'' then amount else 0),
       d_effective_budget_micros := d_effective_budget_micros d + amount,
       d_self_service_grant_count := d_self_service_grant_count d +
         (if src = ''self_service'' then 1 else 0),
       d_automatic_grant_count := d_automatic_grant_count d + (if src = ''automatic'' then 1 else 0)\<rparr>"

lemma sum_where_simps [simp]:
  "sum_where P [] = 0"
  "sum_where P (rows @ [r]) = sum_where P rows + (if P (g_source r) then g_amount_micros r else 0)"
  "count_where P [] = 0"
  "count_where P (rows @ [r]) = count_where P rows + (if P (g_source r) then 1 else 0)"
  by (simp_all add: sum_where_def count_where_def)

lemma derive_balance_append:
  "derive_balance k (rows @ [r]) =
     (if grant_key r = k then derived_add (g_source r) (g_amount_micros r) (derive_balance k rows)
      else derive_balance k rows)"
  by (simp add: derive_balance_def derived_add_def Let_def)

lemma projection_bump: "projection (bump_balance src amount now b) = derived_add src amount (projection b)"
  by (simp add: projection_def bump_balance_def derived_add_def)

lemma balance_key_bump [simp]: "balance_key (bump_balance src amount now b) = balance_key b"
  by (simp add: balance_key_def bump_balance_def)

lemma zero_balance_simps [simp]:
  "balance_key (zero_balance now acct per) = (acct, per)"
  "balance_fits (zero_balance now acct per)"
  by (simp_all add: zero_balance_def balance_key_def balance_fits_def i64_simps)

lemma derive_balance_none:
  "k \<notin> grant_key ` set rows \<Longrightarrow> derive_balance k rows = projection (zero_balance now (fst k) (snd k))"
proof -
  assume "k \<notin> grant_key ` set rows"
  then have "filter (\<lambda>r. grant_key r = k) rows = []" by (auto simp: filter_empty_conv)
  then show ?thesis by (simp add: derive_balance_def projection_def zero_balance_def)
qed

lemma balances_ok_boot: "balances_ok s \<Longrightarrow> balances_ok (boot req now s)"
proof (cases "list_ex (balance_at (gq_budget_account_id req) (period_str (gq_period req))) (balances s)")
  case False
  assume inv: "balances_ok s"
  let ?k = "(gq_budget_account_id req, period_str (gq_period req))"
  have absent: "?k \<notin> balance_key ` set (balances s)"
    using False by (auto simp: list_ex_iff balance_at_key)
  then have "?k \<notin> grant_key ` set (grants s)" using inv by (auto simp: balances_ok_def)
  from derive_balance_none [OF this, of now] inv absent False show ?thesis
    by (auto simp: balances_ok_def boot_def Let_def)
qed (simp add: boot_def Let_def)

lemma balance_present_boot:
  "(gq_budget_account_id req, period_str (gq_period req)) \<in> balance_key ` set (balances (boot req now s))"
  by (auto simp: boot_def Let_def list_ex_iff balance_at_key rev_image_eqI)

lemma ledger_ok_replayed: "ledger_ok s \<Longrightarrow> replayed req now s row s' \<Longrightarrow> ledger_ok s'"
  by (auto simp: ledger_ok_def replayed_def grants_ok_def grant_fks_def balances_ok_boot)

lemma ledger_ok_recorded:
  assumes "ledger_ok s" and rec: "recorded req now s row s'"
  shows "ledger_ok s'"
proof -
  from assms have g: "grants_ok s'"
    by (auto simp: ledger_ok_def grants_ok_def recorded_def grant_fks_def)
  have b1: "balances_ok (boot req now s)" using assms(1) by (simp add: ledger_ok_def balances_ok_boot)
  let ?f = "\<lambda>b. if balance_key b = grant_key row
              then bump_balance (g_source row) (g_amount_micros row) now b else b"
  have s': "balances s' = map ?f (balances (boot req now s))" "grants s' = grants s @ [row]"
    using rec by (simp_all add: recorded_def)
  have keys: "map balance_key (balances s') = map balance_key (balances (boot req now s))"
    by (simp add: s')
  have "grant_key row \<in> balance_key ` set (balances (boot req now s))"
    using rec balance_present_boot by (auto simp: recorded_def)
  with b1 have cover: "grant_key ` set (grants s') \<subseteq> balance_key ` set (balances s')"
    unfolding set_map [symmetric] keys by (auto simp: s' balances_ok_def)
  have "projection b = derive_balance (balance_key b) (grants s') \<and> balance_fits b"
    if "b \<in> set (balances s')" for b
  proof -
    from that obtain b0 where b0: "b0 \<in> set (balances (boot req now s))" "b = ?f b0" by (auto simp: s')
    with b1 rec show ?thesis
      by (auto simp: s' derive_balance_append projection_bump balances_ok_def recorded_def)
  qed
  with b1 keys cover g show ?thesis by (simp add: ledger_ok_def balances_ok_def)
qed

lemma grant_body_ledger_ok:
  "ledger_ok s \<Longrightarrow> run (grant_body req now) env n s = (Inr row, n', s') \<Longrightarrow> ledger_ok s'"
  using grant_body_Inr ledger_ok_replayed ledger_ok_recorded by blast

text \<open>
  The guarantee every action of every call gives: nothing is ever removed from or changed in the
  ledger, and the ledger invariant is kept. The reads of the repository change nothing at all.
\<close>

definition ledger_step :: "sys \<Rightarrow> sys \<Rightarrow> bool" where
  "ledger_step s s' \<longleftrightarrow> (\<exists>new. grants s' = grants s @ new) \<and> (ledger_ok s \<longrightarrow> ledger_ok s')"

interpretation ledger: guarantee ledger_step
  by unfold_locales (auto simp: ledger_step_def)

lemma grant_body_step: "run (grant_body req now) env n s = (Inr row, n', s') \<Longrightarrow> ledger_step s s'"
  using grant_body_Inr [of req now env n s row n' s'] grant_body_ledger_ok [of s]
  by (auto simp: ledger_step_def replayed_def recorded_def)

lemma guar_grant: "guar ledger_step (grant req)"
  unfolding grant_def
  by (intro ledger.guar_obind ledger.guar_transaction) (auto intro: grant_body_step)

subsection \<open>What a grant returns\<close>

text \<open>The conditions the tables put on a grant with a fresh key.\<close>

definition grantable :: "grant_request \<Rightarrow> sys \<Rightarrow> bool" where
  "grantable req s \<longleftrightarrow>
     sign_is_valid (gq_source req) (gq_amount_micros req) \<and> period_valid (gq_period req) \<and>
     gq_budget_account_id req \<in> set (accounts s) \<and> gq_account_id req \<in> set (accounts s) \<and>
     fk_ok (projects s) (gq_project_id req) \<and>
     \<not> key_taken g_trigger_key (grants s) (gq_trigger_key req) \<and>
     (\<forall>b\<in>set (zero_balance 0 (gq_budget_account_id req) (period_str (gq_period req)) # balances s).
        balance_at (gq_budget_account_id req) (period_str (gq_period req)) b \<longrightarrow>
        balance_fits (bump_balance (source_as_str (gq_source req)) (gq_amount_micros req) 0 b))"

lemma balance_fits_now:
  "balance_fits (bump_balance src amount now b) \<longleftrightarrow> balance_fits (bump_balance src amount 0 b)"
  "balance_fits (bump_balance src amount now (zero_balance t acct per)) \<longleftrightarrow>
   balance_fits (bump_balance src amount 0 (zero_balance 0 acct per))"
  by (simp_all add: balance_fits_def bump_balance_def zero_balance_def)

lemma source_as_str_simps [simp]:
  "source_as_str src \<in> set source_values"
  "source_as_str src = ''correction'' \<longleftrightarrow> src = Correction"
  "source_as_str src = ''self_service'' \<longleftrightarrow> src = SelfService"
  "source_as_str src = ''manual_approval'' \<longleftrightarrow> src = ManualApproval"
  "source_as_str src = ''automatic'' \<longleftrightarrow> src = Automatic"
  "source_as_str src = ''refund'' \<longleftrightarrow> src = Refund"
  by (cases src; simp add: source_values_def)+

lemma amount_sign_check_source [simp]:
  "amount_sign_check (source_as_str src) amount \<longleftrightarrow> sign_is_valid src amount"
  by (cases src) (simp_all add: amount_sign_check_def sign_is_valid_def)

lemma grant_checks_new:
  "sign_is_valid (gq_source req) (gq_amount_micros req) \<Longrightarrow> period_valid (gq_period req) \<Longrightarrow>
   grant_checks (new_grant_row gid req now)"
  by (simp add: grant_checks_def new_grant_row_def period_valid_check)

lemma grant_try_from_new:
  "period_valid (gq_period req) \<Longrightarrow>
   grant_try_from (new_grant_row gid req now) =
     Inr \<lparr>g_id = gid, g_budget_account_id = gq_budget_account_id req,
          g_account_id = gq_account_id req, g_project_id = gq_project_id req,
          g_period = gq_period req, g_amount_micros = gq_amount_micros req,
          g_source = gq_source req, g_actor_id = gq_actor_id req, g_reason = gq_reason req,
          g_policy_revision = gq_policy_revision req,
          g_matched_rule_ids = gq_matched_rule_ids req,
          g_idempotency_key = gq_idempotency_key req, g_trigger_key = gq_trigger_key req,
          g_created_at = now, g_expires_at = gq_expires_at req, g_revoked_at = None\<rparr>"
  by (simp add: grant_try_from_def new_grant_row_def)

lemma grant_try_from_Inr:
  "grant_try_from row = Inr g \<Longrightarrow>
   g_id g = g_id row \<and> g_amount_micros g = g_amount_micros row \<and> g_idempotency_key g = g_idempotency_key row \<and>
   g_budget_account_id g = g_budget_account_id row \<and> g_account_id g = g_account_id row \<and>
   g_project_id g = g_project_id row \<and> g_period row = period_str (g_period g) \<and> period_valid (g_period g) \<and>
   g_source row = source_as_str (g_source g) \<and> g_created_at g = g_created_at row"
  by (auto simp: grant_try_from_def res_bind_eq_Inr_conv source_enum.from_str_iff dest!: period_parse_valid)

lemma bootstrap_balance_ok:
  "period_valid (gq_period req) \<Longrightarrow> gq_budget_account_id req \<in> set (accounts s) \<Longrightarrow>
   bootstrap_balance (gq_budget_account_id req) (period_str (gq_period req)) now s =
     Inr ((), boot req now s)"
  by (simp add: bootstrap_balance_def boot_def period_valid_check Let_def)

lemma lock_balance_ok:
  "\<exists>a. lock_balance (gq_budget_account_id req) (period_str (gq_period req)) (boot req now s) = Inr a"
proof -
  let ?P = "balance_at (gq_budget_account_id req) (period_str (gq_period req))"
  obtain b where "find ?P (balances (boot req now s)) = Some b"
    using balance_present_boot [of req now s]
    by (cases "find ?P (balances (boot req now s))") (auto simp: find_None_iff balance_at_key)
  then show ?thesis by (simp add: lock_balance_def fetch_one_def)
qed

lemma grant_fits_boot:
  assumes "grantable req s" "b \<in> set (balances (boot req now s))"
    "balance_at (gq_budget_account_id req) (period_str (gq_period req)) b"
  shows "balance_fits (bump_balance (source_as_str (gq_source req)) (gq_amount_micros req) t b)"
proof -
  let ?acct = "gq_budget_account_id req" and ?per = "period_str (gq_period req)"
  let ?fits = "\<lambda>b. balance_fits (bump_balance (source_as_str (gq_source req)) (gq_amount_micros req) 0 b)"
  have zero: "?fits (zero_balance now ?acct ?per)"
    by (rule iffD2 [OF balance_fits_now(2)]) (use assms(1) in \<open>simp add: grantable_def balance_at_key\<close>)
  consider "b \<in> set (balances s)" | "b = zero_balance now ?acct ?per"
    using assms(2) by (auto simp: boot_def Let_def split: if_splits)
  then have "?fits b" using assms(1,3) zero by cases (simp_all add: grantable_def)
  then show ?thesis by (rule iffD2 [OF balance_fits_now(1)])
qed

lemma run_transaction_calm:
  assumes "calm env" and "run (body (o_now (env n 0))) (\<lambda>m i. env n (Suc (m + i))) 0 s = (Inr a, n1, s')"
  shows "run (transaction body) env n s = (Inr a, Suc n, s')"
  using assms by (simp add: transaction_def run_atomic)

lemma calm_inner: "calm env \<Longrightarrow> calm (\<lambda>m i. env n (Suc (m + i)))"
  by (simp add: calm_def)

text \<open>A grant with a fresh key, with every message delivered, is recorded and returned.\<close>

lemma grant_fresh:
  assumes "calm env" "grantable req s"
    "\<not> key_taken g_idempotency_key (grants s) (gq_idempotency_key req)"
    "o_cuid (env n 3) \<notin> g_id ` set (grants s)"
  defines "row \<equiv> new_grant_row (o_cuid (env n 3)) req (o_now (env n 0))"
  obtains s' where "run (grant req) env n s = (grant_try_from row, Suc n, s')"
    "recorded req (o_now (env n 0)) s row s'"
proof -
  let ?now = "o_now (env n 0)" and ?acct = "gq_budget_account_id req"
  let ?per = "period_str (gq_period req)" and ?env = "\<lambda>m i. env n (Suc (m + i))"
  let ?s1 = "boot req ?now s"
  note calm' = calm_inner [OF assms(1), of n]
  obtain a where lock: "lock_balance ?acct ?per ?s1 = Inr a" using lock_balance_ok by blast
  have "grant_fks ?s1 row"
    using assms(2) by (simp add: row_def grantable_def grant_fks_def new_grant_row_def)
  then have ins: "insert_grant row ?s1 = Inr (Some row, ?s1\<lparr>grants := grants s @ [row]\<rparr>)"
    using assms by (simp add: insert_grant_def grantable_def grant_checks_new)
  obtain s' where upd: "update_balance ?acct ?per (source_as_str (gq_source req)) (gq_amount_micros req)
      ?now (?s1\<lparr>grants := grants s @ [row]\<rparr>) = Inr ((), s')"
    using grant_fits_boot [OF assms(2)] by (auto simp: update_balance_def list_all_iff)
  have body: "run (grant_body req ?now) ?env 0 s = (Inr row, 5, s')"
    using assms lock ins upd
    by (simp add: grant_body_def Let_def run_obind run_stmt_calm [OF calm'] run_query_calm [OF calm']
        cuid2_def run_observe bootstrap_balance_ok grantable_def row_def eval_nat_numeral)
  have "\<not> replayed req ?now s row s'"
    using assms(3) by (force simp: replayed_def key_taken_iff)
  with grant_body_Inr [OF body] have "recorded req ?now s row s'" by blast
  moreover have "run (grant req) env n s = (grant_try_from row, Suc n, s')"
    using assms run_transaction_calm [where body = "grant_body req", OF assms(1) body]
    by (simp add: grant_def run_obind validate_amount_sign_def grantable_def)
  ultimately show ?thesis using that by blast
qed

text \<open>A grant whose key is taken returns the row that took it, and changes no ledger row and no amount.\<close>

lemma grant_replay:
  assumes "calm env" "grants_ok s" "sign_is_valid (gq_source req) (gq_amount_micros req)"
    "period_valid (gq_period req)" "gq_budget_account_id req \<in> set (accounts s)"
    "row \<in> set (grants s)" "g_idempotency_key row = Some k" "gq_idempotency_key req = Some k"
  shows "run (grant req) env n s = (grant_try_from row, Suc n, boot req (o_now (env n 0)) s)"
proof -
  let ?now = "o_now (env n 0)" and ?env = "\<lambda>m i. env n (Suc (m + i))"
  let ?s1 = "boot req ?now s" and ?new = "new_grant_row (o_cuid (env n 3)) req (o_now (env n 0))"
  note calm' = calm_inner [OF assms(1), of n]
  obtain a where lock: "lock_balance (gq_budget_account_id req) (period_str (gq_period req)) ?s1 = Inr a"
    using lock_balance_ok by blast
  have ins: "insert_grant ?new ?s1 = Inr (None, ?s1)"
    using assms by (auto simp: insert_grant_def grant_checks_new key_taken_iff rev_image_eqI)
  have sel: "select_grant_by_key (Some k) ?s1 = Inr row"
    using assms(2,6,7) by (simp add: select_grant_by_key_def fetch_one_def grants_ok_def find_unique_key)
  have "run (grant_body req ?now) ?env 0 s = (Inr row, 5, ?s1)"
    using assms lock ins sel
    by (simp add: grant_body_def Let_def run_obind run_stmt_calm [OF calm'] run_query_calm [OF calm']
        cuid2_def run_observe bootstrap_balance_ok eval_nat_numeral)
  from run_transaction_calm [where body = "grant_body req", OF assms(1) this] assms(3) show ?thesis
    by (simp add: grant_def run_obind validate_amount_sign_def)
qed

text \<open>In any weather: what the state is after a grant that failed.\<close>

lemma run_grant_cases:
  assumes "run (grant req) env n s = (r, n', s')"
  obtains (unchanged) e where "r = Inl e" "s' = s"
    | (replay) now row where "replayed req now s row s'" "r = grant_try_from row \<or> (\<exists>e. r = Inl e)"
    | (fresh) now row where "recorded req now s row s'" "r = grant_try_from row \<or> (\<exists>e. r = Inl e)"
proof (cases "sign_is_valid (gq_source req) (gq_amount_micros req)")
  case False
  with assms show ?thesis by (auto simp: grant_def run_obind validate_amount_sign_def intro: unchanged)
next
  case True
  obtain r1 n1 s1 where t: "run (transaction (grant_body req)) env n s = (r1, n1, s1)"
    by (cases "run (transaction (grant_body req)) env n s") auto
  with assms True have r: "s' = s1" "r = (case r1 of Inl e \<Rightarrow> Inl e | Inr row \<Rightarrow> grant_try_from row)"
    by (auto simp: grant_def run_obind validate_amount_sign_def split: sum.splits)
  from t show ?thesis
  proof (cases rule: run_transaction_cases)
    case (failed e)
    with r show ?thesis by (auto intro: unchanged)
  next
    case (committed now env' n1 row)
    with grant_body_Inr [OF committed(1)] r show ?thesis by (auto intro: replay fresh)
  next
    case (lost now env' n1 row e)
    with grant_body_Inr [OF lost(1)] r show ?thesis by (auto intro: replay fresh)
  qed
qed

subsection \<open>The interface the services use\<close>

text \<open>
  What refill.rs and review.rs rely on when they call \<open>grant\<close>, in any weather: it appends at most one
  row, which carries the request's fields, and touches no table but the two of the ledger; an
  answer is a row of the ledger, either the appended one or one with the request's key; and keys stay
  unique.
\<close>

locale grant_ledger =
  fixes do_grant :: "grant_request \<Rightarrow> (sys, budget_grant) op"
  assumes appends: "run (do_grant req) env n s = (r, n', s') \<Longrightarrow>
      grants s' = grants s \<or> (\<exists>gid now. grants s' = grants s @ [new_grant_row gid req now])"
    and answers: "run (do_grant req) env n s = (Inr g, n', s') \<Longrightarrow>
      \<exists>row\<in>set (grants s'). grant_try_from row = Inr g \<and>
        ((\<exists>gid now. row = new_grant_row gid req now) \<or>
         row \<in> set (grants s) \<and> gq_idempotency_key req \<noteq> None \<and>
         g_idempotency_key row = gq_idempotency_key req)"
    and frame: "run (do_grant req) env n s = (r, n', s') \<Longrightarrow>
      requests s' = requests s \<and> accounts s' = accounts s \<and> projects s' = projects s \<and>
      policy_sets s' = policy_sets s \<and> policy_revisions s' = policy_revisions s \<and>
      live_engine s' = live_engine s"
    and keys_unique: "run (do_grant req) env n s = (r, n', s') \<Longrightarrow>
      unique_keys g_idempotency_key (grants s) \<Longrightarrow> unique_keys g_idempotency_key (grants s')"
begin

text \<open>An answer to a keyed request is the one row of the ledger with that key.\<close>

lemma answer_is_the_keyed_row:
  assumes "run (do_grant req) env n s = (Inr g, n', s')" "gq_idempotency_key req = Some k"
    "unique_keys g_idempotency_key (grants s)"
  shows "\<exists>row. {r \<in> set (grants s'). g_idempotency_key r = Some k} = {row} \<and> grant_try_from row = Inr g"
proof -
  from answers [OF assms(1)] assms(2) obtain row where row: "row \<in> set (grants s')"
    "grant_try_from row = Inr g" "g_idempotency_key row = Some k" by auto
  have "unique_keys g_idempotency_key (grants s')" using keys_unique assms(1,3) by blast
  with row have "{r \<in> set (grants s'). g_idempotency_key r = Some k} = {row}"
    using unique_keysD by fastforce
  with row show ?thesis by blast
qed

lemma answered_row_stays:
  assumes "run (do_grant req) env n s = (r, n', s')" "row \<in> set (grants s)"
  shows "row \<in> set (grants s')"
  using appends [OF assms(1)] assms(2) by auto

end

lemma recorded_frame:
  "recorded req now s row s' \<or> replayed req now s row s' \<Longrightarrow>
   requests s' = requests s \<and> accounts s' = accounts s \<and> projects s' = projects s \<and>
   policy_sets s' = policy_sets s \<and> policy_revisions s' = policy_revisions s \<and>
   live_engine s' = live_engine s"
  by (auto simp: recorded_def replayed_def)

interpretation pg_ledger: grant_ledger grant
proof
  fix req env n s r n' s'
  assume run: "run (grant req) env n s = (r, n', s')"
  show "grants s' = grants s \<or> (\<exists>gid now. grants s' = grants s @ [new_grant_row gid req now])"
    using run by (cases rule: run_grant_cases) (auto simp: replayed_def recorded_def)
  show "requests s' = requests s \<and> accounts s' = accounts s \<and> projects s' = projects s \<and>
      policy_sets s' = policy_sets s \<and> policy_revisions s' = policy_revisions s \<and>
      live_engine s' = live_engine s"
    using run by (cases rule: run_grant_cases) (auto dest: recorded_frame [OF disjI1] recorded_frame [OF disjI2])
  show "unique_keys g_idempotency_key (grants s) \<Longrightarrow> unique_keys g_idempotency_key (grants s')"
    using run by (cases rule: run_grant_cases) (auto simp: replayed_def recorded_def)
next
  fix req env n s g n' s'
  assume run: "run (grant req) env n s = (Inr g, n', s')"
  show "\<exists>row\<in>set (grants s'). grant_try_from row = Inr g \<and>
        ((\<exists>gid now. row = new_grant_row gid req now) \<or>
         row \<in> set (grants s) \<and> gq_idempotency_key req \<noteq> None \<and>
         g_idempotency_key row = gq_idempotency_key req)"
    using run by (cases rule: run_grant_cases) (auto simp: replayed_def recorded_def)
qed

subsection \<open>Reading the ledger\<close>

lemma guar_reads:
  "guar ledger_step rebuild_all_balances" "guar ledger_step (effective_balance acct per as_of)"
  "guar ledger_step (current_tier acct per)" "guar ledger_step (get_balance acct per)"
  "guar ledger_step (get_grant_by_id gid)" "guar ledger_step (list_grants acct per' before lim)"
  by (auto simp: rebuild_all_balances_def effective_balance_def current_tier_def get_balance_def
      get_grant_by_id_def list_grants_def Let_def
      intro!: ledger.guar_obind ledger.guar_query split: option.split)

lemma derived_fits_projection: "balance_fits b \<Longrightarrow> derived_fits (projection b)"
  by (simp add: balance_fits_def derived_fits_def projection_def)

lemma balance_of_grant:
  assumes "balances_ok s" "r \<in> set (grants s)"
  obtains b where "b \<in> set (balances s)" "balance_key b = grant_key r"
    "projection b = derive_balance (grant_key r) (grants s)" "balance_fits b"
proof -
  from assms have "grant_key r \<in> balance_key ` set (balances s)" by (auto simp: balances_ok_def)
  then obtain b where "b \<in> set (balances s)" "balance_key b = grant_key r" by auto
  with assms that show thesis by (auto simp: balances_ok_def)
qed

lemma rebuild_of_ledger:
  assumes "ledger_ok s" "calm env"
  shows "\<exists>ds. result_of rebuild_all_balances env s = Inr ds \<and>
           set ds = projection ` {b \<in> set (balances s). balance_key b \<in> grant_key ` set (grants s)} \<and>
           (\<forall>b\<in>set (balances s). balance_key b \<notin> grant_key ` set (grants s) \<longrightarrow>
              projection b = projection (zero_balance 0 (b_budget_account_id b) (b_period b)))"
proof -
  let ?ds = "map (\<lambda>k. derive_balance k (grants s)) (remdups (map grant_key (grants s)))"
  have bal: "balances_ok s" using assms(1) by (simp add: ledger_ok_def)
  have "derived_fits (derive_balance (grant_key r) (grants s))" if "r \<in> set (grants s)" for r
    using that by (elim balance_of_grant [OF bal]) (metis derived_fits_projection)
  then have "list_all derived_fits ?ds" by (auto simp: list_all_iff)
  then have res: "result_of rebuild_all_balances env s = Inr ?ds"
    by (simp add: result_of_def rebuild_all_balances_def run_query_calm [OF assms(2)])
  have eq: "set ?ds = projection ` {b \<in> set (balances s). balance_key b \<in> grant_key ` set (grants s)}"
  proof (intro set_eqI iffI)
    fix d
    assume "d \<in> set ?ds"
    then obtain r where r: "r \<in> set (grants s)" "d = derive_balance (grant_key r) (grants s)" by auto
    with balance_of_grant [OF bal r(1)]
    show "d \<in> projection ` {b \<in> set (balances s). balance_key b \<in> grant_key ` set (grants s)}"
      by (metis (mono_tags, lifting) image_eqI mem_Collect_eq)
  next
    fix d
    assume "d \<in> projection ` {b \<in> set (balances s). balance_key b \<in> grant_key ` set (grants s)}"
    then show "d \<in> set ?ds" using bal by (auto simp: balances_ok_def)
  qed
  have "projection b = projection (zero_balance 0 (b_budget_account_id b) (b_period b))"
    if "b \<in> set (balances s)" "balance_key b \<notin> grant_key ` set (grants s)" for b
    using that bal derive_balance_none [of "balance_key b" "grants s" 0]
    by (auto simp: balances_ok_def balance_key_def)
  with res eq show ?thesis by blast
qed

lemma granted_ledger_ok:
  assumes "pool_reach allowed (initial (map grant reqs) s) c" "grants s = []" "balances s = []"
  shows "ledger_ok (store c)"
proof -
  have "ledger_ok s" using assms(2,3) by (simp add: ledger_ok_def grants_ok_def balances_ok_def unique_keys_def)
  moreover have "ledger_step s (store c)" by (rule ledger.initial_guar [OF assms(1)]) (auto intro: guar_grant)
  ultimately show ?thesis by (simp add: ledger_step_def)
qed

text \<open>C20 (replay). Start from an empty ledger and run any grants of any source at the same time, their statements interleaved in any
  way, with any message lost and any of them crashing. The balance columns then hold what the incremental updates
  made of them, one row per account and period; and \<open>rebuild_all_balances\<close>, which sums the ledger afresh, succeeds
  and yields exactly the stored projections of the balance rows whose account and period have a
  grant, while every other stored balance row is zero in every column that is compared.\<close>

theorem rebuild_reproduces_balances:
  assumes "pool_reach allowed (initial (map grant reqs) s0) c" "grants s0 = []" "balances s0 = []" "calm env"
  shows "distinct (map balance_key (balances (store c))) \<and>
    (\<exists>ds. result_of rebuild_all_balances env (store c) = Inr ds \<and>
       set ds = projection ` {b \<in> set (balances (store c)). balance_key b \<in> grant_key ` set (grants (store c))} \<and>
       (\<forall>b\<in>set (balances (store c)). balance_key b \<notin> grant_key ` set (grants (store c)) \<longrightarrow>
          projection b = projection (zero_balance 0 (b_budget_account_id b) (b_period b))))"
  using rebuild_of_ledger [OF _ assms(4)] granted_ledger_ok [OF assms(1-3)]
  by (simp add: ledger_ok_def balances_ok_def)

subsection \<open>Retrying a grant\<close>

text \<open>
  The states that any number of attempts at the same keyed grant can lead to, whatever happens to
  their messages: as before, or with one matching row appended.
\<close>

definition retry_inv :: "grant_request \<Rightarrow> sys \<Rightarrow> sys \<Rightarrow> bool" where
  "retry_inv req s0 s \<longleftrightarrow>
     ledger_ok s \<and> gq_idempotency_key req \<noteq> None \<and>
     \<not> key_taken g_idempotency_key (grants s0) (gq_idempotency_key req) \<and>
     accounts s = accounts s0 \<and> projects s = projects s0 \<and>
     (s = s0 \<or> (\<exists>gid now. grants s = grants s0 @ [new_grant_row gid req now]))"

lemma key_taken_retried:
  "gq_idempotency_key req \<noteq> None \<Longrightarrow> grants s = grants s0 @ [new_grant_row gid req now] \<Longrightarrow>
   key_taken g_idempotency_key (grants s) (gq_idempotency_key req)"
  by (simp add: key_taken_iff)

lemma retry_inv_step:
  assumes "retry_inv req s0 s"
  shows "retry_inv req s0 (state_of (grant req) env s)"
proof -
  obtain r n s' where run: "run (grant req) env 0 s = (r, n, s')"
    by (cases "run (grant req) env 0 s") auto
  have keep: "ledger_ok s'" "accounts s' = accounts s" "projects s' = projects s"
    using assms ledger.run_guar [OF guar_grant run] pg_ledger.frame [OF run]
    by (auto simp: ledger_step_def retry_inv_def)
  from run have "s' = s0 \<or> (\<exists>gid now. grants s' = grants s0 @ [new_grant_row gid req now])"
  proof (cases rule: run_grant_cases)
    case (unchanged e)
    with assms show ?thesis by (auto simp: retry_inv_def)
  next
    case (replay now row)
    with assms show ?thesis by (force simp: retry_inv_def replayed_def key_taken_iff)
  next
    case (fresh now row)
    with assms key_taken_retried show ?thesis by (fastforce simp: retry_inv_def recorded_def)
  qed
  with assms keep show ?thesis by (simp add: retry_inv_def state_of_def run)
qed

interpretation retry: kept_by "\<lambda>s env. state_of (grant req) env s" "retry_inv req s0" for req s0
  by unfold_locales (rule retry_inv_step)

text \<open>C19 (exactly once). However many attempts at a grant with a fresh idempotency key are made, and
  whichever of their requests, replies and commits are lost, one further attempt whose messages
  arrive returns the grant, and the ledger has gained exactly one row over all the attempts, with the
  requested account, period, amount, source and key.\<close>

theorem grant_retried_exactly_once:
  assumes "ledger_ok s" "grantable req s" "gq_idempotency_key req = Some k"
    and "\<not> key_taken g_idempotency_key (grants s) (Some k)"
    and "s1 = foldl (\<lambda>s env. state_of (grant req) env s) s attempts"
    and "calm env" "o_cuid (env 0 3) \<notin> g_id ` set (grants s1)"
  shows "\<exists>gid now g. result_of (grant req) env s1 = Inr g \<and> g_id g = gid \<and>
           g_amount_micros g = gq_amount_micros req \<and>
           grants (state_of (grant req) env s1) = grants s @ [new_grant_row gid req now]"
proof -
  have inv: "retry_inv req s s1"
    using retry.run_keeps [of req s s attempts] assms by (simp add: retry_inv_def)
  have valid: "period_valid (gq_period req)" "sign_is_valid (gq_source req) (gq_amount_micros req)"
    "gq_budget_account_id req \<in> set (accounts s1)"
    using assms(2) inv by (auto simp: grantable_def retry_inv_def)
  from inv consider "s1 = s" | gid now where "grants s1 = grants s @ [new_grant_row gid req now]"
    by (auto simp: retry_inv_def)
  then show ?thesis
  proof cases
    case 1
    with assms obtain s2 where "run (grant req) env 0 s =
        (grant_try_from (new_grant_row (o_cuid (env 0 3)) req (o_now (env 0 0))), Suc 0, s2)"
      "recorded req (o_now (env 0 0)) s (new_grant_row (o_cuid (env 0 3)) req (o_now (env 0 0))) s2"
      by (metis grant_fresh)
    with 1 valid(1) show ?thesis
      by (auto simp: result_of_def state_of_def grant_try_from_new recorded_def)
  next
    case 2
    have "run (grant req) env 0 s1 =
        (grant_try_from (new_grant_row gid req now), Suc 0, boot req (o_now (env 0 0)) s1)"
      using assms(3,6) valid inv 2
      by (intro grant_replay) (auto simp: retry_inv_def ledger_ok_def)
    with 2 valid(1) show ?thesis by (auto simp: result_of_def state_of_def grant_try_from_new)
  qed
qed

subsection \<open>Evaluations\<close>

definition demo_grant :: grant_request where
  "demo_grant = \<lparr>gq_budget_account_id = ''alice'', gq_account_id = ''alice'', gq_project_id = None,
     gq_period = aug_2026, gq_amount_micros = 15000000, gq_source = Admin, gq_actor_id = None,
     gq_reason = None, gq_policy_revision = None, gq_matched_rule_ids = None,
     gq_idempotency_key = Some ''k1'', gq_trigger_key = None, gq_expires_at = None\<rparr>"

lemma demo_grant_simps [simp]:
  "gq_budget_account_id demo_grant = ''alice''" "gq_account_id demo_grant = ''alice''"
  "gq_project_id demo_grant = None" "gq_period demo_grant = aug_2026"
  "gq_amount_micros demo_grant = 15000000" "gq_source demo_grant = Admin"
  "gq_idempotency_key demo_grant = Some ''k1''" "gq_trigger_key demo_grant = None"
  by (simp_all add: demo_grant_def)

text \<open>Weather in which the reply to the commit of the grant transaction is lost.\<close>

definition commit_lost :: "nat \<Rightarrow> weather" where
  "commit_lost = (\<lambda>n i. \<lparr>o_net = (if i = 6 then Lost else Delivered), o_now = 50, o_cuid = ''g0''\<rparr>)"

lemma commit_lost_simps [simp]:
  "o_net (commit_lost n i) = (if i = 6 then Lost else Delivered)" "o_now (commit_lost n i) = 50"
  "o_cuid (commit_lost n i) = ''g0''"
  by (simp_all add: commit_lost_def)

lemma demo_ledger_ok: "ledger_ok demo_sys"
  by (simp add: ledger_ok_def grants_ok_def balances_ok_def demo_sys_def unique_keys_def)

lemma demo_grantable: "grantable demo_grant demo_sys"
  by (simp add: grantable_def demo_grant_def demo_sys_def sign_is_valid_def fk_ok_def key_taken_def
      balance_fits_def bump_balance_def zero_balance_def i64_simps)

definition demo_ledger :: sys where
  "demo_ledger = state_of (grant demo_grant) (fair 50 ''g1'') demo_sys"

lemma demo_ledger_state:
  "grants demo_ledger = [new_grant_row ''g1'' demo_grant 50]" "ledger_ok demo_ledger"
  "accounts demo_ledger = [''alice'', ''bob'']" "projects demo_ledger = [''proj'']"
proof -
  obtain s' where s': "run (grant demo_grant) (fair 50 ''g1'') 0 demo_sys =
      (grant_try_from (new_grant_row ''g1'' demo_grant 50), Suc 0, s')"
    "recorded demo_grant 50 demo_sys (new_grant_row ''g1'' demo_grant 50) s'"
    using grant_fresh [OF calm_fair demo_grantable, of 50 "''g1''" 0]
    by (auto simp: demo_sys_def key_taken_def)
  then show "grants demo_ledger = [new_grant_row ''g1'' demo_grant 50]"
    "accounts demo_ledger = [''alice'', ''bob'']" "projects demo_ledger = [''proj'']"
    by (simp_all add: demo_ledger_def state_of_def recorded_def demo_sys_def)
  show "ledger_ok demo_ledger"
    using ledger.state_of_guar [OF guar_grant] demo_ledger_ok
    by (auto simp: demo_ledger_def ledger_step_def)
qed

theorem rebuild_reproduces_balances_witness:
  "\<exists>c. pool_reach (orderly delivered) (initial (map grant [demo_grant]) demo_sys) c \<and>
     grants (store c) = [new_grant_row ''g1'' demo_grant 50] \<and>
     (\<exists>ds. result_of rebuild_all_balances (fair 60 ''x'') (store c) = Inr ds \<and>
       set ds = projection ` {b \<in> set (balances (store c)). balance_key b \<in> grant_key ` set (grants (store c))})"
proof -
  have free: "lock_free (grant demo_grant)"
    by (auto simp: grant_def transaction_def intro!: lock_free_obind)
  have "delivered (fair 50 ''g1'' j)" for j by (simp add: delivered_def)
  then obtain c where c: "pool_reach (orderly delivered) (initial [grant demo_grant] demo_sys) c" "store c = demo_ledger"
    using pool_alone [where W = delivered and p = "grant demo_grant" and env = "fair 50 ''g1''" and s = demo_sys, OF free]
    by (cases "run (grant demo_grant) (fair 50 ''g1'') 0 demo_sys") (auto simp: demo_ledger_def state_of_def)
  with rebuild_reproduces_balances [of "orderly delivered" "[demo_grant]" demo_sys c "fair 60 ''x''"] demo_ledger_state(1)
  show ?thesis by (intro exI [of _ c]) (auto simp: demo_sys_def)
qed

lemma demo_checks: "grant_checks (new_grant_row gid demo_grant now)"
  using demo_grantable by (simp add: grantable_def grant_checks_new)

lemma demo_commit_lost:
  "run (grant demo_grant) commit_lost 0 demo_sys =
     (Inl (StorageFailed ''commit''), Suc 0,
      demo_sys\<lparr>grants := [new_grant_row ''g0'' demo_grant 50],
        balances := [bump_balance ''admin'' 15000000 50 (zero_balance 50 ''alice'' ''2026-08'')]\<rparr>)"
proof -
  have fits: "balance_fits (bump_balance ''admin'' 15000000 50 (zero_balance 50 ''alice'' ''2026-08''))"
    by (simp add: balance_fits_def bump_balance_def zero_balance_def i64_simps)
  have fks: "grant_fks (demo_sys\<lparr>balances := bs\<rparr>) (new_grant_row gid demo_grant now)" for bs gid now
    by (simp add: grant_fks_def demo_sys_def demo_grant_def new_grant_row_def fk_ok_def)
  have boot: "bootstrap_balance ''alice'' ''2026-08'' 50 demo_sys =
      Inr ((), demo_sys\<lparr>balances := [zero_balance 50 ''alice'' ''2026-08'']\<rparr>)"
    using period_valid_check [OF aug_2026_valid]
    by (simp add: bootstrap_balance_def demo_sys_def aug_2026_def)
  have body: "run (grant_body demo_grant 50) (\<lambda>m i. commit_lost 0 (Suc (m + i))) 0 demo_sys =
      (Inr (new_grant_row ''g0'' demo_grant 50), 5,
       demo_sys\<lparr>grants := [new_grant_row ''g0'' demo_grant 50],
         balances := [bump_balance ''admin'' 15000000 50 (zero_balance 50 ''alice'' ''2026-08'')]\<rparr>)"
    using boot fits fks demo_checks
    by (simp add: grant_body_def Let_def run_obind run_observe cuid2_def stmt_def run_atomic query_def
        lock_balance_def insert_grant_def update_balance_def balance_at_key
        fetch_one_def key_taken_def aug_2026_def demo_sys_simps eval_nat_numeral)
  show ?thesis
    using demo_grantable
    by (simp add: grant_def run_obind validate_amount_sign_def grantable_def transaction_def run_atomic
        body)
qed

theorem grant_retried_exactly_once_witness:
  "\<exists>gid now g. result_of (grant demo_grant) (fair 70 ''g1'')
       (foldl (\<lambda>s env. state_of (grant demo_grant) env s) demo_sys [commit_lost]) = Inr g \<and> g_id g = gid \<and>
     g_amount_micros g = gq_amount_micros demo_grant \<and>
     grants (state_of (grant demo_grant) (fair 70 ''g1'')
       (foldl (\<lambda>s env. state_of (grant demo_grant) env s) demo_sys [commit_lost])) =
     grants demo_sys @ [new_grant_row gid demo_grant now]"
  by (rule grant_retried_exactly_once [where k = "''k1''", OF demo_ledger_ok demo_grantable _ _ refl calm_fair])
    (simp_all add: demo_sys_simps key_taken_def state_of_def demo_commit_lost)

end
