(* ===== verification/Augmentation.thy ===== *)
theory Augmentation
  imports Grant_Ledger
begin

text \<open>
  augmentation.rs: the table of refill requests and the decisions about them. Each repository method
  is its SQL statement (or two, for \<open>create\<close>) followed by the conversion of the row. The lemmas
  describe each method in any weather and state the invariant of the table.
\<close>

subsection \<open>Domain types\<close>

record new_augmentation_request =
  nq_budget_account_id :: string
  nq_account_id :: string
  nq_project_id :: "string option"
  nq_period :: period
  nq_requested_tier :: budget_tier
  nq_requested_amount_micros :: int
  nq_idempotency_key :: "string option"

record approved_decision =
  ad_policy_effect :: effect
  ad_policy_reason_codes :: "string list"
  ad_matched_rule_ids :: "string list"
  ad_policy_revision :: string
  ad_approved_amount_micros :: int
  ad_grant_id :: string

record unapproved_decision =
  ud_policy_effect :: effect
  ud_policy_reason_codes :: "string list"
  ud_matched_rule_ids :: "string list"
  ud_policy_revision :: string

datatype recorded_decision =
    RdAutoApproved approved_decision
  | RdPartiallyApproved approved_decision
  | RdPendingReview unapproved_decision
  | RdDenied unapproved_decision

record decomposed_decision =
  dd_status :: augmentation_status
  dd_policy_effect :: effect
  dd_policy_reason_codes :: "string list"
  dd_matched_rule_ids :: "string list"
  dd_policy_revision :: string
  dd_approved_amount_micros :: "int option"
  dd_grant_id :: "string option"

definition decompose_approved :: "augmentation_status \<Rightarrow> approved_decision \<Rightarrow> decomposed_decision" where
  "decompose_approved st d =
     \<lparr>dd_status = st, dd_policy_effect = ad_policy_effect d,
      dd_policy_reason_codes = ad_policy_reason_codes d, dd_matched_rule_ids = ad_matched_rule_ids d,
      dd_policy_revision = ad_policy_revision d,
      dd_approved_amount_micros = Some (ad_approved_amount_micros d),
      dd_grant_id = Some (ad_grant_id d)\<rparr>"

definition decompose_unapproved :: "augmentation_status \<Rightarrow> unapproved_decision \<Rightarrow> decomposed_decision" where
  "decompose_unapproved st d =
     \<lparr>dd_status = st, dd_policy_effect = ud_policy_effect d,
      dd_policy_reason_codes = ud_policy_reason_codes d, dd_matched_rule_ids = ud_matched_rule_ids d,
      dd_policy_revision = ud_policy_revision d, dd_approved_amount_micros = None,
      dd_grant_id = None\<rparr>"

fun decompose :: "recorded_decision \<Rightarrow> decomposed_decision" where
  "decompose (RdAutoApproved d) = decompose_approved AutoApproved d"
| "decompose (RdPartiallyApproved d) = decompose_approved PartiallyApproved d"
| "decompose (RdPendingReview d) = decompose_unapproved PendingReview d"
| "decompose (RdDenied d) = decompose_unapproved Denied d"

definition request_try_from :: "request_row \<Rightarrow> augmentation_request bresult" where
  "request_try_from row =
     res_bind (map_err (stored_invalid ''budget_augmentation_requests.period'')
                 (period_parse (q_period row))) (\<lambda>p.
     res_bind (map_err (stored_invalid ''budget_augmentation_requests.requested_tier'')
                 (tier_from_str (q_requested_tier row))) (\<lambda>t.
     res_bind (map_err (stored_invalid ''budget_augmentation_requests.status'')
                 (status_from_str (q_status row))) (\<lambda>st.
     res_bind (transpose_map effect_from_db (q_policy_effect row)) (\<lambda>eff.
     Inr \<lparr>q_id = q_id row, q_budget_account_id = q_budget_account_id row,
          q_account_id = q_account_id row, q_project_id = q_project_id row, q_period = p,
          q_requested_tier = t, q_requested_amount_micros = q_requested_amount_micros row,
          q_status = st, q_policy_effect = eff, q_policy_reason_codes = q_policy_reason_codes row,
          q_matched_rule_ids = q_matched_rule_ids row, q_policy_revision = q_policy_revision row,
          q_approved_amount_micros = q_approved_amount_micros row, q_grant_id = q_grant_id row,
          q_idempotency_key = q_idempotency_key row, q_reviewed_by = q_reviewed_by row,
          q_rejection_reason = q_rejection_reason row, q_created_at = q_created_at row,
          q_reviewed_at = q_reviewed_at row\<rparr>))))"

subsection \<open>Statements\<close>

definition new_request_row :: "string \<Rightarrow> new_augmentation_request \<Rightarrow> int \<Rightarrow> request_row" where
  "new_request_row rid nq now =
     \<lparr>q_id = rid, q_budget_account_id = nq_budget_account_id nq, q_account_id = nq_account_id nq,
      q_project_id = nq_project_id nq, q_period = period_str (nq_period nq),
      q_requested_tier = tier_label (nq_requested_tier nq),
      q_requested_amount_micros = nq_requested_amount_micros nq,
      q_status = status_as_str Created, q_policy_effect = None, q_policy_reason_codes = None,
      q_matched_rule_ids = None, q_policy_revision = None, q_approved_amount_micros = None,
      q_grant_id = None, q_idempotency_key = nq_idempotency_key nq, q_reviewed_by = None,
      q_rejection_reason = None, q_created_at = now, q_reviewed_at = None\<rparr>"

definition status_values :: "string list" where
  "status_values = [''created'', ''evaluating'', ''auto_approved'', ''pending_review'', ''approved'',
                    ''partially_approved'', ''denied'', ''cancelled'', ''expired'', ''applied'']"

definition request_checks :: "request_row \<Rightarrow> bool" where
  "request_checks r \<longleftrightarrow> q_status r \<in> set status_values \<and> period_check (q_period r)"

definition request_fks :: "sys \<Rightarrow> request_row \<Rightarrow> bool" where
  "request_fks s r \<longleftrightarrow> q_budget_account_id r \<in> set (accounts s) \<and> q_account_id r \<in> set (accounts s) \<and>
     fk_ok (projects s) (q_project_id r) \<and> fk_ok (map g_id (grants s)) (q_grant_id r)"

definition insert_request :: "request_row \<Rightarrow> sys \<Rightarrow> (string, request_row option \<times> sys) result" where
  "insert_request r s =
     (if \<not> request_checks r then Inl ''budget_augmentation_requests check constraint''
      else if key_taken q_idempotency_key (requests s) (q_idempotency_key r) then Inr (None, s)
      else if q_id r \<in> q_id ` set (requests s) then Inl ''budget_augmentation_requests_pkey''
      else if \<not> request_fks s r then Inl ''budget_augmentation_requests foreign key''
      else Inr (Some r, s\<lparr>requests := requests s @ [r]\<rparr>))"

definition select_request_by_key :: "string option \<Rightarrow> sys \<Rightarrow> request_row option" where
  "select_request_by_key k s = find (\<lambda>r. sql_eq (q_idempotency_key r) k) (requests s)"

text \<open>\<open>UPDATE \<dots> SET \<dots> WHERE \<dots> RETURNING \<dots>\<close>; the conditions select at most one row, by its id.\<close>

definition update_request ::
  "(request_row \<Rightarrow> bool) \<Rightarrow> (request_row \<Rightarrow> request_row) \<Rightarrow> sys \<Rightarrow> (string, request_row option \<times> sys) result" where
  "update_request P f s =
     (case find P (requests s) of
        None \<Rightarrow> Inr (None, s)
      | Some r \<Rightarrow>
          if \<not> request_checks (f r) then Inl ''budget_augmentation_requests check constraint''
          else if \<not> request_fks s (f r) then Inl ''budget_augmentation_requests_grant_id_fkey''
          else Inr (Some (f r),
                    s\<lparr>requests := map (\<lambda>r. if P r then f r else r) (requests s)\<rparr>))"

definition write_decision :: "decomposed_decision \<Rightarrow> request_row \<Rightarrow> request_row" where
  "write_decision d r =
     r\<lparr>q_status := status_as_str (dd_status d),
       q_policy_effect := Some (effect_to_db (dd_policy_effect d)),
       q_policy_reason_codes := Some (dd_policy_reason_codes d),
       q_matched_rule_ids := Some (dd_matched_rule_ids d),
       q_policy_revision := Some (dd_policy_revision d),
       q_approved_amount_micros := dd_approved_amount_micros d,
       q_grant_id := dd_grant_id d\<rparr>"

definition write_review ::
  "augmentation_status \<Rightarrow> string \<Rightarrow> string option \<Rightarrow> string option \<Rightarrow> int \<Rightarrow> request_row \<Rightarrow> request_row" where
  "write_review st reviewer reason gid now r =
     r\<lparr>q_status := status_as_str st, q_reviewed_by := Some reviewer, q_rejection_reason := reason,
       q_reviewed_at := Some now, q_grant_id := gid\<rparr>"

subsection \<open>AugmentationRepo\<close>

definition create :: "new_augmentation_request \<Rightarrow> (sys, augmentation_request) op" where
  "create nq =
     obind cuid2 (\<lambda>rid.
     obind (stmt (\<lambda>now. insert_request (new_request_row rid nq now))) (\<lambda>inserted.
     obind (case inserted of
              Some row \<Rightarrow> ok row
            | None \<Rightarrow> query (\<lambda>s. fetch_one (select_request_by_key (nq_idempotency_key nq) s))) (\<lambda>row.
     Ret (request_try_from row))))"

definition find_by_idempotency_key :: "string \<Rightarrow> (sys, augmentation_request option) op" where
  "find_by_idempotency_key key =
     obind (query (\<lambda>s. Inr (select_request_by_key (Some key) s))) (\<lambda>row.
     Ret (transpose_map request_try_from row))"

definition not_found_request :: "string \<Rightarrow> budget_error" where
  "not_found_request rid = NotFound (''augmentation request '' @ CHR 0x27 # rid @ [CHR 0x27])"

definition record_decision :: "string \<Rightarrow> recorded_decision \<Rightarrow> (sys, augmentation_request) op" where
  "record_decision rid d =
     obind (stmt (\<lambda>_. update_request (\<lambda>r. q_id r = rid) (write_decision (decompose d)))) (\<lambda>updated.
     case updated of
       None \<Rightarrow> fail (not_found_request rid)
     | Some row \<Rightarrow> Ret (request_try_from row))"

definition is_review_outcome :: "augmentation_status \<Rightarrow> bool" where
  "is_review_outcome st \<longleftrightarrow> st = Approved \<or> st = Denied"

definition reason_is_present :: "string option \<Rightarrow> bool" where
  "reason_is_present reason = (case reason of None \<Rightarrow> False | Some r \<Rightarrow> \<not> is_blank r)"

definition pending_row :: "string \<Rightarrow> request_row \<Rightarrow> bool" where
  "pending_row rid r \<longleftrightarrow> q_id r = rid \<and> q_status r = ''pending_review''"

definition record_review ::
  "string \<Rightarrow> augmentation_status \<Rightarrow> string \<Rightarrow> string option \<Rightarrow> string option \<Rightarrow>
   (sys, augmentation_request) op" where
  "record_review rid st reviewer reason gid =
     (if \<not> is_review_outcome st then fail (InvalidReviewOutcome (status_as_str st))
      else if st = Denied \<and> \<not> reason_is_present reason then fail MissingRejectionReason
      else
        obind (stmt (\<lambda>now. update_request (pending_row rid) (write_review st reviewer reason gid now)))
          (\<lambda>updated.
        case updated of
          None \<Rightarrow> fail (AlreadyReviewed rid)
        | Some row \<Rightarrow> Ret (request_try_from row)))"

definition get_request :: "string \<Rightarrow> (sys, augmentation_request) op" where
  "get_request rid =
     obind (query (\<lambda>s. Inr (find (\<lambda>r. q_id r = rid) (requests s)))) (\<lambda>row.
     case row of
       None \<Rightarrow> fail (not_found_request rid)
     | Some r \<Rightarrow> Ret (request_try_from r))"

definition MAX_LIST_REQUESTS_LIMIT :: int where
  "MAX_LIST_REQUESTS_LIMIT = 200"

definition pending_page :: "string option \<Rightarrow> int option \<Rightarrow> int \<Rightarrow> sys \<Rightarrow> request_row list" where
  "pending_page acct after lim s =
     limit_rows lim (order_asc q_created_at
       (filter (\<lambda>r. q_status r = ''pending_review'' \<and> null_or acct (\<lambda>a. q_budget_account_id r = a) \<and>
                    null_or after (\<lambda>t. q_created_at r > t)) (requests s)))"

definition list_pending_review ::
  "string option \<Rightarrow> int option \<Rightarrow> int \<Rightarrow> (sys, augmentation_request list) op" where
  "list_pending_review acct after lim =
     (let clamped = clamp_int 1 MAX_LIST_REQUESTS_LIMIT lim in
      obind (query (\<lambda>s. Inr (pending_page acct after clamped s))) (\<lambda>rows.
      Ret (collect_results (map request_try_from rows))))"

definition history_page :: "string \<Rightarrow> int option \<Rightarrow> int \<Rightarrow> sys \<Rightarrow> request_row list" where
  "history_page acct before lim s =
     limit_rows lim (order_desc q_created_at
       (filter (\<lambda>r. q_budget_account_id r = acct \<and> null_or before (\<lambda>t. q_created_at r < t)) (requests s)))"

definition list_by_budget_account ::
  "string \<Rightarrow> int option \<Rightarrow> int \<Rightarrow> (sys, augmentation_request list) op" where
  "list_by_budget_account acct before lim =
     (let clamped = clamp_int 1 MAX_LIST_REQUESTS_LIMIT lim in
      obind (query (\<lambda>s. Inr (history_page acct before clamped s))) (\<lambda>rows.
      Ret (collect_results (map request_try_from rows))))"

subsection \<open>The invariant of the request table\<close>

text \<open>
  A status that says money moved names the grant, and no other status does; an approval by review
  names the reviewer; and the row converts to the domain type.
\<close>

definition row_consistent :: "request_row \<Rightarrow> bool" where
  "row_consistent r \<longleftrightarrow>
     (q_grant_id r \<noteq> None \<longleftrightarrow>
        q_status r \<in> {''auto_approved'', ''partially_approved'', ''approved''}) \<and>
     (q_reviewed_by r = None \<longrightarrow> q_status r \<noteq> ''approved'') \<and>
     \<not> is_err (request_try_from r)"

definition requests_ok :: "sys \<Rightarrow> bool" where
  "requests_ok s \<longleftrightarrow>
     distinct (map q_id (requests s)) \<and> unique_keys q_idempotency_key (requests s) \<and>
     (\<forall>r\<in>set (requests s). request_checks r \<and> request_fks s r \<and> row_consistent r)"

text \<open>What no update of a request changes.\<close>

definition same_request :: "request_row \<Rightarrow> request_row \<Rightarrow> bool" where
  "same_request r r' \<longleftrightarrow>
     q_id r' = q_id r \<and> q_budget_account_id r' = q_budget_account_id r \<and>
     q_account_id r' = q_account_id r \<and> q_project_id r' = q_project_id r \<and>
     q_period r' = q_period r \<and> q_requested_tier r' = q_requested_tier r \<and>
     q_requested_amount_micros r' = q_requested_amount_micros r \<and>
     q_idempotency_key r' = q_idempotency_key r \<and> q_created_at r' = q_created_at r"

definition requests_kept :: "request_row list \<Rightarrow> request_row list \<Rightarrow> bool" where
  "requests_kept rs rs' \<longleftrightarrow> length rs \<le> length rs' \<and> list_all2 same_request rs (take (length rs) rs')"

text \<open>The guarantee of every action on the budget tables.\<close>

definition budget_step :: "sys \<Rightarrow> sys \<Rightarrow> bool" where
  "budget_step s s' \<longleftrightarrow>
     ledger_step s s' \<and> accounts s' = accounts s \<and> projects s' = projects s \<and>
     policy_sets s' = policy_sets s \<and> policy_revisions s' = policy_revisions s \<and> live_engine s' = live_engine s \<and>
     requests_kept (requests s) (requests s') \<and> (requests_ok s \<longrightarrow> requests_ok s')"

lemma same_request_refl [simp]: "same_request r r"
  by (simp add: same_request_def)

lemma requests_kept_refl [simp]: "requests_kept rs rs"
  by (simp add: requests_kept_def list_all2_refl)

lemma requests_kept_nth:
  "requests_kept rs rs' \<longleftrightarrow>
   length rs \<le> length rs' \<and> (\<forall>i<length rs. same_request (rs ! i) (rs' ! i))"
  by (auto simp: requests_kept_def list_all2_conv_all_nth)

lemma requests_kept_trans: "requests_kept a b \<Longrightarrow> requests_kept b c \<Longrightarrow> requests_kept a c"
  unfolding requests_kept_nth by (auto simp: same_request_def)

lemma requests_kept_mem:
  assumes "requests_kept rs rs'" "r \<in> set rs"
  obtains r' where "r' \<in> set rs'" "same_request r r'"
proof -
  from assms(2) obtain i where i: "i < length rs" "rs ! i = r" by (auto simp: in_set_conv_nth)
  with assms(1) have "same_request r (take (length rs) rs' ! i)" "i < length rs'"
    by (auto simp: requests_kept_def list_all2_conv_all_nth)
  with i that [of "rs' ! i"] show thesis by simp
qed

interpretation budget: guarantee budget_step
proof
  show "budget_step s s" for s by (simp add: budget_step_def ledger.refl)
  show "budget_step s s' \<Longrightarrow> budget_step s' s'' \<Longrightarrow> budget_step s s''" for s s' s''
    unfolding budget_step_def using ledger.trans requests_kept_trans by metis
qed

lemma requests_ok_ledger:
  assumes "requests_ok s" "grants s' = grants s @ new" "accounts s' = accounts s"
    "projects s' = projects s" "requests s' = requests s"
  shows "requests_ok s'"
proof -
  have "fk_ok (map g_id (grants s)) k \<Longrightarrow> fk_ok (map g_id (grants s @ new)) k" for k
    by (auto simp: fk_ok_def split: option.splits)
  with assms show ?thesis by (auto simp: requests_ok_def request_fks_def)
qed

lemma ledger_budget_step:
  "ledger_step s s' \<Longrightarrow> accounts s' = accounts s \<Longrightarrow> projects s' = projects s \<Longrightarrow>
   policy_sets s' = policy_sets s \<Longrightarrow> policy_revisions s' = policy_revisions s \<Longrightarrow>
   live_engine s' = live_engine s \<Longrightarrow> requests s' = requests s \<Longrightarrow> budget_step s s'"
  unfolding budget_step_def using requests_ok_ledger by (auto simp: ledger_step_def)

lemma ledger_frame: "ledger_ok s \<Longrightarrow> grants s' = grants s \<Longrightarrow> balances s' = balances s \<Longrightarrow>
   accounts s' = accounts s \<Longrightarrow> projects s' = projects s \<Longrightarrow> ledger_ok s'"
  by (simp add: ledger_ok_def grants_ok_def balances_ok_def grant_fks_def)

lemma guar_grant_budget: "guar budget_step (grant req)"
  unfolding grant_def
proof (intro budget.guar_obind budget.guar_transaction)
  fix now env n s row n' s'
  assume body: "run (grant_body req now) env n s = (Inr row, n', s')"
  from grant_body_Inr [OF body] have "recorded req now s row s' \<or> replayed req now s row s'" by blast
  with recorded_frame [OF this] grant_body_step [OF body] show "budget_step s s'"
    by (intro ledger_budget_step) auto
qed auto

lemma guar_ledger_reads:
  "guar budget_step (effective_balance acct per as_of)" "guar budget_step (get_balance acct per)"
  "guar budget_step (current_tier acct per)" "guar budget_step (get_grant_by_id gid)"
  "guar budget_step (list_grants acct per' before lim)" "guar budget_step rebuild_all_balances"
  by (auto simp: rebuild_all_balances_def effective_balance_def current_tier_def get_balance_def
      get_grant_by_id_def list_grants_def Let_def
      intro!: budget.guar_obind budget.guar_query split: option.split)

subsection \<open>The statements keep it\<close>

lemma insert_request_Inr:
  "insert_request r s = Inr (ins, s') \<Longrightarrow>
   request_checks r \<and>
   (case ins of
      None \<Rightarrow> key_taken q_idempotency_key (requests s) (q_idempotency_key r) \<and> s' = s
    | Some r' \<Rightarrow> r' = r \<and> \<not> key_taken q_idempotency_key (requests s) (q_idempotency_key r) \<and>
        q_id r \<notin> q_id ` set (requests s) \<and> request_fks s r \<and> s' = s\<lparr>requests := requests s @ [r]\<rparr>)"
  by (auto simp: insert_request_def split: if_splits)

lemma insert_request_step:
  assumes "insert_request r s = Inr (ins, s')" "row_consistent r"
  shows "budget_step s s'"
proof (cases ins)
  case None
  then show ?thesis using insert_request_Inr [OF assms(1)] by (simp add: budget.refl)
next
  case (Some r')
  with insert_request_Inr [OF assms(1)] assms(2) show ?thesis
    by (auto simp: budget_step_def ledger_step_def requests_kept_nth nth_append requests_ok_def
        request_fks_def intro: ledger_frame)
qed

lemma update_request_Inr:
  "update_request P f s = Inr (upd, s') \<Longrightarrow>
   (case upd of
      None \<Rightarrow> find P (requests s) = None \<and> s' = s
    | Some r' \<Rightarrow> (\<exists>r. find P (requests s) = Some r \<and> r' = f r \<and> request_checks r' \<and> request_fks s r') \<and>
        s' = s\<lparr>requests := map (\<lambda>r. if P r then f r else r) (requests s)\<rparr>)"
  by (auto simp: update_request_def split: option.splits if_splits)

lemma find_only:
  assumes "distinct (map key rows)" "find P rows = Some r" "\<And>x. P x \<Longrightarrow> key x = k"
    "x \<in> set rows" "P x"
  shows "x = r"
proof -
  from assms(2) have "r \<in> set rows" "P r" by (auto simp: find_Some_iff)
  with assms(1,3-5) show ?thesis by (metis eq_key_imp_eq_value map_of_eq_Some_iff distinct_map inj_onD)
qed

lemma update_request_step:
  assumes upd: "update_request P f s = Inr (ans, s')"
    and key: "\<And>r. P r \<Longrightarrow> q_id r = rid"
    and same: "\<And>r. same_request r (f r)"
    and consistent: "\<And>r. row_consistent r \<Longrightarrow> P r \<Longrightarrow> row_consistent (f r)"
  shows "budget_step s s'"
proof (cases ans)
  case None
  then show ?thesis using update_request_Inr [OF upd] by (simp add: budget.refl)
next
  case (Some r')
  from update_request_Inr [OF upd] Some obtain r where r: "find P (requests s) = Some r" "r' = f r"
    "request_checks (f r)" "request_fks s (f r)"
    and s': "s' = s\<lparr>requests := map (\<lambda>r. if P r then f r else r) (requests s)\<rparr>" by auto
  have "requests_ok s'" if ok: "requests_ok s"
  proof -
    have "distinct (map q_id (requests s))" using ok by (simp add: requests_ok_def)
    from find_only [OF this r(1) key] have only: "x \<in> set (requests s) \<Longrightarrow> P x \<Longrightarrow> x = r" for x .
    have "map q_id (requests s') = map q_id (requests s)"
      "map q_idempotency_key (requests s') = map q_idempotency_key (requests s)"
      using same by (auto simp: s' same_request_def)
    moreover have "request_checks x \<and> request_fks s' x \<and> row_consistent x" if "x \<in> set (requests s')" for x
      using that ok r only consistent by (auto simp: s' requests_ok_def request_fks_def)
    ultimately show ?thesis using ok by (simp add: requests_ok_def unique_keys_def)
  qed
  then show ?thesis
    using same by (auto simp: s' budget_step_def ledger_step_def requests_kept_nth intro: ledger_frame)
qed

lemma request_try_from_ok_iff:
  "\<not> is_err (request_try_from r) \<longleftrightarrow>
   \<not> is_err (period_parse (q_period r)) \<and> \<not> is_err (tier_from_str (q_requested_tier r)) \<and>
   \<not> is_err (status_from_str (q_status r)) \<and>
   (\<forall>e. q_policy_effect r = Some e \<longrightarrow> \<not> is_err (effect_from_db e))"
  by (cases "period_parse (q_period r)"; cases "tier_from_str (q_requested_tier r)";
      cases "status_from_str (q_status r)"; cases "q_policy_effect r")
    (auto simp: request_try_from_def is_err_def split: sum.split)

lemma status_as_str_simps [simp]:
  "status_as_str st \<in> set status_values"
  "status_as_str st = ''pending_review'' \<longleftrightarrow> st = PendingReview"
  "status_as_str st = ''approved'' \<longleftrightarrow> st = Approved"
  "status_as_str st = ''denied'' \<longleftrightarrow> st = Denied"
  "status_as_str st = ''created'' \<longleftrightarrow> st = Created"
  "status_as_str st = ''auto_approved'' \<longleftrightarrow> st = AutoApproved"
  "status_as_str st = ''partially_approved'' \<longleftrightarrow> st = PartiallyApproved"
  by (cases st; simp add: status_values_def)+

lemma new_request_row_simps [simp]:
  "q_id (new_request_row rid nq now) = rid"
  "q_idempotency_key (new_request_row rid nq now) = nq_idempotency_key nq"
  "q_status (new_request_row rid nq now) = ''created''"
  "q_grant_id (new_request_row rid nq now) = None"
  by (simp_all add: new_request_row_def)

lemma row_consistent_new: "period_valid (nq_period nq) \<Longrightarrow> row_consistent (new_request_row rid nq now)"
  by (simp add: row_consistent_def request_try_from_ok_iff)
    (simp add: new_request_row_def status_from_str_def)

lemma same_request_writes [simp]:
  "same_request r (write_decision d r)" "same_request r (write_review st reviewer reason gid now r)"
  by (simp_all add: same_request_def write_decision_def write_review_def)

lemma row_consistent_decision:
  "row_consistent r \<Longrightarrow> row_consistent (write_decision (decompose d) r)"
  unfolding row_consistent_def request_try_from_ok_iff
  by (cases d) (simp_all add: write_decision_def decompose_approved_def decompose_unapproved_def
      status_from_str_def)

lemma row_consistent_review:
  "row_consistent r \<Longrightarrow> is_review_outcome st \<Longrightarrow> (gid \<noteq> None \<longleftrightarrow> st = Approved) \<Longrightarrow>
   row_consistent (write_review st reviewer reason gid now r)"
  unfolding row_consistent_def request_try_from_ok_iff
  by (auto simp: write_review_def is_review_outcome_def status_from_str_def)

lemma guar_create: "period_valid (nq_period nq) \<Longrightarrow> guar budget_step (create nq)"
  unfolding create_def
  by (intro budget.guar_obind budget.guar_cuid2 budget.guar_stmt)
    (auto intro: insert_request_step row_consistent_new budget.guar_query split: option.split)

lemma guar_record_decision: "guar budget_step (record_decision rid d)"
  unfolding record_decision_def
proof (intro budget.guar_obind budget.guar_stmt)
  fix s a s'
  assume "update_request (\<lambda>r. q_id r = rid) (write_decision (decompose d)) s = Inr (a, s')"
  then show "budget_step s s'"
    by (rule update_request_step) (auto intro: row_consistent_decision)
qed (auto split: option.split)

lemma guar_record_review:
  assumes "gid \<noteq> None \<longleftrightarrow> st = Approved"
  shows "guar budget_step (record_review rid st reviewer reason gid)"
proof (cases "is_review_outcome st")
  case True
  have "guar budget_step
      (stmt (\<lambda>now. update_request (pending_row rid) (write_review st reviewer reason gid now)))"
    by (rule budget.guar_stmt, erule update_request_step [where rid = rid])
      (use True assms in \<open>auto simp: pending_row_def intro: row_consistent_review\<close>)
  then show ?thesis
    unfolding record_review_def by (auto intro!: budget.guar_obind split: option.split)
qed (simp add: record_review_def)

lemma guar_request_reads:
  "guar budget_step (find_by_idempotency_key k)" "guar budget_step (get_request rid)"
  "guar budget_step (list_pending_review acct after lim)"
  "guar budget_step (list_by_budget_account acct' before lim)"
  by (auto simp: find_by_idempotency_key_def get_request_def list_pending_review_def
      list_by_budget_account_def Let_def intro!: budget.guar_obind budget.guar_query split: option.split)

lemmas guar_budget = guar_grant_budget guar_ledger_reads guar_create guar_record_decision
  guar_record_review guar_request_reads

subsection \<open>The methods with every message delivered\<close>

lemma create_fresh:
  assumes "calm env" "period_valid (nq_period nq)"
    "nq_budget_account_id nq \<in> set (accounts s)" "nq_account_id nq \<in> set (accounts s)"
    "fk_ok (projects s) (nq_project_id nq)"
    "\<not> key_taken q_idempotency_key (requests s) (nq_idempotency_key nq)"
    "o_cuid (env n 0) \<notin> q_id ` set (requests s)"
  defines "row \<equiv> new_request_row (o_cuid (env n 0)) nq (o_now (env (Suc n) 0))"
  shows "run (create nq) env n s = (request_try_from row, Suc (Suc n), s\<lparr>requests := requests s @ [row]\<rparr>)"
proof -
  have "request_checks row"
    using assms(2) by (simp add: row_def request_checks_def status_values_def)
      (simp add: new_request_row_def period_valid_check)
  moreover have "request_fks s row"
    using assms(3-5) by (simp add: row_def request_fks_def new_request_row_def fk_ok_def)
  ultimately have "insert_request row s = Inr (Some row, s\<lparr>requests := requests s @ [row]\<rparr>)"
    using assms(6,7) by (simp add: insert_request_def row_def)
  then show ?thesis
    by (simp add: create_def cuid2_def run_obind run_observe run_stmt_calm [OF assms(1)] row_def)
qed

lemma find_by_key_calm:
  "calm env \<Longrightarrow> run (find_by_idempotency_key k) env n s =
     (transpose_map request_try_from (select_request_by_key (Some k) s), Suc n, s)"
  by (simp add: find_by_idempotency_key_def run_obind run_query_calm)

lemma get_request_calm:
  "calm env \<Longrightarrow> run (get_request rid) env n s =
     ((case find (\<lambda>r. q_id r = rid) (requests s) of
         None \<Rightarrow> Inl (not_found_request rid) | Some r \<Rightarrow> request_try_from r), Suc n, s)"
  by (simp add: get_request_def run_obind run_query_calm split: option.split)

lemma find_id:
  "distinct (map key rows) \<Longrightarrow> r \<in> set rows \<Longrightarrow> find (\<lambda>x. key x = key r) rows = Some r"
  by (induction rows) auto

lemma update_request_ok:
  assumes "find P (requests s) = Some r" "request_checks (f r)" "request_fks s (f r)"
  shows "update_request P f s =
    Inr (Some (f r), s\<lparr>requests := map (\<lambda>r. if P r then f r else r) (requests s)\<rparr>)"
  using assms by (simp add: update_request_def)

lemma write_decision_simps [simp]:
  "q_id (write_decision d r) = q_id r" "q_status (write_decision d r) = status_as_str (dd_status d)"
  "q_grant_id (write_decision d r) = dd_grant_id d" "q_period (write_decision d r) = q_period r"
  "q_approved_amount_micros (write_decision d r) = dd_approved_amount_micros d"
  "request_checks (write_decision d r) \<longleftrightarrow> period_check (q_period r)"
  "request_fks s (write_decision d r) \<longleftrightarrow>
     request_fks s (r\<lparr>q_grant_id := dd_grant_id d\<rparr>)"
  by (simp_all add: write_decision_def request_checks_def request_fks_def)

lemma record_decision_calm:
  assumes "calm env" "distinct (map q_id (requests s))" "r \<in> set (requests s)"
    "period_check (q_period r)" "request_fks s (r\<lparr>q_grant_id := dd_grant_id (decompose d)\<rparr>)"
  shows "run (record_decision (q_id r) d) env n s =
    (request_try_from (write_decision (decompose d) r), Suc n,
     s\<lparr>requests := map (\<lambda>x. if q_id x = q_id r then write_decision (decompose d) r else x) (requests s)\<rparr>)"
proof -
  have only: "x = r" if "x \<in> set (requests s)" "q_id x = q_id r" for x
    using assms(2,3) that by (metis (no_types, lifting) distinct_map inj_onD)
  have "map (\<lambda>x. if q_id x = q_id r then write_decision (decompose d) x else x) (requests s) =
        map (\<lambda>x. if q_id x = q_id r then write_decision (decompose d) r else x) (requests s)"
    using only by auto
  with update_request_ok [OF find_id [OF assms(2,3)], of "write_decision (decompose d)"] assms(4,5)
  show ?thesis
    by (simp add: record_decision_def run_obind run_stmt_calm [OF assms(1)])
qed

end
