(* ===== verification/Refill.thy ===== *)
theory Refill
  imports Augmentation
begin

text \<open>
  refill.rs: the self-service refill, from the idempotency short circuit to the recorded decision. The
  trait objects of \<open>RefillService\<close> are arguments: \<open>allowed\<close> and \<open>evaluate\<close> for \<open>dyn PolicyEngine\<close>, applied
  to the engine that is live at that moment, and \<open>reader\<close> for \<open>dyn SpendReader\<close>, whose answer may
  differ at every call. \<open>checks\<close> is the build's overflow checking, which decides what
  \<open>Period::previous\<close> does in the first month of year 0.
\<close>

record refill_request =
  rr_budget_account_id :: string
  rr_account_id :: string
  rr_project_id :: "string option"
  rr_period :: period
  rr_idempotency_key :: "string option"
  rr_as_of :: int
  rr_requested_amount_micros :: int

record refill_status_view =
  rs_allowed_amounts_micros :: "int list"

type_synonym spend_reader = "weather \<Rightarrow> string \<Rightarrow> period \<Rightarrow> spend bresult"
type_synonym evaluator = "rule_data_engine \<Rightarrow> facts \<Rightarrow> int \<Rightarrow> decision bresult"
type_synonym offers = "rule_data_engine \<Rightarrow> int list"

text \<open>A panic ends the call without a reply.\<close>

abbreviation panic :: "('s, 'a) op" where
  "panic \<equiv> fail (StorageFailed ''panic'')"

subsection \<open>RefillService\<close>

definition list_own_history ::
  "string \<Rightarrow> int option \<Rightarrow> int \<Rightarrow> (sys, augmentation_request list) op" where
  "list_own_history acct before lim = list_by_budget_account acct before lim"

definition refill_status :: "offers \<Rightarrow> (sys, refill_status_view) op" where
  "refill_status allowed =
     observe (\<lambda>_ s. Inr \<lparr>rs_allowed_amounts_micros = allowed (live_engine s)\<rparr>)"

definition find_existing :: "string option \<Rightarrow> (sys, augmentation_request option) op" where
  "find_existing key = (case key of Some k \<Rightarrow> find_by_idempotency_key k | None \<Rightarrow> ok None)"

definition load_facts :: "bool \<Rightarrow> spend_reader \<Rightarrow> refill_request \<Rightarrow> (sys, facts) op" where
  "load_facts checks reader req =
     obind (effective_balance (rr_budget_account_id req) (rr_period req) (rr_as_of req)) (\<lambda>balance.
     obind (get_balance (rr_budget_account_id req) (rr_period req)) (\<lambda>snapshot.
     obind (observe (\<lambda>w _. reader w (rr_account_id req) (rr_period req))) (\<lambda>this_period.
     case period_previous checks (rr_period req) of
       None \<Rightarrow> panic
     | Some prev \<Rightarrow>
         obind (observe (\<lambda>w _. reader w (rr_account_id req) prev)) (\<lambda>last_period.
         ok \<lparr>effective_balance_micros = balance,
              self_service_grant_count =
                (case snapshot of None \<Rightarrow> 0 | Some b \<Rightarrow> b_self_service_grant_count b),
              spend_this_period = this_period, spend_last_period = last_period\<rparr>))))"

definition refill_grant_request :: "refill_request \<Rightarrow> decision \<Rightarrow> grant_request" where
  "refill_grant_request req d =
     \<lparr>gq_budget_account_id = rr_budget_account_id req, gq_account_id = rr_account_id req,
      gq_project_id = rr_project_id req, gq_period = rr_period req,
      gq_amount_micros = approved_amount_micros d, gq_source = SelfService,
      gq_actor_id = Some (rr_account_id req), gq_reason = None,
      gq_policy_revision = Some (policy_revision d), gq_matched_rule_ids = Some (matched_rule_ids d),
      gq_idempotency_key = rr_idempotency_key req, gq_trigger_key = None, gq_expires_at = None\<rparr>"

definition unapproved_of :: "decision \<Rightarrow> unapproved_decision" where
  "unapproved_of d =
     \<lparr>ud_policy_effect = effect d, ud_policy_reason_codes = reason_codes d,
      ud_matched_rule_ids = matched_rule_ids d, ud_policy_revision = policy_revision d\<rparr>"

definition approved_of :: "decision \<Rightarrow> string \<Rightarrow> approved_decision" where
  "approved_of d gid =
     \<lparr>ad_policy_effect = effect d, ad_policy_reason_codes = reason_codes d,
      ad_matched_rule_ids = matched_rule_ids d, ad_policy_revision = policy_revision d,
      ad_approved_amount_micros = approved_amount_micros d, ad_grant_id = gid\<rparr>"

definition engine_unavailable :: unapproved_decision where
  "engine_unavailable =
     \<lparr>ud_policy_effect = ManualReview, ud_policy_reason_codes = [''policy_engine_unavailable''],
      ud_matched_rule_ids = [], ud_policy_revision = ''n/a''\<rparr>"

definition apply_decision ::
  "refill_request \<Rightarrow> string \<Rightarrow> decision \<Rightarrow> (sys, augmentation_request) op" where
  "apply_decision req rid d =
     (if effect d = AutoApprove \<or> effect d = AutoApproveCapped then
        obind (grant (refill_grant_request req d)) (\<lambda>g.
        record_decision rid
          (if effect d = AutoApprove then RdAutoApproved (approved_of d (g_id g))
           else RdPartiallyApproved (approved_of d (g_id g))))
      else if effect d = ManualReview then record_decision rid (RdPendingReview (unapproved_of d))
      else record_decision rid (RdDenied (unapproved_of d)))"

definition new_refill :: "refill_request \<Rightarrow> new_augmentation_request" where
  "new_refill req =
     \<lparr>nq_budget_account_id = rr_budget_account_id req, nq_account_id = rr_account_id req,
      nq_project_id = rr_project_id req, nq_period = rr_period req,
      nq_requested_tier = (case tier_from_amount_micros (rr_requested_amount_micros req) of
                             None \<Rightarrow> B15 | Some t \<Rightarrow> t),
      nq_requested_amount_micros = rr_requested_amount_micros req,
      nq_idempotency_key = rr_idempotency_key req\<rparr>"

text \<open>\<open>request_refill\<close> in three parts: once the row exists, once the key is known to be new, and from the start.\<close>

definition decide_refill ::
  "bool \<Rightarrow> spend_reader \<Rightarrow> evaluator \<Rightarrow> refill_request \<Rightarrow> string \<Rightarrow> (sys, augmentation_request) op" where
  "decide_refill checks reader evaluate req rid =
     obind (load_facts checks reader req) (\<lambda>facts.
     pbind (observe (\<lambda>_ s. evaluate (live_engine s) facts (rr_requested_amount_micros req))) (\<lambda>answer.
     case answer of
       Inl _ \<Rightarrow> record_decision rid (RdPendingReview engine_unavailable)
     | Inr d \<Rightarrow> apply_decision req rid d))"

definition new_request ::
  "bool \<Rightarrow> spend_reader \<Rightarrow> offers \<Rightarrow> evaluator \<Rightarrow> refill_request \<Rightarrow> (sys, augmentation_request) op" where
  "new_request checks reader allowed evaluate req =
     obind (observe (\<lambda>_ s. Inr (allowed (live_engine s)))) (\<lambda>offered.
     if rr_requested_amount_micros req \<notin> set offered
     then fail (AmountNotOffered (rr_requested_amount_micros req))
     else obind (create (new_refill req)) (\<lambda>created.
          decide_refill checks reader evaluate req (q_id created)))"

definition request_refill ::
  "bool \<Rightarrow> spend_reader \<Rightarrow> offers \<Rightarrow> evaluator \<Rightarrow> refill_request \<Rightarrow> (sys, augmentation_request) op" where
  "request_refill checks reader allowed evaluate req =
     obind (find_existing (rr_idempotency_key req)) (\<lambda>existing.
     case existing of
       Some q \<Rightarrow> ok q
     | None \<Rightarrow> new_request checks reader allowed evaluate req)"

subsection \<open>Every action keeps the tables' guarantee\<close>

lemma guar_load_facts: "guar budget_step (load_facts checks reader req)"
  unfolding load_facts_def
  by (intro budget.guar_obind guar_budget budget.guar_observe)
    (auto intro!: budget.guar_obind budget.guar_observe split: option.split)

lemma guar_apply_decision: "guar budget_step (apply_decision req rid d)"
  unfolding apply_decision_def by (auto intro!: budget.guar_obind guar_budget)

lemma guar_request_refill:
  assumes "period_valid (rr_period req)"
  shows "guar budget_step (request_refill checks reader allowed evaluate req)"
proof -
  have "period_valid (nq_period (new_refill req))" using assms by (simp add: new_refill_def)
  then show ?thesis
    unfolding request_refill_def find_existing_def new_request_def decide_refill_def
    by (auto intro!: budget.guar_obind guar_pbind guar_budget guar_load_facts guar_apply_decision
        budget.guar_observe split: option.split sum.split)
qed

subsection \<open>What a refill run alone does\<close>

text \<open>Everything before the decision is applied leaves the ledger and the engine alone.\<close>

definition same_ledger :: "sys \<Rightarrow> sys \<Rightarrow> bool" where
  "same_ledger s s' \<longleftrightarrow> grants s' = grants s \<and> balances s' = balances s \<and> accounts s' = accounts s \<and>
     projects s' = projects s \<and> live_engine s' = live_engine s"

interpretation quiet: guarantee same_ledger
  by unfold_locales (auto simp: same_ledger_def)

lemma quiet_update: "update_request P f s = Inr (a, s') \<Longrightarrow> same_ledger s s'"
  by (auto simp: update_request_def same_ledger_def split: option.splits if_splits)

lemma quiet_ops:
  "guar same_ledger (find_existing key)" "guar same_ledger (create nq)"
  "guar same_ledger (load_facts checks reader req)" "guar same_ledger (record_decision rid d)"
  "guar same_ledger (observe f)"
  by (auto simp: find_existing_def find_by_idempotency_key_def create_def load_facts_def
      effective_balance_def get_balance_def record_decision_def insert_request_def same_ledger_def
      intro!: quiet.guar_obind quiet.guar_query quiet.guar_cuid2 quiet.guar_stmt quiet.guar_observe
      dest: quiet_update [unfolded same_ledger_def] split: option.splits if_splits)

definition stored_count :: "string \<Rightarrow> period \<Rightarrow> sys \<Rightarrow> int" where
  "stored_count acct per s =
     (case find (balance_at acct (period_str per)) (balances s) of
        None \<Rightarrow> 0 | Some b \<Rightarrow> b_self_service_grant_count b)"

lemma get_balance_count:
  assumes "run (get_balance acct per) env n s = (Inr snapshot, n', s')"
  shows "(case snapshot of None \<Rightarrow> 0 | Some b \<Rightarrow> b_self_service_grant_count b) = stored_count acct per s"
  using assms
  by (auto simp: get_balance_def stored_count_def balance_try_from_def res_bind_eq_Inr_conv
      elim!: run_obind_Inr dest!: run_query_Inr split: option.splits)

lemma effective_balance_state:
  "run (effective_balance acct per as_of) env n s = (r, n', s') \<Longrightarrow> s' = s"
  unfolding effective_balance_def by (rule run_query_state)

lemma load_facts_count:
  assumes "run (load_facts checks reader req) env n s = (Inr facts, n', s')"
  shows "self_service_grant_count facts = stored_count (rr_budget_account_id req) (rr_period req) s"
  using assms
  by (auto simp: load_facts_def run_observe elim!: run_obind_Inr
      dest!: effective_balance_state get_balance_count split: option.splits)

text \<open>The decision applied: at most one row, that of the decision, and only if it authorizes a grant.\<close>

lemma apply_decision_grants:
  assumes "run (apply_decision req rid d) env n s = (r, n', s')"
  shows "grants s' = grants s \<or>
         authorizes_grant (effect d) \<and>
         (\<exists>gid now. grants s' = grants s @ [new_grant_row gid (refill_grant_request req d) now])"
proof (cases "authorizes_grant (effect d)")
  case False
  with assms quiet.run_guar [OF quiet_ops(4)] show ?thesis
    by (auto simp: apply_decision_def authorizes_grant_def same_ledger_def split: if_splits)
next
  case True
  with assms show ?thesis
    by (auto simp: apply_decision_def authorizes_grant_def elim!: run_obind_cases
        dest!: pg_ledger.appends quiet.run_guar [OF quiet_ops(4)] simp: same_ledger_def)
qed

lemma stored_count_quiet: "same_ledger s s' \<Longrightarrow> stored_count acct per s' = stored_count acct per s"
  by (simp add: stored_count_def same_ledger_def)

text \<open>How a refill can have appended to the ledger.\<close>

definition refill_appended ::
  "offers \<Rightarrow> evaluator \<Rightarrow> refill_request \<Rightarrow> sys \<Rightarrow> sys \<Rightarrow> bool" where
  "refill_appended allowed evaluate req s s' \<longleftrightarrow>
     (\<exists>gid now d facts.
       grants s' = grants s @ [new_grant_row gid (refill_grant_request req d) now] \<and>
       rr_requested_amount_micros req \<in> set (allowed (live_engine s)) \<and>
       evaluate (live_engine s) facts (rr_requested_amount_micros req) = Inr d \<and>
       authorizes_grant (effect d) \<and>
       self_service_grant_count facts = stored_count (rr_budget_account_id req) (rr_period req) s)"

lemma refill_appended_quiet:
  assumes "same_ledger s s1" "refill_appended allowed evaluate req s1 s'"
  shows "refill_appended allowed evaluate req s s'"
  using assms(2) assms(1) [unfolded same_ledger_def]
  unfolding refill_appended_def stored_count_quiet [OF assms(1)] by simp

lemma decide_refill_grants:
  assumes "run (decide_refill checks reader evaluate req rid) env n s = (r, n', s')"
    and "rr_requested_amount_micros req \<in> set (allowed (live_engine s))"
  shows "grants s' = grants s \<or> refill_appended allowed evaluate req s s'"
  using assms(1) unfolding decide_refill_def
proof (cases rule: run_obind_cases)
  case (stopped e)
  then show ?thesis using quiet.run_guar [OF quiet_ops(3)] by (simp add: same_ledger_def)
next
  case (went_on facts n1 s1)
  have quiet1: "same_ledger s s1" using quiet.run_guar [OF quiet_ops(3) went_on(1)] .
  show ?thesis
  proof (cases "evaluate (live_engine s1) facts (rr_requested_amount_micros req)")
    case (Inl err)
    with went_on(2) have "run (record_decision rid (RdPendingReview engine_unavailable)) env (Suc n1) s1 =
        (r, n', s')" by (simp add: run_pbind run_observe)
    from quiet.run_guar [OF quiet_ops(4) this] quiet1 show ?thesis by (simp add: same_ledger_def)
  next
    case (Inr d)
    with went_on(2) have "run (apply_decision req rid d) env (Suc n1) s1 = (r, n', s')"
      by (simp add: run_pbind run_observe)
    from apply_decision_grants [OF this] Inr quiet1 load_facts_count [OF went_on(1)] assms(2)
    show ?thesis by (auto simp: refill_appended_def same_ledger_def)
  qed
qed

lemma refill_grants:
  assumes "run (request_refill checks reader allowed evaluate req) env n s = (r, n', s')"
  shows "grants s' = grants s \<or> refill_appended allowed evaluate req s s'"
  using assms unfolding request_refill_def
proof (cases rule: run_obind_cases)
  case (stopped e)
  then show ?thesis using quiet.run_guar [OF quiet_ops(1)] by (simp add: same_ledger_def)
next
  case (went_on existing n1 s1)
  have quiet1: "same_ledger s s1" using quiet.run_guar [OF quiet_ops(1) went_on(1)] .
  show ?thesis
  proof (cases "existing = None \<and> rr_requested_amount_micros req \<in> set (allowed (live_engine s1))")
    case False
    with went_on(2) have "s' = s1"
      by (auto simp: new_request_def run_obind run_observe split: option.splits)
    with quiet1 show ?thesis by (simp add: same_ledger_def)
  next
    case True
    with went_on(2) have "run (obind (create (new_refill req)) (\<lambda>created.
        decide_refill checks reader evaluate req (q_id created))) env (Suc n1) s1 = (r, n', s')"
      by (simp add: new_request_def run_obind run_observe)
    then show ?thesis
    proof (cases rule: run_obind_cases)
      case (stopped e)
      with quiet.run_guar [OF quiet_ops(2) stopped(1)] quiet1 show ?thesis by (simp add: same_ledger_def)
    next
      case (went_on created n2 s2)
      have quiet2: "same_ledger s s2"
        using quiet.trans [OF quiet1 quiet.run_guar [OF quiet_ops(2) went_on(1)]] .
      then have "rr_requested_amount_micros req \<in> set (allowed (live_engine s2))"
        using True quiet1 by (simp add: same_ledger_def)
      from decide_refill_grants [where allowed = allowed, OF went_on(2) this] show ?thesis
        using refill_appended_quiet [OF quiet2] quiet2 by (metis same_ledger_def)
    qed
  qed
qed

lemma quiet_ledger_step: "same_ledger s s' \<Longrightarrow> ledger_step s s'"
  by (auto simp: same_ledger_def ledger_step_def intro: ledger_frame)

lemma guar_refill_ledger: "guar ledger_step (request_refill checks reader allowed evaluate req)"
proof -
  note quiet = quiet_ops [THEN guar_mono, OF quiet_ledger_step]
  show ?thesis
    unfolding request_refill_def new_request_def decide_refill_def apply_decision_def
    by (auto intro!: ledger.guar_obind guar_pbind quiet guar_grant split: option.split sum.split)
qed

lemma guar_refill_engine:
  "run (request_refill checks reader allowed evaluate req) env n s = (r, n', s') \<Longrightarrow>
   live_engine s' = live_engine s"
proof -
  have eng: "guarantee (\<lambda>s s' :: sys. live_engine s' = live_engine s)" by unfold_locales auto
  have mono: "same_ledger s s' \<Longrightarrow> live_engine s' = live_engine s" for s s'
    by (simp add: same_ledger_def)
  note quiet = quiet_ops [THEN guar_mono, OF mono]
  have g: "guar (\<lambda>s s'. live_engine s' = live_engine s) (grant req')" for req'
    unfolding grant_def
    by (intro guarantee.guar_obind [OF eng] guarantee.guar_transaction [OF eng])
      (auto dest!: grant_body_Inr simp: recorded_def replayed_def)
  have "guar (\<lambda>s s'. live_engine s' = live_engine s) (request_refill checks reader allowed evaluate req)"
    unfolding request_refill_def new_request_def decide_refill_def apply_decision_def
    by (auto intro!: guarantee.guar_obind [OF eng] guar_pbind quiet g split: option.split sum.split)
  then show "run (request_refill checks reader allowed evaluate req) env n s = (r, n', s') \<Longrightarrow>
      live_engine s' = live_engine s"
    by (rule guarantee.run_guar [OF eng])
qed

lemma stored_count_ledger:
  assumes "balances_ok s"
  shows "stored_count acct per s =
    count_where (\<lambda>src. src = ''self_service'')
      (filter (\<lambda>r. grant_key r = (acct, period_str per)) (grants s))"
proof (cases "find (balance_at acct (period_str per)) (balances s)")
  case None
  then have "(acct, period_str per) \<notin> balance_key ` set (balances s)"
    by (auto simp: find_None_iff balance_at_key)
  with assms have "filter (\<lambda>r. grant_key r = (acct, period_str per)) (grants s) = []"
    by (force simp: balances_ok_def filter_empty_conv)
  with None show ?thesis by (simp add: stored_count_def)
next
  case (Some b)
  then have b: "b \<in> set (balances s)" "balance_key b = (acct, period_str per)"
    by (auto simp: find_Some_iff balance_at_key)
  with assms have "projection b = derive_balance (acct, period_str per) (grants s)"
    by (auto simp: balances_ok_def)
  then have "d_self_service_grant_count (projection b) =
      d_self_service_grant_count (derive_balance (acct, period_str per) (grants s))" by simp
  with Some show ?thesis by (simp add: stored_count_def projection_def derive_balance_def Let_def)
qed

subsection \<open>The shipped policy's allowance\<close>

text \<open>How many unaided refills an account has had in a period.\<close>

definition unaided :: "string \<times> string \<Rightarrow> sys \<Rightarrow> int" where
  "unaided k s = count_where (\<lambda>src. src = ''self_service'') (filter (\<lambda>r. grant_key r = k) (grants s))"

lemma default_policy_authorizes:
  assumes "active e = default_rule_set" "engine_evaluate e facts req = Inr d" "authorizes_grant (effect d)"
  shows "self_service_grant_count facts < 2"
  using assms
  by (auto simp: engine_evaluate_eq policy_decision_def default_rule_set_def decision_defs
      authorizes_grant_def split: if_splits)

definition allowance_inv :: "sys \<Rightarrow> bool" where
  "allowance_inv s \<longleftrightarrow> ledger_ok s \<and> active (live_engine s) = default_rule_set \<and> (\<forall>k. unaided k s \<le> 2)"

abbreviation refill_with_rules :: "bool \<Rightarrow> spend_reader \<Rightarrow> refill_request \<Rightarrow> (sys, augmentation_request) op" where
  "refill_with_rules checks reader req \<equiv>
     request_refill checks reader engine_allowed_amounts engine_evaluate req"

lemma allowance_step:
  assumes "allowance_inv s"
  shows "allowance_inv (state_of (refill_with_rules checks reader req) env s)"
proof -
  obtain r n' s' where run: "run (refill_with_rules checks reader req) env 0 s = (r, n', s')"
    by (cases "run (refill_with_rules checks reader req) env 0 s") auto
  let ?k = "(rr_budget_account_id req, period_str (rr_period req))"
  have "unaided k s' \<le> 2" for k
  proof (cases "grants s' = grants s")
    case True
    then show ?thesis using assms by (cases k) (simp add: allowance_inv_def unaided_def)
  next
    case False
    with refill_grants [OF run] obtain gid now d facts where
      row: "grants s' = grants s @ [new_grant_row gid (refill_grant_request req d) now]" and
      d: "engine_evaluate (live_engine s) facts (rr_requested_amount_micros req) = Inr d"
        "authorizes_grant (effect d)" and
      count: "self_service_grant_count facts = stored_count (rr_budget_account_id req) (rr_period req) s"
      by (auto simp: refill_appended_def)
    have "unaided ?k s < 2"
      using default_policy_authorizes [OF _ d] assms count stored_count_ledger [of s]
      by (auto simp: allowance_inv_def ledger_ok_def unaided_def)
    then show ?thesis
      using assms by (cases k) (auto simp: row unaided_def allowance_inv_def refill_grant_request_def)
  qed
  moreover have "ledger_ok s'"
    using ledger.run_guar [OF guar_refill_ledger run] assms by (simp add: ledger_step_def allowance_inv_def)
  ultimately show ?thesis
    using guar_refill_engine [OF run] assms by (simp add: allowance_inv_def state_of_def run)
qed

interpretation allowance: kept_by
  "\<lambda>s (env, reader, req). state_of (refill_with_rules checks reader req) env s" allowance_inv for checks
  by unfold_locales (auto intro: allowance_step)

text \<open>C27 (unaided allowance). Under the shipped policy, refill requests handled one after the other,
  however many, for whatever accounts, amounts, periods and keys, whatever the usage service
  answers and whichever messages are lost, never leave an account with more than two self-service
  grants in a period.\<close>

theorem unaided_refills_at_most_two:
  assumes "ledger_ok s" "active (live_engine s) = default_rule_set" "\<forall>k. unaided k s \<le> 2"
  shows "unaided k (foldl (\<lambda>s (env, reader, req).
           state_of (request_refill checks reader engine_allowed_amounts engine_evaluate req) env s)
           s calls) \<le> 2"
  using allowance.run_keeps [of s checks calls] assms by (cases k) (simp add: allowance_inv_def)

definition demo_refill :: "string \<Rightarrow> refill_request" where
  "demo_refill key = \<lparr>rr_budget_account_id = ''alice'', rr_account_id = ''alice'', rr_project_id = None,
     rr_period = aug_2026, rr_idempotency_key = Some key, rr_as_of = 100,
     rr_requested_amount_micros = 6000000\<rparr>"

definition no_usage :: spend_reader where
  "no_usage w acct p = Inr Unavailable"

theorem unaided_refills_at_most_two_witness:
  "ledger_ok demo_sys \<and> active (live_engine demo_sys) = default_rule_set \<and>
   unaided (''alice'', ''2026-08'') (foldl (\<lambda>s (env, reader, req).
     state_of (request_refill False reader engine_allowed_amounts engine_evaluate req) env s) demo_sys
     [(fair 1 ''i1'', no_usage, demo_refill ''a''), (fair 2 ''i2'', no_usage, demo_refill ''b''),
      (fair 3 ''i3'', no_usage, demo_refill ''c'')]) \<le> 2"
proof (intro conjI unaided_refills_at_most_two demo_ledger_ok)
  show "active (live_engine demo_sys) = default_rule_set" by (simp add: demo_sys_simps)
  then show "active (live_engine demo_sys) = default_rule_set" .
  show "\<forall>k. unaided k demo_sys \<le> 2" by (simp add: demo_sys_simps unaided_def)
qed

subsection \<open>Bounds of what a refill grants\<close>

text \<open>C25 (a refill grants only what the policy authorized). In any weather a refill handled alone
  appends at most one row to the ledger; that row is a self-service grant to the requested account and
  period under the request's key, the requested amount is one the live policy offers, the live policy
  answered with an approving effect on facts that count the account's stored self-service grants, and the
  granted amount is positive and at most the requested one.\<close>

theorem refill_grant_authorized:
  assumes "run (request_refill checks reader engine_allowed_amounts engine_evaluate req) env n s = (r, n', s')"
    and "ledger_ok s" and "engine_ok (live_engine s)" and "row \<in> set (grants s') - set (grants s)"
  shows "grants s' = grants s @ [row] \<and> g_source row = source_as_str SelfService \<and>
         grant_key row = (rr_budget_account_id req, period_str (rr_period req)) \<and>
         g_idempotency_key row = rr_idempotency_key req \<and>
         rr_requested_amount_micros req \<in> set (engine_allowed_amounts (live_engine s)) \<and>
         0 < g_amount_micros row \<and> g_amount_micros row \<le> rr_requested_amount_micros req \<and>
         (\<exists>facts d. engine_evaluate (live_engine s) facts (rr_requested_amount_micros req) = Inr d \<and>
            authorizes_grant (effect d) \<and> g_amount_micros row = approved_amount_micros d \<and>
            self_service_grant_count facts = stored_count (rr_budget_account_id req) (rr_period req) s)"
proof -
  from refill_grants [OF assms(1)] assms(4) obtain gid now d facts where
    row: "grants s' = grants s @ [new_grant_row gid (refill_grant_request req d) now]" and
    offered: "rr_requested_amount_micros req \<in> set (engine_allowed_amounts (live_engine s))" and
    d: "engine_evaluate (live_engine s) facts (rr_requested_amount_micros req) = Inr d"
      "authorizes_grant (effect d)" and
    count: "self_service_grant_count facts = stored_count (rr_budget_account_id req) (rr_period req) s"
    by (auto simp: refill_appended_def)
  with assms(4) have the_row: "row = new_grant_row gid (refill_grant_request req d) now" by auto
  have "ledger_ok s'"
    using ledger.run_guar [OF guar_refill_ledger assms(1)] assms(2) by (simp add: ledger_step_def)
  then have "grant_checks row" using row the_row by (simp add: ledger_ok_def grants_ok_def)
  then have "0 < g_amount_micros row"
    by (simp add: the_row grant_checks_def refill_grant_request_def sign_is_valid_def amount_sign_check_def)
  moreover have "approved_amount_micros d \<le> rr_requested_amount_micros req"
    by (rule rule_engine.offered_approval_bounded [OF assms(3) offered d(1)])
  ultimately show ?thesis
    using row the_row offered d count by (auto simp: refill_grant_request_def)
qed

subsection \<open>The outcome of a refill when every message arrives\<close>

fun outcome_status :: "effect \<Rightarrow> augmentation_status" where
  "outcome_status AutoApprove = AutoApproved"
| "outcome_status AutoApproveCapped = PartiallyApproved"
| "outcome_status ManualReview = PendingReview"
| "outcome_status Deny = Denied"
| "outcome_status NoAction = Denied"

definition active_total :: "string \<Rightarrow> period \<Rightarrow> int \<Rightarrow> sys \<Rightarrow> int" where
  "active_total acct per as_of s =
     sum_list (map g_amount_micros
       (filter (\<lambda>r. g_budget_account_id r = acct \<and> g_period r = period_str per \<and> counts_at as_of r)
          (grants s)))"

lemma effective_balance_calm:
  "calm env \<Longrightarrow> run (effective_balance acct per as_of) env n s =
     ((if fits_i64 (active_total acct per as_of s) then Inr (active_total acct per as_of s)
       else Inl (StorageFailed ''bigint out of range'')), Suc n, s)"
  by (simp add: effective_balance_def active_total_def run_query_calm Let_def)

lemma get_balance_calm:
  assumes "calm env" "period_valid per"
  shows "\<exists>snapshot. run (get_balance acct per) env n s = (Inr snapshot, Suc n, s)"
proof (cases "find (balance_at acct (period_str per)) (balances s)")
  case None
  then show ?thesis by (simp add: get_balance_def run_obind run_query_calm [OF assms(1)])
next
  case (Some b)
  then have "b_period b = period_str per" by (auto simp: find_Some_iff balance_at_def)
  with Some assms(2) show ?thesis
    by (simp add: get_balance_def run_obind run_query_calm [OF assms(1)] balance_try_from_def)
qed

text \<open>The facts a refill handled alone presents to the engine.\<close>

definition presented_facts :: "refill_request \<Rightarrow> spend \<Rightarrow> spend \<Rightarrow> sys \<Rightarrow> facts" where
  "presented_facts req this_period last_period s =
     \<lparr>effective_balance_micros = active_total (rr_budget_account_id req) (rr_period req) (rr_as_of req) s,
      self_service_grant_count = stored_count (rr_budget_account_id req) (rr_period req) s,
      spend_this_period = this_period, spend_last_period = last_period\<rparr>"

lemma load_facts_calm:
  assumes "calm env" "period_valid (rr_period req)" "period_previous checks (rr_period req) = Some prev"
    "fits_i64 (active_total (rr_budget_account_id req) (rr_period req) (rr_as_of req) s)"
    "reader (env (n + 2)) (rr_account_id req) (rr_period req) = Inr this_period"
    "reader (env (n + 3)) (rr_account_id req) prev = Inr last_period"
  shows "run (load_facts checks reader req) env n s =
    (Inr (presented_facts req this_period last_period s), n + 4, s)"
proof -
  obtain snapshot where snap:
    "run (get_balance (rr_budget_account_id req) (rr_period req)) env (Suc n) s = (Inr snapshot, Suc (Suc n), s)"
    using get_balance_calm [OF assms(1,2)] by blast
  from get_balance_count [OF snap] show ?thesis
    using assms(3-6)
    by (simp add: load_facts_def run_obind effective_balance_calm [OF assms(1)] snap run_observe
        presented_facts_def eval_nat_numeral)
qed

definition decision_record :: "decision \<Rightarrow> string \<Rightarrow> recorded_decision" where
  "decision_record d gid =
     (case effect d of
        AutoApprove \<Rightarrow> RdAutoApproved (approved_of d gid)
      | AutoApproveCapped \<Rightarrow> RdPartiallyApproved (approved_of d gid)
      | ManualReview \<Rightarrow> RdPendingReview (unapproved_of d)
      | _ \<Rightarrow> RdDenied (unapproved_of d))"

lemma decision_record_simps:
  "dd_status (decompose (decision_record d gid)) = outcome_status (effect d)"
  "dd_grant_id (decompose (decision_record d gid)) =
     (if authorizes_grant (effect d) then Some gid else None)"
  "dd_approved_amount_micros (decompose (decision_record d gid)) =
     (if authorizes_grant (effect d) then Some (approved_amount_micros d) else None)"
  by (cases "effect d"; simp add: decision_record_def decompose_approved_def decompose_unapproved_def
      approved_of_def authorizes_grant_def)+

lemma apply_decision_eq:
  "apply_decision req rid d =
     (if authorizes_grant (effect d)
      then obind (grant (refill_grant_request req d)) (\<lambda>g. record_decision rid (decision_record d (g_id g)))
      else record_decision rid (decision_record d []))"
  by (cases "effect d") (simp_all add: apply_decision_def authorizes_grant_def decision_record_def)

lemma record_last:
  assumes "calm env" "requests s = before @ [row]" "distinct (map q_id (requests s))"
    "period_check (q_period row)" "request_fks s (row\<lparr>q_grant_id := dd_grant_id (decompose d)\<rparr>)"
  shows "run (record_decision (q_id row) d) env n s =
    (request_try_from (write_decision (decompose d) row), Suc n,
     s\<lparr>requests := before @ [write_decision (decompose d) row]\<rparr>)"
proof -
  have "map (\<lambda>x. if q_id x = q_id row then write_decision (decompose d) row else x) before = before"
    using assms(2,3) by (intro map_idI) (auto simp: rev_image_eqI)
  with record_decision_calm [OF assms(1,3), of row d] assms(2,4,5) show ?thesis by simp
qed

lemma apply_decision_calm:
  assumes "calm env" "requests s = before @ [row]" "distinct (map q_id (requests s))"
    "period_check (q_period row)" "request_fks s row" "q_grant_id row = None"
    and granted: "authorizes_grant (effect d) \<Longrightarrow> grantable (refill_grant_request req d) s \<and>
      \<not> key_taken g_idempotency_key (grants s) (rr_idempotency_key req) \<and>
      o_cuid (env n 3) \<notin> g_id ` set (grants s)"
  defines "g \<equiv> new_grant_row (o_cuid (env n 3)) (refill_grant_request req d) (o_now (env n 0))"
  defines "row' \<equiv> write_decision (decompose (decision_record d (o_cuid (env n 3)))) row"
  obtains s' n' where "run (apply_decision req (q_id row) d) env n s = (request_try_from row', n', s')"
    "requests s' = before @ [row']"
    "grants s' = (if authorizes_grant (effect d) then grants s @ [g] else grants s)"
proof (cases "authorizes_grant (effect d)")
  case False
  have "decision_record d [] = decision_record d (o_cuid (env n 3))"
    using False by (cases "effect d") (simp_all add: decision_record_def authorizes_grant_def)
  moreover have "request_fks s (row\<lparr>q_grant_id := None\<rparr>)" using assms(5,6) by (simp add: request_fks_def)
  ultimately show ?thesis
    using False that record_last [OF assms(1-4), of "decision_record d (o_cuid (env n 3))" n]
    by (auto simp: apply_decision_eq row'_def decision_record_simps)
next
  case True
  let ?greq = "refill_grant_request req d"
  have key: "gq_idempotency_key ?greq = rr_idempotency_key req" by (simp add: refill_grant_request_def)
  obtain s1 where run: "run (grant ?greq) env n s = (grant_try_from g, Suc n, s1)"
    and rec: "recorded ?greq (o_now (env n 0)) s g s1"
    using grant_fresh [OF assms(1), of ?greq s n] granted [OF True] unfolding key g_def by blast
  have valid: "period_valid (gq_period ?greq)" using granted [OF True] by (simp add: grantable_def)
  from grant_try_from_new [OF valid] obtain bg where
    bg: "grant_try_from g = Inr bg" "g_id bg = o_cuid (env n 3)" by (simp add: g_def)
  have s1: "requests s1 = before @ [row]" "grants s1 = grants s @ [g]" "accounts s1 = accounts s"
    "projects s1 = projects s"
    using rec assms(2) by (auto simp: recorded_def)
  have "request_fks s1 (row\<lparr>q_grant_id := Some (o_cuid (env n 3))\<rparr>)"
    using assms(5) s1 by (simp add: request_fks_def fk_ok_def g_def)
  with record_last [OF assms(1) s1(1), of "decision_record d (o_cuid (env n 3))" "Suc n"] assms(2-4) s1
  have "run (record_decision (q_id row) (decision_record d (g_id bg))) env (Suc n) s1 =
      (request_try_from row', Suc (Suc n), s1\<lparr>requests := before @ [row']\<rparr>)"
    by (simp add: row'_def bg decision_record_simps True)
  with run bg True s1 that show ?thesis by (auto simp: apply_decision_eq run_obind)
qed

text \<open>
  A refill that nothing stands in the way of: the key is new, the amount is offered, the accounts and the
  project exist, the new row's identifier is fresh, and the usage service answers for both periods.
\<close>

definition refill_ready ::
  "(nat \<Rightarrow> weather) \<Rightarrow> bool \<Rightarrow> spend_reader \<Rightarrow> offers \<Rightarrow> refill_request \<Rightarrow> spend \<Rightarrow> spend \<Rightarrow> sys \<Rightarrow> bool" where
  "refill_ready env checks reader allowed req this_period last_period s \<longleftrightarrow>
     calm env \<and> requests_ok s \<and> period_valid (rr_period req) \<and>
     rr_budget_account_id req \<in> set (accounts s) \<and> rr_account_id req \<in> set (accounts s) \<and>
     fk_ok (projects s) (rr_project_id req) \<and>
     (\<exists>k. rr_idempotency_key req = Some k \<and> \<not> key_taken q_idempotency_key (requests s) (Some k)) \<and>
     rr_requested_amount_micros req \<in> set (allowed (live_engine s)) \<and>
     o_cuid (env 2 0) \<notin> q_id ` set (requests s) \<and>
     fits_i64 (active_total (rr_budget_account_id req) (rr_period req) (rr_as_of req) s) \<and>
     reader (env 6) (rr_account_id req) (rr_period req) = Inr this_period \<and>
     (\<exists>prev. period_previous checks (rr_period req) = Some prev \<and>
        reader (env 7) (rr_account_id req) prev = Inr last_period)"

definition created_row :: "(nat \<Rightarrow> weather) \<Rightarrow> refill_request \<Rightarrow> request_row" where
  "created_row env req = new_request_row (o_cuid (env 2 0)) (new_refill req) (o_now (env 3 0))"

lemma created_row_simps [simp]:
  "q_id (created_row env req) = o_cuid (env 2 0)" "q_grant_id (created_row env req) = None"
  "q_period (created_row env req) = period_str (rr_period req)"
  "q_idempotency_key (created_row env req) = rr_idempotency_key req"
  by (simp_all add: created_row_def new_request_row_def new_refill_def)

lemma created_row_converts:
  assumes "period_valid (rr_period req)"
  shows "row_consistent (created_row env req)"
    and "\<exists>q. request_try_from (created_row env req) = Inr q \<and> q_id q = o_cuid (env 2 0)"
proof -
  show c: "row_consistent (created_row env req)"
    unfolding created_row_def using assms by (intro row_consistent_new) (simp add: new_refill_def)
  then show "\<exists>q. request_try_from (created_row env req) = Inr q \<and> q_id q = o_cuid (env 2 0)"
    by (cases "request_try_from (created_row env req)")
      (auto simp: row_consistent_def request_try_from_def res_bind_eq_Inr_conv)
qed

text \<open>Its calls before the decision, one by one.\<close>

lemma refill_ready_runs:
  assumes ready: "refill_ready env checks reader allowed req this_period last_period s"
  defines "s1 \<equiv> s\<lparr>requests := requests s @ [created_row env req]\<rparr>"
  shows "run (find_existing (rr_idempotency_key req)) env 0 s = (Inr None, 1, s)"
    and "run (create (new_refill req)) env 2 s = (request_try_from (created_row env req), 4, s1)"
    and "run (load_facts checks reader req) env 4 s1 =
           (Inr (presented_facts req this_period last_period s), 8, s1)"
proof -
  note r = ready [unfolded refill_ready_def]
  from r obtain k where k: "rr_idempotency_key req = Some k" "\<not> key_taken q_idempotency_key (requests s) (Some k)"
    by blast
  have calm: "calm env" using r by blast
  have "select_request_by_key (Some k) s = None"
    using k by (force simp: select_request_by_key_def find_None_iff key_taken_iff sql_eq_def)
  then show "run (find_existing (rr_idempotency_key req)) env 0 s = (Inr None, 1, s)"
    by (simp add: find_existing_def k find_by_key_calm [OF calm])
  show "run (create (new_refill req)) env 2 s = (request_try_from (created_row env req), 4, s1)"
    using create_fresh [OF calm, of "new_refill req" s 2] r k
    by (simp add: new_refill_def created_row_def s1_def eval_nat_numeral)
  have same: "active_total a p t s1 = active_total a p t s"
    "presented_facts req x y s1 = presented_facts req x y s" for a p t x y
    by (simp_all add: active_total_def stored_count_def presented_facts_def s1_def)
  from r obtain prev where "period_previous checks (rr_period req) = Some prev"
    "reader (env 7) (rr_account_id req) prev = Inr last_period" by blast
  with load_facts_calm [OF calm, of req checks prev s1 reader 4 this_period last_period] r
  show "run (load_facts checks reader req) env 4 s1 =
      (Inr (presented_facts req this_period last_period s), 8, s1)"
    by (simp add: same)
qed

lemma created_row_facts:
  assumes "refill_ready env checks reader allowed req this_period last_period s"
  defines "s1 \<equiv> s\<lparr>requests := requests s @ [created_row env req]\<rparr>"
  shows "request_fks s1 (created_row env req)" "distinct (map q_id (requests s1))"
    "period_check (q_period (created_row env req))" "requests s1 = requests s @ [created_row env req]"
  using assms
  by (auto simp: refill_ready_def s1_def request_fks_def created_row_def new_request_row_def new_refill_def
      fk_ok_def requests_ok_def period_valid_check)

lemma refill_decided:
  assumes ready: "refill_ready env checks reader allowed req this_period last_period s"
    and d: "evaluate (live_engine s) (presented_facts req this_period last_period s)
           (rr_requested_amount_micros req) = Inr d"
    and granted: "authorizes_grant (effect d) \<Longrightarrow> grantable (refill_grant_request req d) s \<and>
           \<not> key_taken g_idempotency_key (grants s) (rr_idempotency_key req) \<and>
           o_cuid (env 9 3) \<notin> g_id ` set (grants s)"
  shows "\<exists>row q s' n'.
     run (request_refill checks reader allowed evaluate req) env 0 s = (Inr q, n', s') \<and>
     request_try_from row = Inr q \<and> requests s' = requests s @ [row] \<and>
     q_status q = outcome_status (effect d) \<and>
     q_approved_amount_micros q = (if authorizes_grant (effect d) then Some (approved_amount_micros d) else None) \<and>
     q_grant_id q = (if authorizes_grant (effect d) then Some (o_cuid (env 9 3)) else None) \<and>
     grants s' = (if authorizes_grant (effect d)
       then grants s @ [new_grant_row (o_cuid (env 9 3)) (refill_grant_request req d) (o_now (env 9 0))]
       else grants s)"
proof -
  let ?row = "created_row env req" and ?s1 = "s\<lparr>requests := requests s @ [created_row env req]\<rparr>"
  let ?row' = "write_decision (decompose (decision_record d (o_cuid (env 9 3)))) ?row"
  note runs = refill_ready_runs [OF ready] and facts = created_row_facts [OF ready]
  have calm: "calm env" and valid: "period_valid (rr_period req)"
    and offered: "rr_requested_amount_micros req \<in> set (allowed (live_engine s))"
    using ready by (simp_all add: refill_ready_def)
  obtain cq where cq: "request_try_from ?row = Inr cq" "q_id cq = o_cuid (env 2 0)"
    using created_row_converts(2) [OF valid] by blast
  have auth: "authorizes_grant (effect d) \<Longrightarrow> grantable (refill_grant_request req d) ?s1 \<and>
      \<not> key_taken g_idempotency_key (grants ?s1) (rr_idempotency_key req) \<and>
      o_cuid (env 9 3) \<notin> g_id ` set (grants ?s1)"
    using granted by (simp add: grantable_def)
  obtain s' n' where applied:
    "run (apply_decision req (q_id ?row) d) env 9 ?s1 = (request_try_from ?row', n', s')"
    "requests s' = requests s @ [?row']"
    "grants s' = (if authorizes_grant (effect d)
       then grants s @ [new_grant_row (o_cuid (env 9 3)) (refill_grant_request req d) (o_now (env 9 0))]
       else grants s)"
    by (rule apply_decision_calm [where n = 9 and req = req,
          OF calm facts(4,2,3,1) created_row_simps(2) auth]) simp_all
  have "row_consistent ?row'" by (intro row_consistent_decision created_row_converts(1) valid)
  then obtain q where q: "request_try_from ?row' = Inr q"
    by (cases "request_try_from ?row'") (auto simp: row_consistent_def)
  then have fields: "q_status q = outcome_status (effect d)" "q_grant_id q = q_grant_id ?row'"
    "q_approved_amount_micros q = q_approved_amount_micros ?row'"
    by (auto simp: request_try_from_def res_bind_eq_Inr_conv decision_record_simps)
  have "run (request_refill checks reader allowed evaluate req) env 0 s = (Inr q, n', s')"
    using applied(1) q offered d runs cq
    by (simp add: request_refill_def new_request_def decide_refill_def run_obind run_pbind run_observe
        eval_nat_numeral)
  with applied(2,3) q fields show ?thesis by (auto simp: decision_record_simps)
qed

text \<open>C26 (outcome of a refill). A refill with a new key for an offered amount, handled alone with every
  message delivered and the spend facts answered, writes exactly one request row, and the row says what
  the engine decided on the presented facts: status auto-approved, partially approved, pending review or
  denied according to the effect. If the effect approves, one grant of the approved amount is appended
  and the row names it and its amount; otherwise the ledger is unchanged and the row names no grant.\<close>

theorem refill_outcome:
  assumes ready: "refill_ready env checks reader allowed req this_period last_period s"
    and d: "evaluate (live_engine s) (presented_facts req this_period last_period s)
           (rr_requested_amount_micros req) = Inr d"
    and granted: "authorizes_grant (effect d) \<Longrightarrow> grantable (refill_grant_request req d) s \<and>
           \<not> key_taken g_idempotency_key (grants s) (rr_idempotency_key req) \<and>
           o_cuid (env 9 3) \<notin> g_id ` set (grants s)"
  shows "\<exists>row q s' n'.
     run (request_refill checks reader allowed evaluate req) env 0 s = (Inr q, n', s') \<and>
     request_try_from row = Inr q \<and> requests s' = requests s @ [row] \<and>
     q_status q = outcome_status (effect d) \<and>
     q_approved_amount_micros q = (if authorizes_grant (effect d) then Some (approved_amount_micros d) else None) \<and>
     q_grant_id q = (if authorizes_grant (effect d) then Some (o_cuid (env 9 3)) else None) \<and>
     grants s' = (if authorizes_grant (effect d)
       then grants s @ [new_grant_row (o_cuid (env 9 3)) (refill_grant_request req d) (o_now (env 9 0))]
       else grants s)"
  using assms by (rule refill_decided)

lemma demo_refill_simps [simp]:
  "rr_budget_account_id (demo_refill k) = ''alice''" "rr_account_id (demo_refill k) = ''alice''"
  "rr_project_id (demo_refill k) = None" "rr_period (demo_refill k) = aug_2026"
  "rr_idempotency_key (demo_refill k) = Some k" "rr_as_of (demo_refill k) = 100"
  "rr_requested_amount_micros (demo_refill k) = 6000000"
  by (simp_all add: demo_refill_def)

definition demo_decision :: decision where
  "demo_decision = \<lparr>effect = AutoApprove, approved_amount_micros = 6000000, maximum_amount_micros = 6000000,
     reason_codes = [''within_unaided_allowance''], matched_rule_ids = [''within-unaided-allowance''],
     policy_revision = ''budget-policy-v1'', decision_obligations = obligations_default\<rparr>"

lemma demo_evaluates:
  "engine_evaluate (live_engine demo_sys) (presented_facts (demo_refill k) x y demo_sys) 6000000 = Inr demo_decision"
  by (simp add: engine_evaluate_def default_rule_set_def demo_sys_simps eval_condition.simps
      presented_facts_def stored_count_def decision_for_effect_def demo_decision_def)

lemma demo_refill_grantable: "grantable (refill_grant_request (demo_refill k) demo_decision) demo_sys"
  by (simp add: grantable_def refill_grant_request_def demo_sys_simps demo_decision_def sign_is_valid_def
      fk_ok_def key_taken_def balance_fits_def bump_balance_def zero_balance_def i64_simps)

lemma aug_2026_previous: "period_previous checks aug_2026 = Some (Period ''2026-07'')"
proof -
  have lit: "aug_2026 = Period (ym_text 2026 8)" "''2026-07'' = ym_text 2026 7"
    by (simp_all add: aug_2026_def ym_text_eval)
  show ?thesis unfolding lit by (subst period_previous_ym_text) simp_all
qed

lemma demo_refill_ready:
  "refill_ready (fair 1 ''i1'') False no_usage engine_allowed_amounts (demo_refill ''k'') Unavailable Unavailable demo_sys"
  using aug_2026_previous
  by (simp add: refill_ready_def requests_ok_def demo_sys_simps unique_keys_def fk_ok_def key_taken_def
      engine_allowed_amounts_def default_rule_set_def active_total_def i64_simps no_usage_def)

lemma demo_decision_simps [simp]:
  "authorizes_grant AutoApprove" "effect demo_decision = AutoApprove"
  "approved_amount_micros demo_decision = 6000000"
  by (simp_all add: demo_decision_def authorizes_grant_def)

theorem refill_outcome_witness:
  "\<exists>row q s' n'.
     run (request_refill False no_usage engine_allowed_amounts engine_evaluate (demo_refill ''k''))
       (fair 1 ''i1'') 0 demo_sys = (Inr q, n', s') \<and>
     request_try_from row = Inr q \<and> requests s' = requests demo_sys @ [row] \<and>
     q_status q = AutoApproved \<and> q_approved_amount_micros q = Some 6000000 \<and> q_grant_id q = Some ''i1'' \<and>
     grants s' = [new_grant_row ''i1'' (refill_grant_request (demo_refill ''k'') demo_decision) 1]"
  using refill_outcome [OF demo_refill_ready, of engine_evaluate demo_decision]
    demo_refill_grantable demo_evaluates
  by (simp add: demo_sys_simps key_taken_def)

lemma demo_refill_result:
  obtains q s' n' where
    "run (request_refill False no_usage engine_allowed_amounts engine_evaluate (demo_refill ''k''))
      (fair 1 ''i1'') 0 demo_sys = (Inr q, n', s')"
    "grants s' = [new_grant_row ''i1'' (refill_grant_request (demo_refill ''k'') demo_decision) 1]"
  using refill_decided [OF demo_refill_ready, of engine_evaluate demo_decision]
    demo_refill_grantable demo_evaluates
  by (auto simp: demo_sys_simps key_taken_def)

theorem refill_grant_authorized_witness:
  "\<exists>row r n' s'. run (request_refill False no_usage engine_allowed_amounts engine_evaluate (demo_refill ''k''))
      (fair 1 ''i1'') 0 demo_sys = (r, n', s') \<and> grants s' = grants demo_sys @ [row] \<and>
    0 < g_amount_micros row \<and> g_amount_micros row \<le> 6000000 \<and>
    6000000 \<in> set (engine_allowed_amounts (live_engine demo_sys))"
proof -
  obtain q s' n' where run:
    "run (request_refill False no_usage engine_allowed_amounts engine_evaluate (demo_refill ''k''))
      (fair 1 ''i1'') 0 demo_sys = (Inr q, n', s')"
    and row: "grants s' = [new_grant_row ''i1'' (refill_grant_request (demo_refill ''k'') demo_decision) 1]"
    by (rule demo_refill_result)
  have "engine_ok (live_engine demo_sys)"
    by (simp add: engine_ok_wf demo_sys_simps default_rule_set_wf)
  from refill_grant_authorized [OF run demo_ledger_ok this] row run show ?thesis
    by (force simp: demo_sys_simps)
qed

subsection \<open>Refusals and retries write nothing\<close>

text \<open>(a retry is not evaluated again). If a request with the given key already has a row, the refill
  returns that row as it stands, after a single read, and changes nothing: no evaluation, no second row, no
  grant, whatever amount or account the retry names.\<close>

theorem refill_retry_returns_existing:
  assumes "calm env" "requests_ok s" "row \<in> set (requests s)" "q_idempotency_key row = Some k"
    and "rr_idempotency_key req = Some k"
  shows "\<exists>q. request_try_from row = Inr q \<and>
           run (request_refill checks reader allowed evaluate req) env n s = (Inr q, Suc n, s)"
proof -
  from assms(2,3) obtain q where q: "request_try_from row = Inr q"
    by (cases "request_try_from row") (auto simp: requests_ok_def row_consistent_def)
  have "select_request_by_key (Some k) s = Some row"
    using assms(2-4) by (simp add: select_request_by_key_def requests_ok_def find_unique_key)
  with q assms(5) show ?thesis
    by (simp add: request_refill_def find_existing_def run_obind find_by_key_calm [OF assms(1)])
qed

text \<open>(an amount that is not offered). A refill for an amount the live policy does not offer, under a
  new key, is refused with \<open>AmountNotOffered\<close> and leaves the state as it was; in any weather, it leaves
  the state as it was.\<close>

theorem refill_amount_not_offered:
  assumes "rr_requested_amount_micros req \<notin> set (allowed (live_engine s))"
    and "\<forall>k. rr_idempotency_key req = Some k \<longrightarrow> \<not> key_taken q_idempotency_key (requests s) (Some k)"
  shows "state_of (request_refill checks reader allowed evaluate req) env s = s \<and>
         (calm env \<longrightarrow> result_of (request_refill checks reader allowed evaluate req) env s =
            Inl (AmountNotOffered (rr_requested_amount_micros req)))"
proof -
  have "select_request_by_key (Some k) s = None" if "rr_idempotency_key req = Some k" for k
    using assms(2) that
    by (force simp: select_request_by_key_def find_None_iff key_taken_iff sql_eq_def)
  then have calm: "calm env \<Longrightarrow> result_of (request_refill checks reader allowed evaluate req) env s =
      Inl (AmountNotOffered (rr_requested_amount_micros req))"
    using assms(1)
    by (simp add: request_refill_def find_existing_def run_obind find_by_key_calm result_of_def
        new_request_def run_observe split: option.split)
  obtain r n' s' where run: "run (request_refill checks reader allowed evaluate req) env 0 s = (r, n', s')"
    by (cases "run (request_refill checks reader allowed evaluate req) env 0 s") auto
  have same: "guarantee ((=) :: sys \<Rightarrow> _)" by unfold_locales auto
  have read: "guar (=) (find_existing key)" for key
    by (auto simp: find_existing_def find_by_idempotency_key_def
        intro!: guarantee.guar_obind [OF same] guarantee.guar_query [OF same] split: option.split)
  from run have "s' = s"
    unfolding request_refill_def
  proof (cases rule: run_obind_cases)
    case (stopped e)
    then show ?thesis using guarantee.run_guar [OF same read] by metis
  next
    case (went_on existing n1 s1)
    have "s1 = s" using guarantee.run_guar [OF same read went_on(1)] by simp
    with went_on(2) assms(1) show ?thesis
      by (auto simp: new_request_def run_obind run_observe split: option.splits)
  qed
  with calm run show ?thesis by (simp add: state_of_def)
qed

definition demo_request_row :: request_row where
  "demo_request_row = new_request_row ''r1'' (new_refill (demo_refill ''k'')) 5"

definition demo_requested :: sys where
  "demo_requested = demo_sys\<lparr>requests := [demo_request_row]\<rparr>"

lemma demo_requested_ok: "requests_ok demo_requested"
proof -
  have "row_consistent demo_request_row"
    unfolding demo_request_row_def by (rule row_consistent_new) (simp add: new_refill_def)
  moreover have "request_checks demo_request_row" "request_fks demo_requested demo_request_row"
    using period_valid_check [OF aug_2026_valid]
    by (simp_all add: demo_request_row_def request_checks_def request_fks_def demo_requested_def
        demo_sys_simps status_values_def new_request_row_def new_refill_def fk_ok_def)
  ultimately show ?thesis by (simp add: requests_ok_def demo_requested_def unique_keys_def)
qed

theorem refill_retry_returns_existing_witness:
  "\<exists>q. request_try_from demo_request_row = Inr q \<and>
     run (request_refill False no_usage engine_allowed_amounts engine_evaluate (demo_refill ''k''))
       (fair 9 ''z'') 0 demo_requested = (Inr q, Suc 0, demo_requested)"
  by (rule refill_retry_returns_existing [OF calm_fair demo_requested_ok, where k = "''k''"])
    (simp_all add: demo_requested_def demo_request_row_def new_refill_def)

theorem refill_amount_not_offered_witness:
  "result_of (request_refill False no_usage (\<lambda>_. [15000000]) engine_evaluate (demo_refill ''k''))
     (fair 9 ''z'') demo_sys = Inl (AmountNotOffered 6000000)"
  using refill_amount_not_offered [of "demo_refill ''k''" "\<lambda>_. [15000000]" demo_sys False no_usage
      engine_evaluate "fair 9 ''z''"]
  by (simp add: demo_sys_simps key_taken_def)

subsection \<open>Two refills at once\<close>

text \<open>
  Nothing locks the balance between loading the facts and granting: a refill can be scheduled up to the
  point where its decision is made and then wait.
\<close>

lemma refill_lock_free [simp]:
  "lock_free (find_existing key)" "lock_free (create nq)" "lock_free (load_facts checks reader req)"
  "lock_free (record_decision rid d)" "lock_free (grant greq)"
  by (auto simp: find_existing_def find_by_idempotency_key_def create_def load_facts_def
      effective_balance_def get_balance_def record_decision_def grant_def
      intro!: lock_free_obind split: option.split)

lemma refill_pauses:
  assumes ready: "refill_ready env checks reader allowed req this_period last_period s"
    and d: "evaluate (live_engine s) (presented_facts req this_period last_period s)
           (rr_requested_amount_micros req) = Inr d"
    and i: "i < length ts" "ts ! i = Some (request_refill checks reader allowed evaluate req)"
  defines "row \<equiv> created_row env req"
  shows "pool_reach (orderly delivered) \<lparr>threads = ts, held = h, store = s\<rparr>
    \<lparr>threads = ts[i := Some (apply_decision req (q_id row) d)], held = h,
     store = s\<lparr>requests := requests s @ [row]\<rparr>\<rparr>"
proof -
  let ?s1 = "s\<lparr>requests := requests s @ [row]\<rparr>"
  let ?at = "\<lambda>p st. \<lparr>threads = ts[i := Some p], held = h, store = st\<rparr>"
  note runs = refill_ready_runs [OF ready, folded row_def]
  have W: "delivered (env j)" for j using ready by (simp add: refill_ready_def delivered_def)
  have start: "\<lparr>threads = ts, held = h, store = s\<rparr> =
      ?at (request_refill checks reader allowed evaluate req) s"
    using i by (auto intro: list_update_same_conv [THEN iffD2, symmetric])
  obtain cq where cq: "request_try_from row = Inr cq" "q_id cq = q_id row"
    using created_row_converts(2) [of req] ready by (auto simp: refill_ready_def row_def)
  have offered: "run (observe (\<lambda>_ s. Inr (allowed (live_engine s)))) env 0 s =
      (Inr (allowed (live_engine s)), 1, s)"
    and eval: "run (observe (\<lambda>_ st. evaluate (live_engine st) (presented_facts req this_period last_period s)
        (rr_requested_amount_micros req))) env 0 ?s1 = (Inr d, 1, ?s1)"
    using d by (simp_all add: run_observe)
  have decide: "pool_reach (orderly delivered) (?at (decide_refill checks reader evaluate req (q_id row)) ?s1)
      (?at (apply_decision req (q_id row) d) ?s1)"
    unfolding decide_refill_def
    by (rule hop_obind [where W = delivered, OF runs(3) _ W i(1)], simp, rule hop_pbind [where W = delivered, OF eval _ W i(1)])
      (simp_all add: pool_reach.start)
  have "pool_reach (orderly delivered) (?at (new_request checks reader allowed evaluate req) s)
      (?at (apply_decision req (q_id row) d) ?s1)"
    unfolding new_request_def
  proof (rule hop_obind [where W = delivered, OF offered _ W i(1)])
    have "pool_reach (orderly delivered) (?at (obind (create (new_refill req))
        (\<lambda>created. decide_refill checks reader evaluate req (q_id created))) s)
        (?at (apply_decision req (q_id row) d) ?s1)"
      by (rule hop_obind [where W = delivered, OF runs(2) [unfolded cq(1)] _ W i(1)]) (simp_all add: cq decide)
    then show "pool_reach (orderly delivered) (?at (if rr_requested_amount_micros req \<notin> set (allowed (live_engine s))
        then fail (AmountNotOffered (rr_requested_amount_micros req))
        else obind (create (new_refill req))
          (\<lambda>created. decide_refill checks reader evaluate req (q_id created))) s)
        (?at (apply_decision req (q_id row) d) ?s1)"
      using ready by (simp add: refill_ready_def)
  qed simp
  then show ?thesis
    unfolding start unfolding request_refill_def
    by (intro hop_obind [where W = delivered, OF runs(1) _ W i(1)]) simp_all
qed

lemma demo_ready:
  assumes "requests_ok s" "accounts s = accounts demo_sys" "grants s = []" "live_engine s = live_engine demo_sys"
    "\<not> key_taken q_idempotency_key (requests s) (Some k)" "rid \<notin> q_id ` set (requests s)"
  shows "refill_ready (fair t rid) False no_usage engine_allowed_amounts (demo_refill k) Unavailable Unavailable s"
  using assms aug_2026_previous
  by (simp add: refill_ready_def demo_sys_simps fk_ok_def engine_allowed_amounts_def default_rule_set_def
      active_total_def i64_simps no_usage_def)

text \<open>A balance that at most \<open>n\<close> of the example's grants went into.\<close>

definition at_most :: "int \<Rightarrow> balance_row \<Rightarrow> bool" where
  "at_most n b \<longleftrightarrow>
     list_all (\<lambda>x. 0 \<le> x \<and> x \<le> n * 6000000)
       [b_base_total_micros b, b_self_service_total_micros b, b_admin_total_micros b,
        b_automatic_total_micros b, b_refund_total_micros b, b_effective_budget_micros b] \<and>
     list_all (\<lambda>x. 0 \<le> x \<and> x \<le> n)
       [b_self_service_grant_count b, b_automatic_grant_count b, b_version b]"

lemma at_most_bump:
  "at_most n b \<Longrightarrow> at_most (n + 1) (bump_balance ''self_service'' 6000000 t b)"
  by (auto simp: at_most_def bump_balance_def)

lemma at_most_fits: "at_most n b \<Longrightarrow> n \<le> 100 \<Longrightarrow> balance_fits b"
  by (auto simp: at_most_def balance_fits_def i64_simps)

lemma at_most_mono: "at_most n b \<Longrightarrow> n \<le> m \<Longrightarrow> at_most m b"
  by (auto simp: at_most_def)

lemma demo_grant_in:
  assumes "accounts s = accounts demo_sys" "list_all (at_most n) (balances s)" "0 \<le> n" "n < 100"
    "\<not> key_taken g_idempotency_key (grants s) (Some k)" "gid \<notin> g_id ` set (grants s)"
  obtains s' bg where "run (grant (refill_grant_request (demo_refill k) demo_decision)) (fair t gid) 0 s = (Inr bg, 1, s')"
    "grants s' = grants s @ [new_grant_row gid (refill_grant_request (demo_refill k) demo_decision) t]"
    "list_all (at_most (n + 1)) (balances s')" "accounts s' = accounts s"
proof -
  let ?req = "refill_grant_request (demo_refill k) demo_decision"
  have fields: "gq_amount_micros ?req = 6000000" "gq_source ?req = SelfService" "gq_idempotency_key ?req = Some k"
    "gq_period ?req = aug_2026" "gq_budget_account_id ?req = ''alice''" "gq_account_id ?req = ''alice''"
    "gq_project_id ?req = None" "gq_trigger_key ?req = None"
    by (simp_all add: refill_grant_request_def)
  have zero: "at_most n (zero_balance u acct per)" for u acct per
    using assms(3) by (simp add: at_most_def zero_balance_def)
  have "grantable ?req s"
    using assms(1-4) zero
    by (auto simp: grantable_def fields sign_is_valid_def demo_sys_simps fk_ok_def key_taken_def list_all_iff
        intro!: at_most_fits [of "n + 1"] at_most_bump)
  then obtain s' where s': "run (grant ?req) (fair t gid) 0 s = (grant_try_from (new_grant_row gid ?req t), 1, s')"
    "recorded ?req t s (new_grant_row gid ?req t) s'"
    using grant_fresh [where env = "fair t gid" and req = ?req and s = s and n = 0, OF calm_fair] assms(5,6) by (auto simp: fields)
  have "list_all (at_most (n + 1)) (balances s')"
    using s'(2) assms(2) zero
    by (auto simp: recorded_def list_all_iff boot_def Let_def fields intro: at_most_bump at_most_mono
        split: if_splits)
  with s' that grant_try_from_new [of ?req gid t] show ?thesis by (auto simp: recorded_def fields)
qed

lemma demo_evaluates_in:
  "live_engine s = live_engine demo_sys \<Longrightarrow> balances s = [] \<Longrightarrow>
   engine_evaluate (live_engine s) (presented_facts (demo_refill k) x y s) 6000000 = Inr demo_decision"
  by (simp add: engine_evaluate_def default_rule_set_def demo_sys_simps eval_condition.simps
      presented_facts_def stored_count_def decision_for_effect_def demo_decision_def)

abbreviation demo_call :: "string \<Rightarrow> (sys, augmentation_request) op" where
  "demo_call k \<equiv> request_refill False no_usage engine_allowed_amounts engine_evaluate (demo_refill k)"

abbreviation demo_waits :: "string \<Rightarrow> string \<Rightarrow> (sys, augmentation_request) op" where
  "demo_waits k rid \<equiv> apply_decision (demo_refill k) rid demo_decision"

lemma demo_pause:
  assumes "requests_ok s" "accounts s = accounts demo_sys" "grants s = []" "balances s = []"
    "live_engine s = live_engine demo_sys"
    "\<not> key_taken q_idempotency_key (requests s) (Some k)" "rid \<notin> q_id ` set (requests s)"
    "i < length ts" "ts ! i = Some (demo_call k)"
  shows "pool_reach (orderly delivered) \<lparr>threads = ts, held = h, store = s\<rparr>
    \<lparr>threads = ts[i := Some (demo_waits k rid)], held = h,
     store = s\<lparr>requests := requests s @ [created_row (fair t rid) (demo_refill k)]\<rparr>\<rparr>"
  using refill_pauses [OF demo_ready [OF assms(1-3,5-7), of t], of engine_evaluate demo_decision i ts h]
    demo_evaluates_in assms by simp

lemma demo_apply:
  assumes "accounts s = accounts demo_sys" "list_all (at_most n) (balances s)" "0 \<le> n" "n < 100"
    "\<not> key_taken g_idempotency_key (grants s) (Some k)" "gid \<notin> g_id ` set (grants s)"
    "i < length ts" "ts ! i = Some (demo_waits k rid)"
  obtains s' p where "pool_reach (orderly delivered) \<lparr>threads = ts, held = h, store = s\<rparr>
      \<lparr>threads = ts[i := Some p], held = h, store = s'\<rparr>"
    "grants s' = grants s @ [new_grant_row gid (refill_grant_request (demo_refill k) demo_decision) t]"
    "list_all (at_most (n + 1)) (balances s')" "accounts s' = accounts s"
proof -
  obtain s' bg where run: "run (grant (refill_grant_request (demo_refill k) demo_decision)) (fair t gid) 0 s = (Inr bg, 1, s')"
    and rest: "grants s' = grants s @ [new_grant_row gid (refill_grant_request (demo_refill k) demo_decision) t]"
    "list_all (at_most (n + 1)) (balances s')" "accounts s' = accounts s"
    by (rule demo_grant_in [OF assms(1-6)])
  have ts: "ts[i := Some (demo_waits k rid)] = ts" using assms(7,8) by (auto intro: list_update_same_conv [THEN iffD2])
  have "demo_waits k rid = obind (grant (refill_grant_request (demo_refill k) demo_decision))
      (\<lambda>g. record_decision rid (decision_record demo_decision (g_id g)))"
    by (simp add: apply_decision_eq)
  with hop_obind [where W = delivered, OF run _ _ assms(7) pool_reach.start] ts
  have "pool_reach (orderly delivered) \<lparr>threads = ts, held = h, store = s\<rparr>
      \<lparr>threads = ts[i := Some (record_decision rid (decision_record demo_decision (g_id bg)))], held = h, store = s'\<rparr>"
    by (metis refill_lock_free(5) delivered_def fair_simps(1))
  with rest that show ?thesis by blast
qed

text \<open>(no lock around a refill). Three refill requests for one account and period, with different keys,
  on an empty ledger under the shipped policy: there is an interleaving without crashes, lost messages or
  broken connections in which all three are auto-approved and granted, one more than the two unaided
  refills the policy allows, because each evaluates the count the others have not yet raised.\<close>

theorem concurrent_refills_exceed_allowance:
  "\<exists>c. pool_reach (orderly delivered) (initial [request_refill False no_usage engine_allowed_amounts engine_evaluate (demo_refill ''a''),
          request_refill False no_usage engine_allowed_amounts engine_evaluate (demo_refill ''b''),
          request_refill False no_usage engine_allowed_amounts engine_evaluate (demo_refill ''c'')] demo_sys) c \<and>
       active (live_engine demo_sys) = default_rule_set \<and> unaided (''alice'', ''2026-08'') (store c) = 3"
proof -
  let ?row = "\<lambda>k rid. created_row (fair 1 rid) (demo_refill k)"
  let ?w1 = "Some (demo_waits ''a'' ''r1'')" and ?w2 = "Some (demo_waits ''b'' ''r2'')"
    and ?w3 = "Some (demo_waits ''c'' ''r3'')"
  let ?s1 = "demo_sys\<lparr>requests := [?row ''a'' ''r1'']\<rparr>"
  let ?s2 = "demo_sys\<lparr>requests := [?row ''a'' ''r1'', ?row ''b'' ''r2'']\<rparr>"
  let ?s3 = "demo_sys\<lparr>requests := [?row ''a'' ''r1'', ?row ''b'' ''r2'', ?row ''c'' ''r3'']\<rparr>"
  let ?c0 = "initial [demo_call ''a'', demo_call ''b'', demo_call ''c''] demo_sys"
  let ?h = "\<lambda>_. None"
  have guar: "requests_ok (store c)" if "pool_reach (orderly delivered) ?c0 c" for c
  proof -
    have "guar budget_step p" if "p \<in> set [demo_call ''a'', demo_call ''b'', demo_call ''c'']" for p
      using that by (auto intro: guar_request_refill)
    from budget.initial_guar [OF that this] have "budget_step demo_sys (store c)" by blast
    moreover have "requests_ok demo_sys" by (simp add: requests_ok_def demo_sys_simps unique_keys_def)
    ultimately show ?thesis by (simp add: budget_step_def)
  qed
  have 1: "pool_reach (orderly delivered) ?c0
      \<lparr>threads = [?w1, Some (demo_call ''b''), Some (demo_call ''c'')], held = ?h, store = ?s1\<rparr>"
    using demo_pause [of demo_sys "''a''" "''r1''" 0 "map Some [demo_call ''a'', demo_call ''b'', demo_call ''c'']" ?h 1]
      guar [OF pool_reach.start]
    by (simp add: initial_def demo_sys_simps key_taken_def)
  have 2: "pool_reach (orderly delivered) ?c0
      \<lparr>threads = [?w1, ?w2, Some (demo_call ''c'')], held = ?h, store = ?s2\<rparr>"
    using pool_reach_trans [OF demo_pause [of ?s1 "''b''" "''r2''" 1 "[?w1, Some (demo_call ''b''), Some (demo_call ''c'')]" ?h 1] 1]
      guar [OF 1] by (simp add: demo_sys_simps key_taken_def)
  have 3: "pool_reach (orderly delivered) ?c0 \<lparr>threads = [?w1, ?w2, ?w3], held = ?h, store = ?s3\<rparr>"
    using pool_reach_trans [OF demo_pause [of ?s2 "''c''" "''r3''" 2 "[?w1, ?w2, Some (demo_call ''c'')]" ?h 1] 2]
      guar [OF 2] by (simp add: demo_sys_simps key_taken_def)
  obtain s4 p1 where 4: "pool_reach (orderly delivered) \<lparr>threads = [?w1, ?w2, ?w3], held = ?h, store = ?s3\<rparr>
      \<lparr>threads = [?w1, ?w2, ?w3][0 := Some p1], held = ?h, store = s4\<rparr>"
    "grants s4 = [new_grant_row ''g1'' (refill_grant_request (demo_refill ''a'') demo_decision) 2]"
    "list_all (at_most 1) (balances s4)" "accounts s4 = accounts demo_sys"
    by (rule demo_apply [of ?s3 0 "''a''" "''g1''" 0 "[?w1, ?w2, ?w3]" "''r1''" ?h 2])
      (simp_all add: demo_sys_simps key_taken_def)
  obtain s5 p2 where 5: "pool_reach (orderly delivered) \<lparr>threads = [?w1, ?w2, ?w3][0 := Some p1], held = ?h, store = s4\<rparr>
      \<lparr>threads = [?w1, ?w2, ?w3][0 := Some p1, 1 := Some p2], held = ?h, store = s5\<rparr>"
    "grants s5 = grants s4 @ [new_grant_row ''g2'' (refill_grant_request (demo_refill ''b'') demo_decision) 2]"
    "list_all (at_most 2) (balances s5)" "accounts s5 = accounts demo_sys"
    by (rule demo_apply [of s4 1 "''b''" "''g2''" 1 "[?w1, ?w2, ?w3][0 := Some p1]" "''r2''" ?h 2])
      (use 4 in \<open>simp_all add: key_taken_def refill_grant_request_def\<close>)
  obtain s6 p3 where 6: "pool_reach (orderly delivered) \<lparr>threads = [?w1, ?w2, ?w3][0 := Some p1, 1 := Some p2], held = ?h, store = s5\<rparr>
      \<lparr>threads = [?w1, ?w2, ?w3][0 := Some p1, 1 := Some p2, 2 := Some p3], held = ?h, store = s6\<rparr>"
    "grants s6 = grants s5 @ [new_grant_row ''g3'' (refill_grant_request (demo_refill ''c'') demo_decision) 2]"
    by (rule demo_apply [of s5 2 "''c''" "''g3''" 2 "[?w1, ?w2, ?w3][0 := Some p1, 1 := Some p2]" "''r3''" ?h 2])
      (use 4 5 in \<open>simp_all add: key_taken_def refill_grant_request_def\<close>)
  have "unaided (''alice'', ''2026-08'') s6 = 3"
    by (simp add: unaided_def 4(2) 5(2) 6(2) count_where_def refill_grant_request_def aug_2026_def)
  with pool_reach_trans [OF 6(1) pool_reach_trans [OF 5(1) pool_reach_trans [OF 4(1) 3]]] show ?thesis
    by (metis demo_sys_simps(8) config.select_convs(3) rule_data_engine.select_convs(1))
qed

end
