(* ===== verification/Review.thy ===== *)
theory Review
  imports Refill
begin

text \<open>
  review.rs: the review queue. \<open>approve\<close> and \<open>reject\<close> hold the advisory lock of the request from their
  first action to their last; \<open>pg_advisory_xact_lock(hashtextextended(request_id, 0))\<close> is the lock named by
  the request id, so the extra waiting of two requests whose ids hash alike is left out. The
  transaction that holds the lock writes nothing itself.
\<close>

subsection \<open>ReviewService\<close>

definition list_pending ::
  "string option \<Rightarrow> int option \<Rightarrow> int \<Rightarrow> (sys, augmentation_request list) op" where
  "list_pending acct after lim = list_pending_review acct after lim"

text \<open>
  \<open>begin\<close>, then the lock statement. When the statement or its reply is lost the connection is closed,
  and with it goes the lock.
\<close>

definition sent :: "string \<Rightarrow> (sys, unit) op" where
  "sent what = observe (\<lambda>w _. if o_net (w 0) = Delivered then Inr () else Inl (StorageFailed what))"

definition acquire_review_lock :: "string \<Rightarrow> (sys, unit) op" where
  "acquire_review_lock rid =
     obind (sent ''begin'') (\<lambda>_. obind (sent ''pg_advisory_xact_lock'') (\<lambda>_. Lock rid (ok ())))"

text \<open>\<open>lock_tx.commit()\<close>: the lock is released whether or not the reply arrives.\<close>

definition commit_lock :: "string \<Rightarrow> (sys, unit) op" where
  "commit_lock rid = Unlock rid (sent ''commit'')"

definition approval_key :: "string \<Rightarrow> string" where
  "approval_key rid = ''augmentation-approval:'' @ rid"

definition approval_grant :: "augmentation_request \<Rightarrow> string \<Rightarrow> string \<Rightarrow> grant_request" where
  "approval_grant q rid reviewer =
     \<lparr>gq_budget_account_id = q_budget_account_id q, gq_account_id = q_account_id q,
      gq_project_id = q_project_id q, gq_period = q_period q,
      gq_amount_micros = q_requested_amount_micros q, gq_source = ManualApproval,
      gq_actor_id = Some reviewer,
      gq_reason = Some (''approved via review queue by '' @ reviewer),
      gq_policy_revision = q_policy_revision q, gq_matched_rule_ids = q_matched_rule_ids q,
      gq_idempotency_key = Some (approval_key rid), gq_trigger_key = None, gq_expires_at = None\<rparr>"

definition approve_locked :: "string \<Rightarrow> string \<Rightarrow> (sys, augmentation_request) op" where
  "approve_locked rid reviewer =
     obind (get_request rid) (\<lambda>q.
     if q_status q \<noteq> PendingReview then fail (AlreadyReviewed rid)
     else obind (grant (approval_grant q rid reviewer)) (\<lambda>g.
          record_review rid Approved reviewer None (Some (g_id g))))"

definition approve :: "string \<Rightarrow> string \<Rightarrow> (sys, augmentation_request) op" where
  "approve rid reviewer =
     obind (acquire_review_lock rid) (\<lambda>_.
     pbind (approve_locked rid reviewer) (\<lambda>result.
     obind (commit_lock rid) (\<lambda>_. Ret result)))"

definition reject_locked :: "string \<Rightarrow> string \<Rightarrow> string \<Rightarrow> (sys, augmentation_request) op" where
  "reject_locked rid reviewer reason =
     obind (get_request rid) (\<lambda>q.
     if q_status q \<noteq> PendingReview then fail (AlreadyReviewed rid)
     else record_review rid Denied reviewer (Some reason) None)"

definition reject :: "string \<Rightarrow> string \<Rightarrow> string \<Rightarrow> (sys, augmentation_request) op" where
  "reject rid reviewer reason =
     (if is_blank reason then fail MissingRejectionReason
      else obind (acquire_review_lock rid) (\<lambda>_.
           pbind (reject_locked rid reviewer reason) (\<lambda>result.
           obind (commit_lock rid) (\<lambda>_. Ret result))))"

subsection \<open>Every action keeps the tables' guarantee\<close>

lemma guar_lock:
  "guar budget_step (acquire_review_lock rid)" "guar budget_step (commit_lock rid)"
  by (auto simp: acquire_review_lock_def commit_lock_def sent_def
      intro!: budget.guar_obind budget.guar_observe)

lemma guar_approve: "guar budget_step (approve rid reviewer)"
  unfolding approve_def approve_locked_def
  by (auto intro!: budget.guar_obind guar_pbind guar_lock guar_budget)

lemma guar_reject: "guar budget_step (reject rid reviewer reason)"
  unfolding reject_def reject_locked_def
  by (auto intro!: budget.guar_obind guar_pbind guar_lock guar_budget)

subsection \<open>What the lock protects\<close>

definition rows_of :: "string \<Rightarrow> sys \<Rightarrow> request_row list" where
  "rows_of rid s = filter (\<lambda>r. q_id r = rid) (requests s)"

definition keyed :: "string \<Rightarrow> sys \<Rightarrow> grant_row list" where
  "keyed k s = filter (\<lambda>g. g_idempotency_key g = Some k) (grants s)"

text \<open>
  While one review holds the lock of \<open>rid\<close>, the others leave the row of \<open>rid\<close> and the grants under its
  approval key alone.
\<close>

definition review_rely :: "string \<Rightarrow> sys \<Rightarrow> sys \<Rightarrow> bool" where
  "review_rely rid s s' \<longleftrightarrow>
     budget_step s s' \<and> rows_of rid s' = rows_of rid s \<and>
     keyed (approval_key rid) s' = keyed (approval_key rid) s"

text \<open>
  Whenever the lock is free: the request is approved exactly if the ledger has a grant under its approval
  key, and then it names that grant, which pays what was requested.
\<close>

definition pays :: "request_row \<Rightarrow> grant_row \<Rightarrow> bool" where
  "pays r g \<longleftrightarrow>
     g_amount_micros g = q_requested_amount_micros r \<and> g_budget_account_id g = q_budget_account_id r \<and>
     g_period g = q_period r \<and> g_source g = ''manual_approval''"

definition review_inv :: "string \<Rightarrow> sys \<Rightarrow> bool" where
  "review_inv rid s \<longleftrightarrow>
     ledger_ok s \<and> requests_ok s \<and>
     (\<forall>r\<in>set (rows_of rid s).
        map (\<lambda>g. Some (g_id g)) (keyed (approval_key rid) s) =
        (if q_status r = ''approved'' then [q_grant_id r] else []) \<and>
        list_all (pays r) (keyed (approval_key rid) s))"

interpretation review: rely_section "review_rely rid" "review_inv rid" for rid
proof
  show "review_rely rid s s" for s by (simp add: review_rely_def budget.refl)
  show "review_rely rid s s' \<Longrightarrow> review_rely rid s' s'' \<Longrightarrow> review_rely rid s s''" for s s' s''
    unfolding review_rely_def using budget.trans by metis
  show "review_inv rid s \<Longrightarrow> review_rely rid s s' \<Longrightarrow> review_inv rid s'" for s s'
    by (simp add: review_inv_def review_rely_def budget_step_def ledger_step_def)
qed

lemma rows_of_unique:
  assumes "requests_ok s" "r \<in> set (requests s)" "q_id r = rid"
  shows "rows_of rid s = [r]" "find (\<lambda>r. q_id r = rid) (requests s) = Some r"
proof -
  have d: "distinct (map q_id (requests s))" using assms(1) by (simp add: requests_ok_def)
  show "find (\<lambda>r. q_id r = rid) (requests s) = Some r"
    using find_id [OF d assms(2)] assms(3) by simp
  show "rows_of rid s = [r]"
    using filter_key [OF d assms(2)] assms(3) by (simp add: rows_of_def)
qed

lemma request_try_from_Inr:
  assumes "request_try_from r = Inr q"
  shows "q_status r = status_as_str (q_status q)" "q_period r = period_str (q_period q)"
    "period_valid (q_period q)" "q_requested_amount_micros q = q_requested_amount_micros r"
    "q_budget_account_id q = q_budget_account_id r" "q_account_id q = q_account_id r"
    "q_project_id q = q_project_id r" "q_id q = q_id r" "q_grant_id q = q_grant_id r"
    "q_reviewed_by q = q_reviewed_by r" "q_rejection_reason q = q_rejection_reason r"
  using assms
  by (auto simp: request_try_from_def res_bind_eq_Inr_conv status_enum.from_str_iff dest!: period_parse_valid)

text \<open>The calls of a review inside the critical section, with every message delivered.\<close>

lemma get_pending:
  assumes "calm env" "requests_ok s" "run (get_request rid) env n s = (Inr q, n', s')"
  shows "s' = s" "\<exists>r. rows_of rid s = [r] \<and> r \<in> set (requests s) \<and> q_id r = rid \<and> request_try_from r = Inr q"
proof -
  note g = assms(3) [unfolded get_request_calm [OF assms(1)]]
  then obtain r where r: "find (\<lambda>r. q_id r = rid) (requests s) = Some r" "request_try_from r = Inr q"
    and "s' = s"
    by (cases "find (\<lambda>r. q_id r = rid) (requests s)") simp_all
  then show "s' = s" by simp
  have "r \<in> set (requests s)" "q_id r = rid" using find_SomeD [OF r(1)] by simp_all
  with rows_of_unique(1) [OF assms(2) this] r
  show "\<exists>r. rows_of rid s = [r] \<and> r \<in> set (requests s) \<and> q_id r = rid \<and> request_try_from r = Inr q" by blast
qed

lemma get_state: "run (get_request rid) env n s = (r, n', s') \<Longrightarrow> s' = s"
  unfolding get_request_def by (erule run_obind_cases) (auto dest: run_query_state split: option.splits)

lemma grant_delivered:
  assumes "calm env" "run (grant req) env n s = (r, n', s')"
  shows "(\<exists>e. r = Inl e \<and> s' = s) \<or>
         (\<exists>now row. (replayed req now s row s' \<or> recorded req now s row s') \<and> r = grant_try_from row)"
proof -
  obtain r1 s1 where t: "run (transaction (grant_body req)) env n s = (r1, Suc n, s1)"
    by (simp add: transaction_def run_atomic)
  have "(\<exists>e. r1 = Inl e \<and> s1 = s) \<or> (\<exists>row env' n1 now. run (grant_body req now) env' 0 s = (Inr row, n1, s1) \<and> r1 = Inr row)"
    using t assms(1)
    by (auto simp: transaction_def run_atomic split: sum.splits prod.splits)
  moreover have "(\<exists>e. r = Inl e \<and> s' = s) \<or> s' = s1 \<and> r = (case r1 of Inl e \<Rightarrow> Inl e | Inr row \<Rightarrow> grant_try_from row)"
    using assms(2) t by (auto simp: grant_def run_obind validate_amount_sign_def split: if_splits sum.splits)
  ultimately show ?thesis using grant_body_Inr by fastforce
qed

lemma record_review_calm:
  fixes reviewer n
  assumes "calm env" "requests_ok s" "r \<in> set (requests s)" "q_id r = rid" "q_status r = ''pending_review''"
    "is_review_outcome st" "st = Denied \<Longrightarrow> reason_is_present reason" "fk_ok (map g_id (grants s)) gid"
  defines "r' \<equiv> write_review st reviewer reason gid (o_now (env n 0)) r"
  shows "run (record_review rid st reviewer reason gid) env n s =
    (request_try_from r', Suc n, s\<lparr>requests := map (\<lambda>x. if q_id x = rid then r' else x) (requests s)\<rparr>)"
proof -
  have only: "x = r" if "x \<in> set (requests s)" "q_id x = rid" for x
    using assms(2-4) that by (metis (no_types, lifting) distinct_map inj_onD requests_ok_def)
  have found: "find (pending_row rid) (requests s) = Some r"
    by (rule find_unique) (auto simp: pending_row_def assms(3-5) dest: only)
  have maps: "map (\<lambda>x. if pending_row rid x then write_review st reviewer reason gid t x else x) (requests s) =
      map (\<lambda>x. if q_id x = rid then write_review st reviewer reason gid t r else x) (requests s)" for t
    by (rule map_cong) (auto simp: pending_row_def assms(4,5) dest: only)
  have "request_checks r'" "request_fks s r'"
    using assms(2,3,8) by (auto simp: r'_def write_review_def request_checks_def request_fks_def requests_ok_def)
  with update_request_ok [OF found, of "write_review st reviewer reason gid (o_now (env n 0))"]
  show ?thesis
    using assms(6,7)
    by (simp add: record_review_def run_obind run_stmt_calm [OF assms(1)] maps r'_def)
qed

subsection \<open>The reviews of one request keep the discipline\<close>

lemma delivered_calm: "delivered w \<Longrightarrow> calm (\<lambda>_. w)"
  by (simp add: delivered_def calm_def)

lemma delivered_example: "delivered (\<lambda>_. \<lparr>o_net = Delivered, o_now = 0, o_cuid = []\<rparr>)"
  by (simp add: delivered_def)

lemma single_calls [simp]: "single (get_request rid)" "single (grant req)"
  "single (record_review rid st reviewer reason gid)"
proof -
  show "single (get_request rid)"
    unfolding get_request_def by (rule single_obind) (auto split: option.split)
  show "single (grant req)"
  proof (cases "sign_is_valid (gq_source req) (gq_amount_micros req)")
    case True
    then show ?thesis
      by (auto simp: grant_def validate_amount_sign_def obind_def [of "Ret _"] intro!: single_obind)
  qed (simp add: grant_def validate_amount_sign_def obind_def)
  show "single (record_review rid st reviewer reason gid)"
    unfolding record_review_def by (auto intro!: single_obind split: option.split)
qed

lemma csafe_release:
  "review_inv rid s \<Longrightarrow>
   csafe W (review_rely rid) (review_inv rid) rid (obind (commit_lock rid) (\<lambda>_. Ret res)) True s"
  by (auto simp: commit_lock_def obind_def sent_def intro!: review.csafe_observe split: sum.split)

lemma csafe_acquire:
  assumes "\<And>s. review_inv rid s \<Longrightarrow> csafe W (review_rely rid) (review_inv rid) rid (k ()) True s"
  shows "csafe W (review_rely rid) (review_inv rid) rid (obind (acquire_review_lock rid) k) False s"
  unfolding acquire_review_lock_def obind_def [of "obind _ _"] pbind_obind
  by (auto simp: sent_def obind_def assms intro!: review.csafe_observe split: sum.split)

text \<open>The states in the critical section of an approval, before and after the grant.\<close>

lemma pending_has_no_grant:
  assumes "review_inv rid s" "rows_of rid s = [r]" "q_status r = ''pending_review''"
  shows "keyed (approval_key rid) s = []"
  using assms by (simp add: review_inv_def)

lemma rows_of_mem: "rows_of rid s = [r] \<Longrightarrow> r \<in> set (requests s) \<and> q_id r = rid"
  using filter_is_subset by (fastforce simp: rows_of_def filter_eq_Cons_iff)

lemma reviewed_rows:
  assumes "rows_of rid s = [r]" "q_id r' = rid"
  shows "rows_of rid (s\<lparr>requests := map (\<lambda>x. if q_id x = rid then r' else x) (requests s)\<rparr>) = [r']"
proof -
  have "filter (\<lambda>r. q_id r = rid) (map (\<lambda>x. if q_id x = rid then r' else x) rs) =
      map (\<lambda>_. r') (filter (\<lambda>r. q_id r = rid) rs)" for rs
    using assms(2) by (induction rs) auto
  with assms(1) show ?thesis by (simp add: rows_of_def)
qed

lemma review_inv_reviewed:
  assumes "budget_step s s'" "ledger_ok s" "requests_ok s" "rows_of rid s' = [r']"
    "keyed (approval_key rid) s' = gs"
    "map (\<lambda>g. Some (g_id g)) gs = (if q_status r' = ''approved'' then [q_grant_id r'] else [])"
    "list_all (pays r') gs"
  shows "review_inv rid s'"
  using assms by (auto simp: review_inv_def budget_step_def ledger_step_def)

abbreviation review_safe :: "string \<Rightarrow> (sys, 'a) prog \<Rightarrow> bool \<Rightarrow> sys \<Rightarrow> bool" where
  "review_safe rid \<equiv> csafe delivered (review_rely rid) (review_inv rid) rid"

lemma rely_facts:
  assumes "review_rely rid s s'" "ledger_ok s" "requests_ok s" "rows_of rid s = [r]"
  shows "ledger_ok s'" "requests_ok s'" "rows_of rid s' = [r]" "r \<in> set (requests s')" "q_id r = rid"
    "keyed (approval_key rid) s' = keyed (approval_key rid) s"
  using assms rows_of_mem [of rid s' r] by (auto simp: review_rely_def budget_step_def ledger_step_def)

lemma safe_record:
  assumes "ledger_ok s" "requests_ok s" "rows_of rid s = [r]" "q_status r = ''pending_review''"
    "is_review_outcome st" "st = Denied \<Longrightarrow> reason_is_present reason"
    "map (\<lambda>g. Some (g_id g)) (keyed (approval_key rid) s) = (if st = Approved then [gid] else [])"
    "gid \<noteq> None \<longleftrightarrow> st = Approved" "list_all (pays r) (keyed (approval_key rid) s)"
  shows "review_safe rid (pbind (record_review rid st reviewer reason gid)
    (\<lambda>res. obind (commit_lock rid) (\<lambda>_. Ret res))) True s"
proof (rule review.csafe_single [where W = delivered, OF _ delivered_example])
  fix w s' res n s''
  assume w: "delivered w" and rely: "review_rely rid s s'"
    and run: "run (record_review rid st reviewer reason gid) (\<lambda>_. w) 0 s' = (res, n, s'')"
  note s' = rely_facts [OF rely assms(1-3)]
  let ?r' = "write_review st reviewer reason gid (o_now (w 0)) r"
  have fk: "fk_ok (map g_id (grants s')) gid"
  proof (cases "st = Approved")
    case True
    with assms(7) s'(6) have "gid \<in> (\<lambda>g. Some (g_id g)) ` set (keyed (approval_key rid) s')"
      by (metis list.set_intros(1) list.set_map)
    then show ?thesis by (auto simp: fk_ok_def keyed_def)
  qed (use assms(8) in \<open>simp add: fk_ok_def\<close>)
  have s'': "s'' = s'\<lparr>requests := map (\<lambda>x. if q_id x = rid then ?r' else x) (requests s')\<rparr>"
    using record_review_calm [OF delivered_calm [OF w] s'(2,4,5) assms(4-6) fk, of reviewer 0] run by simp
  have "budget_step s' s''" using budget.run_guar [OF guar_record_review run] assms(8) by blast
  moreover have "rows_of rid s'' = [?r']"
    unfolding s'' by (rule reviewed_rows [OF s'(3)]) (simp add: write_review_def s'(5))
  ultimately have "review_inv rid s''"
    using s' assms(5,7,9) by (intro review_inv_reviewed [where r' = ?r'])
      (auto simp: s'' keyed_def write_review_def is_review_outcome_def pays_def)
  then show "review_safe rid (obind (commit_lock rid) (\<lambda>_. Ret res)) True s''" by (rule csafe_release)
qed simp

lemma safe_grant:
  assumes "review_inv rid s" "rows_of rid s = [r]" "q_status r = ''pending_review''" "request_try_from r = Inr q"
  shows "review_safe rid (pbind (grant (approval_grant q rid reviewer))
    (\<lambda>res. case res of
       Inl e \<Rightarrow> obind (commit_lock rid) (\<lambda>_. Ret (Inl e))
     | Inr g \<Rightarrow> pbind (record_review rid Approved reviewer None (Some (g_id g)))
         (\<lambda>res. obind (commit_lock rid) (\<lambda>_. Ret res)))) True s"
proof (rule review.csafe_single [where W = delivered, OF _ delivered_example])
  fix w s' res n s''
  assume w: "delivered w" and rely: "review_rely rid s s'"
    and run: "run (grant (approval_grant q rid reviewer)) (\<lambda>_. w) 0 s' = (res, n, s'')"
  let ?req = "approval_grant q rid reviewer"
  have ok: "ledger_ok s" "requests_ok s" using assms(1) by (simp_all add: review_inv_def)
  note s' = rely_facts [OF rely ok assms(2)]
  have inv': "review_inv rid s'" using review.stable [OF assms(1) rely] .
  have none: "keyed (approval_key rid) s' = []" using pending_has_no_grant [OF inv' s'(3) assms(3)] .
  have "\<not> replayed ?req now s' row s''" for now row
    using none by (auto simp: replayed_def keyed_def filter_empty_conv approval_grant_def)
  with grant_delivered [OF delivered_calm [OF w] run]
  consider e where "res = Inl e" "s'' = s'"
    | now row where "recorded ?req now s' row s''" "res = grant_try_from row" by blast
  then show "review_safe rid (case res of
       Inl e \<Rightarrow> obind (commit_lock rid) (\<lambda>_. Ret (Inl e))
     | Inr g \<Rightarrow> pbind (record_review rid Approved reviewer None (Some (g_id g)))
         (\<lambda>res. obind (commit_lock rid) (\<lambda>_. Ret res))) True s''"
  proof cases
    case 1
    then show ?thesis using inv' by (simp add: csafe_release)
  next
    case 2
    obtain gid where row: "row = new_grant_row gid ?req now" using 2(1) by (auto simp: recorded_def)
    have "period_valid (gq_period ?req)"
      using request_try_from_Inr(3) [OF assms(4)] by (simp add: approval_grant_def)
    then obtain g where g: "res = Inr g" "g_id g = gid" using grant_try_from_new [of ?req gid now] 2(2) row by auto
    have "budget_step s' s''" using budget.run_guar [OF guar_grant_budget run] .
    with s' have "ledger_ok s''" "requests_ok s''" by (auto simp: budget_step_def ledger_step_def)
    moreover have "rows_of rid s'' = [r]" "keyed (approval_key rid) s'' = [row]"
      using 2(1) s'(3) none by (auto simp: recorded_def rows_of_def keyed_def row approval_grant_def)
    moreover have "pays r row"
      using request_try_from_Inr(2,4,5) [OF assms(4)] by (simp add: pays_def row approval_grant_def new_grant_row_def)
    ultimately have "review_safe rid (pbind (record_review rid Approved reviewer None (Some gid))
        (\<lambda>res. obind (commit_lock rid) (\<lambda>_. Ret res))) True s''"
      using assms(3) row by (intro safe_record) (auto simp: is_review_outcome_def)
    with g show ?thesis by simp
  qed
qed simp

lemma approve_safe: "review_safe rid (approve rid reviewer) False s"
  unfolding approve_def
proof (rule csafe_acquire)
  fix s
  assume inv: "review_inv rid s"
  show "review_safe rid (pbind (approve_locked rid reviewer) (\<lambda>result. obind (commit_lock rid) (\<lambda>_. Ret result))) True s"
    unfolding approve_locked_def pbind_obind
  proof (rule review.csafe_single [where W = delivered, OF _ delivered_example])
    fix w s' res n s''
    assume w: "delivered w" and rely: "review_rely rid s s'"
      and run: "run (get_request rid) (\<lambda>_. w) 0 s' = (res, n, s'')"
    have inv': "review_inv rid s'" using review.stable [OF inv rely] .
    have same: "s'' = s'" using get_state [OF run] .
    have res: "\<exists>r. rows_of rid s' = [r] \<and> request_try_from r = Inr q" if "res = Inr q" for q
      using get_pending(2) [OF delivered_calm [OF w] _ run [unfolded that]] inv' by (auto simp: review_inv_def)
    show "review_safe rid (case res of
        Inl e \<Rightarrow> obind (commit_lock rid) (\<lambda>_. fail e)
      | Inr a \<Rightarrow> pbind (if q_status a \<noteq> PendingReview then fail (AlreadyReviewed rid)
            else obind (grant (approval_grant a rid reviewer))
              (\<lambda>g. record_review rid Approved reviewer None (Some (g_id g))))
          (\<lambda>result. obind (commit_lock rid) (\<lambda>_. Ret result))) True s''"
    proof (cases res)
      case (Inl e)
      then show ?thesis using inv' same by (simp add: csafe_release)
    next
      case (Inr q)
      then obtain r where r: "rows_of rid s' = [r]" "request_try_from r = Inr q" using res by blast
      with request_try_from_Inr(1) [OF r(2)] Inr inv' same show ?thesis
        by (simp add: csafe_release pbind_obind safe_grant)
    qed
  qed simp
qed

lemma reject_safe: "review_safe rid (reject rid reviewer reason) False s"
proof (cases "is_blank reason")
  case False
  have "review_safe rid (obind (acquire_review_lock rid) (\<lambda>_. pbind (reject_locked rid reviewer reason)
      (\<lambda>result. obind (commit_lock rid) (\<lambda>_. Ret result)))) False s"
  proof (rule csafe_acquire)
    fix s
    assume inv: "review_inv rid s"
    show "review_safe rid (pbind (reject_locked rid reviewer reason)
        (\<lambda>result. obind (commit_lock rid) (\<lambda>_. Ret result))) True s"
      unfolding reject_locked_def pbind_obind
    proof (rule review.csafe_single [where W = delivered, OF _ delivered_example])
      fix w s' res n s''
      assume w: "delivered w" and rely: "review_rely rid s s'"
        and run: "run (get_request rid) (\<lambda>_. w) 0 s' = (res, n, s'')"
      have inv': "review_inv rid s'" using review.stable [OF inv rely] .
      have same: "s'' = s'" using get_state [OF run] .
      show "review_safe rid (case res of
          Inl e \<Rightarrow> obind (commit_lock rid) (\<lambda>_. fail e)
        | Inr a \<Rightarrow> pbind (if q_status a \<noteq> PendingReview then fail (AlreadyReviewed rid)
              else record_review rid Denied reviewer (Some reason) None)
            (\<lambda>result. obind (commit_lock rid) (\<lambda>_. Ret result))) True s''"
      proof (cases "\<exists>q. res = Inr q \<and> q_status q = PendingReview")
        case True
        then obtain q where q: "res = Inr q" "q_status q = PendingReview" by blast
        with get_pending(2) [OF delivered_calm [OF w] _ run [unfolded q(1)]] inv' obtain r where
          r: "rows_of rid s' = [r]" "request_try_from r = Inr q" by (auto simp: review_inv_def)
        have pend: "q_status r = ''pending_review''" using request_try_from_Inr(1) [OF r(2)] q(2) by simp
        have "review_safe rid (pbind (record_review rid Denied reviewer (Some reason) None)
            (\<lambda>result. obind (commit_lock rid) (\<lambda>_. Ret result))) True s'"
          using inv' pending_has_no_grant [OF inv' r(1) pend] False
          by (intro safe_record [OF _ _ r(1) pend]) (auto simp: review_inv_def is_review_outcome_def reason_is_present_def)
        with q same show ?thesis by simp
      qed (use inv' same in \<open>auto simp: csafe_release split: sum.split\<close>)
    qed simp
  qed
  with False show ?thesis by (simp add: reject_def)
qed (simp add: reject_def)

subsection \<open>The calls the others may make meanwhile\<close>

lemma approval_key_inj [simp]: "approval_key rid = approval_key rid' \<longleftrightarrow> rid = rid'"
  by (simp add: approval_key_def)

lemma keyed_append: "keyed k s' = keyed k s @ filter (\<lambda>g. g_idempotency_key g = Some k) new"
  if "grants s' = grants s @ new"
  using that by (simp add: keyed_def)

lemma guar_grant_rely:
  assumes "gq_idempotency_key req \<noteq> Some (approval_key rid)"
  shows "guar (review_rely rid) (grant req)"
  unfolding grant_def
proof (intro review.guar_obind review.guar_transaction)
  fix now env n s row n' s'
  assume body: "run (grant_body req now) env n s = (Inr row, n', s')"
  from grant_body_Inr [OF body] have out: "recorded req now s row s' \<or> replayed req now s row s'" by blast
  have "budget_step s s'"
    using recorded_frame [OF out] grant_body_step [OF body] by (intro ledger_budget_step) auto
  with out assms show "review_rely rid s s'"
    by (auto simp: review_rely_def recorded_def replayed_def rows_of_def keyed_def)
qed auto

lemma guar_record_rely:
  assumes "gid \<noteq> None \<longleftrightarrow> st = Approved" "rid' \<noteq> rid"
  shows "guar (review_rely rid) (record_review rid' st reviewer reason gid)"
proof (cases "is_review_outcome st")
  case True
  have rows: "rows_of rid (s\<lparr>requests := map (\<lambda>r. if pending_row rid' r
      then write_review st reviewer reason gid now r else r) (requests s)\<rparr>) = rows_of rid s" for s now
  proof -
    have "filter (\<lambda>r. q_id r = rid) (map (\<lambda>r. if pending_row rid' r
        then write_review st reviewer reason gid now r else r) rs) = filter (\<lambda>r. q_id r = rid) rs" for rs
      using assms(2) by (induction rs) (auto simp: pending_row_def write_review_def)
    then show ?thesis by (simp add: rows_of_def)
  qed
  have "guar (review_rely rid)
      (stmt (\<lambda>now. update_request (pending_row rid') (write_review st reviewer reason gid now)))"
  proof (rule review.guar_stmt)
    fix now s a s'
    assume upd: "update_request (pending_row rid') (write_review st reviewer reason gid now) s = Inr (a, s')"
    then have "budget_step s s'"
      by (rule update_request_step [where rid = rid'])
        (use True assms in \<open>auto simp: pending_row_def intro: row_consistent_review\<close>)
    with update_request_Inr [OF upd] rows show "review_rely rid s s'"
      by (auto simp: review_rely_def keyed_def split: option.splits)
  qed
  then show ?thesis
    unfolding record_review_def by (auto intro!: review.guar_obind split: option.split)
qed (simp add: record_review_def)

lemma reviews_avoid:
  assumes "rid' \<noteq> rid"
  shows "avoids rid (approve rid' reviewer)" "avoids rid (reject rid' reviewer reason)"
    "guar (review_rely rid) (approve rid' reviewer)" "guar (review_rely rid) (reject rid' reviewer reason)"
proof -
  have lf: "avoids rid (get_request rid')" "avoids rid (grant req)" "avoids rid (sent what)"
    "avoids rid (record_review rid' st reviewer why gid)" for req what st why gid
    by (auto simp: get_request_def record_review_def sent_def intro!: lock_free_avoids lock_free_obind
        split: option.split)
  show "avoids rid (approve rid' reviewer)" "avoids rid (reject rid' reviewer reason)"
    using assms unfolding approve_def reject_def approve_locked_def reject_locked_def acquire_review_lock_def
      commit_lock_def
    by (auto intro!: avoids_pbind avoids_obind lf)
  have g: "guar (review_rely rid) (get_request rid')" "guar (review_rely rid) (sent what)" for what
    by (auto simp: get_request_def sent_def intro!: review.guar_obind review.guar_query review.guar_observe
        split: option.split)
  have gr: "guar (review_rely rid) (grant (approval_grant q rid' reviewer))" for q
    using assms by (intro guar_grant_rely) (simp add: approval_grant_def)
  show "guar (review_rely rid) (approve rid' reviewer)" "guar (review_rely rid) (reject rid' reviewer reason)"
    using assms unfolding approve_def reject_def approve_locked_def reject_locked_def acquire_review_lock_def
      commit_lock_def
    by (auto intro!: guar_pbind review.guar_obind g gr guar_record_rely)
qed

lemma any_review_safe:
  "review_safe rid (approve rid' reviewer) False s" "review_safe rid (reject rid' reviewer reason) False s"
  by (cases "rid' = rid"; simp add: approve_safe reject_safe avoids_csafe reviews_avoid)+

subsection \<open>One review at a time\<close>

lemma run_sent_calm: "calm env \<Longrightarrow> run (sent what) env n s = (Inr (), Suc n, s)"
  by (simp add: sent_def run_observe)

lemma run_approve_calm:
  assumes "calm env"
  shows "run (approve rid reviewer) env n s =
    (case run (approve_locked rid reviewer) env (n + 2) s of (res, n1, s1) \<Rightarrow> (res, Suc n1, s1))"
  by (simp add: approve_def acquire_review_lock_def commit_lock_def run_obind run_pbind run_sent_calm [OF assms]
      split: prod.split)

lemma run_reject_calm:
  assumes "calm env" "\<not> is_blank reason"
  shows "run (reject rid reviewer reason) env n s =
    (case run (reject_locked rid reviewer reason) env (n + 2) s of (res, n1, s1) \<Rightarrow> (res, Suc n1, s1))"
  using assms(2)
  by (simp add: reject_def acquire_review_lock_def commit_lock_def run_obind run_pbind run_sent_calm [OF assms(1)]
      split: prod.split)

lemma get_row_calm:
  assumes "calm env" "requests_ok s" "r \<in> set (requests s)" "q_id r = rid"
  shows "run (get_request rid) env n s = (request_try_from r, Suc n, s)"
  using rows_of_unique(2) [OF assms(2-4)] by (simp add: get_request_calm [OF assms(1)])

lemma reviewed_converts:
  assumes "requests_ok s" "r \<in> set (requests s)" "is_review_outcome st" "gid \<noteq> None \<longleftrightarrow> st = Approved"
  obtains q where "request_try_from (write_review st reviewer reason gid now r) = Inr q" "q_status q = st"
    "q_grant_id q = gid" "q_reviewed_by q = Some reviewer" "q_rejection_reason q = reason"
proof -
  let ?r = "write_review st reviewer reason gid now r"
  have "row_consistent ?r"
    using assms by (intro row_consistent_review) (auto simp: requests_ok_def)
  then obtain q where q: "request_try_from ?r = Inr q"
    by (cases "request_try_from ?r") (auto simp: row_consistent_def)
  from request_try_from_Inr [OF q] that q show ?thesis
    by (auto simp: write_review_def status_enum.as_str_eq_iff)
qed

text \<open>An approval of a pending request once the grant call has answered \<open>g\<close>.\<close>

lemma approve_after_grant:
  assumes "calm env" "requests_ok s" "r \<in> set (requests s)" "q_id r = rid" "request_try_from r = Inr q"
    "q_status q = PendingReview"
    and run: "run (grant (approval_grant q rid reviewer)) env (n + 3) s = (Inr g, n', s1)"
  obtains q' s' n'' r' where "run (approve rid reviewer) env n s = (Inr q', n'', s')" "q_status q' = Approved"
    "q_grant_id q' = Some (g_id g)" "q_reviewed_by q' = Some reviewer" "grants s' = grants s1"
    "rows_of rid s' = [r']" "request_try_from r' = Inr q'"
proof -
  have pend: "q_status r = ''pending_review''" using request_try_from_Inr(1) [OF assms(5)] assms(6) by simp
  have s1: "requests s1 = requests s" using pg_ledger.frame [OF run] by simp
  have ok1: "requests_ok s1"
    using budget.run_guar [OF guar_grant_budget run] assms(2) by (simp add: budget_step_def)
  from pg_ledger.answers [OF run] obtain row where "row \<in> set (grants s1)" "grant_try_from row = Inr g" by blast
  then have "fk_ok (map g_id (grants s1)) (Some (g_id g))"
    using grant_try_from_Inr [of row g] by (simp add: fk_ok_def)
  with record_review_calm [OF assms(1) ok1, of r rid Approved None "Some (g_id g)" reviewer n'] s1 assms(3,4) pend
  have rec: "run (record_review rid Approved reviewer None (Some (g_id g))) env n' s1 =
      (request_try_from (write_review Approved reviewer None (Some (g_id g)) (o_now (env n' 0)) r), Suc n',
       s1\<lparr>requests := map (\<lambda>x. if q_id x = rid then write_review Approved reviewer None (Some (g_id g))
            (o_now (env n' 0)) r else x) (requests s)\<rparr>)"
    by (simp add: is_review_outcome_def)
  obtain q' where q': "request_try_from (write_review Approved reviewer None (Some (g_id g)) (o_now (env n' 0)) r) = Inr q'"
    "q_status q' = Approved" "q_grant_id q' = Some (g_id g)" "q_reviewed_by q' = Some reviewer"
    using reviewed_converts [OF assms(2,3), of Approved "Some (g_id g)" reviewer None] by (auto simp: is_review_outcome_def)
  have "rows_of rid s1 = [r]" using rows_of_unique(1) [OF assms(2-4)] s1 by (simp add: rows_of_def)
  note rows = reviewed_rows [OF this, of "write_review Approved reviewer None (Some (g_id g)) (o_now (env n' 0)) r",
      unfolded s1]
  have "run (approve_locked rid reviewer) env (n + 2) s = (Inr q', Suc n',
       s1\<lparr>requests := map (\<lambda>x. if q_id x = rid then write_review Approved reviewer None (Some (g_id g))
            (o_now (env n' 0)) r else x) (requests s)\<rparr>)"
    using rec q' run assms(5,6) get_row_calm [OF assms(1-4), of "n + 2"]
    by (simp add: approve_locked_def run_obind eval_nat_numeral)
  with q' rows assms(4) that show ?thesis by (simp add: run_approve_calm [OF assms(1)] write_review_def)
qed

text \<open>A row converts, and the statuses other than pending stop a review before it writes.\<close>

lemma row_converts:
  assumes "requests_ok s" "r \<in> set (requests s)"
  obtains q where "request_try_from r = Inr q" "q_status r = status_as_str (q_status q)"
  using assms request_try_from_Inr(1) by (cases "request_try_from r") (auto simp: requests_ok_def row_consistent_def)

lemma review_again:
  assumes "calm env" "requests_ok s" "r \<in> set (requests s)" "q_id r = rid" "q_status r \<noteq> ''pending_review''"
  shows "run (approve rid reviewer) env n s = (Inl (AlreadyReviewed rid), n + 4, s)"
    and "\<not> is_blank reason \<Longrightarrow> run (reject rid reviewer reason) env n s = (Inl (AlreadyReviewed rid), n + 4, s)"
proof -
  obtain q where q: "request_try_from r = Inr q" "q_status r = status_as_str (q_status q)"
    by (rule row_converts [OF assms(2,3)])
  with assms(5) have "q_status q \<noteq> PendingReview" by auto
  with q get_row_calm [OF assms(1-4), of "n + 2"]
  show "run (approve rid reviewer) env n s = (Inl (AlreadyReviewed rid), n + 4, s)"
    and "\<not> is_blank reason \<Longrightarrow> run (reject rid reviewer reason) env n s = (Inl (AlreadyReviewed rid), n + 4, s)"
    by (simp_all add: run_approve_calm [OF assms(1)] run_reject_calm [OF assms(1)] approve_locked_def
        reject_locked_def run_obind eval_nat_numeral)
qed

end
