(* ===== verification/Review_Outcomes.thy ===== *)
theory Review_Outcomes
  imports Review
begin

text \<open>
  What reviews achieve: interleaved with each other and with grants, retried through faults, and one
  at a time; and the one way a crash lets a later rejection disagree with the ledger.
\<close>

subsection \<open>Reviews interleaved\<close>

datatype review_call =
    CallApprove string string
  | CallReject string string string
  | CallGrant grant_request

fun serve_review :: "review_call \<Rightarrow> (sys, unit) prog" where
  "serve_review (CallApprove rid reviewer) = pbind (approve rid reviewer) (\<lambda>_. Ret ())"
| "serve_review (CallReject rid reviewer reason) = pbind (reject rid reviewer reason) (\<lambda>_. Ret ())"
| "serve_review (CallGrant req) = pbind (grant req) (\<lambda>_. Ret ())"

lemma serve_review_safe:
  assumes "\<And>req. call = CallGrant req \<Longrightarrow> gq_idempotency_key req \<noteq> Some (approval_key rid)"
  shows "review_safe rid (serve_review call) False s"
proof (cases call)
  case (CallGrant req)
  then have "guar (review_rely rid) (grant req)" using assms by (intro guar_grant_rely) blast
  then have "review_safe rid (grant req) False s" by (rule avoids_csafe) (simp add: lock_free_avoids)
  with CallGrant show ?thesis by (simp add: csafe_forget)
qed (simp_all add: csafe_forget any_review_safe)

lemma serve_review_guar: "guar budget_step (serve_review call)"
  by (cases call) (auto intro!: guar_pbind guar_approve guar_reject guar_budget)

text \<open>C30 (review and ledger agree). Any number of approvals and rejections of any requests, and of other
  grants, interleaved in any order with every message delivered, starting from a consistent state in which
  the request waits for review and its approval key is unused: whenever no call holds the
  lock of the request, its row still asks for the same amount, account and period; it is approved
  exactly if the ledger has a grant under its approval key; and that grant is the only one, is the one the row names
  and pays exactly what was requested. So no interleaving approves twice, and none leaves a denied
  request with money.\<close>

theorem reviews_agree_with_ledger:
  assumes "pool_reach (orderly delivered) (initial (map serve_review calls) s) c"
    and "ledger_ok s" "requests_ok s" "r \<in> set (requests s)" "q_id r = rid"
    and "q_status r = ''pending_review''" "keyed (approval_key rid) s = []"
    and "\<forall>req. CallGrant req \<in> set calls \<longrightarrow> gq_idempotency_key req \<noteq> Some (approval_key rid)"
    and "held c rid = None"
  shows "\<exists>r'. rows_of rid (store c) = [r'] \<and> same_request r r' \<and>
    map (\<lambda>g. Some (g_id g)) (keyed (approval_key rid) (store c)) =
      (if q_status r' = ''approved'' then [q_grant_id r'] else []) \<and>
    list_all (pays r) (keyed (approval_key rid) (store c))"
proof -
  have inv0: "review_inv rid s"
    using assms(2-7) rows_of_unique(1) [OF assms(3-5)] by (simp add: review_inv_def)
  have "review_safe rid p False s" if "p \<in> set (map serve_review calls)" for p
    using that assms(8) by (auto intro!: serve_review_safe)
  with review.section_invariant [OF assms(1) inv0 _ assms(9)] have inv: "review_inv rid (store c)" by blast
  have "budget_step s (store c)"
    by (rule budget.initial_guar [OF assms(1)]) (auto intro: serve_review_guar)
  then obtain r' where r': "r' \<in> set (requests (store c))" "same_request r r'"
    using requests_kept_mem [OF _ assms(4)] by (auto simp: budget_step_def)
  with inv assms(5) have row: "rows_of rid (store c) = [r']"
    by (intro rows_of_unique) (auto simp: review_inv_def same_request_def)
  have "pays r' = pays r" using r'(2) by (simp add: fun_eq_iff pays_def same_request_def)
  moreover have "map (\<lambda>g. Some (g_id g)) (keyed (approval_key rid) (store c)) =
      (if q_status r' = ''approved'' then [q_grant_id r'] else [])"
    "list_all (pays r') (keyed (approval_key rid) (store c))"
    using inv row by (simp_all add: review_inv_def)
  ultimately show ?thesis using row r'(2) by simp
qed

subsection \<open>Approvals retried\<close>

text \<open>
  The states that any number of attempts to approve a pending request can lead to: the approval grant
  is missing or there, and the row is as it was or, once the grant is there, approved.
\<close>

definition approving :: "request_row \<Rightarrow> sys \<Rightarrow> sys \<Rightarrow> bool" where
  "approving r s0 s \<longleftrightarrow>
     ledger_ok s \<and> requests_ok s \<and> accounts s = accounts s0 \<and> projects s = projects s0 \<and>
     q_status r = ''pending_review'' \<and> keyed (approval_key (q_id r)) s0 = [] \<and>
     rows_of (q_id r) s0 = [r] \<and>
     (s = s0 \<or>
      (\<exists>g r'. grants s = grants s0 @ [g] \<and> keyed (approval_key (q_id r)) s = [g] \<and> pays r g \<and>
         rows_of (q_id r) s = [r'] \<and> same_request r r' \<and>
         (r' = r \<or> q_status r' = ''approved'' \<and> q_grant_id r' = Some (g_id g))))"

lemma approving_granted:
  assumes inv: "approving r s0 s" and row: "rows_of (q_id r) s = [r]" and q: "request_try_from r = Inr q"
    and run: "run (grant (approval_grant q (q_id r) reviewer)) env n s = (res, n', s')"
  shows "approving r s0 s' \<and> rows_of (q_id r) s' = [r] \<and>
    (\<forall>g. res = Inr g \<longrightarrow> (\<exists>row. keyed (approval_key (q_id r)) s' = [row] \<and> g_id g = g_id row))"
proof -
  let ?req = "approval_grant q (q_id r) reviewer" and ?k = "approval_key (q_id r)"
  have step: "budget_step s s'" using budget.run_guar [OF guar_grant_budget run] .
  have key: "gq_idempotency_key ?req = Some ?k" by (simp add: approval_grant_def)
  have pay: "pays r (new_grant_row gid ?req now)" for gid now
    using request_try_from_Inr(2,4,5) [OF q] by (simp add: pays_def approval_grant_def new_grant_row_def)
  have rows: "rows_of (q_id r) s' = [r]"
    using pg_ledger.frame [OF run] row by (simp add: rows_of_def)
  have frame: "ledger_ok s'" "requests_ok s'" "accounts s' = accounts s0" "projects s' = projects s0"
    using step inv by (auto simp: approving_def budget_step_def ledger_step_def)
  from run show ?thesis
  proof (cases rule: run_grant_cases)
    case (unchanged e)
    then show ?thesis using inv row by simp
  next
    case (replay now row)
    then have row_in: "row \<in> set (keyed ?k s)" and same: "grants s' = grants s"
      by (auto simp: replayed_def key keyed_def)
    then have "keyed ?k s' = keyed ?k s" "keyed ?k s \<noteq> []" by (auto simp: keyed_def filter_empty_conv)
    with row_in same inv obtain g where g: "grants s' = grants s0 @ [g]" "keyed ?k s' = [g]" "pays r g" "row = g"
      by (auto simp: approving_def)
    with frame rows inv have "approving r s0 s'" by (auto simp: approving_def same_request_def)
    moreover have "g_id a = g_id row" if "res = Inr a" for a using that replay(2) grant_try_from_Inr [of row a] by auto
    ultimately show ?thesis using g rows by auto
  next
    case (fresh now row)
    then have "keyed ?k s = []"
      by (auto simp: recorded_def key_taken_def keyed_def key filter_empty_conv list_ex_iff)
    with inv have s: "s = s0" by (auto simp: approving_def)
    with fresh have g: "grants s' = grants s0 @ [row]" "keyed ?k s' = [row]" "pays r row"
      using \<open>keyed ?k s = []\<close> pay by (auto simp: recorded_def keyed_def key)
    with frame rows inv have "approving r s0 s'" by (auto simp: approving_def same_request_def)
    moreover have "g_id a = g_id row" if "res = Inr a" for a using that fresh(2) grant_try_from_Inr [of row a] by auto
    ultimately show ?thesis using g rows by auto
  qed
qed

lemma record_review_state:
  assumes "run (record_review rid st reviewer reason gid) env n s = (res, n', s')" "rows_of rid s = [r]"
    "q_status r = ''pending_review''"
  shows "s' = s \<or> grants s' = grants s \<and> (\<exists>now. rows_of rid s' = [write_review st reviewer reason gid now r])"
proof -
  let ?f = "write_review st reviewer reason gid"
  have rows: "filter (\<lambda>x. q_id x = rid) (map (\<lambda>x. if pending_row rid x then ?f now x else x) rs) =
      map (\<lambda>x. if pending_row rid x then ?f now x else x) (filter (\<lambda>x. q_id x = rid) rs)" for now rs
    by (induction rs) (auto simp: write_review_def)
  have "pending_row rid r" using rows_of_mem [OF assms(2)] assms(3) by (simp add: pending_row_def)
  then have "s' = s \<or> grants s' = grants s \<and> rows_of rid s' = [?f now r]"
    if "update_request (pending_row rid) (?f now) s = Inr (upd, s')" for now upd
    using update_request_Inr [OF that] assms(2) rows [of now "requests s"]
    by (auto simp: rows_of_def split: option.splits)
  moreover have "s' = s \<or> (\<exists>now upd. update_request (pending_row rid) (?f now) s = Inr (upd, s'))"
    using assms(1) unfolding record_review_def
    by (auto split: if_splits option.splits elim!: run_obind_cases run_stmt_cases)
  ultimately show ?thesis by blast
qed

lemma approving_recorded:
  assumes inv: "approving r s0 s" and row: "rows_of (q_id r) s = [r]" and g: "keyed (approval_key (q_id r)) s = [g]"
    and run: "run (record_review (q_id r) Approved reviewer None (Some (g_id g))) env n s = (res, n', s')"
  shows "approving r s0 s'"
proof -
  have step: "budget_step s s'" using budget.run_guar [OF guar_record_review run] by simp
  have frame: "ledger_ok s'" "requests_ok s'" "accounts s' = accounts s0" "projects s' = projects s0"
    using step inv by (auto simp: approving_def budget_step_def ledger_step_def)
  have "q_status r = ''pending_review''" using inv by (simp add: approving_def)
  from record_review_state [OF run row this] show ?thesis
  proof (elim disjE conjE exE)
    fix now
    assume same: "grants s' = grants s"
      and r': "rows_of (q_id r) s' = [write_review Approved reviewer None (Some (g_id g)) now r]"
    have "keyed (approval_key (q_id r)) s' = [g]" using g same by (simp add: keyed_def)
    moreover have "grants s = grants s0 @ [g]" "pays r g" using inv g by (auto simp: approving_def)
    ultimately show ?thesis
      using frame inv r' same by (auto simp: approving_def write_review_def same_request_def)
  qed (use inv in simp)
qed

lemma get_row:
  assumes "run (get_request rid) env n s = (Inr q, n', s')" "requests_ok s"
  obtains r where "s' = s" "rows_of rid s = [r]" "request_try_from r = Inr q"
proof -
  from assms(1) obtain r where r: "s' = s" "find (\<lambda>r. q_id r = rid) (requests s) = Some r" "request_try_from r = Inr q"
    unfolding get_request_def
    by (elim run_obind_Inr) (auto dest!: run_query_Inr split: option.splits)
  with find_SomeD [OF r(2)] rows_of_unique(1) [OF assms(2), of r rid] that show thesis by blast
qed

lemma approving_attempt:
  assumes inv: "approving r s0 s"
  shows "approving r s0 (state_of (approve (q_id r) reviewer) env s)"
proof -
  let ?rid = "q_id r"
  obtain res n' s' where run: "run (approve ?rid reviewer) env 0 s = (res, n', s')"
    by (cases "run (approve ?rid reviewer) env 0 s") auto
  then have "s' = s \<or> (\<exists>n res n'. run (approve_locked ?rid reviewer) env n s = (res, n', s'))"
    unfolding approve_def acquire_review_lock_def commit_lock_def sent_def
    by (auto simp: run_obind run_pbind run_observe split: if_splits prod.splits)
  then have "approving r s0 s'"
  proof (elim disjE exE)
    fix n res n'
    assume "run (approve_locked ?rid reviewer) env n s = (res, n', s')"
    then show "approving r s0 s'"
      unfolding approve_locked_def
    proof (cases rule: run_obind_cases)
      case (stopped e)
      then show ?thesis using get_state inv by metis
    next
      case (went_on q n1 s1)
      have "requests_ok s" using inv by (simp add: approving_def)
      from get_row [OF went_on(1) this] obtain x where
        x: "s1 = s" "rows_of ?rid s = [x]" "request_try_from x = Inr q" by blast
      show ?thesis
      proof (cases "q_status q = PendingReview")
        case False
        then show ?thesis using went_on(2) x(1) inv by simp
      next
        case True
        with request_try_from_Inr(1) [OF x(3)] x(2) inv have row: "rows_of ?rid s = [r]" "request_try_from r = Inr q"
          using x(3) by (auto simp: approving_def)
        from went_on(2) True x(1)
        have "run (obind (grant (approval_grant q ?rid reviewer))
            (\<lambda>g. record_review ?rid Approved reviewer None (Some (g_id g)))) env n1 s = (res, n', s')"
          by simp
        then show ?thesis
        proof (cases rule: run_obind_cases)
          case (stopped e)
          then show ?thesis using approving_granted [OF inv row] by blast
        next
          case (went_on g n2 s2)
          with approving_granted [OF inv row went_on(1)] obtain g' where
            "approving r s0 s2" "rows_of ?rid s2 = [r]" "keyed (approval_key ?rid) s2 = [g']" "g_id g = g_id g'"
            by auto
          with went_on(2) show ?thesis using approving_recorded by metis
        qed
      qed
    qed
  qed (use inv in simp)
  with run show ?thesis by (simp add: state_of_def)
qed

interpretation approvals: kept_by "\<lambda>s (reviewer, env). state_of (approve (q_id r) reviewer) env s" "approving r s0"
  for r s0
  by unfold_locales (auto intro: approving_attempt)

lemma approving_grant_answers:
  assumes inv: "approving r s0 s" and row: "rows_of (q_id r) s = [r]" and q: "request_try_from r = Inr q"
    and "calm env" "grantable (approval_grant q (q_id r) reviewer) s0" "o_cuid (env n 3) \<notin> g_id ` set (grants s)"
  obtains g n' s' where "run (grant (approval_grant q (q_id r) reviewer)) env n s = (Inr g, n', s')"
proof (cases "s = s0")
  case True
  let ?req = "approval_grant q (q_id r) reviewer"
  have "keyed (approval_key (q_id r)) s = []" using inv True by (simp add: approving_def)
  then have "\<not> key_taken g_idempotency_key (grants s) (gq_idempotency_key ?req)"
    by (auto simp: keyed_def key_taken_def list_ex_iff filter_empty_conv approval_grant_def)
  from grant_fresh [OF assms(4) assms(5) [folded True] this assms(6)]
  obtain s' where "run (grant ?req) env n s = (grant_try_from (new_grant_row (o_cuid (env n 3)) ?req (o_now (env n 0))), Suc n, s')" .
  moreover have "period_valid (gq_period ?req)" using assms(5) by (simp add: grantable_def)
  ultimately show ?thesis using grant_try_from_new that by metis
next
  case False
  let ?req = "approval_grant q (q_id r) reviewer"
  from inv False obtain g where g: "grants s = grants s0 @ [g]" "keyed (approval_key (q_id r)) s = [g]" "pays r g"
    by (auto simp: approving_def)
  have "g \<in> set (keyed (approval_key (q_id r)) s)" by (simp add: g(2))
  then have mem: "g \<in> set (grants s)" "g_idempotency_key g = Some (approval_key (q_id r))" by (simp_all add: keyed_def)
  have "run (grant ?req) env n s = (grant_try_from g, Suc n, boot ?req (o_now (env n 0)) s)"
    using assms(4,5) inv mem
    by (intro grant_replay) (auto simp: grantable_def approving_def ledger_ok_def approval_grant_def)
  moreover have "\<exists>b. grant_try_from g = Inr b"
    using g(3) request_try_from_Inr(2,3) [OF q]
    by (auto simp: grant_try_from_def pays_def source_from_str_def)
  ultimately show ?thesis using that by auto
qed

text \<open>C29 (approval exactly once). However many attempts to approve a request waiting for review, whose approval key no
  grant has yet, are made,
  by whichever reviewers, and whichever of their messages are lost or whichever of their steps fail, one further
  attempt whose messages arrive leaves the request approved and the ledger with exactly one row more than
  before all the attempts: the grant the request names, under the approval key, paying the requested amount.
  It answers with the approved request, or with \<open>AlreadyReviewed\<close> when an earlier attempt had
  got that far.\<close>

theorem approve_retried_exactly_once:
  assumes "ledger_ok s" "requests_ok s" "r \<in> set (requests s)" "q_status r = ''pending_review''"
    and "keyed (approval_key (q_id r)) s = []" "request_try_from r = Inr q"
    and "grantable (approval_grant q (q_id r) reviewer) s"
    and "s1 = foldl (\<lambda>s (reviewer, env). state_of (approve (q_id r) reviewer) env s) s attempts"
    and "calm env" "o_cuid (env 3 3) \<notin> g_id ` set (grants s1)"
  defines "answer \<equiv> result_of (approve (q_id r) reviewer) env s1"
    and "s2 \<equiv> state_of (approve (q_id r) reviewer) env s1"
  shows "\<exists>g r'. grants s2 = grants s @ [g] \<and> g_idempotency_key g = Some (approval_key (q_id r)) \<and> pays r g \<and>
    rows_of (q_id r) s2 = [r'] \<and> q_status r' = ''approved'' \<and> q_grant_id r' = Some (g_id g) \<and>
    answer = (if rows_of (q_id r) s1 = [r] then request_try_from r' else Inl (AlreadyReviewed (q_id r)))"
proof -
  have rows: "rows_of (q_id r) s = [r]" using rows_of_unique(1) assms(2,3) by blast
  have "approving r s s1"
    using approvals.run_keeps [of r s s attempts] assms rows by (simp add: approving_def)
  then have inv: "approving r s s1" "approving r s s2"
    using approving_attempt by (auto simp: s2_def)
  have finish: ?thesis if "rows_of (q_id r) s2 = [r']" "q_status r' = ''approved''"
    "answer = (if rows_of (q_id r) s1 = [r] then request_try_from r' else Inl (AlreadyReviewed (q_id r)))" for r'
  proof -
    have "s2 \<noteq> s" "r' \<noteq> r" using that rows assms(4) by auto
    with inv(2) that obtain g where g: "grants s2 = grants s @ [g]" "keyed (approval_key (q_id r)) s2 = [g]" "pays r g"
      "q_grant_id r' = Some (g_id g)" by (auto simp: approving_def)
    have "g \<in> set (keyed (approval_key (q_id r)) s2)" by (simp add: g(2))
    then have "g_idempotency_key g = Some (approval_key (q_id r))" by (simp add: keyed_def)
    with g that show ?thesis by auto
  qed
  show ?thesis
  proof (cases "rows_of (q_id r) s1 = [r]")
    case True
    from approving_grant_answers [OF inv(1) True assms(6,9,7,10)]
    obtain g n' s' where "run (grant (approval_grant q (q_id r) reviewer)) env 3 s1 = (Inr g, n', s')" .
    moreover have "r \<in> set (requests s1)" "requests_ok s1" "q_status q = PendingReview"
      using rows_of_mem [OF True] inv(1) request_try_from_Inr(1) [OF assms(6)] assms(4)
      by (auto simp: approving_def status_enum.as_str_eq_iff [of PendingReview, simplified, symmetric])
    ultimately obtain q' s'' n'' r' where out: "run (approve (q_id r) reviewer) env 0 s1 = (Inr q', n'', s'')"
      "q_status q' = Approved" "rows_of (q_id r) s'' = [r']" "request_try_from r' = Inr q'"
      by (elim approve_after_grant [OF assms(9) _ _ HOL.refl assms(6), where n = 0, simplified])
    from request_try_from_Inr(1) [OF out(4)] out(2) have "q_status r' = ''approved''" by simp
    with True out show ?thesis by (intro finish [of r']) (auto simp: answer_def s2_def result_of_def state_of_def)
  next
    case False
    with inv(1) rows obtain g r' where r': "rows_of (q_id r) s1 = [r']" "q_status r' = ''approved''"
      by (auto simp: approving_def)
    moreover have "requests_ok s1" using inv(1) by (simp add: approving_def)
    ultimately have "run (approve (q_id r) reviewer) env 0 s1 = (Inl (AlreadyReviewed (q_id r)), 4, s1)"
      using review_again(1) [OF assms(9), of s1 r' "q_id r" reviewer 0] rows_of_mem [OF r'(1)] by simp
    with False r' show ?thesis by (intro finish) (simp_all add: answer_def s2_def result_of_def state_of_def)
  qed
qed

subsection \<open>Rejections\<close>

text \<open>(rejection). A blank reason is refused before anything is read, in any weather. Otherwise, with the
  messages delivered: an unknown request is not found; a request that does not wait for
  review is refused as already reviewed, by approval and rejection alike; and nothing is written in any
  of these cases. A request that waits for review is denied, with reviewer and reason, every other
  request and the ledger stay as they were and the answer is the denied row.\<close>

theorem reject_outcome:
  assumes "requests_ok s" "calm env"
  shows "(is_blank reason \<longrightarrow> run (reject rid reviewer reason) env' n s = (Inl MissingRejectionReason, n, s)) \<and>
    (\<not> is_blank reason \<longrightarrow>
       (rows_of rid s = [] \<longrightarrow> run (reject rid reviewer reason) env 0 s = (Inl (not_found_request rid), 4, s)) \<and>
       (\<forall>r. rows_of rid s = [r] \<longrightarrow> q_status r \<noteq> ''pending_review'' \<longrightarrow>
          run (reject rid reviewer reason) env 0 s = (Inl (AlreadyReviewed rid), 4, s) \<and>
          run (approve rid reviewer) env 0 s = (Inl (AlreadyReviewed rid), 4, s)) \<and>
       (\<forall>r. rows_of rid s = [r] \<longrightarrow> q_status r = ''pending_review'' \<longrightarrow>
          (\<exists>q. let r' = write_review Denied reviewer (Some reason) None (o_now (env 3 0)) r in
             request_try_from r' = Inr q \<and>
             run (reject rid reviewer reason) env 0 s =
               (Inr q, 5, s\<lparr>requests := map (\<lambda>x. if q_id x = rid then r' else x) (requests s)\<rparr>))))"
proof (intro conjI impI allI)
  assume "is_blank reason"
  then show "run (reject rid reviewer reason) env' n s = (Inl MissingRejectionReason, n, s)"
    by (simp add: reject_def)
next
  assume reason: "\<not> is_blank reason" and "rows_of rid s = []"
  then have "find (\<lambda>r. q_id r = rid) (requests s) = None"
    by (auto simp: rows_of_def find_None_iff filter_empty_conv)
  then show "run (reject rid reviewer reason) env 0 s = (Inl (not_found_request rid), 4, s)"
    by (simp add: run_reject_calm [OF assms(2) reason] reject_locked_def run_obind get_request_calm [OF assms(2)])
next
  fix r
  assume reason: "\<not> is_blank reason" and r: "rows_of rid s = [r]" and closed: "q_status r \<noteq> ''pending_review''"
  note again = review_again [OF assms(2,1) rows_of_mem [OF r, THEN conjunct1] rows_of_mem [OF r, THEN conjunct2] closed,
      where n = 0]
  show "run (reject rid reviewer reason) env 0 s = (Inl (AlreadyReviewed rid), 4, s)"
    "run (approve rid reviewer) env 0 s = (Inl (AlreadyReviewed rid), 4, s)"
    using again reason by simp_all
next
  fix r
  assume reason: "\<not> is_blank reason" and rows: "rows_of rid s = [r]" and pend: "q_status r = ''pending_review''"
  let ?r' = "write_review Denied reviewer (Some reason) None (o_now (env 3 0)) r"
  have r: "r \<in> set (requests s)" "q_id r = rid" using rows_of_mem [OF rows] by auto
  obtain q where q: "request_try_from r = Inr q" "q_status r = status_as_str (q_status q)"
    by (rule row_converts [OF assms(1) r(1)])
  with pend have "q_status q = PendingReview" by (cases "q_status q") simp_all
  moreover have "run (record_review rid Denied reviewer (Some reason) None) env 3 s =
      (request_try_from ?r', 4, s\<lparr>requests := map (\<lambda>x. if q_id x = rid then ?r' else x) (requests s)\<rparr>)"
    using record_review_calm [OF assms(2,1) r pend, of Denied "Some reason" None reviewer 3] reason
    by (simp add: is_review_outcome_def reason_is_present_def fk_ok_def)
  ultimately have "run (reject rid reviewer reason) env 0 s =
      (request_try_from ?r', 5, s\<lparr>requests := map (\<lambda>x. if q_id x = rid then ?r' else x) (requests s)\<rparr>)"
    using q get_row_calm [OF assms(2,1) r, of 2]
    by (simp add: run_reject_calm [OF assms(2) reason] reject_locked_def run_obind eval_nat_numeral)
  moreover obtain q' where "request_try_from ?r' = Inr q'"
    using reviewed_converts [OF assms(1) r(1), of Denied None reviewer "Some reason"]
    by (auto simp: is_review_outcome_def)
  ultimately show "\<exists>q. let r' = ?r' in request_try_from r' = Inr q \<and>
      run (reject rid reviewer reason) env 0 s =
        (Inr q, 5, s\<lparr>requests := map (\<lambda>x. if q_id x = rid then r' else x) (requests s)\<rparr>)"
    by (simp add: Let_def)
qed

subsection \<open>A crash between the grant and the review record\<close>

lemma hop_acquire:
  assumes "i < length ts" "h rid = None"
    and "pool_reach (orderly delivered)
      \<lparr>threads = ts[i := Some (pbind (k ()) f)], held = h(rid := Some i), store = s\<rparr> c"
  shows "pool_reach (orderly delivered)
      \<lparr>threads = ts[i := Some (pbind (obind (acquire_review_lock rid) k) f)], held = h, store = s\<rparr> c"
proof -
  have env: "calm (fair 0 [])" and W: "delivered (fair 0 [] j)" for j by (simp_all add: delivered_def)
  have free: "lock_free (sent what)" for what by (simp add: sent_def)
  show ?thesis
    unfolding acquire_review_lock_def pbind_obind
    by (rule hop_pbind [where W = delivered, OF run_sent_calm [OF env, where n = 0] free W assms(1)], simp,
        rule hop_pbind [where W = delivered, OF run_sent_calm [OF env, where n = 0] free W assms(1)], simp,
        rule hop_lock [where h = h and l = rid, OF assms(1,2)]) (use assms(3) in simp)
qed

text \<open>An approval scheduled up to and including its grant.\<close>

lemma hop_approve_granted:
  assumes i: "i < length ts" "h rid = None" and W: "\<And>j. delivered (env j)" and q: "q_status q = PendingReview"
    and get: "run (get_request rid) env 0 s = (Inr q, n1, s)"
    and gr: "run (grant (approval_grant q rid reviewer)) env 0 s = (Inr g, n2, s')"
  shows "\<exists>p. pool_reach (orderly delivered)
    \<lparr>threads = ts[i := Some (pbind (approve rid reviewer) f)], held = h, store = s\<rparr>
    \<lparr>threads = ts[i := Some p], held = h(rid := Some i), store = s'\<rparr>"
proof -
  have free: "lock_free (get_request rid)" "lock_free (grant (approval_grant q rid reviewer))"
    by (auto simp: get_request_def intro!: lock_free_obind split: option.split)
  let ?locked = "pbind (pbind (approve_locked rid reviewer) (\<lambda>r. obind (commit_lock rid) (\<lambda>_. Ret r))) f"
  define after_get where "after_get r = pbind (pbind (case r of Inl e \<Rightarrow> Ret (Inl e)
      | Inr q \<Rightarrow> if q_status q \<noteq> PendingReview then fail (AlreadyReviewed rid)
          else obind (grant (approval_grant q rid reviewer))
            (\<lambda>g. record_review rid Approved reviewer None (Some (g_id g))))
      (\<lambda>r. obind (commit_lock rid) (\<lambda>_. Ret r))) f" for r
  have "?locked = pbind (get_request rid) after_get"
    unfolding after_get_def approve_locked_def obind_def [of "get_request rid"] pbind_assoc ..
  moreover obtain after_grant where "after_get (Inr q) = pbind (grant (approval_grant q rid reviewer)) after_grant"
    by (simp add: after_get_def q obind_def [of "grant _"] pbind_assoc)
  ultimately have "pool_reach (orderly delivered)
      \<lparr>threads = ts[i := Some ?locked], held = h(rid := Some i), store = s\<rparr>
      \<lparr>threads = ts[i := Some (after_grant (Inr g))], held = h(rid := Some i), store = s'\<rparr>"
    using hop_pbind [where W = delivered, OF get free(1) W i(1)]
      hop_pbind [where W = delivered, OF gr free(2) W i(1) pool_reach.start] by simp
  then show ?thesis
    unfolding approve_def by (intro exI hop_acquire [where h = h and rid = rid, OF i])
qed

text \<open>A rejection scheduled until it has released the lock.\<close>

lemma hop_reject:
  assumes i: "i < length ts" "h rid = None" and run: "run (reject_locked rid reviewer reason) env 0 s = (res, n, s')"
    and W: "\<And>j. delivered (env j)" and reason: "\<not> is_blank reason"
  shows "\<exists>p. pool_reach (orderly delivered)
    \<lparr>threads = ts[i := Some (pbind (reject rid reviewer reason) f)], held = h, store = s\<rparr>
    \<lparr>threads = ts[i := Some p], held = h, store = s'\<rparr>"
proof -
  have free: "lock_free (reject_locked rid reviewer reason)"
    by (auto simp: reject_locked_def get_request_def record_review_def intro!: lock_free_obind split: option.split)
  obtain p where p: "pbind (obind (commit_lock rid) (\<lambda>_. Ret res)) f = Unlock rid p"
    by (simp add: commit_lock_def obind_def)
  have "(h(rid := Some i))(rid := None) = h" using i(2) by auto
  then have "pool_reach (orderly delivered)
      \<lparr>threads = ts[i := Some (Unlock rid p)], held = h(rid := Some i), store = s'\<rparr>
      \<lparr>threads = ts[i := Some p], held = h, store = s'\<rparr>"
    by (intro hop_unlock [OF i(1)]) (simp_all add: pool_reach.start)
  then have "pool_reach (orderly delivered)
      \<lparr>threads = ts[i := Some (pbind (pbind (reject_locked rid reviewer reason) (\<lambda>r. obind (commit_lock rid) (\<lambda>_. Ret r))) f)],
        held = h(rid := Some i), store = s\<rparr>
      \<lparr>threads = ts[i := Some p], held = h, store = s'\<rparr>"
    unfolding pbind_assoc
    by (intro hop_pbind [where W = delivered, OF run free W i(1)]) (simp add: p)
  with reason show ?thesis
    unfolding reject_def by (auto intro: hop_acquire [where h = h and rid = rid, OF i])
qed

definition demo_pending_row :: request_row where
  "demo_pending_row = write_decision (decompose (RdPendingReview
     \<lparr>ud_policy_effect = ManualReview, ud_policy_reason_codes = [], ud_matched_rule_ids = [],
      ud_policy_revision = ''rev-1''\<rparr>)) demo_request_row"

definition demo_reviewing :: sys where
  "demo_reviewing = demo_sys\<lparr>requests := [demo_pending_row]\<rparr>"

lemma demo_pending_fields:
  "q_id demo_pending_row = ''r1''" "q_status demo_pending_row = ''pending_review''"
  "q_budget_account_id demo_pending_row = ''alice''" "q_requested_amount_micros demo_pending_row = 6000000"
  "q_period demo_pending_row = ''2026-08''" "q_account_id demo_pending_row = ''alice''"
  "q_project_id demo_pending_row = None" "q_grant_id demo_pending_row = None"
  by (simp_all add: demo_pending_row_def demo_request_row_def write_decision_def decompose_unapproved_def
      new_request_row_def new_refill_def demo_refill_def aug_2026_def)

lemma demo_reviewing_ok:
  "ledger_ok demo_reviewing" "requests_ok demo_reviewing" "rows_of ''r1'' demo_reviewing = [demo_pending_row]"
  "keyed k demo_reviewing = []"
proof -
  have "row_consistent demo_request_row"
    using demo_requested_ok by (simp add: requests_ok_def demo_requested_def)
  then have "row_consistent demo_pending_row"
    unfolding demo_pending_row_def by (rule row_consistent_decision)
  moreover have "request_checks demo_pending_row" "request_fks demo_reviewing demo_pending_row"
    using period_valid_check [OF aug_2026_valid]
    by (simp_all add: request_checks_def request_fks_def status_values_def demo_pending_fields
        demo_reviewing_def demo_sys_simps fk_ok_def aug_2026_def)
  ultimately show "requests_ok demo_reviewing"
    by (simp add: requests_ok_def demo_reviewing_def unique_keys_def)
  show "ledger_ok demo_reviewing"
    using demo_ledger_ok by (simp add: demo_reviewing_def ledger_ok_def grants_ok_def balances_ok_def demo_sys_simps)
  show "rows_of ''r1'' demo_reviewing = [demo_pending_row]" "keyed k demo_reviewing = []"
    by (simp_all add: rows_of_def keyed_def demo_reviewing_def demo_pending_fields demo_sys_simps)
qed

lemma demo_row_mem: "demo_pending_row \<in> set (requests demo_reviewing)"
  by (simp add: demo_reviewing_def)

lemma demo_converts:
  obtains q where "request_try_from demo_pending_row = Inr q" "q_status q = PendingReview"
    "grantable (approval_grant q ''r1'' reviewer) demo_reviewing"
proof -
  obtain q where q: "request_try_from demo_pending_row = Inr q" "q_status demo_pending_row = status_as_str (q_status q)"
    by (rule row_converts [OF demo_reviewing_ok(2) demo_row_mem])
  then have "q_status q = PendingReview" by (cases "q_status q") (simp_all add: demo_pending_fields)
  moreover have "grantable (approval_grant q ''r1'' reviewer) demo_reviewing"
    using request_try_from_Inr [OF q(1)]
    by (simp add: grantable_def approval_grant_def demo_pending_fields sign_is_valid_def demo_reviewing_def demo_sys_simps
        fk_ok_def key_taken_def balance_fits_def bump_balance_def zero_balance_def i64_simps)
  ultimately show thesis using that q(1) by blast
qed

text \<open>The schedule: the approval runs up to and including its grant and dies there.\<close>

lemma demo_approval_dies:
  obtains s' g where "pool_reach (\<lambda>_. True)
      (initial [serve_review (CallApprove ''r1'' ''ann''), p1] demo_reviewing)
      \<lparr>threads = [None, Some p1], held = (\<lambda>_. None), store = s'\<rparr>"
    "requests_ok s'" "rows_of ''r1'' s' = [demo_pending_row]" "keyed (approval_key ''r1'') s' = [g]" "pays demo_pending_row g"
proof -
  obtain q where q: "request_try_from demo_pending_row = Inr q" "q_status q = PendingReview"
    "grantable (approval_grant q ''r1'' ''ann'') demo_reviewing" using demo_converts .
  let ?env = "fair 9 ''g1''" and ?req = "approval_grant q ''r1'' ''ann''"
  have W: "delivered (?env j)" for j by (simp add: delivered_def)
  have inv: "approving demo_pending_row demo_reviewing demo_reviewing"
    using demo_reviewing_ok by (simp add: approving_def demo_pending_fields)
  have get: "run (get_request ''r1'') ?env 0 demo_reviewing = (Inr q, Suc 0, demo_reviewing)"
    using get_row_calm [OF calm_fair demo_reviewing_ok(2) demo_row_mem, of "''r1''"] q(1) by (simp add: demo_pending_fields)
  obtain g n' s' where gr: "run (grant ?req) ?env 0 demo_reviewing = (Inr g, n', s')"
    using approving_grant_answers [OF inv _ q(1) calm_fair, of "''ann''" 9 "''g1''" 0] q(3) demo_reviewing_ok(3)
    by (auto simp: demo_pending_fields demo_reviewing_def demo_sys_simps)
  have after: "approving demo_pending_row demo_reviewing s'" "rows_of ''r1'' s' = [demo_pending_row]"
    and "keyed (approval_key ''r1'') s' \<noteq> []"
    using approving_granted [OF inv _ q(1), of "''ann''" ?env 0 "Inr g" n' s'] gr demo_reviewing_ok(3)
    by (auto simp: demo_pending_fields)
  obtain p where reach: "pool_reach (orderly delivered)
      \<lparr>threads = [Some (serve_review (CallApprove ''r1'' ''ann'')), Some p1], held = (\<lambda>_. None), store = demo_reviewing\<rparr>
      \<lparr>threads = [Some p, Some p1], held = (\<lambda>_. None)(''r1'' := Some 0), store = s'\<rparr>"
    using hop_approve_granted [where ts = "[None, Some p1]" and i = 0 and h = "\<lambda>_. None" and f = "\<lambda>_. Ret ()",
        OF _ _ W q(2) get gr] by auto
  have release_first: "release 0 ((\<lambda>_. None)(''r1'' := Some 0)) = (\<lambda>_. None)"
    by (rule ext) (simp add: release_def)
  have "pool_step \<lparr>threads = [Some p, Some p1], held = (\<lambda>_. None)(''r1'' := Some 0), store = s'\<rparr> (Crashes 0)
      \<lparr>threads = [None, Some p1], held = (\<lambda>_. None), store = s'\<rparr>"
    using pool_step.crashes [of 0 "\<lparr>threads = [Some p, Some p1], held = (\<lambda>_. None)(''r1'' := Some 0), store = s'\<rparr>"]
    by (simp add: release_first)
  with pool_reach_mono [OF reach, of "\<lambda>_. True"]
  have "pool_reach (\<lambda>_. True) (initial [serve_review (CallApprove ''r1'' ''ann''), p1] demo_reviewing)
      \<lparr>threads = [None, Some p1], held = (\<lambda>_. None), store = s'\<rparr>"
    by (auto simp: initial_def intro: pool_reach.continue)
  moreover obtain g' where "keyed (approval_key ''r1'') s' = [g']" "pays demo_pending_row g'" "requests_ok s'"
    using after(1) \<open>keyed (approval_key ''r1'') s' \<noteq> []\<close> demo_reviewing_ok(4)
    by (auto simp: approving_def demo_pending_fields)
  ultimately show thesis using that after(2) by blast
qed

lemma demo_rejection:
  assumes ok: "requests_ok s" "rows_of ''r1'' s = [demo_pending_row]" and i: "i < length ts" "h ''r1'' = None"
  defines "r' \<equiv> write_review Denied ''bob'' (Some ''no'') None 20 demo_pending_row"
  shows "\<exists>p. pool_reach (orderly delivered)
    \<lparr>threads = ts[i := Some (serve_review (CallReject ''r1'' ''bob'' ''no''))], held = h, store = s\<rparr>
    \<lparr>threads = ts[i := Some p], held = h,
     store = s\<lparr>requests := map (\<lambda>x. if q_id x = ''r1'' then r' else x) (requests s)\<rparr>\<rparr>"
proof -
  have r: "demo_pending_row \<in> set (requests s)" "q_id demo_pending_row = ''r1''" using rows_of_mem [OF ok(2)] by auto
  obtain q where q: "request_try_from demo_pending_row = Inr q" "q_status q = PendingReview" using demo_converts by metis
  have reason: "\<not> is_blank ''no''" by code_simp
  then have "run (reject_locked ''r1'' ''bob'' ''no'') (fair 20 ''x'') 0 s = (request_try_from r', 2,
      s\<lparr>requests := map (\<lambda>x. if q_id x = ''r1'' then r' else x) (requests s)\<rparr>)"
    using record_review_calm [OF calm_fair ok(1) r demo_pending_fields(2), of Denied "Some ''no''" None "''bob''" 20 "''x''" 1]
      get_row_calm [OF calm_fair ok(1) r, of 20 "''x''" 0] q
    by (simp add: reject_locked_def run_obind is_review_outcome_def reason_is_present_def fk_ok_def eval_nat_numeral r'_def)
  from hop_reject [where h = h and f = "\<lambda>_. Ret ()", OF i this _ reason] show ?thesis by (simp add: delivered_def)
qed

text \<open>(crash during an approval). Nothing ties the grant of an approval to the record of the review: they
  commit separately. If the process dies after the grant has been committed, the lock goes with its
  connection, and a rejection that follows finds the request still waiting for review and denies it. The
  request ends denied, names no grant, and the ledger has the money of its approval.\<close>

theorem crash_leaves_denied_request_paid:
  "\<exists>c r' g. pool_reach (\<lambda>_. True)
      (initial [serve_review (CallApprove ''r1'' ''ann''), serve_review (CallReject ''r1'' ''bob'' ''no'')] demo_reviewing) c \<and>
    rows_of ''r1'' (store c) = [r'] \<and> q_status r' = ''denied'' \<and> q_grant_id r' = None \<and>
    keyed (approval_key ''r1'') (store c) = [g] \<and> pays r' g"
proof -
  let ?p1 = "serve_review (CallReject ''r1'' ''bob'' ''no'')"
  obtain s' g where dies: "pool_reach (\<lambda>_. True)
      (initial [serve_review (CallApprove ''r1'' ''ann''), ?p1] demo_reviewing)
      \<lparr>threads = [None, Some ?p1], held = (\<lambda>_. None), store = s'\<rparr>"
    and s': "requests_ok s'" "rows_of ''r1'' s' = [demo_pending_row]" "keyed (approval_key ''r1'') s' = [g]"
      "pays demo_pending_row g"
    using demo_approval_dies .
  have r: "demo_pending_row \<in> set (requests s')" "q_id demo_pending_row = ''r1''" using rows_of_mem [OF s'(2)] by auto
  let ?r' = "write_review Denied ''bob'' (Some ''no'') None 20 demo_pending_row"
  let ?s'' = "s'\<lparr>requests := map (\<lambda>x. if q_id x = ''r1'' then ?r' else x) (requests s')\<rparr>"
  obtain p where "pool_reach (orderly delivered) \<lparr>threads = [None, Some ?p1], held = (\<lambda>_. None), store = s'\<rparr>
      \<lparr>threads = [None, Some p], held = (\<lambda>_. None), store = ?s''\<rparr>"
    using demo_rejection [OF s'(1,2), of 1 "[None, None]" "\<lambda>_. None"] by auto
  then have "pool_reach (\<lambda>_. True) \<lparr>threads = [None, Some ?p1], held = (\<lambda>_. None), store = s'\<rparr>
      \<lparr>threads = [None, Some p], held = (\<lambda>_. None), store = ?s''\<rparr>"
    by (rule pool_reach_mono) simp
  with dies have "pool_reach (\<lambda>_. True)
      (initial [serve_review (CallApprove ''r1'' ''ann''), ?p1] demo_reviewing)
      \<lparr>threads = [None, Some p], held = (\<lambda>_. None), store = ?s''\<rparr>" by (rule pool_reach_trans [rotated])
  moreover have "rows_of ''r1'' ?s'' = [?r']" "keyed (approval_key ''r1'') ?s'' = [g]" "pays ?r' g"
    using reviewed_rows [OF s'(2), of ?r'] s'(3,4) by (auto simp: write_review_def r(2) keyed_def pays_def)
  ultimately show ?thesis by (fastforce simp: write_review_def)
qed

subsection \<open>Evaluations\<close>

text \<open>A rejection that has run to its end while an approval of the same request waits.\<close>

theorem reviews_agree_with_ledger_witness:
  "\<exists>c r'. pool_reach (orderly delivered)
       (initial (map serve_review [CallReject ''r1'' ''bob'' ''no'', CallApprove ''r1'' ''ann'']) demo_reviewing) c \<and>
     held c ''r1'' = None \<and> q_status (hd (requests (store c))) = ''denied'' \<and>
     rows_of ''r1'' (store c) = [r'] \<and> same_request demo_pending_row r' \<and>
     map (\<lambda>g. Some (g_id g)) (keyed (approval_key ''r1'') (store c)) =
       (if q_status r' = ''approved'' then [q_grant_id r'] else [])"
proof -
  let ?calls = "[CallReject ''r1'' ''bob'' ''no'', CallApprove ''r1'' ''ann'']"
  obtain c where c: "pool_reach (orderly delivered) (initial (map serve_review ?calls) demo_reviewing) c"
    "held c = (\<lambda>_. None)" "q_status (hd (requests (store c))) = ''denied''"
    using demo_rejection [OF demo_reviewing_ok(2,3), of 0 "[None, Some (serve_review (CallApprove ''r1'' ''ann''))]" "\<lambda>_. None"]
    by (fastforce simp: initial_def demo_reviewing_def demo_pending_fields write_review_def)
  then obtain r' where "rows_of ''r1'' (store c) = [r'] \<and> same_request demo_pending_row r' \<and>
      map (\<lambda>g. Some (g_id g)) (keyed (approval_key ''r1'') (store c)) =
        (if q_status r' = ''approved'' then [q_grant_id r'] else [])"
    using reviews_agree_with_ledger [OF c(1) demo_reviewing_ok(1,2) demo_row_mem demo_pending_fields(1,2)
        demo_reviewing_ok(4)] by auto
  with c show ?thesis by (intro exI [of _ c] exI [of _ r']) (simp only: simp_thms)
qed

text \<open>An approval whose review record is lost after the grant, and one more.\<close>

definition record_lost :: "nat \<Rightarrow> weather" where
  "record_lost = (\<lambda>n i. \<lparr>o_net = (if n = 4 then Refused else Delivered), o_now = 9, o_cuid = ''g1''\<rparr>)"

theorem approve_retried_exactly_once_witness:
  "\<exists>fresh_id g r' s1 s2. s1 = foldl (\<lambda>s (reviewer, env). state_of (approve ''r1'' reviewer) env s) demo_reviewing [(''ann'', record_lost)] \<and>
     s2 = state_of (approve ''r1'' ''bob'') (fair 30 fresh_id) s1 \<and>
     grants s2 = grants demo_reviewing @ [g] \<and> pays demo_pending_row g \<and>
     rows_of ''r1'' s2 = [r'] \<and> q_status r' = ''approved'' \<and> q_grant_id r' = Some (g_id g)"
proof -
  define s1 where "s1 = foldl (\<lambda>s (reviewer, env). state_of (approve ''r1'' reviewer) env s) demo_reviewing [(''ann'', record_lost)]"
  obtain fresh_id where fresh: "fresh_id \<notin> g_id ` set (grants s1)"
    using ex_new_if_finite [of "g_id ` set (grants s1)"] infinite_UNIV_listI by blast
  obtain q where q: "request_try_from demo_pending_row = Inr q" "grantable (approval_grant q ''r1'' ''bob'') demo_reviewing"
    using demo_converts by metis
  from approve_retried_exactly_once [OF demo_reviewing_ok(1,2) demo_row_mem demo_pending_fields(2) demo_reviewing_ok(4) q(1),
      unfolded demo_pending_fields(1), OF q(2) s1_def calm_fair, of 30 fresh_id] fresh
  show ?thesis unfolding s1_def [symmetric] by auto
qed

theorem reject_outcome_witness:
  "\<exists>q. request_try_from (write_review Denied ''bob'' (Some ''no'') None 20 demo_pending_row) = Inr q \<and>
     fst (run (reject ''r1'' ''bob'' ''no'') (fair 20 ''x'') 0 demo_reviewing) = Inr q"
proof -
  have reason: "\<not> is_blank ''no''" by code_simp
  with reject_outcome [OF demo_reviewing_ok(2) calm_fair, of "''no''" "''r1''" "''bob''" "fair 0 []" 0 20 "''x''"]
    demo_reviewing_ok(3) demo_pending_fields(2)
  show ?thesis by (auto simp: Let_def)
qed

end
