(* ===== verification/Paging.thy ===== *)
theory Paging
  imports Augmentation
begin

text \<open>
  The three paged reads of repo.rs and augmentation.rs: each page is a keyset page, so walking the
  pages the way their doc comments describe yields the whole list, as long as no two rows share
  a \<open>created_at\<close>; rows that do can be skipped.
\<close>

abbreviation grants_limit :: "int \<Rightarrow> int" where
  "grants_limit lim \<equiv> clamp_int 1 MAX_LIST_GRANTS_LIMIT lim"

abbreviation requests_limit :: "int \<Rightarrow> int" where
  "requests_limit lim \<equiv> clamp_int 1 MAX_LIST_REQUESTS_LIMIT lim"

definition grants_listed :: "string \<Rightarrow> string option \<Rightarrow> sys \<Rightarrow> grant_row list" where
  "grants_listed acct per s = order_desc g_created_at
     (filter (\<lambda>r. g_budget_account_id r = acct \<and> null_or per (\<lambda>p. g_period r = p)) (grants s))"

definition pending_listed :: "string option \<Rightarrow> sys \<Rightarrow> request_row list" where
  "pending_listed acct s = order_asc q_created_at
     (filter (\<lambda>r. q_status r = ''pending_review'' \<and> null_or acct (\<lambda>a. q_budget_account_id r = a)) (requests s))"

definition history_listed :: "string \<Rightarrow> sys \<Rightarrow> request_row list" where
  "history_listed acct s = order_desc q_created_at (filter (\<lambda>r. q_budget_account_id r = acct) (requests s))"

lemma clamp_pos: "0 < grants_limit lim" "0 < requests_limit lim"
  by (simp_all add: clamp_int_def MAX_LIST_GRANTS_LIMIT_def MAX_LIST_REQUESTS_LIMIT_def)

text \<open>A page beyond a cursor, for a descending list.\<close>

lemma sort_desc_beyond:
  assumes "distinct (map f (sort_key (\<lambda>r. - f r) rows))" "i < length (sort_key (\<lambda>r. - f r :: int) rows)"
  shows "sort_key (\<lambda>r. - f r) (filter (\<lambda>r. f r < f (sort_key (\<lambda>r. - f r) rows ! i)) rows) =
    drop (Suc i) (sort_key (\<lambda>r. - f r) rows)"
proof -
  have "distinct (map (\<lambda>r. - f r) (sort_key (\<lambda>r. - f r) rows))"
    using assms(1) by (simp add: distinct_map inj_on_def)
  from sort_key_beyond [OF this assms(2)] show ?thesis by simp
qed

lemma filter_null_or_None [simp]: "null_or None P" "null_or (Some a) P = P a"
  by (simp_all add: null_or_def)

interpretation grants_pages: keyset_pages "grants_listed acct per s" g_created_at "nat (grants_limit lim)"
    "\<lambda>cursor. grants_page acct per cursor (grants_limit lim) s" for acct per s lim
proof
  let ?P = "\<lambda>r. g_budget_account_id r = acct \<and> null_or per (\<lambda>p. g_period r = p)"
  fix i
  assume "distinct (map g_created_at (grants_listed acct per s))" "i < length (grants_listed acct per s)"
  from sort_desc_beyond [OF this [unfolded grants_listed_def order_desc_def]]
  show "grants_page acct per (Some (g_created_at (grants_listed acct per s ! i))) (grants_limit lim) s =
      take (nat (grants_limit lim)) (drop (Suc i) (grants_listed acct per s))"
    by (simp add: grants_page_def grants_listed_def order_desc_def limit_rows_def conj_ac)
qed (simp_all add: grants_page_def grants_listed_def order_desc_def limit_rows_def clamp_pos)

interpretation pending_pages: keyset_pages "pending_listed acct s" q_created_at "nat (requests_limit lim)"
    "\<lambda>cursor. pending_page acct cursor (requests_limit lim) s" for acct s lim
proof
  fix i
  assume "distinct (map q_created_at (pending_listed acct s))" "i < length (pending_listed acct s)"
  from sort_key_beyond [OF this [unfolded pending_listed_def order_asc_def]]
  show "pending_page acct (Some (q_created_at (pending_listed acct s ! i))) (requests_limit lim) s =
      take (nat (requests_limit lim)) (drop (Suc i) (pending_listed acct s))"
    by (simp add: pending_page_def pending_listed_def order_asc_def limit_rows_def conj_ac)
qed (simp_all add: pending_page_def pending_listed_def order_asc_def limit_rows_def clamp_pos)

interpretation history_pages: keyset_pages "history_listed acct s" q_created_at "nat (requests_limit lim)"
    "\<lambda>cursor. history_page acct cursor (requests_limit lim) s" for acct s lim
proof
  fix i
  assume "distinct (map q_created_at (history_listed acct s))" "i < length (history_listed acct s)"
  from sort_desc_beyond [OF this [unfolded history_listed_def order_desc_def]]
  show "history_page acct (Some (q_created_at (history_listed acct s ! i))) (requests_limit lim) s =
      take (nat (requests_limit lim)) (drop (Suc i) (history_listed acct s))"
    by (simp add: history_page_def history_listed_def order_desc_def limit_rows_def conj_ac)
qed (simp_all add: history_page_def history_listed_def order_desc_def limit_rows_def clamp_pos)

subsection \<open>Walking the answers of the list operations\<close>

text \<open>The client sees the converted rows.\<close>

definition answered :: "'a list bresult \<Rightarrow> 'a list" where
  "answered r = (case r of Inl _ \<Rightarrow> [] | Inr xs \<Rightarrow> xs)"

lemma answered_converts:
  assumes "\<forall>r\<in>set rows. \<not> is_err (conv r)"
  shows "collect_results (map conv rows) = Inr (map (\<lambda>r. projr (conv r)) rows)"
proof -
  have "conv r = Inr (projr (conv r))" if "r \<in> set rows" for r
    using assms that by (cases "conv r") auto
  then show ?thesis unfolding collect_results_Inr_iff by simp
qed

lemma walk_pages_map:
  assumes "\<And>cursor. page' cursor = map f (page cursor)" "\<And>cursor r. r \<in> set (page cursor) \<Longrightarrow> at' (f r) = at r"
  shows "walk_pages fuel page' at' cursor = map f (walk_pages fuel page at cursor)"
proof (induction fuel arbitrary: cursor)
  case (Suc fuel)
  have "at' (f (last (page cursor))) = at (last (page cursor))" if "page cursor \<noteq> []"
    using assms(2) [OF last_in_set] that by blast
  with Suc show ?case by (simp add: Let_def assms(1) last_map)
qed simp

text \<open>Each list operation answers with the conversions of its page.\<close>

lemma list_grants_answer:
  assumes "calm env" "\<forall>r\<in>set (grants s). \<not> is_err (grant_try_from r)"
  shows "result_of (list_grants acct per cursor lim) env s =
    Inr (map (\<lambda>r. projr (grant_try_from r)) (grants_page acct (map_option period_str per) cursor (grants_limit lim) s))"
proof -
  have "set (grants_page acct per' cursor n s) \<subseteq> set (grants s)" for per' n
    by (auto simp: grants_page_def limit_rows_def order_desc_def dest!: in_set_takeD)
  with assms(2) have "\<forall>r\<in>set (grants_page acct (map_option period_str per) cursor (grants_limit lim) s).
      \<not> is_err (grant_try_from r)" by blast
  from answered_converts [OF this] show ?thesis
    by (simp add: result_of_def list_grants_def Let_def run_obind run_query_calm [OF assms(1)])
qed

lemma list_requests_answer:
  assumes "calm env" "requests_ok s"
  shows "result_of (list_pending_review acct cursor lim) env s =
      Inr (map (\<lambda>r. projr (request_try_from r)) (pending_page acct cursor (requests_limit lim) s))"
    and "result_of (list_by_budget_account owner cursor lim) env s =
      Inr (map (\<lambda>r. projr (request_try_from r)) (history_page owner cursor (requests_limit lim) s))"
proof -
  have "set (pending_page acct cursor n s) \<subseteq> set (requests s)" "set (history_page owner cursor n s) \<subseteq> set (requests s)" for n
    by (auto simp: pending_page_def history_page_def limit_rows_def order_asc_def order_desc_def dest!: in_set_takeD)
  moreover have "\<forall>r\<in>set (requests s). \<not> is_err (request_try_from r)"
    using assms(2) by (auto simp: requests_ok_def row_consistent_def)
  ultimately have "\<forall>r\<in>set (pending_page acct cursor (requests_limit lim) s). \<not> is_err (request_try_from r)"
    "\<forall>r\<in>set (history_page owner cursor (requests_limit lim) s). \<not> is_err (request_try_from r)"
    by blast+
  from answered_converts [OF this(1)] answered_converts [OF this(2)]
  show "result_of (list_pending_review acct cursor lim) env s =
      Inr (map (\<lambda>r. projr (request_try_from r)) (pending_page acct cursor (requests_limit lim) s))"
    and "result_of (list_by_budget_account owner cursor lim) env s =
      Inr (map (\<lambda>r. projr (request_try_from r)) (history_page owner cursor (requests_limit lim) s))"
    by (simp_all add: result_of_def list_pending_review_def list_by_budget_account_def Let_def run_obind
        run_query_calm [OF assms(1)])
qed

lemma converted_at:
  "\<not> is_err (grant_try_from r) \<Longrightarrow> g_created_at (projr (grant_try_from r)) = g_created_at r"
  "\<not> is_err (request_try_from q) \<Longrightarrow> q_created_at (projr (request_try_from q)) = q_created_at q"
proof -
  show "\<not> is_err (grant_try_from r) \<Longrightarrow> g_created_at (projr (grant_try_from r)) = g_created_at r"
    by (cases "grant_try_from r") (auto dest: grant_try_from_Inr)
  show "\<not> is_err (request_try_from q) \<Longrightarrow> q_created_at (projr (request_try_from q)) = q_created_at q"
    by (cases "request_try_from q") (auto simp: request_try_from_def res_bind_eq_Inr_conv)
qed

text \<open>C35 (complete walks). A client that asks for a page, then for the page before (or, in the review queue, after) the creation
  time of its last row, until a page is empty, with any page size it likes, sees every grant of the
  account and period, every request waiting for review and every request of the account, exactly once and in the
  order of creation, provided no two of those rows were created at the same instant and the tables do not
  change meanwhile.\<close>

theorem page_walks_complete:
  assumes "calm env" "\<forall>r\<in>set (grants s). \<not> is_err (grant_try_from r)" "requests_ok s"
    and "length (grants s) < fuel" "length (requests s) < fuel"
  shows "(distinct (map g_created_at (grants_listed acct (map_option period_str per) s)) \<longrightarrow>
      walk_pages fuel (\<lambda>cursor. answered (result_of (list_grants acct per cursor lim) env s)) g_created_at None =
      map (\<lambda>r. projr (grant_try_from r)) (grants_listed acct (map_option period_str per) s)) \<and>
    (distinct (map q_created_at (pending_listed acct' s)) \<longrightarrow>
      walk_pages fuel (\<lambda>cursor. answered (result_of (list_pending_review acct' cursor lim) env s)) q_created_at None =
      map (\<lambda>r. projr (request_try_from r)) (pending_listed acct' s)) \<and>
    (distinct (map q_created_at (history_listed acct s)) \<longrightarrow>
      walk_pages fuel (\<lambda>cursor. answered (result_of (list_by_budget_account acct cursor lim) env s)) q_created_at None =
      map (\<lambda>r. projr (request_try_from r)) (history_listed acct s))"
proof (intro conjI impI)
  note defs = grants_page_def pending_page_def history_page_def limit_rows_def order_asc_def order_desc_def
  have lens: "length (grants_listed acct per' s) < fuel" "length (pending_listed acct' s) < fuel"
    "length (history_listed acct s) < fuel" for per'
    using assms(4,5) le_less_trans [OF length_filter_le]
    by (auto simp: grants_listed_def pending_listed_def history_listed_def order_asc_def order_desc_def)
  have conv: "\<forall>r\<in>set (requests s). \<not> is_err (request_try_from r)"
    using assms(3) by (auto simp: requests_ok_def row_consistent_def)
  show "walk_pages fuel (\<lambda>cursor. answered (result_of (list_grants acct per cursor lim) env s)) g_created_at None =
      map (\<lambda>r. projr (grant_try_from r)) (grants_listed acct (map_option period_str per) s)"
    if "distinct (map g_created_at (grants_listed acct (map_option period_str per) s))"
    unfolding grants_pages.walk_all [OF that lens(1), symmetric, of lim]
    by (rule walk_pages_map) (use assms(2) in \<open>auto simp: list_grants_answer [OF assms(1,2)] answered_def converted_at defs
        dest!: in_set_takeD\<close>)
  show "walk_pages fuel (\<lambda>cursor. answered (result_of (list_pending_review acct' cursor lim) env s)) q_created_at None =
      map (\<lambda>r. projr (request_try_from r)) (pending_listed acct' s)"
    if "distinct (map q_created_at (pending_listed acct' s))"
    unfolding pending_pages.walk_all [OF that lens(2), symmetric, of lim]
    by (rule walk_pages_map) (use conv in \<open>auto simp: list_requests_answer [OF assms(1,3)] answered_def converted_at defs
        dest!: in_set_takeD\<close>)
  show "walk_pages fuel (\<lambda>cursor. answered (result_of (list_by_budget_account acct cursor lim) env s)) q_created_at None =
      map (\<lambda>r. projr (request_try_from r)) (history_listed acct s)"
    if "distinct (map q_created_at (history_listed acct s))"
    unfolding history_pages.walk_all [OF that lens(3), symmetric, of lim]
    by (rule walk_pages_map) (use conv in \<open>auto simp: list_requests_answer [OF assms(1,3)] answered_def converted_at defs
        dest!: in_set_takeD\<close>)
qed

text \<open>Two grants of one account, created at the given times.\<close>

definition two_grants :: "int \<Rightarrow> int \<Rightarrow> sys" where
  "two_grants t1 t2 = demo_sys\<lparr>grants := [new_grant_row ''g1'' demo_grant t1, new_grant_row ''g2'' demo_grant t2]\<rparr>"

lemma demo_row_account [simp]: "g_budget_account_id (new_grant_row gid demo_grant now) = ''alice''"
  by (simp add: new_grant_row_def)

lemma demo_grant_converts: "\<not> is_err (grant_try_from (new_grant_row gid demo_grant now))"
  using grant_try_from_new [of demo_grant gid now] by auto

lemma two_grants_answer:
  "answered (result_of (list_grants ''alice'' None cursor lim) (fair 0 []) (two_grants t1 t2)) =
     map (\<lambda>r. projr (grant_try_from r)) (grants_page ''alice'' None cursor (grants_limit lim) (two_grants t1 t2))"
  by (subst list_grants_answer) (auto simp: two_grants_def demo_grant_converts answered_def)

theorem page_walks_complete_witness:
  "map g_id (walk_pages 3 (\<lambda>cursor. answered (result_of (list_grants ''alice'' None cursor 1) (fair 0 []) (two_grants 50 60)))
     g_created_at None) = [''g2'', ''g1'']"
proof -
  have id: "g_id (projr (grant_try_from (new_grant_row gid demo_grant now))) = gid" for gid now
    using demo_grant_converts [of gid now]
    by (cases "grant_try_from (new_grant_row gid demo_grant now)") (auto dest: grant_try_from_Inr)
  have "requests_ok (two_grants 50 60)" by (simp add: requests_ok_def two_grants_def demo_sys_simps unique_keys_def)
  with page_walks_complete [OF calm_fair, of "two_grants 50 60" 3 "''alice''" None 1 0 "[]" None] id
  show ?thesis
    by (simp add: two_grants_def demo_grant_converts demo_sys_simps grants_listed_def order_desc_def)
qed

text \<open>(skipped rows). The cursor is a creation time and the comparison is strict, so rows created at the same instant as the
  last row of a page are skipped: of two grants of one instant, a walk with page size one sees only one, however many pages it asks for.\<close>

theorem page_walk_skips_ties:
  "length (grants_listed ''alice'' None (two_grants 50 50)) = 2 \<and>
   length (walk_pages fuel (\<lambda>cursor. answered (result_of (list_grants ''alice'' None cursor 1) (fair 0 []) (two_grants 50 50)))
     g_created_at None) \<le> 1"
proof
  let ?page = "\<lambda>cursor. answered (result_of (list_grants ''alice'' None cursor 1) (fair 0 []) (two_grants 50 50))"
  show "length (grants_listed ''alice'' None (two_grants 50 50)) = 2"
    by (simp add: grants_listed_def order_desc_def two_grants_def)
  have at: "g_created_at (projr (grant_try_from (new_grant_row gid demo_grant 50))) = 50" for gid
    by (simp add: converted_at demo_grant_converts)
  have beyond: "?page (Some 50) = []"
    unfolding two_grants_answer by (simp add: grants_page_def two_grants_def limit_rows_def order_desc_def)
  have first: "?page None = [projr (grant_try_from (new_grant_row ''g1'' demo_grant 50))]"
    unfolding two_grants_answer
    by (simp add: grants_page_def two_grants_def limit_rows_def order_desc_def clamp_int_def
        MAX_LIST_GRANTS_LIMIT_def)
  have rest: "walk_pages fuel ?page g_created_at (Some 50) = []" for fuel
    by (cases fuel) (simp_all only: walk_pages.simps beyond Let_def simp_thms if_True)
  show "length (walk_pages fuel ?page g_created_at None) \<le> 1"
    by (cases fuel) (simp_all add: first at rest del: One_nat_def)
qed

end
