(* ===== verification/Rule_Policy.thy ===== *)
theory Rule_Policy
  imports Rule_Data
begin

text \<open>
  The rule-data engine against a declarative reading of its rules, and the engine under reloading.
\<close>

subsection \<open>Rules as formulas\<close>

fun holds :: "condition \<Rightarrow> facts \<Rightarrow> int \<Rightarrow> bool" where
  "holds (Threshold f op v) facts req =
     (case resolve_field f facts req of Inl _ \<Rightarrow> False | Inr a \<Rightarrow> compare a op v)"
| "holds (All cs) facts req = (\<forall>c\<in>set cs. holds c facts req)"
| "holds (Any cs) facts req = (\<exists>c\<in>set cs. holds c facts req)"

text \<open>Both spend facts have been answered, so every field resolves.\<close>

definition spend_known :: "facts \<Rightarrow> bool" where
  "spend_known facts \<longleftrightarrow> spend_this_period facts \<noteq> Unavailable \<and> spend_last_period facts \<noteq> Unavailable"

lemma resolve_known: "spend_known facts \<Longrightarrow> \<exists>a. resolve_field f facts req = Inr a"
  by (cases f) (auto simp: spend_known_def split: spend.split)

lemma sem_known:
  "spend_known facts \<Longrightarrow> sem c facts req = Some (holds c facts req)"
  "spend_known facts \<Longrightarrow> sem_all cs facts req = Some (\<forall>c\<in>set cs. holds c facts req)"
  "spend_known facts \<Longrightarrow> sem_any cs facts req = Some (\<exists>c\<in>set cs. holds c facts req)"
proof (induction c facts req and cs facts req and cs facts req rule: sem_sem_all_sem_any.induct)
  case (1 f op v facts req)
  then show ?case using resolve_known [of facts f req] by auto
qed simp_all

lemma first_match_known:
  "spend_known facts \<Longrightarrow> first_match rules facts req = Some (find (\<lambda>r. holds (rule_condition r) facts req) rules)"
  by (induction rules) (simp_all add: sem_known)

text \<open>C31 (first match). When the spend facts are known and the rules have no more condition nodes than the
  evaluation budget, the engine's decision is the one a plain reading of the rule set gives: that of
  the first rule whose condition holds as a formula over the facts, or the default. The walk, its short
  circuits and its node counter do not show.\<close>

theorem evaluate_first_match:
  assumes "spend_known facts"
    and "sum_list (map (cond_nodes \<circ> rule_condition) (rs_rules (active e))) \<le> evaluation_budget e"
  shows "engine_evaluate e facts req = Inr
    (case find (\<lambda>r. holds (rule_condition r) facts req) (rs_rules (active e)) of
       None \<Rightarrow> decision_for_effect (default_effect (active e)) None req (default_reason_code (active e)) []
                 (rs_policy_revision (active e))
     | Some r \<Rightarrow> decision_for_effect (rule_effect r) (cap_micros r) req (reason_code r) [rule_id r]
                   (rs_policy_revision (active e)))"
proof -
  have "visited_rules (rs_rules (active e)) facts req \<le> evaluation_budget e"
    using visited_rules_le assms(2) by (rule order_trans)
  then show ?thesis
    by (simp add: engine_evaluate_eq policy_decision_def first_match_known [OF assms(1)] split: option.split)
qed

definition demo_facts :: "int \<Rightarrow> facts" where
  "demo_facts count = \<lparr>effective_balance_micros = 0, self_service_grant_count = count,
     spend_this_period = Known 0, spend_last_period = Known 0\<rparr>"

theorem evaluate_first_match_witness:
  "spend_known (demo_facts 2) \<and>
   engine_evaluate \<lparr>active = default_rule_set, evaluation_budget = 1\<rparr> (demo_facts 2) 6000000 =
     Inr (decision_for_effect ManualReview None 6000000 ''unaided_allowance_exhausted'' [] ''budget-policy-v1'')"
  using evaluate_first_match [of "demo_facts 2" "\<lparr>active = default_rule_set, evaluation_budget = 1\<rparr>" 6000000]
  by (simp add: spend_known_def demo_facts_def default_rule_set_def)

text \<open>C32 (fail closed). Evaluation always yields a decision, whatever the rules, the facts and the budget. If the walk
  would visit more nodes than the budget the decision is a denial; otherwise, if it needs a spend fact
  that is unavailable, it is a manual review. A decision that does not approve carries the amount zero,
  a full approval the requested amount, and no approval more than was requested.\<close>

theorem evaluate_fails_closed:
  "\<exists>d. engine_evaluate e facts req = Inr d \<and>
     (if evaluation_budget e < visited_rules (rs_rules (active e)) facts req
      then effect d = Deny \<and> reason_codes d = [''evaluation_budget_exceeded'']
      else first_match (rs_rules (active e)) facts req = None \<longrightarrow>
        effect d = ManualReview \<and> reason_codes d = [''required_fact_unavailable'']) \<and>
     (\<not> authorizes_grant (effect d) \<longrightarrow> approved_amount_micros d = 0) \<and>
     (effect d = AutoApprove \<longrightarrow> approved_amount_micros d = req) \<and>
     (0 \<le> req \<longrightarrow> approved_amount_micros d \<le> req)"
proof -
  obtain d where d: "engine_evaluate e facts req = Inr d" by (simp add: engine_evaluate_def)
  moreover have "if evaluation_budget e < visited_rules (rs_rules (active e)) facts req
      then effect d = Deny \<and> reason_codes d = [''evaluation_budget_exceeded'']
      else first_match (rs_rules (active e)) facts req = None \<longrightarrow>
        effect d = ManualReview \<and> reason_codes d = [''required_fact_unavailable'']"
    using d by (auto simp: engine_evaluate_eq policy_decision_def abort_decision_def)
  ultimately show ?thesis
    using rule_engine.unauthorized_is_zero [OF d] rule_engine.full_approval [OF d]
      rule_engine.approval_bounded [OF d] by blast
qed

text \<open>A rule that reads a spend fact, evaluated without one and with no budget.\<close>

definition spend_rules :: rule_set where
  "spend_rules = default_rule_set\<lparr>rs_rules :=
     [\<lparr>rule_id = ''big-spender'', rule_condition = Any [Threshold SpendThisPeriodMicros Gt 5],
       rule_effect = AutoApprove, reason_code = ''spends'', cap_micros = None\<rparr>]\<rparr>"

theorem evaluate_fails_closed_witness:
  "\<exists>d d'. engine_evaluate \<lparr>active = spend_rules, evaluation_budget = 2\<rparr>
        (demo_facts 0\<lparr>spend_this_period := Unavailable\<rparr>) 7 = Inr d \<and> effect d = ManualReview \<and>
     approved_amount_micros d = 0 \<and>
     engine_evaluate \<lparr>active = spend_rules, evaluation_budget = 1\<rparr> (demo_facts 0) 7 = Inr d' \<and> effect d' = Deny"
  using evaluate_fails_closed [of "\<lparr>active = spend_rules, evaluation_budget = 2\<rparr>"
      "demo_facts 0\<lparr>spend_this_period := Unavailable\<rparr>" 7]
    evaluate_fails_closed [of "\<lparr>active = spend_rules, evaluation_budget = 1\<rparr>" "demo_facts 0" 7]
  by (auto simp: spend_rules_def demo_facts_def authorizes_grant_def)

subsection \<open>Validation and reloading\<close>

text \<open>C34 (validation). A rule set is accepted exactly if its revision, default reason, rule ids and rule reasons
  are not blank, its rule ids are distinct, it offers at least one amount, all of them positive and
  strictly ascending, and the fail-closed floor is positive and not above the starting amount. The
  shipped policy is such a rule set.\<close>

theorem validate_accepts_exactly_wf:
  "(validate rs = Inr () \<longleftrightarrow> rule_set_wf rs) \<and> validate default_rule_set = Inr ()"
  by (simp add: validate_ok_iff default_rule_set_wf)

definition accepted :: "(string \<Rightarrow> (string, rule_set) result) \<Rightarrow> string \<Rightarrow> rule_set option" where
  "accepted parse json = (case validate_rule_data parse json of Inr rs \<Rightarrow> Some rs | Inl _ \<Rightarrow> None)"

interpretation reload: kept_by "\<lambda>e json. snd (engine_load parse e json)" engine_ok for parse
  by unfold_locales
    (auto simp: engine_load_def engine_ok_wf validate_rule_data_Inr split: sum.split)

lemma engine_load_active:
  "active (snd (engine_load parse e json)) = (case accepted parse json of None \<Rightarrow> active e | Some rs \<Rightarrow> rs)"
  "evaluation_budget (snd (engine_load parse e json)) = evaluation_budget e"
  by (simp_all add: engine_load_def accepted_def split: sum.split)

text \<open>C33 (last good policy). However many policies are loaded into a running engine, and however many of them do not
  parse or do not validate, the engine runs the last accepted one, or the one it started with when none was
  accepted, under the budget it was built with; and what it runs has always been validated.\<close>

theorem reload_keeps_last_good:
  assumes "engine_new parse json budget = Inr e"
  shows "let e' = foldl (\<lambda>e json. snd (engine_load parse e json)) e jsons in
    engine_ok e' \<and> evaluation_budget e' = budget \<and>
    active e' = last (active e # List.map_filter (accepted parse) jsons)"
proof -
  have e: "engine_ok e" "evaluation_budget e = budget"
    using assms by (auto simp: engine_new_def res_bind_eq_Inr_conv engine_ok_wf validate_rule_data_Inr)
  have "evaluation_budget (foldl (\<lambda>e json. snd (engine_load parse e json)) e jsons) = evaluation_budget e \<and>
      active (foldl (\<lambda>e json. snd (engine_load parse e json)) e jsons) =
      last (active e # List.map_filter (accepted parse) jsons)" for e
    by (induction jsons arbitrary: e) (auto simp: engine_load_active List.map_filter_simps split: option.split)
  with e reload.run_keeps [OF e(1), of parse jsons] show ?thesis by (simp add: Let_def)
qed

text \<open>A parser that knows two documents.\<close>

definition two_documents :: "string \<Rightarrow> (string, rule_set) result" where
  "two_documents json = (if json = ''shipped'' then Inr default_rule_set
     else if json = ''spend'' then Inr spend_rules else Inl ''expected value'')"

lemma spend_rules_wf: "rule_set_wf spend_rules"
  by (simp add: rule_set_wf_def spend_rules_def default_rule_set_def is_graphic_def)

theorem reload_keeps_last_good_witness:
  "active (foldl (\<lambda>e json. snd (engine_load two_documents e json))
     \<lparr>active = default_rule_set, evaluation_budget = 10\<rparr> [''spend'', ''broken'']) = spend_rules"
proof -
  have acc: "accepted two_documents ''spend'' = Some spend_rules" "accepted two_documents ''broken'' = None"
    by (simp_all add: accepted_def validate_rule_data_def two_documents_def validate_ok_iff [THEN iffD2, OF spend_rules_wf])
  have "engine_new two_documents ''shipped'' 10 = Inr \<lparr>active = default_rule_set, evaluation_budget = 10\<rparr>"
    by (simp add: engine_new_def validate_rule_data_def two_documents_def validate_ok_iff [THEN iffD2, OF default_rule_set_wf])
  from reload_keeps_last_good [OF this, of "[''spend'', ''broken'']"] acc show ?thesis
    by (simp add: Let_def List.map_filter_simps)
qed

text \<open>(cap not validated). Validation does not look at \<open>cap_micros\<close>: a rule with a negative cap is accepted, and when it
  matches, the engine approves a negative amount.\<close>

theorem negative_cap_accepted:
  "\<exists>rs d. validate rs = Inr () \<and>
     engine_evaluate \<lparr>active = rs, evaluation_budget = 10\<rparr> (demo_facts 0) 6000000 = Inr d \<and>
     authorizes_grant (effect d) \<and> approved_amount_micros d < 0"
proof -
  let ?rs = "default_rule_set\<lparr>rs_rules :=
     [\<lparr>rule_id = ''capped'', rule_condition = All [], rule_effect = AutoApproveCapped,
       reason_code = ''capped'', cap_micros = Some (- 5)\<rparr>]\<rparr>"
  have "rule_set_wf ?rs"
    by (simp add: rule_set_wf_def default_rule_set_def is_graphic_def)
  moreover have "spend_known (demo_facts 0)" by (simp add: spend_known_def demo_facts_def)
  moreover have "engine_evaluate \<lparr>active = ?rs, evaluation_budget = 10\<rparr> (demo_facts 0) 6000000 =
      Inr (decision_for_effect AutoApproveCapped (Some (- 5)) 6000000 ''capped'' [''capped''] (rs_policy_revision ?rs))"
    by (simp add: engine_evaluate_def eval_condition.simps)
  ultimately show ?thesis
    by (intro exI [of _ ?rs]) (simp add: validate_ok_iff decision_for_effect_def authorizes_grant_def)
qed

end
