(* ===== verification/Policy_Store.thy ===== *)
theory Policy_Store
  imports Augmentation Rule_Policy
begin

text \<open>
  policy_store.rs: the persisted policy revisions, the pointer to the active one and the live
  engine they are loaded into. \<open>parse\<close> stands for \<open>serde_json::from_str\<close> and \<open>jsonb\<close> for the cast
  \<open>$4::jsonb\<close> followed by \<open>::text\<close>, which fails on what PostgreSQL does not accept as JSON and otherwise
  yields a normalized text. The live engine is the field \<open>live_engine\<close> of the state.
\<close>

type_synonym parser = "string \<Rightarrow> (string, rule_set) result"
type_synonym jsonb_cast = "string \<Rightarrow> string option"

record new_revision =
  nr_id :: string
  nr_policy_revision :: string

subsection \<open>Statements\<close>

definition set_of :: "string \<Rightarrow> sys \<Rightarrow> policy_set_row option" where
  "set_of pset s = find (\<lambda>r. ps_id r = pset) (policy_sets s)"

definition revision_of :: "string \<Rightarrow> sys \<Rightarrow> policy_revision_row option" where
  "revision_of rid s = find (\<lambda>r. pr_id r = rid) (policy_revisions s)"

definition load_active_revision :: "string \<Rightarrow> sys \<Rightarrow> string option" where
  "load_active_revision pset s =
     Option.bind (set_of pset s) (\<lambda>p.
     Option.bind (ps_active_revision_id p) (\<lambda>rid.
     map_option pr_rule_data_json (revision_of rid s)))"

definition insert_revision ::
  "jsonb_cast \<Rightarrow> string \<Rightarrow> string \<Rightarrow> string \<Rightarrow> string \<Rightarrow> string option \<Rightarrow> int \<Rightarrow> sys \<Rightarrow> (string, string \<times> sys) result" where
  "insert_revision jsonb rid pset name json actor now s =
     (case jsonb json of
        None \<Rightarrow> Inl ''invalid input syntax for type json''
      | Some stored \<Rightarrow>
          if rid \<in> pr_id ` set (policy_revisions s) then Inl ''budget_policy_revisions_pkey''
          else if (pset, name) \<in> (\<lambda>r. (pr_policy_set_id r, pr_policy_revision r)) ` set (policy_revisions s)
          then Inl ''budget_policy_revisions_policy_set_id_policy_revision_key''
          else if pset \<notin> ps_id ` set (policy_sets s) then Inl ''budget_policy_revisions_policy_set_id_fkey''
          else Inr (rid, s\<lparr>policy_revisions := policy_revisions s @
                 [\<lparr>pr_id = rid, pr_policy_set_id = pset, pr_policy_revision = name,
                   pr_rule_data_json = stored, pr_created_at = now, pr_created_by = actor\<rparr>]\<rparr>))"

definition activate_revision :: "string \<Rightarrow> string \<Rightarrow> sys \<Rightarrow> (string, unit \<times> sys) result" where
  "activate_revision rid pset s =
     (if pset \<in> ps_id ` set (policy_sets s) \<and> rid \<notin> pr_id ` set (policy_revisions s)
      then Inl ''budget_policy_sets_active_revision_fk''
      else Inr ((), s\<lparr>policy_sets := map (\<lambda>p. if ps_id p = pset
             then p\<lparr>ps_active_revision_id := Some rid\<rparr> else p) (policy_sets s)\<rparr>))"

definition select_revision_by_id :: "string \<Rightarrow> string \<Rightarrow> sys \<Rightarrow> (string \<times> string) option" where
  "select_revision_by_id rid pset s =
     map_option (\<lambda>r. (pr_policy_revision r, pr_rule_data_json r))
       (find (\<lambda>r. pr_id r = rid \<and> pr_policy_set_id r = pset) (policy_revisions s))"

subsection \<open>PolicyStore\<close>

text \<open>\<open>Arc::new(engine)\<close>: from here on the process serves this engine.\<close>

definition from_engine :: "string \<Rightarrow> rule_data_engine \<Rightarrow> (sys, string) op" where
  "from_engine pset e = atomic (\<lambda>_ s. (Inr pset, s\<lparr>live_engine := e\<rparr>))"

definition load_active_from_db :: "parser \<Rightarrow> string \<Rightarrow> nat \<Rightarrow> (sys, string) op" where
  "load_active_from_db parse pset budget =
     obind (query (\<lambda>s. Inr (load_active_revision pset s))) (\<lambda>row.
     case row of
       None \<Rightarrow> fail (StorageFailed ''no active policy revision found'')
     | Some json \<Rightarrow> obind (Ret (engine_new parse json budget)) (from_engine pset))"

text \<open>\<open>self.engine.load(..)\<close> on the shared engine, its error turned into the divergence report.\<close>

definition hot_swap :: "parser \<Rightarrow> string \<Rightarrow> (sys, unit) op" where
  "hot_swap parse json = atomic (\<lambda>_ s.
     let loaded = engine_load parse (live_engine s) json in
       (map_err (\<lambda>_. StorageFailed ''DB and engine now disagree on the active policy revision'') (fst loaded),
        s\<lparr>live_engine := snd loaded\<rparr>))"

definition activate_body ::
  "jsonb_cast \<Rightarrow> string \<Rightarrow> rule_set \<Rightarrow> string \<Rightarrow> string option \<Rightarrow> string \<Rightarrow> int \<Rightarrow> (sys, unit) op" where
  "activate_body jsonb pset rs json actor rid now =
     obind (stmt (\<lambda>_. insert_revision jsonb rid pset (rs_policy_revision rs) json actor now)) (\<lambda>_.
     stmt (\<lambda>_. activate_revision rid pset))"

definition activate ::
  "parser \<Rightarrow> jsonb_cast \<Rightarrow> string \<Rightarrow> string \<Rightarrow> string option \<Rightarrow> (sys, string) op" where
  "activate parse jsonb pset json actor =
     obind (Ret (validate_rule_data parse json)) (\<lambda>rs.
     obind cuid2 (\<lambda>rid.
     obind (transaction (activate_body jsonb pset rs json actor rid)) (\<lambda>_.
     obind (hot_swap parse json) (\<lambda>_. ok (rs_policy_revision rs)))))"

definition activate_by_revision_id :: "parser \<Rightarrow> string \<Rightarrow> string \<Rightarrow> (sys, string) op" where
  "activate_by_revision_id parse pset rid =
     obind (query (\<lambda>s. Inr (select_revision_by_id rid pset s))) (\<lambda>row.
     case row of
       None \<Rightarrow> fail (StorageFailed (''no revision found for policy set''))
     | Some (name, json) \<Rightarrow>
         obind (stmt (\<lambda>_. activate_revision rid pset)) (\<lambda>_.
         obind (hot_swap parse json) (\<lambda>_. ok name)))"

definition create_revision ::
  "parser \<Rightarrow> jsonb_cast \<Rightarrow> string \<Rightarrow> string \<Rightarrow> string option \<Rightarrow> (sys, new_revision) op" where
  "create_revision parse jsonb pset json actor =
     obind (Ret (validate_rule_data parse json)) (\<lambda>rs.
     obind cuid2 (\<lambda>rid.
     obind (stmt (\<lambda>now. insert_revision jsonb rid pset (rs_policy_revision rs) json actor now)) (\<lambda>rid.
     ok \<lparr>nr_id = rid, nr_policy_revision = rs_policy_revision rs\<rparr>)))"

definition engine :: "(sys, rule_data_engine) prog" where
  "engine = observe (\<lambda>_ s. live_engine s)"

definition serving_policy_revision :: "(sys, string) prog" where
  "serving_policy_revision = observe (\<lambda>_ s. active_policy_revision (live_engine s))"

subsection \<open>What every action keeps\<close>

text \<open>
  The documented behaviour of \<open>jsonb\<close> the store relies on: the normalized text means the same, so
  what \<open>serde\<close> accepted before it still accepts with the same result.
\<close>

definition jsonb_faithful :: "parser \<Rightarrow> jsonb_cast \<Rightarrow> bool" where
  "jsonb_faithful parse jsonb \<longleftrightarrow>
     (\<forall>json stored rs. jsonb json = Some stored \<longrightarrow> parse json = Inr rs \<longrightarrow> parse stored = Inr rs)"

text \<open>
  A stored revision holds a valid policy under the name the policy gives itself. Every revision the store writes
  is like this, but not every revision a database holds: the row \<open>budget-refill-v1\<close> that
  migration 20260804000001 seeds lacks fields that are required since, and no longer parses.
\<close>

definition revision_ok :: "parser \<Rightarrow> policy_revision_row \<Rightarrow> bool" where
  "revision_ok parse r \<longleftrightarrow>
     (\<exists>rs. validate_rule_data parse (pr_rule_data_json r) = Inr rs \<and> pr_policy_revision r = rs_policy_revision rs)"

text \<open>The keys and references of the policy tables, and the engine that is running.\<close>

definition policies_ok :: "sys \<Rightarrow> bool" where
  "policies_ok s \<longleftrightarrow>
     distinct (map ps_id (policy_sets s)) \<and> distinct (map pr_id (policy_revisions s)) \<and>
     distinct (map (\<lambda>r. (pr_policy_set_id r, pr_policy_revision r)) (policy_revisions s)) \<and>
     (\<forall>p\<in>set (policy_sets s). fk_ok (map pr_id (policy_revisions s)) (ps_active_revision_id p)) \<and>
     engine_ok (live_engine s)"

text \<open>
  Revisions are only appended, and only valid ones; policy sets keep their ids, and the budget
  tables are not touched.
\<close>

definition policy_step :: "parser \<Rightarrow> sys \<Rightarrow> sys \<Rightarrow> bool" where
  "policy_step parse s s' \<longleftrightarrow>
     (\<exists>new. policy_revisions s' = policy_revisions s @ new \<and> (\<forall>r\<in>set new. revision_ok parse r)) \<and>
     map ps_id (policy_sets s') = map ps_id (policy_sets s) \<and>
     (policies_ok s \<longrightarrow> policies_ok s') \<and>
     evaluation_budget (live_engine s') = evaluation_budget (live_engine s) \<and>
     accounts s' = accounts s \<and> projects s' = projects s \<and> grants s' = grants s \<and> balances s' = balances s \<and>
     requests s' = requests s"

interpretation policies: guarantee "policy_step parse" for parse
  by unfold_locales (auto simp: policy_step_def)

lemma fk_simps: "fk_ok ids None" "fk_ok ids (Some i) \<longleftrightarrow> i \<in> set ids"
  by (simp_all add: fk_ok_def)

lemma insert_revision_Inr:
  "insert_revision jsonb rid pset name json actor now s = Inr (a, s') \<longleftrightarrow>
   (\<exists>stored. jsonb json = Some stored \<and> a = rid \<and> rid \<notin> pr_id ` set (policy_revisions s) \<and>
      (pset, name) \<notin> (\<lambda>r. (pr_policy_set_id r, pr_policy_revision r)) ` set (policy_revisions s) \<and>
      pset \<in> ps_id ` set (policy_sets s) \<and>
      s' = s\<lparr>policy_revisions := policy_revisions s @
             [\<lparr>pr_id = rid, pr_policy_set_id = pset, pr_policy_revision = name,
               pr_rule_data_json = stored, pr_created_at = now, pr_created_by = actor\<rparr>]\<rparr>)"
  by (auto simp: insert_revision_def split: option.splits)

lemma insert_revision_step:
  assumes "jsonb_faithful parse jsonb" "validate_rule_data parse json = Inr rs"
    and "insert_revision jsonb rid pset (rs_policy_revision rs) json actor now s = Inr (a, s')"
  shows "policy_step parse s s'"
proof -
  from assms(3) obtain stored where st: "jsonb json = Some stored" and rid: "rid \<notin> pr_id ` set (policy_revisions s)"
    "(pset, rs_policy_revision rs) \<notin> (\<lambda>r. (pr_policy_set_id r, pr_policy_revision r)) ` set (policy_revisions s)"
    and s': "s' = s\<lparr>policy_revisions := policy_revisions s @
       [\<lparr>pr_id = rid, pr_policy_set_id = pset, pr_policy_revision = rs_policy_revision rs,
         pr_rule_data_json = stored, pr_created_at = now, pr_created_by = actor\<rparr>]\<rparr>"
    by (auto simp: insert_revision_Inr)
  have "validate_rule_data parse stored = Inr rs"
    using assms(1,2) st by (auto simp: jsonb_faithful_def validate_rule_data_Inr)
  with rid show ?thesis
    by (auto simp: policy_step_def policies_ok_def s' revision_ok_def fk_ok_def split: option.splits)
qed

lemma activate_revision_step:
  assumes "activate_revision rid pset s = Inr (a, s')"
  shows "policy_step parse s s'"
proof -
  have "ps_id \<circ> (\<lambda>p :: policy_set_row. if ps_id p = pset then p\<lparr>ps_active_revision_id := Some rid\<rparr> else p) = ps_id"
    by (simp add: fun_eq_iff)
  with assms show ?thesis
    by (auto simp: activate_revision_def policy_step_def policies_ok_def fk_simps split: if_splits)
qed

lemma guar_hot_swap: "guar (policy_step parse) (hot_swap parse json)"
  using reload.step_keeps [of _ parse json]
  by (auto simp: hot_swap_def atomic_def Let_def policy_step_def policies_ok_def engine_load_active(2))

lemma guar_policy_calls:
  assumes "jsonb_faithful parse jsonb"
  shows "guar (policy_step parse) (activate parse jsonb pset json actor)"
    and "guar (policy_step parse) (create_revision parse jsonb pset json actor)"
    and "guar (policy_step parse) (activate_by_revision_id parse pset rid)"
proof -
  have body: "policy_step parse s s'"
    if "validate_rule_data parse json = Inr rs" "run (activate_body jsonb pset rs json actor rid now) env n s = (Inr a, n', s')"
    for rs rid now env n s a n' s'
    using that(2) unfolding activate_body_def
    by (elim run_obind_Inr) (meson policies.trans insert_revision_step [OF assms that(1)] activate_revision_step run_stmt_Inr)
  show "guar (policy_step parse) (activate parse jsonb pset json actor)"
    by (cases "validate_rule_data parse json")
      (auto simp: activate_def obind_def [of "Ret _"] intro!: policies.guar_obind policies.guar_cuid2
        policies.guar_transaction guar_hot_swap body)
  show "guar (policy_step parse) (create_revision parse jsonb pset json actor)"
    by (cases "validate_rule_data parse json")
      (auto simp: create_revision_def obind_def [of "Ret _"] intro!: policies.guar_obind policies.guar_cuid2
        policies.guar_stmt insert_revision_step [OF assms])
  show "guar (policy_step parse) (activate_by_revision_id parse pset rid)"
    unfolding activate_by_revision_id_def
    by (auto intro!: policies.guar_obind policies.guar_query policies.guar_stmt guar_hot_swap activate_revision_step
        split: option.split)
qed

subsection \<open>Database and engine\<close>

text \<open>The live engine runs the policy the active revision of the set holds.\<close>

definition serves :: "parser \<Rightarrow> string \<Rightarrow> sys \<Rightarrow> bool" where
  "serves parse pset s \<longleftrightarrow>
     (\<exists>json. load_active_revision pset s = Some json \<and> validate_rule_data parse json = Inr (active (live_engine s)))"

definition pointed :: "string \<Rightarrow> string \<Rightarrow> sys \<Rightarrow> sys" where
  "pointed rid pset s = s\<lparr>policy_sets := map (\<lambda>p. if ps_id p = pset
     then p\<lparr>ps_active_revision_id := Some rid\<rparr> else p) (policy_sets s)\<rparr>"

lemma load_active_pointed:
  assumes "pset \<in> ps_id ` set (policy_sets s)" "find (\<lambda>r. pr_id r = rid) (policy_revisions s) = Some r"
  shows "load_active_revision pset (pointed rid pset s) = Some (pr_rule_data_json r)"
proof -
  have "find (\<lambda>p. ps_id p = pset) (map (\<lambda>p. if ps_id p = pset then p\<lparr>ps_active_revision_id := Some rid\<rparr> else p) ps) =
      map_option (\<lambda>p. p\<lparr>ps_active_revision_id := Some rid\<rparr>) (find (\<lambda>p. ps_id p = pset) ps)" for ps :: "policy_set_row list"
    by (induction ps) auto
  moreover obtain p where "find (\<lambda>p. ps_id p = pset) (policy_sets s) = Some p"
    using assms(1) by (cases "find (\<lambda>p. ps_id p = pset) (policy_sets s)") (auto simp: find_None_iff)
  ultimately show ?thesis
    using assms(2) by (simp add: load_active_revision_def set_of_def revision_of_def pointed_def)
qed

lemma find_append: "find P (xs @ ys) = (case find P xs of None \<Rightarrow> find P ys | Some x \<Rightarrow> Some x)"
  by (induction xs) auto

lemma load_active_kept:
  "load_active_revision pset s = Some json \<Longrightarrow> policy_sets s' = policy_sets s \<Longrightarrow>
   policy_revisions s' = policy_revisions s @ new \<Longrightarrow> load_active_revision pset s' = Some json"
  by (auto simp: load_active_revision_def set_of_def revision_of_def find_append bind_eq_Some_conv)

lemma hot_swap_run:
  assumes "validate_rule_data parse json = Inr rs"
  shows "run (hot_swap parse json) env n s = (Inr (), Suc n, s\<lparr>live_engine := live_engine s\<lparr>active := rs\<rparr>\<rparr>)"
  using assms by (simp add: hot_swap_def run_atomic Let_def engine_load_def)

text \<open>The transaction of an activation, when it commits.\<close>

lemma activate_body_Inr:
  assumes "run (activate_body jsonb pset rs json actor rid now) env n s = (Inr a, n', s')"
  obtains stored where "jsonb json = Some stored" "rid \<notin> pr_id ` set (policy_revisions s)"
    "pset \<in> ps_id ` set (policy_sets s)"
    "s' = pointed rid pset (s\<lparr>policy_revisions := policy_revisions s @
       [\<lparr>pr_id = rid, pr_policy_set_id = pset, pr_policy_revision = rs_policy_revision rs,
         pr_rule_data_json = stored, pr_created_at = now, pr_created_by = actor\<rparr>]\<rparr>)"
  using assms unfolding activate_body_def
  by (elim run_obind_Inr)
    (auto simp: insert_revision_Inr activate_revision_def pointed_def split: if_splits dest!: run_stmt_Inr)

lemma activated_serves:
  assumes "rid \<notin> pr_id ` set (policy_revisions s)" "pset \<in> ps_id ` set (policy_sets s)"
    "jsonb_faithful parse jsonb" "jsonb json = Some stored" "validate_rule_data parse json = Inr rs"
    and "s' = pointed rid pset (s\<lparr>policy_revisions := policy_revisions s @
       [\<lparr>pr_id = rid, pr_policy_set_id = pset, pr_policy_revision = rs_policy_revision rs,
         pr_rule_data_json = stored, pr_created_at = now, pr_created_by = actor\<rparr>]\<rparr>)"
  shows "serves parse pset (s'\<lparr>live_engine := live_engine s'\<lparr>active := rs\<rparr>\<rparr>)"
proof -
  have none: "find (\<lambda>r. pr_id r = rid) (policy_revisions s) = None" using assms(1) by (auto simp: find_None_iff)
  let ?r = "\<lparr>pr_id = rid, pr_policy_set_id = pset, pr_policy_revision = rs_policy_revision rs,
      pr_rule_data_json = stored, pr_created_at = now, pr_created_by = actor\<rparr>"
  have "load_active_revision pset s' = Some (pr_rule_data_json ?r)"
    unfolding assms(6) by (rule load_active_pointed) (simp_all add: assms(2) find_append none)
  then have "load_active_revision pset s' = Some stored" by simp
  then have "load_active_revision pset (s'\<lparr>live_engine := e\<rparr>) = Some stored" for e
    by (simp add: load_active_revision_def set_of_def revision_of_def)
  moreover have "validate_rule_data parse stored = Inr rs"
    using assms(3-5) by (auto simp: jsonb_faithful_def validate_rule_data_Inr)
  ultimately show ?thesis by (simp add: serves_def)
qed

text \<open>Activation in any weather.\<close>

lemma activate_cases:
  assumes "jsonb_faithful parse jsonb" "run (activate parse jsonb pset json actor) env n s = (res, n', s')"
  shows "(\<exists>e. validate_rule_data parse json = Inl e \<and> res = Inl e \<and> s' = s \<and> n' = n) \<or>
    (\<exists>e. res = Inl e \<and> live_engine s' = live_engine s) \<or>
    (\<exists>rs. validate_rule_data parse json = Inr rs \<and> res = Inr (rs_policy_revision rs) \<and>
       active (live_engine s') = rs \<and> serves parse pset s')"
proof (cases "validate_rule_data parse json")
  case (Inl e)
  with assms(2) show ?thesis by (simp add: activate_def obind_def)
next
  case (Inr rs)
  let ?rid = "o_cuid (env n 0)"
  from assms(2) Inr have "run (obind (transaction (activate_body jsonb pset rs json actor ?rid)) (\<lambda>_.
      obind (hot_swap parse json) (\<lambda>_. ok (rs_policy_revision rs)))) env (Suc n) s = (res, n', s')"
    by (simp add: activate_def run_obind cuid2_def run_observe)
  then show ?thesis
  proof (cases rule: run_obind_cases)
    case (stopped e)
    from stopped(1) have "live_engine s' = live_engine s"
      by (cases rule: run_transaction_cases) (auto simp: pointed_def elim!: activate_body_Inr)
    with stopped(2) show ?thesis by blast
  next
    case (went_on u n1 s1)
    from went_on(1) obtain stored now where st: "jsonb json = Some stored" "?rid \<notin> pr_id ` set (policy_revisions s)"
      "pset \<in> ps_id ` set (policy_sets s)"
      "s1 = pointed ?rid pset (s\<lparr>policy_revisions := policy_revisions s @
         [\<lparr>pr_id = ?rid, pr_policy_set_id = pset, pr_policy_revision = rs_policy_revision rs,
           pr_rule_data_json = stored, pr_created_at = now, pr_created_by = actor\<rparr>]\<rparr>)"
      by (cases rule: run_transaction_cases) (auto elim!: activate_body_Inr)
    from went_on(2) have "res = Inr (rs_policy_revision rs)" "s' = s1\<lparr>live_engine := live_engine s1\<lparr>active := rs\<rparr>\<rparr>"
      by (simp_all add: run_obind hot_swap_run [OF Inr])
    with activated_serves [OF st(2,3) assms(1) st(1) Inr st(4)] Inr show ?thesis by simp
  qed
qed

text \<open>(activation). In any weather: a policy text that does not parse or validate is refused with its error before anything is
  read or written. An activation that answers has put the policy into the engine, appended it as the active
  revision of the set, and answers the name the policy gives itself; so a process that restarts from the database
  serves the same policy. An activation that fails in any other way leaves the engine on the policy it served.\<close>

theorem activate_outcome:
  assumes "jsonb_faithful parse jsonb"
  shows "case run (activate parse jsonb pset json actor) env n s of (res, n', s') \<Rightarrow>
    (\<forall>e. validate_rule_data parse json = Inl e \<longrightarrow> res = Inl e \<and> s' = s \<and> n' = n) \<and>
    (\<forall>e. res = Inl e \<longrightarrow> live_engine s' = live_engine s) \<and>
    (\<forall>name. res = Inr name \<longrightarrow> serves parse pset s' \<and> name = active_policy_revision (live_engine s') \<and>
       validate_rule_data parse json = Inr (active (live_engine s')))"
proof -
  obtain res n' s' where run: "run (activate parse jsonb pset json actor) env n s = (res, n', s')"
    by (cases "run (activate parse jsonb pset json actor) env n s") auto
  have refused: "validate_rule_data parse json = Inl e \<longrightarrow> res = Inl e \<and> s' = s \<and> n' = n" for e
    using run by (auto simp: activate_def obind_def)
  show ?thesis
    using activate_cases [OF assms run] refused by (auto simp: run active_policy_revision_def)
qed

subsection \<open>Restarting\<close>

datatype policy_call =
    CallActivate string "string option"
  | CallRollback string
  | CallCreate string "string option"

fun serve_policy :: "parser \<Rightarrow> jsonb_cast \<Rightarrow> string \<Rightarrow> policy_call \<Rightarrow> (sys, unit) prog" where
  "serve_policy parse jsonb pset (CallActivate json actor) = pbind (activate parse jsonb pset json actor) (\<lambda>_. Ret ())"
| "serve_policy parse jsonb pset (CallRollback rid) = pbind (activate_by_revision_id parse pset rid) (\<lambda>_. Ret ())"
| "serve_policy parse jsonb pset (CallCreate json actor) = pbind (create_revision parse jsonb pset json actor) (\<lambda>_. Ret ())"

lemma serve_policy_guar: "jsonb_faithful parse jsonb \<Longrightarrow> guar (policy_step parse) (serve_policy parse jsonb pset call)"
  by (cases call) (auto intro!: guar_pbind guar_policy_calls)

lemma state_of_forget: "state_of (pbind p (\<lambda>_. Ret ())) env s = state_of p env s"
  by (simp add: state_of_def run_pbind split: prod.split)

lemma serves_cong:
  "serves parse pset s \<Longrightarrow> policy_sets s' = policy_sets s \<Longrightarrow> policy_revisions s' = policy_revisions s @ new \<Longrightarrow>
   live_engine s' = live_engine s \<Longrightarrow> serves parse pset s'"
  unfolding serves_def using load_active_kept by metis

lemma create_revision_frame:
  assumes "run (create_revision parse jsonb pset json actor) env n s = (res, n', s')"
  shows "policy_sets s' = policy_sets s \<and> live_engine s' = live_engine s \<and> (\<exists>new. policy_revisions s' = policy_revisions s @ new)"
proof (cases "validate_rule_data parse json")
  case (Inr rs)
  with assms have "run (obind (stmt (\<lambda>now. insert_revision jsonb (o_cuid (env n 0)) pset (rs_policy_revision rs) json actor now))
      (\<lambda>rid. ok \<lparr>nr_id = rid, nr_policy_revision = rs_policy_revision rs\<rparr>)) env (Suc n) s = (res, n', s')"
    by (simp add: create_revision_def run_obind cuid2_def run_observe)
  then show ?thesis
    by (cases rule: run_obind_cases) (auto simp: insert_revision_Inr elim!: run_stmt_cases)
qed (use assms in \<open>simp add: create_revision_def obind_def\<close>)

lemma rollback_calm:
  assumes "calm env" "pset \<in> ps_id ` set (policy_sets s)"
  shows "run (activate_by_revision_id parse pset rid) env n s =
    (case find (\<lambda>r. pr_id r = rid \<and> pr_policy_set_id r = pset) (policy_revisions s) of
       None \<Rightarrow> (Inl (StorageFailed ''no revision found for policy set''), Suc n, s)
     | Some r \<Rightarrow> (case validate_rule_data parse (pr_rule_data_json r) of
         Inl _ \<Rightarrow> (Inl (StorageFailed ''DB and engine now disagree on the active policy revision''), n + 3, pointed rid pset s)
       | Inr rs \<Rightarrow> (Inr (pr_policy_revision r), n + 3, (pointed rid pset s)\<lparr>live_engine := live_engine s\<lparr>active := rs\<rparr>\<rparr>)))"
proof (cases "find (\<lambda>r. pr_id r = rid \<and> pr_policy_set_id r = pset) (policy_revisions s)")
  case None
  then show ?thesis
    by (simp add: activate_by_revision_id_def run_obind run_query_calm [OF assms(1)] select_revision_by_id_def)
next
  case (Some r)
  have "r \<in> set (policy_revisions s)" "pr_id r = rid" using find_SomeD [OF Some] by simp_all
  then have "activate_revision rid pset s = Inr ((), pointed rid pset s)"
    using assms(2) by (auto simp: activate_revision_def pointed_def)
  with Some show ?thesis
    by (simp add: activate_by_revision_id_def run_obind run_query_calm [OF assms(1)] select_revision_by_id_def
        run_stmt_calm [OF assms(1)] hot_swap_def run_atomic Let_def engine_load_def pointed_def eval_nat_numeral split: sum.split)
qed

lemma activate_calm_failed:
  assumes "calm env" "run (activate parse jsonb pset json actor) env n s = (Inl e, n', s')"
  shows "s' = s"
proof (cases "validate_rule_data parse json")
  case (Inr rs)
  with assms(2) have run: "run (obind (transaction (activate_body jsonb pset rs json actor (o_cuid (env n 0)))) (\<lambda>_.
      obind (hot_swap parse json) (\<lambda>_. ok (rs_policy_revision rs)))) env (Suc n) s = (Inl e, n', s')"
    by (simp add: activate_def run_obind cuid2_def run_observe)
  then show ?thesis
  proof (cases rule: run_obind_cases)
    case (stopped e')
    then show ?thesis
      using assms(1) by (auto simp: transaction_def run_atomic split: sum.splits prod.splits)
  next
    case (went_on u n1 s1)
    then show ?thesis by (simp add: run_obind hot_swap_run [OF Inr])
  qed
qed (use assms in \<open>simp add: activate_def obind_def\<close>)

text \<open>A rollback names a revision that can be served.\<close>

fun rolls_back_well :: "parser \<Rightarrow> sys \<Rightarrow> policy_call \<Rightarrow> bool" where
  "rolls_back_well parse s (CallRollback rid) \<longleftrightarrow>
     (\<forall>r\<in>set (policy_revisions s). pr_id r = rid \<longrightarrow> revision_ok parse r)"
| "rolls_back_well parse s _ \<longleftrightarrow> True"

lemma rolls_back_well_kept:
  "rolls_back_well parse s call \<Longrightarrow> policy_step parse s s' \<Longrightarrow> rolls_back_well parse s' call"
  by (cases call) (auto simp: policy_step_def)

lemma serves_call:
  assumes "jsonb_faithful parse jsonb" "calm env" "policies_ok s" "serves parse pset s" "rolls_back_well parse s call"
  shows "serves parse pset (state_of (serve_policy parse jsonb pset call) env s)"
proof (cases call)
  case (CallActivate json actor)
  obtain res n' s' where run: "run (activate parse jsonb pset json actor) env 0 s = (res, n', s')"
    by (cases "run (activate parse jsonb pset json actor) env 0 s") auto
  have "serves parse pset s'"
    using activate_cases [OF assms(1) run] activate_calm_failed [OF assms(2)] run assms(4) by blast
  with CallActivate run show ?thesis by (simp add: state_of_forget) (simp add: state_of_def)
next
  case (CallRollback rid)
  have set: "pset \<in> ps_id ` set (policy_sets s)"
    using assms(4) by (auto simp: serves_def load_active_revision_def set_of_def bind_eq_Some_conv dest: find_SomeD)
  show ?thesis
  proof (cases "find (\<lambda>r. pr_id r = rid \<and> pr_policy_set_id r = pset) (policy_revisions s)")
    case None
    then show ?thesis
      using CallRollback assms(4) rollback_calm [OF assms(2) set, of parse rid 0]
      by (simp add: state_of_forget) (simp add: state_of_def)
  next
    case (Some r)
    have r: "r \<in> set (policy_revisions s)" "pr_id r = rid" using find_SomeD [OF Some] by simp_all
    then obtain rs where rs: "validate_rule_data parse (pr_rule_data_json r) = Inr rs"
      using assms(5) CallRollback by (auto simp: revision_ok_def)
    have "distinct (map pr_id (policy_revisions s))" using assms(3) by (simp add: policies_ok_def)
    then have "find (\<lambda>x. pr_id x = rid) (policy_revisions s) = Some r" using find_id r by metis
    from load_active_pointed [OF set this] rs
    have "serves parse pset ((pointed rid pset s)\<lparr>live_engine := live_engine s\<lparr>active := rs\<rparr>\<rparr>)"
      by (simp add: serves_def load_active_revision_def set_of_def revision_of_def)
    then show ?thesis
      using CallRollback Some rs rollback_calm [OF assms(2) set, of parse rid 0]
      by (simp add: state_of_forget) (simp add: state_of_def)
  qed
next
  case (CallCreate json actor)
  then show ?thesis
    using create_revision_frame [of parse jsonb pset json actor env 0 s] serves_cong [OF assms(4)]
    by (cases "run (create_revision parse jsonb pset json actor) env 0 s")
      (auto simp: state_of_forget, auto simp: state_of_def)
qed

text \<open>
  Policy calls one after the other with every message delivered, each given by its weather and the call.
\<close>

definition agreeing :: "parser \<Rightarrow> string \<Rightarrow> nat \<Rightarrow> sys \<Rightarrow> bool" where
  "agreeing parse pset budget s \<longleftrightarrow>
     policies_ok s \<and> serves parse pset s \<and> evaluation_budget (live_engine s) = budget"

definition calm_call :: "parser \<Rightarrow> jsonb_cast \<Rightarrow> string \<Rightarrow> sys \<Rightarrow> (int \<times> string) \<times> policy_call \<Rightarrow> sys" where
  "calm_call parse jsonb pset s call =
     state_of (serve_policy parse jsonb pset (snd call)) (fair (fst (fst call)) (snd (fst call))) s"

lemma agreeing_call:
  assumes "jsonb_faithful parse jsonb" "agreeing parse pset budget s" "rolls_back_well parse s (snd call)"
  shows "agreeing parse pset budget (calm_call parse jsonb pset s call)"
  using assms serves_call [OF assms(1) calm_fair, of s pset "snd call"]
    policies.state_of_guar [OF serve_policy_guar [OF assms(1), of pset "snd call"]]
  by (auto simp: agreeing_def calm_call_def policy_step_def)

lemma agreeing_calls:
  assumes "jsonb_faithful parse jsonb" "agreeing parse pset budget s" "\<forall>call\<in>set calls. rolls_back_well parse s (snd call)"
  shows "agreeing parse pset budget (foldl (calm_call parse jsonb pset) s calls)"
  using assms(2,3)
proof (induction calls arbitrary: s)
  case (Cons call calls)
  let ?s' = "calm_call parse jsonb pset s call"
  have "policy_step parse s ?s'"
    unfolding calm_call_def by (rule policies.state_of_guar [OF serve_policy_guar [OF assms(1)]])
  then have "\<forall>call\<in>set calls. rolls_back_well parse ?s' (snd call)"
    using Cons.prems(2) rolls_back_well_kept by (metis list.set_intros(2))
  with Cons.IH [of ?s'] agreeing_call [OF assms(1) Cons.prems(1)] Cons.prems(2) show ?case by simp
qed simp

text \<open>C36 (restart). Starting from a database whose active revision the engine serves, handle any sequence of activations,
  newly written revisions and rollbacks, accepted and refused alike, one after the other with every message
  delivered, where no rollback names a revision that does not parse: the engine
  still serves the active revision of the database, so that a process which then starts from
  that database ends up with exactly the engine that was running. Revisions that do not parse may be stored, as the
  migrations leave one.\<close>

theorem restart_serves_same_policy:
  assumes "jsonb_faithful parse jsonb" "policies_ok s" "serves parse pset s"
    and "\<forall>call\<in>set calls. rolls_back_well parse s (snd call)"
    and "s1 = foldl (calm_call parse jsonb pset) s calls" "calm env"
  shows "run (load_active_from_db parse pset (evaluation_budget (live_engine s))) env 0 s1 = (Inr pset, 2, s1) \<and>
    serves parse pset s1"
proof -
  have "agreeing parse pset (evaluation_budget (live_engine s)) s1"
    unfolding assms(5) by (rule agreeing_calls [OF assms(1) _ assms(4)]) (simp add: agreeing_def assms(2,3))
  then have agree: "serves parse pset s1" "evaluation_budget (live_engine s1) = evaluation_budget (live_engine s)"
    by (simp_all add: agreeing_def)
  then obtain json where json: "load_active_revision pset s1 = Some json"
    "validate_rule_data parse json = Inr (active (live_engine s1))" by (auto simp: serves_def)
  have "\<lparr>active = active (live_engine s1), evaluation_budget = evaluation_budget (live_engine s)\<rparr> = live_engine s1"
    using agree(2) by (cases "live_engine s1") simp
  with json have "engine_new parse json (evaluation_budget (live_engine s)) = Inr (live_engine s1)"
    by (simp add: engine_new_def)
  with json agree(1) show ?thesis
    by (simp add: load_active_from_db_def run_obind run_query_calm [OF assms(6)] from_engine_def run_atomic)
qed

text \<open>(broken rollback). A rollback moves the pointer before it looks at the policy. Rolling back to a stored revision that does not
  parse answers an error and leaves the engine as it was, but the revision is now the active one, and a process that
  starts from this database fails. The seeded row \<open>budget-refill-v1\<close> is such a revision.\<close>

theorem rollback_to_unparsable:
  assumes "calm env" "policies_ok s" "pset \<in> ps_id ` set (policy_sets s)"
    and "find (\<lambda>r. pr_id r = rid \<and> pr_policy_set_id r = pset) (policy_revisions s) = Some r"
    and "validate_rule_data parse (pr_rule_data_json r) = Inl e"
    and "run (activate_by_revision_id parse pset rid) env n s = (res, n', s')"
  shows "res = Inl (StorageFailed ''DB and engine now disagree on the active policy revision'') \<and>
    live_engine s' = live_engine s \<and> run (load_active_from_db parse pset budget) env n' s' = (Inl e, Suc n', s')"
proof -
  have res: "res = Inl (StorageFailed ''DB and engine now disagree on the active policy revision'')" "s' = pointed rid pset s"
    using assms(6) by (simp_all add: rollback_calm [OF assms(1,3)] assms(4,5))
  have "find (\<lambda>x. pr_id x = rid) (policy_revisions s) = Some r"
    using find_id [of pr_id "policy_revisions s" r] find_SomeD [OF assms(4)] assms(2) by (auto simp: policies_ok_def)
  from load_active_pointed [OF assms(3) this] assms(5) res show ?thesis
    by (simp add: load_active_from_db_def run_obind run_query_calm [OF assms(1)] engine_new_def pointed_def)
qed

text \<open>(written, not live). A revision that is only written never touches the engine or the active pointer, in any weather: the
  table then holds a revision that no set has ever activated, and the policy it displaces is none.\<close>

theorem created_revision_not_active:
  assumes "policies_ok s" "run (create_revision parse jsonb pset json actor) env n s = (Inr nr, n', s')"
  shows "live_engine s' = live_engine s \<and> policy_sets s' = policy_sets s \<and>
    (\<exists>r\<in>set (policy_revisions s'). pr_id r = nr_id nr \<and> pr_policy_revision r = nr_policy_revision nr) \<and>
    Some (nr_id nr) \<notin> ps_active_revision_id ` set (policy_sets s')"
proof -
  from assms(2) obtain rs where rs: "validate_rule_data parse json = Inr rs"
    by (cases "validate_rule_data parse json") (auto simp: create_revision_def obind_def)
  with assms(2) have "run (obind (stmt (\<lambda>now. insert_revision jsonb (o_cuid (env n 0)) pset (rs_policy_revision rs) json actor now))
      (\<lambda>rid. ok \<lparr>nr_id = rid, nr_policy_revision = rs_policy_revision rs\<rparr>)) env (Suc n) s = (Inr nr, n', s')"
    by (simp add: create_revision_def run_obind cuid2_def run_observe)
  then obtain now where ins: "insert_revision jsonb (o_cuid (env n 0)) pset (rs_policy_revision rs) json actor now s = Inr (nr_id nr, s')"
    and name: "nr_policy_revision nr = rs_policy_revision rs"
    by (elim run_obind_Inr) (auto dest!: run_stmt_Inr)
  have "Some (nr_id nr) \<noteq> ps_active_revision_id p" if "p \<in> set (policy_sets s)" for p
    using ins assms(1) that by (force simp: insert_revision_Inr policies_ok_def fk_ok_def split: option.splits)
  with ins name create_revision_frame [OF assms(2)] show ?thesis
    by (auto simp: insert_revision_Inr)
qed

subsection \<open>Two activations at once\<close>

text \<open>An activation is published in the database first and swapped into the engine later.\<close>

definition publish :: "jsonb_cast \<Rightarrow> string \<Rightarrow> rule_set \<Rightarrow> string \<Rightarrow> string option \<Rightarrow> (sys, unit) op" where
  "publish jsonb pset rs json actor = obind cuid2 (\<lambda>rid. transaction (activate_body jsonb pset rs json actor rid))"

definition swapping :: "parser \<Rightarrow> string \<Rightarrow> (sys, unit) prog" where
  "swapping parse json = pbind (hot_swap parse json) (\<lambda>_. Ret ())"

lemma serve_activate:
  assumes "validate_rule_data parse json = Inr rs"
  shows "serve_policy parse jsonb pset (CallActivate json actor) =
    pbind (publish jsonb pset rs json actor) (\<lambda>r. case r of Inl _ \<Rightarrow> Ret () | Inr _ \<Rightarrow> swapping parse json)"
proof -
  have swap: "pbind (obind (hot_swap parse json) (\<lambda>_. ok x)) (\<lambda>_. Ret ()) = swapping parse json" for x :: string
    unfolding pbind_obind swapping_def
    by (rule arg_cong [where f = "pbind (hot_swap parse json)"], rule ext) (simp split: sum.split)
  show ?thesis
    using assms
    by (simp add: activate_def obind_def [of "Ret _"] publish_def pbind_obind [of cuid2] pbind_obind [of "transaction _"]
        swap cong: sum.case_cong)
qed

lemma hop_publish:
  assumes "i < length ts" "validate_rule_data parse json = Inr rs" "\<And>j. delivered (env j)"
    and "run (publish jsonb pset rs json actor) env 0 s = (Inr u, n, s')"
    and "pool_reach (orderly delivered) \<lparr>threads = ts[i := Some (swapping parse json)], held = h, store = s'\<rparr> c"
  shows "pool_reach (orderly delivered)
    \<lparr>threads = ts[i := Some (serve_policy parse jsonb pset (CallActivate json actor))], held = h, store = s\<rparr> c"
proof -
  have "lock_free (publish jsonb pset rs json actor)" by (simp add: publish_def lock_free_obind)
  from hop_pbind [where W = delivered, OF assms(4) this assms(3,1)] assms(5) show ?thesis
    unfolding serve_activate [OF assms(2)] by simp
qed

lemma hop_swap:
  assumes "i < length ts" "validate_rule_data parse json = Inr rs"
    and "pool_reach (orderly delivered) \<lparr>threads = ts[i := Some (Ret ())], held = h,
      store = s\<lparr>live_engine := live_engine s\<lparr>active := rs\<rparr>\<rparr>\<rparr> c"
  shows "pool_reach (orderly delivered) \<lparr>threads = ts[i := Some (swapping parse json)], held = h, store = s\<rparr> c"
proof -
  have "lock_free (hot_swap parse json)" by (simp add: hot_swap_def)
  from hop_pbind [where W = delivered and env = "fair 0 []" and n = 0, OF hot_swap_run [OF assms(2)] this _ assms(1)] assms(3)
  show ?thesis unfolding swapping_def by (simp add: delivered_def)
qed

text \<open>
  Example documents: the shipped policy under the name the document consists of. As in a migrated database, the
  first stored revision does not parse.
\<close>

definition named_rules :: "string \<Rightarrow> rule_set" where
  "named_rules name = default_rule_set\<lparr>rs_policy_revision := name\<rparr>"

definition by_name :: parser where
  "by_name json = (if json \<in> {''v1'', ''v2'', ''v3''} then Inr (named_rules json) else Inl ''expected value'')"

definition revision_row :: "string \<Rightarrow> string \<Rightarrow> int \<Rightarrow> policy_revision_row" where
  "revision_row rid json now = \<lparr>pr_id = rid, pr_policy_set_id = ''budget-refill'', pr_policy_revision = json,
     pr_rule_data_json = json, pr_created_at = now, pr_created_by = None\<rparr>"

definition demo_policies :: sys where
  "demo_policies = demo_sys\<lparr>policy_sets := [\<lparr>ps_id = ''budget-refill'', ps_active_revision_id = Some ''r1''\<rparr>],
     policy_revisions := [revision_row ''budget-refill-v1'' ''v0'' 0, revision_row ''r1'' ''v1'' 0],
     live_engine := \<lparr>active = named_rules ''v1'', evaluation_budget = 1000\<rparr>\<rparr>"

lemma by_name_valid:
  "json \<in> {''v1'', ''v2'', ''v3''} \<Longrightarrow> validate_rule_data by_name json = Inr (named_rules json)"
  using default_rule_set_wf
  by (auto simp: validate_rule_data_Inr by_name_def rule_set_wf_def named_rules_def is_graphic_def)

lemma by_name_faithful: "jsonb_faithful by_name Some"
  by (simp add: jsonb_faithful_def)

lemma demo_policies_ok: "policies_ok demo_policies" "serves by_name ''budget-refill'' demo_policies"
  using by_name_valid [of "''v1''"] validate_rule_data_Inr [of by_name "''v1''" "named_rules ''v1''"]
  by (auto simp: policies_ok_def demo_policies_def revision_ok_def revision_row_def fk_ok_def engine_ok_wf named_rules_def
      serves_def load_active_revision_def set_of_def revision_of_def)

text \<open>(activations race). Publishing a revision and swapping the engine are separate steps with no lock between them. Two
  activations that both succeed can end with the database naming the later one as active while the engine, and all refills, run the
  other, until the next restart.\<close>

theorem concurrent_activations_diverge:
  "\<exists>c. pool_reach (orderly delivered)
      (initial [serve_policy by_name Some ''budget-refill'' (CallActivate ''v2'' None),
                serve_policy by_name Some ''budget-refill'' (CallActivate ''v3'' None)] demo_policies) c \<and>
    threads c = [Some (Ret ()), Some (Ret ())] \<and> load_active_revision ''budget-refill'' (store c) = Some ''v3'' \<and>
    active_policy_revision (live_engine (store c)) = ''v2'' \<and> \<not> serves by_name ''budget-refill'' (store c)"
proof -
  let ?p2 = "serve_policy by_name Some ''budget-refill'' (CallActivate ''v2'' None)"
    and ?p3 = "serve_policy by_name Some ''budget-refill'' (CallActivate ''v3'' None)"
  let ?db = "\<lambda>rid rows e. demo_policies\<lparr>policy_sets := [\<lparr>ps_id = ''budget-refill'', ps_active_revision_id = Some rid\<rparr>],
      policy_revisions := revision_row ''budget-refill-v1'' ''v0'' 0 # revision_row ''r1'' ''v1'' 0 # rows, live_engine := \<lparr>active = named_rules e, evaluation_budget = 1000\<rparr>\<rparr>"
  let ?s1 = "?db ''r2'' [revision_row ''r2'' ''v2'' 1] ''v1''"
  let ?s2 = "?db ''r3'' [revision_row ''r2'' ''v2'' 1, revision_row ''r3'' ''v3'' 2] ''v1''"
  let ?s4 = "?db ''r3'' [revision_row ''r2'' ''v2'' 1, revision_row ''r3'' ''v3'' 2] ''v2''"
  note valid = by_name_valid [of "''v2''", simplified] by_name_valid [of "''v3''", simplified]
  have pub: "run (publish Some ''budget-refill'' (named_rules ''v2'') ''v2'' None) (fair 1 ''r2'') 0 demo_policies = (Inr (), 2, ?s1)"
    "run (publish Some ''budget-refill'' (named_rules ''v3'') ''v3'' None) (fair 2 ''r3'') 0 ?s1 = (Inr (), 2, ?s2)"
    by (simp_all add: publish_def run_obind cuid2_def run_observe transaction_def run_atomic activate_body_def
        stmt_def insert_revision_def activate_revision_def demo_policies_def revision_row_def named_rules_def eval_nat_numeral)
  have W: "delivered (fair t x j)" for t x j by (simp add: delivered_def)
  have "pool_reach (orderly delivered) \<lparr>threads = [Some ?p2, Some ?p3], held = (\<lambda>_. None), store = demo_policies\<rparr>
      \<lparr>threads = [Some (Ret ()), Some (Ret ())], held = (\<lambda>_. None), store = ?s4\<rparr>"
    using hop_publish [of 0 "[None, Some ?p3]", OF _ valid(1) W pub(1)]
      hop_publish [of 1 "[Some (swapping by_name ''v2''), None]", OF _ valid(2) W pub(2)]
      hop_swap [of 1 "[Some (swapping by_name ''v2''), None]", OF _ valid(2), of "\<lambda>_. None" ?s2]
      hop_swap [of 0 "[None, Some (Ret ())]", OF _ valid(1), of "\<lambda>_. None" "?db ''r3'' [revision_row ''r2'' ''v2'' 1, revision_row ''r3'' ''v3'' 2] ''v3''"]
      pool_reach.start [of "orderly delivered" "\<lparr>threads = [Some (Ret ()), Some (Ret ())], held = (\<lambda>_. None), store = ?s4\<rparr>"]
    by simp
  moreover have "load_active_revision ''budget-refill'' ?s4 = Some ''v3''"
    by (simp add: load_active_revision_def set_of_def revision_of_def revision_row_def)
  ultimately show ?thesis
    using valid by (intro exI [of _ "\<lparr>threads = [Some (Ret ()), Some (Ret ())], held = (\<lambda>_. None), store = ?s4\<rparr>"])
      (simp add: initial_def serves_def active_policy_revision_def named_rules_def default_rule_set_def)
qed

subsection \<open>Evaluations\<close>

theorem activate_outcome_witness:
  "(case run (activate by_name Some ''budget-refill'' ''v2'' None) (fair 1 ''r2'') 0 demo_policies of (res, n', s') \<Rightarrow>
      res = Inr ''v2'' \<and> serves by_name ''budget-refill'' s') \<and>
   fst (run (activate by_name Some ''budget-refill'' ''broken'' None) (fair 1 ''r2'') 0 demo_policies) =
      Inl (InvalidRuleData ''failed to parse rule data JSON: expected value'')"
proof -
  have "fst (run (activate by_name Some ''budget-refill'' ''v2'' None) (fair 1 ''r2'') 0 demo_policies) = Inr ''v2''"
    using by_name_valid [of "''v2''"]
    by (simp add: activate_def run_obind cuid2_def run_observe transaction_def run_atomic activate_body_def
        stmt_def insert_revision_def activate_revision_def demo_policies_def revision_row_def named_rules_def hot_swap_run)
  with activate_outcome [OF by_name_faithful, where pset = "''budget-refill''" and json = "''v2''" and actor = None
        and env = "fair 1 ''r2''" and n = 0 and s = demo_policies]
    activate_outcome [OF by_name_faithful, where pset = "''budget-refill''" and json = "''broken''" and actor = None
        and env = "fair 1 ''r2''" and n = 0 and s = demo_policies]
  show ?thesis
    by (auto simp: validate_rule_data_def by_name_def split: prod.splits)
qed

theorem restart_serves_same_policy_witness:
  "let s1 = foldl (calm_call by_name Some ''budget-refill'') demo_policies
       [((1, ''r2''), CallActivate ''v2'' None), ((2, ''r3''), CallCreate ''v3'' None), ((3, ''x''), CallActivate ''broken'' None),
        ((4, ''x''), CallRollback ''r1'')]
   in run (load_active_from_db by_name ''budget-refill'' 1000) (fair 5 ''x'') 0 s1 = (Inr ''budget-refill'', 2, s1)"
proof -
  have budget: "evaluation_budget (live_engine demo_policies) = 1000" by (simp add: demo_policies_def)
  have "rolls_back_well by_name demo_policies (CallRollback ''r1'')"
    using by_name_valid [of "''v1''"] by (simp add: demo_policies_def revision_row_def revision_ok_def named_rules_def)
  then have "\<forall>call\<in>set [((1, ''r2''), CallActivate ''v2'' None), ((2, ''r3''), CallCreate ''v3'' None),
      ((3, ''x''), CallActivate ''broken'' None), ((4, ''x''), CallRollback ''r1'')]. rolls_back_well by_name demo_policies (snd call)"
    by simp
  from restart_serves_same_policy [OF by_name_faithful demo_policies_ok this refl calm_fair, unfolded budget]
  show ?thesis unfolding Let_def by (rule conjunct1)
qed

theorem created_revision_not_active_witness:
  "\<exists>nr n' s'. run (create_revision by_name Some ''budget-refill'' ''v2'' None) (fair 1 ''r2'') 0 demo_policies = (Inr nr, n', s') \<and>
     live_engine s' = live_engine demo_policies \<and> nr_id nr = ''r2'' \<and>
     (\<exists>r\<in>set (policy_revisions s'). pr_id r = nr_id nr) \<and> Some (nr_id nr) \<notin> ps_active_revision_id ` set (policy_sets s')"
proof -
  obtain nr n' s' where run: "run (create_revision by_name Some ''budget-refill'' ''v2'' None) (fair 1 ''r2'') 0 demo_policies = (Inr nr, n', s')"
    "nr_id nr = ''r2''"
    using by_name_valid [of "''v2''"]
    by (simp add: create_revision_def run_obind cuid2_def run_observe run_stmt_calm insert_revision_def
        demo_policies_def revision_row_def named_rules_def)
  from created_revision_not_active [OF demo_policies_ok(1) run(1)] run show ?thesis by blast
qed

end
