(* ===== verification/Rbac.thy ===== *)
theory Rbac
  imports Lb_Prelude
begin

text \<open>
  core/src/authz.rs: permissions, the expansion of grant strings, the compilation of the configured role
  mapping and the permissions of a caller. A \<open>HashMap\<close> is an association list whose keys are
  distinct, a \<open>HashSet\<close> a set; log events are left out. core/src/error.rs: the error type, without the payloads
  of the foreign errors it wraps.
\<close>

datatype core_error =
    IoError | YamlError | CoreNotFound | CoreForbidden string | CoreConflict string | CoreBadRequest string
  | AnyError string | ServerError string | AddrParseError | DatabaseError string | SqlxError string

subsection \<open>Permission\<close>

datatype permission =
    AccountCreate | AccountRead | AccountUpdate | AccountDelete | AccountDisable | ProjectCreate
  | ProjectRead | ProjectUpdate | ProjectDelete | ProjectDisable | ProjectMember | ApiKeyCreate
  | ApiKeyRead | ApiKeyUpdate | ApiKeyDelete | ApiKeyRevoke | ApiKeyRotate | ApiKeyValidate
  | BudgetRead | BudgetReadOwn | BudgetSelfRefill | BudgetReview | BudgetGrant | BudgetRevoke
  | BudgetAuditRead | BudgetPolicyRead | BudgetPolicyWrite | BudgetPolicySimulate | BudgetPolicyActivate | SessionRevokeOwn
  | SessionRevoke

definition permission_all :: "permission list" where
  "permission_all =
     [AccountCreate, AccountRead, AccountUpdate, AccountDelete, AccountDisable, ProjectCreate,
      ProjectRead, ProjectUpdate, ProjectDelete, ProjectDisable, ProjectMember, ApiKeyCreate,
      ApiKeyRead, ApiKeyUpdate, ApiKeyDelete, ApiKeyRevoke, ApiKeyRotate, ApiKeyValidate,
      BudgetRead, BudgetReadOwn, BudgetSelfRefill, BudgetReview, BudgetGrant, BudgetRevoke,
      BudgetAuditRead, BudgetPolicyRead, BudgetPolicyWrite, BudgetPolicySimulate, BudgetPolicyActivate, SessionRevokeOwn,
      SessionRevoke]"

fun perm_as_str :: "permission \<Rightarrow> string" where
  "perm_as_str AccountCreate = ''account:create''"
| "perm_as_str AccountRead = ''account:read''"
| "perm_as_str AccountUpdate = ''account:update''"
| "perm_as_str AccountDelete = ''account:delete''"
| "perm_as_str AccountDisable = ''account:disable''"
| "perm_as_str ProjectCreate = ''project:create''"
| "perm_as_str ProjectRead = ''project:read''"
| "perm_as_str ProjectUpdate = ''project:update''"
| "perm_as_str ProjectDelete = ''project:delete''"
| "perm_as_str ProjectDisable = ''project:disable''"
| "perm_as_str ProjectMember = ''project:member''"
| "perm_as_str ApiKeyCreate = ''apikey:create''"
| "perm_as_str ApiKeyRead = ''apikey:read''"
| "perm_as_str ApiKeyUpdate = ''apikey:update''"
| "perm_as_str ApiKeyDelete = ''apikey:delete''"
| "perm_as_str ApiKeyRevoke = ''apikey:revoke''"
| "perm_as_str ApiKeyRotate = ''apikey:rotate''"
| "perm_as_str ApiKeyValidate = ''apikey:validate''"
| "perm_as_str BudgetRead = ''budget:read''"
| "perm_as_str BudgetReadOwn = ''budget:read-own''"
| "perm_as_str BudgetSelfRefill = ''budget:self-refill''"
| "perm_as_str BudgetReview = ''budget:review''"
| "perm_as_str BudgetGrant = ''budget:grant''"
| "perm_as_str BudgetRevoke = ''budget:revoke''"
| "perm_as_str BudgetAuditRead = ''budget:audit-read''"
| "perm_as_str BudgetPolicyRead = ''budget:policy-read''"
| "perm_as_str BudgetPolicyWrite = ''budget:policy-write''"
| "perm_as_str BudgetPolicySimulate = ''budget:policy-simulate''"
| "perm_as_str BudgetPolicyActivate = ''budget:policy-activate''"
| "perm_as_str SessionRevokeOwn = ''session:revoke-own''"
| "perm_as_str SessionRevoke = ''session:revoke''"

text \<open>\<open>as_str().split(':').next()\<close>.\<close>

definition perm_resource :: "permission \<Rightarrow> string" where
  "perm_resource p = takeWhile (\<lambda>c. c \<noteq> CHR '':'') (perm_as_str p)"

type_synonym permission_set = "permission set"

definition require :: "permission_set \<Rightarrow> permission \<Rightarrow> (core_error, unit) result" where
  "require ps p =
     (if p \<in> ps then Inr ()
      else Inl (CoreForbidden (''missing required permission: '' @ perm_as_str p)))"

subsection \<open>Grants and roles\<close>

definition strip_suffix :: "string \<Rightarrow> string \<Rightarrow> string option" where
  "strip_suffix suf s =
     (if length suf \<le> length s \<and> drop (length s - length suf) s = suf
      then Some (take (length s - length suf) s) else None)"

definition expand_grant :: "string \<Rightarrow> permission list" where
  "expand_grant raw =
     (let grant = str_trim raw in
      if grant = [] then []
      else if grant = ''*'' then permission_all
      else case strip_suffix '':*'' grant of
        Some resource \<Rightarrow> filter (\<lambda>p. perm_resource p = resource) permission_all
      | None \<Rightarrow> filter (\<lambda>p. perm_as_str p = grant) permission_all)"

record rbac =
  roles_claim :: string
  role_permissions :: "(string \<times> string list) list"
  default_grants :: "string list"

definition default_roles_claim :: string where
  "default_roles_claim = ''roles''"

definition rbac_default :: rbac where
  "rbac_default = \<lparr>roles_claim = default_roles_claim, role_permissions = [], default_grants = []\<rparr>"

record compiled_rbac =
  cr_roles :: "(string \<times> permission_set) list"
  cr_default :: permission_set

definition default_role_permissions :: "(string \<times> string list) list" where
  "default_role_permissions =
     [(''lightbridge-admin'', [''*'']),
      (''lightbridge-editor'',
        [''account:create'', ''account:read'', ''project:*'', ''apikey:*'', ''session:revoke-own'', ''budget:read-own'']),
      (''lightbridge-viewer'',
        [''account:create'', ''account:read'', ''project:read'', ''apikey:read'', ''session:revoke-own'', ''budget:read-own''])]"

definition expand_all :: "string list \<Rightarrow> permission_set" where
  "expand_all gs = foldl (\<lambda>ps grant. ps \<union> set (expand_grant grant)) {} gs"

definition compile :: "rbac \<Rightarrow> compiled_rbac" where
  "compile rb =
     (let source = (if role_permissions rb = [] then default_role_permissions else role_permissions rb) in
      \<lparr>cr_roles = map (\<lambda>(role, gs). (role, expand_all gs)) source,
       cr_default = expand_all (default_grants rb)\<rparr>)"

fun rbac_validate_grants :: "string list \<Rightarrow> (core_error, unit) result" where
  "rbac_validate_grants [] = Inr ()"
| "rbac_validate_grants (grant # gs) =
     (if expand_grant grant = []
      then Inl (ServerError (''oauth2.rbac.default_grants contains an unrecognized grant: '' @ CHR 0x27 # grant @ [CHR 0x27]))
      else rbac_validate_grants gs)"

definition rbac_validate :: "rbac \<Rightarrow> (core_error, unit) result" where
  "rbac_validate rb = rbac_validate_grants (default_grants rb)"

definition permissions_for_roles :: "string list \<Rightarrow> compiled_rbac \<Rightarrow> permission_set" where
  "permissions_for_roles roles compiled =
     foldl (\<lambda>ps role. ps \<union>
        (case map_of (cr_roles compiled) role of Some rp \<Rightarrow> rp | None \<Rightarrow> cr_default compiled)) {} roles"

subsection \<open>Names\<close>

lemma permission_all_complete: "p \<in> set permission_all"
  by (cases p) (simp_all add: permission_all_def)

lemma perm_names_distinct: "distinct (map perm_as_str permission_all)"
  by (simp add: permission_all_def)

lemma perm_as_str_inj: "perm_as_str p = perm_as_str q \<longleftrightarrow> p = q"
  using perm_names_distinct permission_all_complete by (metis distinct_map inj_onD)

lemma perm_every: "list_all P permission_all \<Longrightarrow> P p"
  using permission_all_complete by (auto simp: list_all_iff)

lemma perm_shape: "perm_as_str p \<noteq> [] \<and> last (perm_as_str p) \<noteq> CHR ''*'' \<and> perm_as_str p \<noteq> ''*'' \<and> perm_resource p \<noteq> []"
  by (rule perm_every [of "\<lambda>p. perm_as_str p \<noteq> [] \<and> last (perm_as_str p) \<noteq> CHR ''*'' \<and> perm_as_str p \<noteq> ''*'' \<and> perm_resource p \<noteq> []"])
    (simp add: permission_all_def perm_resource_def)

subsection \<open>What a grant confers\<close>

definition confers :: "string \<Rightarrow> permission \<Rightarrow> bool" where
  "confers grant p \<longleftrightarrow> grant = ''*'' \<or> grant = perm_resource p @ '':*'' \<or> grant = perm_as_str p"

lemma strip_suffix_Some: "strip_suffix suf s = Some t \<longleftrightarrow> s = t @ suf"
proof
  assume "strip_suffix suf s = Some t"
  then show "s = t @ suf"
    by (auto simp: strip_suffix_def split: if_splits) (metis append_take_drop_id)
qed (simp add: strip_suffix_def)

lemma expand_grant_confers: "p \<in> set (expand_grant g) \<longleftrightarrow> confers (str_trim g) p"
proof -
  define t where "t = str_trim g"
  note p = permission_all_complete [of p] perm_shape [of p]
  consider "t = []" | "t = ''*''" | r where "t \<noteq> ''*''" "t = r @ '':*''"
    | "t \<noteq> []" "t \<noteq> ''*''" "strip_suffix '':*'' t = None" using strip_suffix_Some [of "'':*''" t]
    by (cases "strip_suffix '':*'' t") auto
  then have "p \<in> set (expand_grant g) \<longleftrightarrow> confers t p"
  proof cases
    case 1
    with p show ?thesis by (auto simp: expand_grant_def t_def confers_def)
  next
    case 2
    with p show ?thesis by (simp add: expand_grant_def t_def [symmetric] confers_def)
  next
    case (3 r)
    then have "strip_suffix '':*'' t = Some r" by (simp add: strip_suffix_Some)
    moreover have "last (perm_as_str p) \<noteq> last t" using p 3 by simp
    then have "perm_as_str p \<noteq> t" by metis
    ultimately show ?thesis using p 3 by (auto simp: expand_grant_def t_def [symmetric] confers_def)
  next
    case 4
    then have "t \<noteq> perm_resource p @ '':*''" using strip_suffix_Some [of "'':*''" t] by force
    with p 4 show ?thesis by (auto simp: expand_grant_def t_def [symmetric] confers_def)
  qed
  then show ?thesis by (simp add: t_def)
qed

lemma foldl_union: "foldl (\<lambda>ps x. ps \<union> f x) A xs = A \<union> (\<Union>x\<in>set xs. f x)"
  by (induction xs arbitrary: A) auto

lemma expand_all_confers: "p \<in> expand_all gs \<longleftrightarrow> (\<exists>g\<in>set gs. confers (str_trim g) p)"
  by (simp add: expand_all_def foldl_union expand_grant_confers)

text \<open>The grant strings a role stands for under a configuration.\<close>

definition grants_of :: "rbac \<Rightarrow> string \<Rightarrow> string list" where
  "grants_of rb role =
     (case map_of (if role_permissions rb = [] then default_role_permissions else role_permissions rb) role of
        Some gs \<Rightarrow> gs | None \<Rightarrow> default_grants rb)"

lemma map_of_expanded: "map_of (map (\<lambda>(role, gs). (role, expand_all gs)) source) role = map_option expand_all (map_of source role)"
  by (induction source) auto

lemma caller_permission:
  "p \<in> permissions_for_roles roles (compile rb) \<longleftrightarrow>
   (\<exists>role\<in>set roles. \<exists>g\<in>set (grants_of rb role). confers (str_trim g) p)"
proof -
  have "(case map_of (cr_roles (compile rb)) role of Some rp \<Rightarrow> rp | None \<Rightarrow> cr_default (compile rb)) =
      expand_all (grants_of rb role)" for role
    by (simp add: compile_def Let_def map_of_expanded grants_of_def split: option.split)
  then show ?thesis by (simp add: permissions_for_roles_def foldl_union expand_all_confers)
qed

text \<open>C37 (permissions of a caller). A caller holds a permission exactly if one of the roles in the token stands for a grant that confers it: a role of
  the configured mapping (or of the built-in one when none is configured) for the grants listed there, any
  other role for the default grants. A grant confers a permission exactly if, trimmed, it is \<open>*\<close>, the
  permission's resource followed by \<open>:*\<close>, or the permission's own name; an unknown grant confers nothing.\<close>

theorem permissions_exactly_granted:
  "p \<in> permissions_for_roles roles (compile rb) \<longleftrightarrow>
   (\<exists>role\<in>set roles. \<exists>g\<in>set (grants_of rb role).
      str_trim g = ''*'' \<or> str_trim g = perm_resource p @ '':*'' \<or> str_trim g = perm_as_str p)"
  by (simp add: caller_permission confers_def)

lemma rbac_validate_grants_ok: "rbac_validate_grants gs = Inr () \<longleftrightarrow> (\<forall>g\<in>set gs. \<exists>p. confers (str_trim g) p)"
proof -
  have "expand_grant g = [] \<longleftrightarrow> \<not> (\<exists>p. confers (str_trim g) p)" for g
    using expand_grant_confers [of _ g] by (auto simp: filter_empty_conv) (metis empty_iff list.set(1) list.set_sel(1))
  then show ?thesis by (induction gs) auto
qed

text \<open>A string that starts and ends with a printable byte is not changed by trimming.\<close>

lemma strip_one_None: "(\<And>w. w \<in> set ws \<Longrightarrow> w \<noteq> [] \<Longrightarrow> take (length w) s \<noteq> w) \<Longrightarrow> strip_one ws s = None"
  by (induction ws) auto

lemma str_trim_graphic:
  assumes "s \<noteq> []" "is_graphic (hd s)" "is_graphic (last s)"
  shows "str_trim s = s"
proof -
  have no: "strip_one ws t = None" if "t \<noteq> []" "is_graphic (hd t)" "\<And>w. w \<in> set ws \<Longrightarrow> \<forall>c\<in>set w. \<not> is_graphic c" for ws t
  proof (rule strip_one_None)
    fix w
    assume "w \<in> set ws" "w \<noteq> []"
    then have "\<not> is_graphic (hd w)" using that(3) by simp
    with that(1,2) \<open>w \<noteq> []\<close> show "take (length w) t \<noteq> w" by (metis hd_take length_greater_0_conv)
  qed
  have "trim_left utf8_whitespace s = s"
    using assms(1,2) graphic_not_whitespace by (intro trim_left_stop no) auto
  moreover have "trim_left (map rev utf8_whitespace) (rev s) = rev s"
    using assms(1,3) graphic_not_whitespace by (intro trim_left_stop no) (auto simp: hd_rev)
  ultimately show ?thesis by (simp add: str_trim_def)
qed

lemma expand_known:
  "expand_grant ''*'' = permission_all" "expand_grant ''account:create'' = [AccountCreate]"
  "expand_grant ''account:read'' = [AccountRead]" "expand_grant ''project:read'' = [ProjectRead]"
  "expand_grant ''apikey:read'' = [ApiKeyRead]" "expand_grant ''session:revoke-own'' = [SessionRevokeOwn]"
  "expand_grant ''budget:read-own'' = [BudgetReadOwn]"
  "expand_grant ''project:*'' = [ProjectCreate, ProjectRead, ProjectUpdate, ProjectDelete, ProjectDisable, ProjectMember]"
  "expand_grant ''apikey:*'' = [ApiKeyCreate, ApiKeyRead, ApiKeyUpdate, ApiKeyDelete, ApiKeyRevoke, ApiKeyRotate, ApiKeyValidate]"
  by (simp_all add: expand_grant_def str_trim_graphic is_graphic_def strip_suffix_def perm_resource_def permission_all_def)

lemma expand_default_roles:
  "expand_all [''*''] = UNIV"
  "expand_all [''account:create'', ''account:read'', ''project:*'', ''apikey:*'', ''session:revoke-own'', ''budget:read-own''] =
     {AccountCreate, AccountRead, ProjectCreate, ProjectRead, ProjectUpdate, ProjectDelete, ProjectDisable, ProjectMember,
      ApiKeyCreate, ApiKeyRead, ApiKeyUpdate, ApiKeyDelete, ApiKeyRevoke, ApiKeyRotate, ApiKeyValidate,
      SessionRevokeOwn, BudgetReadOwn}"
  "expand_all [''account:create'', ''account:read'', ''project:read'', ''apikey:read'', ''session:revoke-own'', ''budget:read-own''] =
     {AccountCreate, AccountRead, ProjectRead, ApiKeyRead, SessionRevokeOwn, BudgetReadOwn}"
proof -
  show "expand_all [''*''] = UNIV" using permission_all_complete by (auto simp: expand_all_def expand_known)
qed (simp add: expand_all_def expand_known insert_commute, simp add: expand_all_def expand_known insert_commute)

text \<open>(default roles). With no role mapping configured, the administrator role holds every permission, the editor and viewer roles exactly
  those listed, so neither of them any budget permission beyond reading the own budget, and
  every other role none.\<close>

theorem default_roles:
  "permissions_for_roles [''lightbridge-admin''] (compile rbac_default) = UNIV \<and>
   permissions_for_roles [''lightbridge-editor''] (compile rbac_default) =
     {AccountCreate, AccountRead, ProjectCreate, ProjectRead, ProjectUpdate, ProjectDelete, ProjectDisable, ProjectMember,
      ApiKeyCreate, ApiKeyRead, ApiKeyUpdate, ApiKeyDelete, ApiKeyRevoke, ApiKeyRotate, ApiKeyValidate,
      SessionRevokeOwn, BudgetReadOwn} \<and>
   permissions_for_roles [''lightbridge-viewer''] (compile rbac_default) =
     {AccountCreate, AccountRead, ProjectRead, ApiKeyRead, SessionRevokeOwn, BudgetReadOwn} \<and>
   (role \<in> {''lightbridge-admin'', ''lightbridge-editor'', ''lightbridge-viewer''} \<or>
    permissions_for_roles [role] (compile rbac_default) = {})"
proof (intro conjI)
  have one: "permissions_for_roles [role] (compile rbac_default) = expand_all (grants_of rbac_default role)" for role
    by (auto simp: caller_permission expand_all_confers)
  note defs = grants_of_def rbac_default_def default_role_permissions_def
  show "permissions_for_roles [''lightbridge-admin''] (compile rbac_default) = UNIV"
    unfolding one by (simp add: defs expand_default_roles)
  show "permissions_for_roles [''lightbridge-editor''] (compile rbac_default) =
     {AccountCreate, AccountRead, ProjectCreate, ProjectRead, ProjectUpdate, ProjectDelete, ProjectDisable, ProjectMember,
      ApiKeyCreate, ApiKeyRead, ApiKeyUpdate, ApiKeyDelete, ApiKeyRevoke, ApiKeyRotate, ApiKeyValidate,
      SessionRevokeOwn, BudgetReadOwn}"
    unfolding one by (simp add: defs expand_default_roles)
  show "permissions_for_roles [''lightbridge-viewer''] (compile rbac_default) =
     {AccountCreate, AccountRead, ProjectRead, ApiKeyRead, SessionRevokeOwn, BudgetReadOwn}"
    unfolding one by (simp add: defs expand_default_roles)
  have "grants_of rbac_default role = []"
    if "role \<notin> {''lightbridge-admin'', ''lightbridge-editor'', ''lightbridge-viewer''}"
    using that by (simp add: grants_of_def rbac_default_def default_role_permissions_def)
  then show "role \<in> {''lightbridge-admin'', ''lightbridge-editor'', ''lightbridge-viewer''} \<or>
      permissions_for_roles [role] (compile rbac_default) = {}"
    by (auto simp: caller_permission)
qed

end
