(* ===== verification/Bearer.thy ===== *)
theory Bearer
  imports Rbac
begin

text \<open>
  bearer/src/lib.rs: what a validated bearer token says about its caller. Decoding the token's header
  (\<open>jsonwebtoken::decode_header\<close>) and verifying its signature, expiry and audience against the key set
  (\<open>authkestra_resource::jwt::validate_jwt_generic\<close>) are the arguments \<open>decode_header\<close> and \<open>verify\<close>.
  Every failure is the same error.
\<close>

datatype json =
    JNull | JBool bool | JNumber string | JString string | JArray "json list" | JObject "(string \<times> json) list"

fun json_as_str :: "json \<Rightarrow> string option" where
  "json_as_str (JString s) = Some s"
| "json_as_str _ = None"

definition CALLER_KIND_CLAIM :: string where
  "CALLER_KIND_CLAIM = ''lightbridge_caller_kind''"

definition API_KEY_CALLER_KIND :: string where
  "API_KEY_CALLER_KIND = ''api_key''"

record token_info =
  active_token :: bool
  sub :: string
  exp_at :: nat
  aud :: "string list"
  roles :: "string list"
  permissions :: permission_set
  caller_kind :: "string option"
  access_token :: string

definition has_permission :: "token_info \<Rightarrow> permission \<Rightarrow> bool" where
  "has_permission info p \<longleftrightarrow> p \<in> permissions info"

definition token_require :: "token_info \<Rightarrow> permission \<Rightarrow> (core_error, unit) result" where
  "token_require info p = require (permissions info) p"

definition is_api_key_derived :: "token_info \<Rightarrow> bool" where
  "is_api_key_derived info \<longleftrightarrow> caller_kind info = Some API_KEY_CALLER_KIND"

datatype audience_claim = Single string | Multiple "string list"

fun audience_to_vec :: "audience_claim \<Rightarrow> string list" where
  "audience_to_vec (Single s) = [s]"
| "audience_to_vec (Multiple v) = v"

record claims =
  cl_sub :: string
  cl_exp :: nat
  cl_aud :: "audience_claim option"
  cl_extra :: "(string \<times> json) list"

text \<open>\<open>str::split_whitespace\<close>.\<close>

function split_words :: "string \<Rightarrow> string \<Rightarrow> string list" where
  "split_words word s =
     (case strip_one utf8_whitespace s of
        Some t \<Rightarrow> (if word = [] then split_words [] t else word # split_words [] t)
      | None \<Rightarrow> (case s of
          [] \<Rightarrow> (if word = [] then [] else [word])
        | c # cs \<Rightarrow> split_words (word @ [c]) cs))"
  by pat_completeness auto
termination
  by (relation "measure (\<lambda>(word, s). length s)") (auto dest: strip_one_shorter)

declare split_words.simps [simp del]

definition split_whitespace :: "string \<Rightarrow> string list" where
  "split_whitespace s = split_words [] s"

definition roles_from_claim :: "json option \<Rightarrow> string list" where
  "roles_from_claim value =
     (case value of
        Some (JArray items) \<Rightarrow> List.map_filter json_as_str items
      | Some (JString s) \<Rightarrow> split_whitespace s
      | _ \<Rightarrow> [])"

text \<open>The part of \<open>Oauth2\<close> the service reads.\<close>

record oauth2 =
  audience :: "string list option"
  oauth2_rbac :: rbac

type_synonym header_decoder = "string \<Rightarrow> string option option"
type_synonym jwt_verifier = "string \<Rightarrow> string list option \<Rightarrow> claims option"

definition claim_audience :: "claims \<Rightarrow> string list" where
  "claim_audience c = (case cl_aud c of None \<Rightarrow> [] | Some a \<Rightarrow> audience_to_vec a)"

definition token_info_of :: "oauth2 \<Rightarrow> string \<Rightarrow> claims \<Rightarrow> token_info" where
  "token_info_of cfg token c =
     (let rs = roles_from_claim (map_of (cl_extra c) (roles_claim (oauth2_rbac cfg))) in
      \<lparr>active_token = True, sub = cl_sub c, exp_at = cl_exp c, aud = claim_audience c, roles = rs,
       permissions = permissions_for_roles rs (compile (oauth2_rbac cfg)),
       caller_kind = Option.bind (map_of (cl_extra c) CALLER_KIND_CLAIM) json_as_str, access_token = token\<rparr>)"

definition validate_bearer_token ::
  "header_decoder \<Rightarrow> jwt_verifier \<Rightarrow> oauth2 \<Rightarrow> string \<Rightarrow> (string, token_info) result" where
  "validate_bearer_token decode_header verify cfg token =
     (if is_blank token then Inl ''unauthorized''
      else case decode_header token of
        None \<Rightarrow> Inl ''unauthorized''
      | Some None \<Rightarrow> Inl ''unauthorized''
      | Some (Some kid) \<Rightarrow>
          (let required = (case audience cfg of
                 Some expected \<Rightarrow> if expected \<noteq> [] then Some expected else None
               | None \<Rightarrow> None) in
           case verify token required of
             None \<Rightarrow> Inl ''unauthorized''
           | Some c \<Rightarrow>
               (let token_audience = claim_audience c in
                case audience cfg of
                  None \<Rightarrow> Inr (token_info_of cfg token c)
                | Some expected \<Rightarrow>
                    if expected \<noteq> [] \<and> token_audience = [] then Inl ''unauthorized''
                    else if \<not> list_ex (\<lambda>a. list_ex (\<lambda>e. a = e) expected) token_audience
                    then Inl ''unauthorized''
                    else Inr (token_info_of cfg token c))))"

text \<open>(bearer validation). A token is accepted exactly if it is not blank, its header names a key, the verifier accepts it for the
  configured audiences, and, when audiences are configured, it was issued for at least one of them. What
  it then says about its caller is read off the verified claims alone, and the permissions are those
  of the roles in the configured claim. Every other token is refused with the same error.\<close>

theorem validate_bearer_token_exact:
  "(validate_bearer_token decode_header verify cfg token = Inr info \<longleftrightarrow>
      \<not> is_blank token \<and> (\<exists>kid. decode_header token = Some (Some kid)) \<and>
      (\<exists>c. verify token (case audience cfg of Some [] \<Rightarrow> None | a \<Rightarrow> a) = Some c \<and>
         (audience cfg = None \<or> (\<exists>e. audience cfg = Some e \<and> set e \<inter> set (claim_audience c) \<noteq> {})) \<and>
         info = token_info_of cfg token c)) \<and>
   validate_bearer_token decode_header verify cfg token \<in> insert (Inl ''unauthorized'') (range Inr)"
proof -
  have req: "(case audience cfg of Some expected \<Rightarrow> if expected \<noteq> [] then Some expected else None | None \<Rightarrow> None) =
      (case audience cfg of Some [] \<Rightarrow> None | a \<Rightarrow> a)"
    by (auto split: option.split list.split)
  have any: "list_ex (\<lambda>a. list_ex (\<lambda>e. a = e) expected) ta \<longleftrightarrow> set expected \<inter> set ta \<noteq> {}" for expected ta
    by (auto simp: list_ex_iff)
  show ?thesis
    unfolding validate_bearer_token_def req any
    by (auto simp: Let_def split: option.splits if_splits)
qed

text \<open>(empty audience list). An audience list that is configured but empty is passed to the verifier as no restriction at all, and then matches no
  token: every token is refused.\<close>

theorem empty_audience_rejects_all:
  "validate_bearer_token decode_header verify (cfg\<lparr>audience := Some []\<rparr>) token = Inl ''unauthorized''"
  by (auto simp: validate_bearer_token_def Let_def list_ex_iff split: option.split)

end
