(* ===== verification/Rpc_Gate.thy ===== *)
theory Rpc_Gate
  imports Bearer
begin

text \<open>
  rest/src/rpc_authorize.rs and rest/src/auth_provider.rs: the two gates in front of the RPC procedures. Both read the
  operation id off the path, check that this server serves it, look up the permission it needs and
  the caller's token; the second also builds the context the schema's policies are evaluated on.
  The \<open>Authorization\<close> header, if present and visible ASCII, is an argument (\<open>headers.get(..)?.to_str().ok()\<close>), as is the bearer service
  (\<open>dyn BearerTokenServiceTrait\<close>).
\<close>

type_synonym bearer_service = "string \<Rightarrow> (string, token_info) result"

subsection \<open>Operations and permissions\<close>

text \<open>The arms of the match in \<open>required_permission\<close>; everything else is \<open>None\<close>.\<close>

definition required_arms :: "(string \<times> permission) list" where
  "required_arms =
     [(''procedure.createAccount'', AccountCreate),
      (''model.Account.list'', AccountRead),
      (''model.Account.get'', AccountRead),
      (''procedure.updateAccountDefaultQuota'', AccountUpdate),
      (''procedure.disableAccount'', AccountDisable),
      (''procedure.enableAccount'', AccountDisable),
      (''procedure.deleteAccountPermanently'', AccountDelete),
      (''model.Project.create'', ProjectCreate),
      (''model.Project.list'', ProjectRead),
      (''model.Project.get'', ProjectRead),
      (''model.Project.update'', ProjectUpdate),
      (''model.Project.delete'', ProjectDelete),
      (''procedure.disableProject'', ProjectDisable),
      (''procedure.enableProject'', ProjectDisable),
      (''procedure.setDefaultProject'', ProjectUpdate),
      (''procedure.setProjectQuota'', ProjectUpdate),
      (''procedure.setProjectAllowedModels'', ProjectUpdate),
      (''procedure.setProjectModelPolicy'', ProjectUpdate),
      (''procedure.listProjectRoster'', ProjectMember),
      (''procedure.addProjectMember'', ProjectMember),
      (''procedure.removeProjectMember'', ProjectMember),
      (''procedure.setProjectMemberRole'', ProjectMember),
      (''procedure.setProjectMemberQuotaTier'', ProjectMember),
      (''procedure.createApiKey'', ApiKeyCreate),
      (''procedure.listBillingPlans'', ApiKeyCreate),
      (''procedure.listModelCatalog'', ProjectUpdate),
      (''model.ApiKey.list'', ApiKeyRead),
      (''model.ApiKey.get'', ApiKeyRead),
      (''model.ApiKey.update'', ApiKeyUpdate),
      (''model.ApiKey.delete'', ApiKeyDelete),
      (''procedure.revokeApiKey'', ApiKeyRevoke),
      (''procedure.rotateApiKey'', ApiKeyRotate),
      (''model.AccountSummary.list'', AccountRead),
      (''model.AccountSummary.get'', AccountRead),
      (''procedure.activateBudgetPolicy'', BudgetPolicyActivate),
      (''procedure.getBudgetPolicyStatus'', BudgetPolicyRead),
      (''procedure.simulateBudgetPolicy'', BudgetPolicySimulate),
      (''procedure.requestBudgetRefill'', BudgetSelfRefill),
      (''procedure.getMyBudgetRefillLadder'', BudgetSelfRefill),
      (''procedure.listPendingAugmentationRequests'', BudgetReview),
      (''procedure.approveAugmentationRequest'', BudgetReview),
      (''procedure.rejectAugmentationRequest'', BudgetReview),
      (''procedure.revokeOwnSessions'', SessionRevokeOwn),
      (''procedure.revokeSubjectSessions'', SessionRevoke),
      (''procedure.getMyBudgetBalance'', BudgetReadOwn),
      (''procedure.listMyBudgetGrants'', BudgetReadOwn),
      (''procedure.listMyAugmentationRequests'', BudgetReadOwn),
      (''procedure.getBudgetBalance'', BudgetRead),
      (''procedure.listBudgetGrants'', BudgetAuditRead),
      (''procedure.grantBudget'', BudgetGrant),
      (''procedure.revokeBudgetGrant'', BudgetRevoke),
      (''procedure.createBudgetPolicyRevision'', BudgetPolicyWrite)]"

definition required_permission :: "string \<Rightarrow> permission option" where
  "required_permission op_id = map_of required_arms op_id"

definition MAPPED_OP_ID_PERMISSIONS :: "(string \<times> permission) list" where
  "MAPPED_OP_ID_PERMISSIONS =
     [(''procedure.createAccount'', AccountCreate),
      (''model.Account.list'', AccountRead),
      (''model.Account.get'', AccountRead),
      (''procedure.updateAccountDefaultQuota'', AccountUpdate),
      (''procedure.disableAccount'', AccountDisable),
      (''procedure.enableAccount'', AccountDisable),
      (''procedure.deleteAccountPermanently'', AccountDelete),
      (''model.Project.create'', ProjectCreate),
      (''model.Project.list'', ProjectRead),
      (''model.Project.get'', ProjectRead),
      (''model.Project.update'', ProjectUpdate),
      (''model.Project.delete'', ProjectDelete),
      (''procedure.disableProject'', ProjectDisable),
      (''procedure.enableProject'', ProjectDisable),
      (''procedure.setDefaultProject'', ProjectUpdate),
      (''procedure.setProjectQuota'', ProjectUpdate),
      (''procedure.setProjectAllowedModels'', ProjectUpdate),
      (''procedure.setProjectModelPolicy'', ProjectUpdate),
      (''procedure.addProjectMember'', ProjectMember),
      (''procedure.removeProjectMember'', ProjectMember),
      (''procedure.listProjectRoster'', ProjectMember),
      (''procedure.setProjectMemberRole'', ProjectMember),
      (''procedure.setProjectMemberQuotaTier'', ProjectMember),
      (''procedure.createApiKey'', ApiKeyCreate),
      (''procedure.listBillingPlans'', ApiKeyCreate),
      (''procedure.listModelCatalog'', ProjectUpdate),
      (''model.ApiKey.list'', ApiKeyRead),
      (''model.ApiKey.get'', ApiKeyRead),
      (''model.ApiKey.update'', ApiKeyUpdate),
      (''model.ApiKey.delete'', ApiKeyDelete),
      (''procedure.revokeApiKey'', ApiKeyRevoke),
      (''procedure.rotateApiKey'', ApiKeyRotate),
      (''model.AccountSummary.list'', AccountRead),
      (''model.AccountSummary.get'', AccountRead),
      (''procedure.activateBudgetPolicy'', BudgetPolicyActivate),
      (''procedure.getBudgetPolicyStatus'', BudgetPolicyRead),
      (''procedure.simulateBudgetPolicy'', BudgetPolicySimulate),
      (''procedure.requestBudgetRefill'', BudgetSelfRefill),
      (''procedure.getMyBudgetRefillLadder'', BudgetSelfRefill),
      (''procedure.listPendingAugmentationRequests'', BudgetReview),
      (''procedure.approveAugmentationRequest'', BudgetReview),
      (''procedure.rejectAugmentationRequest'', BudgetReview),
      (''procedure.revokeOwnSessions'', SessionRevokeOwn),
      (''procedure.revokeSubjectSessions'', SessionRevoke),
      (''procedure.getMyBudgetBalance'', BudgetReadOwn),
      (''procedure.listMyBudgetGrants'', BudgetReadOwn),
      (''procedure.listMyAugmentationRequests'', BudgetReadOwn),
      (''procedure.getBudgetBalance'', BudgetRead),
      (''procedure.listBudgetGrants'', BudgetAuditRead),
      (''procedure.grantBudget'', BudgetGrant),
      (''procedure.revokeBudgetGrant'', BudgetRevoke),
      (''procedure.createBudgetPolicyRevision'', BudgetPolicyWrite)]"

definition starts_with :: "string \<Rightarrow> string \<Rightarrow> bool" where
  "starts_with pre s \<longleftrightarrow> take (length pre) s = pre"

definition is_budget_op_id :: "string \<Rightarrow> bool" where
  "is_budget_op_id op_id =
     (case required_permission op_id of None \<Rightarrow> False | Some p \<Rightarrow> starts_with ''budget:'' (perm_as_str p))"

datatype rpc_scope = Crud | Budget

fun permits :: "rpc_scope \<Rightarrow> string \<Rightarrow> bool" where
  "permits Crud op_id = (\<not> is_budget_op_id op_id)"
| "permits Budget op_id = is_budget_op_id op_id"

fun wire_str :: "rpc_scope \<Rightarrow> string" where
  "wire_str Crud = ''crud''"
| "wire_str Budget = ''budget''"

text \<open>\<open>split([':', '-'])\<close>.\<close>

fun split_on :: "(char \<Rightarrow> bool) \<Rightarrow> string \<Rightarrow> string \<Rightarrow> string list" where
  "split_on sep word [] = [word]"
| "split_on sep word (c # cs) = (if sep c then word # split_on sep [] cs else split_on sep (word @ [c]) cs)"

definition ascii_upper :: "char \<Rightarrow> char" where
  "ascii_upper c = (if 97 \<le> (of_char c :: nat) \<and> (of_char c :: nat) \<le> 122 then char_of (of_char c - 32 :: nat) else c)"

definition capitalize :: "string \<Rightarrow> string" where
  "capitalize part = (case part of [] \<Rightarrow> [] | c # cs \<Rightarrow> ascii_upper c # cs)"

definition permission_field_name :: "permission \<Rightarrow> string" where
  "permission_field_name p =
     ''perm'' @ concat (map capitalize (split_on (\<lambda>c. c = CHR '':'' \<or> c = CHR ''-'') [] (perm_as_str p)))"

subsection \<open>The request\<close>

text \<open>\<open>path.rfind("/rpc/")\<close> and what follows it.\<close>

fun after_last :: "string \<Rightarrow> string \<Rightarrow> string option" where
  "after_last pat [] = None"
| "after_last pat (c # cs) =
     (case after_last pat cs of
        Some rest \<Rightarrow> Some rest
      | None \<Rightarrow> if starts_with pat (c # cs) then Some (drop (length pat) (c # cs)) else None)"

definition op_id_from_path :: "string \<Rightarrow> string" where
  "op_id_from_path path = (case after_last ''/rpc/'' path of Some op_id \<Rightarrow> op_id | None \<Rightarrow> [])"

definition strip_prefix :: "string \<Rightarrow> string \<Rightarrow> string option" where
  "strip_prefix pre s = (if starts_with pre s then Some (drop (length pre) s) else None)"

definition extract_bearer :: "string option \<Rightarrow> string option" where
  "extract_bearer header =
     Option.bind header (\<lambda>value.
       let raw = str_trim value in
       Option.bind (case strip_prefix ''Bearer '' raw of Some t \<Rightarrow> Some t | None \<Rightarrow> strip_prefix ''bearer '' raw) (\<lambda>t.
       let token = str_trim t in if token = [] then None else Some token))"

definition rpc_extract_bearer :: "string option \<Rightarrow> string option" where
  "rpc_extract_bearer header =
     Option.bind header (\<lambda>value.
       let raw = str_trim value in
       Option.bind (case strip_prefix ''Bearer '' raw of Some t \<Rightarrow> Some t | None \<Rightarrow> strip_prefix ''bearer '' raw) (\<lambda>t.
       let token = str_trim t in if token = [] then None else Some token))"

definition BATCH_OP_ID :: string where
  "BATCH_OP_ID = ''batch''"

subsection \<open>The middleware\<close>

datatype gate_response = Forward | DenyWith nat string

definition rpc_authorize :: "bearer_service \<Rightarrow> rpc_scope \<Rightarrow> string \<Rightarrow> string option \<Rightarrow> gate_response" where
  "rpc_authorize bearer scope path header =
     (let op_id = op_id_from_path path in
      if op_id = BATCH_OP_ID then
        (case rpc_extract_bearer header of
           None \<Rightarrow> DenyWith 401 ''missing bearer token''
         | Some token \<Rightarrow>
             (case bearer token of
                Inr info \<Rightarrow> if active_token info then Forward else DenyWith 401 ''invalid bearer token''
              | Inl _ \<Rightarrow> DenyWith 401 ''invalid bearer token''))
      else if \<not> permits scope op_id then DenyWith 404 ''unknown RPC op''
      else case required_permission op_id of
        None \<Rightarrow> DenyWith 403 ''operation not permitted''
      | Some required \<Rightarrow>
          (case rpc_extract_bearer header of
             None \<Rightarrow> DenyWith 401 ''missing bearer token''
           | Some token \<Rightarrow>
               (case bearer token of
                  Inr info \<Rightarrow>
                    if active_token info
                    then (if has_permission info required then Forward else DenyWith 403 ''insufficient permissions'')
                    else DenyWith 401 ''invalid bearer token''
                | Inl _ \<Rightarrow> DenyWith 401 ''invalid bearer token'')))"

subsection \<open>The auth provider\<close>

datatype cs_value =
    CsNull | CsBool bool | CsInt int | CsFloat string | CsString string | CsList "cs_value list" | CsMap "(string \<times> cs_value) list"

record cs_context =
  auth_fields :: "(string \<times> cs_value) list"
  extensions :: "(string \<times> cs_value) list"

definition auth_field :: "cs_context \<Rightarrow> string \<Rightarrow> cs_value option" where
  "auth_field ctx name = map_of (auth_fields ctx) name"

datatype cratestack_error =
    CsBadRequest string | CsUnauthorized string | CsForbidden string | CsNotFound string | CsConflict string | CsInternal string

definition ACCESS_TOKEN_CONTEXT_KEY :: string where "ACCESS_TOKEN_CONTEXT_KEY = ''access_token''"
definition ROLES_CONTEXT_KEY :: string where "ROLES_CONTEXT_KEY = ''roles''"
definition CALLER_KIND_CONTEXT_KEY :: string where "CALLER_KIND_CONTEXT_KEY = ''caller_kind''"

definition build_context :: "token_info \<Rightarrow> rpc_scope \<Rightarrow> cs_context" where
  "build_context info scope =
     \<lparr>auth_fields =
        [(''id'', CsString (sub info)), (''rpcScope'', CsString (wire_str scope))] @
        map (\<lambda>p. (permission_field_name p, CsBool (has_permission info p))) permission_all,
      extensions =
        [(ACCESS_TOKEN_CONTEXT_KEY, CsString (access_token info))] @
        (if roles info \<noteq> [] then [(ROLES_CONTEXT_KEY, CsList (map CsString (roles info)))] else []) @
        (case caller_kind info of Some k \<Rightarrow> [(CALLER_KIND_CONTEXT_KEY, CsString k)] | None \<Rightarrow> [])\<rparr>"

definition authenticate ::
  "bearer_service \<Rightarrow> rpc_scope \<Rightarrow> string \<Rightarrow> string option \<Rightarrow> (cratestack_error, cs_context) result" where
  "authenticate bearer scope path header =
     (let op_id = op_id_from_path path; token = extract_bearer header in
      if op_id = BATCH_OP_ID then
        (case token of
           None \<Rightarrow> Inl (CsUnauthorized ''missing bearer token'')
         | Some t \<Rightarrow>
             (case bearer t of
                Inr info \<Rightarrow> if active_token info then Inr (build_context info scope)
                            else Inl (CsUnauthorized ''invalid bearer token'')
              | Inl _ \<Rightarrow> Inl (CsUnauthorized ''invalid bearer token'')))
      else if \<not> permits scope op_id then Inl (CsNotFound (''unknown RPC op `'' @ op_id @ ''`''))
      else case required_permission op_id of
        None \<Rightarrow> Inl (CsForbidden ''operation not permitted'')
      | Some required \<Rightarrow>
          (case token of
             None \<Rightarrow> Inl (CsUnauthorized ''missing bearer token'')
           | Some t \<Rightarrow>
               (case bearer t of
                  Inr info \<Rightarrow>
                    if active_token info
                    then (if \<not> has_permission info required then Inl (CsForbidden ''insufficient permissions'')
                          else Inr (build_context info scope))
                    else Inl (CsUnauthorized ''invalid bearer token'')
                | Inl _ \<Rightarrow> Inl (CsUnauthorized ''invalid bearer token''))))"

definition subject_from_ctx :: "cs_context \<Rightarrow> string option" where
  "subject_from_ctx ctx = (case auth_field ctx ''id'' of Some (CsString s) \<Rightarrow> Some s | _ \<Rightarrow> None)"

subsection \<open>The schema's policies\<close>

text \<open>
  The \<open>@allow\<close> clauses of the procedures in api/schema/authz.cstack, which are evaluated for each procedure call, each
  frame of a batch included: \<open>(auth() != null) && auth().rpcScope == s && auth().f == true\<close>.
\<close>

definition procedure_clauses :: "(string \<times> string \<times> string) list" where
  "procedure_clauses =
     [(''procedure.rotateApiKey'', ''crud'', ''permApikeyRotate''),
      (''procedure.createAccount'', ''crud'', ''permAccountCreate''),
      (''procedure.updateAccountDefaultQuota'', ''crud'', ''permAccountUpdate''),
      (''procedure.createApiKey'', ''crud'', ''permApikeyCreate''),
      (''procedure.listBillingPlans'', ''crud'', ''permApikeyCreate''),
      (''procedure.listModelCatalog'', ''crud'', ''permProjectUpdate''),
      (''procedure.revokeApiKey'', ''crud'', ''permApikeyRevoke''),
      (''procedure.addProjectMember'', ''crud'', ''permProjectMember''),
      (''procedure.removeProjectMember'', ''crud'', ''permProjectMember''),
      (''procedure.setProjectMemberRole'', ''crud'', ''permProjectMember''),
      (''procedure.setProjectMemberQuotaTier'', ''crud'', ''permProjectMember''),
      (''procedure.listProjectRoster'', ''crud'', ''permProjectMember''),
      (''procedure.deleteAccountPermanently'', ''crud'', ''permAccountDelete''),
      (''procedure.disableAccount'', ''crud'', ''permAccountDisable''),
      (''procedure.enableAccount'', ''crud'', ''permAccountDisable''),
      (''procedure.disableProject'', ''crud'', ''permProjectDisable''),
      (''procedure.enableProject'', ''crud'', ''permProjectDisable''),
      (''procedure.setDefaultProject'', ''crud'', ''permProjectUpdate''),
      (''procedure.setProjectQuota'', ''crud'', ''permProjectUpdate''),
      (''procedure.setProjectAllowedModels'', ''crud'', ''permProjectUpdate''),
      (''procedure.setProjectModelPolicy'', ''crud'', ''permProjectUpdate''),
      (''procedure.activateBudgetPolicy'', ''budget'', ''permBudgetPolicyActivate''),
      (''procedure.getBudgetPolicyStatus'', ''budget'', ''permBudgetPolicyRead''),
      (''procedure.simulateBudgetPolicy'', ''budget'', ''permBudgetPolicySimulate''),
      (''procedure.requestBudgetRefill'', ''budget'', ''permBudgetSelfRefill''),
      (''procedure.getMyBudgetRefillLadder'', ''budget'', ''permBudgetSelfRefill''),
      (''procedure.listPendingAugmentationRequests'', ''budget'', ''permBudgetReview''),
      (''procedure.listMyAugmentationRequests'', ''budget'', ''permBudgetReadOwn''),
      (''procedure.approveAugmentationRequest'', ''budget'', ''permBudgetReview''),
      (''procedure.rejectAugmentationRequest'', ''budget'', ''permBudgetReview''),
      (''procedure.revokeOwnSessions'', ''crud'', ''permSessionRevokeOwn''),
      (''procedure.revokeSubjectSessions'', ''crud'', ''permSessionRevoke''),
      (''procedure.getMyBudgetBalance'', ''budget'', ''permBudgetReadOwn''),
      (''procedure.getBudgetBalance'', ''budget'', ''permBudgetRead''),
      (''procedure.listMyBudgetGrants'', ''budget'', ''permBudgetReadOwn''),
      (''procedure.listBudgetGrants'', ''budget'', ''permBudgetAuditRead''),
      (''procedure.grantBudget'', ''budget'', ''permBudgetGrant''),
      (''procedure.revokeBudgetGrant'', ''budget'', ''permBudgetRevoke''),
      (''procedure.createBudgetPolicyRevision'', ''budget'', ''permBudgetPolicyWrite'')]"

definition clause_allows :: "cs_context \<Rightarrow> string \<times> string \<Rightarrow> bool" where
  "clause_allows ctx clause \<longleftrightarrow>
     auth_field ctx ''rpcScope'' = Some (CsString (fst clause)) \<and> auth_field ctx (snd clause) = Some (CsBool True)"

definition procedure_allowed :: "cs_context \<Rightarrow> string \<Rightarrow> bool" where
  "procedure_allowed ctx op_id =
     (case map_of procedure_clauses op_id of None \<Rightarrow> False | Some clause \<Rightarrow> clause_allows ctx clause)"

subsection \<open>Tables\<close>

lemma arms_distinct: "distinct (map fst required_arms)"
  by (simp add: required_arms_def)

lemma arms_mapped: "set required_arms = set MAPPED_OP_ID_PERMISSIONS"
  by (simp add: required_arms_def MAPPED_OP_ID_PERMISSIONS_def insert_commute)

lemma required_iff: "required_permission op_id = Some p \<longleftrightarrow> (op_id, p) \<in> set required_arms"
  unfolding required_permission_def by (metis arms_distinct map_of_eq_Some_iff)

text \<open>(operation table). The permission an operation needs is the one the published table lists for it, and an operation the table
  does not list needs none and is denied: the two hand-written lists agree in both directions.\<close>

theorem required_permission_is_the_table:
  "required_permission op_id = Some p \<longleftrightarrow> (op_id, p) \<in> set MAPPED_OP_ID_PERMISSIONS"
  by (simp add: required_iff arms_mapped)

text \<open>C38 (forwarding). The middleware forwards a request exactly if it carries a bearer token the service accepts as active and the operation is either a
  batch or one this server serves, with a permission assigned to it that the caller holds.\<close>

theorem rpc_authorize_forwards:
  "rpc_authorize bearer scope path header = Forward \<longleftrightarrow>
   (\<exists>token info. rpc_extract_bearer header = Some token \<and> bearer token = Inr info \<and> active_token info \<and>
      (op_id_from_path path = BATCH_OP_ID \<or>
       permits scope (op_id_from_path path) \<and>
       (\<exists>p. required_permission (op_id_from_path path) = Some p \<and> has_permission info p)))"
  by (auto simp: rpc_authorize_def Let_def split: option.splits sum.splits if_splits)

text \<open>
  The HTTP status of each outcome. Which status an error of the auth provider gets is decided by the cratestack library; the table is its
  documented behaviour, which the comments of auth_provider.rs repeat for 401, 403 and 404.
\<close>

fun cs_status :: "cratestack_error \<Rightarrow> nat" where
  "cs_status (CsBadRequest _) = 400"
| "cs_status (CsUnauthorized _) = 401"
| "cs_status (CsForbidden _) = 403"
| "cs_status (CsNotFound _) = 404"
| "cs_status (CsConflict _) = 409"
| "cs_status (CsInternal _) = 500"

definition gate_status :: "gate_response \<Rightarrow> nat option" where
  "gate_status r = (case r of Forward \<Rightarrow> None | DenyWith n _ \<Rightarrow> Some n)"

definition provider_status :: "(cratestack_error, 'a) result \<Rightarrow> nat option" where
  "provider_status r = (case r of Inr _ \<Rightarrow> None | Inl e \<Rightarrow> Some (cs_status e))"

lemma extract_bearers_agree: "rpc_extract_bearer header = extract_bearer header"
  by (simp add: rpc_extract_bearer_def extract_bearer_def)

text \<open>C39 (gates agree). The middleware and the auth provider behind it take the same decision on every request: the provider lets through exactly
  what the middleware forwards, and refuses everything else with the same status.\<close>

theorem gates_agree:
  "gate_status (rpc_authorize bearer scope path header) = provider_status (authenticate bearer scope path header)"
  by (simp add: rpc_authorize_def authenticate_def Let_def extract_bearers_agree gate_status_def provider_status_def
      split: option.split sum.split)

subsection \<open>Contexts\<close>

lemma field_names:
  "distinct (''id'' # ''rpcScope'' # map permission_field_name permission_all)"
  by (simp add: permission_all_def permission_field_name_def ascii_upper_def capitalize_def char_of_def bit_iff_odd)

lemma context_lookup:
  "(name, v) \<in> set (auth_fields (build_context info scope)) \<Longrightarrow> auth_field (build_context info scope) name = Some v"
proof -
  have "map fst (auth_fields (build_context info scope)) = ''id'' # ''rpcScope'' # map permission_field_name permission_all"
    by (simp add: build_context_def comp_def)
  then have "distinct (map fst (auth_fields (build_context info scope)))" using field_names by metis
  then show "(name, v) \<in> set (auth_fields (build_context info scope)) \<Longrightarrow> auth_field (build_context info scope) name = Some v"
    unfolding auth_field_def by (rule map_of_is_SomeI)
qed

lemma context_fields:
  "auth_field (build_context info scope) ''id'' = Some (CsString (sub info))"
  "auth_field (build_context info scope) ''rpcScope'' = Some (CsString (wire_str scope))"
  "auth_field (build_context info scope) (permission_field_name p) = Some (CsBool (has_permission info p))"
  by (rule context_lookup; simp add: build_context_def permission_all_complete)+

lemma subject_of_context: "subject_from_ctx (build_context info scope) = Some (sub info)"
  by (simp add: subject_from_ctx_def context_fields)

definition scope_name :: "permission \<Rightarrow> string" where
  "scope_name p = (if starts_with ''budget:'' (perm_as_str p) then ''budget'' else ''crud'')"

lemma clauses_generated:
  "set procedure_clauses =
     (\<lambda>(op_id, p). (op_id, scope_name p, permission_field_name p)) `
       set (filter (\<lambda>(op_id, p). starts_with ''procedure.'' op_id) required_arms)"
  by (simp add: procedure_clauses_def required_arms_def starts_with_def scope_name_def
      permission_field_name_def ascii_upper_def capitalize_def char_of_def bit_iff_odd insert_commute)

lemma clauses_distinct: "distinct (map fst procedure_clauses)"
  by (simp add: procedure_clauses_def)

lemma clause_iff:
  "map_of procedure_clauses op_id = Some (sc, f) \<longleftrightarrow>
   starts_with ''procedure.'' op_id \<and>
   (\<exists>p. required_permission op_id = Some p \<and> sc = scope_name p \<and> f = permission_field_name p)"
  by (simp only: map_of_eq_Some_iff [OF clauses_distinct] clauses_generated required_iff) auto

lemma scope_serves:
  "required_permission op_id = Some p \<Longrightarrow> wire_str scope = scope_name p \<longleftrightarrow> permits scope op_id"
  by (cases scope) (simp_all add: is_budget_op_id_def scope_name_def)

lemma procedure_allowed_iff:
  "procedure_allowed (build_context info scope) op_id \<longleftrightarrow>
   starts_with ''procedure.'' op_id \<and> permits scope op_id \<and>
   (\<exists>p. required_permission op_id = Some p \<and> has_permission info p)"
proof (cases "map_of procedure_clauses op_id")
  case None
  then have "\<not> (starts_with ''procedure.'' op_id \<and> (\<exists>p. required_permission op_id = Some p))"
    by (metis clause_iff option.discI)
  with None show ?thesis by (auto simp: procedure_allowed_def)
next
  case (Some clause)
  then obtain p where "starts_with ''procedure.'' op_id" "required_permission op_id = Some p"
    and "clause = (scope_name p, permission_field_name p)"
    by (cases clause) (auto simp: clause_iff)
  with Some show ?thesis
    by (simp add: procedure_allowed_def clause_allows_def context_fields scope_serves)
qed

text \<open>C40 (schema policies). Run on the context the auth provider builds from a token, the schema's \<open>@allow\<close> clause of an operation lets the call through exactly
  if the operation is a procedure, this server's scope serves it, and the token holds the permission the gates require for it: a
  call inside a batch, which the gates let pass without looking at its operations, is held to the same rule as a call on its own.\<close>

theorem schema_policy_is_the_gate:
  "procedure_allowed (build_context info scope) op_id \<longleftrightarrow>
   starts_with ''procedure.'' op_id \<and> permits scope op_id \<and>
   (\<exists>p. required_permission op_id = Some p \<and> has_permission info p)"
  by (rule procedure_allowed_iff)

lemma authenticate_Inr:
  assumes "authenticate bearer scope path header = Inr ctx"
  obtains token info where "extract_bearer header = Some token" "bearer token = Inr info" "active_token info"
    "ctx = build_context info scope"
  using assms by (auto simp: authenticate_def Let_def split: option.splits sum.splits if_splits)

text \<open>(context). The context the auth provider builds carries the verified subject, the server's scope and, for each permission, whether
  the token holds it; procedures read back exactly that subject.\<close>

theorem context_carries_the_token:
  "authenticate bearer scope path header = Inr ctx \<Longrightarrow>
   \<exists>token info. extract_bearer header = Some token \<and> bearer token = Inr info \<and>
     subject_from_ctx ctx = Some (sub info) \<and>
     {p. auth_field ctx (permission_field_name p) = Some (CsBool True)} = {p. has_permission info p}"
  by (auto simp: authenticate_def Let_def subject_of_context context_fields split: option.splits sum.splits if_splits)

definition a_reviewer :: token_info where
  "a_reviewer = \<lparr>active_token = True, sub = ''u1'', exp_at = 0, aud = [], roles = [], permissions = {BudgetReview},
     caller_kind = None, access_token = ''t''\<rparr>"

lemma context_carries_the_token_witness:
  "authenticate (\<lambda>_. Inr a_reviewer) Budget ''/rpc/procedure.approveAugmentationRequest'' (Some ''Bearer t'') =
     Inr (build_context a_reviewer Budget) \<and>
   (\<exists>token info. extract_bearer (Some ''Bearer t'') = Some token \<and> Inr a_reviewer = (Inr info :: (string, token_info) result) \<and>
     subject_from_ctx (build_context a_reviewer Budget) = Some (sub info) \<and>
     {p. auth_field (build_context a_reviewer Budget) (permission_field_name p) = Some (CsBool True)} = {p. has_permission info p})"
proof -
  have trim: "str_trim ''Bearer t'' = ''Bearer t''" "str_trim ''t'' = ''t''"
    by (simp_all add: str_trim_def trim_left_stop utf8_whitespace_def)
  have run: "authenticate (\<lambda>_. Inr a_reviewer) Budget ''/rpc/procedure.approveAugmentationRequest'' (Some ''Bearer t'') =
      Inr (build_context a_reviewer Budget)"
    by (simp add: authenticate_def op_id_from_path_def starts_with_def BATCH_OP_ID_def extract_bearer_def strip_prefix_def
        is_budget_op_id_def required_permission_def required_arms_def a_reviewer_def has_permission_def
        trim Let_def)
  show ?thesis using run context_carries_the_token [OF run] by simp
qed

end
