(* ===== verification/Budget_Rpc.thy ===== *)
theory Budget_Rpc
  imports Review Policy_Store Rpc_Gate
begin

text \<open>
  rest/src/lib.rs, the budget procedures of the RPC server: what they take from the caller's context and
  arguments, which service they call, how errors become statuses and rows become the schema's wire
  types. \<open>deps\<close> holds what the process is built with: the spend reader, the rule-data and facts parsers
  (\<open>serde_json\<close>), the database's jsonb cast and whether overflow checks are compiled in.
\<close>

record deps =
  d_checks :: bool
  d_reader :: spend_reader
  d_parse :: parser
  d_parse_facts :: "string \<Rightarrow> (string, facts) result"
  d_jsonb :: jsonb_cast

type_synonym 'a rpc = "(sys, (cratestack_error, 'a) result) prog"

subsection \<open>Plumbing\<close>

fun budget_error_to_cratestack_error :: "budget_error \<Rightarrow> cratestack_error" where
  "budget_error_to_cratestack_error (InvalidRuleData m) = CsBadRequest m"
| "budget_error_to_cratestack_error (NotFound m) = CsNotFound m"
| "budget_error_to_cratestack_error (StorageFailed m) = CsInternal m"
| "budget_error_to_cratestack_error (PolicyDenied m) = CsForbidden (budget_error_display (PolicyDenied m))"
| "budget_error_to_cratestack_error AlreadyGranted = CsConflict (budget_error_display AlreadyGranted)"
| "budget_error_to_cratestack_error (AlreadyReviewed m) = CsConflict (budget_error_display (AlreadyReviewed m))"
| "budget_error_to_cratestack_error err = CsBadRequest (budget_error_display err)"

text \<open>\<open>.await.map_err(budget_error_to_cratestack_error)?\<close>.\<close>

definition rbind :: "'a rpc \<Rightarrow> ('a \<Rightarrow> 'b rpc) \<Rightarrow> 'b rpc" where
  "rbind m k = pbind m (\<lambda>r. case r of Inl e \<Rightarrow> Ret (Inl e) | Inr a \<Rightarrow> k a)"

definition awaiting :: "(sys, 'a) op \<Rightarrow> 'a rpc" where
  "awaiting m = pbind m (\<lambda>r. Ret (map_err budget_error_to_cratestack_error r))"

definition with_subject :: "cs_context \<Rightarrow> (string \<Rightarrow> 'a rpc) \<Rightarrow> 'a rpc" where
  "with_subject ctx k =
     (case subject_from_ctx ctx of None \<Rightarrow> Ret (Inl (CsUnauthorized ''missing subject'')) | Some s \<Rightarrow> k s)"

definition quoted :: "string \<Rightarrow> string" where
  "quoted s = CHR 0x27 # s @ [CHR 0x27]"

definition parse_amount :: "string \<Rightarrow> string \<Rightarrow> string \<Rightarrow> int rpc" where
  "parse_amount name shown raw =
     Ret (case parse_i64 (str_trim raw) of
            Some n \<Rightarrow> Inr n
          | None \<Rightarrow> Inl (CsBadRequest (name @ '' must be a valid integer, got '' @ quoted shown)))"

subsection \<open>Wire types\<close>

fun effect_to_wire_string :: "effect \<Rightarrow> string" where
  "effect_to_wire_string AutoApprove = ''auto_approve''"
| "effect_to_wire_string AutoApproveCapped = ''auto_approve_capped''"
| "effect_to_wire_string ManualReview = ''manual_review''"
| "effect_to_wire_string Deny = ''deny''"
| "effect_to_wire_string NoAction = ''no_action''"

record decision_wire =
  dw_effect :: string
  dw_approvedAmountMicros :: string
  dw_maximumAmountMicros :: string
  dw_reasonCodes :: "string list"
  dw_matchedRuleIds :: "string list"
  dw_policyRevision :: string
  dw_requiredApproverRole :: "string option"

definition to_schema_decision :: "decision \<Rightarrow> decision_wire" where
  "to_schema_decision d =
     \<lparr>dw_effect = effect_to_wire_string (effect d),
      dw_approvedAmountMicros = dec_of_int (approved_amount_micros d),
      dw_maximumAmountMicros = dec_of_int (maximum_amount_micros d),
      dw_reasonCodes = reason_codes d, dw_matchedRuleIds = matched_rule_ids d,
      dw_policyRevision = policy_revision d,
      dw_requiredApproverRole = required_approver_role (decision_obligations d)\<rparr>"

record request_wire =
  qw_id :: string
  qw_budgetAccountId :: string
  qw_accountId :: string
  qw_projectId :: "string option"
  qw_period :: string
  qw_requestedTier :: string
  qw_requestedAmountMicros :: string
  qw_status :: string
  qw_policyEffect :: "string option"
  qw_policyReasonCodes :: "string list"
  qw_matchedRuleIds :: "string list"
  qw_policyRevision :: "string option"
  qw_approvedAmountMicros :: "string option"
  qw_grantId :: "string option"
  qw_idempotencyKey :: "string option"
  qw_reviewedBy :: "string option"
  qw_rejectionReason :: "string option"
  qw_createdAt :: int
  qw_reviewedAt :: "int option"

definition unwrap_or_default :: "'a list option \<Rightarrow> 'a list" where
  "unwrap_or_default x = (case x of None \<Rightarrow> [] | Some xs \<Rightarrow> xs)"

definition to_schema_augmentation_request :: "augmentation_request \<Rightarrow> request_wire" where
  "to_schema_augmentation_request q =
     \<lparr>qw_id = q_id q, qw_budgetAccountId = q_budget_account_id q, qw_accountId = q_account_id q,
      qw_projectId = q_project_id q, qw_period = period_str (q_period q),
      qw_requestedTier = tier_label (q_requested_tier q),
      qw_requestedAmountMicros = dec_of_int (q_requested_amount_micros q),
      qw_status = status_as_str (q_status q),
      qw_policyEffect = map_option effect_to_wire_string (q_policy_effect q),
      qw_policyReasonCodes = unwrap_or_default (q_policy_reason_codes q),
      qw_matchedRuleIds = unwrap_or_default (q_matched_rule_ids q),
      qw_policyRevision = q_policy_revision q,
      qw_approvedAmountMicros = map_option dec_of_int (q_approved_amount_micros q),
      qw_grantId = q_grant_id q, qw_idempotencyKey = q_idempotency_key q,
      qw_reviewedBy = q_reviewed_by q, qw_rejectionReason = q_rejection_reason q,
      qw_createdAt = q_created_at q, qw_reviewedAt = q_reviewed_at q\<rparr>"

record 'e page =
  entries :: "'e list"
  next_cursor :: "int option"

type_synonym request_page = "request_wire page"

definition DEFAULT_AUGMENTATION_REQUESTS_PAGE_SIZE :: int where
  "DEFAULT_AUGMENTATION_REQUESTS_PAGE_SIZE = 20"

definition MAX_AUGMENTATION_REQUESTS_PAGE_SIZE :: int where
  "MAX_AUGMENTATION_REQUESTS_PAGE_SIZE = 50"

definition resolve_augmentation_requests_page_size :: "int option \<Rightarrow> int" where
  "resolve_augmentation_requests_page_size lim =
     (case lim of
        Some requested \<Rightarrow> clamp_int 1 MAX_AUGMENTATION_REQUESTS_PAGE_SIZE requested
      | None \<Rightarrow> DEFAULT_AUGMENTATION_REQUESTS_PAGE_SIZE)"

text \<open>\<open>usize::try_from(page_size).unwrap_or(usize::MAX)\<close>, on a 64-bit target.\<close>

definition usize_or_max :: "int \<Rightarrow> nat" where
  "usize_or_max n = (if 0 \<le> n then nat n else 2 ^ 64 - 1)"

definition to_schema_augmentation_request_page :: "augmentation_request list \<Rightarrow> int \<Rightarrow> request_page" where
  "to_schema_augmentation_request_page qs page_size =
     \<lparr>entries = map to_schema_augmentation_request qs,
      next_cursor =
        (if length qs = usize_or_max page_size
         then (if qs = [] then None else Some (q_created_at (last qs))) else None)\<rparr>"

record balance_wire =
  bw_budgetAccountId :: string
  bw_period :: string
  bw_baseTotalMicros :: string
  bw_selfServiceTotalMicros :: string
  bw_adminTotalMicros :: string
  bw_automaticTotalMicros :: string
  bw_refundTotalMicros :: string
  bw_effectiveBudgetMicros :: string
  bw_selfServiceGrantCount :: int
  bw_automaticGrantCount :: int
  bw_version :: int
  bw_updatedAt :: int

definition to_schema_budget_balance :: "balance_snapshot \<Rightarrow> balance_wire" where
  "to_schema_budget_balance b =
     \<lparr>bw_budgetAccountId = b_budget_account_id b, bw_period = period_str (b_period b),
      bw_baseTotalMicros = dec_of_int (b_base_total_micros b),
      bw_selfServiceTotalMicros = dec_of_int (b_self_service_total_micros b),
      bw_adminTotalMicros = dec_of_int (b_admin_total_micros b),
      bw_automaticTotalMicros = dec_of_int (b_automatic_total_micros b),
      bw_refundTotalMicros = dec_of_int (b_refund_total_micros b),
      bw_effectiveBudgetMicros = dec_of_int (b_effective_budget_micros b),
      bw_selfServiceGrantCount = b_self_service_grant_count b,
      bw_automaticGrantCount = b_automatic_grant_count b, bw_version = b_version b,
      bw_updatedAt = b_updated_at b\<rparr>"

record ladder_wire =
  lw_budgetAccountId :: string
  lw_period :: string
  lw_allowedAmountsMicros :: "string list"

definition to_schema_my_budget_refill_ladder :: "string \<Rightarrow> string \<Rightarrow> refill_status_view \<Rightarrow> ladder_wire" where
  "to_schema_my_budget_refill_ladder acct period status =
     \<lparr>lw_budgetAccountId = acct, lw_period = period,
      lw_allowedAmountsMicros = map dec_of_int (rs_allowed_amounts_micros status)\<rparr>"

record grant_wire =
  gw_id :: string
  gw_budgetAccountId :: string
  gw_accountId :: string
  gw_projectId :: "string option"
  gw_period :: string
  gw_amountMicros :: string
  gw_source :: string
  gw_actorId :: "string option"
  gw_reason :: "string option"
  gw_policyRevision :: "string option"
  gw_matchedRuleIds :: "string list"
  gw_idempotencyKey :: "string option"
  gw_triggerKey :: "string option"
  gw_createdAt :: int
  gw_expiresAt :: "int option"
  gw_revokedAt :: "int option"

definition to_schema_budget_grant_entry :: "budget_grant \<Rightarrow> grant_wire" where
  "to_schema_budget_grant_entry g =
     \<lparr>gw_id = g_id g, gw_budgetAccountId = g_budget_account_id g, gw_accountId = g_account_id g,
      gw_projectId = g_project_id g, gw_period = period_str (g_period g),
      gw_amountMicros = dec_of_int (g_amount_micros g), gw_source = source_as_str (g_source g),
      gw_actorId = g_actor_id g, gw_reason = g_reason g, gw_policyRevision = g_policy_revision g,
      gw_matchedRuleIds = unwrap_or_default (g_matched_rule_ids g),
      gw_idempotencyKey = g_idempotency_key g, gw_triggerKey = g_trigger_key g,
      gw_createdAt = g_created_at g, gw_expiresAt = g_expires_at g, gw_revokedAt = g_revoked_at g\<rparr>"

type_synonym grant_page = "grant_wire page"

definition DEFAULT_BUDGET_GRANTS_PAGE_SIZE :: int where
  "DEFAULT_BUDGET_GRANTS_PAGE_SIZE = 20"

definition MAX_BUDGET_GRANTS_PAGE_SIZE :: int where
  "MAX_BUDGET_GRANTS_PAGE_SIZE = 50"

definition resolve_budget_grants_page_size :: "int option \<Rightarrow> int" where
  "resolve_budget_grants_page_size lim =
     (case lim of
        Some requested \<Rightarrow> clamp_int 1 MAX_BUDGET_GRANTS_PAGE_SIZE requested
      | None \<Rightarrow> DEFAULT_BUDGET_GRANTS_PAGE_SIZE)"

record policy_status_wire =
  pw_policySetId :: string
  pw_activePolicyRevision :: string

record revision_ref_wire =
  rw_policySetId :: string
  rw_revisionId :: string
  rw_policyRevision :: string

subsection \<open>Policy procedures\<close>

definition BUDGET_POLICY_SET_ID :: string where
  "BUDGET_POLICY_SET_ID = ''budget-refill''"

definition BUDGET_POLICY_EVALUATION_BUDGET :: nat where
  "BUDGET_POLICY_EVALUATION_BUDGET = 10000"

definition unknown_policy_set :: "string \<Rightarrow> cratestack_error" where
  "unknown_policy_set pset =
     CsBadRequest (''unknown policySetId '' @ quoted pset @ '' -- only '' @ quoted BUDGET_POLICY_SET_ID @ '' exists today'')"

definition activate_budget_policy ::
  "deps \<Rightarrow> cs_context \<Rightarrow> string \<Rightarrow> string option \<Rightarrow> string option \<Rightarrow> policy_status_wire rpc" where
  "activate_budget_policy d ctx pset rule_data_json revision_id =
     with_subject ctx (\<lambda>subject.
     if pset \<noteq> BUDGET_POLICY_SET_ID then Ret (Inl (unknown_policy_set pset))
     else rbind
       (case (rule_data_json, revision_id) of
          (Some json, None) \<Rightarrow> awaiting (activate (d_parse d) (d_jsonb d) BUDGET_POLICY_SET_ID json (Some subject))
        | (None, Some rid) \<Rightarrow> awaiting (activate_by_revision_id (d_parse d) BUDGET_POLICY_SET_ID rid)
        | (Some _, Some _) \<Rightarrow>
            Ret (Inl (CsBadRequest ''exactly one of ruleDataJson or revisionId must be provided, not both''))
        | (None, None) \<Rightarrow> Ret (Inl (CsBadRequest ''exactly one of ruleDataJson or revisionId must be provided'')))
       (\<lambda>active. Ret (Inr \<lparr>pw_policySetId = pset, pw_activePolicyRevision = active\<rparr>)))"

definition get_budget_policy_status :: "cs_context \<Rightarrow> string \<Rightarrow> policy_status_wire rpc" where
  "get_budget_policy_status ctx pset =
     with_subject ctx (\<lambda>_.
     if pset \<noteq> BUDGET_POLICY_SET_ID then Ret (Inl (unknown_policy_set pset))
     else pbind serving_policy_revision (\<lambda>active.
          Ret (Inr \<lparr>pw_policySetId = pset, pw_activePolicyRevision = active\<rparr>)))"

definition simulate_budget_policy ::
  "deps \<Rightarrow> cs_context \<Rightarrow> string \<Rightarrow> string \<Rightarrow> string \<Rightarrow> decision_wire rpc" where
  "simulate_budget_policy d ctx rule_data_json scenario_json requested =
     with_subject ctx (\<lambda>_.
     rbind (parse_amount ''requestedAmountMicros'' requested requested) (\<lambda>amount.
     rbind (Ret (map_err (\<lambda>e. CsBadRequest (''invalid scenarioJson: '' @ e)) (d_parse_facts d scenario_json))) (\<lambda>facts.
     rbind (awaiting (Ret (engine_new (d_parse d) rule_data_json BUDGET_POLICY_EVALUATION_BUDGET))) (\<lambda>engine.
     rbind (awaiting (Ret (engine_evaluate engine facts amount))) (\<lambda>decision.
     Ret (Inr (to_schema_decision decision)))))))"

definition create_budget_policy_revision :: "deps \<Rightarrow> cs_context \<Rightarrow> string \<Rightarrow> string \<Rightarrow> revision_ref_wire rpc" where
  "create_budget_policy_revision d ctx pset rule_data_json =
     with_subject ctx (\<lambda>subject.
     if pset \<noteq> BUDGET_POLICY_SET_ID then Ret (Inl (unknown_policy_set pset))
     else rbind (awaiting (create_revision (d_parse d) (d_jsonb d) BUDGET_POLICY_SET_ID rule_data_json (Some subject))) (\<lambda>new.
          Ret (Inr \<lparr>rw_policySetId = pset, rw_revisionId = nr_id new, rw_policyRevision = nr_policy_revision new\<rparr>)))"

subsection \<open>Refill and review procedures\<close>

record refill_input =
  ri_budgetAccountId :: string
  ri_accountId :: string
  ri_projectId :: "string option"
  ri_period :: string
  ri_idempotencyKey :: "string option"
  ri_requestedAmountMicros :: string

definition request_budget_refill :: "deps \<Rightarrow> cs_context \<Rightarrow> refill_input \<Rightarrow> request_wire rpc" where
  "request_budget_refill d ctx input =
     with_subject ctx (\<lambda>_.
     rbind (awaiting (Ret (period_parse (ri_period input)))) (\<lambda>period.
     rbind (parse_amount ''requestedAmountMicros'' (str_trim (ri_requestedAmountMicros input)) (ri_requestedAmountMicros input)) (\<lambda>amount.
     rbind (awaiting utc_now) (\<lambda>as_of.
     rbind (awaiting (request_refill (d_checks d) (d_reader d) engine_allowed_amounts engine_evaluate
              \<lparr>rr_budget_account_id = ri_budgetAccountId input, rr_account_id = ri_accountId input,
               rr_project_id = ri_projectId input, rr_period = period,
               rr_idempotency_key = ri_idempotencyKey input, rr_as_of = as_of,
               rr_requested_amount_micros = amount\<rparr>)) (\<lambda>created.
     Ret (Inr (to_schema_augmentation_request created)))))))"

definition get_my_budget_refill_ladder :: "cs_context \<Rightarrow> string \<Rightarrow> ladder_wire rpc" where
  "get_my_budget_refill_ladder ctx period =
     with_subject ctx (\<lambda>subject.
     rbind (awaiting (Ret (period_parse period))) (\<lambda>_.
     rbind (awaiting (refill_status engine_allowed_amounts)) (\<lambda>status.
     Ret (Inr (to_schema_my_budget_refill_ladder subject period status)))))"

definition list_pending_augmentation_requests ::
  "cs_context \<Rightarrow> string option \<Rightarrow> int option \<Rightarrow> int option \<Rightarrow> request_page rpc" where
  "list_pending_augmentation_requests ctx acct after lim =
     with_subject ctx (\<lambda>_.
     let page_size = resolve_augmentation_requests_page_size lim in
     rbind (awaiting (list_pending acct after page_size)) (\<lambda>qs.
     Ret (Inr (to_schema_augmentation_request_page qs page_size))))"

definition list_my_augmentation_requests :: "cs_context \<Rightarrow> int option \<Rightarrow> int option \<Rightarrow> request_page rpc" where
  "list_my_augmentation_requests ctx before lim =
     with_subject ctx (\<lambda>subject.
     let page_size = resolve_augmentation_requests_page_size lim in
     rbind (awaiting (list_own_history subject before page_size)) (\<lambda>qs.
     Ret (Inr (to_schema_augmentation_request_page qs page_size))))"

definition approve_augmentation_request :: "cs_context \<Rightarrow> string \<Rightarrow> request_wire rpc" where
  "approve_augmentation_request ctx request_id =
     with_subject ctx (\<lambda>subject.
     rbind (awaiting (approve request_id subject)) (\<lambda>reviewed.
     Ret (Inr (to_schema_augmentation_request reviewed))))"

definition reject_augmentation_request :: "cs_context \<Rightarrow> string \<Rightarrow> string \<Rightarrow> request_wire rpc" where
  "reject_augmentation_request ctx request_id reason =
     with_subject ctx (\<lambda>subject.
     rbind (awaiting (reject request_id subject reason)) (\<lambda>reviewed.
     Ret (Inr (to_schema_augmentation_request reviewed))))"

subsection \<open>Ledger procedures\<close>

text \<open>\<open>get_balance(..)?.unwrap_or_else(|| BalanceSnapshot::zero(..))\<close>, whose time stamp is the clock's.\<close>

definition balance_or_zero :: "string \<Rightarrow> period \<Rightarrow> balance_wire rpc" where
  "balance_or_zero acct period =
     rbind (awaiting (get_balance acct period)) (\<lambda>found.
     case found of
       Some b \<Rightarrow> Ret (Inr (to_schema_budget_balance b))
     | None \<Rightarrow> rbind (awaiting utc_now) (\<lambda>now.
         Ret (Inr (to_schema_budget_balance (zero_balance now acct period)))))"

definition get_my_budget_balance :: "cs_context \<Rightarrow> string \<Rightarrow> balance_wire rpc" where
  "get_my_budget_balance ctx period_text =
     with_subject ctx (\<lambda>subject.
     rbind (awaiting (Ret (period_parse period_text))) (\<lambda>period.
     balance_or_zero subject period))"

definition get_budget_balance :: "cs_context \<Rightarrow> string \<Rightarrow> string \<Rightarrow> balance_wire rpc" where
  "get_budget_balance ctx acct period_text =
     with_subject ctx (\<lambda>_.
     rbind (awaiting (Ret (period_parse period_text))) (\<lambda>period.
     balance_or_zero acct period))"

definition list_budget_grants_page ::
  "string \<Rightarrow> string option \<Rightarrow> int option \<Rightarrow> int option \<Rightarrow> grant_page rpc" where
  "list_budget_grants_page acct period_text before lim =
     rbind (awaiting (Ret (transpose_map period_parse period_text))) (\<lambda>period.
     let page_size = resolve_budget_grants_page_size lim in
     rbind (awaiting (list_grants acct period before page_size)) (\<lambda>gs.
     Ret (Inr
       \<lparr>entries = map to_schema_budget_grant_entry gs,
        next_cursor =
          (if length gs = usize_or_max page_size
           then (if gs = [] then None else Some (g_created_at (last gs))) else None)\<rparr>)))"

definition list_my_budget_grants ::
  "cs_context \<Rightarrow> string option \<Rightarrow> int option \<Rightarrow> int option \<Rightarrow> grant_page rpc" where
  "list_my_budget_grants ctx period before lim =
     with_subject ctx (\<lambda>subject. list_budget_grants_page subject period before lim)"

definition list_budget_grants ::
  "cs_context \<Rightarrow> string \<Rightarrow> string option \<Rightarrow> int option \<Rightarrow> int option \<Rightarrow> grant_page rpc" where
  "list_budget_grants ctx acct period before lim =
     with_subject ctx (\<lambda>_. list_budget_grants_page acct period before lim)"

record grant_input =
  gi_budgetAccountId :: string
  gi_accountId :: string
  gi_projectId :: "string option"
  gi_period :: string
  gi_amountMicros :: string
  gi_reason :: "string option"
  gi_idempotencyKey :: "string option"

definition admin_grant :: "grant_input \<Rightarrow> period \<Rightarrow> int \<Rightarrow> string \<Rightarrow> grant_request" where
  "admin_grant input period amount subject =
     \<lparr>gq_budget_account_id = gi_budgetAccountId input, gq_account_id = gi_accountId input,
      gq_project_id = gi_projectId input, gq_period = period, gq_amount_micros = amount,
      gq_source = Admin, gq_actor_id = Some subject, gq_reason = gi_reason input,
      gq_policy_revision = None, gq_matched_rule_ids = None,
      gq_idempotency_key = gi_idempotencyKey input, gq_trigger_key = None, gq_expires_at = None\<rparr>"

definition grant_budget :: "cs_context \<Rightarrow> grant_input \<Rightarrow> grant_wire rpc" where
  "grant_budget ctx input =
     with_subject ctx (\<lambda>subject.
     rbind (awaiting (Ret (period_parse (gi_period input)))) (\<lambda>period.
     rbind (parse_amount ''amountMicros'' (gi_amountMicros input) (gi_amountMicros input)) (\<lambda>amount.
     rbind (awaiting (grant (admin_grant input period amount subject))) (\<lambda>g.
     Ret (Inr (to_schema_budget_grant_entry g))))))"

text \<open>\<open>-x\<close> on an i64: the least value has no negation, which panics with overflow checks and wraps without.\<close>

definition neg_i64 :: "bool \<Rightarrow> int \<Rightarrow> int option" where
  "neg_i64 checks x = (if x = - (2 ^ 63) then (if checks then None else Some x) else Some (- x))"

definition correction_of :: "budget_grant \<Rightarrow> int \<Rightarrow> string \<Rightarrow> string \<Rightarrow> string \<Rightarrow> grant_request" where
  "correction_of original amount grant_id subject reason =
     \<lparr>gq_budget_account_id = g_budget_account_id original, gq_account_id = g_account_id original,
      gq_project_id = g_project_id original, gq_period = g_period original, gq_amount_micros = amount,
      gq_source = Correction, gq_actor_id = Some subject, gq_reason = Some reason,
      gq_policy_revision = None, gq_matched_rule_ids = None,
      gq_idempotency_key = Some (''revoke:'' @ grant_id), gq_trigger_key = None, gq_expires_at = None\<rparr>"

definition revoke_budget_grant :: "deps \<Rightarrow> cs_context \<Rightarrow> string \<Rightarrow> string \<Rightarrow> grant_wire rpc" where
  "revoke_budget_grant d ctx grant_id reason =
     with_subject ctx (\<lambda>subject.
     rbind (awaiting (get_grant_by_id grant_id)) (\<lambda>original.
     case neg_i64 (d_checks d) (g_amount_micros original) of
       None \<Rightarrow> Ret (Inl (CsInternal ''panic''))
     | Some amount \<Rightarrow>
         rbind (awaiting (grant (correction_of original amount grant_id subject reason))) (\<lambda>correction.
         Ret (Inr (to_schema_budget_grant_entry correction)))))"

end
