(* ===== verification/Budget_System.thy ===== *)
theory Budget_System
  imports Budget_Rpc
begin

text \<open>
  The budget server as a whole: every procedure it serves as one type of calls, and what holds of any
  number of them running against the same database and the same live policy engine, in any order, with
  messages lost, threads crashing and lock connections breaking.
\<close>

datatype budget_call =
    ActivateBudgetPolicy string "string option" "string option"
  | GetBudgetPolicyStatus string
  | SimulateBudgetPolicy string string string
  | RequestBudgetRefill refill_input
  | GetMyBudgetRefillLadder string
  | ListPendingAugmentationRequests "string option" "int option" "int option"
  | ListMyAugmentationRequests "int option" "int option"
  | ApproveAugmentationRequest string
  | RejectAugmentationRequest string string
  | GetMyBudgetBalance string
  | GetBudgetBalance string string
  | ListMyBudgetGrants "string option" "int option" "int option"
  | ListBudgetGrants string "string option" "int option" "int option"
  | GrantBudget grant_input
  | RevokeBudgetGrant string string
  | CreateBudgetPolicyRevision string string

datatype reply =
    PolicyStatus policy_status_wire
  | PolicyDecision decision_wire
  | RequestReply request_wire
  | Ladder ladder_wire
  | RequestPage request_page
  | Balance balance_wire
  | GrantPage grant_page
  | GrantReply grant_wire
  | RevisionRef revision_ref_wire

definition replying :: "('a \<Rightarrow> reply) \<Rightarrow> 'a rpc \<Rightarrow> reply rpc" where
  "replying wrap m = pbind m (\<lambda>r. Ret (case r of Inl e \<Rightarrow> Inl e | Inr a \<Rightarrow> Inr (wrap a)))"

fun serve :: "deps \<Rightarrow> cs_context \<Rightarrow> budget_call \<Rightarrow> reply rpc" where
  "serve d ctx (ActivateBudgetPolicy pset json rid) = replying PolicyStatus (activate_budget_policy d ctx pset json rid)"
| "serve d ctx (GetBudgetPolicyStatus pset) = replying PolicyStatus (get_budget_policy_status ctx pset)"
| "serve d ctx (SimulateBudgetPolicy json scenario amount) = replying PolicyDecision (simulate_budget_policy d ctx json scenario amount)"
| "serve d ctx (RequestBudgetRefill input) = replying RequestReply (request_budget_refill d ctx input)"
| "serve d ctx (GetMyBudgetRefillLadder per) = replying Ladder (get_my_budget_refill_ladder ctx per)"
| "serve d ctx (ListPendingAugmentationRequests acct after lim) =
     replying RequestPage (list_pending_augmentation_requests ctx acct after lim)"
| "serve d ctx (ListMyAugmentationRequests before lim) = replying RequestPage (list_my_augmentation_requests ctx before lim)"
| "serve d ctx (ApproveAugmentationRequest rid) = replying RequestReply (approve_augmentation_request ctx rid)"
| "serve d ctx (RejectAugmentationRequest rid reason) = replying RequestReply (reject_augmentation_request ctx rid reason)"
| "serve d ctx (GetMyBudgetBalance per) = replying Balance (get_my_budget_balance ctx per)"
| "serve d ctx (GetBudgetBalance acct per) = replying Balance (get_budget_balance ctx acct per)"
| "serve d ctx (ListMyBudgetGrants per before lim) = replying GrantPage (list_my_budget_grants ctx per before lim)"
| "serve d ctx (ListBudgetGrants acct per before lim) = replying GrantPage (list_budget_grants ctx acct per before lim)"
| "serve d ctx (GrantBudget input) = replying GrantReply (grant_budget ctx input)"
| "serve d ctx (RevokeBudgetGrant gid reason) = replying GrantReply (revoke_budget_grant d ctx gid reason)"
| "serve d ctx (CreateBudgetPolicyRevision pset json) = replying RevisionRef (create_budget_policy_revision d ctx pset json)"

fun op_of :: "budget_call \<Rightarrow> string" where
  "op_of (ActivateBudgetPolicy _ _ _) = ''procedure.activateBudgetPolicy''"
| "op_of (GetBudgetPolicyStatus _) = ''procedure.getBudgetPolicyStatus''"
| "op_of (SimulateBudgetPolicy _ _ _) = ''procedure.simulateBudgetPolicy''"
| "op_of (RequestBudgetRefill _) = ''procedure.requestBudgetRefill''"
| "op_of (GetMyBudgetRefillLadder _) = ''procedure.getMyBudgetRefillLadder''"
| "op_of (ListPendingAugmentationRequests _ _ _) = ''procedure.listPendingAugmentationRequests''"
| "op_of (ListMyAugmentationRequests _ _) = ''procedure.listMyAugmentationRequests''"
| "op_of (ApproveAugmentationRequest _) = ''procedure.approveAugmentationRequest''"
| "op_of (RejectAugmentationRequest _ _) = ''procedure.rejectAugmentationRequest''"
| "op_of (GetMyBudgetBalance _) = ''procedure.getMyBudgetBalance''"
| "op_of (GetBudgetBalance _ _) = ''procedure.getBudgetBalance''"
| "op_of (ListMyBudgetGrants _ _ _) = ''procedure.listMyBudgetGrants''"
| "op_of (ListBudgetGrants _ _ _ _) = ''procedure.listBudgetGrants''"
| "op_of (GrantBudget _) = ''procedure.grantBudget''"
| "op_of (RevokeBudgetGrant _ _) = ''procedure.revokeBudgetGrant''"
| "op_of (CreateBudgetPolicyRevision _ _) = ''procedure.createBudgetPolicyRevision''"

lemma op_ofI: "op_of c = op_id \<Longrightarrow> op_id \<in> range op_of"
  by auto

lemmas op_in_range = op_of.simps [THEN op_ofI]

text \<open>(operations). The calls above are exactly the operations the budget scope permits.\<close>

theorem budget_scope_operations: "permits Budget op_id \<longleftrightarrow> op_id \<in> range op_of"
proof -
  have "permits Budget op_id \<longleftrightarrow> op_id \<in> fst ` set (filter (\<lambda>(_, p). starts_with ''budget:'' (perm_as_str p)) required_arms)"
  proof -
    have "permits Budget op_id \<longleftrightarrow> (\<exists>p. required_permission op_id = Some p \<and> starts_with ''budget:'' (perm_as_str p))"
      by (simp add: is_budget_op_id_def split: option.split)
    then show ?thesis by (force simp: required_iff image_iff)
  qed
  also have "fst ` set (filter (\<lambda>(_, p). starts_with ''budget:'' (perm_as_str p)) required_arms) = range op_of"
  proof (rule set_eqI, rule iffI)
    fix op
    assume "op \<in> fst ` set (filter (\<lambda>(_, p). starts_with ''budget:'' (perm_as_str p)) required_arms)"
    then show "op \<in> range op_of"
      by (auto simp: required_arms_def starts_with_def intro: op_in_range)
  next
    fix op
    assume "op \<in> range op_of"
    then obtain c where "op = op_of c" by blast
    then show "op \<in> fst ` set (filter (\<lambda>(_, p). starts_with ''budget:'' (perm_as_str p)) required_arms)"
      by (cases c) (simp_all add: required_arms_def starts_with_def)
  qed
  finally show ?thesis .
qed

subsection \<open>Without a subject\<close>

text \<open>(no subject). A call whose context carries no subject is refused before it does anything.\<close>

theorem no_subject_no_effect:
  assumes "subject_from_ctx ctx = None"
  shows "serve d ctx call = Ret (Inl (CsUnauthorized ''missing subject''))"
  using assms
  by (cases call)
    (simp_all add: replying_def with_subject_def activate_budget_policy_def get_budget_policy_status_def
      simulate_budget_policy_def request_budget_refill_def get_my_budget_refill_ladder_def
      list_pending_augmentation_requests_def list_my_augmentation_requests_def approve_augmentation_request_def
      reject_augmentation_request_def get_my_budget_balance_def get_budget_balance_def list_my_budget_grants_def
      list_budget_grants_def grant_budget_def revoke_budget_grant_def create_budget_policy_revision_def)

subsection \<open>What every call keeps\<close>

definition sys_ok :: "sys \<Rightarrow> bool" where
  "sys_ok s \<longleftrightarrow> ledger_ok s \<and> requests_ok s \<and> policies_ok s"

definition system_step :: "parser \<Rightarrow> sys \<Rightarrow> sys \<Rightarrow> bool" where
  "system_step parse s s' \<longleftrightarrow>
     (\<exists>new. grants s' = grants s @ new) \<and>
     (\<exists>new. policy_revisions s' = policy_revisions s @ new \<and> (\<forall>r\<in>set new. revision_ok parse r)) \<and>
     requests_kept (requests s) (requests s') \<and> accounts s' = accounts s \<and> projects s' = projects s \<and>
     (sys_ok s \<longrightarrow> sys_ok s')"

lemma budget_system_step: "budget_step s s' \<Longrightarrow> system_step parse s s'"
  by (auto simp: budget_step_def ledger_step_def system_step_def sys_ok_def policies_ok_def)

lemma policy_system_step: "policy_step parse s s' \<Longrightarrow> system_step parse s s'"
  using requests_ok_ledger [of s s' "[]"] ledger_frame [of s s']
  by (auto simp: policy_step_def system_step_def sys_ok_def)

lemma system_step_trans: "system_step parse s s' \<Longrightarrow> system_step parse s' s'' \<Longrightarrow> system_step parse s s''"
  unfolding system_step_def by (auto intro: requests_kept_trans)

text \<open>The grant rows a call may add to the ledger, judged in a state at or after the addition.\<close>

fun pays_for :: "deps \<Rightarrow> sys \<Rightarrow> cs_context \<Rightarrow> budget_call \<Rightarrow> grant_row \<Rightarrow> bool" where
  "pays_for d s ctx (GrantBudget input) r \<longleftrightarrow>
     g_source r = ''admin'' \<and> g_actor_id r = subject_from_ctx ctx \<and> subject_from_ctx ctx \<noteq> None \<and>
     g_budget_account_id r = gi_budgetAccountId input \<and> g_period r = gi_period input \<and>
     parse_i64 (str_trim (gi_amountMicros input)) = Some (g_amount_micros r) \<and> 0 < g_amount_micros r \<and>
     g_reason r = gi_reason input \<and> g_idempotency_key r = gi_idempotencyKey input"
| "pays_for d s ctx (RevokeBudgetGrant gid reason) r \<longleftrightarrow>
     g_source r = ''correction'' \<and> g_actor_id r = subject_from_ctx ctx \<and> subject_from_ctx ctx \<noteq> None \<and>
     g_reason r = Some reason \<and> g_idempotency_key r = Some (''revoke:'' @ gid) \<and>
     (\<exists>g\<in>set (grants s). g_id g = gid \<and> g_budget_account_id r = g_budget_account_id g \<and>
        g_period r = g_period g \<and> neg_i64 (d_checks d) (g_amount_micros g) = Some (g_amount_micros r))"
| "pays_for d s ctx (ApproveAugmentationRequest rid) r \<longleftrightarrow>
     g_actor_id r = subject_from_ctx ctx \<and> subject_from_ctx ctx \<noteq> None \<and> g_idempotency_key r = Some (approval_key rid) \<and>
     (\<exists>q\<in>set (requests s). q_id q = rid \<and> pays q r)"
| "pays_for d s ctx (RequestBudgetRefill input) r \<longleftrightarrow>
     g_source r = ''self_service'' \<and> subject_from_ctx ctx \<noteq> None \<and>
     g_budget_account_id r = ri_budgetAccountId input \<and> g_actor_id r = Some (ri_accountId input) \<and>
     g_period r = ri_period input \<and> g_idempotency_key r = ri_idempotencyKey input \<and>
     (\<exists>requested. parse_i64 (str_trim (ri_requestedAmountMicros input)) = Some requested \<and>
        0 < g_amount_micros r \<and> g_amount_micros r \<le> requested)"
| "pays_for d s ctx _ r \<longleftrightarrow> False"

lemma pays_for_mono:
  assumes "system_step parse s s'" "pays_for d s ctx call r"
  shows "pays_for d s' ctx call r"
proof -
  have kept: "set (grants s) \<subseteq> set (grants s')" "requests_kept (requests s) (requests s')"
    using assms(1) by (auto simp: system_step_def)
  have approved: "\<exists>q'\<in>set (requests s'). q_id q' = rid \<and> pays q' r"
    if q: "q \<in> set (requests s)" "q_id q = rid" "pays q r" for q rid
  proof -
    obtain q' where "q' \<in> set (requests s')" "same_request q q'" using requests_kept_mem [OF kept(2) q(1)] .
    with q(2,3) show ?thesis by (auto simp: same_request_def pays_def intro!: bexI [of _ q'])
  qed
  show ?thesis
  proof (cases call)
    case (RevokeBudgetGrant gid reason)
    with assms(2) kept(1) show ?thesis by (simp add: subset_iff) metis
  next
    case (ApproveAugmentationRequest rid)
    with assms(2) obtain q where "q \<in> set (requests s)" "q_id q = rid" "pays q r" by auto
    from approved [OF this] ApproveAugmentationRequest assms(2) show ?thesis by simp
  qed (use assms(2) in simp_all)
qed

definition accounted :: "deps \<Rightarrow> (cs_context \<times> budget_call) list \<Rightarrow> sys \<Rightarrow> grant_row \<Rightarrow> bool" where
  "accounted d calls s r \<longleftrightarrow> (\<exists>(ctx, call)\<in>set calls. pays_for d s ctx call r)"

definition audit_step :: "deps \<Rightarrow> (cs_context \<times> budget_call) list \<Rightarrow> sys \<Rightarrow> sys \<Rightarrow> bool" where
  "audit_step d calls s s' \<longleftrightarrow>
     system_step (d_parse d) s s' \<and>
     (\<exists>new. grants s' = grants s @ new \<and> (\<forall>r\<in>set new. accounted d calls s' r))"

lemma accounted_mono: "system_step parse s s' \<Longrightarrow> accounted d calls s r \<Longrightarrow> accounted d calls s' r"
  unfolding accounted_def using pays_for_mono by fast

interpretation audit: guarantee "audit_step d calls" for d calls
proof
  show "audit_step d calls s s" for s
    by (auto simp: audit_step_def intro: budget_system_step budget.refl)
  show "audit_step d calls s s''" if "audit_step d calls s s'" "audit_step d calls s' s''" for s s' s''
  proof -
    from that obtain new new' where new: "grants s' = grants s @ new" "\<forall>r\<in>set new. accounted d calls s' r"
      "grants s'' = grants s' @ new'" "\<forall>r\<in>set new'. accounted d calls s'' r"
      and steps: "system_step (d_parse d) s s'" "system_step (d_parse d) s' s''"
      by (auto simp: audit_step_def)
    have "grants s'' = grants s @ (new @ new')" "\<forall>r\<in>set (new @ new'). accounted d calls s'' r"
      using new accounted_mono [OF steps(2)] by auto
    with system_step_trans [OF steps] show ?thesis unfolding audit_step_def by blast
  qed
qed

text \<open>Actions that leave the ledger alone.\<close>

lemma audit_quiet: "guar budget_step p \<Longrightarrow> guar same_ledger p \<Longrightarrow> guar (audit_step d calls) p"
  by (drule (1) guar_conj, erule guar_mono)
    (auto simp: audit_step_def same_ledger_def intro: budget_system_step)

lemma audit_policy: "guar (policy_step (d_parse d)) p \<Longrightarrow> guar (audit_step d calls) p"
  by (erule guar_mono) (auto simp: audit_step_def policy_step_def intro: policy_system_step)

subsection \<open>Every procedure keeps it\<close>

abbreviation audited :: "deps \<Rightarrow> (cs_context \<times> budget_call) list \<Rightarrow> (sys, 'a) prog \<Rightarrow> sys \<Rightarrow> bool" where
  "audited d calls p s \<equiv> rg (audit_step d calls) p (\<lambda>_ _. True) s"

lemma guar_plumbing:
  "guar R m \<Longrightarrow> guar R (awaiting m)"
  "guar R m' \<Longrightarrow> (\<And>a. guar R (k a)) \<Longrightarrow> guar R (rbind m' k)"
  "(\<And>subject. guar R (k' subject)) \<Longrightarrow> guar R (with_subject ctx k')"
  "guar R m'' \<Longrightarrow> guar R (replying wrap m'')"
  by (auto simp: awaiting_def rbind_def with_subject_def replying_def intro!: guar_pbind split: sum.split option.split)

lemma await_pbind:
  "rbind (awaiting m) k = pbind m (\<lambda>r. case r of Inl e \<Rightarrow> Ret (Inl (budget_error_to_cratestack_error e)) | Inr a \<Rightarrow> k a)"
  by (auto simp: rbind_def awaiting_def pbind_assoc intro!: arg_cong [where f = "pbind m"] split: sum.split)

lemma audited_await:
  "rg (audit_step d calls) m (\<lambda>r t. \<forall>a. r = Inr a \<longrightarrow> audited d calls (k a) t) s \<Longrightarrow> audited d calls (rbind (awaiting m) k) s"
  unfolding await_pbind by (rule audit.rg_pbind) (erule rg_weaken, simp split: sum.split)

lemma audited_replying: "audited d calls m s \<Longrightarrow> audited d calls (replying wrap m) s"
  unfolding replying_def by (rule audit.rg_pbind) (erule rg_weaken, simp)

lemma audited_with_subject:
  "(\<And>subject. subject_from_ctx ctx = Some subject \<Longrightarrow> audited d calls (k subject) s) \<Longrightarrow> audited d calls (with_subject ctx k) s"
  by (simp add: with_subject_def split: option.split)

lemma quiet_review:
  "guar same_ledger (get_request rid)" "guar same_ledger (record_review rid st reviewer why gid)"
  "guar same_ledger (reject rid reviewer reason)"
proof -
  show get: "guar same_ledger (get_request rid)"
    by (auto simp: get_request_def intro!: quiet.guar_obind quiet.guar_query split: option.split)
  show rec: "guar same_ledger (record_review rid st reviewer why gid)" for st reviewer why gid
    by (auto simp: record_review_def Let_def intro!: quiet.guar_obind quiet.guar_stmt dest: quiet_update split: option.split)
  show "guar same_ledger (reject rid reviewer reason)"
    by (auto simp: reject_def acquire_review_lock_def sent_def commit_lock_def reject_locked_def
        intro!: guar_pbind quiet.guar_obind quiet.guar_observe get rec)
qed

lemmas audit_intros = audit.guar_obind audit.guar_query audit.guar_observe guar_pbind guar_plumbing

lemma guar_reads_audit:
  "guar (audit_step d calls) (get_budget_policy_status ctx pset)"
  "guar (audit_step d calls) (simulate_budget_policy d ctx json scenario amount)"
  "guar (audit_step d calls) (get_my_budget_refill_ladder ctx per)"
  "guar (audit_step d calls) (list_pending_augmentation_requests ctx acct after lim)"
  "guar (audit_step d calls) (list_my_augmentation_requests ctx before lim)"
  "guar (audit_step d calls) (get_my_budget_balance ctx per)"
  "guar (audit_step d calls) (get_budget_balance ctx acct' per)"
  "guar (audit_step d calls) (list_my_budget_grants ctx per' before lim)"
  "guar (audit_step d calls) (list_budget_grants ctx acct' per' before lim)"
  by (auto simp: get_budget_policy_status_def serving_policy_revision_def simulate_budget_policy_def parse_amount_def
      get_my_budget_refill_ladder_def refill_status_def list_pending_augmentation_requests_def list_pending_def
      list_pending_review_def list_my_augmentation_requests_def list_own_history_def list_by_budget_account_def
      get_my_budget_balance_def get_budget_balance_def balance_or_zero_def get_balance_def utc_now_def
      list_my_budget_grants_def list_budget_grants_def list_budget_grants_page_def list_grants_def Let_def
      intro!: audit_intros split: option.split)

lemma guar_policy_audit:
  assumes "jsonb_faithful (d_parse d) (d_jsonb d)"
  shows "guar (audit_step d calls) (activate_budget_policy d ctx pset json rid)"
    and "guar (audit_step d calls) (create_budget_policy_revision d ctx pset json')"
  by (auto simp: activate_budget_policy_def create_budget_policy_revision_def
      intro!: audit_intros audit_policy guar_policy_calls [OF assms] split: option.split)

lemma guar_reject_audit: "guar (audit_step d calls) (reject_augmentation_request ctx rid reason)"
  unfolding reject_augmentation_request_def
  by (intro guar_plumbing audit_quiet guar_reject quiet_review) simp_all

text \<open>A grant is audited when the row it would add is one that some call may add.\<close>

lemma audited_grant:
  assumes "\<And>t gid now. audit_step d calls s t \<Longrightarrow> grant_checks (new_grant_row gid req now) \<Longrightarrow>
    accounted d calls t (new_grant_row gid req now)"
  shows "rg (audit_step d calls) (grant req) (\<lambda>_. audit_step d calls s) s"
proof -
  have body: "audit_step d calls t t'"
    if reached: "audit_step d calls s t" and run: "run (grant_body req now) env n t = (Inr row, n', t')" for t now env n row n' t'
  proof -
    from grant_body_Inr [OF run] have out: "recorded req now t row t' \<or> replayed req now t row t'" by blast
    have "budget_step t t'"
      using recorded_frame [OF out] grant_body_step [OF run] by (intro ledger_budget_step) auto
    then have step: "system_step (d_parse d) t t'" by (rule budget_system_step)
    from out show ?thesis
    proof
      assume rec: "recorded req now t row t'"
      then obtain gid where "row = new_grant_row gid req now" "grant_checks row" by (auto simp: recorded_def)
      with assms [OF reached] have "accounted d calls t row" by simp
      then have "accounted d calls t' row" by (rule accounted_mono [OF step])
      with rec step show ?thesis by (simp add: audit_step_def recorded_def)
    next
      assume "replayed req now t row t'"
      with step show ?thesis by (simp add: audit_step_def replayed_def)
    qed
  qed
  have "rg (audit_step d calls) (grant req) (\<lambda>_ _. True) s"
    unfolding grant_def
    by (rule audit.rg_then, simp)
      (auto intro!: audit.rg_then audit.rg_transaction intro: body audit.trans)
  then have "rg (audit_step d calls) (grant req) (\<lambda>_ t. audit_step d calls s t \<and> True) s"
    by (rule audit.rg_track) (rule audit.refl)
  then show ?thesis by simp
qed

lemma accounted_by: "(ctx, call) \<in> set calls \<Longrightarrow> pays_for d t ctx call r \<Longrightarrow> accounted d calls t r"
  by (auto simp: accounted_def)

lemma new_row_simps [simp]:
  "g_actor_id (new_grant_row gid req now) = gq_actor_id req"
  "g_reason (new_grant_row gid req now) = gq_reason req"
  "g_budget_account_id (new_grant_row gid req now) = gq_budget_account_id req"
  "g_period (new_grant_row gid req now) = period_str (gq_period req)"
  by (simp_all add: new_grant_row_def)

lemma audited_grant_budget:
  assumes "(ctx, GrantBudget input) \<in> set calls"
  shows "audited d calls (grant_budget ctx input) s"
  unfolding grant_budget_def
proof (rule audited_with_subject, rule audited_await, simp, intro allI impI)
  fix subject t period
  assume subject: "subject_from_ctx ctx = Some subject" and per: "period_parse (gi_period input) = Inr period"
  have row: "rg (audit_step d calls) (grant (admin_grant input period amount subject)) (\<lambda>_. audit_step d calls t) t"
    if amount: "parse_i64 (str_trim (gi_amountMicros input)) = Some amount" for amount
  proof (rule audited_grant, rule accounted_by [OF assms])
    fix t' gid now
    assume "grant_checks (new_grant_row gid (admin_grant input period amount subject) now)"
    then show "pays_for d t' ctx (GrantBudget input) (new_grant_row gid (admin_grant input period amount subject) now)"
      using subject amount period_parse_valid [OF per]
      by (simp add: admin_grant_def grant_checks_def amount_sign_check_def)
  qed
  show "audited d calls (rbind (parse_amount ''amountMicros'' (gi_amountMicros input) (gi_amountMicros input)) (\<lambda>amount.
      rbind (awaiting (grant (admin_grant input period amount subject))) (\<lambda>g. Ret (Inr (to_schema_budget_grant_entry g))))) t"
    using row by (auto simp: parse_amount_def rbind_def [of "Ret _"] split: option.split intro!: audited_await rg_weaken [OF row])
qed

lemma rg_get_grant:
  "rg (audit_step d calls) (get_grant_by_id gid)
     (\<lambda>r t. \<forall>g. r = Inr g \<longrightarrow> audit_step d calls s t \<and>
        (\<exists>row\<in>set (grants t). g_id row = gid \<and> grant_try_from row = Inr g)) s"
proof -
  have kept: "row \<in> set (grants t')" if "audit_step d calls t t'" "row \<in> set (grants t)" for t t' row
    using that by (auto simp: audit_step_def)
  show ?thesis
    unfolding get_grant_by_id_def
    by (rule audit.rg_obind, rule audit.rg_query)
      (auto dest!: find_SomeD intro: audit.trans kept split: option.split sum.split)
qed

lemma grant_try_from_fields:
  "grant_try_from row = Inr g \<Longrightarrow>
   g_budget_account_id g = g_budget_account_id row \<and> period_str (g_period g) = g_period row \<and>
   g_amount_micros g = g_amount_micros row"
  by (auto dest: grant_try_from_Inr)

lemma audited_revoke:
  assumes "(ctx, RevokeBudgetGrant gid reason) \<in> set calls"
  shows "audited d calls (revoke_budget_grant d ctx gid reason) s"
  unfolding revoke_budget_grant_def
proof (rule audited_with_subject, rule audited_await, rule rg_weaken [OF rg_get_grant], intro allI impI)
  fix subject r t original
  assume subject: "subject_from_ctx ctx = Some subject" and r: "r = Inr original"
    and "\<forall>g. r = Inr g \<longrightarrow> audit_step d calls s t \<and> (\<exists>row\<in>set (grants t). g_id row = gid \<and> grant_try_from row = Inr g)"
  then obtain row where row: "row \<in> set (grants t)" "g_id row = gid" "grant_try_from row = Inr original" by auto
  have ledger: "rg (audit_step d calls) (grant (correction_of original amount gid subject reason)) (\<lambda>_. audit_step d calls t) t"
    if amount: "neg_i64 (d_checks d) (g_amount_micros original) = Some amount" for amount
  proof (rule audited_grant, rule accounted_by [OF assms])
    fix t' gid' now
    assume "audit_step d calls t t'"
    with row(1) have "row \<in> set (grants t')" by (auto simp: audit_step_def)
    then show "pays_for d t' ctx (RevokeBudgetGrant gid reason) (new_grant_row gid' (correction_of original amount gid subject reason) now)"
      using subject amount row(2) grant_try_from_fields [OF row(3)] by (auto simp: correction_of_def)
  qed
  show "audited d calls (case neg_i64 (d_checks d) (g_amount_micros original) of
       None \<Rightarrow> Ret (Inl (CsInternal ''panic''))
     | Some amount \<Rightarrow> rbind (awaiting (grant (correction_of original amount gid subject reason))) (\<lambda>correction.
         Ret (Inr (to_schema_budget_grant_entry correction)))) t"
    by (auto intro!: audited_await rg_weaken [OF ledger] split: option.split)
qed

lemma rg_get_request:
  "rg (audit_step d calls) (get_request rid)
     (\<lambda>r t. \<forall>q. r = Inr q \<longrightarrow> audit_step d calls s t \<and>
        (\<exists>row\<in>set (requests t). q_id row = rid \<and> q_requested_amount_micros q = q_requested_amount_micros row \<and>
           q_budget_account_id q = q_budget_account_id row \<and> period_str (q_period q) = q_period row)) s"
proof -
  have kept: "\<exists>row'\<in>set (requests t'). q_id row' = q_id row \<and> q_requested_amount_micros row' = q_requested_amount_micros row \<and>
      q_budget_account_id row' = q_budget_account_id row \<and> q_period row' = q_period row"
    if step: "audit_step d calls t t'" and row: "row \<in> set (requests t)" for t t' row
  proof -
    have "requests_kept (requests t) (requests t')" using step by (simp add: audit_step_def system_step_def)
    from requests_kept_mem [OF this row] obtain row' where "row' \<in> set (requests t')" "same_request row row'" .
    then show ?thesis by (auto simp: same_request_def)
  qed
  have fields: "q_requested_amount_micros q = q_requested_amount_micros row \<and> q_budget_account_id q = q_budget_account_id row \<and>
      period_str (q_period q) = q_period row" if "request_try_from row = Inr q" for q row
    using that by (auto simp: request_try_from_def res_bind_eq_Inr_conv dest: period_parse_valid)
  have found: "audit_step d calls s t' \<and> (\<exists>row\<in>set (requests t'). q_id row = rid \<and>
      q_requested_amount_micros q = q_requested_amount_micros row \<and> q_budget_account_id q = q_budget_account_id row \<and>
      period_str (q_period q) = q_period row)"
    if "audit_step d calls s t" "audit_step d calls t t'" "find (\<lambda>r. q_id r = rid) (requests t) = Some row"
      "request_try_from row = Inr q" for t t' row q
    using audit.trans [OF that(1,2)] kept [OF that(2)] find_SomeD [OF that(3)] fields [OF that(4)] by metis
  show ?thesis
    unfolding get_request_def
    by (rule audit.rg_obind, rule audit.rg_query)
      (auto simp: split: option.split sum.split dest: found intro: audit.trans)
qed

lemma guar_lock_audit:
  "guar (audit_step d calls) (acquire_review_lock rid)" "guar (audit_step d calls) (commit_lock rid)"
  by (auto simp: acquire_review_lock_def commit_lock_def sent_def intro!: audit_intros)

lemma guar_record_audit:
  "guar (audit_step d calls) (record_review rid Approved reviewer why (Some gid))" "guar (audit_step d calls) (record_decision rid dec)"
  by (intro audit_quiet quiet_review quiet_ops guar_budget; simp)+

lemma audited_approve:
  assumes "(ctx, ApproveAugmentationRequest rid) \<in> set calls"
  shows "audited d calls (approve_augmentation_request ctx rid) s"
  unfolding approve_augmentation_request_def
proof (rule audited_with_subject)
  fix subject
  assume subject: "subject_from_ctx ctx = Some subject"
  have locked: "audited d calls (approve_locked rid subject) s" for s
    unfolding approve_locked_def
  proof (rule audit.rg_then, rule rg_weaken [OF rg_get_request], intro allI impI)
    fix r t and q :: augmentation_request
    assume "r = Inr q" and "\<forall>q. r = Inr q \<longrightarrow> audit_step d calls s t \<and>
        (\<exists>row\<in>set (requests t). q_id row = rid \<and> q_requested_amount_micros q = q_requested_amount_micros row \<and>
           q_budget_account_id q = q_budget_account_id row \<and> period_str (q_period q) = q_period row)"
    then obtain row where row: "row \<in> set (requests t)" "q_id row = rid"
      "q_requested_amount_micros q = q_requested_amount_micros row" "q_budget_account_id q = q_budget_account_id row"
      "period_str (q_period q) = q_period row" by auto
    have ledger: "rg (audit_step d calls) (grant (approval_grant q rid subject)) (\<lambda>_. audit_step d calls t) t"
    proof (rule audited_grant, rule accounted_by [OF assms])
      fix t' gid now
      assume step: "audit_step d calls t t'"
      have "pays_for d t ctx (ApproveAugmentationRequest rid) (new_grant_row gid (approval_grant q rid subject) now)"
        using subject row by (auto simp: approval_grant_def pays_def)
      with pays_for_mono step show "pays_for d t' ctx (ApproveAugmentationRequest rid) (new_grant_row gid (approval_grant q rid subject) now)"
        unfolding audit_step_def by blast
    qed
    show "audited d calls (if q_status q \<noteq> PendingReview then fail (AlreadyReviewed rid)
       else obind (grant (approval_grant q rid subject)) (\<lambda>g. record_review rid Approved subject None (Some (g_id g)))) t"
      by (auto intro!: audit.rg_then rg_weaken [OF ledger] audit.rg_guar guar_record_audit)
  qed
  have "audited d calls (approve rid subject) s"
    unfolding approve_def
    by (rule audit.rg_then, rule audit.rg_guar, rule guar_lock_audit)
      (auto intro!: audit.rg_pbind rg_weaken [OF locked] audit.rg_guar audit.guar_obind guar_lock_audit)
  then show "audited d calls (rbind (awaiting (approve rid subject)) (\<lambda>reviewed. Ret (Inr (to_schema_augmentation_request reviewed)))) s"
    by (intro audited_await) (erule rg_weaken, simp)
qed

text \<open>A refill, given that the request row is there or not yet; what it grants is at most what the engine approved.\<close>

lemma audited_apply:
  assumes "\<And>t gid now. audit_step d calls s t \<Longrightarrow> grant_checks (new_grant_row gid (refill_grant_request req dec) now) \<Longrightarrow>
    accounted d calls t (new_grant_row gid (refill_grant_request req dec) now)"
  shows "audited d calls (apply_decision req rid dec) s"
proof -
  have "audited d calls (obind (grant (refill_grant_request req dec)) (\<lambda>g. record_decision rid (f g))) s" for f
    by (rule audit.rg_then, rule rg_weaken [OF audited_grant [OF assms]]) (auto intro!: audit.rg_guar guar_record_audit)
  then show ?thesis
    by (auto simp: apply_decision_def intro!: audit.rg_guar guar_record_audit)
qed

lemma audited_refill:
  assumes "sys_ok s" "period_valid (rr_period req)"
    and row: "\<And>t dec gid now. approved_amount_micros dec \<le> rr_requested_amount_micros req \<Longrightarrow>
      grant_checks (new_grant_row gid (refill_grant_request req dec) now) \<Longrightarrow>
      accounted d calls t (new_grant_row gid (refill_grant_request req dec) now)"
  shows "audited d calls (request_refill checks reader engine_allowed_amounts engine_evaluate req) s"
proof -
  have quiet: "guar (audit_step d calls) (find_existing key)" "guar (audit_step d calls) (create (new_refill req))"
    "guar (audit_step d calls) (load_facts checks reader req)" for key
  proof -
    show "guar (audit_step d calls) (find_existing key)"
      by (auto simp: find_existing_def find_by_idempotency_key_def intro!: audit_intros split: option.split)
    show "guar (audit_step d calls) (create (new_refill req))"
      using assms(2) by (intro audit_quiet quiet_ops guar_budget) (simp add: new_refill_def)
    show "guar (audit_step d calls) (load_facts checks reader req)"
      by (intro audit_quiet quiet_ops guar_load_facts)
  qed
  have decide: "audited d calls (decide_refill checks reader engine_evaluate req rid) t"
    if "0 \<le> rr_requested_amount_micros req" for rid t
    unfolding decide_refill_def
    by (rule audit.rg_then, rule audit.rg_guar [OF quiet(3)], intro allI impI, rule audit.rg_pbind, rule audit.rg_observe)
      (auto intro!: audit.rg_guar guar_record_audit audited_apply row rule_engine.approval_bounded that split: sum.split)
  have ok: "engine_ok (live_engine t)" if "audit_step d calls s t" for t
    using that assms(1) by (auto simp: audit_step_def system_step_def sys_ok_def policies_ok_def)
  have fresh: "audited d calls (new_request checks reader engine_allowed_amounts engine_evaluate req) t"
    if reached: "audit_step d calls s t" for t
    unfolding new_request_def
  proof (rule audit.rg_then, rule audit.rg_observe, intro allI impI)
    fix t1 t2 w offered
    assume steps: "audit_step d calls t t1" "audit_step d calls t1 t2"
      and off: "(Inr (engine_allowed_amounts (live_engine t1)) :: int list bresult) = Inr offered"
    have pos: "0 \<le> rr_requested_amount_micros req" if "rr_requested_amount_micros req \<in> set offered"
      using rule_engine.offered_positive [OF ok [OF audit.trans [OF reached steps(1)]]] that off by force
    show "audited d calls (if rr_requested_amount_micros req \<notin> set offered
        then fail (AmountNotOffered (rr_requested_amount_micros req))
        else obind (create (new_refill req)) (\<lambda>created. decide_refill checks reader engine_evaluate req (q_id created))) t2"
      by (auto intro!: audit.rg_then audit.rg_guar [OF quiet(2)] decide pos)
  qed
  show ?thesis
    unfolding request_refill_def
    by (rule audit.rg_then, rule audit.rg_guar_track [OF quiet(1)]) (auto intro: fresh split: option.split)
qed

lemma audited_request_refill:
  assumes "(ctx, RequestBudgetRefill input) \<in> set calls" "sys_ok s"
  shows "audited d calls (request_budget_refill d ctx input) s"
  unfolding request_budget_refill_def
proof (rule audited_with_subject, rule audited_await, simp, intro allI impI)
  fix subject t period
  assume subject: "subject_from_ctx ctx = Some subject" and reached: "audit_step d calls s t"
    and per: "period_parse (ri_period input) = Inr period"
  let ?req = "\<lambda>as_of amount. \<lparr>rr_budget_account_id = ri_budgetAccountId input, rr_account_id = ri_accountId input,
               rr_project_id = ri_projectId input, rr_period = period,
               rr_idempotency_key = ri_idempotencyKey input, rr_as_of = as_of,
               rr_requested_amount_micros = amount\<rparr>"
  have refill: "audited d calls (request_refill (d_checks d) (d_reader d) engine_allowed_amounts engine_evaluate (?req as_of amount)) t'"
    if amount: "parse_i64 (str_trim (ri_requestedAmountMicros input)) = Some amount" and "audit_step d calls t t'" for as_of amount t'
  proof (rule audited_refill)
    show "sys_ok t'"
      using audit.trans [OF reached that(2)] assms(2) by (simp add: audit_step_def system_step_def)
    show "period_valid (rr_period (?req as_of amount))" using period_parse_valid [OF per] by simp
    show "accounted d calls u (new_grant_row gid (refill_grant_request (?req as_of amount) dec) now)"
      if "approved_amount_micros dec \<le> rr_requested_amount_micros (?req as_of amount)"
        and "grant_checks (new_grant_row gid (refill_grant_request (?req as_of amount) dec) now)" for u dec gid now
      using that amount subject period_parse_valid [OF per]
      by (intro accounted_by [OF assms(1)]) (simp add: refill_grant_request_def grant_checks_def amount_sign_check_def)
  qed
  show "audited d calls (rbind (parse_amount ''requestedAmountMicros'' (str_trim (ri_requestedAmountMicros input)) (ri_requestedAmountMicros input)) (\<lambda>amount.
     rbind (awaiting utc_now) (\<lambda>as_of.
     rbind (awaiting (request_refill (d_checks d) (d_reader d) engine_allowed_amounts engine_evaluate (?req as_of amount))) (\<lambda>created.
     Ret (Inr (to_schema_augmentation_request created)))))) t"
  proof (cases "parse_i64 (str_trim (ri_requestedAmountMicros input))")
    case (Some amount)
    show ?thesis
      by (simp add: parse_amount_def rbind_def [of "Ret _"] Some)
        (rule audited_await, rule audit.rg_guar_track [OF audit.guar_utc_now], intro allI impI,
          rule audited_await, rule rg_weaken [OF refill [OF Some]], simp_all)
  qed (simp add: parse_amount_def rbind_def)
qed

lemma audited_guar: "guar (audit_step d calls) p \<Longrightarrow> audited d calls p s"
  by (erule audit.rg_guar) simp

lemma serve_audited:
  assumes "(ctx, call) \<in> set calls" "sys_ok s" "jsonb_faithful (d_parse d) (d_jsonb d)"
  shows "audited d calls (serve d ctx call) s"
  using assms(1)
  by (cases call)
    (auto intro!: audited_replying intro: audited_grant_budget audited_revoke audited_approve
      audited_request_refill [OF _ assms(2)] audited_guar guar_reads_audit guar_policy_audit [OF assms(3)] guar_reject_audit)

lemma audit_pool:
  assumes "pool_reach allowed (initial (map (\<lambda>(ctx, call). serve d ctx call) calls) s) c"
    and "sys_ok s" "jsonb_faithful (d_parse d) (d_jsonb d)"
  shows "audit_step d calls s (store c)"
  by (rule audit.rg_initial [OF assms(1)]) (auto intro: serve_audited [OF _ assms(2,3)])

subsection \<open>The server under load\<close>

text \<open>C3 (system invariant). Whatever calls of whatever callers are served at the same time, however their statements interleave, whichever
  messages are lost and whichever threads crash or lose their lock: the keys, checks and references of ledger, request table and policy tables keep holding, balances
  keep adding up, the live engine runs a validated policy, no request changes what was asked for, no policy
  revision is lost or changed, and every revision added is a valid one. Nothing is assumed of the revisions already stored.\<close>

theorem server_keeps_invariants:
  assumes "pool_reach allowed (initial (map (\<lambda>(ctx, call). serve d ctx call) calls) s) c"
    and "sys_ok s" "jsonb_faithful (d_parse d) (d_jsonb d)"
  shows "sys_ok (store c) \<and> requests_kept (requests s) (requests (store c)) \<and>
    (\<exists>new. policy_revisions (store c) = policy_revisions s @ new \<and> (\<forall>r\<in>set new. revision_ok (d_parse d) r))"
  using audit_pool [OF assms] assms(2) by (simp add: audit_step_def system_step_def)

text \<open>C2 (audit trail). Under the same conditions the ledger only grows, and every row added is accounted for by a call that was made: an admin grant of the
  amount asked for, signed by the caller; the negation of an existing grant, signed by the caller, under its revocation key; the amount
  of the reviewed request, signed by the reviewer; or a self-service grant of at most the amount requested.\<close>

theorem ledger_accounted_for:
  assumes "pool_reach allowed (initial (map (\<lambda>(ctx, call). serve d ctx call) calls) s) c"
    and "sys_ok s" "jsonb_faithful (d_parse d) (d_jsonb d)"
  shows "\<exists>new. grants (store c) = grants s @ new \<and>
    (\<forall>r\<in>set new. \<exists>(ctx, call)\<in>set calls. pays_for d (store c) ctx call r)"
  using audit_pool [OF assms] by (simp add: audit_step_def accounted_def)

subsection \<open>Permissions\<close>

text \<open>The permission behind each kind of ledger row the server writes.\<close>

definition source_permission :: "string \<Rightarrow> permission option" where
  "source_permission src =
     map_of [(''admin'', BudgetGrant), (''correction'', BudgetRevoke), (''manual_approval'', BudgetReview),
             (''self_service'', BudgetSelfRefill)] src"

definition admitted :: "bearer_service \<Rightarrow> cs_context \<times> budget_call \<Rightarrow> bool" where
  "admitted bearer request =
     (\<exists>path header. authenticate bearer Budget path header = Inr (fst request) \<and>
        procedure_allowed (fst request) (op_of (snd request)))"

lemma required_of_call:
  "required_permission (op_of call) = Some p \<Longrightarrow> pays_for d s ctx call r \<Longrightarrow> source_permission (g_source r) = Some p"
  by (cases call) (auto simp: required_iff required_arms_def source_permission_def pays_def)

lemma admitted_pays:
  assumes "admitted bearer (ctx, call)" "pays_for d s ctx call r"
  shows "\<exists>token info p. bearer token = Inr info \<and> active_token info \<and>
    source_permission (g_source r) = Some p \<and> has_permission info p \<and>
    (g_source r = ''self_service'' \<or> g_actor_id r = Some (sub info))"
proof -
  from assms(1) obtain path header where auth: "authenticate bearer Budget path header = Inr ctx"
    and allowed: "procedure_allowed ctx (op_of call)" by (auto simp: admitted_def)
  from auth obtain token info where token: "bearer token = Inr info" "active_token info" "ctx = build_context info Budget"
    by (rule authenticate_Inr)
  with allowed obtain p where p: "required_permission (op_of call) = Some p" "has_permission info p"
    by (auto simp: procedure_allowed_iff)
  have "g_source r = ''self_service'' \<or> g_actor_id r = Some (sub info)"
    using assms(2) token(3) by (cases call) (auto simp: subject_of_context)
  with token p required_of_call [OF p(1) assms(2)] show ?thesis by blast
qed

text \<open>C1 (permission for every row). When every call was admitted by the auth provider and its schema policy, each row the server adds to the ledger, in
  any interleaving and with any failures, stands for an active token that holds the permission for that kind of row; and
  except for self-service grants the row names that token's subject as the actor.\<close>

theorem ledger_rows_permitted:
  assumes "pool_reach allowed (initial (map (\<lambda>(ctx, call). serve d ctx call) calls) s) c"
    and "sys_ok s" "jsonb_faithful (d_parse d) (d_jsonb d)" "\<forall>request\<in>set calls. admitted bearer request"
  shows "\<exists>new. grants (store c) = grants s @ new \<and>
    (\<forall>r\<in>set new. \<exists>token info p. bearer token = Inr info \<and> active_token info \<and>
       source_permission (g_source r) = Some p \<and> has_permission info p \<and>
       (g_source r = ''self_service'' \<or> g_actor_id r = Some (sub info)))"
proof -
  from audit_pool [OF assms(1-3)] obtain new where new: "grants (store c) = grants s @ new"
    and acc: "\<forall>r\<in>set new. accounted d calls (store c) r" by (auto simp: audit_step_def)
  have "\<exists>token info p. bearer token = Inr info \<and> active_token info \<and>
       source_permission (g_source r) = Some p \<and> has_permission info p \<and>
       (g_source r = ''self_service'' \<or> g_actor_id r = Some (sub info))" if "r \<in> set new" for r
  proof -
    from acc that obtain ctx call where "(ctx, call) \<in> set calls" "pays_for d (store c) ctx call r"
      by (auto simp: accounted_def)
    with admitted_pays assms(4) show ?thesis by blast
  qed
  with new show ?thesis by blast
qed

subsection \<open>Evaluations\<close>

definition an_admin :: token_info where
  "an_admin = \<lparr>active_token = True, sub = ''root'', exp_at = 0, aud = [], roles = [], permissions = set permission_all,
     caller_kind = None, access_token = ''t''\<rparr>"

definition demo_deps :: deps where
  "demo_deps = \<lparr>d_checks = True, d_reader = (\<lambda>_ _ _. Inr Unavailable), d_parse = by_name,
     d_parse_facts = (\<lambda>_. Inl ''expected value''), d_jsonb = Some\<rparr>"

definition demo_input :: grant_input where
  "demo_input = \<lparr>gi_budgetAccountId = ''alice'', gi_accountId = ''alice'', gi_projectId = None,
     gi_period = ''2026-08'', gi_amountMicros = ''5'', gi_reason = None, gi_idempotencyKey = Some ''k1''\<rparr>"

definition demo_calls :: "(cs_context \<times> budget_call) list" where
  "demo_calls = [(build_context an_admin Budget, GrantBudget demo_input)]"

lemma demo_system_ok: "sys_ok demo_policies" "jsonb_faithful (d_parse demo_deps) (d_jsonb demo_deps)"
proof -
  have "ledger_ok demo_policies"
    by (rule ledger_frame [OF demo_ledger_ok]) (simp_all add: demo_policies_def)
  moreover have "requests_ok demo_policies"
    by (simp add: requests_ok_def demo_policies_def demo_sys_simps unique_keys_def)
  ultimately show "sys_ok demo_policies" "jsonb_faithful (d_parse demo_deps) (d_jsonb demo_deps)"
    using demo_policies_ok(1) by (simp_all add: sys_ok_def demo_deps_def by_name_faithful)
qed

lemma demo_no_grants: "grants demo_policies = []"
  by (simp add: demo_policies_def demo_sys_simps)

text \<open>The one call of the example, run to its end: it adds one row.\<close>

lemma demo_served:
  obtains c where "pool_reach (orderly delivered) (initial (map (\<lambda>(ctx, call). serve demo_deps ctx call) demo_calls) demo_policies) c"
    "grants (store c) = [new_grant_row ''g1'' (admin_grant demo_input aug_2026 5 ''root'') 50]"
proof -
  let ?req = "admin_grant demo_input aug_2026 5 ''root''"
  let ?row = "new_grant_row ''g1'' ?req 50"
  have able: "grantable ?req demo_policies"
    by (simp add: grantable_def admin_grant_def demo_input_def demo_policies_def demo_sys_simps sign_is_valid_def fk_ok_def key_taken_def
        balance_fits_def bump_balance_def zero_balance_def i64_simps aug_2026_valid)
  obtain s' where run: "run (grant ?req) (fair 50 ''g1'') 0 demo_policies = (grant_try_from ?row, Suc 0, s')"
    "recorded ?req 50 demo_policies ?row s'"
    using grant_fresh [OF calm_fair able, of 50 "''g1''" 0] by (auto simp: demo_policies_def demo_sys_simps key_taken_def)
  have amount: "parse_i64 (str_trim (gi_amountMicros demo_input)) = Some 5"
    by (simp add: demo_input_def str_trim_def trim_left_stop utf8_whitespace_def parse_i64_def is_digit_def dec_value_def digit_val_def i64_simps)
  have period: "period_parse (gi_period demo_input) = Inr aug_2026"
    using aug_2026_valid by (simp add: period_valid_def aug_2026_def demo_input_def)
  have call: "serve demo_deps (build_context an_admin Budget) (GrantBudget demo_input) =
      pbind (grant ?req) (\<lambda>r. Ret (case r of Inl e \<Rightarrow> Inl (budget_error_to_cratestack_error e)
        | Inr g \<Rightarrow> Inr (GrantReply (to_schema_budget_grant_entry g))))"
    by (auto simp: grant_budget_def with_subject_def subject_of_context an_admin_def await_pbind period parse_amount_def amount
        rbind_def [of "Ret _"] replying_def pbind_assoc intro!: arg_cong [where f = "pbind (grant ?req)"] split: sum.split)
  have "lock_free (grant ?req)"
    by (auto simp: grant_def transaction_def intro!: lock_free_obind)
  then have free: "lock_free (serve demo_deps (build_context an_admin Budget) (GrantBudget demo_input))"
    unfolding call by (rule lock_free_pbind) simp
  have "\<exists>a n'. run (serve demo_deps (build_context an_admin Budget) (GrantBudget demo_input)) (fair 50 ''g1'') 0 demo_policies = (a, n', s')"
    unfolding call by (simp add: run_pbind run(1))
  then obtain a n' where whole: "run (serve demo_deps (build_context an_admin Budget) (GrantBudget demo_input)) (fair 50 ''g1'') 0 demo_policies = (a, n', s')"
    by blast
  have "delivered (fair 50 ''g1'' j)" for j by (simp add: delivered_def)
  from pool_alone [where W = delivered, OF free whole this] that [of "\<lparr>threads = [Some (Ret a)], held = (\<lambda>_. None), store = s'\<rparr>"] run(2)
  show thesis by (simp add: demo_calls_def recorded_def demo_policies_def demo_sys_simps)
qed

theorem no_subject_no_effect_witness:
  "subject_from_ctx \<lparr>auth_fields = [], extensions = []\<rparr> = None \<and>
   serve demo_deps \<lparr>auth_fields = [], extensions = []\<rparr> (GrantBudget demo_input) = Ret (Inl (CsUnauthorized ''missing subject''))"
  using no_subject_no_effect [of "\<lparr>auth_fields = [], extensions = []\<rparr>" demo_deps "GrantBudget demo_input"]
  by (simp add: subject_from_ctx_def auth_field_def)

theorem server_keeps_invariants_witness:
  "\<exists>c. pool_reach (orderly delivered) (initial (map (\<lambda>(ctx, call). serve demo_deps ctx call) demo_calls) demo_policies) c \<and>
     grants (store c) \<noteq> [] \<and> sys_ok (store c) \<and>
     requests_kept (requests demo_policies) (requests (store c)) \<and>
     (\<exists>new. policy_revisions (store c) = policy_revisions demo_policies @ new \<and> list_all (revision_ok (d_parse demo_deps)) new)"
proof -
  obtain c where c: "pool_reach (orderly delivered) (initial (map (\<lambda>(ctx, call). serve demo_deps ctx call) demo_calls) demo_policies) c"
    "grants (store c) = [new_grant_row ''g1'' (admin_grant demo_input aug_2026 5 ''root'') 50]" by (rule demo_served)
  with server_keeps_invariants [OF c(1) demo_system_ok] show ?thesis by (auto simp: list_all_iff)
qed

theorem ledger_accounted_for_witness:
  "\<exists>c. pool_reach (orderly delivered) (initial (map (\<lambda>(ctx, call). serve demo_deps ctx call) demo_calls) demo_policies) c \<and>
     (\<exists>r. grants (store c) = [r] \<and> g_amount_micros r = 5 \<and>
       (\<exists>(ctx, call)\<in>set demo_calls. pays_for demo_deps (store c) ctx call r))"
proof -
  obtain c where c: "pool_reach (orderly delivered) (initial (map (\<lambda>(ctx, call). serve demo_deps ctx call) demo_calls) demo_policies) c"
    "grants (store c) = [new_grant_row ''g1'' (admin_grant demo_input aug_2026 5 ''root'') 50]" by (rule demo_served)
  let ?r = "new_grant_row ''g1'' (admin_grant demo_input aug_2026 5 ''root'') 50"
  have "g_amount_micros ?r = 5" by (simp add: admin_grant_def)
  with ledger_accounted_for [OF c(1) demo_system_ok] c show ?thesis
    by (intro exI [of _ c] conjI exI [of _ ?r]) (simp_all add: demo_no_grants)
qed

theorem ledger_rows_permitted_witness:
  "\<exists>c r token info p. pool_reach (orderly delivered) (initial (map (\<lambda>(ctx, call). serve demo_deps ctx call) demo_calls) demo_policies) c \<and>
     grants (store c) = [r] \<and> (Inr an_admin :: (string, token_info) result) = Inr info \<and> active_token info \<and>
     source_permission (g_source r) = Some p \<and> has_permission info p \<and>
     (g_source r = ''self_service'' \<or> g_actor_id r = Some (sub info))"
proof -
  obtain c where c: "pool_reach (orderly delivered) (initial (map (\<lambda>(ctx, call). serve demo_deps ctx call) demo_calls) demo_policies) c"
    "grants (store c) = [new_grant_row ''g1'' (admin_grant demo_input aug_2026 5 ''root'') 50]" by (rule demo_served)
  have held: "has_permission an_admin BudgetGrant"
    by (simp add: has_permission_def an_admin_def permission_all_complete)
  have trim: "str_trim ''Bearer t'' = ''Bearer t''" "str_trim ''t'' = ''t''"
    by (simp_all add: str_trim_def trim_left_stop utf8_whitespace_def)
  have "authenticate (\<lambda>_. Inr an_admin) Budget ''/rpc/procedure.grantBudget'' (Some ''Bearer t'') = Inr (build_context an_admin Budget)"
    using held
    by (simp add: authenticate_def op_id_from_path_def starts_with_def BATCH_OP_ID_def extract_bearer_def strip_prefix_def
        is_budget_op_id_def required_permission_def required_arms_def trim Let_def) (simp add: an_admin_def)
  moreover have "procedure_allowed (build_context an_admin Budget) ''procedure.grantBudget''"
    using held by (simp add: procedure_allowed_iff starts_with_def is_budget_op_id_def required_permission_def required_arms_def)
  ultimately have adm: "\<forall>request\<in>set demo_calls. admitted (\<lambda>_. Inr an_admin) request"
    by (auto simp: demo_calls_def admitted_def)
  from ledger_rows_permitted [OF c(1) demo_system_ok adm] c(2) have "\<exists>token info p. (Inr an_admin :: (string, token_info) result) = Inr info \<and>
      active_token info \<and> source_permission (g_source (hd (grants (store c)))) = Some p \<and> has_permission info p \<and>
      (g_source (hd (grants (store c))) = ''self_service'' \<or> g_actor_id (hd (grants (store c))) = Some (sub info))"
    by (simp add: demo_no_grants)
  with c show ?thesis by fastforce
qed

end
