(* ===== verification/Budget_Service.thy ===== *)
theory Budget_Service
  imports Budget_System Paging
begin

text \<open>
  What single calls of the budget server promise their callers: reads of one's own budget depend on
  one's own rows only, pages are bounded, and revoking a grant takes effect exactly once however
  often it is retried, unless its idempotency key is already in use.
\<close>

subsection \<open>Reading one's own budget\<close>

text \<open>A program that changes nothing and sees no more of the state than \<open>view\<close>.\<close>

definition reads_only :: "('s \<Rightarrow> 'v) \<Rightarrow> ('s, 'a) prog \<Rightarrow> bool" where
  "reads_only view p \<longleftrightarrow>
     (\<forall>env n s s'. view s = view s' \<longrightarrow> (\<exists>a n'. run p env n s = (a, n', s) \<and> run p env n s' = (a, n', s')))"

lemma reads_only_Ret: "reads_only view (Ret a)"
  by (simp add: reads_only_def)

lemma reads_only_observe:
  assumes "\<And>w s s'. view s = view s' \<Longrightarrow> f w s = f w s'"
  shows "reads_only view (observe f)"
  unfolding reads_only_def run_observe using assms by blast

lemma reads_only_query:
  fixes q :: "'s \<Rightarrow> (string, 'b) result"
  assumes "\<And>s s'. view s = view s' \<Longrightarrow> q s = q s'"
  shows "reads_only view (query q)"
proof -
  define answer where "answer = (\<lambda>(w :: weather) r. case o_net (w 0) of
      Refused \<Rightarrow> Inl (StorageFailed ''connection refused'')
    | Lost \<Rightarrow> Inl (StorageFailed ''connection lost'')
    | Delivered \<Rightarrow> map_err StorageFailed (r :: (string, 'b) result))"
  have run: "run (query q) env n s = (answer (env n) (q s), Suc n, s)" for env n s
    by (cases "q s") (auto simp: answer_def query_def stmt_def run_atomic split: delivery.split)
  show ?thesis
    unfolding reads_only_def run
  proof (intro allI impI)
    fix env :: "nat \<Rightarrow> weather" and n s s'
    assume "view s = view s'"
    then have "q s = q s'" by (rule assms)
    then show "\<exists>a n'. (answer (env n) (q s), Suc n, s) = (a, n', s) \<and> (answer (env n) (q s'), Suc n, s') = (a, n', s')"
      by simp
  qed
qed

lemma reads_onlyE:
  assumes "reads_only view p" "view s = view s'"
  obtains a n' where "run p env n s = (a, n', s)" "run p env n s' = (a, n', s')"
  using assms unfolding reads_only_def by blast

lemma reads_only_pbind:
  assumes "reads_only view p" "\<And>a. reads_only view (k a)"
  shows "reads_only view (pbind p k)"
  unfolding reads_only_def
proof (intro allI impI)
  fix env n s s'
  assume same: "view s = view s'"
  from reads_onlyE [OF assms(1) same] obtain a n1 where p: "run p env n s = (a, n1, s)" "run p env n s' = (a, n1, s')" .
  from reads_onlyE [OF assms(2) same] obtain b n2 where "run (k a) env n1 s = (b, n2, s)" "run (k a) env n1 s' = (b, n2, s')" .
  with p show "\<exists>a n'. run (pbind p k) env n s = (a, n', s) \<and> run (pbind p k) env n s' = (a, n', s')"
    by (simp add: run_pbind)
qed

lemma reads_only_obind: "reads_only view p \<Longrightarrow> (\<And>a. reads_only view (k a)) \<Longrightarrow> reads_only view (obind p k)"
  unfolding obind_def by (intro reads_only_pbind) (auto intro: reads_only_Ret split: sum.split)

lemma reads_only_rpc:
  "reads_only view m \<Longrightarrow> reads_only view (awaiting m)"
  "reads_only view m' \<Longrightarrow> (\<And>a. reads_only view (k a)) \<Longrightarrow> reads_only view (rbind m' k)"
  "reads_only view m'' \<Longrightarrow> reads_only view (replying wrap m'')"
  unfolding awaiting_def rbind_def replying_def
  by (auto intro!: reads_only_pbind reads_only_Ret split: sum.split)

lemmas reads_only_intros = reads_only_Ret reads_only_observe reads_only_query reads_only_pbind reads_only_obind reads_only_rpc

fun own_read :: "budget_call \<Rightarrow> bool" where
  "own_read (GetMyBudgetBalance _) = True"
| "own_read (ListMyBudgetGrants _ _ _) = True"
| "own_read (ListMyAugmentationRequests _ _) = True"
| "own_read _ = False"

definition own_rows :: "string \<Rightarrow> sys \<Rightarrow> grant_row list \<times> balance_row list \<times> request_row list" where
  "own_rows acct s =
     (filter (\<lambda>r. g_budget_account_id r = acct) (grants s), filter (\<lambda>b. b_budget_account_id b = acct) (balances s),
      filter (\<lambda>q. q_budget_account_id q = acct) (requests s))"

lemma own_balance: "find (balance_at acct per) (balances s) = find (balance_at acct per) (fst (snd (own_rows acct s)))"
proof -
  have "find (balance_at acct per) bs = find (balance_at acct per) (filter (\<lambda>b. b_budget_account_id b = acct) bs)" for bs
    by (induction bs) (auto simp: balance_at_def)
  then show ?thesis by (simp add: own_rows_def)
qed

lemma own_grants_page:
  "grants_page acct per before lim s =
     limit_rows lim (order_desc g_created_at (filter (\<lambda>r. null_or per (\<lambda>p. g_period r = p) \<and> null_or before (\<lambda>t. g_created_at r < t))
       (fst (own_rows acct s))))"
  by (simp add: grants_page_def own_rows_def conj_ac)

lemma own_history_page:
  "history_page acct before lim s =
     limit_rows lim (order_desc q_created_at (filter (\<lambda>r. null_or before (\<lambda>t. q_created_at r < t)) (snd (snd (own_rows acct s)))))"
  by (simp add: history_page_def own_rows_def conj_ac)

lemmas own_defs = get_my_budget_balance_def balance_or_zero_def get_balance_def utc_now_def list_my_budget_grants_def
  list_budget_grants_page_def list_grants_def list_my_augmentation_requests_def list_own_history_def list_by_budget_account_def

lemma own_read_reads_only:
  assumes "own_read call" "subject_from_ctx ctx = Some subject"
  shows "reads_only (own_rows subject) (serve d ctx call)"
  using assms
  by (cases call)
    (auto simp: with_subject_def own_defs Let_def own_balance own_grants_page own_history_page intro!: reads_only_intros split: option.split)

text \<open>C5 (own reads). The answers a caller gets about their own balance, grants and requests are determined by the rows of their own account: two
  states that agree on those give the same answer, whatever the other accounts hold.\<close>

theorem own_reads_see_own_rows:
  assumes "own_read call" "subject_from_ctx ctx = Some subject" "own_rows subject s = own_rows subject s'"
  shows "result_of (serve d ctx call) env s = result_of (serve d ctx call) env s'"
proof -
  obtain a n' where "run (serve d ctx call) env 0 s = (a, n', s)" "run (serve d ctx call) env 0 s' = (a, n', s')"
    using own_read_reads_only [OF assms(1,2)] assms(3) by (rule reads_onlyE)
  then show ?thesis by (simp add: result_of_def)
qed

theorem own_reads_see_own_rows_witness:
  "own_rows ''u1'' demo_sys = own_rows ''u1'' (two_grants 50 60) \<and> grants demo_sys \<noteq> grants (two_grants 50 60) \<and>
   result_of (serve demo_deps (build_context a_reviewer Budget) (ListMyBudgetGrants None None None)) (fair 1 ''x'') demo_sys =
   result_of (serve demo_deps (build_context a_reviewer Budget) (ListMyBudgetGrants None None None)) (fair 1 ''x'') (two_grants 50 60)"
proof -
  have rows: "own_rows ''u1'' demo_sys = own_rows ''u1'' (two_grants 50 60)"
    by (simp add: own_rows_def two_grants_def demo_sys_simps)
  have "subject_from_ctx (build_context a_reviewer Budget) = Some ''u1''"
    by (simp add: subject_of_context a_reviewer_def)
  from own_reads_see_own_rows [OF _ this rows, of "ListMyBudgetGrants None None None"] rows
  show ?thesis by (simp add: two_grants_def demo_sys_simps)
qed

subsection \<open>Pages\<close>

fun page_length :: "reply \<Rightarrow> nat" where
  "page_length (RequestPage p) = length (entries p)"
| "page_length (GrantPage p) = length (entries p)"
| "page_length _ = 0"

definition answers_within :: "('a \<Rightarrow> nat) \<Rightarrow> nat \<Rightarrow> 'a rpc \<Rightarrow> bool" where
  "answers_within sz bound m \<longleftrightarrow> (\<forall>env n s r n' s'. run m env n s = (Inr r, n', s') \<longrightarrow> sz r \<le> bound)"

lemma answers_within_replying:
  "answers_within (\<lambda>a. page_length (wrap a)) 50 m \<Longrightarrow> answers_within page_length 50 (replying wrap m)"
  unfolding answers_within_def replying_def by (fastforce simp: run_pbind split: prod.splits sum.splits)

lemma answers_within_rbind: "(\<And>a. answers_within sz bound (k a)) \<Longrightarrow> answers_within sz bound (rbind m k)"
  unfolding answers_within_def rbind_def by (fastforce simp: run_pbind split: prod.splits sum.splits)

lemma answers_within_subject: "(\<And>a. answers_within sz bound (k a)) \<Longrightarrow> answers_within sz bound (with_subject ctx k)"
  by (auto simp: with_subject_def answers_within_def split: option.splits)

lemma page_sizes:
  "nat (clamp_int 1 MAX_LIST_GRANTS_LIMIT (resolve_budget_grants_page_size lim)) \<le> 50"
  "nat (clamp_int 1 MAX_LIST_REQUESTS_LIMIT (resolve_augmentation_requests_page_size lim)) \<le> 50"
  by (auto simp: clamp_int_def resolve_budget_grants_page_size_def resolve_augmentation_requests_page_size_def
      MAX_LIST_GRANTS_LIMIT_def MAX_LIST_REQUESTS_LIMIT_def MAX_BUDGET_GRANTS_PAGE_SIZE_def DEFAULT_BUDGET_GRANTS_PAGE_SIZE_def
      MAX_AUGMENTATION_REQUESTS_PAGE_SIZE_def DEFAULT_AUGMENTATION_REQUESTS_PAGE_SIZE_def split: option.split)

text \<open>A query for a limited page, converted row by row.\<close>

lemma answers_within_page:
  assumes "nat lim \<le> 50" "\<And>a. sz (wrap a) = length a"
  shows "answers_within sz 50 (rbind (awaiting (obind (query (\<lambda>s. Inr (limit_rows lim (q s)))) (\<lambda>rows.
    Ret (collect_results (map conv rows))))) (\<lambda>a. Ret (Inr (wrap a))))"
  unfolding answers_within_def
proof (intro allI impI)
  fix env n s r n' s'
  assume "run (rbind (awaiting (obind (query (\<lambda>s. Inr (limit_rows lim (q s)))) (\<lambda>rows.
    Ret (collect_results (map conv rows))))) (\<lambda>a. Ret (Inr (wrap a)))) env n s = (Inr r, n', s')"
  then obtain a where a: "r = wrap a" "collect_results (map conv (limit_rows lim (q s))) = Inr a"
    by (auto simp: await_pbind run_pbind run_obind split: prod.splits sum.splits dest!: run_query_Inr)
  then have "length a = length (limit_rows lim (q s))"
    unfolding collect_results_Inr_iff by (metis length_map)
  with assms a show "sz r \<le> 50" by (simp add: limit_rows_def)
qed

text \<open>(page size). No call, with any limit and in any weather, returns more than fifty entries.\<close>

theorem pages_bounded:
  assumes "result_of (serve d ctx call) env s = Inr r"
  shows "page_length r \<le> 50"
proof -
  have zero: "answers_within (\<lambda>_. 0) 50 m" for m :: "'a rpc" by (simp add: answers_within_def)
  have "answers_within page_length 50 (serve d ctx call)"
    by (cases call)
      (auto intro!: answers_within_replying zero simp: list_pending_augmentation_requests_def list_my_augmentation_requests_def
        list_my_budget_grants_def list_budget_grants_def list_budget_grants_page_def list_pending_def list_pending_review_def
        list_own_history_def list_by_budget_account_def list_grants_def Let_def pending_page_def history_page_def grants_page_def
        to_schema_augmentation_request_page_def
        intro!: answers_within_subject answers_within_rbind [where m = "awaiting (Ret _)"] answers_within_page page_sizes)
  moreover obtain n' s' where "run (serve d ctx call) env 0 s = (Inr r, n', s')"
    using assms by (cases "run (serve d ctx call) env 0 s") (simp add: result_of_def)
  ultimately show ?thesis unfolding answers_within_def by blast
qed

theorem pages_bounded_witness:
  "\<exists>r. result_of (serve demo_deps (build_context a_reviewer Budget) (ListBudgetGrants ''alice'' None None (Some 1000))) (fair 1 ''x'')
     (two_grants 50 60) = Inr r \<and> page_length r \<le> 50"
proof -
  have "subject_from_ctx (build_context a_reviewer Budget) = Some ''u1''"
    by (simp add: subject_of_context a_reviewer_def)
  moreover have "\<not> is_err (result_of (list_grants ''alice'' None None 50) (fair 1 ''x'') (two_grants 50 60))"
    by (subst list_grants_answer) (auto simp: two_grants_def demo_grant_converts)
  then obtain xs n' s' where "run (list_grants ''alice'' None None 50) (fair 1 ''x'') 0 (two_grants 50 60) = (Inr xs, n', s')"
    by (cases "run (list_grants ''alice'' None None 50) (fair 1 ''x'') 0 (two_grants 50 60)")
      (auto simp: result_of_def is_err_def split: sum.splits)
  ultimately have "\<exists>r. result_of (serve demo_deps (build_context a_reviewer Budget) (ListBudgetGrants ''alice'' None None (Some 1000))) (fair 1 ''x'')
     (two_grants 50 60) = Inr r"
    by (simp add: list_budget_grants_def with_subject_def list_budget_grants_page_def await_pbind replying_def run_pbind
        result_of_def Let_def resolve_budget_grants_page_size_def clamp_int_def MAX_BUDGET_GRANTS_PAGE_SIZE_def)
  with pages_bounded show ?thesis by blast
qed

subsection \<open>Revoking a grant\<close>

definition corrects :: "grant_row \<Rightarrow> int \<Rightarrow> grant_row \<Rightarrow> bool" where
  "corrects g amount r \<longleftrightarrow>
     g_source r = ''correction'' \<and> g_amount_micros r = amount \<and> g_budget_account_id r = g_budget_account_id g \<and>
     g_period r = g_period g \<and> g_idempotency_key r = Some (''revoke:'' @ g_id g)"

text \<open>The states that any number of attempts to revoke a grant can lead to.\<close>

definition revoking :: "grant_row \<Rightarrow> int \<Rightarrow> sys \<Rightarrow> sys \<Rightarrow> bool" where
  "revoking g amount s0 s \<longleftrightarrow>
     ledger_ok s \<and> accounts s = accounts s0 \<and> g \<in> set (grants s0) \<and>
     \<not> key_taken g_idempotency_key (grants s0) (Some (''revoke:'' @ g_id g)) \<and>
     (s = s0 \<or> (\<exists>r. grants s = grants s0 @ [r] \<and> corrects g amount r))"

lemma revoking_grant: "revoking g amount s0 s \<Longrightarrow> g \<in> set (grants s) \<and> ledger_ok s"
  by (auto simp: revoking_def)

lemma get_grant_cases:
  assumes "run (get_grant_by_id (g_id g)) env n s = (r, n', s')" "ledger_ok s" "g \<in> set (grants s)"
  shows "s' = s" and "r = Inr original \<Longrightarrow> grant_try_from g = Inr original"
proof -
  have "find (\<lambda>r. g_id r = g_id g) (grants s) = Some g"
    using assms(2,3) by (intro find_id) (auto simp: ledger_ok_def grants_ok_def)
  with assms(1) show "s' = s" "r = Inr original \<Longrightarrow> grant_try_from g = Inr original"
    by (auto simp: get_grant_by_id_def run_obind split: prod.splits sum.splits option.splits
        dest: run_query_state run_query_Inr)
qed

lemma boot_known:
  assumes "ledger_ok s" "g \<in> set (grants s)" "gq_budget_account_id req = g_budget_account_id g" "period_str (gq_period req) = g_period g"
  shows "boot req now s = s"
proof -
  have "balances_ok s" using assms(1) by (simp add: ledger_ok_def)
  then obtain b where "b \<in> set (balances s)" "balance_key b = grant_key g" by (rule balance_of_grant [OF _ assms(2)])
  then have "list_ex (balance_at (g_budget_account_id g) (g_period g)) (balances s)"
    by (auto simp: list_ex_iff balance_at_def balance_key_def grant_key_def)
  with assms(3,4) show ?thesis by (simp add: boot_def)
qed

lemma correction_fields:
  assumes "grant_try_from g = Inr original"
  shows "gq_budget_account_id (correction_of original amount gid subject reason) = g_budget_account_id g"
    "period_str (gq_period (correction_of original amount gid subject reason)) = g_period g"
    "period_valid (gq_period (correction_of original amount gid subject reason))"
    "corrects g amount (new_grant_row gid' (correction_of original amount (g_id g) subject reason) now)"
  using grant_try_from_fields [OF assms] assms
  by (auto simp: correction_of_def corrects_def grant_try_from_def res_bind_eq_Inr_conv dest: period_parse_valid)

lemma revoke_step:
  assumes inv: "revoking g amount s0 s" and neg: "neg_i64 (d_checks d) (g_amount_micros g) = Some amount"
    and run: "run (revoke_budget_grant d ctx (g_id g) reason) env n s = (r, n', s')"
  shows "revoking g amount s0 s'"
proof (cases "subject_from_ctx ctx")
  case (Some subject)
  have g: "g \<in> set (grants s)" "ledger_ok s" using revoking_grant [OF inv] by simp_all
  obtain r1 n1 s1 where get: "run (get_grant_by_id (g_id g)) env n s = (r1, n1, s1)"
    by (cases "run (get_grant_by_id (g_id g)) env n s") auto
  note got = get_grant_cases [OF get g(2,1)]
  show ?thesis
  proof (cases r1)
    case (Inl e)
    with run Some get got(1) inv show ?thesis
      by (auto simp: revoke_budget_grant_def with_subject_def await_pbind run_pbind)
  next
    case (Inr original)
    then have conv: "grant_try_from g = Inr original" using got(2) by simp
    let ?req = "correction_of original amount (g_id g) subject reason"
    have amt: "g_amount_micros original = g_amount_micros g" using grant_try_from_fields [OF conv] by simp
    obtain r2 n2 where grant: "run (grant ?req) env n1 s = (r2, n2, s')"
      using run Some get got(1) Inr neg amt
      by (cases "run (grant ?req) env n1 s")
        (auto simp: revoke_budget_grant_def with_subject_def await_pbind run_pbind split: sum.splits)
    then have step: "ledger_ok s'"
      using ledger.run_guar [OF guar_grant grant] g(2) by (simp add: ledger_step_def)
    from grant show ?thesis
    proof (cases rule: run_grant_cases)
      case (replay now row)
      then have "s' = boot ?req now s" by (simp add: replayed_def)
      also have "\<dots> = s" by (rule boot_known [OF g(2,1)]) (rule correction_fields [OF conv])+
      finally show ?thesis using inv by simp
    next
      case (fresh now row)
      then obtain gid where row: "row = new_grant_row gid ?req now" "grants s' = grants s @ [row]"
        "\<not> key_taken g_idempotency_key (grants s) (g_idempotency_key row)" by (auto simp: recorded_def)
      have fix_row: "corrects g amount row" unfolding row(1) by (rule correction_fields [OF conv])
      have "accounts s' = accounts s" using recorded_frame [OF disjI1 [OF fresh(1)]] by simp
      with inv step row fix_row show ?thesis
        by (auto simp: revoking_def corrects_def key_taken_iff)
    qed (use inv in simp)
  qed
qed (use run inv in \<open>simp add: revoke_budget_grant_def with_subject_def\<close>)

lemma revoke_keeps:
  assumes "revoking g amount s0 s" "neg_i64 (d_checks d) (g_amount_micros g) = Some amount"
  shows "revoking g amount s0 (state_of (revoke_budget_grant d ctx (g_id g) reason) env s)"
  using revoke_step [OF assms] by (cases "run (revoke_budget_grant d ctx (g_id g) reason) env 0 s") (auto simp: state_of_def)

interpretation revocations: kept_by "\<lambda>s ((ctx, reason), env). state_of (revoke_budget_grant d ctx (g_id g) reason) env s"
    "\<lambda>s. revoking g amount s0 s \<and> neg_i64 (d_checks d) (g_amount_micros g) = Some amount" for d g amount s0
  by unfold_locales (auto intro: revoke_keeps)

text \<open>With every message delivered, revoking comes down to granting the correction.\<close>

lemma revoke_calm:
  assumes "calm env" "ledger_ok s" "g \<in> set (grants s)" "grant_try_from g = Inr original" "subject_from_ctx ctx = Some subject"
    "neg_i64 (d_checks d) (g_amount_micros g) = Some amount"
  shows "run (revoke_budget_grant d ctx (g_id g) reason) env 0 s =
    (case run (grant (correction_of original amount (g_id g) subject reason)) env 1 s of
       (r, n', s') \<Rightarrow> (case r of Inl e \<Rightarrow> Inl (budget_error_to_cratestack_error e) | Inr c \<Rightarrow> Inr (to_schema_budget_grant_entry c), n', s'))"
proof -
  have "find (\<lambda>r. g_id r = g_id g) (grants s) = Some g"
    using assms(2,3) by (intro find_id) (auto simp: ledger_ok_def grants_ok_def)
  then have "run (get_grant_by_id (g_id g)) env 0 s = (Inr original, 1, s)"
    using assms(4) by (simp add: get_grant_by_id_def run_obind run_query_calm [OF assms(1)])
  then show ?thesis
    using assms(5,6) grant_try_from_fields [OF assms(4)]
    by (simp add: revoke_budget_grant_def with_subject_def await_pbind run_pbind split: prod.split sum.split)
qed

lemma correction_grantable:
  assumes "ledger_ok s" "g \<in> set (grants s)" "grant_try_from g = Inr original" "amount \<noteq> 0" "fits_i64 amount"
    "\<forall>b\<in>set (balances s). balance_key b = grant_key g \<longrightarrow> balance_fits (bump_balance ''correction'' amount 0 b)"
  shows "grantable (correction_of original amount gid subject reason) s"
proof -
  have "grant_fks s g" using assms(1,2) by (auto simp: ledger_ok_def grants_ok_def)
  moreover have "balance_fits (bump_balance ''correction'' amount 0 (zero_balance 0 acct per))" for acct per
    using assms(5) by (simp add: balance_fits_def bump_balance_def zero_balance_def i64_simps)
  ultimately show ?thesis
    using assms(3,4,6) grant_try_from_Inr [OF assms(3)]
    by (auto simp: grantable_def correction_of_def sign_is_valid_def grant_fks_def key_taken_def balance_at_key grant_key_def)
qed

text \<open>C4 (revocation). Revoking a grant again and again, by different callers, with requests, replies and commits lost: once an attempt goes through, the ledger
  holds exactly one new row, which takes back exactly the amount of the grant from the same account and period, so the
  account's budget for the period falls by that amount; and the caller is shown that row. This is from a state in which no row has the
  revocation key of the grant yet, for an amount whose negation fits, and the messages of the last attempt all arrive.\<close>

theorem revoke_retried_exactly_once:
  fixes d :: deps and attempts :: "((cs_context \<times> string) \<times> (nat \<Rightarrow> weather)) list"
  assumes "ledger_ok s" "g \<in> set (grants s)" "\<not> is_err (grant_try_from g)"
    and "\<not> key_taken g_idempotency_key (grants s) (Some (''revoke:'' @ g_id g))"
    and "g_amount_micros g \<noteq> - (2 ^ 63)" "fits_i64 (- g_amount_micros g)"
    and "\<forall>b\<in>set (balances s). balance_key b = grant_key g \<longrightarrow> balance_fits (bump_balance ''correction'' (- g_amount_micros g) 0 b)"
    and "calm env" "subject_from_ctx ctx = Some subject" "o_cuid (env 1 3) \<notin> g_id ` set (grants s)"
  defines "s1 \<equiv> foldl (\<lambda>s ((ctx, reason), env). state_of (revoke_budget_grant d ctx (g_id g) reason) env s) s attempts"
  shows "\<exists>r c. result_of (revoke_budget_grant d ctx (g_id g) reason) env s1 = Inr (to_schema_budget_grant_entry c) \<and>
    grant_try_from r = Inr c \<and> grants (state_of (revoke_budget_grant d ctx (g_id g) reason) env s1) = grants s @ [r] \<and>
    corrects g (- g_amount_micros g) r \<and>
    d_effective_budget_micros (derive_balance (grant_key g) (grants s @ [r])) =
      d_effective_budget_micros (derive_balance (grant_key g) (grants s)) - g_amount_micros g"
proof -
  let ?amount = "- g_amount_micros g"
  have neg: "neg_i64 (d_checks d) (g_amount_micros g) = Some ?amount" using assms(5) by (simp add: neg_i64_def)
  obtain original where conv: "grant_try_from g = Inr original" using assms(3) by (cases "grant_try_from g") auto
  have nonzero: "?amount \<noteq> 0"
    using assms(1,2) by (auto simp: ledger_ok_def grants_ok_def grant_checks_def amount_sign_check_def)
  have "revoking g ?amount s s" using assms(1,2,4) by (simp add: revoking_def)
  with neg revocations.run_keeps [where d = d and g = g and amount = ?amount and ?s0.0 = s, of s attempts]
  have inv: "revoking g ?amount s s1" unfolding s1_def by simp
  let ?req = "correction_of original ?amount (g_id g) subject reason"
  have sum: "d_effective_budget_micros (derive_balance (grant_key g) (grants s @ [r])) =
      d_effective_budget_micros (derive_balance (grant_key g) (grants s)) - g_amount_micros g" if "corrects g ?amount r" for r
    using that by (simp add: derive_balance_append derived_add_def corrects_def grant_key_def)
  note run = revoke_calm [OF assms(8) _ _ conv assms(9) neg]
  have "\<exists>r c n' s'. run (grant ?req) env 1 s1 = (Inr c, n', s') \<and> grant_try_from r = Inr c \<and> grants s' = grants s @ [r] \<and> corrects g ?amount r"
  proof (cases "s1 = s")
    case True
    have able: "grantable ?req s" by (rule correction_grantable [OF assms(1,2) conv nonzero assms(6,7)])
    have key: "\<not> key_taken g_idempotency_key (grants s) (gq_idempotency_key ?req)"
      using assms(4) by (simp add: correction_of_def)
    obtain s' where "run (grant ?req) env 1 s = (grant_try_from (new_grant_row (o_cuid (env 1 3)) ?req (o_now (env 1 0))), Suc 1, s')"
      "recorded ?req (o_now (env 1 0)) s (new_grant_row (o_cuid (env 1 3)) ?req (o_now (env 1 0))) s'"
      by (rule grant_fresh [OF assms(8) able key assms(10)])
    then show ?thesis
      using True grant_try_from_new [OF correction_fields(3) [OF conv]] correction_fields(4) [OF conv]
      by (auto simp: recorded_def)
  next
    case False
    with inv obtain r where r: "grants s1 = grants s @ [r]" "corrects g ?amount r" and ok: "ledger_ok s1" "accounts s1 = accounts s"
      by (auto simp: revoking_def)
    have conv_r: "\<not> is_err (grant_try_from r)"
    proof -
      have "g_period r = g_period g" "g_source r = ''correction''" using r(2) by (simp_all add: corrects_def)
      with conv show ?thesis
        by (auto simp: grant_try_from_def res_bind_eq_Inr_conv is_err_def source_from_str_def split: sum.splits)
    qed
    have "g_budget_account_id g \<in> set (accounts s1)"
      using assms(1,2) ok(2) by (auto simp: ledger_ok_def grants_ok_def grant_fks_def)
    with ok(1) r nonzero have "run (grant ?req) env 1 s1 = (grant_try_from r, Suc 1, boot ?req (o_now (env 1 0)) s1)"
      using correction_fields(1,3) [OF conv]
      by (intro grant_replay [OF assms(8)]) (auto simp: ledger_ok_def correction_of_def sign_is_valid_def corrects_def)
    moreover have "boot ?req (o_now (env 1 0)) s1 = s1"
      using r(1) assms(2) by (intro boot_known [OF ok(1), of g] correction_fields [OF conv]) auto
    ultimately show ?thesis using r conv_r by (cases "grant_try_from r") auto
  qed
  then obtain r c n' s' where out: "run (grant ?req) env 1 s1 = (Inr c, n', s')" "grant_try_from r = Inr c"
    "grants s' = grants s @ [r]" "corrects g ?amount r" by blast
  with run [of s1] revoking_grant [OF inv] sum show ?thesis
    by (auto simp: result_of_def state_of_def)
qed

text \<open>(revocation pre-empted). Idempotency keys are chosen by callers and shared by the whole ledger. If any row, of whatever kind and account, already carries the
  key \<open>revoke:\<close> followed by the id of a grant, revoking that grant reports success, shows that row, and takes nothing back.\<close>

theorem revoke_preempted:
  assumes "ledger_ok s" "g \<in> set (grants s)" "\<not> is_err (grant_try_from g)" "g_amount_micros g \<noteq> - (2 ^ 63)"
    and "r \<in> set (grants s)" "g_idempotency_key r = Some (''revoke:'' @ g_id g)" "grant_try_from r = Inr c"
    and "calm env" "subject_from_ctx ctx = Some subject"
  shows "result_of (revoke_budget_grant d ctx (g_id g) reason) env s = Inr (to_schema_budget_grant_entry c) \<and>
    state_of (revoke_budget_grant d ctx (g_id g) reason) env s = s"
proof -
  let ?amount = "- g_amount_micros g"
  have neg: "neg_i64 (d_checks d) (g_amount_micros g) = Some ?amount" using assms(4) by (simp add: neg_i64_def)
  obtain original where conv: "grant_try_from g = Inr original" using assms(3) by (cases "grant_try_from g") auto
  let ?req = "correction_of original ?amount (g_id g) subject reason"
  have "grants_ok s" using assms(1) by (simp add: ledger_ok_def)
  moreover have "g_budget_account_id g \<in> set (accounts s)" "?amount \<noteq> 0"
    using \<open>grants_ok s\<close> assms(2) by (auto simp: grants_ok_def grant_fks_def grant_checks_def amount_sign_check_def)
  ultimately have "run (grant ?req) env 1 s = (grant_try_from r, Suc 1, boot ?req (o_now (env 1 0)) s)"
    using assms(5,6) correction_fields(1,3) [OF conv]
    by (intro grant_replay [OF assms(8)]) (auto simp: correction_of_def sign_is_valid_def)
  moreover have "boot ?req (o_now (env 1 0)) s = s"
    by (intro boot_known [OF assms(1,2)] correction_fields [OF conv])
  ultimately show ?thesis
    using assms(7) revoke_calm [OF assms(8,1,2) conv assms(9) neg] by (simp add: result_of_def state_of_def)
qed

definition revoking_demo :: sys where
  "revoking_demo = demo_sys\<lparr>grants := [new_grant_row ''g0'' demo_grant 50],
     balances := [bump_balance ''admin'' 15000000 50 (zero_balance 50 ''alice'' ''2026-08'')]\<rparr>"

lemma revoking_demo_ok: "ledger_ok revoking_demo"
proof -
  have "revoking_demo = state_of (grant demo_grant) commit_lost demo_sys"
    by (simp add: state_of_def demo_commit_lost revoking_demo_def)
  then show ?thesis
    using ledger.state_of_guar [OF guar_grant, of demo_sys demo_grant commit_lost] demo_ledger_ok by (simp add: ledger_step_def)
qed

theorem revoke_retried_exactly_once_witness:
  "\<exists>r. corrects (new_grant_row ''g0'' demo_grant 50) (- 15000000) r \<and>
     grants (state_of (revoke_budget_grant demo_deps (build_context an_admin Budget) ''g0'' ''mistake'') (fair 60 ''g1'')
       (foldl (\<lambda>s ((ctx, reason), env). state_of (revoke_budget_grant demo_deps ctx ''g0'' reason) env s) revoking_demo
          [((build_context an_admin Budget, ''again''), commit_lost)])) = [new_grant_row ''g0'' demo_grant 50, r]"
proof -
  let ?g = "new_grant_row ''g0'' demo_grant 50"
  have fits: "\<forall>b\<in>set (balances revoking_demo). balance_key b = grant_key ?g \<longrightarrow> balance_fits (bump_balance ''correction'' (- g_amount_micros ?g) 0 b)"
    by (simp add: revoking_demo_def balance_fits_def bump_balance_def zero_balance_def i64_simps)
  have subject: "subject_from_ctx (build_context an_admin Budget) = Some ''root''"
    by (simp add: subject_of_context an_admin_def)
  from revoke_retried_exactly_once [OF revoking_demo_ok _ _ _ _ _ fits calm_fair subject, where d = demo_deps and reason = "''mistake''"
      and attempts = "[((build_context an_admin Budget, ''again''), commit_lost)]", of 60 "''g1''"]
  show ?thesis
    by (simp add: revoking_demo_def demo_sys_simps demo_grant_converts key_taken_def i64_simps) blast
qed

theorem revoke_preempted_witness:
  "let g = new_grant_row ''g0'' demo_grant 50; r = new_grant_row ''g1'' (demo_grant\<lparr>gq_idempotency_key := Some ''revoke:g0''\<rparr>) 60;
       s = state_of (grant (demo_grant\<lparr>gq_idempotency_key := Some ''revoke:g0''\<rparr>)) (fair 60 ''g1'') revoking_demo in
   grants s = [g, r] \<and> g_amount_micros r = 15000000 \<and>
   state_of (revoke_budget_grant demo_deps (build_context an_admin Budget) ''g0'' ''mistake'') (fair 70 ''g2'') s = s"
proof -
  let ?req = "demo_grant\<lparr>gq_idempotency_key := Some ''revoke:g0''\<rparr>"
  let ?g = "new_grant_row ''g0'' demo_grant 50" and ?r = "new_grant_row ''g1'' (demo_grant\<lparr>gq_idempotency_key := Some ''revoke:g0''\<rparr>) 60"
  let ?s = "state_of (grant ?req) (fair 60 ''g1'') revoking_demo"
  have able: "grantable ?req revoking_demo"
    by (simp add: grantable_def revoking_demo_def demo_grant_def demo_sys_simps sign_is_valid_def fk_ok_def key_taken_def new_grant_row_def
        balance_fits_def bump_balance_def zero_balance_def i64_simps aug_2026_valid)
  obtain s' where s': "run (grant ?req) (fair 60 ''g1'') 0 revoking_demo = (grant_try_from ?r, Suc 0, s')" "recorded ?req 60 revoking_demo ?r s'"
    using grant_fresh [OF calm_fair able, of 60 "''g1''" 0] by (auto simp: revoking_demo_def key_taken_def)
  then have rows: "grants ?s = [?g, ?r]" by (simp add: state_of_def recorded_def revoking_demo_def)
  have ok: "ledger_ok ?s" using ledger.state_of_guar [OF guar_grant] revoking_demo_ok by (simp add: ledger_step_def)
  have conv: "\<exists>c. grant_try_from ?r = Inr c" using grant_try_from_new [of ?req "''g1''" 60] aug_2026_valid by simp
  then obtain c where c: "grant_try_from ?r = Inr c" by blast
  have subject: "subject_from_ctx (build_context an_admin Budget) = Some ''root''"
    by (simp add: subject_of_context an_admin_def)
  have "g_idempotency_key ?r = Some (''revoke:'' @ g_id ?g)" by simp
  from revoke_preempted [OF ok _ _ _ _ this c calm_fair [of 70 "''g2''"] subject, of demo_deps "''mistake''"] rows
  show ?thesis by (simp add: Let_def demo_grant_converts)
qed

end
