(* ===== verification/Tenant_Schema.thy ===== *)
theory Tenant_Schema
  imports Grant_Ledger Bearer
begin

text \<open>
  The shared state of the tenancy services: core/src/dto.rs, the row types of api-key/src/entities and
  the tables the migrations leave behind, with their constraints. As for the budget tables, a row type
  and the domain type it is turned into are instances of one record. The budget tables live in the
  same database: their foreign keys into \<open>accounts\<close> and \<open>projects\<close> have no \<open>ON DELETE\<close> clause, so they are
  part of this state. Decoding and encoding \<open>DefaultLimits\<close> (serde) are fields of the repository.
\<close>

subsection \<open>dto.rs\<close>

datatype resource_status = RsActive | RsSuspended

fun resource_status_to_string :: "resource_status \<Rightarrow> string" where
  "resource_status_to_string RsActive = ''active''"
| "resource_status_to_string RsSuspended = ''suspended''"

definition resource_status_from :: "string \<Rightarrow> resource_status" where
  "resource_status_from s = (if s = ''active'' then RsActive else RsSuspended)"

datatype model_policy = AllowAll | Allowlist | DenyAll

fun model_policy_to_string :: "model_policy \<Rightarrow> string" where
  "model_policy_to_string AllowAll = ''allow_all''"
| "model_policy_to_string Allowlist = ''allowlist''"
| "model_policy_to_string DenyAll = ''deny_all''"

definition model_policy_from :: "string \<Rightarrow> model_policy" where
  "model_policy_from s =
     (if s = ''allow_all'' then AllowAll else if s = ''allowlist'' then Allowlist else DenyAll)"

definition model_policy_parse_strict :: "string \<Rightarrow> model_policy option" where
  "model_policy_parse_strict s =
     (if s = ''allow_all'' then Some AllowAll else if s = ''allowlist'' then Some Allowlist
      else if s = ''deny_all'' then Some DenyAll else None)"

datatype api_key_status = KeyActive | KeyRevoked

fun api_key_status_to_string :: "api_key_status \<Rightarrow> string" where
  "api_key_status_to_string KeyActive = ''active''"
| "api_key_status_to_string KeyRevoked = ''revoked''"

definition api_key_status_from :: "string \<Rightarrow> api_key_status" where
  "api_key_status_from s = (if s = ''revoked'' then KeyRevoked else KeyActive)"

record default_limits =
  requests_per_second :: "int option"
  requests_per_day :: "int option"
  concurrent_requests :: "int option"

record create_project_input =
  cp_name :: string
  cp_allowed_models :: "string list option"
  cp_default_limits :: "default_limits option"
  cp_billing_plan :: string
  cp_billing_identity :: string
  cp_project_quota :: "string option"

record update_project_input =
  up_name :: "string option"
  up_allowed_models :: "string list option option"
  up_default_limits :: "default_limits option"
  up_billing_plan :: "string option"

record resolved_context =
  rc_account_id :: string
  rc_project_id :: string

subsection \<open>Rows\<close>

record 'st account_data =
  ac_id :: string
  ac_default_quota :: "string option"
  ac_status :: 'st
  ac_created_at :: int
  ac_updated_at :: int

type_synonym account_row = "string account_data"
type_synonym account = "resource_status account_data"

record ('m, 'l, 'st, 'mp) project_data =
  pj_id :: string
  pj_account_id :: string
  pj_name :: string
  pj_allowed_models :: "'m option"
  pj_default_limits :: 'l
  pj_billing_plan :: string
  pj_billing_identity :: string
  pj_project_quota :: "string option"
  pj_status :: 'st
  pj_is_default :: bool
  pj_model_policy :: 'mp
  pj_created_at :: int
  pj_updated_at :: int

type_synonym project_row = "(json, json, string, string) project_data"
type_synonym project = "(string list, default_limits option, resource_status, model_policy) project_data"

record member_row =
  pm_project_id :: string
  pm_account_id :: string
  pm_role :: string
  pm_quota_tier :: "string option"
  pm_created_at :: int

record 'st api_key_data =
  ak_id :: string
  ak_project_id :: string
  ak_name :: string
  ak_key_prefix :: string
  ak_key_hash :: string
  ak_created_at :: int
  ak_expires_at :: "int option"
  ak_status :: 'st
  ak_last_used_at :: "int option"
  ak_last_ip :: "string option"
  ak_revoked_at :: "int option"
  ak_billing_plan :: string
  ak_updated_at :: int

type_synonym api_key_row = "string api_key_data"
type_synonym api_key = "api_key_status api_key_data"

text \<open>A row of the table: the columns \<open>ApiKeyRow\<close> selects, the owner and the soft-delete mark.\<close>

record api_key_entry =
  ke_row :: api_key_row
  ke_owner_account_id :: string
  ke_deleted_at :: "int option"

record new_api_key_row =
  nk_id :: string
  nk_project_id :: string
  nk_name :: string
  nk_key_prefix :: string
  nk_key_hash :: string
  nk_created_at :: int
  nk_expires_at :: "int option"
  nk_status :: string
  nk_last_used_at :: "int option"
  nk_last_ip :: "string option"
  nk_revoked_at :: "int option"
  nk_billing_plan :: string

record api_key_validation =
  kv_api_key_id :: string
  kv_key_hash :: string
  kv_project_id :: string
  kv_account_id :: string
  kv_owner_account_id :: string
  kv_owner_role :: "string option"
  kv_owner_quota_tier :: "string option"
  kv_api_key_status :: string
  kv_project_status :: string
  kv_account_status :: string
  kv_expires_at :: "int option"
  kv_effective_status :: string

definition kv_is_active :: "api_key_validation \<Rightarrow> bool" where
  "kv_is_active v \<longleftrightarrow> kv_effective_status v = ''active''"

record refresh_data =
  rt_id :: string
  rt_subject :: string
  rt_account_id :: string
  rt_project_id :: string
  rt_client_id :: string
  rt_token_hash :: string
  rt_scope :: "string option"
  rt_email :: "string option"
  rt_email_verified :: "bool option"
  rt_auth_time :: "int option"
  rt_chain_id :: string
  rt_chain_expires_at :: int
  rt_created_at :: int
  rt_expires_at :: int

text \<open>\<open>NewExchangeRefreshToken\<close> has the columns of \<open>refresh_data\<close>; a row adds its status and last use.\<close>

record refresh_row =
  rt_data :: refresh_data
  rt_status :: string
  rt_last_used_at :: "int option"

record signing_data =
  sk_kid :: string
  sk_algorithm :: string
  sk_private_key_pem :: string
  sk_public_jwk :: json
  sk_created_at :: int

record signing_key_row =
  sk_data :: signing_data
  sk_status :: string
  sk_retired_at :: "int option"

record tenancy =
  t_accounts :: "account_row list"
  t_projects :: "project_row list"
  t_members :: "member_row list"
  t_api_keys :: "api_key_entry list"
  t_refresh_tokens :: "refresh_row list"
  t_signing_keys :: "signing_key_row list"
  t_budget :: sys

record store_repo =
  limits_from_value :: "json \<Rightarrow> default_limits option"
  limits_to_value :: "default_limits \<Rightarrow> json option"

type_synonym 'a store_op = "(tenancy, (core_error, 'a) result) prog"

abbreviation cok :: "'a \<Rightarrow> 'a store_op" where
  "cok a \<equiv> Ret (Inr a)"

abbreviation cfail :: "core_error \<Rightarrow> 'a store_op" where
  "cfail e \<equiv> Ret (Inl e)"

text \<open>Statements of this crate: a database error becomes \<open>Error::SqlxError\<close>, tagged by its SQLSTATE.\<close>

abbreviation sql :: "(int \<Rightarrow> tenancy \<Rightarrow> (string, 'a \<times> tenancy) result) \<Rightarrow> 'a store_op" where
  "sql \<equiv> statement SqlxError"

abbreviation sql_query :: "(tenancy \<Rightarrow> (string, 'a) result) \<Rightarrow> 'a store_op" where
  "sql_query \<equiv> reading SqlxError"

abbreviation sql_tx :: "(int \<Rightarrow> 'a store_op) \<Rightarrow> 'a store_op" where
  "sql_tx \<equiv> transacted SqlxError"

definition or_not_found :: "'a option \<Rightarrow> 'a store_op" where
  "or_not_found x = (case x of None \<Rightarrow> cfail CoreNotFound | Some a \<Rightarrow> cok a)"

subsection \<open>Statements\<close>

definition update_where :: "('r \<Rightarrow> bool) \<Rightarrow> ('r \<Rightarrow> 'r) \<Rightarrow> 'r list \<Rightarrow> 'r list" where
  "update_where P f rows = map (\<lambda>r. if P r then f r else r) rows"

definition updated_row :: "('r \<Rightarrow> bool) \<Rightarrow> ('r \<Rightarrow> 'r) \<Rightarrow> 'r list \<Rightarrow> 'r option" where
  "updated_row P f rows = map_option f (find P rows)"

text \<open>The partial unique index \<open>projects_account_id_default_uidx\<close>: one default project per account.\<close>

definition default_uidx :: "project_row list \<Rightarrow> bool" where
  "default_uidx rows \<longleftrightarrow> distinct (map pj_account_id (filter pj_is_default rows))"

definition coalesce :: "'a option \<Rightarrow> 'a \<Rightarrow> 'a" where
  "coalesce x d = (case x of None \<Rightarrow> d | Some a \<Rightarrow> a)"

definition coalesce_null :: "'a option \<Rightarrow> 'a option \<Rightarrow> 'a option" where
  "coalesce_null x d = (case x of None \<Rightarrow> d | Some a \<Rightarrow> Some a)"

definition page_rows :: "nat \<Rightarrow> nat \<Rightarrow> 'r list \<Rightarrow> 'r list" where
  "page_rows offset limit rows = take limit (drop offset rows)"

definition on_roster :: "string \<Rightarrow> string \<Rightarrow> member_row \<Rightarrow> bool" where
  "on_roster project_id subject m \<longleftrightarrow> pm_project_id m = project_id \<and> pm_account_id m = subject"

text \<open>
  The condition nearly every statement repeats: \<open>projects.account_id = $s OR EXISTS (SELECT 1 FROM
  project_members \<dots>)\<close>.
\<close>

definition visible :: "tenancy \<Rightarrow> string \<Rightarrow> project_row \<Rightarrow> bool" where
  "visible s subject p \<longleftrightarrow>
     pj_account_id p = subject \<or> list_ex (on_roster (pj_id p) subject) (t_members s)"

definition visible_project :: "string \<Rightarrow> string \<Rightarrow> tenancy \<Rightarrow> project_row option" where
  "visible_project subject project_id s =
     find (\<lambda>p. pj_id p = project_id \<and> visible s subject p) (t_projects s)"

definition visible_key :: "string \<Rightarrow> string \<Rightarrow> tenancy \<Rightarrow> api_key_entry \<Rightarrow> bool" where
  "visible_key subject key_id s e \<longleftrightarrow>
     ak_id (ke_row e) = key_id \<and>
     list_ex (\<lambda>p. pj_id p = ak_project_id (ke_row e) \<and> visible s subject p) (t_projects s)"

text \<open>The rows of the budget tables that keep an account or a project from being deleted.\<close>

definition budget_refs_account :: "sys \<Rightarrow> string \<Rightarrow> bool" where
  "budget_refs_account b a \<longleftrightarrow>
     list_ex (\<lambda>g. g_budget_account_id g = a \<or> g_account_id g = a) (grants b) \<or>
     list_ex (\<lambda>r. b_budget_account_id r = a) (balances b) \<or>
     list_ex (\<lambda>q. q_budget_account_id q = a \<or> q_account_id q = a) (requests b)"

definition budget_refs_project :: "sys \<Rightarrow> string \<Rightarrow> bool" where
  "budget_refs_project b p \<longleftrightarrow>
     list_ex (\<lambda>g. g_project_id g = Some p) (grants b) \<or> list_ex (\<lambda>q. q_project_id q = Some p) (requests b)"

text \<open>What \<open>ON DELETE CASCADE\<close> takes away with a set of projects, and with an account.\<close>

definition drop_projects :: "(string \<Rightarrow> bool) \<Rightarrow> tenancy \<Rightarrow> tenancy" where
  "drop_projects gone s = s\<lparr>
     t_projects := filter (\<lambda>p. \<not> gone (pj_id p)) (t_projects s),
     t_members := filter (\<lambda>m. \<not> gone (pm_project_id m)) (t_members s),
     t_api_keys := filter (\<lambda>e. \<not> gone (ak_project_id (ke_row e))) (t_api_keys s)\<rparr>"

definition projects_of :: "string \<Rightarrow> tenancy \<Rightarrow> string list" where
  "projects_of account_id s = map pj_id (filter (\<lambda>p. pj_account_id p = account_id) (t_projects s))"

definition drop_account :: "string \<Rightarrow> tenancy \<Rightarrow> tenancy" where
  "drop_account a s =
     (let s' = drop_projects (\<lambda>pid. pid \<in> set (projects_of a s)) s in
      s'\<lparr>t_accounts := filter (\<lambda>r. ac_id r \<noteq> a) (t_accounts s'),
         t_members := filter (\<lambda>m. pm_account_id m \<noteq> a) (t_members s'),
         t_api_keys := filter (\<lambda>e. ke_owner_account_id e \<noteq> a) (t_api_keys s')\<rparr>)"

text \<open>The budget services see the accounts and projects of the same database.\<close>

definition budget_view :: "tenancy \<Rightarrow> sys" where
  "budget_view s = (t_budget s)\<lparr>accounts := map ac_id (t_accounts s), projects := map pj_id (t_projects s)\<rparr>"

definition put_budget :: "tenancy \<Rightarrow> sys \<Rightarrow> tenancy" where
  "put_budget s b = s\<lparr>t_budget := b\<lparr>accounts := accounts (t_budget s), projects := projects (t_budget s)\<rparr>\<rparr>"

primrec on_budget :: "(sys, 'a) prog \<Rightarrow> (tenancy, 'a) prog" where
  "on_budget (Ret a) = Ret a"
| "on_budget (Act u k) =
     Act (\<lambda>w s. put_budget s (u w (budget_view s))) (\<lambda>w s. on_budget (k w (budget_view s)))"
| "on_budget (Lock l p) = Lock l (on_budget p)"
| "on_budget (Unlock l p) = Unlock l (on_budget p)"

lemma put_budget_view [simp]: "put_budget s (budget_view s) = s"
  by (simp add: put_budget_def budget_view_def)

lemma on_budget_pbind: "on_budget (pbind p k) = pbind (on_budget p) (\<lambda>a. on_budget (k a))"
  by (induction p) auto

subsection \<open>Relations between states of the tenancy\<close>

text \<open>Any relation that allows doing nothing allows what only reads.\<close>

locale tenancy_rely = guarantee R for R :: "tenancy \<Rightarrow> tenancy \<Rightarrow> bool"
begin

lemma guar_budget_query: "guar R (on_budget (reading fails q))"
proof -
  have same: "snd (case o_net w of
        Refused \<Rightarrow> (Inl (fails ''connection refused''), b)
      | Lost \<Rightarrow> (Inl (fails ''connection lost''),
                  case res_bind (q b) (\<lambda>a. Inr (a, b)) of Inl _ \<Rightarrow> b | Inr (a, b') \<Rightarrow> b')
      | Delivered \<Rightarrow> (case res_bind (q b) (\<lambda>a. Inr (a, b)) of
            Inl e \<Rightarrow> (Inl (fails e), b) | Inr (a, b') \<Rightarrow> (Inr a, b'))) = b" for w b
    by (cases "q b") (auto split: delivery.split)
  show ?thesis
    unfolding reading_def statement_def atomic_def by (simp add: same refl)
qed

lemma guar_current_tier: "guar R (on_budget (current_tier acct per))"
  unfolding current_tier_def obind_def on_budget_pbind
  by (rule guar_pbind [OF guar_budget_query]) (simp split: sum.split)

end

interpretation unchanged: tenancy_rely "(=)"
  by unfold_locales auto

end
