(* ===== verification/Tenant_Store.thy ===== *)
theory Tenant_Store
  imports Tenant_Schema "HOL-Library.Char_ord" "HOL-Library.List_Lexorder"
begin

text \<open>
  api-key/src/repo.rs: the operations of \<open>StoreRepo\<close> on accounts, projects, rosters and API keys, one
  definition per method. Each SQL statement is one action; the two methods that open a transaction are
  one action each. \<open>self\<close> is the repository with the serde functions it calls. Text columns are compared bytewise.
\<close>

subsection \<open>Conversions\<close>

definition vec_to_json :: "string list option \<Rightarrow> json option" where
  "vec_to_json values = map_option (\<lambda>v. JArray (map JString v)) values"

definition json_to_vec :: "json option \<Rightarrow> string list option" where
  "json_to_vec value =
     (case value of
        Some (JArray arr) \<Rightarrow> Some (List.map_filter json_as_str arr)
      | _ \<Rightarrow> None)"

definition limits_to_json :: "store_repo \<Rightarrow> default_limits option \<Rightarrow> json" where
  "limits_to_json self limits =
     (case limits of
        Some l \<Rightarrow> (case limits_to_value self l of None \<Rightarrow> JObject [] | Some v \<Rightarrow> v)
      | None \<Rightarrow> JObject [])"

definition json_to_limits :: "store_repo \<Rightarrow> json \<Rightarrow> default_limits option" where
  "json_to_limits self value = (if value = JNull then None else limits_from_value self value)"

definition to_account :: "account_row \<Rightarrow> account" where
  "to_account r = \<lparr>ac_id = ac_id r, ac_default_quota = ac_default_quota r,
     ac_status = resource_status_from (ac_status r), ac_created_at = ac_created_at r, ac_updated_at = ac_updated_at r\<rparr>"

definition to_project :: "store_repo \<Rightarrow> project_row \<Rightarrow> project" where
  "to_project self r = \<lparr>pj_id = pj_id r, pj_account_id = pj_account_id r, pj_name = pj_name r,
     pj_allowed_models = json_to_vec (pj_allowed_models r), pj_default_limits = json_to_limits self (pj_default_limits r),
     pj_billing_plan = pj_billing_plan r, pj_billing_identity = pj_billing_identity r,
     pj_project_quota = pj_project_quota r, pj_status = resource_status_from (pj_status r),
     pj_is_default = pj_is_default r, pj_model_policy = model_policy_from (pj_model_policy r),
     pj_created_at = pj_created_at r, pj_updated_at = pj_updated_at r\<rparr>"

definition to_api_key :: "api_key_row \<Rightarrow> api_key" where
  "to_api_key r = \<lparr>ak_id = ak_id r, ak_project_id = ak_project_id r, ak_name = ak_name r,
     ak_key_prefix = ak_key_prefix r, ak_key_hash = ak_key_hash r, ak_created_at = ak_created_at r,
     ak_expires_at = ak_expires_at r, ak_status = api_key_status_from (ak_status r),
     ak_last_used_at = ak_last_used_at r, ak_last_ip = ak_last_ip r, ak_revoked_at = ak_revoked_at r,
     ak_billing_plan = ak_billing_plan r, ak_updated_at = ak_updated_at r\<rparr>"

definition in_quotes :: "string \<Rightarrow> string" where
  "in_quotes s = CHR 0x27 # s @ [CHR 0x27]"

definition VALID_PROJECT_ROLES :: "string list" where
  "VALID_PROJECT_ROLES = [''lead'', ''member'']"

definition validate_project_role :: "string \<Rightarrow> (core_error, unit) result" where
  "validate_project_role role =
     (if role \<in> set VALID_PROJECT_ROLES then Inr ()
      else Inl (CoreBadRequest (''invalid project role '' @ in_quotes role @ '', must be one of [''
             @ [CHR 0x22] @ ''lead'' @ [CHR 0x22] @ '', '' @ [CHR 0x22] @ ''member'' @ [CHR 0x22] @ '']'')))"

subsection \<open>Authorization\<close>

definition project_member_role :: "string \<Rightarrow> string \<Rightarrow> string option store_op" where
  "project_member_role project_id subject =
     sql_query (\<lambda>s. Inr (map_option pm_role (find (on_roster project_id subject) (t_members s))))"

definition project_account_id :: "string \<Rightarrow> string option store_op" where
  "project_account_id project_id =
     sql_query (\<lambda>s. Inr (map_option pj_account_id (find (\<lambda>p. pj_id p = project_id) (t_projects s))))"

definition authorize_project_lead :: "string \<Rightarrow> string \<Rightarrow> unit store_op" where
  "authorize_project_lead project_id subject =
     obind (project_account_id project_id) (\<lambda>owner.
     case owner of
       None \<Rightarrow> cfail CoreNotFound
     | Some a \<Rightarrow>
         if a = subject then cok ()
         else obind (project_member_role project_id subject) (\<lambda>role.
           case role of
             None \<Rightarrow> cfail CoreNotFound
           | Some r \<Rightarrow>
               if r = ''lead'' then cok ()
               else cfail (CoreForbidden (''only the project'' @ [CHR 0x27] @ ''s account owner or a lead can manage its roster''))))"

subsection \<open>Accounts\<close>

definition load_account_row_optional :: "string \<Rightarrow> account_row option store_op" where
  "load_account_row_optional account_id = sql_query (\<lambda>s. Inr (find (\<lambda>r. ac_id r = account_id) (t_accounts s)))"

definition load_account_row :: "string \<Rightarrow> account_row store_op" where
  "load_account_row account_id = obind (load_account_row_optional account_id) or_not_found"

definition insert_account :: "string \<Rightarrow> string option \<Rightarrow> int \<Rightarrow> tenancy \<Rightarrow> (string, unit \<times> tenancy) result" where
  "insert_account subject quota now s =
     (if list_ex (\<lambda>r. ac_id r = subject) (t_accounts s) then Inl ''23505''
      else Inr ((), s\<lparr>t_accounts := t_accounts s @ [\<lparr>ac_id = subject, ac_default_quota = quota,
             ac_status = ''active'', ac_created_at = now, ac_updated_at = now\<rparr>]\<rparr>))"

definition unique_as_conflict :: "string \<Rightarrow> core_error \<Rightarrow> core_error" where
  "unique_as_conflict msg e = (if e = SqlxError ''23505'' then CoreConflict msg else e)"

definition create_account :: "string \<Rightarrow> string option \<Rightarrow> account store_op" where
  "create_account subject default_quota =
     obind utc_now (\<lambda>now.
     obind (pbind (sql (\<lambda>_ s. insert_account subject default_quota now s)) (\<lambda>r.
              Ret (map_err (unique_as_conflict (''account already exists for subject '' @ in_quotes subject)) r))) (\<lambda>_.
     obind (load_account_row subject) (\<lambda>row. cok (to_account row))))"

definition list_accounts :: "string \<Rightarrow> nat \<Rightarrow> nat \<Rightarrow> account list store_op" where
  "list_accounts subject offset limit =
     obind (sql_query (\<lambda>s. Inr (page_rows offset limit
       (order_asc ac_created_at (filter (\<lambda>r. ac_id r = subject) (t_accounts s)))))) (\<lambda>rows.
     cok (map to_account rows))"

definition get_account :: "string \<Rightarrow> string \<Rightarrow> account option store_op" where
  "get_account subject account_id =
     obind (sql_query (\<lambda>s. Inr (find (\<lambda>r. ac_id r = account_id \<and> ac_id r = subject) (t_accounts s)))) (\<lambda>row.
     cok (map_option to_account row))"

definition get_account_by_id :: "string \<Rightarrow> account option store_op" where
  "get_account_by_id account_id =
     obind (load_account_row_optional account_id) (\<lambda>row. cok (map_option to_account row))"

text \<open>\<open>UPDATE accounts SET \<dots> WHERE id = $a AND id = $s RETURNING \<dots>\<close>, then \<open>ok_or(NotFound)\<close>.\<close>

definition update_own_account :: "string \<Rightarrow> string \<Rightarrow> (account_row \<Rightarrow> account_row) \<Rightarrow> account store_op" where
  "update_own_account subject account_id change =
     obind (sql (\<lambda>_ s.
       let mine = (\<lambda>r. ac_id r = account_id \<and> ac_id r = subject) in
       Inr (updated_row mine change (t_accounts s),
            s\<lparr>t_accounts := update_where mine change (t_accounts s)\<rparr>))) (\<lambda>row.
     obind (or_not_found row) (\<lambda>r. cok (to_account r)))"

definition update_account :: "string \<Rightarrow> string \<Rightarrow> string option \<Rightarrow> account store_op" where
  "update_account subject account_id default_quota =
     obind utc_now (\<lambda>now. update_own_account subject account_id
       (\<lambda>r. r\<lparr>ac_default_quota := coalesce_null default_quota (ac_default_quota r), ac_updated_at := now\<rparr>))"

definition set_account_status :: "string \<Rightarrow> string \<Rightarrow> resource_status \<Rightarrow> account store_op" where
  "set_account_status subject account_id status =
     obind utc_now (\<lambda>now. update_own_account subject account_id
       (\<lambda>r. r\<lparr>ac_status := resource_status_to_string status, ac_updated_at := now\<rparr>))"

definition update_account_default_quota :: "string \<Rightarrow> string \<Rightarrow> string option \<Rightarrow> account store_op" where
  "update_account_default_quota subject account_id default_quota =
     obind utc_now (\<lambda>now. update_own_account subject account_id
       (\<lambda>r. r\<lparr>ac_default_quota := default_quota, ac_updated_at := now\<rparr>))"

definition delete_account :: "string \<Rightarrow> string \<Rightarrow> account store_op" where
  "delete_account subject account_id =
     obind (sql (\<lambda>_ s.
       case find (\<lambda>r. ac_id r = account_id \<and> ac_id r = subject) (t_accounts s) of
         None \<Rightarrow> Inr (None, s)
       | Some r \<Rightarrow>
           if budget_refs_account (t_budget s) account_id \<or>
              list_ex (budget_refs_project (t_budget s)) (projects_of account_id s) then Inl ''23503''
           else Inr (Some r, drop_account account_id s))) (\<lambda>row.
     obind (or_not_found row) (\<lambda>r. cok (to_account r)))"

subsection \<open>Projects\<close>

definition get_project_by_id :: "store_repo \<Rightarrow> string \<Rightarrow> project option store_op" where
  "get_project_by_id self project_id =
     obind (sql_query (\<lambda>s. Inr (find (\<lambda>p. pj_id p = project_id) (t_projects s)))) (\<lambda>row.
     cok (map_option (to_project self) row))"

definition get_project :: "store_repo \<Rightarrow> string \<Rightarrow> string \<Rightarrow> project option store_op" where
  "get_project self subject project_id =
     obind (sql_query (\<lambda>s. Inr (visible_project subject project_id s))) (\<lambda>row.
     cok (map_option (to_project self) row))"

definition list_projects :: "store_repo \<Rightarrow> string \<Rightarrow> string \<Rightarrow> nat \<Rightarrow> nat \<Rightarrow> project list store_op" where
  "list_projects self subject account_id offset limit =
     obind (sql_query (\<lambda>s. Inr (page_rows offset limit (order_asc pj_created_at
       (filter (\<lambda>p. pj_account_id p = account_id \<and> visible s subject p) (t_projects s)))))) (\<lambda>rows.
     cok (map (to_project self) rows))"

text \<open>
  \<open>INSERT INTO projects\<close>. The \<open>BEFORE INSERT\<close> trigger makes an account's first project its default one; what the
  statement sees of the tables (the account, and whether it has a project: \<open>first\<close>) is older than the moment its row goes in,
  when the keys, the index on default projects and the foreign key are checked.
\<close>

definition new_project_row :: "store_repo \<Rightarrow> string \<Rightarrow> create_project_input \<Rightarrow> string \<Rightarrow> int \<Rightarrow> bool \<Rightarrow> project_row" where
  "new_project_row self account_id input new_id now first = \<lparr>pj_id = new_id, pj_account_id = account_id,
     pj_name = cp_name input, pj_allowed_models = vec_to_json (cp_allowed_models input),
     pj_default_limits = limits_to_json self (cp_default_limits input), pj_billing_plan = cp_billing_plan input,
     pj_billing_identity = cp_billing_identity input, pj_project_quota = cp_project_quota input,
     pj_status = ''active'', pj_is_default = first,
     pj_model_policy = ''allow_all'', pj_created_at = now, pj_updated_at = now\<rparr>"

definition insert_project ::
  "store_repo \<Rightarrow> string \<Rightarrow> create_project_input \<Rightarrow> string \<Rightarrow> int \<Rightarrow> bool \<Rightarrow> tenancy \<Rightarrow> (string, project_row option \<times> tenancy) result" where
  "insert_project self account_id input new_id now first s =
     (let row = new_project_row self account_id input new_id now first; rows = t_projects s @ [row] in
      if list_ex (\<lambda>p. pj_id p = new_id \<or> pj_billing_identity p = cp_billing_identity input) (t_projects s) then Inl ''23505''
      else if \<not> default_uidx rows then Inl ''23505''
      else if \<not> list_ex (\<lambda>r. ac_id r = account_id) (t_accounts s) then Inl ''23503''
      else Inr (Some row, s\<lparr>t_projects := rows\<rparr>))"

definition create_project ::
  "store_repo \<Rightarrow> string \<Rightarrow> string \<Rightarrow> create_project_input \<Rightarrow> string \<Rightarrow> project store_op" where
  "create_project self subject account_id input new_id =
     obind utc_now (\<lambda>now.
     obind (pbind (obind (sql_query (\<lambda>s. Inr (
           if list_ex (\<lambda>r. ac_id r = account_id \<and> ac_id r = subject) (t_accounts s)
           then Some (\<not> list_ex (\<lambda>p. pj_account_id p = account_id) (t_projects s)) else None))) (\<lambda>account_auth.
         case account_auth of
           None \<Rightarrow> cok None
         | Some first \<Rightarrow> sql (\<lambda>_. insert_project self account_id input new_id now first))) (\<lambda>r.
       Ret (map_err (unique_as_conflict (''a project with billing identity ''
              @ in_quotes (cp_billing_identity input) @ '' already exists'')) r))) (\<lambda>row.
     obind (or_not_found row) (\<lambda>p. cok (to_project self p))))"

definition find_default_project_id :: "string \<Rightarrow> string option store_op" where
  "find_default_project_id subject = sql_query (\<lambda>s.
     Inr (map_option pj_id (find (\<lambda>p. pj_account_id p = subject \<and> pj_is_default p) (t_projects s))))"

definition resolve_context :: "string \<Rightarrow> string \<Rightarrow> resolved_context store_op" where
  "resolve_context subject project_id =
     obind (sql_query (\<lambda>s. Inr (visible_project subject project_id s))) (\<lambda>row.
     obind (or_not_found row) (\<lambda>p. cok \<lparr>rc_account_id = pj_account_id p, rc_project_id = pj_id p\<rparr>))"

text \<open>\<open>UPDATE projects SET \<dots> WHERE id = $p AND \<langle>visible\<rangle> RETURNING \<dots>\<close>, then \<open>ok_or(NotFound)\<close>.\<close>

definition update_visible_project ::
  "store_repo \<Rightarrow> string \<Rightarrow> string \<Rightarrow> (project_row \<Rightarrow> project_row) \<Rightarrow> project store_op" where
  "update_visible_project self subject project_id change =
     obind (sql (\<lambda>_ s.
       let hit = (\<lambda>p. pj_id p = project_id \<and> visible s subject p) in
       Inr (updated_row hit change (t_projects s),
            s\<lparr>t_projects := update_where hit change (t_projects s)\<rparr>))) (\<lambda>row.
     obind (or_not_found row) (\<lambda>p. cok (to_project self p)))"

definition update_project :: "store_repo \<Rightarrow> string \<Rightarrow> string \<Rightarrow> update_project_input \<Rightarrow> project store_op" where
  "update_project self subject project_id input =
     obind utc_now (\<lambda>now. update_visible_project self subject project_id (\<lambda>p. p\<lparr>
       pj_name := coalesce (up_name input) (pj_name p),
       pj_allowed_models := (case up_allowed_models input of
            None \<Rightarrow> pj_allowed_models p | Some models \<Rightarrow> vec_to_json models),
       pj_default_limits := coalesce (map_option (\<lambda>l. limits_to_json self (Some l)) (up_default_limits input)) (pj_default_limits p),
       pj_billing_plan := coalesce (up_billing_plan input) (pj_billing_plan p),
       pj_updated_at := now\<rparr>))"

definition set_project_status :: "store_repo \<Rightarrow> string \<Rightarrow> string \<Rightarrow> resource_status \<Rightarrow> project store_op" where
  "set_project_status self subject project_id status =
     obind utc_now (\<lambda>now. update_visible_project self subject project_id
       (\<lambda>p. p\<lparr>pj_status := resource_status_to_string status, pj_updated_at := now\<rparr>))"

definition set_project_quota :: "store_repo \<Rightarrow> string \<Rightarrow> string \<Rightarrow> string option \<Rightarrow> project store_op" where
  "set_project_quota self subject project_id project_quota =
     obind utc_now (\<lambda>now. update_visible_project self subject project_id
       (\<lambda>p. p\<lparr>pj_project_quota := project_quota, pj_updated_at := now\<rparr>))"

definition set_project_allowed_models ::
  "store_repo \<Rightarrow> string \<Rightarrow> string \<Rightarrow> string list option \<Rightarrow> project store_op" where
  "set_project_allowed_models self subject project_id allowed_models =
     obind utc_now (\<lambda>now. update_visible_project self subject project_id
       (\<lambda>p. p\<lparr>pj_allowed_models := vec_to_json allowed_models, pj_updated_at := now\<rparr>))"

definition no_models :: "string list option \<Rightarrow> bool" where
  "no_models models \<longleftrightarrow> (case models of None \<Rightarrow> True | Some v \<Rightarrow> v = [])"

definition set_project_model_policy :: "store_repo \<Rightarrow> string \<Rightarrow> string \<Rightarrow> string \<Rightarrow> project store_op" where
  "set_project_model_policy self subject project_id policy = sql_tx (\<lambda>_.
     obind (sql_query (\<lambda>s. Inr (visible_project subject project_id s))) (\<lambda>row.
     obind (or_not_found row) (\<lambda>current.
     if policy = ''allowlist'' \<and> no_models (json_to_vec (pj_allowed_models current))
     then cfail (CoreBadRequest (''cannot set modelPolicy to '' @ in_quotes ''allowlist'' @ '' while allowedModels is empty -- this would silently deny every model; ''
            @ ''populate allowedModels via setProjectAllowedModels first, or use '' @ in_quotes ''deny_all''
            @ '' if blocking every model is actually intended''))
     else obind utc_now (\<lambda>now.
       let hit = (\<lambda>p. pj_id p = project_id);
           change = (\<lambda>p. p\<lparr>pj_model_policy := policy, pj_updated_at := now\<rparr>) in
       obind (sql (\<lambda>_ s.
         if policy \<notin> {''allow_all'', ''allowlist'', ''deny_all''} then Inl ''23514''
         else res_bind (fetch_one (updated_row hit change (t_projects s))) (\<lambda>p.
           Inr (p, s\<lparr>t_projects := update_where hit change (t_projects s)\<rparr>)))) (\<lambda>p.
       cok (to_project self p))))))"

text \<open>
  The transaction of \<open>set_default_project\<close> takes no lock when it reads: the account of the project is read by its first statement,
  the projects to demote (\<open>defaults\<close>) are those its first \<open>UPDATE\<close> sees when it starts. An \<open>UPDATE\<close> that had to wait for
  another transaction tests its condition again on the rows it had picked, but picks no others; the
  index then refuses a second default project.
\<close>

definition demoted :: "string list \<Rightarrow> string \<Rightarrow> string \<Rightarrow> int \<Rightarrow> project_row list \<Rightarrow> project_row list" where
  "demoted defaults account_id project_id now rows = update_where
     (\<lambda>p. pj_id p \<in> set defaults \<and> pj_account_id p = account_id \<and> pj_is_default p \<and> pj_id p \<noteq> project_id)
     (\<lambda>p. p\<lparr>pj_is_default := False, pj_updated_at := now\<rparr>) rows"

definition promote_project :: "string \<Rightarrow> int \<Rightarrow> tenancy \<Rightarrow> (string, project_row \<times> tenancy) result" where
  "promote_project project_id now s =
     (let hit = (\<lambda>p. pj_id p = project_id);
          change = (\<lambda>p. p\<lparr>pj_is_default := True, pj_updated_at := now\<rparr>);
          rows = update_where hit change (t_projects s) in
      res_bind (fetch_one (updated_row hit change (t_projects s))) (\<lambda>p.
      if \<not> default_uidx rows then Inl ''23505'' else Inr (p, s\<lparr>t_projects := rows\<rparr>)))"

definition set_default_project :: "store_repo \<Rightarrow> string \<Rightarrow> string \<Rightarrow> project store_op" where
  "set_default_project self subject project_id =
     obind (sql_query (\<lambda>s. Inr (map_option pj_account_id (visible_project subject project_id s)))) (\<lambda>row.
     obind (or_not_found row) (\<lambda>account_id.
     obind utc_now (\<lambda>now1.
     obind (sql_query (\<lambda>s. Inr (map pj_id (filter
         (\<lambda>p. pj_account_id p = account_id \<and> pj_is_default p \<and> pj_id p \<noteq> project_id) (t_projects s))))) (\<lambda>defaults.
     sql_tx (\<lambda>_.
       obind (sql (\<lambda>_ s. Inr ((), s\<lparr>t_projects := demoted defaults account_id project_id now1 (t_projects s)\<rparr>))) (\<lambda>_.
       obind utc_now (\<lambda>now2.
       obind (sql (\<lambda>_. promote_project project_id now2)) (\<lambda>p.
       cok (to_project self p)))))))))"

definition delete_project :: "string \<Rightarrow> string \<Rightarrow> unit store_op" where
  "delete_project subject project_id =
     obind (sql (\<lambda>_ s.
       case visible_project subject project_id s of
         None \<Rightarrow> Inr (False, s)
       | Some p \<Rightarrow>
           if budget_refs_project (t_budget s) project_id then Inl ''23503''
           else Inr (True, drop_projects (\<lambda>pid. pid = project_id) s))) (\<lambda>hit.
     if hit then cok () else cfail CoreNotFound)"

subsection \<open>Rosters\<close>

definition then_project :: "store_repo \<Rightarrow> string \<Rightarrow> project store_op" where
  "then_project self project_id = obind (get_project_by_id self project_id) or_not_found"

text \<open>\<open>INSERT INTO project_members \<dots> ON CONFLICT DO NOTHING\<close>, with its foreign keys.\<close>

definition insert_member :: "string \<Rightarrow> string \<Rightarrow> string \<Rightarrow> int \<Rightarrow> tenancy \<Rightarrow> (string, unit \<times> tenancy) result" where
  "insert_member project_id account_id role now s =
     (if list_ex (on_roster project_id account_id) (t_members s) then Inr ((), s)
      else if \<not> list_ex (\<lambda>p. pj_id p = project_id) (t_projects s) \<or> \<not> list_ex (\<lambda>a. ac_id a = account_id) (t_accounts s)
      then Inl ''23503''
      else Inr ((), s\<lparr>t_members := t_members s @ [\<lparr>pm_project_id = project_id, pm_account_id = account_id,
             pm_role = role, pm_quota_tier = None, pm_created_at = now\<rparr>]\<rparr>))"

definition add_project_member ::
  "store_repo \<Rightarrow> string \<Rightarrow> string \<Rightarrow> string \<Rightarrow> string option \<Rightarrow> project store_op" where
  "add_project_member self subject project_id target role =
     (let role = coalesce role ''member'' in
      obind (Ret (validate_project_role role)) (\<lambda>_.
      obind (authorize_project_lead project_id subject) (\<lambda>_.
      obind (sql (\<lambda>now s. insert_member project_id target role now s)) (\<lambda>_.
      then_project self project_id))))"

definition list_project_roster :: "string \<Rightarrow> string \<Rightarrow> member_row list store_op" where
  "list_project_roster subject project_id =
     obind (project_account_id project_id) (\<lambda>owner.
     case owner of
       None \<Rightarrow> cfail CoreNotFound
     | Some a \<Rightarrow>
         obind (if a = subject then cok True
                else obind (project_member_role project_id subject) (\<lambda>role. cok (role \<noteq> None))) (\<lambda>may_read.
         if \<not> may_read then cfail CoreNotFound
         else sql_query (\<lambda>s. Inr (order_asc pm_created_at
           (sort_key pm_account_id (filter (\<lambda>m. pm_project_id m = project_id) (t_members s)))))))"

definition remove_project_member :: "store_repo \<Rightarrow> string \<Rightarrow> string \<Rightarrow> string \<Rightarrow> project store_op" where
  "remove_project_member self subject project_id target =
     obind (authorize_project_lead project_id subject) (\<lambda>_.
     obind (sql (\<lambda>_ s. Inr ((), s\<lparr>t_members := filter (\<lambda>m. \<not> on_roster project_id target m) (t_members s)\<rparr>))) (\<lambda>_.
     then_project self project_id))"

text \<open>\<open>UPDATE project_members SET \<dots>\<close>, \<open>NotFound\<close> when no row was affected.\<close>

definition update_member ::
  "store_repo \<Rightarrow> string \<Rightarrow> string \<Rightarrow> (member_row \<Rightarrow> member_row) \<Rightarrow> project store_op" where
  "update_member self project_id target change =
     obind (sql (\<lambda>_ s. Inr (list_ex (on_roster project_id target) (t_members s),
        s\<lparr>t_members := update_where (on_roster project_id target) change (t_members s)\<rparr>))) (\<lambda>hit.
     if hit then then_project self project_id else cfail CoreNotFound)"

definition set_project_member_role ::
  "store_repo \<Rightarrow> string \<Rightarrow> string \<Rightarrow> string \<Rightarrow> string \<Rightarrow> project store_op" where
  "set_project_member_role self subject project_id target role =
     obind (Ret (validate_project_role role)) (\<lambda>_.
     obind (authorize_project_lead project_id subject) (\<lambda>_.
     update_member self project_id target (\<lambda>m. m\<lparr>pm_role := role\<rparr>)))"

definition set_project_member_quota_tier ::
  "store_repo \<Rightarrow> string \<Rightarrow> string \<Rightarrow> string \<Rightarrow> string option \<Rightarrow> project store_op" where
  "set_project_member_quota_tier self subject project_id target quota_tier =
     obind (authorize_project_lead project_id subject) (\<lambda>_.
     update_member self project_id target (\<lambda>m. m\<lparr>pm_quota_tier := quota_tier\<rparr>))"

definition project_member_quota_tier :: "string \<Rightarrow> string \<Rightarrow> string option store_op" where
  "project_member_quota_tier project_id subject =
     obind (sql_query (\<lambda>s. Inr (map_option pm_quota_tier (find (on_roster project_id subject) (t_members s))))) (\<lambda>row.
     cok (case row of None \<Rightarrow> None | Some tier \<Rightarrow> tier))"

end
