(* ===== verification/Contention.thy ===== *)
theory Contention
  imports Prog
begin

text \<open>
  Calls that compete for something only one of them can have. \<open>live\<close> is the resource, a predicate of
  the shared state that never comes back once it is gone, \<open>I\<close> an invariant of the state; a call wins
  when its result satisfies \<open>won\<close>.
\<close>

text \<open>\<open>contends I live won p\<close>: the program \<open>p\<close> can only win by an action that uses the resource up.\<close>

primrec contends :: "('s \<Rightarrow> bool) \<Rightarrow> ('s \<Rightarrow> bool) \<Rightarrow> ('a \<Rightarrow> bool) \<Rightarrow> ('s, 'a) prog \<Rightarrow> bool" where
  "contends I live won (Ret a) \<longleftrightarrow> \<not> won a"
| "contends I live won (Act u k) \<longleftrightarrow>
     (\<forall>w s. I s \<longrightarrow> (live s \<and> \<not> live (u w s)) \<or> contends I live won (k w s))"
| "contends I live won (Lock l p) \<longleftrightarrow> contends I live won p"
| "contends I live won (Unlock l p) \<longleftrightarrow> contends I live won p"

lemma contends_pbind:
  "contends I live (\<lambda>_. False) p \<Longrightarrow> (\<And>a. contends I live won (k a)) \<Longrightarrow> contends I live won (pbind p k)"
  by (induction p) auto

lemma contends_never [simp]: "contends I live (\<lambda>_. False) p"
  by (induction p) auto

lemma contends_then: "(\<And>a. contends I live won (k a)) \<Longrightarrow> contends I live won (pbind p k)"
  by (rule contends_pbind) simp_all

lemma contends_obind:
  "(\<And>a. contends I live won (k a)) \<Longrightarrow> (\<And>e. \<not> won (Inl e)) \<Longrightarrow> contends I live won (obind p k)"
  unfolding obind_def by (rule contends_then) (auto split: sum.split)

text \<open>The action that may use the resource up: after it the rest may win only when it did.\<close>

lemma contends_atomic:
  assumes "\<And>w s. I s \<Longrightarrow> (live s \<and> \<not> live (snd (f w s))) \<or> contends I live won (k (fst (f w s)))"
  shows "contends I live won (pbind (atomic f) k)"
  using assms by (simp add: atomic_def)

lemma contends_statement:
  assumes "\<And>e. contends I live won (k (Inl e))"
    and "\<And>now s a s'. I s \<Longrightarrow> f now s = Inr (a, s') \<Longrightarrow> (live s \<and> \<not> live s') \<or> contends I live won (k (Inr a))"
  shows "contends I live won (pbind (statement fails f) k)"
  unfolding statement_def
proof (rule contends_atomic, goal_cases)
  case (1 w s)
  then show ?case
    using assms(1) assms(2) [of s "o_now (w 0)"] by (auto split: delivery.split sum.split)
qed

text \<open>The invariant is kept and the resource does not come back.\<close>

definition spent :: "('s \<Rightarrow> bool) \<Rightarrow> ('s \<Rightarrow> bool) \<Rightarrow> 's \<Rightarrow> 's \<Rightarrow> bool" where
  "spent I live s s' \<longleftrightarrow> (I s \<longrightarrow> I s' \<and> (\<not> live s \<longrightarrow> \<not> live s'))"

definition contention_inv :: "('s \<Rightarrow> bool) \<Rightarrow> ('s \<Rightarrow> bool) \<Rightarrow> (nat \<Rightarrow> 'a \<Rightarrow> bool) \<Rightarrow> ('s, 'a) config \<Rightarrow> bool" where
  "contention_inv I live won c \<longleftrightarrow> I (store c) \<and>
     (\<forall>p. Some p \<in> set (threads c) \<longrightarrow> guar (spent I live) p) \<and>
     (\<exists>winner. (live (store c) \<longrightarrow> winner = None) \<and>
        (\<forall>i < length (threads c). Some i \<noteq> winner \<longrightarrow>
           (\<forall>p. threads c ! i = Some p \<longrightarrow> contends I live (won i) p)))"

lemma contention_step:
  assumes step: "pool_step c ev c'" and held: "contention_inv I live won c"
  shows "contention_inv I live won c'"
proof -
  from held obtain winner where inv: "I (store c)" and g: "\<And>p. Some p \<in> set (threads c) \<Longrightarrow> guar (spent I live) p"
    and win: "live (store c) \<Longrightarrow> winner = None"
    and rest: "\<And>i p. i < length (threads c) \<Longrightarrow> Some i \<noteq> winner \<Longrightarrow> threads c ! i = Some p \<Longrightarrow> contends I live (won i) p"
    by (auto simp: contention_inv_def)
  have at: "guar (spent I live) p" if "i < length (threads c)" "threads c ! i = Some p" for i p
    using g that by (metis nth_mem)
  have quiet: "contention_inv I live won c'"
    if "threads c' = (threads c)[i := q]" "store c' = store c" "i < length (threads c)"
      "\<And>p. q = Some p \<Longrightarrow> guar (spent I live) p \<and> (Some i \<noteq> winner \<longrightarrow> contends I live (won i) p)" for i q
    unfolding contention_inv_def using that win rest g inv
    by (intro conjI exI [of _ winner]) (auto simp: nth_list_update dest!: set_update_subset_insert [THEN subsetD])
  show ?thesis
    using step
  proof (cases rule: pool_step.cases)
    case (acts i u k w)
    have gi: "guar (spent I live) (Act u k)" using at acts by blast
    have inv': "I (u w (store c))" using gi inv by (auto simp: spent_def)
    have guards: "\<And>p. Some p \<in> set (threads c') \<Longrightarrow> guar (spent I live) p"
      using acts g gi by (auto dest!: set_update_subset_insert [THEN subsetD])
    show ?thesis
    proof (cases "live (store c) \<and> \<not> live (u w (store c))")
      case True
      then have "winner = None" using win by simp
      with rest acts True guards inv' show ?thesis
        unfolding contention_inv_def
        by (intro conjI exI [of _ "Some i"]) (auto simp: nth_list_update)
    next
      case False
      have mine: "contends I live (won i) (k w (store c))" if "Some i \<noteq> winner"
        using rest [of i "Act u k"] that acts False inv by auto
      have "live (u w (store c)) \<Longrightarrow> live (store c)" using gi inv by (auto simp: spent_def)
      with rest acts guards mine win inv' show ?thesis
        unfolding contention_inv_def
        by (intro conjI exI [of _ winner]) (auto simp: nth_list_update)
    qed
  next
    case (locks i l p)
    with at rest show ?thesis by (intro quiet [of i "Some p"]) fastforce+
  next
    case (unlocks i l p)
    with at rest show ?thesis by (intro quiet [of i "Some p"]) fastforce+
  next
    case (crashes i)
    then show ?thesis by (intro quiet [of i None]) auto
  next
    case (breaks l)
    then show ?thesis using held by (simp add: contention_inv_def)
  qed
qed

lemma pool_reach_length: "pool_reach allowed c c' \<Longrightarrow> length (threads c') = length (threads c)"
proof (induction rule: pool_reach.induct)
  case (continue c c' ev c'')
  from continue.hyps(2) have "length (threads c'') = length (threads c')" by (cases rule: pool_step.cases) auto
  with continue.IH show ?case by simp
qed simp

text \<open>However the calls interleave, at most one of them wins.\<close>

lemma at_most_one_winner:
  assumes "pool_reach allowed (initial ps s) c" "I s"
    and "\<And>p. p \<in> set ps \<Longrightarrow> guar (spent I live) p"
    and "\<And>i. i < length ps \<Longrightarrow> contends I live (won i) (ps ! i)"
    and "i < length (threads c)" "threads c ! i = Some (Ret a)" "won i a"
    and "j < length (threads c)" "threads c ! j = Some (Ret b)" "won j b"
  shows "i = j"
proof -
  have "contention_inv I live won (initial ps s)"
    using assms(2-4) by (auto simp: contention_inv_def initial_def intro: exI [of _ None])
  moreover have "contention_inv I live won c'" if "pool_reach allowed c0 c'" "contention_inv I live won c0" for c0 c'
    using that by (induction rule: pool_reach.induct) (auto intro: contention_step)
  ultimately have "contention_inv I live won c" using assms(1) by blast
  then obtain winner where rest: "\<And>i p. i < length (threads c) \<Longrightarrow> Some i \<noteq> winner \<Longrightarrow> threads c ! i = Some p \<Longrightarrow> contends I live (won i) p"
    by (auto simp: contention_inv_def)
  have "Some i = winner" using rest [of i "Ret a"] assms(5-7) by auto
  moreover have "Some j = winner" using rest [of j "Ret b"] assms(8-10) by auto
  ultimately show ?thesis by auto
qed

subsection \<open>Results of calls that are safe against the others\<close>

context guarantee
begin

lemma rg_step:
  assumes "pool_step c ev c'" "i < length (threads c')" "threads c' ! i = Some p"
    and "\<And>j q. j < length (threads c) \<Longrightarrow> threads c ! j = Some q \<Longrightarrow> rg R q (Q j) (store c)"
  shows "rg R p (Q i) (store c')"
proof -
  have R: "R (store c) (store c')"
    using assms(1) by (cases rule: pool_step.cases) (use assms(4) refl in \<open>force\<close>)+
  show ?thesis
    using assms(1)
  proof (cases rule: pool_step.cases)
    case (acts j u k w)
    show ?thesis
    proof (cases "i = j")
      case True
      with acts assms(3) assms(4) [of j "Act u k"] refl show ?thesis by auto
    next
      case False
      with acts assms(2,3) have "rg R p (Q i) (store c)" by (auto intro!: assms(4))
      then show ?thesis using R by (rule rg_stable)
    qed
  qed (use assms(2-4) in \<open>auto simp: nth_list_update split: if_splits dest!: assms(4)\<close>)
qed

lemma rg_results:
  assumes "pool_reach allowed (initial ps s) c" "\<And>i. i < length ps \<Longrightarrow> rg R (ps ! i) (Q i) s"
    and "i < length ps" "threads c ! i = Some (Ret a)"
  shows "Q i a (store c)"
proof -
  have "\<forall>i < length (threads c). \<forall>p. threads c ! i = Some p \<longrightarrow> rg R p (Q i) (store c)"
    using assms(1)
  proof (induction "initial ps s" c rule: pool_reach.induct)
    case start
    then show ?case using assms(2) by (auto simp: initial_def)
  next
    case (continue c' ev c'')
    then show ?case by (blast intro: rg_step [OF continue.hyps(3)])
  qed
  moreover have "length (threads c) = length ps" using pool_reach_length [OF assms(1)] by (simp add: initial_def)
  ultimately have "rg R (Ret a) (Q i) (store c)" using assms(3,4) by auto
  then show ?thesis using refl by simp
qed

end

end
