(* ===== verification/Refresh_Tokens.thy ===== *)
theory Refresh_Tokens
  imports Tenant_Store Contention
begin

text \<open>
  api-key/src/repo.rs: the operations of \<open>StoreRepo\<close> on \<open>exchange_refresh_tokens\<close>, and what they make of
  the table: a token's data never change, its status moves only away from \<open>active\<close>, and no second row
  takes its hash.
\<close>

subsection \<open>Operations\<close>

definition refresh_hash :: "refresh_row \<Rightarrow> string" where
  "refresh_hash r = rt_token_hash (rt_data r)"

definition is_active_token :: "refresh_row \<Rightarrow> bool" where
  "is_active_token r \<longleftrightarrow> rt_status r = ''active''"

definition insert_refresh_token :: "refresh_data \<Rightarrow> tenancy \<Rightarrow> (string, refresh_row \<times> tenancy) result" where
  "insert_refresh_token d s =
     (if list_ex (\<lambda>r. rt_id (rt_data r) = rt_id d \<or> refresh_hash r = rt_token_hash d) (t_refresh_tokens s)
      then Inl ''23505''
      else let row = \<lparr>rt_data = d, rt_status = ''active'', rt_last_used_at = None\<rparr> in
           Inr (row, s\<lparr>t_refresh_tokens := t_refresh_tokens s @ [row]\<rparr>))"

definition create_exchange_refresh_token :: "refresh_data \<Rightarrow> refresh_row store_op" where
  "create_exchange_refresh_token input = sql (\<lambda>_ s. insert_refresh_token input s)"

definition usable_token :: "string \<Rightarrow> int \<Rightarrow> refresh_row \<Rightarrow> bool" where
  "usable_token token_hash now r \<longleftrightarrow> refresh_hash r = token_hash \<and> is_active_token r \<and> rt_expires_at (rt_data r) > now"

definition find_active_exchange_refresh_token :: "string \<Rightarrow> int \<Rightarrow> refresh_row option store_op" where
  "find_active_exchange_refresh_token token_hash now =
     sql_query (\<lambda>s. Inr (find (usable_token token_hash now) (t_refresh_tokens s)))"

definition find_exchange_refresh_token_by_hash :: "string \<Rightarrow> refresh_row option store_op" where
  "find_exchange_refresh_token_by_hash token_hash =
     sql_query (\<lambda>s. Inr (find (\<lambda>r. refresh_hash r = token_hash) (t_refresh_tokens s)))"

definition revoke_where :: "(refresh_row \<Rightarrow> bool) \<Rightarrow> tenancy \<Rightarrow> tenancy" where
  "revoke_where P s = s\<lparr>t_refresh_tokens := update_where (\<lambda>r. P r \<and> is_active_token r)
     (\<lambda>r. r\<lparr>rt_status := ''revoked''\<rparr>) (t_refresh_tokens s)\<rparr>"

definition revoke_exchange_refresh_token_chain :: "string \<Rightarrow> unit store_op" where
  "revoke_exchange_refresh_token_chain chain_id =
     sql (\<lambda>_ s. Inr ((), revoke_where (\<lambda>r. rt_chain_id (rt_data r) = chain_id) s))"

definition consume_exchange_refresh_token :: "string \<Rightarrow> int \<Rightarrow> refresh_row option store_op" where
  "consume_exchange_refresh_token presented_hash now = sql (\<lambda>_ s.
     let change = (\<lambda>r. r\<lparr>rt_status := ''rotated'', rt_last_used_at := Some now\<rparr>) in
     Inr (updated_row (usable_token presented_hash now) change (t_refresh_tokens s),
          s\<lparr>t_refresh_tokens := update_where (usable_token presented_hash now) change (t_refresh_tokens s)\<rparr>))"

definition revoke_exchange_refresh_token :: "string \<Rightarrow> unit store_op" where
  "revoke_exchange_refresh_token token_hash =
     sql (\<lambda>_ s. Inr ((), revoke_where (\<lambda>r. refresh_hash r = token_hash) s))"

definition revoke_exchange_refresh_token_for_client :: "string \<Rightarrow> string \<Rightarrow> unit store_op" where
  "revoke_exchange_refresh_token_for_client token_hash client_id =
     sql (\<lambda>_ s. Inr ((), revoke_where (\<lambda>r. refresh_hash r = token_hash \<and> rt_client_id (rt_data r) = client_id) s))"

definition revoke_active_exchange_refresh_tokens_for_subject :: "string \<Rightarrow> nat store_op" where
  "revoke_active_exchange_refresh_tokens_for_subject subject = sql (\<lambda>_ s.
     let mine = (\<lambda>r. rt_subject (rt_data r) = subject) in
     Inr (length (filter (\<lambda>r. mine r \<and> is_active_token r) (t_refresh_tokens s)), revoke_where mine s))"

subsection \<open>The life of a token\<close>

text \<open>
  How one action may change the table: every row stays where it is with the same data, a row that is
  not active is not touched in its status, and what is appended are new active rows with new hashes.
\<close>

definition token_kept :: "refresh_row \<Rightarrow> refresh_row \<Rightarrow> bool" where
  "token_kept r r' \<longleftrightarrow> rt_data r' = rt_data r \<and> (is_active_token r' \<longrightarrow> is_active_token r) \<and>
     (\<not> is_active_token r \<longrightarrow> rt_status r' = rt_status r)"

definition token_step :: "tenancy \<Rightarrow> tenancy \<Rightarrow> bool" where
  "token_step s s' \<longleftrightarrow> (\<exists>old new. t_refresh_tokens s' = old @ new \<and>
     list_all2 token_kept (t_refresh_tokens s) old \<and> distinct (map refresh_hash new) \<and>
     (\<forall>r\<in>set new. refresh_hash r \<notin> refresh_hash ` set (t_refresh_tokens s)))"

lemma token_kept_refl [simp]: "token_kept r r"
  by (simp add: token_kept_def)

lemma token_kept_trans: "token_kept a b \<Longrightarrow> token_kept b c \<Longrightarrow> token_kept a c"
  by (auto simp: token_kept_def)

lemma token_kept_hash: "token_kept r r' \<Longrightarrow> refresh_hash r' = refresh_hash r"
  by (simp add: token_kept_def refresh_hash_def)

lemma all2_kept_hashes: "list_all2 token_kept xs ys \<Longrightarrow> map refresh_hash ys = map refresh_hash xs"
  by (induction rule: list_all2_induct) (auto simp: token_kept_hash)

lemma all2_kept_refl [simp]: "list_all2 token_kept xs xs"
  by (simp add: list_all2_refl)

lemma token_step_trans:
  assumes "token_step s s'" "token_step s' s''"
  shows "token_step s s''"
proof -
  from assms(1) obtain old new where s': "t_refresh_tokens s' = old @ new"
    "list_all2 token_kept (t_refresh_tokens s) old" "distinct (map refresh_hash new)"
    "\<forall>r\<in>set new. refresh_hash r \<notin> refresh_hash ` set (t_refresh_tokens s)"
    by (auto simp: token_step_def)
  from assms(2) obtain old' new' where s'': "t_refresh_tokens s'' = old' @ new'"
    "list_all2 token_kept (t_refresh_tokens s') old'" "distinct (map refresh_hash new')"
    "\<forall>r\<in>set new'. refresh_hash r \<notin> refresh_hash ` set (t_refresh_tokens s')"
    by (auto simp: token_step_def)
  from s''(2) s'(1) obtain o1 o2 where o: "old' = o1 @ o2" "list_all2 token_kept old o1" "list_all2 token_kept new o2"
    by (auto simp: list_all2_append1)
  have kept: "list_all2 token_kept (t_refresh_tokens s) o1"
    using list_all2_trans [OF _ s'(2) o(2)] token_kept_trans by blast
  have hashes: "refresh_hash ` set old = refresh_hash ` set (t_refresh_tokens s)"
    "refresh_hash ` set o2 = refresh_hash ` set new"
    using all2_kept_hashes [OF s'(2)] all2_kept_hashes [OF o(3)] by (metis image_set)+
  have "refresh_hash r \<notin> refresh_hash ` set (t_refresh_tokens s)" if "r \<in> set (o2 @ new')" for r
    using that s'(4) s''(4) s'(1) hashes by (auto simp: image_Un) (metis image_eqI image_iff)
  moreover have "distinct (map refresh_hash (o2 @ new'))"
  proof -
    have "refresh_hash ` set new \<inter> refresh_hash ` set new' = {}"
      using s''(4) unfolding s'(1) by auto (metis UnI2 image_eqI image_Un)
    then show ?thesis using s'(3) s''(3) all2_kept_hashes [OF o(3)] hashes(2) by simp
  qed
  ultimately show ?thesis using kept o(1) s''(1)
    unfolding token_step_def by (intro exI [of _ o1] exI [of _ "o2 @ new'"]) auto
qed

interpretation token_steps: guarantee token_step
proof unfold_locales
  show "token_step s s" for s by (auto simp: token_step_def intro: exI [of _ "t_refresh_tokens s"])
qed (rule token_step_trans)

lemma token_step_update:
  assumes "\<And>r. token_kept r (if P r then f r else r)" "t_refresh_tokens s' = update_where P f (t_refresh_tokens s)"
  shows "token_step s s'"
proof -
  have "list_all2 token_kept xs (update_where P f xs)" for xs
    unfolding update_where_def by (induction xs) (use assms(1) in auto)
  with assms(2) show ?thesis unfolding token_step_def by (intro exI [of _ "update_where P f (t_refresh_tokens s)"] exI [of _ "[]"]) simp
qed

lemma token_step_insert: "insert_refresh_token d s = Inr (r, s') \<Longrightarrow> token_step s s'"
  unfolding token_step_def
  by (rule exI [of _ "t_refresh_tokens s"], rule exI [of _ "[r]"])
    (auto simp: insert_refresh_token_def Let_def list_ex_iff refresh_hash_def split: if_splits)

lemma token_step_revoke: "token_step s (revoke_where P s)"
  by (rule token_step_update [where P = "\<lambda>r. P r \<and> is_active_token r" and f = "\<lambda>r. r\<lparr>rt_status := ''revoked''\<rparr>"])
    (auto simp: revoke_where_def token_kept_def is_active_token_def)

lemma token_step_consume:
  "token_step s (s\<lparr>t_refresh_tokens := update_where (usable_token h now)
     (\<lambda>r. r\<lparr>rt_status := ''rotated'', rt_last_used_at := t\<rparr>) (t_refresh_tokens s)\<rparr>)"
  by (rule token_step_update [where P = "usable_token h now"])
    (auto simp: token_kept_def is_active_token_def usable_token_def)

text \<open>
  What a relation has to promise so that every call that adds no token satisfies it: it allows a revocation and
  a consumption; and, for the calls that do, the insertion of a token.
\<close>

locale token_rely = tenancy_rely R for R :: "tenancy \<Rightarrow> tenancy \<Rightarrow> bool" +
  assumes revokes: "R s (revoke_where P s)"
    and consumes: "R s (s\<lparr>t_refresh_tokens := update_where (usable_token h now)
      (\<lambda>r. r\<lparr>rt_status := ''rotated'', rt_last_used_at := t\<rparr>) (t_refresh_tokens s)\<rparr>)"
begin

lemma guar_refresh_ops:
  "guar R (find_active_exchange_refresh_token h now)" "guar R (find_exchange_refresh_token_by_hash h)"
  "guar R (revoke_exchange_refresh_token_chain chain)" "guar R (consume_exchange_refresh_token h now)"
  "guar R (revoke_exchange_refresh_token h)" "guar R (revoke_exchange_refresh_token_for_client h client)"
  "guar R (revoke_active_exchange_refresh_tokens_for_subject subject)"
  unfolding find_active_exchange_refresh_token_def
    find_exchange_refresh_token_by_hash_def revoke_exchange_refresh_token_chain_def
    consume_exchange_refresh_token_def revoke_exchange_refresh_token_def
    revoke_exchange_refresh_token_for_client_def revoke_active_exchange_refresh_tokens_for_subject_def
  by (auto intro!: guar_stmt guar_query revokes consumes simp: Let_def)

end

locale token_adding = token_rely R for R :: "tenancy \<Rightarrow> tenancy \<Rightarrow> bool" +
  assumes adds: "insert_refresh_token d s = Inr (r, s') \<Longrightarrow> R s s'"
begin

lemma guar_create_token: "guar R (create_exchange_refresh_token d)"
  unfolding create_exchange_refresh_token_def by (auto intro!: guar_stmt dest: adds)

end

interpretation tokens: token_adding token_step
  by unfold_locales (auto intro: token_step_revoke token_step_consume token_step_insert)

definition hashes_unique :: "tenancy \<Rightarrow> bool" where
  "hashes_unique s \<longleftrightarrow> distinct (map refresh_hash (t_refresh_tokens s))"

text \<open>A token is gone once it is in the table and not active: it never comes back.\<close>

definition token_unspent :: "string \<Rightarrow> tenancy \<Rightarrow> bool" where
  "token_unspent h s \<longleftrightarrow> (\<forall>r\<in>set (t_refresh_tokens s). refresh_hash r \<noteq> h) \<or>
     (\<exists>r\<in>set (t_refresh_tokens s). refresh_hash r = h \<and> is_active_token r)"

lemma all2_kept_back:
  "list_all2 token_kept xs ys \<Longrightarrow> y \<in> set ys \<Longrightarrow> \<exists>x\<in>set xs. token_kept x y"
  by (induction rule: list_all2_induct) auto

lemma all2_kept_forth:
  "list_all2 token_kept xs ys \<Longrightarrow> x \<in> set xs \<Longrightarrow> \<exists>y\<in>set ys. token_kept x y"
  by (induction rule: list_all2_induct) auto

lemma token_step_spent: "token_step s s' \<Longrightarrow> spent hashes_unique (token_unspent h) s s'"
proof -
  assume "token_step s s'"
  then obtain old new where s': "t_refresh_tokens s' = old @ new"
    and kept: "list_all2 token_kept (t_refresh_tokens s) old" and dist: "distinct (map refresh_hash new)"
    and fresh: "\<forall>r\<in>set new. refresh_hash r \<notin> refresh_hash ` set (t_refresh_tokens s)"
    by (auto simp: token_step_def)
  have "\<not> token_unspent h s'" if gone: "\<not> token_unspent h s"
  proof -
    from gone obtain r where r: "r \<in> set (t_refresh_tokens s)" "refresh_hash r = h"
      by (auto simp: token_unspent_def)
    obtain r' where "r' \<in> set old" "refresh_hash r' = h"
      using all2_kept_forth [OF kept r(1)] r(2) token_kept_hash by metis
    moreover have "\<not> is_active_token q" if "q \<in> set old" "refresh_hash q = h" for q
    proof -
      obtain x where x: "x \<in> set (t_refresh_tokens s)" "token_kept x q"
        using all2_kept_back [OF kept] \<open>q \<in> set old\<close> by blast
      then have "\<not> is_active_token x" using gone \<open>refresh_hash q = h\<close> token_kept_hash [OF x(2)] by (auto simp: token_unspent_def)
      with x(2) show ?thesis by (simp add: token_kept_def)
    qed
    moreover have "refresh_hash q \<noteq> h" if "q \<in> set new" for q using fresh that r by (metis image_eqI)
    ultimately show ?thesis using s' by (auto simp: token_unspent_def)
  qed
  moreover have "hashes_unique s'" if "hashes_unique s"
    using that s' dist fresh all2_kept_hashes [OF kept] by (auto simp: hashes_unique_def) (metis image_eqI image_set)
  ultimately show ?thesis by (simp add: spent_def)
qed

lemma guar_spent: "guar token_step p \<Longrightarrow> guar (spent hashes_unique (token_unspent h)) p"
  by (erule guar_mono) (rule token_step_spent)

text \<open>Consuming a token that is there uses it up.\<close>

lemma consume_spends:
  assumes "updated_row (usable_token h now) f (t_refresh_tokens s) = Some r" "hashes_unique s"
  shows "token_unspent h s"
    and "\<not> token_unspent h (s\<lparr>t_refresh_tokens := update_where (usable_token h now)
           (\<lambda>r. r\<lparr>rt_status := ''rotated'', rt_last_used_at := t\<rparr>) (t_refresh_tokens s)\<rparr>)"
proof -
  from assms(1) obtain x where x: "x \<in> set (t_refresh_tokens s)" "usable_token h now x"
    by (auto simp: updated_row_def dest: find_SomeD)
  then show "token_unspent h s" by (auto simp: token_unspent_def usable_token_def)
  have one: "r = x" if "r \<in> set (t_refresh_tokens s)" "refresh_hash r = h" for r
    using assms(2) x that by (auto simp: hashes_unique_def usable_token_def distinct_map inj_on_def)
  show "\<not> token_unspent h (s\<lparr>t_refresh_tokens := update_where (usable_token h now)
           (\<lambda>r. r\<lparr>rt_status := ''rotated'', rt_last_used_at := t\<rparr>) (t_refresh_tokens s)\<rparr>)"
  proof -
    let ?f = "\<lambda>r. r\<lparr>rt_status := ''rotated'', rt_last_used_at := t\<rparr>"
    have "refresh_hash q = h \<Longrightarrow> \<not> is_active_token q"
      if "q \<in> set (update_where (usable_token h now) ?f (t_refresh_tokens s))" for q
      using that one x(2) by (auto simp: update_where_def refresh_hash_def is_active_token_def split: if_splits)
    moreover have "?f x \<in> set (update_where (usable_token h now) ?f (t_refresh_tokens s))"
      using x by (force simp: update_where_def)
    moreover have "refresh_hash (?f x) = h" using x(2) by (simp add: refresh_hash_def usable_token_def)
    ultimately show ?thesis unfolding token_unspent_def by auto
  qed
qed

end
