(* ===== verification/Api_Key_Store.thy ===== *)
theory Api_Key_Store
  imports Tenant_Store
begin

text \<open>
  api-key/src/repo.rs: the operations of \<open>StoreRepo\<close> on API keys and signing keys, and the view
  \<open>api_key_validation\<close> (migrations/20260731000001_api_keys_owner_account.sql) that resolves the
  account, project and key status cascade.
\<close>

subsection \<open>API keys\<close>

definition inserted_key :: "string \<Rightarrow> new_api_key_row \<Rightarrow> int \<Rightarrow> api_key_entry" where
  "inserted_key owner k now = \<lparr>
     ke_row = \<lparr>ak_id = nk_id k, ak_project_id = nk_project_id k, ak_name = nk_name k,
       ak_key_prefix = nk_key_prefix k, ak_key_hash = nk_key_hash k, ak_created_at = nk_created_at k,
       ak_expires_at = nk_expires_at k, ak_status = nk_status k, ak_last_used_at = nk_last_used_at k,
       ak_last_ip = nk_last_ip k, ak_revoked_at = nk_revoked_at k, ak_billing_plan = nk_billing_plan k,
       ak_updated_at = now\<rparr>,
     ke_owner_account_id = owner, ke_deleted_at = None\<rparr>"

text \<open>\<open>INSERT INTO api_keys\<close> with its constraints: \<open>expires_at NOT NULL\<close>, the keys, the foreign keys.\<close>

definition insert_api_key ::
  "string \<Rightarrow> new_api_key_row \<Rightarrow> int \<Rightarrow> tenancy \<Rightarrow> (string, api_key_row \<times> tenancy) result" where
  "insert_api_key owner k now s =
     (if nk_expires_at k = None then Inl ''23502''
      else if list_ex (\<lambda>e. ak_id (ke_row e) = nk_id k \<or> ak_key_hash (ke_row e) = nk_key_hash k) (t_api_keys s)
      then Inl ''23505''
      else if \<not> list_ex (\<lambda>p. pj_id p = nk_project_id k) (t_projects s) \<or> \<not> list_ex (\<lambda>a. ac_id a = owner) (t_accounts s)
      then Inl ''23503''
      else Inr (ke_row (inserted_key owner k now), s\<lparr>t_api_keys := t_api_keys s @ [inserted_key owner k now]\<rparr>))"

definition create_api_key :: "string \<Rightarrow> new_api_key_row \<Rightarrow> api_key store_op" where
  "create_api_key subject k =
     obind (authorize_project_lead (nk_project_id k) subject) (\<lambda>_.
     obind (sql (\<lambda>now s. insert_api_key subject k now s)) (\<lambda>row. cok (to_api_key row)))"

definition list_api_keys :: "string \<Rightarrow> string \<Rightarrow> nat \<Rightarrow> nat \<Rightarrow> api_key list store_op" where
  "list_api_keys subject project_id offset limit =
     obind (sql_query (\<lambda>s. Inr (page_rows offset limit (order_desc ak_created_at (map ke_row
       (filter (\<lambda>e. ak_project_id (ke_row e) = project_id \<and>
          list_ex (\<lambda>p. pj_id p = ak_project_id (ke_row e) \<and> visible s subject p) (t_projects s))
        (t_api_keys s))))))) (\<lambda>rows.
     cok (map to_api_key rows))"

definition get_api_key :: "string \<Rightarrow> string \<Rightarrow> api_key option store_op" where
  "get_api_key subject key_id =
     obind (sql_query (\<lambda>s. Inr (find (visible_key subject key_id s) (t_api_keys s)))) (\<lambda>row.
     cok (map_option (\<lambda>e. to_api_key (ke_row e)) row))"

definition change_row :: "(api_key_row \<Rightarrow> api_key_row) \<Rightarrow> api_key_entry \<Rightarrow> api_key_entry" where
  "change_row f e = e\<lparr>ke_row := f (ke_row e)\<rparr>"

text \<open>\<open>UPDATE api_keys SET \<dots> FROM projects WHERE \<dots> RETURNING \<dots>\<close>.\<close>

definition update_visible_key ::
  "string \<Rightarrow> string \<Rightarrow> (api_key_row \<Rightarrow> api_key_row) \<Rightarrow> api_key_row option store_op" where
  "update_visible_key subject key_id change = sql (\<lambda>_ s.
     Inr (map_option ke_row (updated_row (visible_key subject key_id s) (change_row change) (t_api_keys s)),
          s\<lparr>t_api_keys := update_where (visible_key subject key_id s) (change_row change) (t_api_keys s)\<rparr>))"

definition update_api_key :: "string \<Rightarrow> string \<Rightarrow> string option \<Rightarrow> int option \<Rightarrow> api_key store_op" where
  "update_api_key subject key_id name expires_at =
     obind (update_visible_key subject key_id (\<lambda>r. r\<lparr>ak_name := coalesce name (ak_name r),
              ak_expires_at := coalesce_null expires_at (ak_expires_at r)\<rparr>)) (\<lambda>row.
     obind (or_not_found row) (\<lambda>r. cok (to_api_key r)))"

definition status_change ::
  "api_key_status \<Rightarrow> int option \<Rightarrow> int option \<Rightarrow> api_key_row \<Rightarrow> api_key_row" where
  "status_change status revoked_at expires_at r = r\<lparr>
     ak_status := api_key_status_to_string status,
     ak_revoked_at := coalesce_null revoked_at (ak_revoked_at r),
     ak_expires_at := coalesce_null expires_at (ak_expires_at r)\<rparr>"

definition set_api_key_status ::
  "string \<Rightarrow> string \<Rightarrow> api_key_status \<Rightarrow> int option \<Rightarrow> int option \<Rightarrow> api_key store_op" where
  "set_api_key_status subject key_id status revoked_at expires_at =
     obind (update_visible_key subject key_id (status_change status revoked_at expires_at)) (\<lambda>row.
     obind (or_not_found row) (\<lambda>r. cok (to_api_key r)))"

definition rotate_api_key_transaction ::
  "string \<Rightarrow> string \<Rightarrow> api_key_status \<Rightarrow> int option \<Rightarrow> int option \<Rightarrow> new_api_key_row \<Rightarrow> api_key store_op" where
  "rotate_api_key_transaction subject key_id status revoked_at expires_at new_key = sql_tx (\<lambda>now.
     obind (update_visible_key subject key_id (status_change status revoked_at expires_at)) (\<lambda>existing.
     obind (or_not_found existing) (\<lambda>_.
     obind (sql (\<lambda>_ s.
       if visible_project subject (nk_project_id new_key) s = None then Inr (None, s)
       else res_bind (insert_api_key subject new_key now s) (\<lambda>(row, s'). Inr (Some row, s')))) (\<lambda>new_row.
     obind (or_not_found new_row) (\<lambda>row. cok (to_api_key row))))))"

definition find_api_key_by_hash :: "string \<Rightarrow> api_key option store_op" where
  "find_api_key_by_hash key_hash =
     obind (sql_query (\<lambda>s. Inr (find (\<lambda>e. ak_key_hash (ke_row e) = key_hash) (t_api_keys s)))) (\<lambda>row.
     cok (map_option (\<lambda>e. to_api_key (ke_row e)) row))"

definition record_api_key_usage :: "string \<Rightarrow> string option \<Rightarrow> api_key store_op" where
  "record_api_key_usage key_id last_ip =
     obind utc_now (\<lambda>now.
     let hit = (\<lambda>e. ak_id (ke_row e) = key_id);
         change = change_row (\<lambda>r. r\<lparr>ak_last_used_at := Some now, ak_last_ip := last_ip\<rparr>) in
     obind (sql (\<lambda>_ s. res_bind (fetch_one (updated_row hit change (t_api_keys s))) (\<lambda>e.
       Inr (ke_row e, s\<lparr>t_api_keys := update_where hit change (t_api_keys s)\<rparr>)))) (\<lambda>row.
     cok (to_api_key row)))"

subsection \<open>The validation view\<close>

definition effective_status :: "int \<Rightarrow> api_key_row \<Rightarrow> project_row \<Rightarrow> account_row \<Rightarrow> string" where
  "effective_status now k p a =
     (if ak_status k \<noteq> ''active'' then ''key_revoked''
      else if (case ak_expires_at k of None \<Rightarrow> False | Some e \<Rightarrow> e \<le> now) then ''key_expired''
      else if pj_status p \<noteq> ''active'' then ''project_suspended''
      else if ac_status a \<noteq> ''active'' then ''account_suspended''
      else ''active'')"

definition validation_row :: "int \<Rightarrow> tenancy \<Rightarrow> api_key_entry \<Rightarrow> api_key_validation option" where
  "validation_row now s e =
     (if ke_deleted_at e \<noteq> None then None
      else case find (\<lambda>p. pj_id p = ak_project_id (ke_row e)) (t_projects s) of
        None \<Rightarrow> None
      | Some p \<Rightarrow>
          (case find (\<lambda>a. ac_id a = pj_account_id p) (t_accounts s) of
             None \<Rightarrow> None
           | Some a \<Rightarrow>
               let m = find (on_roster (ak_project_id (ke_row e)) (ke_owner_account_id e)) (t_members s) in
               Some \<lparr>kv_api_key_id = ak_id (ke_row e), kv_key_hash = ak_key_hash (ke_row e),
                 kv_project_id = ak_project_id (ke_row e), kv_account_id = pj_account_id p,
                 kv_owner_account_id = ke_owner_account_id e, kv_owner_role = map_option pm_role m,
                 kv_owner_quota_tier = (case m of None \<Rightarrow> None | Some r \<Rightarrow> pm_quota_tier r),
                 kv_api_key_status = ak_status (ke_row e), kv_project_status = pj_status p,
                 kv_account_status = ac_status a, kv_expires_at = ak_expires_at (ke_row e),
                 kv_effective_status = effective_status now (ke_row e) p a\<rparr>))"

definition validation_by_hash :: "int \<Rightarrow> string \<Rightarrow> tenancy \<Rightarrow> api_key_validation option" where
  "validation_by_hash now key_hash s =
     find (\<lambda>v. kv_key_hash v = key_hash) (List.map_filter (validation_row now s) (t_api_keys s))"

definition find_api_key_validation_by_hash :: "string \<Rightarrow> api_key_validation option store_op" where
  "find_api_key_validation_by_hash key_hash = sql (\<lambda>now s. Inr (validation_by_hash now key_hash s, s))"

subsection \<open>Signing keys\<close>

definition active_signing_key :: "tenancy \<Rightarrow> signing_key_row option" where
  "active_signing_key s = find (\<lambda>k. sk_status k = ''active'') (t_signing_keys s)"

definition get_active_signing_key :: "signing_key_row option store_op" where
  "get_active_signing_key = sql_query (\<lambda>s. Inr (active_signing_key s))"

text \<open>\<open>ORDER BY status = 'active' DESC, created_at DESC\<close>.\<close>

definition list_verification_jwks :: "json list store_op" where
  "list_verification_jwks = sql_query (\<lambda>s. Inr (map (\<lambda>k. sk_public_jwk (sk_data k))
     (sort_key (\<lambda>k. if sk_status k = ''active'' then (0::int) else 1)
        (order_desc (\<lambda>k. sk_created_at (sk_data k)) (t_signing_keys s)))))"

text \<open>
  The transaction holds the advisory lock \<open>SIGNING_KEY_LOCK\<close> from its first statement to its end; the index
  \<open>idx_signing_keys_single_active\<close> allows one active row.
\<close>

definition insert_signing_key ::
  "signing_data \<Rightarrow> tenancy \<Rightarrow> (string, signing_key_row \<times> tenancy) result" where
  "insert_signing_key c s =
     (if list_ex (\<lambda>k. sk_kid (sk_data k) = sk_kid c \<or> sk_status k = ''active'') (t_signing_keys s) then Inl ''23505''
      else let row = \<lparr>sk_data = c, sk_status = ''active'', sk_retired_at = None\<rparr> in
           Inr (row, s\<lparr>t_signing_keys := t_signing_keys s @ [row]\<rparr>))"

definition retire_signing_key :: "string \<Rightarrow> int \<Rightarrow> tenancy \<Rightarrow> tenancy" where
  "retire_signing_key kid at s = s\<lparr>t_signing_keys := update_where (\<lambda>k. sk_kid (sk_data k) = kid)
     (\<lambda>k. k\<lparr>sk_status := ''stale'', sk_retired_at := Some at\<rparr>) (t_signing_keys s)\<rparr>"

definition ensure_active_signing_key :: "signing_data \<Rightarrow> int \<Rightarrow> signing_key_row store_op" where
  "ensure_active_signing_key candidate max_age_cutoff = sql_tx (\<lambda>_.
     obind (sql_query (\<lambda>s. Inr ())) (\<lambda>_.
     obind (sql_query (\<lambda>s. Inr (active_signing_key s))) (\<lambda>active.
     let needs_rotation = (case active of
           None \<Rightarrow> True | Some current \<Rightarrow> sk_created_at (sk_data current) \<le> max_age_cutoff) in
     if \<not> needs_rotation then (case active of Some current \<Rightarrow> cok current | None \<Rightarrow> cfail (ServerError ''panic''))
     else obind (case active of
            None \<Rightarrow> cok ()
          | Some current \<Rightarrow> sql (\<lambda>_ s.
              Inr ((), retire_signing_key (sk_kid (sk_data current)) (sk_created_at candidate) s))) (\<lambda>_.
       sql (\<lambda>_ s. insert_signing_key candidate s)))))"

end
