(* ===== verification/Oauth_Tokens.thy ===== *)
theory Oauth_Tokens
  imports Refresh_Tokens Api_Key_Store
begin

text \<open>
  What the token endpoint is made of: rest/src/oauth2_op/mod.rs (scopes, reading the upstream token),
  client_store.rs (the registered clients), refresh_store.rs (refresh tokens behind the upstream
  trait), and from signing.rs the claims of the minted tokens. Signing itself (\<open>TokenManager\<close>), SHA-256,
  base64, JSON parsing, RFC 3339 time stamps, the calendar and \<open>ClientRegistration::allows_grant_type\<close>
  belong to libraries: they are fields of the records below. Times are in microseconds; adding a
  duration to a time is taken not to leave chrono's range.
\<close>

subsection \<open>mod.rs\<close>

definition ACCESS_TOKEN_TYPE :: string where
  "ACCESS_TOKEN_TYPE = ''urn:ietf:params:oauth:token-type:access_token''"

definition OFFLINE_ACCESS_SCOPE :: string where
  "OFFLINE_ACCESS_SCOPE = ''offline_access''"

definition OPENID_SCOPE :: string where
  "OPENID_SCOPE = ''openid''"

definition REFRESH_TOKEN_PREFIX :: string where
  "REFRESH_TOKEN_PREFIX = ''lgbr_rt_''"

record token_error =
  te_error :: string
  te_description :: string

definition oauth_err :: "string \<Rightarrow> string \<Rightarrow> token_error" where
  "oauth_err err description = \<lparr>te_error = err, te_description = description\<rparr>"

definition grant_scopes :: "string option \<Rightarrow> string list \<Rightarrow> string list \<Rightarrow> string list" where
  "grant_scopes requested server_allowed client_scopes =
     (let req = split_whitespace (coalesce requested '''');
          base = (if req = [] then filter (\<lambda>scope. scope \<noteq> OFFLINE_ACCESS_SCOPE) server_allowed
                  else filter (\<lambda>scope. list_ex (\<lambda>a. a = scope) server_allowed) req)
      in filter (\<lambda>scope. list_ex (\<lambda>c. c = scope) client_scopes) base)"

fun join_words :: "string list \<Rightarrow> string" where
  "join_words [] = ''''"
| "join_words [x] = x"
| "join_words (x # xs) = x @ '' '' @ join_words xs"

definition scope_to_string :: "string list \<Rightarrow> string option" where
  "scope_to_string scopes = (if scopes = [] then None else Some (join_words scopes))"

text \<open>The 32 random bytes, base64-encoded, are chosen by the environment.\<close>

definition generate_refresh_secret :: "('s, ('e, string) result) prog" where
  "generate_refresh_secret = obind cuid2 (\<lambda>rnd. Ret (Inr (REFRESH_TOKEN_PREFIX @ rnd)))"

record jwt_reader =
  b64_decode :: "string \<Rightarrow> string option"
  json_parse :: "string \<Rightarrow> json option"
  json_as_i64 :: "json \<Rightarrow> int option"

text \<open>\<open>split('.').nth(1)\<close>.\<close>

definition second_segment :: "string \<Rightarrow> string option" where
  "second_segment s =
     (case dropWhile (\<lambda>c. c \<noteq> CHR ''.'') s of
        [] \<Rightarrow> None | _ # rest \<Rightarrow> Some (takeWhile (\<lambda>c. c \<noteq> CHR ''.'') rest))"

definition decode_payload :: "jwt_reader \<Rightarrow> string \<Rightarrow> json option" where
  "decode_payload rd token =
     Option.bind (second_segment token) (\<lambda>payload. Option.bind (b64_decode rd payload) (json_parse rd))"

definition json_get :: "json \<Rightarrow> string \<Rightarrow> json option" where
  "json_get v key = (case v of JObject kvs \<Rightarrow> map_of kvs key | _ \<Rightarrow> None)"

fun json_as_bool :: "json \<Rightarrow> bool option" where
  "json_as_bool (JBool b) = Some b"
| "json_as_bool _ = None"

definition decode_email :: "jwt_reader \<Rightarrow> string \<Rightarrow> string option \<times> bool option" where
  "decode_email rd token =
     (case decode_payload rd token of
        None \<Rightarrow> (None, None)
      | Some v \<Rightarrow> (Option.bind (json_get v ''email'') json_as_str,
                   Option.bind (json_get v ''email_verified'') json_as_bool))"

definition decode_auth_time_and_nonce :: "jwt_reader \<Rightarrow> string \<Rightarrow> int option \<times> string option" where
  "decode_auth_time_and_nonce rd token =
     (case decode_payload rd token of
        None \<Rightarrow> (None, None)
      | Some v \<Rightarrow> (Option.bind (json_get v ''auth_time'') (json_as_i64 rd),
                   Option.bind (json_get v ''nonce'') json_as_str))"

subsection \<open>client\_store.rs\<close>

datatype grant_type =
  GtAuthorizationCode | GtRefreshToken | GtClientCredentials | GtDeviceCode | GtTokenExchange | GtCustom string

datatype auth_method = NoAuth | PrivateKeyJwt | OtherAuth string

datatype oauth_client_type = Public | Confidential

record oauth_client =
  oc_client_id :: string
  oc_client_type :: oauth_client_type
  oc_scopes :: "string list"
  oc_grant_types :: "string list"
  oc_allowed_audiences :: "string list"
  oc_jwks :: "json option"

record client_registration =
  cr_client_id :: string
  cr_client_secret_hash :: "string option"
  cr_redirect_uris :: "string list"
  cr_grant_types :: "grant_type list"
  cr_scopes :: "string list"
  cr_require_pkce :: bool
  cr_allowed_audiences :: "string list"
  cr_auth_method :: "auth_method option"
  cr_jwks :: "json option"

definition parse_grant_type :: "string \<Rightarrow> grant_type" where
  "parse_grant_type raw =
     (if raw = ''authorization_code'' then GtAuthorizationCode
      else if raw = ''refresh_token'' then GtRefreshToken
      else if raw = ''client_credentials'' then GtClientCredentials
      else if raw = ''urn:ietf:params:oauth:grant-type:device_code'' then GtDeviceCode
      else if raw = ''urn:ietf:params:oauth:grant-type:token-exchange'' then GtTokenExchange
      else GtCustom raw)"

definition to_registration :: "oauth_client \<Rightarrow> client_registration" where
  "to_registration c = \<lparr>cr_client_id = oc_client_id c, cr_client_secret_hash = None, cr_redirect_uris = [],
     cr_grant_types = map parse_grant_type (oc_grant_types c), cr_scopes = oc_scopes c, cr_require_pkce = False,
     cr_allowed_audiences = oc_allowed_audiences c,
     cr_auth_method = Some (case oc_client_type c of Public \<Rightarrow> NoAuth | Confidential \<Rightarrow> PrivateKeyJwt),
     cr_jwks = oc_jwks c\<rparr>"

text \<open>Collecting into a \<open>HashMap\<close>: of two clients with one id the later one stays.\<close>

definition client_store_from_config :: "oauth_client list \<Rightarrow> string \<Rightarrow> client_registration option" where
  "client_store_from_config clients =
     foldl (\<lambda>m c. m(oc_client_id c \<mapsto> to_registration c)) (\<lambda>_. None) clients"

definition find_client :: "(string \<Rightarrow> client_registration option) \<Rightarrow> string \<Rightarrow> client_registration option" where
  "find_client clients client_id = clients client_id"

definition has_confidential_client :: "oauth_client list \<Rightarrow> bool" where
  "has_confidential_client clients =
     list_ex (\<lambda>c. case client_store_from_config clients (oc_client_id c) of
        None \<Rightarrow> False | Some r \<Rightarrow> cr_auth_method r = Some PrivateKeyJwt) clients"

subsection \<open>signing.rs: what is signed\<close>

definition TOKEN_TYP :: string where
  "TOKEN_TYP = ''Bearer''"

definition IDENTITY_PROVIDER_ID :: string where
  "IDENTITY_PROVIDER_ID = ''keycloak''"

record key_owner =
  ko_subject :: string
  ko_email :: "string option"
  ko_email_verified :: "bool option"

record identity =
  id_provider_id :: string
  id_external_id :: string
  id_email :: "string option"
  id_username :: "string option"
  id_attributes :: "string \<Rightarrow> string option"

type_synonym claim_map = "string \<Rightarrow> json option"

definition identity_for :: "key_owner \<Rightarrow> identity" where
  "identity_for owner = \<lparr>id_provider_id = IDENTITY_PROVIDER_ID, id_external_id = ko_subject owner,
     id_email = ko_email owner, id_username = None, id_attributes = (\<lambda>_. None)\<rparr>"

definition insert_some :: "string \<Rightarrow> json option \<Rightarrow> claim_map \<Rightarrow> claim_map" where
  "insert_some key v m = (case v of None \<Rightarrow> m | Some x \<Rightarrow> m(key \<mapsto> x))"

text \<open>The two identifiers the function draws with \<open>cuid2()\<close> are its first arguments.\<close>

definition access_token_extra ::
  "string \<Rightarrow> string \<Rightarrow> key_owner \<Rightarrow> string \<Rightarrow> string \<Rightarrow> string \<Rightarrow> string list option \<Rightarrow> string option \<Rightarrow> claim_map" where
  "access_token_extra jti sid owner api_key_id project_id account_id allowed_models azp =
     insert_some ''allowed_models'' (map_option (\<lambda>models. JArray (map JString models)) allowed_models)
     (insert_some ''email_verified'' (map_option JBool (ko_email_verified owner))
     (insert_some ''email'' (map_option JString (ko_email owner))
     ((insert_some ''azp'' (map_option JString azp)
        [''jti'' \<mapsto> JString (''lgbr:'' @ jti), ''typ'' \<mapsto> JString TOKEN_TYP])
      (''lightbridge_caller_kind'' \<mapsto> JString API_KEY_CALLER_KIND, ''sid'' \<mapsto> JString sid,
       ''api_key_id'' \<mapsto> JString api_key_id, ''project_id'' \<mapsto> JString project_id,
       ''account_id'' \<mapsto> JString account_id))))"

definition id_token_extra ::
  "(string \<Rightarrow> string) \<Rightarrow> string \<Rightarrow> key_owner \<Rightarrow> string \<Rightarrow> int option \<Rightarrow> string \<Rightarrow> claim_map" where
  "id_token_extra compute_at_hash jti owner token auth_time azp =
     (insert_some ''auth_time'' (map_option (\<lambda>t. JNumber (dec_of_int t)) auth_time)
      (insert_some ''email_verified'' (map_option JBool (ko_email_verified owner))
      (insert_some ''email'' (map_option JString (ko_email owner)) [''jti'' \<mapsto> JString (''lgbr:'' @ jti)])))
     (''azp'' \<mapsto> JString azp, ''at_hash'' \<mapsto> JString (compute_at_hash token))"

definition seconds :: "int \<Rightarrow> int" where
  "seconds n = n * 1000000"

definition days :: "int \<Rightarrow> int" where
  "days n = seconds (n * 86400)"

definition capped_expiry :: "int \<Rightarrow> int \<Rightarrow> int option \<Rightarrow> int" where
  "capped_expiry now ttl_seconds requested =
     (let cap = now + seconds ttl_seconds in
      case requested of
        Some r \<Rightarrow> if r > now then min r cap else cap
      | None \<Rightarrow> cap)"

text \<open>\<open>TokenManager\<close>: it reads the clock itself and fails or yields the signed text.\<close>

record token_manager =
  issue_user_token :: "int \<Rightarrow> identity \<Rightarrow> nat \<Rightarrow> string option \<Rightarrow> string option \<Rightarrow> claim_map \<Rightarrow> string option"
  issue_id_token :: "int \<Rightarrow> identity \<Rightarrow> string \<Rightarrow> string option \<Rightarrow> nat \<Rightarrow> claim_map \<Rightarrow> string option"

subsection \<open>refresh\_store.rs\<close>

record time_text =
  to_rfc3339 :: "int \<Rightarrow> string"
  parse_rfc3339 :: "string \<Rightarrow> int option"

datatype op_error = OpStorage | OpInvalidCode

record refresh_token =
  rf_token :: string
  rf_client_id :: string
  rf_identity :: identity
  rf_scope :: string
  rf_expires_at :: int

definition bool_text :: "bool \<Rightarrow> string" where
  "bool_text b = (if b then ''true'' else ''false'')"

definition parse_bool :: "string \<Rightarrow> bool option" where
  "parse_bool s = (if s = ''true'' then Some True else if s = ''false'' then Some False else None)"

definition attr_some :: "string \<Rightarrow> string option \<Rightarrow> (string \<Rightarrow> string option) \<Rightarrow> string \<Rightarrow> string option" where
  "attr_some key v m = (case v of None \<Rightarrow> m | Some x \<Rightarrow> m(key \<mapsto> x))"

definition row_to_refresh_token :: "time_text \<Rightarrow> refresh_row \<Rightarrow> refresh_token" where
  "row_to_refresh_token tt row =
     (let d = rt_data row in
      \<lparr>rf_token = rt_token_hash d, rf_client_id = rt_client_id d,
       rf_identity = \<lparr>id_provider_id = IDENTITY_PROVIDER_ID, id_external_id = rt_subject d,
         id_email = rt_email d, id_username = None,
         id_attributes = (attr_some ''auth_time'' (map_option dec_of_int (rt_auth_time d))
           (attr_some ''email_verified'' (map_option bool_text (rt_email_verified d))
           [''account_id'' \<mapsto> rt_account_id d, ''project_id'' \<mapsto> rt_project_id d]))
           (''chain_id'' \<mapsto> rt_chain_id d, ''chain_expires_at'' \<mapsto> to_rfc3339 tt (rt_chain_expires_at d))\<rparr>,
       rf_scope = coalesce (rt_scope d) '''', rf_expires_at = rt_expires_at d\<rparr>)"

text \<open>The row \<open>store_token\<close> builds from a token, once its identifier and creation time are drawn.\<close>

definition stored_token ::
  "time_text \<Rightarrow> (string \<Rightarrow> string) \<Rightarrow> string \<Rightarrow> int \<Rightarrow> refresh_token \<Rightarrow> (op_error, refresh_data) result" where
  "stored_token tt hash new_id now token =
     (let attrs = id_attributes (rf_identity token) in
      case attrs ''chain_id'' of
        None \<Rightarrow> Inl OpStorage
      | Some chain_id \<Rightarrow>
          (case Option.bind (attrs ''chain_expires_at'') (parse_rfc3339 tt) of
             None \<Rightarrow> Inl OpStorage
           | Some chain_expires_at \<Rightarrow> Inr \<lparr>rt_id = new_id, rt_subject = id_external_id (rf_identity token),
               rt_account_id = coalesce (attrs ''account_id'') '''', rt_project_id = coalesce (attrs ''project_id'') '''',
               rt_client_id = rf_client_id token, rt_token_hash = hash (rf_token token),
               rt_scope = (if rf_scope token = [] then None else Some (rf_scope token)),
               rt_email = id_email (rf_identity token),
               rt_email_verified = Option.bind (attrs ''email_verified'') parse_bool,
               rt_auth_time = Option.bind (attrs ''auth_time'') parse_i64,
               rt_chain_id = chain_id, rt_chain_expires_at = chain_expires_at, rt_created_at = now,
               rt_expires_at = rf_expires_at token\<rparr>))"

type_synonym 'a op_store_op = "(tenancy, (op_error, 'a) result) prog"

text \<open>\<open>map_err(|_| OpError::Storage)\<close>.\<close>

definition or_storage :: "'a store_op \<Rightarrow> 'a op_store_op" where
  "or_storage m = pbind m (\<lambda>r. Ret (map_err (\<lambda>_. OpStorage) r))"

definition store_token :: "time_text \<Rightarrow> (string \<Rightarrow> string) \<Rightarrow> refresh_token \<Rightarrow> unit op_store_op" where
  "store_token tt hash token =
     obind cuid2 (\<lambda>new_id. obind utc_now (\<lambda>now.
     obind (Ret (stored_token tt hash new_id now token)) (\<lambda>new.
     obind (or_storage (create_exchange_refresh_token new)) (\<lambda>_. Ret (Inr ())))))"

definition get_token :: "time_text \<Rightarrow> (string \<Rightarrow> string) \<Rightarrow> string \<Rightarrow> refresh_token option op_store_op" where
  "get_token tt hash token =
     obind utc_now (\<lambda>now. obind (or_storage (find_active_exchange_refresh_token (hash token) now)) (\<lambda>row.
     Ret (Inr (map_option (row_to_refresh_token tt) row))))"

definition revoke_token :: "(string \<Rightarrow> string) \<Rightarrow> string \<Rightarrow> unit op_store_op" where
  "revoke_token hash token = or_storage (revoke_exchange_refresh_token (hash token))"

definition consume_token :: "time_text \<Rightarrow> (string \<Rightarrow> string) \<Rightarrow> string \<Rightarrow> refresh_token option op_store_op" where
  "consume_token tt hash token =
     obind utc_now (\<lambda>now. obind (or_storage (consume_exchange_refresh_token (hash token) now)) (\<lambda>row.
     Ret (Inr (map_option (row_to_refresh_token tt) row))))"

definition refresh_identity ::
  "time_text \<Rightarrow> key_owner \<Rightarrow> string \<Rightarrow> string \<Rightarrow> int option \<Rightarrow> string \<Rightarrow> int \<Rightarrow> identity" where
  "refresh_identity tt owner account_id project_id auth_time chain_id chain_expires_at =
     \<lparr>id_provider_id = ''keycloak'', id_external_id = ko_subject owner, id_email = ko_email owner, id_username = None,
      id_attributes = (attr_some ''auth_time'' (map_option dec_of_int auth_time)
        (attr_some ''email_verified'' (map_option bool_text (ko_email_verified owner))
        [''account_id'' \<mapsto> account_id, ''project_id'' \<mapsto> project_id]))
        (''chain_id'' \<mapsto> chain_id, ''chain_expires_at'' \<mapsto> to_rfc3339 tt chain_expires_at)\<rparr>"

end
