(* ===== verification/Token_Exchange.thy ===== *)
theory Token_Exchange
  imports Oauth_Tokens
begin

text \<open>
  rest/src/oauth2_op/store.rs: the RFC 8693 token-exchange grant and the refresh-token grant of
  \<open>TokenExchangeOpStore\<close>, whole; rest/src/token_exchange.rs: the error codes and the revocation endpoint.
  \<open>RequestScopedOpStore\<close> only carries \<open>project_id\<close>, which is an argument here; \<open>handle_token\<close>, which
  authenticates the client and dispatches to the two grants, is upstream's. Log events are left out.
\<close>

subsection \<open>The store\<close>

record exchange_cfg =
  xc_enabled :: bool
  xc_access_ttl_seconds :: int
  xc_refresh_ttl_seconds :: int
  xc_allowed_scopes :: "string list"
  xc_refresh_absolute_ttl_seconds :: int

text \<open>
  \<open>TokenExchangeOpStore\<close>: its configuration, the libraries it calls, the bearer service (which may fail
  with the weather), \<open>hash_api_key\<close> and \<open>compute_at_hash\<close> (SHA-256), the calendar, and the engine's floor, read from the live
  engine of the budget services.
\<close>

record op_store =
  xs_cfg :: exchange_cfg
  xs_repo :: store_repo
  xs_hash :: "string \<Rightarrow> string"
  xs_at_hash :: "string \<Rightarrow> string"
  xs_bearer :: "weather \<Rightarrow> string \<Rightarrow> (string, token_info) result"
  xs_reader :: jwt_reader
  xs_times :: time_text
  xs_year_month :: "int \<Rightarrow> int \<times> nat"
  xs_allows :: "client_registration \<Rightarrow> grant_type \<Rightarrow> bool"

record token_request =
  tq_grant_type :: string
  tq_scope :: "string option"
  tq_refresh_token :: "string option"
  tq_subject_token :: "string option"
  tq_subject_token_type :: "string option"
  tq_actor_token :: "string option"
  tq_actor_token_type :: "string option"
  tq_requested_token_type :: "string option"
  tq_audience :: "string option"

record token_response =
  tr_access_token :: string
  tr_token_type :: string
  tr_expires_in :: nat
  tr_id_token :: "string option"
  tr_refresh_token :: "string option"
  tr_scope :: "string option"
  tr_issued_token_type :: "string option"

type_synonym 'a grant_op = "(tenancy, (token_error, 'a) result) prog"

abbreviation refuse :: "string \<Rightarrow> string \<Rightarrow> 'a grant_op" where
  "refuse err description \<equiv> Ret (Inl (oauth_err err description))"

text \<open>\<open>.await.map_err(|_| \<dots>)\<close>, and a \<open>match\<close> on the result of a repository call.\<close>

definition or_refuse :: "string \<Rightarrow> string \<Rightarrow> (tenancy, ('e, 'a) result) prog \<Rightarrow> 'a grant_op" where
  "or_refuse err description m = pbind m (\<lambda>r. Ret (map_err (\<lambda>_. oauth_err err description) r))"

text \<open>Division of \<open>i64\<close> truncates towards zero.\<close>

definition trunc_div :: "int \<Rightarrow> int \<Rightarrow> int" where
  "trunc_div a b = sgn a * sgn b * (\<bar>a\<bar> div \<bar>b\<bar>)"

definition budget_tier_wire_label :: "int \<Rightarrow> string" where
  "budget_tier_wire_label amount_micros =
     (case tier_from_amount_micros amount_micros of
        Some tier \<Rightarrow> tier_label tier
      | None \<Rightarrow> ''b-'' @ dec_of_int (trunc_div amount_micros 1000000))"

definition resolve_budget_tier :: "op_store \<Rightarrow> string \<Rightarrow> int \<Rightarrow> string grant_op" where
  "resolve_budget_tier x budget_account_id now =
     (case period_current (fst (xs_year_month x now)) (snd (xs_year_month x now)) of
        None \<Rightarrow> refuse ''server_error'' ''panic''
      | Some per \<Rightarrow>
          pbind (on_budget (current_tier budget_account_id per)) (\<lambda>r.
          case r of
            Inr tier \<Rightarrow> Ret (Inr (tier_label tier))
          | Inl _ \<Rightarrow> observe (\<lambda>_ s. Inr (budget_tier_wire_label (engine_fail_closed_floor (live_engine (t_budget s)))))))"

definition resolve_quota_tier :: "string \<Rightarrow> string \<Rightarrow> string option grant_op" where
  "resolve_quota_tier project_id subject =
     or_refuse ''server_error'' ''quota tier resolution failed'' (project_member_quota_tier project_id subject)"

definition resolve_project_model_access :: "op_store \<Rightarrow> string \<Rightarrow> (string list option \<times> model_policy) grant_op" where
  "resolve_project_model_access x project_id =
     pbind (get_project_by_id (xs_repo x) project_id) (\<lambda>r.
     Ret (Inr (case r of
        Inr (Some p) \<Rightarrow> (pj_allowed_models p, pj_model_policy p)
      | Inr None \<Rightarrow> (None, DenyAll)
      | Inl _ \<Rightarrow> (None, DenyAll))))"

subsection \<open>Minting\<close>

text \<open>
  The part the two grants have in common, from the claims to the access token and the id token: what
  differs are its arguments.
\<close>

record minting =
  mt_owner :: key_owner
  mt_context :: resolved_context
  mt_client_id :: string
  mt_allowed_models :: "string list option"
  mt_model_policy :: model_policy
  mt_scope :: "string option"
  mt_openid :: bool
  mt_auth_time :: "int option"
  mt_nonce :: "string option"

definition expires_in_secs :: "op_store \<Rightarrow> nat" where
  "expires_in_secs x = nat (max (xc_access_ttl_seconds (xs_cfg x)) 0)"

definition access_claims :: "minting \<Rightarrow> string \<Rightarrow> string \<Rightarrow> string \<Rightarrow> string \<Rightarrow> string option \<Rightarrow> claim_map" where
  "access_claims m session_id jti sid budget_tier quota_tier =
     (insert_some ''quota_tier'' (map_option JString quota_tier)
       ((access_token_extra jti sid (mt_owner m) session_id (rc_project_id (mt_context m)) (rc_account_id (mt_context m))
           (mt_allowed_models m) (Some (mt_client_id m)))
        (''budget_tier'' \<mapsto> JString budget_tier)))
     (''model_policy'' \<mapsto> JString (model_policy_to_string (mt_model_policy m)))"

definition mint_tokens :: "op_store \<Rightarrow> token_manager \<Rightarrow> minting \<Rightarrow> int \<Rightarrow> (string \<times> string option) grant_op" where
  "mint_tokens x tokens m now =
     obind cuid2 (\<lambda>session_id.
     obind (resolve_budget_tier x (rc_account_id (mt_context m)) now) (\<lambda>budget_tier.
     obind (resolve_quota_tier (rc_project_id (mt_context m)) (ko_subject (mt_owner m))) (\<lambda>quota_tier.
     obind cuid2 (\<lambda>jti. obind cuid2 (\<lambda>sid.
     obind (observe (\<lambda>w _.
       case issue_user_token tokens (o_now (w 0)) (identity_for (mt_owner m)) (expires_in_secs x) (mt_scope m)
              (Some (mt_client_id m)) (access_claims m session_id jti sid budget_tier quota_tier) of
         None \<Rightarrow> Inl (oauth_err ''server_error'' ''access token signing failed'')
       | Some t \<Rightarrow> Inr t)) (\<lambda>access_token.
     if \<not> mt_openid m then Ret (Inr (access_token, None))
     else obind cuid2 (\<lambda>id_jti.
       obind (observe (\<lambda>w _.
         case issue_id_token tokens (o_now (w 0)) (identity_for (mt_owner m)) (mt_client_id m) (mt_nonce m) (expires_in_secs x)
                (id_token_extra (xs_at_hash x) id_jti (mt_owner m) access_token (mt_auth_time m) (mt_client_id m)) of
           None \<Rightarrow> Inl (oauth_err ''server_error'' ''id token signing failed'')
         | Some t \<Rightarrow> Inr t)) (\<lambda>id_token.
       Ret (Inr (access_token, Some id_token))))))))))"

subsection \<open>The token-exchange grant\<close>

text \<open>The checks on the request before anything is looked up; they yield the subject token.\<close>

definition check_exchange_request ::
  "op_store \<Rightarrow> token_request \<Rightarrow> client_registration \<Rightarrow> (token_error, string) result" where
  "check_exchange_request x req client =
     (if \<not> xc_enabled (xs_cfg x)
      then Inl (oauth_err ''unsupported_grant_type'' ''Token exchange is not enabled on this authorization server'')
      else if \<not> xs_allows x client GtTokenExchange
      then Inl (oauth_err ''unauthorized_client'' ''Client is not authorized to use token_exchange grant type'')
      else if tq_actor_token req \<noteq> None \<or> tq_actor_token_type req \<noteq> None
      then Inl (oauth_err ''invalid_request'' ''actor_token is not supported'')
      else if (case tq_subject_token_type req of
                 None \<Rightarrow> False
               | Some t \<Rightarrow> str_trim t \<noteq> [] \<and> str_trim t \<noteq> ACCESS_TOKEN_TYPE)
      then Inl (oauth_err ''invalid_request'' ''subject_token_type must be urn:ietf:params:oauth:token-type:access_token'')
      else if coalesce (tq_requested_token_type req) ACCESS_TOKEN_TYPE \<noteq> ACCESS_TOKEN_TYPE
      then Inl (oauth_err ''invalid_request'' ''Unsupported requested_token_type. Only access_token is supported.'')
      else case tq_subject_token req of
        None \<Rightarrow> Inl (oauth_err ''invalid_request'' ''subject_token is required'')
      | Some t \<Rightarrow> if is_blank t then Inl (oauth_err ''invalid_request'' ''subject_token is required'') else Inr t)"

definition not_a_member :: token_error where
  "not_a_member = oauth_err ''access_denied'' ''subject is not a member of the requested project''"

definition context_failed :: token_error where
  "context_failed = oauth_err ''server_error'' ''context resolution failed''"

definition requested_project :: "string option \<Rightarrow> string option" where
  "requested_project project_id =
     (case project_id of None \<Rightarrow> None | Some p \<Rightarrow> if str_trim p = [] then None else Some (str_trim p))"

definition effective_project :: "string \<Rightarrow> string option \<Rightarrow> string grant_op" where
  "effective_project subject requested =
     (case requested of
        Some p \<Rightarrow> Ret (Inr p)
      | None \<Rightarrow> pbind (find_default_project_id subject) (\<lambda>r.
          Ret (case r of
            Inr (Some p) \<Rightarrow> Inr p
          | Inr None \<Rightarrow> Inl not_a_member
          | Inl _ \<Rightarrow> Inl context_failed)))"

definition exchange_context :: "string \<Rightarrow> string \<Rightarrow> resolved_context grant_op" where
  "exchange_context subject project_id =
     pbind (resolve_context subject project_id) (\<lambda>r.
     Ret (map_err (\<lambda>e. if e = CoreNotFound then not_a_member else context_failed) r))"

definition validate_subject_token :: "op_store \<Rightarrow> string \<Rightarrow> token_info grant_op" where
  "validate_subject_token x token =
     observe (\<lambda>w _.
       case xs_bearer x w token of
         Inr info \<Rightarrow> if active_token info then Inr info
                      else Inl (oauth_err ''invalid_token'' ''subject_token is not active'')
       | Inl _ \<Rightarrow> Inl (oauth_err ''invalid_token'' ''subject_token validation failed''))"

definition exchange_token_of ::
  "op_store \<Rightarrow> string \<Rightarrow> minting \<Rightarrow> string \<Rightarrow> int \<Rightarrow> string \<Rightarrow> refresh_token" where
  "exchange_token_of x client_id m chain_id now secret =
     \<lparr>rf_token = secret, rf_client_id = client_id,
      rf_identity = refresh_identity (xs_times x) (mt_owner m) (rc_account_id (mt_context m)) (rc_project_id (mt_context m))
        (mt_auth_time m) chain_id (now + seconds (max (xc_refresh_absolute_ttl_seconds (xs_cfg x)) 0)),
      rf_scope = coalesce (mt_scope m) '''', rf_expires_at = now + seconds (xc_refresh_ttl_seconds (xs_cfg x))\<rparr>"

definition issue_refresh_token :: "op_store \<Rightarrow> string \<Rightarrow> minting \<Rightarrow> bool \<Rightarrow> int \<Rightarrow> string option grant_op" where
  "issue_refresh_token x client_id m offline now =
     (if \<not> offline then Ret (Inr None)
      else obind generate_refresh_secret (\<lambda>secret.
           obind cuid2 (\<lambda>chain_id.
           obind (or_refuse ''server_error'' ''refresh token persistence failed''
              (store_token (xs_times x) (xs_hash x) (exchange_token_of x client_id m chain_id now secret))) (\<lambda>_.
           Ret (Inr (Some secret))))))"

definition handle_token_exchange ::
  "op_store \<Rightarrow> token_request \<Rightarrow> string \<Rightarrow> client_registration \<Rightarrow> token_manager \<Rightarrow> string option \<Rightarrow> token_response grant_op" where
  "handle_token_exchange x req client_id client tokens project_id =
     obind (Ret (check_exchange_request x req client)) (\<lambda>subject_token.
     obind (validate_subject_token x subject_token) (\<lambda>info.
     if \<not> list_ex (\<lambda>a. a = client_id) (aud info)
     then refuse ''invalid_grant'' ''Client is not authorized to exchange this token''
     else
     obind (effective_project (sub info) (requested_project project_id)) (\<lambda>effective_project_id.
     obind (exchange_context (sub info) effective_project_id) (\<lambda>context.
     obind (resolve_project_model_access x (rc_project_id context)) (\<lambda>(allowed_models, policy).
     let granted = grant_scopes (tq_scope req) (xc_allowed_scopes (xs_cfg x)) (cr_scopes client);
         offline = list_ex (\<lambda>s. s = OFFLINE_ACCESS_SCOPE) granted;
         m = \<lparr>mt_owner = \<lparr>ko_subject = sub info, ko_email = fst (decode_email (xs_reader x) subject_token),
                ko_email_verified = snd (decode_email (xs_reader x) subject_token)\<rparr>,
              mt_context = context, mt_client_id = client_id, mt_allowed_models = allowed_models,
              mt_model_policy = policy, mt_scope = scope_to_string granted,
              mt_openid = list_ex (\<lambda>s. s = OPENID_SCOPE) granted,
              mt_auth_time = fst (decode_auth_time_and_nonce (xs_reader x) subject_token),
              mt_nonce = snd (decode_auth_time_and_nonce (xs_reader x) subject_token)\<rparr> in
     obind utc_now (\<lambda>now.
     obind (mint_tokens x tokens m now) (\<lambda>(access_token, id_token).
     obind (issue_refresh_token x client_id m offline now) (\<lambda>refresh_token.
     Ret (Inr \<lparr>tr_access_token = access_token, tr_token_type = ''Bearer'', tr_expires_in = expires_in_secs x,
       tr_id_token = id_token, tr_refresh_token = refresh_token, tr_scope = mt_scope m,
       tr_issued_token_type = Some ''urn:ietf:params:oauth:token-type:access_token''\<rparr>)))))))))"

subsection \<open>The refresh-token grant\<close>

definition invalid_grant :: token_error where
  "invalid_grant = oauth_err ''invalid_grant'' ''refresh_token is invalid, expired, or already used''"

definition revoke_chain_on_reuse :: "string \<Rightarrow> unit grant_op" where
  "revoke_chain_on_reuse presented_hash =
     pbind (find_exchange_refresh_token_by_hash presented_hash) (\<lambda>r.
     case r of
       Inr (Some row) \<Rightarrow>
         if rt_status row \<noteq> ''rotated'' then Ret (Inr ())
         else pbind (revoke_exchange_refresh_token_chain (rt_chain_id (rt_data row))) (\<lambda>_. Ret (Inr ()))
     | _ \<Rightarrow> Ret (Inr ()))"

text \<open>The check of the presented token: granted type, presence, the compare-and-swap, and the reuse cascade.\<close>

definition consume_presented :: "op_store \<Rightarrow> string \<Rightarrow> int \<Rightarrow> refresh_row grant_op" where
  "consume_presented x presented_hash now =
     pbind (consume_exchange_refresh_token presented_hash now) (\<lambda>r.
     case r of
       Inr (Some row) \<Rightarrow> Ret (Inr row)
     | Inr None \<Rightarrow> obind (revoke_chain_on_reuse presented_hash) (\<lambda>_. Ret (Inl invalid_grant))
     | Inl _ \<Rightarrow> refuse ''server_error'' ''refresh token rotation failed'')"

definition refresh_context :: "refresh_data \<Rightarrow> resolved_context grant_op" where
  "refresh_context old =
     pbind (resolve_context (rt_subject old) (rt_project_id old)) (\<lambda>r.
     Ret (map_err (\<lambda>e. if e = CoreNotFound then invalid_grant else context_failed) r))"

definition active_project :: "op_store \<Rightarrow> string \<Rightarrow> project grant_op" where
  "active_project x project_id =
     pbind (get_project_by_id (xs_repo x) project_id) (\<lambda>r.
     Ret (case r of
        Inr (Some p) \<Rightarrow> if pj_status p = RsActive then Inr p else Inl invalid_grant
      | Inr None \<Rightarrow> Inl invalid_grant
      | Inl _ \<Rightarrow> Inl context_failed))"

definition active_account :: "string \<Rightarrow> unit grant_op" where
  "active_account account_id =
     pbind (get_account_by_id account_id) (\<lambda>r.
     Ret (case r of
        Inr (Some a) \<Rightarrow> if ac_status a = RsActive then Inr () else Inl invalid_grant
      | Inr None \<Rightarrow> Inl invalid_grant
      | Inl _ \<Rightarrow> Inl context_failed))"

definition successor :: "op_store \<Rightarrow> refresh_data \<Rightarrow> resolved_context \<Rightarrow> string \<Rightarrow> string \<Rightarrow> string \<Rightarrow> int \<Rightarrow> refresh_data" where
  "successor x old context client_id new_id secret now =
     \<lparr>rt_id = new_id, rt_subject = rt_subject old, rt_account_id = rc_account_id context,
      rt_project_id = rc_project_id context, rt_client_id = client_id, rt_token_hash = xs_hash x secret,
      rt_scope = rt_scope old, rt_email = rt_email old, rt_email_verified = rt_email_verified old,
      rt_auth_time = rt_auth_time old, rt_chain_id = rt_chain_id old, rt_chain_expires_at = rt_chain_expires_at old,
      rt_created_at = now, rt_expires_at = now + seconds (xc_refresh_ttl_seconds (xs_cfg x))\<rparr>"

definition presented_token :: "token_request \<Rightarrow> string option" where
  "presented_token req =
     (case tq_refresh_token req of None \<Rightarrow> None | Some t \<Rightarrow> if is_blank t then None else Some t)"

text \<open>What follows once the presented token is consumed.\<close>

definition refresh_rotated ::
  "op_store \<Rightarrow> string \<Rightarrow> token_manager \<Rightarrow> int \<Rightarrow> refresh_data \<Rightarrow> token_response grant_op" where
  "refresh_rotated x client_id tokens now old =
     (if rt_client_id old \<noteq> client_id then Ret (Inl invalid_grant)
      else if now \<ge> rt_chain_expires_at old then Ret (Inl invalid_grant)
      else
      obind (refresh_context old) (\<lambda>context.
      obind (active_project x (rc_project_id context)) (\<lambda>p.
      obind (active_account (rc_account_id context)) (\<lambda>_.
      let m = \<lparr>mt_owner = \<lparr>ko_subject = rt_subject old, ko_email = rt_email old, ko_email_verified = rt_email_verified old\<rparr>,
               mt_context = context, mt_client_id = client_id, mt_allowed_models = pj_allowed_models p,
               mt_model_policy = pj_model_policy p, mt_scope = rt_scope old,
               mt_openid = list_ex (\<lambda>s. s = OPENID_SCOPE) (split_whitespace (coalesce (rt_scope old) '''')),
               mt_auth_time = rt_auth_time old, mt_nonce = None\<rparr> in
      obind (mint_tokens x tokens m now) (\<lambda>(access_token, id_token).
      obind generate_refresh_secret (\<lambda>secret. obind cuid2 (\<lambda>new_id.
      obind (or_refuse ''server_error'' ''refresh token persistence failed''
         (create_exchange_refresh_token (successor x old context client_id new_id secret now))) (\<lambda>_.
      Ret (Inr \<lparr>tr_access_token = access_token, tr_token_type = ''Bearer'', tr_expires_in = expires_in_secs x,
        tr_id_token = id_token, tr_refresh_token = Some secret, tr_scope = rt_scope old,
        tr_issued_token_type = None\<rparr>)))))))))"

definition handle_refresh_token ::
  "op_store \<Rightarrow> token_request \<Rightarrow> string \<Rightarrow> client_registration \<Rightarrow> token_manager \<Rightarrow> token_response grant_op" where
  "handle_refresh_token x req client_id client tokens =
     (if \<not> xs_allows x client GtRefreshToken
      then refuse ''unauthorized_client'' ''Client is not authorized to use refresh_token grant type''
      else case presented_token req of
        None \<Rightarrow> refuse ''invalid_request'' ''refresh_token is required''
      | Some presented \<Rightarrow>
          obind utc_now (\<lambda>now.
          obind (consume_presented x (xs_hash x presented) now) (\<lambda>old_row.
          refresh_rotated x client_id tokens now (rt_data old_row))))"

subsection \<open>The HTTP boundary\<close>

definition status_for_oauth_error :: "string \<Rightarrow> nat" where
  "status_for_oauth_error e =
     (if e = ''invalid_client'' \<or> e = ''invalid_token'' then 401
      else if e = ''access_denied'' then 403
      else if e = ''server_error'' then 500
      else 400)"

record revoke_request =
  rq_token :: "string option"
  rq_token_type_hint :: "string option"
  rq_client_id :: "string option"
  rq_client_secret :: "string option"
  rq_client_assertion :: "string option"
  rq_client_assertion_type :: "string option"

datatype revoke_credential = NoCredential | Secret "string option" | Assertion string

record revoke_error =
  re_status :: nat
  re_error :: string
  re_description :: string

definition invalid_client :: revoke_error where
  "invalid_client = \<lparr>re_status = 401, re_error = ''invalid_client'', re_description = ''Client authentication failed''\<rparr>"

text \<open>
  What the endpoint takes from its libraries: decoding a \<open>Basic\<close> header to the client id before the colon,
  reading the subject of an assertion, verifying it, and the Redis \<open>SET NX\<close> that spends its \<open>jti\<close>.
\<close>

record assertion_lib =
  al_jwt_bearer :: string
  al_basic_client :: "string \<Rightarrow> string option"
  al_peek_subject :: "string \<Rightarrow> string option"
  al_verify :: "string \<Rightarrow> client_registration \<Rightarrow> (string \<times> int) option"
  al_record_jti :: "weather \<Rightarrow> string \<Rightarrow> int \<Rightarrow> (op_error, bool) result"

definition non_empty :: "string option \<Rightarrow> string option" where
  "non_empty v = (case v of Some [] \<Rightarrow> None | _ \<Rightarrow> v)"

definition extract_revoke_credential ::
  "assertion_lib \<Rightarrow> string option \<Rightarrow> string option \<Rightarrow> string option \<Rightarrow> string option \<Rightarrow> (revoke_error, revoke_credential) result" where
  "extract_revoke_credential al client_secret client_assertion client_assertion_type auth_header =
     (let basic = Option.bind auth_header (al_basic_client al);
          post = non_empty client_secret in
      if client_assertion \<noteq> None \<and> client_assertion_type \<noteq> Some (al_jwt_bearer al)
      then Inl \<lparr>re_status = 400, re_error = ''invalid_request'',
             re_description = ''client_assertion_type must be '' @ al_jwt_bearer al\<rparr>
      else if of_bool (basic \<noteq> None) + of_bool (post \<noteq> None) + of_bool (client_assertion \<noteq> None) > (1::nat)
      then Inl \<lparr>re_status = 400, re_error = ''invalid_request'',
             re_description = ''Only one client authentication method may be used per request''\<rparr>
      else Inr (case basic of
          Some client_id \<Rightarrow> Secret (Some client_id)
        | None \<Rightarrow> (case post of
            Some _ \<Rightarrow> Secret None
          | None \<Rightarrow> (case client_assertion of Some a \<Rightarrow> Assertion a | None \<Rightarrow> NoCredential))))"

definition resolve_revoke_client_id :: "assertion_lib \<Rightarrow> string option \<Rightarrow> revoke_credential \<Rightarrow> string option" where
  "resolve_revoke_client_id al req_client_id credential =
     (case credential of
        Secret (Some i) \<Rightarrow> Some i
      | Assertion a \<Rightarrow> (case req_client_id of Some i \<Rightarrow> Some i | None \<Rightarrow> al_peek_subject al a)
      | _ \<Rightarrow> req_client_id)"

type_synonym 'a revoke_op = "(tenancy, (revoke_error, 'a) result) prog"

definition authenticate_revoke_client ::
  "assertion_lib \<Rightarrow> client_registration \<Rightarrow> revoke_credential \<Rightarrow> unit revoke_op" where
  "authenticate_revoke_client al client credential =
     (case (cr_auth_method client, credential) of
        (Some NoAuth, NoCredential) \<Rightarrow> Ret (Inr ())
      | (Some PrivateKeyJwt, Assertion a) \<Rightarrow>
          (case al_verify al a client of
             None \<Rightarrow> Ret (Inl invalid_client)
           | Some (jti, expires_at) \<Rightarrow> observe (\<lambda>w _.
               case al_record_jti al w jti expires_at of
                 Inr True \<Rightarrow> Inr ()
               | Inr False \<Rightarrow> Inl invalid_client
               | Inl _ \<Rightarrow> Inl \<lparr>re_status = 500, re_error = ''server_error'', re_description = ''internal error''\<rparr>))
      | _ \<Rightarrow> Ret (Inl invalid_client))"

definition revoke_refresh_token_for_client :: "(string \<Rightarrow> string) \<Rightarrow> string \<Rightarrow> string \<Rightarrow> unit op_store_op" where
  "revoke_refresh_token_for_client hash token client_id =
     or_storage (revoke_exchange_refresh_token_for_client (hash token) client_id)"

text \<open>\<open>200 OK\<close> with an empty body is the value \<open>()\<close>.\<close>

definition revoke_endpoint ::
  "assertion_lib \<Rightarrow> (string \<Rightarrow> string) \<Rightarrow> (string \<Rightarrow> client_registration option) \<Rightarrow> string option \<Rightarrow> revoke_request \<Rightarrow> unit revoke_op" where
  "revoke_endpoint al hash clients auth_header raw =
     (case rq_token raw of
        None \<Rightarrow> Ret (Inl \<lparr>re_status = 400, re_error = ''invalid_request'', re_description = ''token is required''\<rparr>)
      | Some token \<Rightarrow>
          if is_blank token
          then Ret (Inl \<lparr>re_status = 400, re_error = ''invalid_request'', re_description = ''token is required''\<rparr>)
          else
          obind (Ret (extract_revoke_credential al (rq_client_secret raw) (rq_client_assertion raw)
                   (rq_client_assertion_type raw) auth_header)) (\<lambda>credential.
          case resolve_revoke_client_id al (rq_client_id raw) credential of
            None \<Rightarrow> Ret (Inl invalid_client)
          | Some client_id \<Rightarrow>
              (case find_client clients client_id of
                 None \<Rightarrow> Ret (Inl invalid_client)
               | Some client \<Rightarrow>
                   obind (authenticate_revoke_client al client credential) (\<lambda>_.
                   pbind (revoke_refresh_token_for_client hash token client_id) (\<lambda>r.
                   Ret (map_err (\<lambda>_. \<lparr>re_status = 500, re_error = ''server_error'', re_description = ''revocation failed''\<rparr>) r))))))"

end
