(* ===== verification/Token_Rotation.thy ===== *)
theory Token_Rotation
  imports Token_Exchange
begin

text \<open>
  The identity provider as a whole: its calls, served concurrently on one database. A refresh token is
  honoured at most once however the calls interleave, and every token minted by a rotation belongs
  to a chain that was born by an exchange and has not passed its absolute cap.
\<close>

subsection \<open>Calls\<close>

datatype idp_call =
    Exchange token_request string client_registration "string option"
  | Refresh token_request string client_registration
  | Revoke "string option" revoke_request
  | RevokeSessions string

datatype idp_reply =
    Tokens "(token_error, token_response) result"
  | RevokeReply "(revoke_error, unit) result"
  | SessionsReply "(core_error, nat) result"

definition revoke_sessions :: "string \<Rightarrow> nat store_op" where
  "revoke_sessions subject = revoke_active_exchange_refresh_tokens_for_subject subject"

record idp_deps =
  dp_store :: op_store
  dp_tokens :: token_manager
  dp_assertions :: assertion_lib
  dp_clients :: "string \<Rightarrow> client_registration option"

fun serve_idp :: "idp_deps \<Rightarrow> idp_call \<Rightarrow> (tenancy, idp_reply) prog" where
  "serve_idp d (Exchange req client_id client project_id) =
     pbind (handle_token_exchange (dp_store d) req client_id client (dp_tokens d) project_id) (\<lambda>r. Ret (Tokens r))"
| "serve_idp d (Refresh req client_id client) =
     pbind (handle_refresh_token (dp_store d) req client_id client (dp_tokens d)) (\<lambda>r. Ret (Tokens r))"
| "serve_idp d (Revoke auth_header raw) =
     pbind (revoke_endpoint (dp_assertions d) (xs_hash (dp_store d)) (dp_clients d) auth_header raw) (\<lambda>r. Ret (RevokeReply r))"
| "serve_idp d (RevokeSessions subject) = pbind (revoke_sessions subject) (\<lambda>r. Ret (SessionsReply r))"

text \<open>The call presents the refresh token with this hash.\<close>

fun presents :: "idp_deps \<Rightarrow> string \<Rightarrow> idp_call \<Rightarrow> bool" where
  "presents d h (Refresh req client_id client) \<longleftrightarrow>
     (case presented_token req of None \<Rightarrow> False | Some t \<Rightarrow> xs_hash (dp_store d) t = h)"
| "presents d h _ \<longleftrightarrow> False"

fun honoured :: "idp_reply \<Rightarrow> bool" where
  "honoured (Tokens (Inr _)) \<longleftrightarrow> True"
| "honoured _ \<longleftrightarrow> False"

subsection \<open>What a call does to the table\<close>

text \<open>The parts of the calls that only read, and those that add no token.\<close>

context tenancy_rely
begin

lemma guar_lookups:
  "guar R (project_member_quota_tier pid subj)" "guar R (get_project_by_id rp pid)"
  "guar R (get_account_by_id a)" "guar R (resolve_context subj pid)"
  "guar R (find_default_project_id subj)"
  unfolding project_member_quota_tier_def get_project_by_id_def get_account_by_id_def resolve_context_def
    find_default_project_id_def load_account_row_optional_def or_not_found_def
  by (auto intro!: guar_obind guar_query split: option.split)

lemma guar_or_refuse: "guar R m \<Longrightarrow> guar R (or_refuse e dsc m)"
  unfolding or_refuse_def by (rule guar_pbind) simp_all

lemma guar_or_storage: "guar R m \<Longrightarrow> guar R (or_storage m)"
  unfolding or_storage_def by (rule guar_pbind) simp_all

lemma guar_secret: "guar R generate_refresh_secret"
  unfolding generate_refresh_secret_def by (auto intro!: guar_obind guar_cuid2)

lemmas guar_basics = guar_current_tier guar_lookups guar_or_refuse guar_or_storage guar_secret
  guar_observe guar_cuid2 guar_utc_now

lemma guar_budget_tier: "guar R (resolve_budget_tier x a now)"
  unfolding resolve_budget_tier_def
  by (auto intro!: guar_pbind guar_basics split: option.split sum.split)

lemma guar_mint: "guar R (mint_tokens x tm m now)"
  unfolding mint_tokens_def resolve_quota_tier_def
  by (auto intro!: guar_obind guar_basics guar_budget_tier)

lemma guar_contexts:
  "guar R (refresh_context old)" "guar R (active_project x pid)" "guar R (active_account a)"
  "guar R (effective_project subj rq)" "guar R (exchange_context subj pid)"
  "guar R (resolve_project_model_access x pid)" "guar R (validate_subject_token x t)"
  unfolding refresh_context_def active_project_def active_account_def effective_project_def exchange_context_def
    resolve_project_model_access_def validate_subject_token_def
  by (auto intro!: guar_pbind guar_basics split: option.split)

end

context token_rely
begin

lemma guar_reuse: "guar R (revoke_chain_on_reuse h)"
  unfolding revoke_chain_on_reuse_def
  by (rule guar_pbind [OF guar_refresh_ops(2)]) (auto intro!: guar_basics guar_refresh_ops guar_pbind split: sum.split option.split)

lemma guar_consume: "guar R (consume_presented x h now)"
  unfolding consume_presented_def
  by (rule guar_pbind [OF guar_refresh_ops(4)]) (auto intro!: guar_basics guar_refresh_ops guar_reuse guar_obind split: sum.split option.split)

lemma guar_revoke: "guar R (revoke_endpoint al hash cls hdr raw)"
  unfolding revoke_endpoint_def authenticate_revoke_client_def revoke_refresh_token_for_client_def
  by (auto intro!: guar_obind guar_pbind guar_basics guar_refresh_ops
      split: option.split prod.split auth_method.split revoke_credential.split)

lemma guar_sessions: "guar R (revoke_sessions subject)"
  unfolding revoke_sessions_def by (rule guar_refresh_ops)

text \<open>An exchange, when storing the token it mints is allowed.\<close>

lemma guar_exchange:
  assumes "\<And>m chain now secret. guar R (store_token (xs_times x) (xs_hash x) (exchange_token_of x cid m chain now secret))"
  shows "guar R (handle_token_exchange x req cid cl tm pid)"
  unfolding handle_token_exchange_def issue_refresh_token_def Let_def
  by (auto intro!: guar_obind guar_basics guar_contexts guar_mint assms split: prod.split)

end

context token_adding
begin

lemma guar_store_token: "guar R (store_token tt hash t)"
  unfolding store_token_def
  by (auto intro!: guar_obind guar_basics guar_create_token)

lemma guar_rotated: "guar R (refresh_rotated x cid tm now old)"
  unfolding refresh_rotated_def Let_def
  by (auto intro!: guar_obind guar_basics guar_contexts guar_mint guar_create_token split: prod.split)

lemma guar_refresh: "guar R (handle_refresh_token x req cid cl tm)"
  unfolding handle_refresh_token_def
  by (auto intro!: guar_obind guar_basics guar_consume guar_rotated split: option.split)

lemma guar_serve: "guar R (serve_idp d call)"
  by (cases call)
    (auto intro!: guar_pbind guar_refresh guar_exchange guar_store_token guar_revoke guar_sessions)

end

subsection \<open>A refresh token is honoured at most once\<close>

lemma contends_map:
  "contends I live (\<lambda>a. won (f a)) p \<Longrightarrow> contends I live won (pbind p (\<lambda>a. Ret (f a)))"
  by (induction p) auto

lemma obind_pbind: "obind (pbind m f) k = pbind m (\<lambda>r. obind (f r) k)"
  unfolding obind_def by (rule pbind_assoc)

lemma consume_presented_contends:
  "contends hashes_unique (token_unspent h) (\<lambda>r. \<exists>a. r = Inr a) (obind (consume_presented x h now) k)"
  unfolding consume_presented_def obind_pbind consume_exchange_refresh_token_def
proof (rule contends_statement, goal_cases)
  case (1 e)
  show ?case by (simp add: obind_def)
next
  case (2 t s a s')
  show ?case
  proof (cases a)
    case None
    have eq: "obind (obind (revoke_chain_on_reuse h) (\<lambda>_. Ret (Inl invalid_grant))) k =
        pbind (revoke_chain_on_reuse h) (\<lambda>r. case r of Inl e \<Rightarrow> Ret (Inl e) | Inr _ \<Rightarrow> Ret (Inl invalid_grant))"
      unfolding obind_def pbind_assoc by (rule arg_cong [where f = "pbind _"]) (auto split: sum.split)
    have "contends hashes_unique (token_unspent h) (\<lambda>r. \<exists>a. r = Inr a)
        (obind (obind (revoke_chain_on_reuse h) (\<lambda>_. Ret (Inl invalid_grant))) k)"
      unfolding eq by (rule contends_then) (simp split: sum.split)
    with None show ?thesis by simp
  next
    case (Some row)
    with 2 show ?thesis by (auto simp: Let_def dest: consume_spends)
  qed
qed

lemma refresh_contends:
  "presents d h (Refresh req cid cl) \<Longrightarrow>
   contends hashes_unique (token_unspent h) (\<lambda>r. \<exists>a. r = Inr a) (handle_refresh_token (dp_store d) req cid cl tm)"
  unfolding handle_refresh_token_def
  by (auto split: option.splits intro!: contends_obind consume_presented_contends)

lemma serve_contends:
  "contends hashes_unique (token_unspent h) (\<lambda>r. presents d h call \<and> honoured r) (serve_idp d call)"
proof (cases "presents d h call")
  case True
  then obtain req cid cl where call: "call = Refresh req cid cl" by (cases call) auto
  have hon: "honoured (Tokens r) \<longleftrightarrow> (\<exists>a. r = Inr a)" for r by (cases r) auto
  show ?thesis
    using refresh_contends [OF True [unfolded call]] True
    by (simp add: call hon contends_map)
qed simp

definition winners :: "idp_deps \<Rightarrow> string \<Rightarrow> idp_call list \<Rightarrow> (tenancy, idp_reply) config \<Rightarrow> nat set" where
  "winners d h calls c =
     {i. i < length calls \<and> presents d h (calls ! i) \<and> (\<exists>r. threads c ! i = Some (Ret r) \<and> honoured r)}"

text \<open>C8 (single use). Whatever calls are served concurrently, with statements refused or their replies lost, calls crashing
  and interleaving in any way: of all the calls that present one refresh token at most one is answered
  with tokens.\<close>

theorem refresh_token_single_use:
  assumes "hashes_unique s" "pool_reach allowed (initial (map (serve_idp d) calls) s) c"
  shows "card (winners d h calls c) \<le> 1"
proof -
  have "i = j" if i: "i \<in> winners d h calls c" and j: "j \<in> winners d h calls c" for i j
  proof -
    from i j obtain r r' where r: "threads c ! i = Some (Ret r)" "honoured r" "threads c ! j = Some (Ret r')" "honoured r'"
      by (auto simp: winners_def)
    have len: "length (threads c) = length calls" using pool_reach_length [OF assms(2)] by (simp add: initial_def)
    show ?thesis
    proof (rule at_most_one_winner [where I = hashes_unique and live = "token_unspent h" and s = s and c = c and a = r and b = r'
        and ps = "map (serve_idp d) calls" and won = "\<lambda>k r. presents d h (calls ! k) \<and> honoured r"])
      show "guar (spent hashes_unique (token_unspent h)) p" if "p \<in> set (map (serve_idp d) calls)" for p
        using that tokens.guar_serve guar_spent by auto
      show "contends hashes_unique (token_unspent h) (\<lambda>r. presents d h (calls ! k) \<and> honoured r) (map (serve_idp d) calls ! k)"
        if "k < length (map (serve_idp d) calls)" for k
        using that serve_contends by simp
    qed (use assms i j r len in \<open>auto simp: winners_def\<close>)
  qed
  moreover have "finite (winners d h calls c)" by (simp add: winners_def)
  ultimately show ?thesis using card_le_Suc0_iff_eq by (metis One_nat_def)
qed

end
