(* ===== verification/Ownership.thy ===== *)
theory Ownership
  imports Contention
begin

text \<open>
  Calls that share a state but have something of their own in it: what one call may rely on differs from what it
  guarantees to the others, and the values it draws at random are its own.
\<close>

subsection \<open>Relying and guaranteeing\<close>

text \<open>
  \<open>obeys W E G p Q s\<close>: from \<open>s\<close> on, as long as the others change the state according to \<open>E\<close> and the weather of
  the own actions satisfies \<open>W\<close>, every action of \<open>p\<close> changes the state according to \<open>G\<close>, and \<open>Q\<close> holds of the
  result where \<open>p\<close> returns.
\<close>

primrec obeys :: "(weather \<Rightarrow> bool) \<Rightarrow> ('s \<Rightarrow> 's \<Rightarrow> bool) \<Rightarrow> ('s \<Rightarrow> 's \<Rightarrow> bool) \<Rightarrow> ('s, 'a) prog \<Rightarrow>
    ('a \<Rightarrow> 's \<Rightarrow> bool) \<Rightarrow> 's \<Rightarrow> bool" where
  "obeys W E G (Ret a) Q s \<longleftrightarrow> Q a s"
| "obeys W E G (Act u k) Q s \<longleftrightarrow>
     (\<forall>s' w. E s s' \<longrightarrow> W w \<longrightarrow> G s' (u w s') \<and> obeys W E G (k w s') Q (u w s'))"
| "obeys W E G (Lock l p) Q s \<longleftrightarrow> obeys W E G p Q s"
| "obeys W E G (Unlock l p) Q s \<longleftrightarrow> obeys W E G p Q s"

lemma obeys_weaken: "obeys W E G p Q s \<Longrightarrow> (\<And>a t. Q a t \<Longrightarrow> Q' a t) \<Longrightarrow> obeys W E G p Q' s"
  by (induction p arbitrary: s) auto

lemma obeys_pbind: "obeys W E G p (\<lambda>a. obeys W E G (k a) Q) s \<Longrightarrow> obeys W E G (pbind p k) Q s"
  by (induction p arbitrary: s) auto

lemma obeys_obind:
  "obeys W E G m (\<lambda>r t. case r of Inl e \<Rightarrow> Q (Inl e) t | Inr a \<Rightarrow> obeys W E G (k a) Q t) s \<Longrightarrow> obeys W E G (obind m k) Q s"
  unfolding obind_def by (rule obeys_pbind) (erule obeys_weaken, auto split: sum.splits)

lemma obeys_then:
  "obeys W E G m (\<lambda>r t. \<forall>a. r = Inr a \<longrightarrow> obeys W E G (k a) (\<lambda>_ _. True) t) s \<Longrightarrow> obeys W E G (obind m k) (\<lambda>_ _. True) s"
  by (rule obeys_obind) (erule obeys_weaken, simp split: sum.split)

lemma obeys_atomic:
  assumes "\<And>t w. E s t \<Longrightarrow> W w \<Longrightarrow> G t (snd (f w t)) \<and> Q (fst (f w t)) (snd (f w t))"
  shows "obeys W E G (atomic f) Q s"
  using assms by (simp add: atomic_def)

text \<open>A program that only does what changes nothing of interest keeps whatever neither it nor the others change.\<close>

lemma obeys_quiet:
  assumes "guar T p" "I s"
    and "\<And>t t'. T t t' \<Longrightarrow> G t t'" "\<And>t t'. I t \<Longrightarrow> T t t' \<Longrightarrow> I t'" "\<And>t t'. I t \<Longrightarrow> E t t' \<Longrightarrow> I t'"
  shows "obeys W E G p (\<lambda>_. I) s"
  using assms(1,2)
proof (induction p arbitrary: s)
  case (Act u k)
  show ?case
    unfolding obeys.simps
  proof (intro allI impI conjI)
    fix s' w
    assume "E s s'"
    then have "I s'" using assms(5) Act.prems(2) by blast
    moreover have step: "T s' (u w s')" "guar T (k w s')" using Act.prems(1) by simp_all
    ultimately have "I (u w s')" using assms(4) by blast
    with step(2) show "obeys W E G (k w s') (\<lambda>_. I) (u w s')" by (intro Act.IH) auto
    show "G s' (u w s')" using assms(3) step(1) .
  qed
qed simp_all

subsection \<open>Pools\<close>

definition settled :: "(nat \<Rightarrow> weather \<Rightarrow> bool) \<Rightarrow> (nat \<Rightarrow> 's \<Rightarrow> 's \<Rightarrow> bool) \<Rightarrow> (nat \<Rightarrow> 's \<Rightarrow> 's \<Rightarrow> bool) \<Rightarrow> ('s, 'a) config \<Rightarrow> bool" where
  "settled W E G c \<longleftrightarrow> (\<forall>i p. i < length (threads c) \<longrightarrow> threads c ! i = Some p \<longrightarrow>
     obeys (W i) (E i) (G i) p (\<lambda>_ _. True) (store c))"

lemma settled_at:
  "settled W E G c \<Longrightarrow> i < length (threads c) \<Longrightarrow> threads c ! i = Some p \<Longrightarrow> obeys (W i) (E i) (G i) p (\<lambda>_ _. True) (store c)"
  by (simp add: settled_def)

lemma settled_moved:
  assumes "settled W E G c" "threads c' = (threads c)[i := q]" "store c' = store c"
    and "\<And>p. q = Some p \<Longrightarrow> obeys (W i) (E i) (G i) p (\<lambda>_ _. True) (store c)"
  shows "settled W E G c'"
  unfolding settled_def
proof (intro allI impI)
  fix j p
  assume "j < length (threads c')" "threads c' ! j = Some p"
  with assms show "obeys (W j) (E j) (G j) p (\<lambda>_ _. True) (store c')"
    by (cases "j = i") (simp_all add: settled_at)
qed

locale neighbours =
  fixes W :: "nat \<Rightarrow> weather \<Rightarrow> bool"
    and E G :: "nat \<Rightarrow> 's \<Rightarrow> 's \<Rightarrow> bool"
    and R :: "'s \<Rightarrow> 's \<Rightarrow> bool"
  assumes rely_trans: "E i s s' \<Longrightarrow> E i s' s'' \<Longrightarrow> E i s s''"
    and rely_refl: "E i s s"
    and considerate: "i \<noteq> j \<Longrightarrow> G i s s' \<Longrightarrow> E j s s'"
    and effect: "G i s s' \<Longrightarrow> R s s'"
    and effect_refl: "R s s"
    and effect_trans: "R s s' \<Longrightarrow> R s' s'' \<Longrightarrow> R s s''"
begin

lemma obeys_stable: "obeys (W i) (E i) (G i) p (\<lambda>_ _. True) s \<Longrightarrow> E i s s' \<Longrightarrow> obeys (W i) (E i) (G i) p (\<lambda>_ _. True) s'"
  by (induction p arbitrary: s) (auto intro: rely_trans)

lemma settled_step:
  assumes "pool_step c ev c'" "settled W E G c" "\<And>i w. ev = Acts i w \<Longrightarrow> W i w"
  shows "settled W E G c' \<and> R (store c) (store c')"
  using assms(1)
proof (cases rule: pool_step.cases)
  case (acts i u k w)
  have "obeys (W i) (E i) (G i) (Act u k) (\<lambda>_ _. True) (store c)" using assms(2) acts(3,4) by (rule settled_at)
  then have own: "G i (store c) (u w (store c))" "obeys (W i) (E i) (G i) (k w (store c)) (\<lambda>_ _. True) (u w (store c))"
    using rely_refl assms(3) [OF acts(1)] by auto
  have "obeys (W j) (E j) (G j) p (\<lambda>_ _. True) (u w (store c))" if "j \<noteq> i" "j < length (threads c)" "threads c ! j = Some p" for j p
    by (rule obeys_stable [OF settled_at [OF assms(2) that(2,3)]], rule considerate [OF _ own(1)]) (use that(1) in simp)
  then have "settled W E G c'"
    unfolding settled_def acts(2) using own(2) acts(3)
    by (intro allI impI, rename_tac j p, case_tac "j = i") auto
  with own(1) acts(2) effect show ?thesis by simp
next
  case (locks i l p)
  with settled_at [OF assms(2) locks(3,4)] have "settled W E G c'"
    by (intro settled_moved [OF assms(2), where i = i and q = "Some p"]) auto
  with locks(2) show ?thesis by (simp add: effect_refl)
next
  case (unlocks i l p)
  with settled_at [OF assms(2) unlocks(3,4)] have "settled W E G c'"
    by (intro settled_moved [OF assms(2), where i = i and q = "Some p"]) auto
  with unlocks(2) show ?thesis by (simp add: effect_refl)
next
  case (crashes i)
  then have "settled W E G c'"
    by (intro settled_moved [OF assms(2), where i = i and q = None]) auto
  with crashes(2) show ?thesis by (simp add: effect_refl)
next
  case (breaks l)
  with assms(2) show ?thesis by (simp add: settled_def effect_refl)
qed

lemma settled_reach:
  assumes "pool_reach allowed c c'" "settled W E G c" "\<And>i w. allowed (Acts i w) \<Longrightarrow> W i w"
  shows "settled W E G c' \<and> R (store c) (store c')"
  using assms
proof (induction rule: pool_reach.induct)
  case (continue c c' ev c'')
  then show ?case using settled_step [of c' ev c''] effect_trans by blast
qed (simp add: effect_refl)

lemma settled_initial:
  assumes "pool_reach allowed (initial ps s) c" "\<And>i w. allowed (Acts i w) \<Longrightarrow> W i w"
    and "\<And>i. i < length ps \<Longrightarrow> obeys (W i) (E i) (G i) (ps ! i) (\<lambda>_ _. True) s"
  shows "R s (store c)"
proof -
  have "settled W E G (initial ps s)" using assms(3) by (auto simp: settled_def initial_def)
  from settled_reach [OF assms(1) this assms(2)] show ?thesis by (simp add: initial_def)
qed

end

subsection \<open>Identifiers of one's own\<close>

text \<open>
  What makes a random identifier useful: those drawn by different calls differ. \<open>D i\<close> are the identifiers that call \<open>i\<close> may draw.
\<close>

definition draws :: "string set \<Rightarrow> weather \<Rightarrow> bool" where
  "draws ids w \<longleftrightarrow> (\<forall>n. o_cuid (w n) \<in> ids)"

fun drawing :: "(nat \<Rightarrow> string set) \<Rightarrow> event \<Rightarrow> bool" where
  "drawing D (Acts i w) \<longleftrightarrow> draws (D i) w"
| "drawing D _ \<longleftrightarrow> True"

lemma obeys_cuid2:
  assumes "\<And>t i. E s t \<Longrightarrow> i \<in> ids \<Longrightarrow> G t t \<and> Q (Inr i) t"
  shows "obeys (draws ids) E G cuid2 Q s"
  unfolding cuid2_def observe_def by (rule obeys_atomic) (use assms in \<open>auto simp: draws_def\<close>)

end
