(* ===== verification/Token_Chains.thy ===== *)
theory Token_Chains
  imports Token_Rotation Ownership "HOL-Library.Disjoint_Sets"
begin

text \<open>
  Chains of refresh tokens: a chain is born by an exchange under an identifier of its own, every rotation carries it on
  unchanged, and no token is added to it at or after its absolute deadline, in every interleaving of calls.
\<close>

definition token_data :: "tenancy \<Rightarrow> refresh_data set" where
  "token_data s = rt_data ` set (t_refresh_tokens s)"

definition chain_ids :: "tenancy \<Rightarrow> string set" where
  "chain_ids s = rt_chain_id ` token_data s"

definition same_chain :: "refresh_data \<Rightarrow> refresh_data \<Rightarrow> bool" where
  "same_chain b d \<longleftrightarrow> rt_chain_id b = rt_chain_id d \<and> rt_chain_expires_at b = rt_chain_expires_at d \<and>
     rt_subject b = rt_subject d \<and> rt_client_id b = rt_client_id d \<and> rt_auth_time b = rt_auth_time d"

text \<open>Tokens that share a chain identifier share the deadline, the subject, the client and the time of authentication.\<close>

definition coherent :: "tenancy \<Rightarrow> bool" where
  "coherent s \<longleftrightarrow> (\<forall>b \<in> token_data s. \<forall>d \<in> token_data s. rt_chain_id b = rt_chain_id d \<longrightarrow> same_chain b d)"

text \<open>A first token: its own deadline and its chain's are counted from one instant.\<close>

definition born :: "op_store \<Rightarrow> refresh_data \<Rightarrow> bool" where
  "born x d \<longleftrightarrow> rt_chain_expires_at d - seconds (max (xc_refresh_absolute_ttl_seconds (xs_cfg x)) 0) =
     rt_expires_at d - seconds (xc_refresh_ttl_seconds (xs_cfg x))"

text \<open>The first token of a chain that \<open>s\<close> does not have.\<close>

definition founder :: "op_store \<Rightarrow> tenancy \<Rightarrow> refresh_data \<Rightarrow> bool" where
  "founder x s d \<longleftrightarrow> born x d \<and> rt_chain_id d \<notin> chain_ids s"

text \<open>A token of \<open>s'\<close> is one of \<open>s\<close>, founds a new chain, or continues the chain of one of these before its deadline.\<close>

definition rooted :: "op_store \<Rightarrow> tenancy \<Rightarrow> tenancy \<Rightarrow> refresh_data \<Rightarrow> bool" where
  "rooted x s s' d \<longleftrightarrow> d \<in> token_data s \<or> founder x s d \<or>
     (\<exists>b \<in> token_data s'. (b \<in> token_data s \<or> founder x s b) \<and> same_chain b d \<and> rt_created_at d < rt_chain_expires_at d)"

definition chain_step :: "op_store \<Rightarrow> tenancy \<Rightarrow> tenancy \<Rightarrow> bool" where
  "chain_step x s s' \<longleftrightarrow> token_step s s' \<and> (coherent s \<longrightarrow> coherent s') \<and> (\<forall>d \<in> token_data s'. rooted x s s' d)"

lemma all2_kept_data: "list_all2 token_kept xs ys \<Longrightarrow> map rt_data ys = map rt_data xs"
  by (induction rule: list_all2_induct) (auto simp: token_kept_def)

lemma token_step_data: "token_step s s' \<Longrightarrow> token_data s \<subseteq> token_data s'"
proof -
  assume "token_step s s'"
  then obtain old new where "t_refresh_tokens s' = old @ new" "list_all2 token_kept (t_refresh_tokens s) old"
    by (auto simp: token_step_def)
  moreover from this have "rt_data ` set old = rt_data ` set (t_refresh_tokens s)"
    using all2_kept_data by (metis image_set)
  ultimately show ?thesis by (auto simp: token_data_def image_Un)
qed

lemma same_chain_equiv:
  "same_chain b b" "same_chain b d \<Longrightarrow> same_chain d b" "same_chain b d \<Longrightarrow> same_chain d e \<Longrightarrow> same_chain b e"
  by (auto simp: same_chain_def)

lemma founder_earlier: "founder x s' d \<Longrightarrow> token_data s \<subseteq> token_data s' \<Longrightarrow> founder x s d"
  by (auto simp: founder_def chain_ids_def)

lemma rooted_trans:
  assumes "chain_step x s s'" "chain_step x s' s''" "d \<in> token_data s''"
  shows "rooted x s s'' d"
proof -
  have sub: "token_data s \<subseteq> token_data s'" "token_data s' \<subseteq> token_data s''"
    using assms(1,2) token_step_data by (auto simp: chain_step_def)
  have early: "rooted x s s'' b" if "b \<in> token_data s'" for b
    using assms(1) that sub by (fastforce simp: chain_step_def rooted_def)
  consider "d \<in> token_data s'" | "founder x s' d"
    | b where "b \<in> token_data s''" "b \<in> token_data s' \<or> founder x s' b" "same_chain b d" "rt_created_at d < rt_chain_expires_at d"
    using assms(2,3) by (auto simp: chain_step_def rooted_def)
  then show ?thesis
  proof cases
    case 1
    then show ?thesis by (rule early)
  next
    case 2
    then show ?thesis using founder_earlier [OF _ sub(1)] by (simp add: rooted_def)
  next
    case (3 b)
    then have "rooted x s s'' b" using early founder_earlier [OF _ sub(1)] by (auto simp: rooted_def)
    with 3 show ?thesis unfolding rooted_def by (meson same_chain_equiv(3))
  qed
qed

lemma update_where_data: "(\<And>r. rt_data (f r) = rt_data r) \<Longrightarrow> rt_data ` set (update_where P f rows) = rt_data ` set rows"
  unfolding update_where_def set_map image_image by (rule image_cong) auto

lemma insert_data: "insert_refresh_token d s = Inr (r, s') \<Longrightarrow> token_data s' = insert d (token_data s)"
  by (auto simp: insert_refresh_token_def token_data_def Let_def split: if_splits)

subsection \<open>What a call relies on and what it guarantees\<close>

text \<open>Everything but adding tokens.\<close>

definition quiet_step :: "tenancy \<Rightarrow> tenancy \<Rightarrow> bool" where
  "quiet_step s s' \<longleftrightarrow> token_step s s' \<and> token_data s' = token_data s"

definition continues :: "tenancy \<Rightarrow> refresh_data \<Rightarrow> bool" where
  "continues s d \<longleftrightarrow> (\<exists>b \<in> token_data s. same_chain b d \<and> rt_created_at d < rt_chain_expires_at d)"

text \<open>
  A call that draws its identifiers from \<open>ids\<close> adds a token only to a chain that exists, or as the first of a chain with one of its
  identifiers; and it relies on the others not to found chains with its identifiers.
\<close>

definition grows :: "op_store \<Rightarrow> string set \<Rightarrow> tenancy \<Rightarrow> tenancy \<Rightarrow> bool" where
  "grows x ids s s' \<longleftrightarrow> quiet_step s s' \<or> token_step s s' \<and>
     (\<exists>d. token_data s' = insert d (token_data s) \<and> (continues s d \<or> founder x s d \<and> rt_chain_id d \<in> ids))"

definition spares :: "string set \<Rightarrow> tenancy \<Rightarrow> tenancy \<Rightarrow> bool" where
  "spares ids s s' \<longleftrightarrow> token_step s s' \<and> chain_ids s' \<inter> ids \<subseteq> chain_ids s"

lemma quiet_grows: "quiet_step s s' \<Longrightarrow> grows x ids s s'"
  by (simp add: grows_def)

lemma grows_chain_step: "grows x ids s s' \<Longrightarrow> chain_step x s s'"
proof -
  assume g: "grows x ids s s'"
  then consider "token_step s s'" "token_data s' = token_data s"
    | d where "token_step s s'" "token_data s' = insert d (token_data s)" "continues s d \<or> founder x s d"
    by (auto simp: grows_def quiet_step_def)
  then show ?thesis
  proof cases
    case 1
    then show ?thesis by (simp add: chain_step_def coherent_def rooted_def)
  next
    case (2 d)
    have "coherent s'" if ok: "coherent s"
    proof -
      have "same_chain b d" if "b \<in> token_data s" "rt_chain_id b = rt_chain_id d" for b
        using 2(3)
      proof
        assume "continues s d"
        then obtain b' where b': "b' \<in> token_data s" "same_chain b' d" by (auto simp: continues_def)
        then have "rt_chain_id b = rt_chain_id b'" using that(2) by (simp add: same_chain_def)
        with ok that(1) b'(1) have "same_chain b b'" unfolding coherent_def by blast
        from same_chain_equiv(3) [OF this b'(2)] show ?thesis .
      next
        assume "founder x s d"
        with that show ?thesis unfolding founder_def chain_ids_def by (metis imageI)
      qed
      with ok same_chain_equiv(1,2) show ?thesis unfolding coherent_def 2(2) by (metis insert_iff)
    qed
    moreover have "rooted x s s' e" if "e \<in> token_data s'" for e
      using that 2(3) unfolding rooted_def continues_def 2(2) by blast
    ultimately show ?thesis using 2(1) by (simp add: chain_step_def)
  qed
qed

lemma continues_chain: "continues s d \<Longrightarrow> rt_chain_id d \<in> chain_ids s"
  unfolding continues_def same_chain_def chain_ids_def by (metis imageI)

lemma grows_spares:
  assumes "grows x ids s s'" "ids \<inter> others = {}"
  shows "spares others s s'"
proof -
  consider "quiet_step s s'"
    | d where "token_step s s'" "token_data s' = insert d (token_data s)" "rt_chain_id d \<in> chain_ids s \<or> rt_chain_id d \<in> ids"
    using assms(1) continues_chain unfolding grows_def by blast
  then show ?thesis
  proof cases
    case 1
    then show ?thesis by (simp add: quiet_step_def spares_def chain_ids_def)
  next
    case (2 d)
    from 2(2) have "chain_ids s' = insert (rt_chain_id d) (chain_ids s)" by (simp add: chain_ids_def)
    with 2(3) assms(2) have "chain_ids s' \<inter> others \<subseteq> chain_ids s" by auto
    with 2(1) show ?thesis by (simp add: spares_def)
  qed
qed

lemma spares_data: "spares ids s s' \<Longrightarrow> token_data s \<subseteq> token_data s'"
  using token_step_data by (simp add: spares_def)

interpretation families: neighbours "\<lambda>i. draws (D i)" "\<lambda>i. spares (D i)"
    "\<lambda>i s s'. disjoint_family D \<and> grows x (D i) s s'" "chain_step x" for x D
proof unfold_locales
  show "spares (D i) s s''" if "spares (D i) s s'" "spares (D i) s' s''" for i s s' s''
  proof -
    have "token_step s s''" using token_step_trans that unfolding spares_def by blast
    moreover have "chain_ids s'' \<inter> D i \<subseteq> chain_ids s" using that unfolding spares_def by blast
    ultimately show ?thesis by (simp add: spares_def)
  qed
  show "spares (D i) s s" for i s by (simp add: spares_def token_steps.refl)
  show "spares (D j) s s'" if "i \<noteq> j" "disjoint_family D \<and> grows x (D i) s s'" for i j s s'
    using that by (auto intro: grows_spares simp: disjoint_family_on_def)
  show "chain_step x s s'" if "disjoint_family D \<and> grows x (D i) s s'" for i s s'
    using that grows_chain_step by blast
  show "chain_step x s s" for s by (rule grows_chain_step [of x "{}"], rule quiet_grows) (simp add: quiet_step_def token_steps.refl)
  show "chain_step x s s''" if "chain_step x s s'" "chain_step x s' s''" for s s' s''
  proof -
    have "token_step s s''" using token_step_trans that unfolding chain_step_def by blast
    moreover have "coherent s \<longrightarrow> coherent s''" using that unfolding chain_step_def by blast
    ultimately show ?thesis using rooted_trans [OF that] by (simp add: chain_step_def)
  qed
qed

interpretation quiet_steps: guarantee quiet_step
proof unfold_locales
  show "quiet_step s s''" if "quiet_step s s'" "quiet_step s' s''" for s s' s''
    using that token_step_trans by (auto simp: quiet_step_def)
qed (simp add: quiet_step_def token_steps.refl)

interpretation quiet: token_rely quiet_step
proof unfold_locales
  show "quiet_step s (revoke_where P s)" for s P
    by (simp add: quiet_step_def token_step_revoke) (simp add: token_data_def revoke_where_def update_where_data)
  show "quiet_step s (s\<lparr>t_refresh_tokens := update_where (usable_token h now)
      (\<lambda>r. r\<lparr>rt_status := ''rotated'', rt_last_used_at := t\<rparr>) (t_refresh_tokens s)\<rparr>)" for s h now t
    by (simp add: quiet_step_def token_step_consume) (simp add: token_data_def update_where_data)
qed

text \<open>The discipline of a call whose identifiers are \<open>ids\<close>.\<close>

abbreviation tends :: "op_store \<Rightarrow> string set \<Rightarrow> (tenancy, 'a) prog \<Rightarrow> ('a \<Rightarrow> tenancy \<Rightarrow> bool) \<Rightarrow> tenancy \<Rightarrow> bool" where
  "tends x ids \<equiv> obeys (draws ids) (spares ids) (grows x ids)"

lemma tends_quiet:
  assumes "guar quiet_step p" "I s" "\<And>t t'. I t \<Longrightarrow> quiet_step t t' \<Longrightarrow> I t'" "\<And>t t'. I t \<Longrightarrow> spares ids t t' \<Longrightarrow> I t'"
  shows "tends x ids p (\<lambda>_. I) s"
  using assms by (intro obeys_quiet [where T = quiet_step] quiet_grows) blast+

lemma tends_after:
  assumes "guar quiet_step m" "I s" "\<And>t t'. I t \<Longrightarrow> quiet_step t t' \<Longrightarrow> I t'" "\<And>t t'. I t \<Longrightarrow> spares ids t t' \<Longrightarrow> I t'"
    and "\<And>a t. I t \<Longrightarrow> tends x ids (k a) (\<lambda>_ _. True) t"
  shows "tends x ids (obind m k) (\<lambda>_ _. True) s"
proof (rule obeys_then)
  have "tends x ids m (\<lambda>_. I) s" using assms(1-4) by (intro tends_quiet) blast+
  then show "tends x ids m (\<lambda>r t. \<forall>a. r = Inr a \<longrightarrow> tends x ids (k a) (\<lambda>_ _. True) t) s"
    by (rule obeys_weaken) (use assms(5) in blast)
qed

lemma tends_guar: "guar quiet_step p \<Longrightarrow> tends x ids p (\<lambda>_ _. True) s"
  by (rule tends_quiet [where I = "\<lambda>_. True"]) simp_all

lemma tends_create:
  assumes "I s" "\<And>t t'. I t \<Longrightarrow> spares ids t t' \<Longrightarrow> I t'"
    and "\<And>t. I t \<Longrightarrow> continues t d \<or> founder x t d \<and> rt_chain_id d \<in> ids"
  shows "tends x ids (create_exchange_refresh_token d) (\<lambda>_ _. True) s"
  unfolding create_exchange_refresh_token_def statement_def
proof (rule obeys_atomic, goal_cases)
  case (1 t w)
  have "I t" using assms(1,2) 1(1) by blast
  then have "grows x ids t t'" if "insert_refresh_token d t = Inr (r, t')" for r t'
    unfolding grows_def using assms(3) insert_data [OF that] token_step_insert [OF that] by blast
  then show ?case
    by (auto intro: quiet_grows quiet_steps.refl split: delivery.split sum.split)
qed

subsection \<open>Births\<close>

text \<open>None of the call's identifiers names a chain yet.\<close>

definition unused :: "string set \<Rightarrow> tenancy \<Rightarrow> bool" where
  "unused ids s \<longleftrightarrow> chain_ids s \<inter> ids = {}"

lemma unused_stable:
  "unused ids s \<Longrightarrow> quiet_step s s' \<Longrightarrow> unused ids s'" "unused ids s \<Longrightarrow> spares ids s s' \<Longrightarrow> unused ids s'"
  by (simp add: unused_def quiet_step_def chain_ids_def) (use spares_def unused_def in blast)

lemma tends_unused:
  "guar quiet_step m \<Longrightarrow> unused ids s \<Longrightarrow> (\<And>a t. unused ids t \<Longrightarrow> tends x ids (k a) (\<lambda>_ _. True) t) \<Longrightarrow>
   tends x ids (obind m k) (\<lambda>_ _. True) s"
  by (rule tends_after [where I = "unused ids"]) (auto intro: unused_stable)

lemma stored_born:
  assumes "\<And>t. parse_rfc3339 (xs_times x) (to_rfc3339 (xs_times x) t) = Some t"
    and "stored_token (xs_times x) hash i t0 (exchange_token_of x cid m chain now secret) = Inr d"
  shows "born x d" "rt_chain_id d = chain"
  using assms(2)
  by (auto simp: stored_token_def exchange_token_of_def refresh_identity_def born_def assms(1) Let_def)

lemma tends_store:
  assumes "\<And>t. parse_rfc3339 (xs_times x) (to_rfc3339 (xs_times x) t) = Some t" "unused ids s" "chain \<in> ids"
  shows "tends x ids (store_token (xs_times x) hash (exchange_token_of x cid m chain now secret)) (\<lambda>_ _. True) s"
  unfolding store_token_def
proof (rule tends_unused [OF quiet_steps.guar_cuid2 assms(2)], rule tends_unused [OF quiet_steps.guar_utc_now], assumption)
  fix i t0 t
  assume "unused ids t"
  show "tends x ids (obind (Ret (stored_token (xs_times x) hash i t0 (exchange_token_of x cid m chain now secret)))
      (\<lambda>new. obind (or_storage (create_exchange_refresh_token new)) (\<lambda>_. Ret (Inr ())))) (\<lambda>_ _. True) t"
  proof (cases "stored_token (xs_times x) hash i t0 (exchange_token_of x cid m chain now secret)")
    case (Inr d)
    have "tends x ids (create_exchange_refresh_token d) (\<lambda>_ _. True) t"
      by (rule tends_create [where I = "unused ids", OF \<open>unused ids t\<close> unused_stable(2)])
        (use stored_born [OF assms(1) Inr] assms(3) in \<open>auto simp: founder_def unused_def\<close>)
    then have "tends x ids (or_storage (create_exchange_refresh_token d)) (\<lambda>_ _. True) t"
      unfolding or_storage_def by (intro obeys_pbind) (erule obeys_weaken, simp)
    then have "tends x ids (obind (or_storage (create_exchange_refresh_token d)) (\<lambda>_. Ret (Inr ()))) (\<lambda>_ _. True) t"
      by (intro obeys_then) (erule obeys_weaken, simp)
    with Inr show ?thesis by (simp add: obind_def)
  qed (simp add: obind_def)
qed

lemma tends_issue:
  assumes "\<And>t. parse_rfc3339 (xs_times x) (to_rfc3339 (xs_times x) t) = Some t" "unused ids s"
  shows "tends x ids (issue_refresh_token x cid m offline now) (\<lambda>_ _. True) s"
proof (cases offline)
  case True
  have "tends x ids (or_refuse e dsc (store_token (xs_times x) (xs_hash x) (exchange_token_of x cid m chain now secret))) (\<lambda>_ _. True) t"
    if "unused ids t" "chain \<in> ids" for t chain secret e dsc
    unfolding or_refuse_def by (rule obeys_pbind, rule obeys_weaken [OF tends_store [OF assms(1) that]]) simp
  then have rest: "tends x ids (obind (or_refuse e dsc (store_token (xs_times x) (xs_hash x) (exchange_token_of x cid m chain now secret)))
      (\<lambda>_. Ret (Inr v))) (\<lambda>_ _. True) t"
    if "unused ids t" "chain \<in> ids" for t chain secret e dsc v
    using that by (intro obeys_then) (rule obeys_weaken, blast, simp)
  show ?thesis
    unfolding issue_refresh_token_def eqTrueI [OF True] not_True_eq_False if_False
    by (rule tends_unused [OF quiet.guar_secret assms(2)], rule obeys_then, rule obeys_cuid2)
      (auto intro!: rest quiet_grows quiet_steps.refl intro: unused_stable(2))
qed (simp add: issue_refresh_token_def)

lemma tends_exchange:
  assumes "\<And>t. parse_rfc3339 (xs_times x) (to_rfc3339 (xs_times x) t) = Some t" "unused ids s"
  shows "tends x ids (handle_token_exchange x req cid cl tm pid) (\<lambda>_ _. True) s"
  unfolding handle_token_exchange_def Let_def
proof (rule tends_unused [OF _ assms(2)], simp, rule tends_unused [OF quiet.guar_contexts(7)], assumption, goal_cases)
  case (1 st t info t')
  have last: "tends x ids (obind (issue_refresh_token x cid m offline now) (\<lambda>v. Ret (Inr (f v)))) (\<lambda>_ _. True) u"
    if "unused ids u" for m offline now u and f :: "string option \<Rightarrow> token_response"
    by (rule obeys_then, rule obeys_weaken [OF tends_issue [OF assms(1) that]]) simp
  have minted: "tends x ids (obind (mint_tokens x tm m now) (\<lambda>(access, idt). obind (issue_refresh_token x cid m offline now)
      (\<lambda>v. Ret (Inr (f access idt v))))) (\<lambda>_ _. True) u"
    if "unused ids u" for m offline now u and f :: "string \<Rightarrow> string option \<Rightarrow> string option \<Rightarrow> token_response"
    by (rule tends_unused [OF quiet.guar_mint that]) (auto split: prod.split intro: last)
  show ?case
  proof (cases "list_ex (\<lambda>a. a = cid) (aud info)")
    case True
    show ?thesis
      unfolding eqTrueI [OF True] not_True_eq_False if_False
    proof (rule tends_unused [OF quiet.guar_contexts(4) 1(2)], rule tends_unused [OF quiet.guar_contexts(5)], assumption,
        rule tends_unused [OF quiet.guar_contexts(6)], assumption, goal_cases)
      case (1 p t1 ctx t2 ma t3)
      then show ?case
        by (cases ma) (auto simp del: obeys.simps intro!: tends_unused [OF quiet_steps.guar_utc_now] minted)
    qed
  qed simp
qed

subsection \<open>Rotations\<close>

lemma known_stable:
  "d \<in> token_data s \<Longrightarrow> quiet_step s s' \<Longrightarrow> d \<in> token_data s'" "d \<in> token_data s \<Longrightarrow> spares ids s s' \<Longrightarrow> d \<in> token_data s'"
  using spares_data by (auto simp: quiet_step_def)

lemma tends_known:
  "guar quiet_step m \<Longrightarrow> d \<in> token_data s \<Longrightarrow> (\<And>a t. d \<in> token_data t \<Longrightarrow> tends x ids (k a) (\<lambda>_ _. True) t) \<Longrightarrow>
   tends x ids (obind m k) (\<lambda>_ _. True) s"
  by (rule tends_after [where I = "\<lambda>s. d \<in> token_data s"]) (auto intro: known_stable)

lemma tends_rotated:
  assumes "old \<in> token_data s"
  shows "tends x ids (refresh_rotated x cid tm now old) (\<lambda>_ _. True) s"
proof (cases "rt_client_id old = cid \<and> now < rt_chain_expires_at old")
  case True
  have create: "tends x ids (create_exchange_refresh_token (successor x old ctx cid i secret now)) (\<lambda>_ _. True) t"
    if "old \<in> token_data t" for t ctx i secret
    by (rule tends_create [where I = "\<lambda>s. old \<in> token_data s", OF that known_stable(2)])
      (use True in \<open>auto simp: continues_def successor_def same_chain_def intro!: bexI [of _ old]\<close>)
  have last: "tends x ids (obind (or_refuse e dsc (create_exchange_refresh_token (successor x old ctx cid i secret now)))
      (\<lambda>_. Ret (Inr v))) (\<lambda>_ _. True) t"
    if "old \<in> token_data t" for t ctx i secret e dsc v
    unfolding or_refuse_def
    by (rule obeys_then, rule obeys_pbind, rule obeys_weaken [OF create [OF that]]) simp
  from True have pass: "\<not> rt_client_id old \<noteq> cid" "\<not> rt_chain_expires_at old \<le> now" by auto
  show ?thesis
    unfolding refresh_rotated_def Let_def if_not_P [OF pass(1)] if_not_P [OF pass(2)]
  proof (rule tends_known [OF quiet.guar_contexts(1) assms], rule tends_known [OF quiet.guar_contexts(2)], assumption,
      rule tends_known [OF quiet.guar_contexts(3)], assumption, rule tends_known [OF quiet.guar_mint], assumption, goal_cases)
    case (1 ctx t1 p t2 u t3 ts t4)
    then show ?case
      by (cases ts) (auto simp del: obeys.simps intro!: tends_known [OF quiet.guar_secret] tends_known [OF quiet_steps.guar_cuid2] last)
  qed
qed (auto simp: refresh_rotated_def)

lemma updated_data:
  assumes "updated_row P f rows = Some r" "\<And>r. rt_data (f r) = rt_data r"
  shows "rt_data r \<in> rt_data ` set rows"
  using assms by (auto simp: updated_row_def dest!: find_SomeD)

lemma tends_consumed:
  "tends x ids (consume_presented x h now) (\<lambda>r t. \<forall>row. r = Inr row \<longrightarrow> rt_data row \<in> token_data t) s"
  unfolding consume_presented_def consume_exchange_refresh_token_def statement_def
proof (rule obeys_pbind, rule obeys_atomic, goal_cases)
  case (1 t w)
  have failed: "tends x ids (obind (revoke_chain_on_reuse h) (\<lambda>_. Ret (Inl invalid_grant)))
      (\<lambda>r t. \<forall>row. r = Inr row \<longrightarrow> rt_data row \<in> token_data t) t'" for t'
    by (rule obeys_obind, rule obeys_weaken [OF tends_guar [OF quiet.guar_reuse]]) (simp split: sum.split)
  have "rt_data row \<in> token_data (t\<lparr>t_refresh_tokens := update_where (usable_token h now) f (t_refresh_tokens t)\<rparr>)"
    if "updated_row (usable_token h now) f (t_refresh_tokens t) = Some row" "\<And>r. rt_data (f r) = rt_data r" for row f
    using updated_data [OF that] by (simp add: token_data_def update_where_data that(2))
  with failed show ?case
    by (auto simp: Let_def simp del: obeys.simps(2) intro: quiet_grows quiet_steps.refl quiet.consumes
        split: delivery.splits option.splits)
qed

lemma tends_refresh: "tends x ids (handle_refresh_token x req cid cl tm) (\<lambda>_ _. True) s"
proof -
  have "tends x ids (obind (consume_presented x h now) (\<lambda>row. refresh_rotated x cid tm now (rt_data row))) (\<lambda>_ _. True) t" for h now t
    by (rule obeys_then, rule obeys_weaken [OF tends_consumed]) (use tends_rotated in blast)
  then have "tends x ids (obind utc_now (\<lambda>now. obind (consume_presented x h now)
      (\<lambda>row. refresh_rotated x cid tm now (rt_data row)))) (\<lambda>_ _. True) s" for h
    by (intro obeys_then, intro obeys_weaken [OF tends_guar [OF quiet_steps.guar_utc_now]]) simp
  then show ?thesis unfolding handle_refresh_token_def by (simp split: option.split)
qed

lemma tends_serve:
  assumes "\<And>t. parse_rfc3339 (xs_times (dp_store d)) (to_rfc3339 (xs_times (dp_store d)) t) = Some t" "unused ids s"
  shows "tends (dp_store d) ids (serve_idp d call) (\<lambda>_ _. True) s"
proof (cases call)
  case (Refresh req cid cl)
  then show ?thesis by (auto intro!: obeys_pbind obeys_weaken [OF tends_refresh])
next
  case (Exchange req cid cl pid)
  then show ?thesis by (auto intro!: obeys_pbind obeys_weaken [OF tends_exchange [OF assms]])
qed (auto intro!: tends_guar guar_pbind quiet.guar_revoke quiet.guar_sessions)

lemma obeys_conj: "obeys W E G p Q s \<Longrightarrow> c \<Longrightarrow> obeys W E (\<lambda>s s'. c \<and> G s s') p Q s"
  by (induction p arbitrary: s) auto

text \<open>C9 (absolute cap). In every interleaving of exchanges, refreshes and revocations, messages lost and crashes included, where the
  identifiers that different calls draw at random differ from each other and from those of the chains in the table: no row
  of the table disappears or changes its data; tokens with the same chain identifier keep having the same deadline,
  subject, client and time of authentication, so no rotation ever moves the deadline of a chain; and every token in the table was there at the start, or is
  the first token of a chain that was not, whose deadline is the configured number of seconds after the exchange, or was created before the
  deadline of its chain by a rotation that carried the chain of such a token on.\<close>

theorem refresh_chains_capped:
  assumes "\<And>t. parse_rfc3339 (xs_times (dp_store d)) (to_rfc3339 (xs_times (dp_store d)) t) = Some t"
    and "pool_reach (drawing D) (initial (map (serve_idp d) calls) s) c"
    and "disjoint_family D" "\<And>i. chain_ids s \<inter> D i = {}" "coherent s"
  shows "token_data s \<subseteq> token_data (store c) \<and> coherent (store c) \<and>
    (\<forall>t \<in> token_data (store c). rooted (dp_store d) s (store c) t)"
proof -
  have "chain_step (dp_store d) s (store c)"
    by (rule families.settled_initial [OF assms(2)])
      (use assms(3,4) tends_serve [OF assms(1)] in \<open>auto simp: unused_def intro: obeys_conj\<close>)
  then show ?thesis using token_step_data assms(5) by (auto simp: chain_step_def)
qed

end
