(* ===== verification/Token_Grants.thy ===== *)
theory Token_Grants
  imports Token_Chains
begin

text \<open>
  What a single call of the identity provider does when it is answered with tokens, when a refresh token is replayed, and
  what the revocation endpoint gives away.
\<close>

subsection \<open>Reading a run backwards\<close>

lemma run_then_Ret:
  "run (pbind m (\<lambda>r. Ret (f r))) env n s = (b, n', s') \<Longrightarrow> \<exists>r. run m env n s = (r, n', s') \<and> b = f r"
  by (auto simp: run_pbind split: prod.splits)

lemma run_read_same: "guar (=) (p :: (tenancy, 'a) prog) \<Longrightarrow> run p env n s = (a, n', s') \<Longrightarrow> s' = s"
  using unchanged.run_guar [of p env n s a n' s'] by simp

lemma run_resolve_context:
  assumes "run (resolve_context subject project_id) env n s = (r, n', s')"
  shows "s' = s" and "r = Inr ctx \<Longrightarrow> \<exists>p. visible_project subject project_id s = Some p \<and>
    ctx = \<lparr>rc_account_id = pj_account_id p, rc_project_id = pj_id p\<rparr>"
proof -
  show "s' = s" by (rule run_read_same [OF unchanged.guar_lookups(4) assms])
  assume "r = Inr ctx"
  with assms obtain row n1 s1 where q: "run (sql_query (\<lambda>s. Inr (visible_project subject project_id s))) env n s = (Inr row, n1, s1)"
    and rest: "run (obind (or_not_found row) (\<lambda>p. cok \<lparr>rc_account_id = pj_account_id p, rc_project_id = pj_id p\<rparr>)) env n1 s1 = (Inr ctx, n', s')"
    by (auto simp: resolve_context_def elim: run_obind_Inr)
  from run_query_Inr [OF q] rest
  show "\<exists>p. visible_project subject project_id s = Some p \<and> ctx = \<lparr>rc_account_id = pj_account_id p, rc_project_id = pj_id p\<rparr>"
    by (auto simp: or_not_found_def obind_def split: option.splits)
qed

lemma run_refresh_context:
  assumes "run (refresh_context old) env n s = (Inr ctx, n', s')"
  shows "s' = s" and "\<exists>p. visible_project (rt_subject old) (rt_project_id old) s = Some p \<and>
    ctx = \<lparr>rc_account_id = pj_account_id p, rc_project_id = pj_id p\<rparr>"
proof -
  from run_then_Ret [OF assms [unfolded refresh_context_def]] obtain r where
    r: "run (resolve_context (rt_subject old) (rt_project_id old)) env n s = (r, n', s')"
      "Inr ctx = map_err (\<lambda>e. if e = CoreNotFound then invalid_grant else context_failed) r" by blast
  from r(2) have "r = Inr ctx" by (cases r) auto
  with run_resolve_context [OF r(1)] show "s' = s" "\<exists>p. visible_project (rt_subject old) (rt_project_id old) s = Some p \<and>
    ctx = \<lparr>rc_account_id = pj_account_id p, rc_project_id = pj_id p\<rparr>" by auto
qed

lemma run_active_project:
  assumes "run (active_project x project_id) env n s = (Inr p, n', s')"
  shows "s' = s" and "\<exists>row. find (\<lambda>q. pj_id q = project_id) (t_projects s) = Some row \<and> p = to_project (xs_repo x) row \<and> pj_status row = ''active''"
proof -
  show "s' = s" by (rule run_read_same [OF unchanged.guar_contexts(2) assms])
  have *: "Inr p = (case r of Inl e \<Rightarrow> Inl context_failed | Inr None \<Rightarrow> Inl invalid_grant
      | Inr (Some q) \<Rightarrow> if pj_status q = RsActive then Inr q else Inl invalid_grant) \<Longrightarrow>
      r = Inr (Some p) \<and> pj_status p = RsActive" for r :: "(core_error, project option) result"
    by (auto split: sum.splits option.splits if_splits)
  from run_then_Ret [OF assms [unfolded active_project_def]] have
    r: "run (get_project_by_id (xs_repo x) project_id) env n s = (Inr (Some p), n', s')" "pj_status p = RsActive"
    by (auto dest!: *)
  from r(1) obtain row n1 s1 where "run (sql_query (\<lambda>s. Inr (find (\<lambda>q. pj_id q = project_id) (t_projects s)))) env n s = (Inr row, n1, s1)"
    "map_option (to_project (xs_repo x)) row = Some p"
    by (auto simp: get_project_by_id_def elim: run_obind_Inr)
  with run_query_Inr r(2) show "\<exists>row. find (\<lambda>q. pj_id q = project_id) (t_projects s) = Some row \<and> p = to_project (xs_repo x) row \<and> pj_status row = ''active''"
    by (fastforce simp: to_project_def resource_status_from_def split: if_splits)
qed

lemma run_active_account:
  assumes "run (active_account account_id) env n s = (Inr u, n', s')"
  shows "s' = s" and "\<exists>row. find (\<lambda>a. ac_id a = account_id) (t_accounts s) = Some row \<and> ac_status row = ''active''"
proof -
  show "s' = s" by (rule run_read_same [OF unchanged.guar_contexts(3) assms])
  have *: "Inr () = (case r of Inl e \<Rightarrow> Inl context_failed | Inr None \<Rightarrow> Inl invalid_grant
      | Inr (Some a) \<Rightarrow> if ac_status a = RsActive then Inr () else Inl invalid_grant) \<Longrightarrow>
      \<exists>a. r = Inr (Some a) \<and> ac_status a = RsActive" for r :: "(core_error, account option) result"
    by (auto split: sum.splits option.splits if_splits)
  from run_then_Ret [OF assms [unfolded active_account_def]] obtain a where
    r: "run (get_account_by_id account_id) env n s = (Inr (Some a), n', s')" "ac_status a = RsActive"
    by (auto dest!: *)
  from r(1) obtain row n1 s1 where "run (load_account_row_optional account_id) env n s = (Inr row, n1, s1)"
    "map_option to_account row = Some a"
    by (auto simp: get_account_by_id_def elim: run_obind_Inr)
  with run_query_Inr r(2) show "\<exists>row. find (\<lambda>a. ac_id a = account_id) (t_accounts s) = Some row \<and> ac_status row = ''active''"
    by (fastforce simp: load_account_row_optional_def to_account_def resource_status_from_def split: if_splits)
qed

text \<open>The table after a successful rotation.\<close>

definition rotated_table :: "string \<Rightarrow> int \<Rightarrow> refresh_data \<Rightarrow> tenancy \<Rightarrow> tenancy" where
  "rotated_table h now new s = s\<lparr>t_refresh_tokens :=
     update_where (usable_token h now) (\<lambda>r. r\<lparr>rt_status := ''rotated'', rt_last_used_at := Some now\<rparr>) (t_refresh_tokens s)
     @ [\<lparr>rt_data = new, rt_status = ''active'', rt_last_used_at = None\<rparr>]\<rparr>"

lemma run_consume_presented:
  assumes "run (consume_presented x h now) env n s = (Inr row, n', s')"
  shows "s' = s\<lparr>t_refresh_tokens := update_where (usable_token h now)
             (\<lambda>r. r\<lparr>rt_status := ''rotated'', rt_last_used_at := Some now\<rparr>) (t_refresh_tokens s)\<rparr>"
    and "\<exists>r \<in> set (t_refresh_tokens s). usable_token h now r \<and> rt_data row = rt_data r"
proof -
  let ?f = "\<lambda>r. r\<lparr>rt_status := ''rotated'', rt_last_used_at := Some now\<rparr>"
  from assms obtain r n1 s1 where c: "run (consume_exchange_refresh_token h now) env n s = (r, n1, s1)"
    and k: "run (case r of Inr (Some row) \<Rightarrow> Ret (Inr row)
        | Inr None \<Rightarrow> obind (revoke_chain_on_reuse h) (\<lambda>_. Ret (Inl invalid_grant))
        | Inl _ \<Rightarrow> refuse ''server_error'' ''refresh token rotation failed'') env n1 s1 = (Inr row, n', s')"
    by (auto simp: consume_presented_def run_pbind split: prod.splits)
  have r: "r = Inr (Some row)" "s1 = s'" using k
    by (auto split: sum.splits option.splits elim: run_obind_Inr)
  from c [unfolded r consume_exchange_refresh_token_def, THEN run_stmt_Inr] r(2)
  have s': "updated_row (usable_token h now) ?f (t_refresh_tokens s) = Some row"
    "s' = s\<lparr>t_refresh_tokens := update_where (usable_token h now) ?f (t_refresh_tokens s)\<rparr>"
    by (auto simp: Let_def)
  then show "s' = s\<lparr>t_refresh_tokens := update_where (usable_token h now) ?f (t_refresh_tokens s)\<rparr>" by simp
  from s'(1) show "\<exists>r \<in> set (t_refresh_tokens s). usable_token h now r \<and> rt_data row = rt_data r"
    by (auto simp: updated_row_def dest!: find_SomeD)
qed

lemma run_rotated:
  assumes "run (refresh_rotated x cid tm now old) env n s = (Inr resp, n', s')"
  shows "rt_client_id old = cid" "now < rt_chain_expires_at old"
    and "\<exists>p q a secret new_id. visible_project (rt_subject old) (rt_project_id old) s = Some p \<and>
       find (\<lambda>q. pj_id q = pj_id p) (t_projects s) = Some q \<and> pj_status q = ''active'' \<and>
       find (\<lambda>a. ac_id a = pj_account_id p) (t_accounts s) = Some a \<and> ac_status a = ''active'' \<and>
       tr_refresh_token resp = Some secret \<and> tr_scope resp = rt_scope old \<and>
       insert_refresh_token (successor x old \<lparr>rc_account_id = pj_account_id p, rc_project_id = pj_id p\<rparr> cid new_id secret now) s =
         Inr (\<lparr>rt_data = successor x old \<lparr>rc_account_id = pj_account_id p, rc_project_id = pj_id p\<rparr> cid new_id secret now,
               rt_status = ''active'', rt_last_used_at = None\<rparr>, s')"
proof -
  show c: "rt_client_id old = cid" and e: "now < rt_chain_expires_at old"
    using assms by (auto simp: refresh_rotated_def split: if_splits)
  from assms c e obtain ctx n1 s1 p n2 s2 u n3 s3 m at it n4 s4 secret n5 s5 new_id n6 s6 v s7 where
    steps: "run (refresh_context old) env n s = (Inr ctx, n1, s1)"
      "run (active_project x (rc_project_id ctx)) env n1 s1 = (Inr p, n2, s2)"
      "run (active_account (rc_account_id ctx)) env n2 s2 = (Inr u, n3, s3)"
      "run (mint_tokens x tm m now) env n3 s3 = (Inr (at, it), n4, s4)"
      "run generate_refresh_secret env n4 s4 = (Inr secret :: (token_error, string) result, n5, s5)"
      "run cuid2 env n5 s5 = (Inr new_id :: (token_error, string) result, n6, s6)"
      "run (or_refuse ''server_error'' ''refresh token persistence failed''
         (create_exchange_refresh_token (successor x old ctx (rt_client_id old) new_id secret now))) env n6 s6 = (Inr v, n', s7)"
      "s7 = s'" "tr_refresh_token resp = Some secret" "tr_scope resp = rt_scope old"
    by (auto simp: refresh_rotated_def Let_def elim!: run_obind_Inr split: prod.splits)
  have same: "s1 = s" "s2 = s" "s3 = s" "s4 = s" "s5 = s" "s6 = s"
    using run_refresh_context(1) [OF steps(1)] run_active_project(1) [OF steps(2)] run_active_account(1) [OF steps(3)]
      run_read_same [OF unchanged.guar_mint steps(4)] run_read_same [OF unchanged.guar_secret steps(5)]
      run_read_same [OF unchanged.guar_cuid2 steps(6)] by auto
  obtain q where q: "visible_project (rt_subject old) (rt_project_id old) s = Some q"
    "ctx = \<lparr>rc_account_id = pj_account_id q, rc_project_id = pj_id q\<rparr>"
    using run_refresh_context(2) [OF steps(1)] by blast
  from run_then_Ret [OF steps(7) [unfolded or_refuse_def c]] obtain r where
    r: "run (create_exchange_refresh_token (successor x old ctx cid new_id secret now)) env n6 s6 = (r, n', s7)"
      "Inr v = map_err (\<lambda>_. oauth_err ''server_error'' ''refresh token persistence failed'') r"
    by blast
  from r(2) have rv: "r = Inr v" by (cases r) auto
  from r(1) [unfolded create_exchange_refresh_token_def rv, THEN run_stmt_Inr] same steps(8)
  have ins: "insert_refresh_token (successor x old ctx cid new_id secret now) s = Inr (v, s')" by simp
  then have "v = \<lparr>rt_data = successor x old ctx cid new_id secret now, rt_status = ''active'', rt_last_used_at = None\<rparr>"
    by (auto simp: insert_refresh_token_def Let_def split: if_splits)
  with ins q run_active_project(2) [OF steps(2)] run_active_account(2) [OF steps(3)] steps(9,10) same
  show "\<exists>p q a secret new_id. visible_project (rt_subject old) (rt_project_id old) s = Some p \<and>
       find (\<lambda>q. pj_id q = pj_id p) (t_projects s) = Some q \<and> pj_status q = ''active'' \<and>
       find (\<lambda>a. ac_id a = pj_account_id p) (t_accounts s) = Some a \<and> ac_status a = ''active'' \<and>
       tr_refresh_token resp = Some secret \<and> tr_scope resp = rt_scope old \<and>
       insert_refresh_token (successor x old \<lparr>rc_account_id = pj_account_id p, rc_project_id = pj_id p\<rparr> cid new_id secret now) s =
         Inr (\<lparr>rt_data = successor x old \<lparr>rc_account_id = pj_account_id p, rc_project_id = pj_id p\<rparr> cid new_id secret now,
               rt_status = ''active'', rt_last_used_at = None\<rparr>, s')"
    by auto
qed

subsection \<open>Refreshing\<close>

text \<open>C10 (refresh). A refresh is answered with tokens only if its client may use the grant and the presented token is in the table, active, unexpired, issued to this
  client and in a chain before its deadline, its subject still owns the project or is on its
  roster, and project and account are active. Then the token is rotated, its successor, which inherits the chain, is the only
  row added, and nothing else in the database changes.\<close>

theorem refresh_granted:
  assumes "run (handle_refresh_token x req cid cl tm) env n s = (Inr resp, n', s')"
    and "distinct (map pj_id (t_projects s))"
  shows "\<exists>presented now row p a secret new_id.
     xs_allows x cl GtRefreshToken \<and> presented_token req = Some presented \<and>
     row \<in> set (t_refresh_tokens s) \<and> usable_token (xs_hash x presented) now row \<and>
     rt_client_id (rt_data row) = cid \<and> now < rt_chain_expires_at (rt_data row) \<and>
     p \<in> set (t_projects s) \<and> pj_id p = rt_project_id (rt_data row) \<and>
     visible s (rt_subject (rt_data row)) p \<and> pj_status p = ''active'' \<and>
     a \<in> set (t_accounts s) \<and> ac_id a = pj_account_id p \<and> ac_status a = ''active'' \<and>
     tr_refresh_token resp = Some secret \<and> tr_scope resp = rt_scope (rt_data row) \<and>
     s' = rotated_table (xs_hash x presented) now
       (successor x (rt_data row) \<lparr>rc_account_id = pj_account_id p, rc_project_id = pj_id p\<rparr> cid new_id secret now) s"
proof -
  from assms(1) obtain presented now n1 s1 row n2 s2 where
    t: "xs_allows x cl GtRefreshToken" "presented_token req = Some presented"
      "run utc_now env n s = (Inr now :: (token_error, int) result, n1, s1)"
      "run (consume_presented x (xs_hash x presented) now) env n1 s1 = (Inr row, n2, s2)"
      "run (refresh_rotated x cid tm now (rt_data row)) env n2 s2 = (Inr resp, n', s')"
    by (auto simp: handle_refresh_token_def elim!: run_obind_Inr split: if_splits option.splits)
  have s1: "s1 = s" by (rule run_read_same [OF unchanged.guar_utc_now t(3)])
  note c = run_consume_presented [OF t(4), unfolded s1]
  from c(2) obtain r where r: "r \<in> set (t_refresh_tokens s)" "usable_token (xs_hash x presented) now r" "rt_data row = rt_data r"
    by blast
  from run_rotated(3) [OF t(5)] obtain p q a secret new_id where
    q: "visible_project (rt_subject (rt_data row)) (rt_project_id (rt_data row)) s2 = Some p"
      "find (\<lambda>q. pj_id q = pj_id p) (t_projects s2) = Some q" "pj_status q = ''active''"
      "find (\<lambda>a. ac_id a = pj_account_id p) (t_accounts s2) = Some a" "ac_status a = ''active''"
      "tr_refresh_token resp = Some secret" "tr_scope resp = rt_scope (rt_data row)"
      "insert_refresh_token (successor x (rt_data row) \<lparr>rc_account_id = pj_account_id p, rc_project_id = pj_id p\<rparr> cid new_id secret now) s2 =
         Inr (\<lparr>rt_data = successor x (rt_data row) \<lparr>rc_account_id = pj_account_id p, rc_project_id = pj_id p\<rparr> cid new_id secret now,
               rt_status = ''active'', rt_last_used_at = None\<rparr>, s')"
    by blast
  have p: "p \<in> set (t_projects s)" "pj_id p = rt_project_id (rt_data row)" "visible s (rt_subject (rt_data row)) p"
    using q(1) c(1) by (auto simp: visible_project_def visible_def dest!: find_SomeD)
  have qp: "q = p" using q(2) p(1) c(1) assms(2) by (auto simp: distinct_map inj_on_def dest!: find_SomeD)
  have a: "a \<in> set (t_accounts s)" "ac_id a = pj_account_id p" using q(4) c(1) by (auto dest!: find_SomeD)
  have s': "s' = rotated_table (xs_hash x presented) now
       (successor x (rt_data row) \<lparr>rc_account_id = pj_account_id p, rc_project_id = pj_id p\<rparr> cid new_id secret now) s"
    using q(8) c(1) by (auto simp: insert_refresh_token_def rotated_table_def Let_def split: if_splits)
  show ?thesis
    by (rule exI [of _ presented], rule exI [of _ now], rule exI [of _ r], rule exI [of _ p], rule exI [of _ a],
        rule exI [of _ secret], rule exI [of _ new_id])
      (use t(1,2) r p q(3,5,6,7) a s' qp run_rotated(1,2) [OF t(5)] in \<open>simp add: r(3)\<close>)
qed

lemma update_where_none: "find P rows = None \<Longrightarrow> update_where P f rows = rows"
  by (auto simp: update_where_def find_None_iff intro: map_idI)

text \<open>C17 (reuse detection). Take a call of a client that may use refresh tokens, handled alone and with every message delivered. A refresh token that is in the table but no longer active, or not there or expired, is refused with
  the same error. When it had been rotated, every active token of its chain is revoked; otherwise, and apart from that,
  nothing changes.\<close>

theorem refresh_replay:
  assumes "calm env" "xs_allows x cl GtRefreshToken" "presented_token req = Some t"
    and "find (usable_token (xs_hash x t) (o_now (env 0 0))) (t_refresh_tokens s) = None"
  shows "result_of (handle_refresh_token x req cid cl tm) env s = Inl invalid_grant \<and>
     state_of (handle_refresh_token x req cid cl tm) env s =
       (case find (\<lambda>r. refresh_hash r = xs_hash x t) (t_refresh_tokens s) of
          None \<Rightarrow> s
        | Some row \<Rightarrow> if rt_status row = ''rotated''
                       then revoke_where (\<lambda>r. rt_chain_id (rt_data r) = rt_chain_id (rt_data row)) s else s)"
  using assms
  by (auto simp: result_of_def state_of_def handle_refresh_token_def consume_presented_def consume_exchange_refresh_token_def
      revoke_chain_on_reuse_def find_exchange_refresh_token_by_hash_def revoke_exchange_refresh_token_chain_def
      run_obind run_pbind utc_now_def run_observe run_stmt_calm run_query_calm updated_row_def update_where_none Let_def
      split: option.split prod.split sum.split)

subsection \<open>Exchanging\<close>

lemma run_exchange_context:
  assumes "run (exchange_context subject project_id) env n s = (Inr ctx, n', s')"
  shows "s' = s" and "\<exists>p. visible_project subject project_id s = Some p \<and>
    ctx = \<lparr>rc_account_id = pj_account_id p, rc_project_id = pj_id p\<rparr>"
proof -
  from run_then_Ret [OF assms [unfolded exchange_context_def]] obtain r where
    r: "run (resolve_context subject project_id) env n s = (r, n', s')"
      "Inr ctx = map_err (\<lambda>e. if e = CoreNotFound then not_a_member else context_failed) r" by blast
  from r(2) have "r = Inr ctx" by (cases r) auto
  with run_resolve_context [OF r(1)] show "s' = s" "\<exists>p. visible_project subject project_id s = Some p \<and>
    ctx = \<lparr>rc_account_id = pj_account_id p, rc_project_id = pj_id p\<rparr>" by auto
qed

lemma run_effective_project:
  assumes "run (effective_project subject rq) env n s = (Inr pid, n', s')"
  shows "s' = s" and "case rq of Some q \<Rightarrow> pid = q
     | None \<Rightarrow> \<exists>p \<in> set (t_projects s). pj_id p = pid \<and> pj_account_id p = subject \<and> pj_is_default p"
proof -
  show "s' = s" by (rule run_read_same [OF unchanged.guar_contexts(4) assms])
  have *: "Inr pid = (case r of Inl e \<Rightarrow> Inl context_failed | Inr None \<Rightarrow> Inl not_a_member | Inr (Some p) \<Rightarrow> Inr p) \<Longrightarrow>
      r = Inr (Some pid)" for r :: "(core_error, string option) result"
    by (auto split: sum.splits option.splits)
  show "case rq of Some q \<Rightarrow> pid = q
     | None \<Rightarrow> \<exists>p \<in> set (t_projects s). pj_id p = pid \<and> pj_account_id p = subject \<and> pj_is_default p"
  proof (cases rq)
    case None
    with run_then_Ret [OF assms [unfolded effective_project_def None option.case]]
    have "run (find_default_project_id subject) env n s = (Inr (Some pid), n', s')" by (auto dest!: *)
    then have "find (\<lambda>p. pj_account_id p = subject \<and> pj_is_default p) (t_projects s) \<noteq> None"
      "map_option pj_id (find (\<lambda>p. pj_account_id p = subject \<and> pj_is_default p) (t_projects s)) = Some pid"
      by (auto simp: find_default_project_id_def dest!: run_query_Inr)
    with None show ?thesis by (auto dest!: find_SomeD)
  qed (use assms in \<open>simp add: effective_project_def\<close>)
qed

lemma run_store_token:
  assumes "run (store_token tt hash t) env n s = (Inr u, n', s')"
  shows "\<exists>i now d. stored_token tt hash i now t = Inr d \<and>
     s' = s\<lparr>t_refresh_tokens := t_refresh_tokens s @ [\<lparr>rt_data = d, rt_status = ''active'', rt_last_used_at = None\<rparr>]\<rparr>"
proof -
  from assms obtain i n1 s1 now n2 s2 d v n3 s3 where t:
    "run cuid2 env n s = (Inr i :: (op_error, string) result, n1, s1)"
    "run utc_now env n1 s1 = (Inr now :: (op_error, int) result, n2, s2)"
    "stored_token tt hash i now t = Inr d"
    "run (or_storage (create_exchange_refresh_token d)) env n2 s2 = (Inr v, n3, s3)" "s' = s3"
    by (auto simp: store_token_def elim!: run_obind_Inr)
  have same: "s1 = s" "s2 = s"
    using run_read_same [OF unchanged.guar_cuid2 t(1)] run_read_same [OF unchanged.guar_utc_now t(2)] by auto
  from run_then_Ret [OF t(4) [unfolded or_storage_def]] obtain r where
    r: "run (create_exchange_refresh_token d) env n2 s2 = (r, n3, s3)" "Inr v = map_err (\<lambda>_. OpStorage) r" by blast
  from r(2) have "r = Inr v" by (cases r) auto
  with r(1) same have "insert_refresh_token d s = Inr (v, s3)"
    by (auto simp: create_exchange_refresh_token_def dest!: run_stmt_Inr)
  with t(3,5) show ?thesis by (auto simp: insert_refresh_token_def Let_def split: if_splits)
qed

text \<open>What the exchange adds to the table.\<close>

definition added_token :: "tenancy \<Rightarrow> tenancy \<Rightarrow> refresh_data \<Rightarrow> bool" where
  "added_token s s' d \<longleftrightarrow>
     s' = s\<lparr>t_refresh_tokens := t_refresh_tokens s @ [\<lparr>rt_data = d, rt_status = ''active'', rt_last_used_at = None\<rparr>]\<rparr>"

lemma run_issue_refresh_token:
  assumes "run (issue_refresh_token x cid m offline now) env n s = (Inr rt, n', s')"
  shows "case rt of None \<Rightarrow> \<not> offline \<and> s' = s
    | Some secret \<Rightarrow> offline \<and> (\<exists>d. added_token s s' d \<and> rt_token_hash d = xs_hash x secret \<and>
        rt_subject d = ko_subject (mt_owner m) \<and> rt_client_id d = cid \<and>
        rt_project_id d = rc_project_id (mt_context m) \<and> rt_account_id d = rc_account_id (mt_context m))"
proof (cases offline)
  case True
  with assms obtain secret n1 s1 chain n2 s2 u n3 where t:
    "run generate_refresh_secret env n s = (Inr secret :: (token_error, string) result, n1, s1)"
    "run cuid2 env n1 s1 = (Inr chain :: (token_error, string) result, n2, s2)"
    "run (or_refuse ''server_error'' ''refresh token persistence failed''
       (store_token (xs_times x) (xs_hash x) (exchange_token_of x cid m chain now secret))) env n2 s2 = (Inr u, n3, s')"
    "rt = Some secret"
    by (auto simp: issue_refresh_token_def elim!: run_obind_Inr)
  have same: "s1 = s" "s2 = s"
    using run_read_same [OF unchanged.guar_secret t(1)] run_read_same [OF unchanged.guar_cuid2 t(2)] by auto
  from run_then_Ret [OF t(3) [unfolded or_refuse_def]] obtain r where
    r: "run (store_token (xs_times x) (xs_hash x) (exchange_token_of x cid m chain now secret)) env n2 s2 = (r, n3, s')"
      "Inr u = map_err (\<lambda>_. oauth_err ''server_error'' ''refresh token persistence failed'') r"
    by blast
  from r(2) have "r = Inr u" by (cases r) auto
  with r(1) same obtain i t0 d where d: "stored_token (xs_times x) (xs_hash x) i t0 (exchange_token_of x cid m chain now secret) = Inr d"
    "added_token s s' d" by (auto simp: added_token_def dest!: run_store_token)
  have attrs: "attr_some k v f k' = f k'" if "k' \<noteq> k" for k k' v and f :: "string \<Rightarrow> string option"
    using that by (simp add: attr_some_def split: option.split)
  have "rt_token_hash d = xs_hash x secret \<and> rt_subject d = ko_subject (mt_owner m) \<and> rt_client_id d = cid \<and>
        rt_project_id d = rc_project_id (mt_context m) \<and> rt_account_id d = rc_account_id (mt_context m)"
    using d(1) by (auto simp: stored_token_def exchange_token_of_def refresh_identity_def Let_def attrs coalesce_def split: option.splits)
  with d(2) True t(4) show ?thesis by auto
next
  case False
  with assms show ?thesis by (simp add: issue_refresh_token_def)
qed

text \<open>C11 (exchange). An exchange is answered with tokens only if the request passes the checks, the bearer service vouches for
  the subject token as active, and it was issued for the requesting client. The project is the requested one, or
  the subject's own default project, and the subject owns it or is on its roster. The granted scopes are the
  intersection. A refresh token is handed out exactly when \<open>offline_access\<close> was granted; it is
  stored for this subject, client, project and account, and nothing else in the database changes.\<close>

theorem exchange_granted:
  assumes "run (handle_token_exchange x req cid cl tm project_id) env n s = (Inr resp, n', s')"
  shows "\<exists>token w info p.
     check_exchange_request x req cl = Inr token \<and> xs_bearer x w token = Inr info \<and> active_token info \<and> cid \<in> set (aud info) \<and>
     p \<in> set (t_projects s) \<and> visible s (sub info) p \<and>
     (case requested_project project_id of Some q \<Rightarrow> pj_id p = q
      | None \<Rightarrow> \<exists>p' \<in> set (t_projects s). pj_id p' = pj_id p \<and> pj_account_id p' = sub info \<and> pj_is_default p') \<and>
     (let granted = grant_scopes (tq_scope req) (xc_allowed_scopes (xs_cfg x)) (cr_scopes cl) in
      tr_scope resp = scope_to_string granted \<and>
      (case tr_refresh_token resp of
         None \<Rightarrow> OFFLINE_ACCESS_SCOPE \<notin> set granted \<and> s' = s
       | Some secret \<Rightarrow> OFFLINE_ACCESS_SCOPE \<in> set granted \<and>
           (\<exists>d. added_token s s' d \<and> rt_token_hash d = xs_hash x secret \<and> rt_subject d = sub info \<and>
              rt_client_id d = cid \<and> rt_project_id d = pj_id p \<and> rt_account_id d = pj_account_id p)))"
proof -
  let ?granted = "grant_scopes (tq_scope req) (xc_allowed_scopes (xs_cfg x)) (cr_scopes cl)"
  from assms obtain token info n1 s1 pid n2 s2 ctx n3 s3 am mp n4 s4 now n5 s5 m at it n6 s6 rt where t:
    "check_exchange_request x req cl = Inr token"
    "run (validate_subject_token x token) env n s = (Inr info, n1, s1)" "cid \<in> set (aud info)"
    "run (effective_project (sub info) (requested_project project_id)) env n1 s1 = (Inr pid, n2, s2)"
    "run (exchange_context (sub info) pid) env n2 s2 = (Inr ctx, n3, s3)"
    "run (resolve_project_model_access x (rc_project_id ctx)) env n3 s3 = (Inr (am, mp), n4, s4)"
    "run utc_now env n4 s4 = (Inr now :: (token_error, int) result, n5, s5)"
    "run (mint_tokens x tm m now) env n5 s5 = (Inr (at, it), n6, s6)"
    "run (issue_refresh_token x cid m (OFFLINE_ACCESS_SCOPE \<in> set ?granted) now) env n6 s6 = (Inr rt, n', s')"
    "mt_context m = ctx" "ko_subject (mt_owner m) = sub info"
    "tr_refresh_token resp = rt" "tr_scope resp = scope_to_string ?granted"
    by (auto simp: handle_token_exchange_def Let_def list_ex_iff elim!: run_obind_Inr split: prod.splits if_splits)
  obtain w where w: "xs_bearer x w token = Inr info" "active_token info"
    using t(2) by (auto simp: validate_subject_token_def run_observe split: sum.splits if_splits)
  have same: "s1 = s" "s2 = s" "s3 = s" "s4 = s" "s5 = s" "s6 = s"
    using run_read_same [OF unchanged.guar_contexts(7) t(2)] run_effective_project(1) [OF t(4)] run_exchange_context(1) [OF t(5)]
      run_read_same [OF unchanged.guar_contexts(6) t(6)] run_read_same [OF unchanged.guar_utc_now t(7)]
      run_read_same [OF unchanged.guar_mint t(8)] by auto
  from run_exchange_context(2) [OF t(5)] same obtain p where
    p: "p \<in> set (t_projects s)" "pj_id p = pid" "visible s (sub info) p"
      "ctx = \<lparr>rc_account_id = pj_account_id p, rc_project_id = pj_id p\<rparr>"
    by (auto simp: visible_project_def dest!: find_SomeD)
  have rt: "case rt of None \<Rightarrow> OFFLINE_ACCESS_SCOPE \<notin> set ?granted \<and> s' = s
       | Some secret \<Rightarrow> OFFLINE_ACCESS_SCOPE \<in> set ?granted \<and>
           (\<exists>d. added_token s s' d \<and> rt_token_hash d = xs_hash x secret \<and> rt_subject d = sub info \<and>
              rt_client_id d = cid \<and> rt_project_id d = pj_id p \<and> rt_account_id d = pj_account_id p)"
    using run_issue_refresh_token [OF t(9)] same t(10,11) p(4) by (cases rt) simp_all
  show ?thesis
    unfolding Let_def
    by (rule exI [of _ token], rule exI [of _ w], rule exI [of _ info], rule exI [of _ p])
      (use t(1,3,12,13) w p rt run_effective_project(2) [OF t(4)] same in \<open>auto split: option.splits\<close>)
qed

subsection \<open>Scopes\<close>

text \<open>(scopes). The granted scopes are exactly the requested ones that both the server and the client allow; with none requested,
  those the server allows by default, from which \<open>offline_access\<close> is excluded. So a refresh token is never
  handed out unasked.\<close>

theorem scopes_granted:
  "set (grant_scopes requested server_allowed client_scopes) =
     (let asked = set (split_whitespace (coalesce requested [])) in
      (if asked = {} then set server_allowed - {OFFLINE_ACCESS_SCOPE} else asked \<inter> set server_allowed) \<inter> set client_scopes)"
  by (auto simp: grant_scopes_def Let_def list_ex_iff)

subsection \<open>Storing a token behind the upstream trait\<close>

lemma bool_text_round_trip: "parse_bool (bool_text b) = Some b"
  by (simp add: parse_bool_def bool_text_def)

text \<open>(identity attributes). A row read back as an upstream token and stored again is the same row but for its identifier, its hash and
  its time of creation: subject, account, project, client, scope, e-mail, time of authentication
  and chain survive the string-keyed attributes.\<close>

theorem refresh_token_round_trip:
  assumes "\<And>t. parse_rfc3339 tt (to_rfc3339 tt t) = Some t" "\<And>t. rt_auth_time d = Some t \<Longrightarrow> fits_i64 t" "rt_scope d \<noteq> Some []"
  shows "stored_token tt hash i now (row_to_refresh_token tt \<lparr>rt_data = d, rt_status = st, rt_last_used_at = lu\<rparr>) =
    Inr (d\<lparr>rt_id := i, rt_token_hash := hash (rt_token_hash d), rt_created_at := now\<rparr>)"
proof -
  have "Option.bind (map_option dec_of_int (rt_auth_time d)) parse_i64 = rt_auth_time d"
    by (cases "rt_auth_time d") (auto simp: parse_i64_dec_of_int assms(2))
  moreover have "Option.bind (map_option bool_text (rt_email_verified d)) parse_bool = rt_email_verified d"
    by (cases "rt_email_verified d") (auto simp: bool_text_round_trip)
  ultimately show ?thesis
    using assms(3)
    by (cases "rt_auth_time d"; cases "rt_email_verified d"; cases "rt_scope d")
      (auto simp: stored_token_def row_to_refresh_token_def Let_def attr_some_def coalesce_def assms(1))
qed

subsection \<open>Revoking\<close>

text \<open>Which client a revocation request is authenticated as, if any: this does not depend on the database.\<close>

definition revoking_client ::
  "assertion_lib \<Rightarrow> (string \<Rightarrow> client_registration option) \<Rightarrow> string option \<Rightarrow> revoke_request \<Rightarrow> string option" where
  "revoking_client al clients hdr raw =
     (case extract_revoke_credential al (rq_client_secret raw) (rq_client_assertion raw) (rq_client_assertion_type raw) hdr of
        Inl _ \<Rightarrow> None
      | Inr cred \<Rightarrow> resolve_revoke_client_id al (rq_client_id raw) cred)"

lemma run_authenticate: "\<exists>r n'. \<forall>s. run (authenticate_revoke_client al client cred) env n s = (r, n', s)"
  by (auto simp: authenticate_revoke_client_def run_observe split: prod.split option.split auth_method.split revoke_credential.split)

text \<open>C18 (revocation gives nothing away). When messages are delivered, the answer of the revocation endpoint does not depend on the database at all: it is
  the same for a live, a dead and an unknown token and for one of another client. When the answer is
  a success, this client's active token with the presented value is revoked; nothing else changes.\<close>

theorem revocation_oracle_free:
  assumes "calm env"
  shows "result_of (revoke_endpoint al hash clients hdr raw) env s = result_of (revoke_endpoint al hash clients hdr raw) env s0 \<and>
    state_of (revoke_endpoint al hash clients hdr raw) env s =
      (if result_of (revoke_endpoint al hash clients hdr raw) env s = Inr ()
       then revoke_where (\<lambda>r. map_option hash (rq_token raw) = Some (refresh_hash r) \<and>
              revoking_client al clients hdr raw = Some (rt_client_id (rt_data r))) s
       else s)"
proof (cases "\<exists>token cred cid client. rq_token raw = Some token \<and> \<not> is_blank token \<and>
    extract_revoke_credential al (rq_client_secret raw) (rq_client_assertion raw) (rq_client_assertion_type raw) hdr = Inr cred \<and>
    resolve_revoke_client_id al (rq_client_id raw) cred = Some cid \<and> find_client clients cid = Some client")
  case True
  then obtain token cred cid client where
    t: "rq_token raw = Some token" "\<not> is_blank token"
      "extract_revoke_credential al (rq_client_secret raw) (rq_client_assertion raw) (rq_client_assertion_type raw) hdr = Inr cred"
      "resolve_revoke_client_id al (rq_client_id raw) cred = Some cid" "find_client clients cid = Some client"
    by blast
  obtain r n' where a: "\<And>s. run (authenticate_revoke_client al client cred) env 0 s = (r, n', s)"
    using run_authenticate by blast
  have "(\<lambda>r. map_option hash (rq_token raw) = Some (refresh_hash r) \<and> revoking_client al clients hdr raw = Some (rt_client_id (rt_data r))) =
      (\<lambda>r. refresh_hash r = hash token \<and> rt_client_id (rt_data r) = cid)"
    using t by (auto simp: revoking_client_def fun_eq_iff)
  with t assms show ?thesis
    by (cases r) (simp_all add: result_of_def state_of_def revoke_endpoint_def run_obind a run_pbind revoke_refresh_token_for_client_def
      or_storage_def revoke_exchange_refresh_token_for_client_def run_stmt_calm)
next
  case False
  then have "\<exists>e. revoke_endpoint al hash clients hdr raw = Ret (Inl e)"
    by (cases "rq_token raw"; cases "extract_revoke_credential al (rq_client_secret raw) (rq_client_assertion raw)
        (rq_client_assertion_type raw) hdr") (auto simp: revoke_endpoint_def obind_def split: option.split)
  then show ?thesis
    by (auto simp: result_of_def state_of_def)
qed

text \<open>(ending all sessions). When the statement is delivered, no refresh token of the subject is active afterwards, the other subjects' tokens are
  as before, and the answer is the number of tokens revoked.\<close>

theorem sessions_ended:
  assumes "calm env"
  shows "result_of (revoke_sessions subject) env s =
      Inr (length (filter (\<lambda>r. rt_subject (rt_data r) = subject \<and> is_active_token r) (t_refresh_tokens s))) \<and>
    (\<forall>r \<in> set (t_refresh_tokens (state_of (revoke_sessions subject) env s)). rt_subject (rt_data r) = subject \<longrightarrow> \<not> is_active_token r) \<and>
    filter (\<lambda>r. rt_subject (rt_data r) \<noteq> subject) (t_refresh_tokens (state_of (revoke_sessions subject) env s)) =
      filter (\<lambda>r. rt_subject (rt_data r) \<noteq> subject) (t_refresh_tokens s)"
proof -
  have kept: "filter (\<lambda>r. rt_subject (rt_data r) \<noteq> subject) (update_where (\<lambda>r. rt_subject (rt_data r) = subject \<and> is_active_token r)
      (\<lambda>r. r\<lparr>rt_status := ''revoked''\<rparr>) rows) = filter (\<lambda>r. rt_subject (rt_data r) \<noteq> subject) rows" for rows
    unfolding update_where_def by (induction rows) auto
  have dead: "\<not> is_active_token r"
    if mem: "r \<in> set (update_where (\<lambda>r. rt_subject (rt_data r) = subject \<and> is_active_token r) (\<lambda>r. r\<lparr>rt_status := ''revoked''\<rparr>) rows)"
      "rt_subject (rt_data r) = subject" for r rows
  proof -
    obtain r0 where "r = (if rt_subject (rt_data r0) = subject \<and> is_active_token r0 then r0\<lparr>rt_status := ''revoked''\<rparr> else r0)"
      using mem(1) unfolding update_where_def set_map by (elim imageE)
    with mem(2) show ?thesis
      by (cases "rt_subject (rt_data r0) = subject"; cases "is_active_token r0") (simp_all add: is_active_token_def)
  qed
  have "run (revoke_sessions subject) env 0 s =
      (Inr (length (filter (\<lambda>r. rt_subject (rt_data r) = subject \<and> is_active_token r) (t_refresh_tokens s))), Suc 0,
       revoke_where (\<lambda>r. rt_subject (rt_data r) = subject) s)"
    using assms by (simp add: revoke_sessions_def revoke_active_exchange_refresh_tokens_for_subject_def run_stmt_calm Let_def)
  moreover have "t_refresh_tokens (revoke_where (\<lambda>r. rt_subject (rt_data r) = subject) s) =
      update_where (\<lambda>r. rt_subject (rt_data r) = subject \<and> is_active_token r) (\<lambda>r. r\<lparr>rt_status := ''revoked''\<rparr>) (t_refresh_tokens s)"
    by (simp add: revoke_where_def)
  ultimately show ?thesis
    using kept dead by (simp add: result_of_def state_of_def)
qed

end
