(* ===== verification/Token_Demo.thy ===== *)
theory Token_Demo
  imports Token_Grants
begin

text \<open>
  The statements about the identity provider at a concrete deployment: two accounts, a project of one with
  the other on its roster, one client and one active refresh token. Libraries are given concrete
  functions: the hash is the identity, times are written in decimal, the bearer service accepts one token.
\<close>

subsection \<open>A deployment\<close>

definition demo_times :: time_text where
  "demo_times = \<lparr>to_rfc3339 = dec_of_int,
     parse_rfc3339 = (\<lambda>s. case s of [] \<Rightarrow> None
       | c # cs \<Rightarrow> Some (if c = CHR ''-'' then - int (dec_value cs) else int (dec_value s)))\<rparr>"

lemma dec_of_nat_hd: "dec_of_nat n = c # cs \<Longrightarrow> c \<noteq> CHR ''-''"
  using dec_of_nat_digits [of n] by (auto simp: is_digit_def)

lemma demo_times_round_trip [simp]: "parse_rfc3339 demo_times (to_rfc3339 demo_times t) = Some t"
  by (cases "dec_of_nat (nat t)")
    (auto simp: demo_times_def dec_of_int_def dest: dec_of_nat_hd arg_cong [where f = dec_value])

definition alice_info :: token_info where
  "alice_info = \<lparr>active_token = True, sub = ''alice'', exp_at = 0, aud = [''app''], roles = [], permissions = {},
     caller_kind = None, access_token = ''alice-token''\<rparr>"

definition demo_store :: op_store where
  "demo_store = \<lparr>
     xs_cfg = \<lparr>xc_enabled = True, xc_access_ttl_seconds = 300, xc_refresh_ttl_seconds = 3600,
       xc_allowed_scopes = [''openid'', ''offline_access''], xc_refresh_absolute_ttl_seconds = 7200\<rparr>,
     xs_repo = \<lparr>limits_from_value = (\<lambda>_. None), limits_to_value = (\<lambda>_. None)\<rparr>,
     xs_hash = id, xs_at_hash = id,
     xs_bearer = (\<lambda>_ t. if t = ''alice-token'' then Inr alice_info else Inl ''invalid''),
     xs_reader = \<lparr>b64_decode = (\<lambda>_. None), json_parse = (\<lambda>_. None), json_as_i64 = (\<lambda>_. None)\<rparr>,
     xs_times = demo_times, xs_year_month = (\<lambda>_. (2026, 8)),
     xs_allows = (\<lambda>c g. g \<in> set (cr_grant_types c))\<rparr>"

definition demo_client :: client_registration where
  "demo_client = to_registration \<lparr>oc_client_id = ''app'', oc_client_type = Public,
     oc_scopes = [''openid'', ''offline_access''],
     oc_grant_types = [''refresh_token'', ''urn:ietf:params:oauth:grant-type:token-exchange''],
     oc_allowed_audiences = [], oc_jwks = None\<rparr>"

definition demo_tokens :: token_manager where
  "demo_tokens = \<lparr>issue_user_token = (\<lambda>_ _ _ _ _ _. Some ''at''), issue_id_token = (\<lambda>_ _ _ _ _ _. Some ''it'')\<rparr>"

definition demo_assertions :: assertion_lib where
  "demo_assertions = \<lparr>al_jwt_bearer = ''jwt-bearer'', al_basic_client = (\<lambda>_. None), al_peek_subject = (\<lambda>_. None),
     al_verify = (\<lambda>_ _. None), al_record_jti = (\<lambda>_ _ _. Inr True)\<rparr>"

definition demo_idp :: idp_deps where
  "demo_idp = \<lparr>dp_store = demo_store, dp_tokens = demo_tokens, dp_assertions = demo_assertions,
     dp_clients = [''app'' \<mapsto> demo_client]\<rparr>"

definition demo_refresh :: refresh_data where
  "demo_refresh = \<lparr>rt_id = ''r1'', rt_subject = ''bob'', rt_account_id = ''alice'', rt_project_id = ''proj'',
     rt_client_id = ''app'', rt_token_hash = ''secret'', rt_scope = Some ''offline_access'', rt_email = None,
     rt_email_verified = Some True, rt_auth_time = Some 5, rt_chain_id = ''c1'', rt_chain_expires_at = 7200000000,
     rt_created_at = 0, rt_expires_at = 3600000000\<rparr>"

definition demo_tenancy :: tenancy where
  "demo_tenancy = \<lparr>
     t_accounts = [\<lparr>ac_id = ''alice'', ac_default_quota = None, ac_status = ''active'', ac_created_at = 0, ac_updated_at = 0\<rparr>,
       \<lparr>ac_id = ''bob'', ac_default_quota = None, ac_status = ''active'', ac_created_at = 0, ac_updated_at = 0\<rparr>],
     t_projects = [\<lparr>pj_id = ''proj'', pj_account_id = ''alice'', pj_name = ''Project'', pj_allowed_models = None,
       pj_default_limits = JNull, pj_billing_plan = ''free'', pj_billing_identity = ''alice'', pj_project_quota = None,
       pj_status = ''active'', pj_is_default = True, pj_model_policy = ''allow_all'', pj_created_at = 0, pj_updated_at = 0\<rparr>],
     t_members = [\<lparr>pm_project_id = ''proj'', pm_account_id = ''bob'', pm_role = ''member'', pm_quota_tier = None, pm_created_at = 0\<rparr>],
     t_api_keys = [],
     t_refresh_tokens = [\<lparr>rt_data = demo_refresh, rt_status = ''active'', rt_last_used_at = None\<rparr>],
     t_signing_keys = [], t_budget = demo_sys\<rparr>"

definition refresh_request :: "string \<Rightarrow> token_request" where
  "refresh_request t = \<lparr>tq_grant_type = ''refresh_token'', tq_scope = None, tq_refresh_token = Some t,
     tq_subject_token = None, tq_subject_token_type = None, tq_actor_token = None, tq_actor_token_type = None,
     tq_requested_token_type = None, tq_audience = None\<rparr>"

definition exchange_request :: token_request where
  "exchange_request = \<lparr>tq_grant_type = ''urn:ietf:params:oauth:grant-type:token-exchange'', tq_scope = Some ''offline_access'',
     tq_refresh_token = None, tq_subject_token = Some ''alice-token'', tq_subject_token_type = None, tq_actor_token = None,
     tq_actor_token_type = None, tq_requested_token_type = None, tq_audience = None\<rparr>"

subsection \<open>Its runs\<close>

lemma run_budget_query:
  "calm env \<Longrightarrow> run (on_budget (reading fails q)) env n s = (map_err fails (q (budget_view s)), Suc n, s)"
  by (cases "q (budget_view s)") (simp_all add: reading_def statement_def atomic_def)

lemma demo_period: "\<exists>per. period_current 2026 8 = Some per"
  by (simp add: period_current_def period_from_ymd_def)

lemma run_mint_demo:
  assumes "calm env" "\<not> mt_openid m"
  shows "run (mint_tokens demo_store demo_tokens m now) env n s = (Inr (''at'', None), n + 6, s)"
proof -
  obtain per where per: "period_current 2026 8 = Some per" using demo_period by blast
  have "\<exists>t. run (on_budget (current_tier a per)) env k s = (Inr t, Suc k, s)" for a k
    using assms(1) by (simp add: current_tier_def obind_def on_budget_pbind run_pbind run_budget_query)
  then obtain t where "\<And>a k. run (on_budget (current_tier a per)) env k s = (Inr (t a k), Suc k, s)" by metis
  then show ?thesis
    using assms by (simp add: mint_tokens_def resolve_budget_tier_def resolve_quota_tier_def or_refuse_def
      project_member_quota_tier_def run_obind run_pbind cuid2_def run_observe run_query_calm demo_store_def per demo_tokens_def
      split: option.split)
qed

lemma demo_store_simps [simp]:
  "xc_enabled (xs_cfg demo_store)" "xc_access_ttl_seconds (xs_cfg demo_store) = 300" "xc_refresh_ttl_seconds (xs_cfg demo_store) = 3600"
  "xc_allowed_scopes (xs_cfg demo_store) = [''openid'', ''offline_access'']"
  "xc_refresh_absolute_ttl_seconds (xs_cfg demo_store) = 7200"
  "xs_hash demo_store = id" "xs_times demo_store = demo_times" "xs_allows demo_store = (\<lambda>c g. g \<in> set (cr_grant_types c))"
  "xs_bearer demo_store = (\<lambda>_ t. if t = ''alice-token'' then Inr alice_info else Inl ''invalid'')"
  by (simp_all add: demo_store_def)

lemmas demo_defs = demo_tenancy_def demo_refresh_def demo_client_def
  to_registration_def parse_grant_type_def alice_info_def

lemma demo_presented [simp]: "presented_token (refresh_request ''secret'') = Some ''secret''"
  by code_simp

lemma demo_refresh_scopes: "\<not> list_ex (\<lambda>s. s = OPENID_SCOPE) (split_whitespace (coalesce (Some ''offline_access'') []))"
  by (simp add: coalesce_def OPENID_SCOPE_def, code_simp)

lemma demo_consume:
  "run (consume_exchange_refresh_token ''secret'' 100) (fair 100 i) n demo_tenancy =
     (Inr (Some \<lparr>rt_data = demo_refresh, rt_status = ''rotated'', rt_last_used_at = Some 100\<rparr>), Suc n,
      demo_tenancy\<lparr>t_refresh_tokens := [\<lparr>rt_data = demo_refresh, rt_status = ''rotated'', rt_last_used_at = Some 100\<rparr>]\<rparr>)"
  by (simp add: consume_exchange_refresh_token_def run_stmt_calm Let_def updated_row_def update_where_def usable_token_def
      is_active_token_def refresh_hash_def demo_defs)

definition demo_minted :: "string \<Rightarrow> token_response" where
  "demo_minted secret = \<lparr>tr_access_token = ''at'', tr_token_type = ''Bearer'', tr_expires_in = 300, tr_id_token = None,
     tr_refresh_token = Some secret, tr_scope = Some ''offline_access'', tr_issued_token_type = None\<rparr>"

definition demo_rotated :: tenancy where
  "demo_rotated = demo_tenancy\<lparr>t_refresh_tokens := [\<lparr>rt_data = demo_refresh, rt_status = ''rotated'', rt_last_used_at = Some 100\<rparr>,
     \<lparr>rt_data = demo_refresh\<lparr>rt_id := ''n1'', rt_token_hash := REFRESH_TOKEN_PREFIX @ ''n1'', rt_created_at := 100,
        rt_expires_at := 3600000100\<rparr>, rt_status = ''active'', rt_last_used_at = None\<rparr>]\<rparr>"

lemma demo_rotation:
  "run (refresh_rotated demo_store ''app'' demo_tokens 100 demo_refresh) (fair 100 ''n1'') n
     (demo_tenancy\<lparr>t_refresh_tokens := [\<lparr>rt_data = demo_refresh, rt_status = ''rotated'', rt_last_used_at = Some 100\<rparr>]\<rparr>) =
   (Inr (demo_minted (REFRESH_TOKEN_PREFIX @ ''n1'')), n + 12, demo_rotated)"
  using demo_refresh_scopes
  by (simp add: refresh_rotated_def refresh_context_def active_project_def active_account_def resolve_context_def
      get_project_by_id_def get_account_by_id_def load_account_row_optional_def or_not_found_def
      run_obind run_pbind run_query_calm run_mint_demo generate_refresh_secret_def cuid2_def run_observe or_refuse_def
      create_exchange_refresh_token_def run_stmt_calm insert_refresh_token_def Let_def visible_project_def visible_def
      on_roster_def to_project_def to_account_def resource_status_from_def successor_def refresh_hash_def seconds_def
      expires_in_secs_def demo_minted_def demo_rotated_def demo_defs REFRESH_TOKEN_PREFIX_def)

lemma demo_refreshes:
  "run (handle_refresh_token demo_store (refresh_request ''secret'') ''app'' demo_client demo_tokens) (fair 100 ''n1'') n demo_tenancy =
     (Inr (demo_minted (REFRESH_TOKEN_PREFIX @ ''n1'')), n + 14, demo_rotated)"
  by (simp add: handle_refresh_token_def run_obind utc_now_def run_observe consume_presented_def run_pbind demo_consume demo_rotation
      demo_client_def to_registration_def parse_grant_type_def)

lemma demo_replays:
  "run (handle_refresh_token demo_store (refresh_request ''secret'') ''app'' demo_client demo_tokens) (fair 200 i) n demo_rotated =
     (Inl invalid_grant, n + 4, revoke_where (\<lambda>r. rt_chain_id (rt_data r) = ''c1'') demo_rotated)"
  by (simp add: handle_refresh_token_def run_obind utc_now_def run_observe consume_presented_def run_pbind
      consume_exchange_refresh_token_def run_stmt_calm Let_def updated_row_def update_where_def usable_token_def
      is_active_token_def refresh_hash_def revoke_chain_on_reuse_def find_exchange_refresh_token_by_hash_def run_query_calm
      revoke_exchange_refresh_token_chain_def demo_rotated_def REFRESH_TOKEN_PREFIX_def demo_defs)

lemma lock_free_on_budget: "lock_free p \<Longrightarrow> lock_free (on_budget p)"
  by (induction p) auto

lemma lock_free_query_ops [simp]: "lock_free (on_budget (current_tier a per))" "lock_free m \<Longrightarrow> lock_free (or_refuse e dsc m)"
  by (auto simp: current_tier_def or_refuse_def intro!: lock_free_on_budget lock_free_obind lock_free_pbind)

lemma lock_free_mint: "lock_free (mint_tokens x tm m now)"
  unfolding mint_tokens_def resolve_budget_tier_def resolve_quota_tier_def project_member_quota_tier_def
  by (auto intro!: lock_free_query_ops lock_free_obind lock_free_pbind split: option.split sum.split)

lemma lock_free_consume: "lock_free (consume_presented x h now)"
  unfolding consume_presented_def revoke_chain_on_reuse_def consume_exchange_refresh_token_def
    find_exchange_refresh_token_by_hash_def revoke_exchange_refresh_token_chain_def
  by (auto intro!: lock_free_obind lock_free_pbind split: option.split sum.split)

lemma lock_free_rotated: "lock_free (refresh_rotated x cid tm now old)"
  unfolding refresh_rotated_def refresh_context_def active_project_def active_account_def resolve_context_def
    get_project_by_id_def get_account_by_id_def load_account_row_optional_def or_not_found_def generate_refresh_secret_def Let_def
    create_exchange_refresh_token_def
  by (auto intro!: lock_free_obind lock_free_pbind lock_free_mint split: option.split sum.split)

lemma lock_free_refresh: "lock_free (handle_refresh_token x req cid cl tm)"
  unfolding handle_refresh_token_def utc_now_def
  by (auto intro!: lock_free_obind lock_free_consume lock_free_rotated split: option.split)

abbreviation demo_call :: idp_call where
  "demo_call \<equiv> Refresh (refresh_request ''secret'') ''app'' demo_client"

lemma demo_idp_simps [simp]: "dp_store demo_idp = demo_store" "dp_tokens demo_idp = demo_tokens"
  by (simp_all add: demo_idp_def)

lemma delivered_fair [simp]: "delivered (fair now i n)"
  by (simp add: delivered_def)

subsection \<open>One refresh after the other\<close>

lemma demo_in_turn:
  assumes "\<And>j. allowed (Acts 0 (fair 100 ''n1'' j))" "\<And>j. allowed (Acts 1 (fair 200 ''n2'' j))"
  shows "pool_reach allowed (initial (map (serve_idp demo_idp) [demo_call, demo_call]) demo_tenancy)
     \<lparr>threads = [Some (Ret (Tokens (Inr (demo_minted (REFRESH_TOKEN_PREFIX @ ''n1''))))), Some (Ret (Tokens (Inl invalid_grant)))],
      held = (\<lambda>_. None), store = revoke_where (\<lambda>r. rt_chain_id (rt_data r) = ''c1'') demo_rotated\<rparr>"
proof -
  let ?p = "pbind (handle_refresh_token demo_store (refresh_request ''secret'') ''app'' demo_client demo_tokens) (\<lambda>r. Ret (Tokens r))"
  have 1: "pool_reach allowed \<lparr>threads = [Some ?p, Some ?p], held = h, store = demo_tenancy\<rparr> c"
    if "pool_reach allowed \<lparr>threads = [Some (Ret (Tokens (Inr (demo_minted (REFRESH_TOKEN_PREFIX @ ''n1''))))), Some ?p],
      held = h, store = demo_rotated\<rparr> c" for h c
    using hop_any [OF demo_refreshes [of 0] lock_free_refresh, of allowed 0 "[None, Some ?p]"] that assms(1) by simp
  have 2: "pool_reach allowed \<lparr>threads = [t, Some ?p], held = h, store = demo_rotated\<rparr>
      \<lparr>threads = [t, Some (Ret (Tokens (Inl invalid_grant)))], held = h,
       store = revoke_where (\<lambda>r. rt_chain_id (rt_data r) = ''c1'') demo_rotated\<rparr>" for t h
    using hop_any [OF demo_replays [of "''n2''" 0] lock_free_refresh, of allowed 1 "[t, None]" "\<lambda>r. Ret (Tokens r)", OF _ _ pool_reach.start]
      assms(2) by simp
  show ?thesis unfolding initial_def using 1 [OF 2] by simp
qed

theorem refresh_token_single_use_witness:
  "hashes_unique demo_tenancy \<and>
   (\<exists>c. pool_reach (orderly delivered) (initial (map (serve_idp demo_idp) [demo_call, demo_call]) demo_tenancy) c \<and>
      winners demo_idp ''secret'' [demo_call, demo_call] c = {0} \<and> card (winners demo_idp ''secret'' [demo_call, demo_call] c) \<le> 1)"
proof (intro conjI exI)
  show u: "hashes_unique demo_tenancy" by (simp add: hashes_unique_def demo_tenancy_def)
  show r: "pool_reach (orderly delivered) (initial (map (serve_idp demo_idp) [demo_call, demo_call]) demo_tenancy)
     \<lparr>threads = [Some (Ret (Tokens (Inr (demo_minted (REFRESH_TOKEN_PREFIX @ ''n1''))))), Some (Ret (Tokens (Inl invalid_grant)))],
      held = (\<lambda>_. None), store = revoke_where (\<lambda>r. rt_chain_id (rt_data r) = ''c1'') demo_rotated\<rparr>" by (rule demo_in_turn) simp_all
  show "card (winners demo_idp ''secret'' [demo_call, demo_call] \<lparr>threads = [Some (Ret (Tokens (Inr (demo_minted (REFRESH_TOKEN_PREFIX @ ''n1''))))),
      Some (Ret (Tokens (Inl invalid_grant)))], held = (\<lambda>_. None), store = revoke_where (\<lambda>r. rt_chain_id (rt_data r) = ''c1'') demo_rotated\<rparr>) \<le> 1"
    by (rule refresh_token_single_use [OF u r])
qed (auto simp: winners_def less_Suc_eq)

text \<open>Each of the two calls has an identifier of its own, and neither names the chain in the table.\<close>

definition demo_ids :: "nat \<Rightarrow> string set" where
  "demo_ids i = (if i = 0 then {''n1''} else if i = 1 then {''n2''} else {})"

theorem refresh_chains_capped_witness:
  "(\<forall>t. parse_rfc3339 (xs_times (dp_store demo_idp)) (to_rfc3339 (xs_times (dp_store demo_idp)) t) = Some t) \<and>
   (\<exists>c. pool_reach (drawing demo_ids) (initial (map (serve_idp demo_idp) [demo_call, demo_call]) demo_tenancy) c \<and>
      token_data demo_tenancy \<subseteq> token_data (store c) \<and> card (token_data (store c)) = 2 \<and> coherent (store c) \<and>
      token_data (store c) \<subseteq> Collect (rooted (dp_store demo_idp) demo_tenancy (store c)))"
proof (intro conjI exI allI)
  let ?s = "revoke_where (\<lambda>r. rt_chain_id (rt_data r) = ''c1'') demo_rotated"
  let ?c = "\<lparr>threads = [Some (Ret (Tokens (Inr (demo_minted (REFRESH_TOKEN_PREFIX @ ''n1''))))), Some (Ret (Tokens (Inl invalid_grant)))],
      held = (\<lambda>_. None), store = ?s\<rparr>"
  show p: "parse_rfc3339 (xs_times (dp_store demo_idp)) (to_rfc3339 (xs_times (dp_store demo_idp)) t) = Some t" for t by simp
  show r: "pool_reach (drawing demo_ids) (initial (map (serve_idp demo_idp) [demo_call, demo_call]) demo_tenancy) ?c"
    by (rule demo_in_turn) (simp_all add: draws_def demo_ids_def)
  have d: "disjoint_family demo_ids" by (simp add: disjoint_family_on_def demo_ids_def)
  have data: "token_data demo_tenancy = {demo_refresh}" by (simp add: token_data_def demo_tenancy_def)
  have u: "chain_ids demo_tenancy \<inter> demo_ids i = {}" for i by (simp add: chain_ids_def data demo_ids_def demo_refresh_def)
  have k: "coherent demo_tenancy" by (simp add: coherent_def data same_chain_def)
  show "token_data demo_tenancy \<subseteq> token_data (store ?c)" "coherent (store ?c)"
    "token_data (store ?c) \<subseteq> Collect (rooted (dp_store demo_idp) demo_tenancy (store ?c))"
    using refresh_chains_capped [OF p r d u k] by blast+
  show "card (token_data (store ?c)) = 2"
    by (simp add: token_data_def revoke_where_def update_where_def demo_rotated_def demo_refresh_def is_active_token_def)
qed

theorem refresh_granted_witness:
  "distinct (map pj_id (t_projects demo_tenancy)) \<and>
   (\<exists>presented now row p a secret new_id.
     xs_allows demo_store demo_client GtRefreshToken \<and> presented_token (refresh_request ''secret'') = Some presented \<and>
     row \<in> set (t_refresh_tokens demo_tenancy) \<and> usable_token (xs_hash demo_store presented) now row \<and>
     rt_client_id (rt_data row) = ''app'' \<and> now < rt_chain_expires_at (rt_data row) \<and>
     p \<in> set (t_projects demo_tenancy) \<and> pj_id p = rt_project_id (rt_data row) \<and>
     visible demo_tenancy (rt_subject (rt_data row)) p \<and> pj_status p = ''active'' \<and>
     a \<in> set (t_accounts demo_tenancy) \<and> ac_id a = pj_account_id p \<and> ac_status a = ''active'' \<and>
     tr_refresh_token (demo_minted (REFRESH_TOKEN_PREFIX @ ''n1'')) = Some secret \<and>
     tr_scope (demo_minted (REFRESH_TOKEN_PREFIX @ ''n1'')) = rt_scope (rt_data row) \<and>
     demo_rotated = rotated_table (xs_hash demo_store presented) now
       (successor demo_store (rt_data row) \<lparr>rc_account_id = pj_account_id p, rc_project_id = pj_id p\<rparr> ''app'' new_id secret now) demo_tenancy)"
proof
  show d: "distinct (map pj_id (t_projects demo_tenancy))" by (simp add: demo_tenancy_def)
  show "\<exists>presented now row p a secret new_id.
     xs_allows demo_store demo_client GtRefreshToken \<and> presented_token (refresh_request ''secret'') = Some presented \<and>
     row \<in> set (t_refresh_tokens demo_tenancy) \<and> usable_token (xs_hash demo_store presented) now row \<and>
     rt_client_id (rt_data row) = ''app'' \<and> now < rt_chain_expires_at (rt_data row) \<and>
     p \<in> set (t_projects demo_tenancy) \<and> pj_id p = rt_project_id (rt_data row) \<and>
     visible demo_tenancy (rt_subject (rt_data row)) p \<and> pj_status p = ''active'' \<and>
     a \<in> set (t_accounts demo_tenancy) \<and> ac_id a = pj_account_id p \<and> ac_status a = ''active'' \<and>
     tr_refresh_token (demo_minted (REFRESH_TOKEN_PREFIX @ ''n1'')) = Some secret \<and>
     tr_scope (demo_minted (REFRESH_TOKEN_PREFIX @ ''n1'')) = rt_scope (rt_data row) \<and>
     demo_rotated = rotated_table (xs_hash demo_store presented) now
       (successor demo_store (rt_data row) \<lparr>rc_account_id = pj_account_id p, rc_project_id = pj_id p\<rparr> ''app'' new_id secret now) demo_tenancy"
    by (rule refresh_granted [OF demo_refreshes [of 0] d])
qed

theorem refresh_replay_witness:
  "xs_allows demo_store demo_client GtRefreshToken \<and> presented_token (refresh_request ''secret'') = Some ''secret'' \<and>
   find (usable_token ''secret'' 200) (t_refresh_tokens demo_rotated) = None \<and>
   result_of (handle_refresh_token demo_store (refresh_request ''secret'') ''app'' demo_client demo_tokens) (fair 200 ''n2'') demo_rotated =
     Inl invalid_grant \<and>
   filter is_active_token (t_refresh_tokens demo_rotated) \<noteq> [] \<and>
   filter is_active_token (t_refresh_tokens (state_of
     (handle_refresh_token demo_store (refresh_request ''secret'') ''app'' demo_client demo_tokens) (fair 200 ''n2'') demo_rotated)) = []"
proof -
  have h: "xs_allows demo_store demo_client GtRefreshToken" "find (usable_token ''secret'' 200) (t_refresh_tokens demo_rotated) = None"
    by (simp_all add: demo_client_def to_registration_def parse_grant_type_def demo_rotated_def usable_token_def is_active_token_def
        refresh_hash_def REFRESH_TOKEN_PREFIX_def)
  have "find (\<lambda>r. refresh_hash r = ''secret'') (t_refresh_tokens demo_rotated) =
      Some \<lparr>rt_data = demo_refresh, rt_status = ''rotated'', rt_last_used_at = Some 100\<rparr>"
    by (simp add: demo_rotated_def refresh_hash_def demo_refresh_def)
  with h refresh_replay [OF calm_fair h(1) demo_presented, of 200 "''n2''" demo_rotated "''app''" demo_tokens] show ?thesis
    by (simp add: revoke_where_def update_where_def demo_rotated_def demo_refresh_def is_active_token_def)
qed

subsection \<open>A replay in the middle of a rotation\<close>

definition demo_consumed :: tenancy where
  "demo_consumed = demo_tenancy\<lparr>t_refresh_tokens := [\<lparr>rt_data = demo_refresh, rt_status = ''rotated'', rt_last_used_at = Some 100\<rparr>]\<rparr>"

lemma demo_replays_between:
  "run (handle_refresh_token demo_store (refresh_request ''secret'') ''app'' demo_client demo_tokens) (fair 100 i) n demo_consumed =
     (Inl invalid_grant, n + 4, demo_consumed)"
  by (simp add: handle_refresh_token_def run_obind utc_now_def run_observe consume_presented_def run_pbind
      consume_exchange_refresh_token_def run_stmt_calm Let_def updated_row_def update_where_def usable_token_def
      is_active_token_def refresh_hash_def revoke_chain_on_reuse_def find_exchange_refresh_token_by_hash_def run_query_calm
      revoke_exchange_refresh_token_chain_def demo_consumed_def revoke_where_def demo_defs)

text \<open>(replay race). Consuming the presented token and inserting its successor are two statements. A replay detected between them
  revokes the active tokens of the chain, of which there is none: the refresh that was interrupted then adds its
  successor, and the chain lives on. One after the other, the same two calls end the chain.\<close>

theorem replay_race_leaves_chain_alive:
  "\<exists>c. pool_reach (orderly delivered) (initial (map (serve_idp demo_idp) [demo_call, demo_call]) demo_tenancy) c \<and>
     threads c = [Some (Ret (Tokens (Inr (demo_minted (REFRESH_TOKEN_PREFIX @ ''n1''))))), Some (Ret (Tokens (Inl invalid_grant)))] \<and>
     (\<exists>r \<in> set (t_refresh_tokens (store c)). rt_chain_id (rt_data r) = ''c1'' \<and> is_active_token r)"
proof (intro exI conjI)
  let ?call = "handle_refresh_token demo_store (refresh_request ''secret'') ''app'' demo_client demo_tokens"
  let ?p = "pbind ?call (\<lambda>r. Ret (Tokens r))"
  let ?rest = "\<lambda>now r. pbind (case r of Inl e \<Rightarrow> Ret (Inl e) | Inr row \<Rightarrow> refresh_rotated demo_store ''app'' demo_tokens now (rt_data row)) (\<lambda>r. Ret (Tokens r))"
  have call: "?p = pbind utc_now (\<lambda>r. case r of Inl e \<Rightarrow> Ret (Tokens (Inl e))
      | Inr now \<Rightarrow> pbind (consume_presented demo_store ''secret'' now) (?rest now))"
    by (simp add: handle_refresh_token_def demo_client_def to_registration_def parse_grant_type_def pbind_obind)
      (rule arg_cong [where f = "pbind utc_now"], auto simp: fun_eq_iff pbind_obind split: sum.split intro!: arg_cong [where f = "pbind _"])
  show "pool_reach (orderly delivered) (initial (map (serve_idp demo_idp) [demo_call, demo_call]) demo_tenancy)
    \<lparr>threads = [Some (Ret (Tokens (Inr (demo_minted (REFRESH_TOKEN_PREFIX @ ''n1''))))), Some (Ret (Tokens (Inl invalid_grant)))],
      held = (\<lambda>_. None), store = demo_rotated\<rparr>" (is "pool_reach _ _ ?end")
  proof -
    let ?row = "\<lparr>rt_data = demo_refresh, rt_status = ''rotated'', rt_last_used_at = Some 100\<rparr>"
    have free: "lock_free utc_now" "lock_free (consume_presented demo_store ''secret'' 100)"
        "lock_free (refresh_rotated demo_store ''app'' demo_tokens 100 demo_refresh)"
      by (auto simp: utc_now_def lock_free_rotated lock_free_consume)
    have 4: "pool_reach (orderly delivered) \<lparr>threads = [Some (?rest 100 (Inr ?row)), Some (Ret (Tokens (Inl invalid_grant)))],
        held = \<lambda>_. None, store = demo_consumed\<rparr> ?end"
      using hop_pbind [OF demo_rotation [of 0, folded demo_consumed_def] free(3), of delivered 0
          "[None, Some (Ret (Tokens (Inl invalid_grant)))]" "\<lambda>r. Ret (Tokens r)", OF _ _ pool_reach.start] by simp
    have 3: "pool_reach (orderly delivered) \<lparr>threads = [Some (?rest 100 (Inr ?row)), Some ?p], held = \<lambda>_. None, store = demo_consumed\<rparr> ?end"
      using hop_pbind [OF demo_replays_between [of i 0] lock_free_refresh, of delivered 1 "[Some (?rest 100 (Inr ?row)), None]"] 4 by simp
    have "run (consume_presented demo_store ''secret'' 100) (fair 100 ''n1'') 0 demo_tenancy = (Inr ?row, 1, demo_consumed)"
      by (simp add: consume_presented_def run_pbind demo_consume demo_consumed_def)
    from hop_pbind [OF this free(2), of delivered 0 "[None, Some ?p]" "?rest 100"] 3
    have 2: "pool_reach (orderly delivered) \<lparr>threads = [Some (pbind (consume_presented demo_store ''secret'' 100) (?rest 100)), Some ?p],
        held = \<lambda>_. None, store = demo_tenancy\<rparr> ?end" by simp
    have "run utc_now (fair 100 ''n1'') 0 demo_tenancy = (Inr 100 :: (token_error, int) result, 1, demo_tenancy)"
      by (simp add: utc_now_def run_observe)
    from hop_pbind [OF this free(1), of delivered 0 "[None, Some ?p]" "\<lambda>r. case r of Inl e \<Rightarrow> Ret (Tokens (Inl e))
      | Inr now \<Rightarrow> pbind (consume_presented demo_store ''secret'' now) (?rest now)"] 2
    show ?thesis by (simp add: initial_def) (simp add: call [symmetric])
  qed
qed (auto simp: demo_rotated_def demo_refresh_def is_active_token_def)

subsection \<open>An exchange, a revocation, the end of all sessions\<close>

definition demo_exchanged :: token_response where
  "demo_exchanged = (demo_minted (REFRESH_TOKEN_PREFIX @ ''n1''))\<lparr>tr_issued_token_type := Some ACCESS_TOKEN_TYPE\<rparr>"

lemma demo_grant_scopes: "grant_scopes (Some ''offline_access'') [''openid'', ''offline_access''] [''openid'', ''offline_access''] = [''offline_access'']"
  by code_simp

lemma demo_scopes [simp]: "cr_scopes demo_client = [''openid'', ''offline_access'']" "tq_scope exchange_request = Some ''offline_access''"
  by (simp_all add: demo_client_def to_registration_def exchange_request_def)

lemma demo_check: "check_exchange_request demo_store exchange_request demo_client = Inr ''alice-token''"
  by code_simp

lemma demo_exchanges:
  "\<exists>n' s'. run (handle_token_exchange demo_store exchange_request ''app'' demo_client demo_tokens None) (fair 100 ''n1'') 0 demo_tenancy =
     (Inr demo_exchanged, n', s')"
  by (simp add: handle_token_exchange_def demo_check validate_subject_token_def effective_project_def requested_project_def
      find_default_project_id_def exchange_context_def resolve_context_def resolve_project_model_access_def get_project_by_id_def
      or_not_found_def run_obind run_pbind run_observe run_query_calm run_mint_demo utc_now_def issue_refresh_token_def
      generate_refresh_secret_def cuid2_def or_refuse_def store_token_def or_storage_def exchange_token_of_def refresh_identity_def
      stored_token_def attr_some_def create_exchange_refresh_token_def run_stmt_calm insert_refresh_token_def Let_def
      visible_project_def visible_def refresh_hash_def OPENID_SCOPE_def OFFLINE_ACCESS_SCOPE_def REFRESH_TOKEN_PREFIX_def
      expires_in_secs_def scope_to_string_def demo_exchanged_def demo_minted_def ACCESS_TOKEN_TYPE_def demo_grant_scopes
      demo_tenancy_def demo_refresh_def alice_info_def)

theorem exchange_granted_witness:
  "\<exists>n' s' token w info p.
     run (handle_token_exchange demo_store exchange_request ''app'' demo_client demo_tokens None) (fair 100 ''n1'') 0 demo_tenancy =
       (Inr demo_exchanged, n', s') \<and>
     check_exchange_request demo_store exchange_request demo_client = Inr token \<and> xs_bearer demo_store w token = Inr info \<and>
     ''app'' \<in> set (aud info) \<and> p \<in> set (t_projects demo_tenancy) \<and> visible demo_tenancy (sub info) p \<and>
     (\<exists>d. added_token demo_tenancy s' d \<and> rt_token_hash d = REFRESH_TOKEN_PREFIX @ ''n1'' \<and> rt_subject d = sub info \<and> rt_client_id d = ''app'')"
proof -
  obtain n' s' where r: "run (handle_token_exchange demo_store exchange_request ''app'' demo_client demo_tokens None) (fair 100 ''n1'') 0 demo_tenancy =
      (Inr demo_exchanged, n', s')" using demo_exchanges by blast
  have t: "tr_refresh_token demo_exchanged = Some (REFRESH_TOKEN_PREFIX @ ''n1'')" by (simp add: demo_exchanged_def demo_minted_def)
  have h: "xs_hash demo_store y = y" for y by simp
  from exchange_granted [OF r, unfolded Let_def t option.case h] r show ?thesis by blast
qed

theorem refresh_token_round_trip_witness:
  "(\<forall>t. parse_rfc3339 demo_times (to_rfc3339 demo_times t) = Some t) \<and> rt_auth_time demo_refresh = Some 5 \<and> fits_i64 5 \<and>
   rt_scope demo_refresh \<noteq> Some [] \<and>
   stored_token demo_times id ''r2'' 7 (row_to_refresh_token demo_times \<lparr>rt_data = demo_refresh, rt_status = ''active'', rt_last_used_at = None\<rparr>) =
     Inr (demo_refresh\<lparr>rt_id := ''r2'', rt_token_hash := id (rt_token_hash demo_refresh), rt_created_at := 7\<rparr>)"
proof -
  have h: "rt_auth_time demo_refresh = Some t \<Longrightarrow> fits_i64 t" "rt_scope demo_refresh \<noteq> Some []" for t
    by (auto simp: demo_refresh_def fits_i64_def)
  have "stored_token demo_times id ''r2'' 7 (row_to_refresh_token demo_times \<lparr>rt_data = demo_refresh, rt_status = ''active'', rt_last_used_at = None\<rparr>) =
     Inr (demo_refresh\<lparr>rt_id := ''r2'', rt_token_hash := id (rt_token_hash demo_refresh), rt_created_at := 7\<rparr>)"
    by (rule refresh_token_round_trip) (use h in auto)
  with h show ?thesis by (simp add: demo_refresh_def)
qed

definition revoke_it :: revoke_request where
  "revoke_it = \<lparr>rq_token = Some ''secret'', rq_token_type_hint = None, rq_client_id = Some ''app'', rq_client_secret = None,
     rq_client_assertion = None, rq_client_assertion_type = None\<rparr>"

theorem revocation_oracle_free_witness:
  "result_of (revoke_endpoint demo_assertions id [''app'' \<mapsto> demo_client] None revoke_it) (fair 1 ''x'') demo_tenancy =
     result_of (revoke_endpoint demo_assertions id [''app'' \<mapsto> demo_client] None revoke_it) (fair 1 ''x'') (demo_tenancy\<lparr>t_refresh_tokens := []\<rparr>) \<and>
   result_of (revoke_endpoint demo_assertions id [''app'' \<mapsto> demo_client] None revoke_it) (fair 1 ''x'') demo_tenancy = Inr () \<and>
   filter is_active_token (t_refresh_tokens
     (state_of (revoke_endpoint demo_assertions id [''app'' \<mapsto> demo_client] None revoke_it) (fair 1 ''x'') demo_tenancy)) = []"
proof -
  have b: "\<not> is_blank ''secret''" by code_simp
  have c: "extract_revoke_credential demo_assertions (rq_client_secret revoke_it) (rq_client_assertion revoke_it)
      (rq_client_assertion_type revoke_it) None = Inr NoCredential" by code_simp
  have a: "cr_auth_method demo_client = Some NoAuth" by (simp add: demo_client_def to_registration_def)
  have i: "rq_client_id revoke_it = Some ''app''" "rq_token revoke_it = Some ''secret''" by (simp_all add: revoke_it_def)
  have "result_of (revoke_endpoint demo_assertions id [''app'' \<mapsto> demo_client] None revoke_it) (fair 1 ''x'') demo_tenancy = Inr ()"
    by (simp add: result_of_def revoke_endpoint_def i b c resolve_revoke_client_id_def find_client_def authenticate_revoke_client_def a
        run_obind run_pbind revoke_refresh_token_for_client_def or_storage_def revoke_exchange_refresh_token_for_client_def run_stmt_calm)
  moreover have "revoking_client demo_assertions [''app'' \<mapsto> demo_client] None revoke_it = Some ''app''"
    by (simp add: revoking_client_def c resolve_revoke_client_id_def i)
  ultimately show ?thesis
    using revocation_oracle_free [OF calm_fair [of 1 "''x''"], of demo_assertions id "[''app'' \<mapsto> demo_client]" None revoke_it demo_tenancy
        "demo_tenancy\<lparr>t_refresh_tokens := []\<rparr>"]
    by (simp add: i revoke_where_def update_where_def refresh_hash_def is_active_token_def demo_tenancy_def demo_refresh_def)
qed

theorem sessions_ended_witness:
  "result_of (revoke_sessions ''bob'') (fair 1 ''x'') demo_tenancy = Inr 1 \<and>
   filter (\<lambda>r. rt_subject (rt_data r) = ''bob'' \<and> is_active_token r)
     (t_refresh_tokens (state_of (revoke_sessions ''bob'') (fair 1 ''x'') demo_tenancy)) = []"
  using sessions_ended [OF calm_fair [of 1 "''x''"], of "''bob''" demo_tenancy]
  by (auto simp: demo_tenancy_def demo_refresh_def is_active_token_def filter_empty_conv)

end
