(* ===== verification/Catalogues.thy ===== *)
theory Catalogues
  imports Oauth_Tokens
begin

text \<open>
  core/src/config/mod.rs: the operator's catalogues the write paths check against (billing plans, quota tiers,
  models, the ceiling on key lifetimes), and the deserializers' treatment of a blank value. JSON parsing is
  an argument.
\<close>

definition joined :: "string \<Rightarrow> string list \<Rightarrow> string" where
  "joined sep xs = (case xs of [] \<Rightarrow> [] | y # ys \<Rightarrow> y @ concat (map (\<lambda>z. sep @ z) ys))"

subsection \<open>Billing plans\<close>

record billing_limits =
  bl_requests_per_second :: "int option"
  bl_requests_per_day :: "int option"
  bl_requests_per_month :: "int option"
  bl_concurrent_requests :: "int option"

record billing_plan =
  bp_id :: string
  bp_name :: string
  bp_limits :: "billing_limits option"

definition billing_get :: "billing_plan list \<Rightarrow> string \<Rightarrow> billing_plan option" where
  "billing_get plans i = (if i = [] then None else find (\<lambda>p. bp_id p = i) plans)"

definition billing_is_allowed :: "billing_plan list \<Rightarrow> string \<Rightarrow> bool" where
  "billing_is_allowed plans i \<longleftrightarrow> billing_get plans i \<noteq> None"

definition plan_ids :: "billing_plan list \<Rightarrow> string list" where
  "plan_ids plans = map bp_id plans"

fun check_plans :: "string set \<Rightarrow> billing_plan list \<Rightarrow> (core_error, unit) result" where
  "check_plans seen [] = Inr ()"
| "check_plans seen (plan # rest) =
     (if is_blank (bp_id plan) then Inl (ServerError ''billing.plans contains a plan with an empty id'')
      else if bp_id plan \<in> seen
      then Inl (ServerError (''billing.plans contains a duplicate plan id '' @ in_quotes (bp_id plan)))
      else check_plans (insert (bp_id plan) seen) rest)"

definition billing_validate :: "billing_plan list \<Rightarrow> (core_error, unit) result" where
  "billing_validate plans =
     (if plans = [] then Inl (ServerError ''billing.plans is empty: configure at least one billing plan (API-key creation requires a valid plan)'')
      else check_plans {} plans)"

subsection \<open>Quota tiers\<close>

record quota_tier_entry =
  qt_id :: string
  qt_name :: string

definition quota_is_allowed :: "quota_tier_entry list \<Rightarrow> string option \<Rightarrow> bool" where
  "quota_is_allowed tiers tier =
     (case tier of None \<Rightarrow> True | Some t \<Rightarrow> tiers = [] \<or> list_ex (\<lambda>e. qt_id e = t) tiers)"

definition quota_get :: "quota_tier_entry list \<Rightarrow> string \<Rightarrow> quota_tier_entry option" where
  "quota_get tiers i = (if i = [] then None else find (\<lambda>t. qt_id t = i) tiers)"

definition tier_ids :: "quota_tier_entry list \<Rightarrow> string list" where
  "tier_ids tiers = map qt_id tiers"

subsection \<open>Models\<close>

record model_entry =
  me_id :: string
  me_name :: string

definition model_ids :: "model_entry list \<Rightarrow> string list" where
  "model_ids models = map me_id models"

definition invalid_ids :: "model_entry list \<Rightarrow> string list option \<Rightarrow> string list" where
  "invalid_ids catalog models =
     (case models of
        None \<Rightarrow> []
      | Some ids \<Rightarrow>
          if catalog = [] then []
          else foldl (\<lambda>invalid i.
            if \<not> list_ex (\<lambda>m. me_id m = i) catalog \<and> i \<notin> set invalid then invalid @ [i] else invalid) [] ids)"

subsection \<open>The ceiling on key lifetimes\<close>

definition default_api_key_max_lifetime_days :: nat where
  "default_api_key_max_lifetime_days = 90"

definition expiry_validate :: "nat \<Rightarrow> (core_error, unit) result" where
  "expiry_validate max_lifetime_days =
     (if max_lifetime_days = 0
      then Inl (ServerError ''api_key_expiry.max_lifetime_days must be greater than 0'') else Inr ())"

subsection \<open>Loading a catalogue\<close>

text \<open>What a field may hold: nothing, text (the value of one environment variable), or a sequence of entries.\<close>

datatype 'a catalogue_value = CvNull | CvText string | CvSeq "'a list"

fun deserialize_list :: "(string \<Rightarrow> (string, 'a list) result) \<Rightarrow> 'a catalogue_value \<Rightarrow> (string, 'a list) result" where
  "deserialize_list from_str CvNull = Inr []"
| "deserialize_list from_str (CvText value) = (if str_trim value = [] then Inr [] else from_str (str_trim value))"
| "deserialize_list from_str (CvSeq xs) = Inr xs"

subsection \<open>What the checks decide\<close>

lemma check_plans_ok:
  "check_plans seen plans = Inr () \<longleftrightarrow>
     distinct (map bp_id plans) \<and> (\<forall>p \<in> set plans. \<not> is_blank (bp_id p) \<and> bp_id p \<notin> seen)"
  by (induction seen plans rule: check_plans.induct) (auto simp: image_iff)

lemma foldl_invalid:
  "set (foldl (\<lambda>invalid i. if P i \<and> i \<notin> set invalid then invalid @ [i] else invalid) acc ids) = set acc \<union> {i \<in> set ids. P i}"
  by (induction ids arbitrary: acc) auto

lemma foldl_invalid_distinct:
  "distinct acc \<Longrightarrow> distinct (foldl (\<lambda>invalid i. if P i \<and> i \<notin> set invalid then invalid @ [i] else invalid) acc ids)"
  by (induction ids arbitrary: acc) auto

text \<open>(catalogues). A validated plan catalogue accepts exactly the identifiers of its plans; a value is outside a
  catalogue of models exactly if the catalogue is not empty and does not list it, and each such value is named once;
  an empty catalogue of quota tiers accepts everything.\<close>

theorem catalogues_decide:
  "(billing_validate plans = Inr () \<longleftrightarrow>
      plans \<noteq> [] \<and> distinct (plan_ids plans) \<and> list_all (\<lambda>i. \<not> is_blank i) (plan_ids plans)) \<and>
   (billing_is_allowed plans i \<longleftrightarrow> i \<noteq> [] \<and> i \<in> set (plan_ids plans)) \<and>
   set (invalid_ids catalog models) =
     (case models of None \<Rightarrow> {} | Some ids \<Rightarrow> if catalog = [] then {} else set ids - set (model_ids catalog)) \<and>
   distinct (invalid_ids catalog models) \<and>
   (quota_is_allowed tiers tier \<longleftrightarrow> tier = None \<or> tiers = [] \<or> tier \<in> Some ` set (tier_ids tiers))"
proof (intro conjI)
  show "billing_validate plans = Inr () \<longleftrightarrow>
      plans \<noteq> [] \<and> distinct (plan_ids plans) \<and> list_all (\<lambda>i. \<not> is_blank i) (plan_ids plans)"
    by (auto simp: billing_validate_def check_plans_ok plan_ids_def list_all_iff)
  show "billing_is_allowed plans i \<longleftrightarrow> i \<noteq> [] \<and> i \<in> set (plan_ids plans)"
    by (auto simp: billing_is_allowed_def billing_get_def plan_ids_def find_None_iff simp del: not_None_eq)
  show "set (invalid_ids catalog models) =
     (case models of None \<Rightarrow> {} | Some ids \<Rightarrow> if catalog = [] then {} else set ids - set (model_ids catalog))"
    by (auto simp: invalid_ids_def model_ids_def foldl_invalid list_ex_iff split: option.split)
  show "distinct (invalid_ids catalog models)"
    by (auto simp: invalid_ids_def foldl_invalid_distinct split: option.split)
  show "quota_is_allowed tiers tier \<longleftrightarrow> tier = None \<or> tiers = [] \<or> tier \<in> Some ` set (tier_ids tiers)"
    by (auto simp: quota_is_allowed_def tier_ids_def list_ex_iff split: option.split)
qed

end
