(* ===== verification/Key_Issuance.thy ===== *)
theory Key_Issuance
  imports Token_Grants Catalogues
begin

text \<open>
  rest/src/handlers/mod.rs: \<open>AuthzStoreImpl\<close>, the operations behind the account, project and API-key procedures; and
  from rest/src/signing.rs the signer of API-key tokens and the bootstrap of the signing key. The HTTP client of the
  external issuer, RSA key generation, the construction of a \<open>TokenManager\<close> from a private key, SHA-256 and JWT decoding
  are fields of the records. Handlers keep the names of the methods with the prefix \<open>authz_\<close> where the repository has a
  method of that name. Log events are left out.
\<close>

subsection \<open>Issuing a secret\<close>

record issued_secret =
  is_secret :: string
  is_expires_at :: "int option"
  is_oauth2_url :: "string option"

record oauth2_issuance =
  iss_grant_type :: "string option"
  iss_client_id :: string
  iss_client_secret :: "string option"
  iss_subject_token_type :: "string option"
  iss_requested_token_type :: "string option"
  iss_audience :: "string option"
  iss_scope :: "string option"

record token_issuer =
  ti_oauth2_url :: string
  ti_issuance :: oauth2_issuance

text \<open>A reply of the upstream token endpoint: its status, its body as text, and the body decoded as \<open>OAuth2TokenResponse\<close>.\<close>

record http_reply =
  hr_success :: bool
  hr_status :: string
  hr_body :: string
  hr_token :: "(string, string \<times> int option) result"

record jwt_signer =
  js_issuer :: string
  js_audience :: "string option"
  js_ttl_seconds :: int

record issuance_lib =
  il_hash :: "string \<Rightarrow> string"
  il_reader :: jwt_reader
  il_post :: "weather \<Rightarrow> string \<Rightarrow> (string \<times> string) list \<Rightarrow> (string, http_reply) result"
  il_new_asymmetric :: "string \<Rightarrow> string \<Rightarrow> string \<Rightarrow> (string, token_manager) result"
  il_generate_rs256 :: "weather \<Rightarrow> string \<Rightarrow> (core_error, string \<times> json) result"

record authz_store =
  as_repo :: store_repo
  as_token_issuer :: "token_issuer option"
  as_jwt_signer :: "jwt_signer option"
  as_billing :: "billing_plan list"
  as_quota_tiers :: "quota_tier_entry list"
  as_models :: "model_entry list"
  as_max_lifetime_days :: nat
  as_lib :: issuance_lib

definition grant_type_of :: "token_issuer \<Rightarrow> string" where
  "grant_type_of ti = coalesce (iss_grant_type (ti_issuance ti)) ''urn:ietf:params:oauth:grant-type:token-exchange''"

definition issuance_form :: "token_issuer \<Rightarrow> string \<Rightarrow> string option \<Rightarrow> (string \<times> string) list" where
  "issuance_form ti subject_token project_id =
     (let cfg = ti_issuance ti;
          optional = (\<lambda>key v. case v of None \<Rightarrow> [] | Some x \<Rightarrow> [(key, x)]) in
      [(''grant_type'', grant_type_of ti), (''client_id'', iss_client_id cfg), (''subject_token'', subject_token),
       (''subject_token_type'', coalesce (iss_subject_token_type cfg) ''urn:ietf:params:oauth:token-type:access_token'')]
      @ optional ''client_secret'' (iss_client_secret cfg)
      @ optional ''requested_token_type'' (iss_requested_token_type cfg)
      @ optional ''audience'' (iss_audience cfg)
      @ optional ''scope'' (iss_scope cfg)
      @ (case project_id of None \<Rightarrow> [] | Some p \<Rightarrow> if is_blank p then [] else [(''project_id'', p)]))"

definition token_reply :: "token_issuer \<Rightarrow> int \<Rightarrow> (string, http_reply) result \<Rightarrow> (core_error, issued_secret) result" where
  "token_reply ti now reply =
     (case reply of
        Inl e \<Rightarrow> Inl (ServerError (''oauth2 token issuance request failed: '' @ e))
      | Inr r \<Rightarrow>
          if \<not> hr_success r
          then Inl (ServerError (''oauth2 token issuance failed with status '' @ hr_status r @ '': '' @ hr_body r))
          else (case hr_token r of
              Inl e \<Rightarrow> Inl (ServerError (''oauth2 token response parse failed: '' @ e))
            | Inr (tok, expires_in) \<Rightarrow> Inr \<lparr>is_secret = tok,
                is_expires_at = (case expires_in of None \<Rightarrow> None | Some n \<Rightarrow> if n > 0 then Some (now + seconds n) else None),
                is_oauth2_url = Some (ti_oauth2_url ti)\<rparr>))"

definition external_issue :: "issuance_lib \<Rightarrow> token_issuer \<Rightarrow> string option \<Rightarrow> string option \<Rightarrow> issued_secret store_op" where
  "external_issue lib ti bearer_token project_id =
     (if is_blank (iss_client_id (ti_issuance ti)) then cfail (ServerError ''oauth2 issuance client_id is required'')
      else case bearer_token of
        None \<Rightarrow> cfail (ServerError ''oauth2 issuance bearer token is required'')
      | Some t \<Rightarrow>
          if is_blank t then cfail (ServerError ''oauth2 issuance bearer token is required'')
          else observe (\<lambda>w _. token_reply ti (o_now (w 0)) (il_post lib w (ti_oauth2_url ti) (issuance_form ti t project_id))))"

definition SECRET_PREFIX :: string where
  "SECRET_PREFIX = ''lbk_secret_''"

text \<open>The 32 random bytes, base64-encoded, are chosen by the environment.\<close>

definition generate_secret :: "string store_op" where
  "generate_secret = obind cuid2 (\<lambda>rnd. cok (SECRET_PREFIX @ rnd))"

text \<open>\<open>chars().take(n)\<close> on UTF-8 text: a character is a byte and the continuation bytes after it.\<close>

definition is_continuation :: "char \<Rightarrow> bool" where
  "is_continuation c \<longleftrightarrow> 128 \<le> (of_char c :: nat) \<and> (of_char c :: nat) < 192"

primrec take_chars :: "nat \<Rightarrow> string \<Rightarrow> string" where
  "take_chars 0 s = []"
| "take_chars (Suc n) s =
     (case s of [] \<Rightarrow> [] | c # cs \<Rightarrow> c # takeWhile is_continuation cs @ take_chars n (dropWhile is_continuation cs))"

definition key_prefix :: "string \<Rightarrow> string" where
  "key_prefix secret =
     (if take (length SECRET_PREFIX) secret = SECRET_PREFIX then take_chars 8 (drop (length SECRET_PREFIX) secret)
      else take_chars 8 secret)"

definition issue_secret :: "authz_store \<Rightarrow> string option \<Rightarrow> string option \<Rightarrow> issued_secret store_op" where
  "issue_secret st bearer_token project_id =
     (case as_token_issuer st of
        Some ti \<Rightarrow> external_issue (as_lib st) ti bearer_token project_id
      | None \<Rightarrow> obind generate_secret (\<lambda>secret. cok \<lparr>is_secret = secret, is_expires_at = None, is_oauth2_url = None\<rparr>))"

subsection \<open>signing.rs\<close>

definition TOKEN_SCOPE :: string where
  "TOKEN_SCOPE = ''profile email''"

definition signer_from_config :: "string \<Rightarrow> string option \<Rightarrow> int \<Rightarrow> (core_error, jwt_signer) result" where
  "signer_from_config issuer token_audience ttl =
     (if is_blank issuer then Inl (ServerError ''oauth2.signing.issuer is required for oauth2.type: self'')
      else if ttl \<le> 0 then Inl (ServerError (''oauth2.signing.ttl_seconds must be positive, got '' @ dec_of_int ttl))
      else Inr \<lparr>js_issuer = issuer, js_audience = token_audience, js_ttl_seconds = ttl\<rparr>)"

definition signer_token_manager :: "issuance_lib \<Rightarrow> jwt_signer \<Rightarrow> token_manager store_op" where
  "signer_token_manager lib js =
     obind get_active_signing_key (\<lambda>row.
     case row of
       None \<Rightarrow> cfail (ServerError ''no active api-key signing key'')
     | Some k \<Rightarrow> Ret (map_err (\<lambda>e. ServerError (''invalid stored signing key: '' @ e))
         (il_new_asymmetric lib (sk_private_key_pem (sk_data k)) (js_issuer js) (sk_kid (sk_data k)))))"

definition sign ::
  "issuance_lib \<Rightarrow> jwt_signer \<Rightarrow> key_owner \<Rightarrow> string \<Rightarrow> string \<Rightarrow> string \<Rightarrow> string list option \<Rightarrow> int \<Rightarrow> int option \<Rightarrow>
   (string \<times> int) store_op" where
  "sign lib js owner api_key_id project_id account_id allowed_models now requested_expires_at =
     obind (signer_token_manager lib js) (\<lambda>manager.
     let expires_at = capped_expiry now (js_ttl_seconds js) requested_expires_at;
         expires_in_secs = nat (max (trunc_div (expires_at - now) 1000000) 0) in
     obind cuid2 (\<lambda>jti. obind cuid2 (\<lambda>sid.
     observe (\<lambda>w _.
       case issue_user_token manager (o_now (w 0)) (identity_for owner) expires_in_secs (Some TOKEN_SCOPE) (js_audience js)
              (access_token_extra jti sid owner api_key_id project_id account_id allowed_models (js_audience js)) of
         None \<Rightarrow> Inl (ServerError ''api-key signing failed'')
       | Some t \<Rightarrow> Inr (t, expires_at)))))"

text \<open>The private key and its public half come from the random generator; the key identifier is a fresh CUID.\<close>

definition bootstrap_signing_key :: "issuance_lib \<Rightarrow> int \<Rightarrow> unit store_op" where
  "bootstrap_signing_key lib max_key_age_days =
     obind utc_now (\<lambda>now.
     obind (observe (\<lambda>w _. res_bind (il_generate_rs256 lib w (o_cuid (w 0))) (\<lambda>(pem, jwk). Inr (o_cuid (w 0), pem, jwk)))) (\<lambda>(kid, pem, jwk).
     obind (ensure_active_signing_key
        \<lparr>sk_kid = kid, sk_algorithm = ''RS256'', sk_private_key_pem = pem, sk_public_jwk = jwk, sk_created_at = now\<rparr>
        (now - days (max max_key_age_days 1))) (\<lambda>_.
     cok ())))"

subsection \<open>Keys\<close>

definition decode_bearer_profile :: "jwt_reader \<Rightarrow> string option \<Rightarrow> string option \<times> bool option" where
  "decode_bearer_profile rd bearer_token =
     (case Option.bind bearer_token (decode_payload rd) of
        None \<Rightarrow> (None, None)
      | Some v \<Rightarrow> (Option.bind (json_get v ''email'') json_as_str, Option.bind (json_get v ''email_verified'') json_as_bool))"

definition issue_api_key_secret ::
  "authz_store \<Rightarrow> string \<Rightarrow> string option \<Rightarrow> string \<Rightarrow> string \<Rightarrow> int option \<Rightarrow> issued_secret store_op" where
  "issue_api_key_secret st subject bearer_token project_id api_key_id requested_expires_at =
     (case as_jwt_signer st of
        Some js \<Rightarrow>
          obind (get_project (as_repo st) subject project_id) (\<lambda>row.
          obind (or_not_found row) (\<lambda>p.
          let profile = decode_bearer_profile (il_reader (as_lib st)) bearer_token;
              owner = \<lparr>ko_subject = subject, ko_email = fst profile, ko_email_verified = snd profile\<rparr> in
          obind utc_now (\<lambda>now.
          obind (sign (as_lib st) js owner api_key_id project_id (pj_account_id p) (pj_allowed_models p) now requested_expires_at)
            (\<lambda>(tok, expires_at). cok \<lparr>is_secret = tok, is_expires_at = Some expires_at, is_oauth2_url = None\<rparr>))))
      | None \<Rightarrow> issue_secret st bearer_token (Some project_id))"

definition resolve_rotated_expires_at :: "int option \<Rightarrow> int option \<Rightarrow> int option" where
  "resolve_rotated_expires_at input existing = (case input of Some t \<Rightarrow> Some t | None \<Rightarrow> existing)"

fun resolve_issued_expires_at :: "int option \<Rightarrow> int option \<Rightarrow> int option" where
  "resolve_issued_expires_at (Some requested) (Some issued) = Some (min requested issued)"
| "resolve_issued_expires_at (Some requested) None = Some requested"
| "resolve_issued_expires_at None (Some issued) = Some issued"
| "resolve_issued_expires_at None None = None"

definition validate_expires_at :: "int option \<Rightarrow> int \<Rightarrow> nat \<Rightarrow> (core_error, int) result" where
  "validate_expires_at expires_at now max_lifetime_days =
     (case expires_at of
        None \<Rightarrow> Inl (CoreBadRequest ''expiresAt is required: api keys may not be created or rotated without an expiry'')
      | Some e \<Rightarrow>
          if e \<le> now then Inl (CoreBadRequest ''expiresAt must be in the future'')
          else if e > now + days (int max_lifetime_days)
          then Inl (CoreBadRequest (''expiresAt exceeds the configured maximum api key lifetime of ''
                 @ dec_of_nat max_lifetime_days @ '' day(s)''))
          else Inr e)"

record api_key_secret =
  ks_api_key :: api_key
  ks_secret :: string
  ks_oauth2_url :: "string option"

record create_api_key_input =
  ck_name :: string
  ck_expires_at :: "int option"
  ck_billing_plan :: string

record rotate_api_key_input =
  rk_name :: "string option"
  rk_expires_at :: "int option"
  rk_grace_period_seconds :: "int option"

definition fresh_key_row ::
  "authz_store \<Rightarrow> string \<Rightarrow> string \<Rightarrow> string \<Rightarrow> issued_secret \<Rightarrow> int \<Rightarrow> int \<Rightarrow> string \<Rightarrow> new_api_key_row" where
  "fresh_key_row st i project_id name issued now requested plan =
     \<lparr>nk_id = i, nk_project_id = project_id, nk_name = name, nk_key_prefix = key_prefix (is_secret issued),
      nk_key_hash = il_hash (as_lib st) (is_secret issued), nk_created_at = now,
      nk_expires_at = resolve_issued_expires_at (Some requested) (is_expires_at issued),
      nk_status = api_key_status_to_string KeyActive, nk_last_used_at = None, nk_last_ip = None, nk_revoked_at = None,
      nk_billing_plan = plan\<rparr>"

definition authz_create_api_key ::
  "authz_store \<Rightarrow> string \<Rightarrow> string option \<Rightarrow> string \<Rightarrow> create_api_key_input \<Rightarrow> api_key_secret store_op" where
  "authz_create_api_key st subject bearer_token project_id input =
     (if \<not> billing_is_allowed (as_billing st) (ck_billing_plan input)
      then cfail (CoreBadRequest (''unknown billing_plan '' @ in_quotes (ck_billing_plan input)
             @ '': must be one of the configured plans ['' @ joined '', '' (plan_ids (as_billing st)) @ '']''))
      else
      obind utc_now (\<lambda>now.
      obind (Ret (validate_expires_at (ck_expires_at input) now (as_max_lifetime_days st))) (\<lambda>requested.
      obind cuid2 (\<lambda>i.
      obind (issue_api_key_secret st subject bearer_token project_id i (Some requested)) (\<lambda>issued.
      obind (create_api_key subject (fresh_key_row st i project_id (ck_name input) issued now requested (ck_billing_plan input))) (\<lambda>k.
      cok \<lparr>ks_api_key = k, ks_secret = is_secret issued, ks_oauth2_url = is_oauth2_url issued\<rparr>))))))"

text \<open>
  What becomes of the key that is rotated: its status, \<open>revoked_at\<close> and \<open>expires_at\<close>. A grace period so long that chrono cannot represent
  the sum makes the call panic in the code; here the sum is computed without bounds.
\<close>

definition retirement :: "int \<Rightarrow> int option \<Rightarrow> int option \<Rightarrow> api_key_status \<times> int option \<times> int option" where
  "retirement now grace existing =
     (case grace of
        Some g \<Rightarrow>
          if g > 0
          then (KeyActive, None, case existing of
                  Some e \<Rightarrow> if e < now + seconds g then Some e else Some (now + seconds g)
                | None \<Rightarrow> Some (now + seconds g))
          else (KeyRevoked, Some now, None)
      | None \<Rightarrow> (KeyRevoked, Some now, None))"

definition authz_rotate_api_key ::
  "authz_store \<Rightarrow> string \<Rightarrow> string option \<Rightarrow> string \<Rightarrow> rotate_api_key_input \<Rightarrow> api_key_secret store_op" where
  "authz_rotate_api_key st subject bearer_token key_id input =
     obind (get_api_key subject key_id) (\<lambda>row.
     obind (or_not_found row) (\<lambda>existing.
     obind utc_now (\<lambda>now.
     let (status, revoked_at, old_expires_at) = retirement now (rk_grace_period_seconds input) (ak_expires_at existing) in
     obind cuid2 (\<lambda>new_id.
     obind (Ret (validate_expires_at (resolve_rotated_expires_at (rk_expires_at input) (ak_expires_at existing)) now
                   (as_max_lifetime_days st))) (\<lambda>requested.
     obind (issue_api_key_secret st subject bearer_token (ak_project_id existing) new_id (Some requested)) (\<lambda>issued.
     obind (rotate_api_key_transaction subject key_id status revoked_at old_expires_at
              (fresh_key_row st new_id (ak_project_id existing) (coalesce (rk_name input) (ak_name existing)) issued now requested
                 (ak_billing_plan existing))) (\<lambda>k.
     cok \<lparr>ks_api_key = k, ks_secret = is_secret issued, ks_oauth2_url = is_oauth2_url issued\<rparr>)))))))"

definition authz_revoke_api_key :: "string \<Rightarrow> string \<Rightarrow> api_key store_op" where
  "authz_revoke_api_key subject key_id =
     obind utc_now (\<lambda>now. set_api_key_status subject key_id KeyRevoked (Some now) None)"

subsection \<open>Accounts and projects\<close>

definition unknown_tier :: "string \<Rightarrow> authz_store \<Rightarrow> string option \<Rightarrow> core_error" where
  "unknown_tier field st tier = CoreBadRequest (''unknown '' @ field @ '' '' @ in_quotes (coalesce tier [])
     @ '': must be one of the configured tiers ['' @ joined '', '' (tier_ids (as_quota_tiers st)) @ '']'')"

definition authz_create_account :: "authz_store \<Rightarrow> string \<Rightarrow> string option \<Rightarrow> account store_op" where
  "authz_create_account st subject default_quota =
     (if \<not> quota_is_allowed (as_quota_tiers st) default_quota then cfail (unknown_tier ''defaultQuota'' st default_quota)
      else create_account subject default_quota)"

definition authz_update_account_default_quota :: "authz_store \<Rightarrow> string \<Rightarrow> string \<Rightarrow> string option \<Rightarrow> account store_op" where
  "authz_update_account_default_quota st subject account_id default_quota =
     (if \<not> quota_is_allowed (as_quota_tiers st) default_quota then cfail (unknown_tier ''defaultQuota'' st default_quota)
      else update_account_default_quota subject account_id default_quota)"

definition disable_account :: "string \<Rightarrow> string \<Rightarrow> account store_op" where
  "disable_account subject account_id = set_account_status subject account_id RsSuspended"

definition enable_account :: "string \<Rightarrow> string \<Rightarrow> account store_op" where
  "enable_account subject account_id = set_account_status subject account_id RsActive"

definition disable_project :: "authz_store \<Rightarrow> string \<Rightarrow> string \<Rightarrow> project store_op" where
  "disable_project st subject project_id = set_project_status (as_repo st) subject project_id RsSuspended"

definition enable_project :: "authz_store \<Rightarrow> string \<Rightarrow> string \<Rightarrow> project store_op" where
  "enable_project st subject project_id = set_project_status (as_repo st) subject project_id RsActive"

definition authz_set_project_quota :: "authz_store \<Rightarrow> string \<Rightarrow> string \<Rightarrow> string option \<Rightarrow> project store_op" where
  "authz_set_project_quota st subject project_id project_quota =
     (if \<not> quota_is_allowed (as_quota_tiers st) project_quota then cfail (unknown_tier ''projectQuota'' st project_quota)
      else set_project_quota (as_repo st) subject project_id project_quota)"

definition authz_set_project_allowed_models :: "authz_store \<Rightarrow> string \<Rightarrow> string \<Rightarrow> string list option \<Rightarrow> project store_op" where
  "authz_set_project_allowed_models st subject project_id allowed_models =
     (let invalid = invalid_ids (as_models st) allowed_models in
      if invalid \<noteq> []
      then cfail (CoreBadRequest (''unknown allowedModels entr'' @ (if length invalid = 1 then ''y'' else ''ies'')
             @ '' ['' @ joined '', '' invalid @ '']: must each be one of the configured models [''
             @ joined '', '' (model_ids (as_models st)) @ '']''))
      else set_project_allowed_models (as_repo st) subject project_id allowed_models)"

definition authz_set_project_model_policy :: "authz_store \<Rightarrow> string \<Rightarrow> string \<Rightarrow> string \<Rightarrow> project store_op" where
  "authz_set_project_model_policy st subject project_id policy =
     (case model_policy_parse_strict policy of
        None \<Rightarrow> cfail (CoreBadRequest (''unknown modelPolicy '' @ in_quotes policy @ '': must be one of allow_all, allowlist, deny_all''))
      | Some parsed \<Rightarrow> set_project_model_policy (as_repo st) subject project_id (model_policy_to_string parsed))"

definition authz_set_project_member_quota_tier ::
  "authz_store \<Rightarrow> string \<Rightarrow> string \<Rightarrow> string \<Rightarrow> string option \<Rightarrow> project store_op" where
  "authz_set_project_member_quota_tier st subject project_id target quota_tier =
     (if \<not> quota_is_allowed (as_quota_tiers st) quota_tier then cfail (unknown_tier ''quotaTier'' st quota_tier)
      else set_project_member_quota_tier (as_repo st) subject project_id target quota_tier)"

end
