(* ===== verification/Introspection.thy ===== *)
theory Introspection
  imports Key_Issuance
begin

text \<open>
  rest/src/handlers/opa.rs, introspect.rs, exchange_token.rs and idp.rs: how the gateway learns whether a presented
  bearer is good. A bearer whose hash the view \<open>api_key_validation\<close> knows is judged by that view alone; any other one must be
  a token this service signed, is not shaped like an API key, and names a project its subject still sees. Decoding and
  verifying a JWT (header, JWK, RS256 signature, expiry) are arguments. Log events are left out.
\<close>

subsection \<open>API keys\<close>

record validated_api_key =
  va_api_key :: api_key
  va_project :: project
  va_account_id :: string
  va_owner_role :: "string option"
  va_owner_quota_tier :: "string option"

text \<open>The claims read from a token of this service, and the libraries that verify it; \<open>oi_verify jwk now token\<close> stands for
  \<open>Jwk\<close>, \<open>DecodingKey::from_jwk\<close> and \<open>decode\<close> with the RS256 validation.\<close>

record exchange_claims =
  xc_sub :: string
  xc_project_id :: "string option"
  xc_api_key_id :: "string option"
  xc_azp :: "string option"

record opa_state =
  oi_repo :: store_repo
  oi_billing :: "billing_plan list"
  oi_api_key_audience :: "string option"
  oi_hash :: "string \<Rightarrow> string"
  oi_kid :: "string \<Rightarrow> string option option"
  oi_verify :: "json \<Rightarrow> int \<Rightarrow> string \<Rightarrow> exchange_claims option"

definition validate_api_key_context :: "opa_state \<Rightarrow> string \<Rightarrow> string option \<Rightarrow> validated_api_key option store_op" where
  "validate_api_key_context os raw_api_key ip =
     obind (find_api_key_validation_by_hash (oi_hash os raw_api_key)) (\<lambda>v.
     case v of
       None \<Rightarrow> cok None
     | Some validation \<Rightarrow>
         if \<not> kv_is_active validation then cok None
         else
         obind (record_api_key_usage (kv_api_key_id validation) ip) (\<lambda>k.
         obind (get_project_by_id (oi_repo os) (kv_project_id validation)) (\<lambda>row.
         obind (or_not_found row) (\<lambda>p.
         cok (Some \<lparr>va_api_key = k, va_project = p, va_account_id = kv_account_id validation,
           va_owner_role = kv_owner_role validation, va_owner_quota_tier = kv_owner_quota_tier validation\<rparr>)))))"

subsection \<open>Tokens of the token endpoint\<close>

definition is_api_key_shaped :: "exchange_claims \<Rightarrow> string option \<Rightarrow> bool" where
  "is_api_key_shaped claims configured =
     (case xc_azp claims of None \<Rightarrow> True | Some azp \<Rightarrow> Some azp = configured)"

text \<open>\<open>decode_header\<close> fails (\<open>None\<close>) or yields the optional \<open>kid\<close>.\<close>

definition verify_self_issued_token :: "opa_state \<Rightarrow> string \<Rightarrow> exchange_claims option store_op" where
  "verify_self_issued_token os token =
     (case oi_kid os token of
        Some (Some kid) \<Rightarrow>
          obind list_verification_jwks (\<lambda>jwks.
          case find (\<lambda>raw. Option.bind (json_get raw ''kid'') json_as_str = Some kid) jwks of
            None \<Rightarrow> cok None
          | Some jwk \<Rightarrow> observe (\<lambda>w _.
              case oi_verify os jwk (o_now (w 0)) token of
                None \<Rightarrow> Inr None
              | Some claims \<Rightarrow> Inr (if is_api_key_shaped claims (oi_api_key_audience os) then None else Some claims)))
      | _ \<Rightarrow> cok None)"

record exchange_token_context =
  xt_session_id :: "string option"
  xt_account_id :: string
  xt_project :: project
  xt_role :: "string option"
  xt_quota_tier :: "string option"

definition resolve_exchange_token_context :: "opa_state \<Rightarrow> string \<Rightarrow> exchange_token_context option store_op" where
  "resolve_exchange_token_context os token =
     obind (verify_self_issued_token os token) (\<lambda>c.
     case c of
       None \<Rightarrow> cok None
     | Some claims \<Rightarrow>
         (case xc_project_id claims of
            None \<Rightarrow> cok None
          | Some project_id \<Rightarrow>
              if is_blank project_id then cok None
              else
              pbind (resolve_context (xc_sub claims) project_id) (\<lambda>r.
              case r of
                Inl e \<Rightarrow> if e = CoreNotFound then cok None else cfail e
              | Inr ctx \<Rightarrow>
                  obind (get_project_by_id (oi_repo os) (rc_project_id ctx)) (\<lambda>pr.
                  case pr of
                    None \<Rightarrow> cok None
                  | Some p \<Rightarrow>
                      if pj_status p \<noteq> RsActive then cok None
                      else
                      obind (get_account_by_id (rc_account_id ctx)) (\<lambda>ar.
                      case ar of
                        None \<Rightarrow> cok None
                      | Some a \<Rightarrow>
                          if ac_status a \<noteq> RsActive then cok None
                          else
                          obind (project_member_role (rc_project_id ctx) (xc_sub claims)) (\<lambda>role.
                          obind (project_member_quota_tier (rc_project_id ctx) (xc_sub claims)) (\<lambda>tier.
                          cok (Some \<lparr>xt_session_id = xc_api_key_id claims, xt_account_id = rc_account_id ctx, xt_project = p,
                            xt_role = role, xt_quota_tier = tier\<rparr>))))))))"

subsection \<open>Introspection\<close>

record introspect_response =
  ir_active :: bool
  ir_sub :: "string option"
  ir_account_id :: "string option"
  ir_project_id :: "string option"
  ir_api_key_id :: "string option"
  ir_api_key_status :: "string option"
  ir_billing_plan :: "string option"
  ir_billing_plan_name :: "string option"
  ir_billing_plan_limits :: "billing_limits option"
  ir_allowed_models :: "string list option"
  ir_model_policy :: "string option"
  ir_project_quota :: "string option"
  ir_role :: "string option"
  ir_quota_tier :: "string option"
  ir_exp :: "int option"

definition inactive :: introspect_response where
  "inactive = \<lparr>ir_active = False, ir_sub = None, ir_account_id = None, ir_project_id = None, ir_api_key_id = None,
     ir_api_key_status = None, ir_billing_plan = None, ir_billing_plan_name = None, ir_billing_plan_limits = None,
     ir_allowed_models = None, ir_model_policy = None, ir_project_quota = None, ir_role = None, ir_quota_tier = None,
     ir_exp = None\<rparr>"

text \<open>\<open>timestamp()\<close>: whole seconds, rounded down.\<close>

definition timestamp :: "int \<Rightarrow> int" where
  "timestamp t = t div 1000000"

definition key_response :: "opa_state \<Rightarrow> validated_api_key \<Rightarrow> introspect_response" where
  "key_response os v =
     (let k = va_api_key v; p = va_project v; plan = billing_get (oi_billing os) (ak_billing_plan k) in
      \<lparr>ir_active = True, ir_sub = Some (ak_id k), ir_account_id = Some (va_account_id v), ir_project_id = Some (pj_id p),
       ir_api_key_id = Some (ak_id k), ir_api_key_status = Some (api_key_status_to_string (ak_status k)),
       ir_billing_plan = Some (ak_billing_plan k), ir_billing_plan_name = map_option bp_name plan,
       ir_billing_plan_limits = Option.bind plan bp_limits, ir_allowed_models = pj_allowed_models p,
       ir_model_policy = Some (model_policy_to_string (pj_model_policy p)), ir_project_quota = pj_project_quota p,
       ir_role = va_owner_role v, ir_quota_tier = va_owner_quota_tier v, ir_exp = map_option timestamp (ak_expires_at k)\<rparr>)"

definition introspect_api_key_row :: "opa_state \<Rightarrow> string \<Rightarrow> introspect_response store_op" where
  "introspect_api_key_row os token =
     obind (validate_api_key_context os token None) (\<lambda>v.
     cok (case v of None \<Rightarrow> inactive | Some validated \<Rightarrow> key_response os validated))"

definition exchange_response :: "opa_state \<Rightarrow> exchange_token_context \<Rightarrow> introspect_response" where
  "exchange_response os ctx =
     (let p = xt_project ctx; plan = billing_get (oi_billing os) (pj_billing_plan p) in
      \<lparr>ir_active = True, ir_sub = xt_session_id ctx, ir_account_id = Some (xt_account_id ctx), ir_project_id = Some (pj_id p),
       ir_api_key_id = None, ir_api_key_status = None, ir_billing_plan = Some (pj_billing_plan p),
       ir_billing_plan_name = map_option bp_name plan, ir_billing_plan_limits = Option.bind plan bp_limits,
       ir_allowed_models = pj_allowed_models p, ir_model_policy = Some (model_policy_to_string (pj_model_policy p)),
       ir_project_quota = pj_project_quota p, ir_role = xt_role ctx, ir_quota_tier = xt_quota_tier ctx, ir_exp = None\<rparr>)"

definition introspect_exchange_token :: "opa_state \<Rightarrow> string \<Rightarrow> introspect_response store_op" where
  "introspect_exchange_token os token =
     obind (resolve_exchange_token_context os token) (\<lambda>c.
     cok (case c of None \<Rightarrow> inactive | Some ctx \<Rightarrow> exchange_response os ctx))"

definition introspect_api_key :: "opa_state \<Rightarrow> string \<Rightarrow> introspect_response store_op" where
  "introspect_api_key os token =
     obind (find_api_key_validation_by_hash (oi_hash os token)) (\<lambda>row.
     if row \<noteq> None then introspect_api_key_row os token else introspect_exchange_token os token)"

definition idp_resolve_context :: "string option \<Rightarrow> string option \<Rightarrow> resolved_context store_op" where
  "idp_resolve_context subject project_id = resolve_context (coalesce subject []) (coalesce project_id [])"

end
