(* ===== verification/Tenant_Server.thy ===== *)
theory Tenant_Server
  imports Introspection
begin

text \<open>
  The tenancy services as one server on one database: the operations of \<open>AuthzStoreImpl\<close>, introspection, the
  identity provider and the bootstrap of the signing key, served concurrently. The locale \<open>server_rely\<close> says what a relation
  between states must allow, table by table, so that every action of every such call satisfies it; deleting accounts
  and projects, which takes rows away, is outside it.
\<close>

subsection \<open>Calls\<close>

datatype tenant_call =
    CreateAccountCall string "string option"
  | UpdateQuotaCall string string "string option"
  | SetAccountStatusCall string string resource_status
  | DeleteAccountCall string string
  | CreateProjectCall string string create_project_input string
  | UpdateProjectCall string string update_project_input
  | SetProjectStatusCall string string resource_status
  | SetDefaultProjectCall string string
  | SetProjectQuotaCall string string "string option"
  | SetAllowedModelsCall string string "string list option"
  | SetModelPolicyCall string string string
  | DeleteProjectCall string string
  | AddMemberCall string string string "string option"
  | RemoveMemberCall string string string
  | SetMemberRoleCall string string string string
  | SetMemberQuotaCall string string string "string option"
  | ListRosterCall string string
  | CreateApiKeyCall string "string option" string create_api_key_input
  | RotateApiKeyCall string "string option" string rotate_api_key_input
  | RevokeApiKeyCall string string
  | IntrospectCall string
  | ResolveContextCall "string option" "string option"
  | BootstrapCall int
  | IdpCall idp_call

datatype tenant_reply =
    AccountReply "(core_error, account) result"
  | ProjectReply "(core_error, project) result"
  | RosterReply "(core_error, member_row list) result"
  | SecretReply "(core_error, api_key_secret) result"
  | KeyReply "(core_error, api_key) result"
  | IntrospectReply "(core_error, introspect_response) result"
  | ContextReply "(core_error, resolved_context) result"
  | UnitReply "(core_error, unit) result"
  | IdpReply idp_reply

record tenant_deps =
  td_store :: authz_store
  td_opa :: opa_state
  td_idp :: idp_deps

definition replied :: "('a \<Rightarrow> 'b) \<Rightarrow> ('s, 'a) prog \<Rightarrow> ('s, 'b) prog" where
  "replied f p = pbind p (\<lambda>a. Ret (f a))"

fun serve_tenant :: "tenant_deps \<Rightarrow> tenant_call \<Rightarrow> (tenancy, tenant_reply) prog" where
  "serve_tenant d (CreateAccountCall subj quota) = replied AccountReply (authz_create_account (td_store d) subj quota)"
| "serve_tenant d (UpdateQuotaCall subj a quota) =
     replied AccountReply (authz_update_account_default_quota (td_store d) subj a quota)"
| "serve_tenant d (SetAccountStatusCall subj a st) =
     replied AccountReply (if st = RsActive then enable_account subj a else disable_account subj a)"
| "serve_tenant d (DeleteAccountCall subj a) = replied AccountReply (delete_account subj a)"
| "serve_tenant d (CreateProjectCall subj a input new_id) =
     replied ProjectReply (create_project (as_repo (td_store d)) subj a input new_id)"
| "serve_tenant d (UpdateProjectCall subj p input) =
     replied ProjectReply (update_project (as_repo (td_store d)) subj p input)"
| "serve_tenant d (SetProjectStatusCall subj p st) =
     replied ProjectReply (if st = RsActive then enable_project (td_store d) subj p else disable_project (td_store d) subj p)"
| "serve_tenant d (SetDefaultProjectCall subj p) = replied ProjectReply (set_default_project (as_repo (td_store d)) subj p)"
| "serve_tenant d (SetProjectQuotaCall subj p q) = replied ProjectReply (authz_set_project_quota (td_store d) subj p q)"
| "serve_tenant d (SetAllowedModelsCall subj p ms) = replied ProjectReply (authz_set_project_allowed_models (td_store d) subj p ms)"
| "serve_tenant d (SetModelPolicyCall subj p mp) = replied ProjectReply (authz_set_project_model_policy (td_store d) subj p mp)"
| "serve_tenant d (DeleteProjectCall subj p) = replied UnitReply (delete_project subj p)"
| "serve_tenant d (AddMemberCall subj p target role) =
     replied ProjectReply (add_project_member (as_repo (td_store d)) subj p target role)"
| "serve_tenant d (RemoveMemberCall subj p target) =
     replied ProjectReply (remove_project_member (as_repo (td_store d)) subj p target)"
| "serve_tenant d (SetMemberRoleCall subj p target role) =
     replied ProjectReply (set_project_member_role (as_repo (td_store d)) subj p target role)"
| "serve_tenant d (SetMemberQuotaCall subj p target q) =
     replied ProjectReply (authz_set_project_member_quota_tier (td_store d) subj p target q)"
| "serve_tenant d (ListRosterCall subj p) = replied RosterReply (list_project_roster subj p)"
| "serve_tenant d (CreateApiKeyCall subj bearer p input) =
     replied SecretReply (authz_create_api_key (td_store d) subj bearer p input)"
| "serve_tenant d (RotateApiKeyCall subj bearer k input) =
     replied SecretReply (authz_rotate_api_key (td_store d) subj bearer k input)"
| "serve_tenant d (RevokeApiKeyCall subj k) = replied KeyReply (authz_revoke_api_key subj k)"
| "serve_tenant d (IntrospectCall token) = replied IntrospectReply (introspect_api_key (td_opa d) token)"
| "serve_tenant d (ResolveContextCall subj p) = replied ContextReply (idp_resolve_context subj p)"
| "serve_tenant d (BootstrapCall max_age) = replied UnitReply (bootstrap_signing_key (as_lib (td_store d)) max_age)"
| "serve_tenant d (IdpCall call) = replied IdpReply (serve_idp (td_idp d) call)"

fun deletes :: "tenant_call \<Rightarrow> bool" where
  "deletes (DeleteAccountCall _ _) \<longleftrightarrow> True"
| "deletes (DeleteProjectCall _ _) \<longleftrightarrow> True"
| "deletes _ \<longleftrightarrow> False"

text \<open>The status a call may leave on the key with an identifier.\<close>

fun key_status_set :: "tenant_call \<Rightarrow> string \<Rightarrow> api_key_status \<Rightarrow> bool" where
  "key_status_set (RotateApiKeyCall subj bearer k input) k' st \<longleftrightarrow>
     k' = k \<and> (st = KeyActive \<longleftrightarrow> (\<exists>g. rk_grace_period_seconds input = Some g \<and> g > 0))"
| "key_status_set (RevokeApiKeyCall subj k) k' st \<longleftrightarrow> k' = k \<and> st = KeyRevoked"
| "key_status_set _ k' st \<longleftrightarrow> False"

subsection \<open>What the calls do to the tables\<close>

text \<open>A change of a project row that leaves its keys and its being the default alone.\<close>

definition tame_project :: "(project_row \<Rightarrow> project_row) \<Rightarrow> bool" where
  "tame_project f \<longleftrightarrow> (\<forall>p. pj_id (f p) = pj_id p \<and> pj_account_id (f p) = pj_account_id p \<and>
     pj_billing_identity (f p) = pj_billing_identity p \<and> pj_is_default (f p) = pj_is_default p)"

locale server_rely = token_adding R for R :: "tenancy \<Rightarrow> tenancy \<Rightarrow> bool" +
  fixes may :: "string \<Rightarrow> api_key_status \<Rightarrow> bool"
  assumes account_added: "insert_account subj quota now s = Inr (u, s') \<Longrightarrow> R s s'"
    and accounts_changed: "(\<And>r. ac_id (f r) = ac_id r) \<Longrightarrow> R s (s\<lparr>t_accounts := update_where P f (t_accounts s)\<rparr>)"
    and project_added: "insert_project rp acct input new_id now first s = Inr (row', s') \<Longrightarrow> R s s'"
    and projects_changed: "tame_project g \<Longrightarrow> R s (s\<lparr>t_projects := update_where Q g (t_projects s)\<rparr>)"
    and default_moved: "promote_project pid now2 (s\<lparr>t_projects := demoted ds acct pid now1 (t_projects s)\<rparr>) = Inr (p, s') \<Longrightarrow> R s s'"
    and member_added: "insert_member pid acct role now s = Inr (u, s') \<Longrightarrow> R s s'"
    and members_changed: "(\<And>m. pm_project_id (h m) = pm_project_id m \<and> pm_account_id (h m) = pm_account_id m) \<Longrightarrow>
      R s (s\<lparr>t_members := update_where M h (t_members s)\<rparr>)"
    and members_removed: "R s (s\<lparr>t_members := filter N (t_members s)\<rparr>)"
    and key_added: "insert_api_key owner k now s = Inr (row, s') \<Longrightarrow> R s s'"
    and key_used: "R s (s\<lparr>t_api_keys := update_where K (change_row (\<lambda>r. r\<lparr>ak_last_used_at := t, ak_last_ip := ip\<rparr>)) (t_api_keys s)\<rparr>)"
    and key_status: "may kid st \<Longrightarrow>
      R s (s\<lparr>t_api_keys := update_where (visible_key subj kid s) (change_row (status_change st revoked expires)) (t_api_keys s)\<rparr>)"
    and signing_added: "insert_signing_key sd s = Inr (sk, s') \<Longrightarrow> R s s'"
    and signing_retired: "R s (retire_signing_key skid at s)"
begin

lemma guar_sql_tx: "(\<And>now. guar R (body now)) \<Longrightarrow> guar R (sql_tx body)"
  by (rule guar_transaction) (metis run_guar)

lemma guar_not_found: "guar R (or_not_found x)"
  by (simp add: or_not_found_def split: option.split)

lemma guar_own_account: "(\<And>r. ac_id (f r) = ac_id r) \<Longrightarrow> guar R (update_own_account subj a f)"
  unfolding update_own_account_def Let_def
  by (auto intro!: guar_obind guar_stmt guar_not_found accounts_changed)

lemma guar_accounts:
  "guar R (create_account subj quota)" "guar R (update_account_default_quota subj a quota)" "guar R (set_account_status subj a st)"
  unfolding create_account_def update_account_default_quota_def set_account_status_def load_account_row_def load_account_row_optional_def
  by (auto intro!: guar_obind guar_pbind guar_basics guar_stmt guar_query guar_not_found guar_own_account dest: account_added)

lemma guar_visible_project: "tame_project f \<Longrightarrow> guar R (update_visible_project rp subj p f)"
  unfolding update_visible_project_def Let_def
  by (auto intro!: guar_obind guar_stmt guar_not_found projects_changed)

lemma guar_project_updates:
  "guar R (update_project rp subj p input)" "guar R (set_project_status rp subj p st)" "guar R (set_project_quota rp subj p q)"
  "guar R (set_project_allowed_models rp subj p ms)"
  unfolding update_project_def set_project_status_def set_project_quota_def set_project_allowed_models_def
  by (auto intro!: guar_obind guar_basics guar_visible_project simp: tame_project_def)

lemma guar_create_project: "guar R (create_project rp subj a input new_id)"
  unfolding create_project_def Let_def
  by (auto intro!: guar_obind guar_pbind guar_basics guar_query guar_stmt guar_not_found split: option.split
      dest: project_added)

lemma guar_model_policy: "guar R (set_project_model_policy rp subj p policy)"
  unfolding set_project_model_policy_def Let_def
  by (rule guar_sql_tx)
    (auto intro!: guar_obind guar_query guar_not_found guar_basics guar_stmt projects_changed
      simp: res_bind_eq_Inr_conv tame_project_def split: if_splits)

lemma guar_set_default: "guar R (set_default_project rp subj pid)"
proof -
  have "guar R (sql_tx (\<lambda>_.
       obind (sql (\<lambda>_ s. Inr ((), s\<lparr>t_projects := demoted ds acct pid now1 (t_projects s)\<rparr>))) (\<lambda>_.
       obind utc_now (\<lambda>now2.
       obind (sql (\<lambda>_. promote_project pid now2)) (\<lambda>p. cok (to_project rp p))))))" for ds acct now1
  proof (rule guar_transaction, goal_cases)
    case (1 now env n s a n' s')
    then show "R s s'"
      by (auto elim!: run_obind_Inr dest!: run_stmt_Inr default_moved simp: utc_now_def run_observe)
  qed
  then show ?thesis
    unfolding set_default_project_def
    by (auto intro!: guar_obind guar_query guar_not_found guar_basics)
qed

lemma guar_lead: "guar R (authorize_project_lead p subj)"
  unfolding authorize_project_lead_def project_account_id_def project_member_role_def
  by (auto intro!: guar_obind guar_query split: option.split)

lemma guar_then_project: "guar R (then_project rp p)"
  unfolding then_project_def by (auto intro!: guar_obind guar_lookups guar_not_found)

lemma guar_update_member:
  "(\<And>m. pm_project_id (h m) = pm_project_id m \<and> pm_account_id (h m) = pm_account_id m) \<Longrightarrow> guar R (update_member rp p t h)"
  unfolding update_member_def
  by (auto intro!: guar_obind guar_stmt guar_then_project members_changed)

lemma guar_roster:
  "guar R (add_project_member rp subj p t role)" "guar R (remove_project_member rp subj p t)"
  "guar R (set_project_member_role rp subj p t r)" "guar R (set_project_member_quota_tier rp subj p t q)"
  "guar R (list_project_roster subj p)"
  unfolding add_project_member_def remove_project_member_def set_project_member_role_def set_project_member_quota_tier_def
    list_project_roster_def project_account_id_def project_member_role_def Let_def
  by (auto intro!: guar_obind guar_lead guar_stmt guar_query guar_then_project guar_update_member members_removed
      dest: member_added split: option.split)

lemma guar_keys:
  "guar R (create_api_key subj k)" "guar R (get_api_key subj i)" "guar R (record_api_key_usage i ip)"
  "guar R (find_api_key_validation_by_hash hsh)" "guar R get_active_signing_key" "guar R list_verification_jwks"
  unfolding create_api_key_def get_api_key_def record_api_key_usage_def find_api_key_validation_by_hash_def
    get_active_signing_key_def list_verification_jwks_def Let_def
  by (auto intro!: guar_obind guar_lead guar_stmt guar_query guar_basics key_used refl simp: res_bind_eq_Inr_conv
      dest: key_added)

lemma guar_visible_key: "may kid st \<Longrightarrow> guar R (update_visible_key subj kid (status_change st revoked expires))"
  unfolding update_visible_key_def by (rule guar_stmt) (auto intro: key_status)

lemma guar_key_status: "may kid st \<Longrightarrow> guar R (set_api_key_status subj kid st revoked expires)"
  unfolding set_api_key_status_def by (auto intro!: guar_obind guar_visible_key guar_not_found)

lemma guar_rotate_tx: "may kid st \<Longrightarrow> guar R (rotate_api_key_transaction subj kid st revoked expires new)"
  unfolding rotate_api_key_transaction_def
  by (rule guar_sql_tx)
    (auto intro!: guar_obind guar_visible_key guar_not_found guar_stmt refl
      simp: res_bind_eq_Inr_conv dest!: key_added split: if_splits)

lemma guar_issue: "guar R (issue_api_key_secret st subj bearer p i req)"
  unfolding issue_api_key_secret_def issue_secret_def external_issue_def generate_secret_def sign_def signer_token_manager_def Let_def
    get_project_def
  by (auto intro!: guar_obind guar_keys guar_basics guar_query guar_not_found split: option.split)

lemma guar_rotate:
  assumes "\<And>kst. key_status_set (RotateApiKeyCall subj bearer k input) k kst \<Longrightarrow> may k kst"
  shows "guar R (authz_rotate_api_key st subj bearer k input)"
proof -
  have "may k (fst (retirement now (rk_grace_period_seconds input) e))" for now e
    by (rule assms) (auto simp: retirement_def split: option.split)
  then show ?thesis
    unfolding authz_rotate_api_key_def
    by (auto intro!: guar_obind guar_keys guar_not_found guar_basics guar_issue guar_rotate_tx split: prod.split)
      (metis fst_conv)
qed

lemma guar_create_key: "guar R (authz_create_api_key st subj bearer p input)"
  unfolding authz_create_api_key_def
  by (auto intro!: guar_obind guar_keys guar_basics guar_issue)

lemma guar_introspect: "guar R (introspect_api_key os token)"
  unfolding introspect_api_key_def introspect_api_key_row_def introspect_exchange_token_def validate_api_key_context_def
    resolve_exchange_token_context_def verify_self_issued_token_def project_member_role_def
  by (auto intro!: guar_obind guar_pbind guar_keys guar_basics guar_not_found guar_query split: option.split sum.split)

lemma guar_bootstrap: "guar R (bootstrap_signing_key lib age)"
  unfolding bootstrap_signing_key_def ensure_active_signing_key_def Let_def
  by (auto intro!: guar_obind guar_basics guar_sql_tx guar_query guar_stmt signing_retired dest: signing_added split: option.split)

lemma guar_serve_tenant:
  assumes "\<not> deletes call" "\<And>kid kst. key_status_set call kid kst \<Longrightarrow> may kid kst"
  shows "guar R (serve_tenant d call)"
proof (cases call)
  case (RotateApiKeyCall subj bearer k input)
  then show ?thesis using guar_rotate assms(2) by (auto simp: replied_def intro!: guar_pbind)
next
  case (RevokeApiKeyCall subj k)
  then show ?thesis using assms(2) by (auto simp: replied_def authz_revoke_api_key_def intro!: guar_pbind guar_obind guar_basics guar_key_status)
qed (use assms(1) in \<open>auto simp: replied_def authz_create_account_def authz_update_account_default_quota_def enable_account_def
    disable_account_def enable_project_def disable_project_def authz_set_project_quota_def authz_set_project_allowed_models_def
    authz_set_project_model_policy_def authz_set_project_member_quota_tier_def idp_resolve_context_def Let_def
    intro!: guar_pbind guar_accounts guar_create_project guar_project_updates guar_set_default guar_model_policy guar_roster
    guar_create_key guar_introspect guar_lookups guar_bootstrap guar_serve split: option.split\<close>)

end

end
