(* ===== verification/Tenant_Rpc.thy ===== *)
theory Tenant_Rpc
  imports Tenant_Server Rpc_Gate
begin

text \<open>
  rest/src/lib.rs, the account, project, roster, API-key and session procedures of the RPC server: what they take from the caller's
  context and arguments, which operation of \<open>AuthzStoreImpl\<close> they run, how its errors become statuses and its rows the
  schema's wire types. Numbers that are not integers keep their text. The budget procedures are in Budget_Rpc.
\<close>

type_synonym 'a tenant_rpc = "(tenancy, (cratestack_error, 'a) result) prog"

subsection \<open>Errors\<close>

text \<open>\<open>Display\<close> of the errors; the causes of I/O, YAML and address errors are not kept.\<close>

fun core_error_display :: "core_error \<Rightarrow> string" where
  "core_error_display IoError = ''IO error''"
| "core_error_display YamlError = ''YAML parse error''"
| "core_error_display CoreNotFound = ''Not found''"
| "core_error_display (CoreForbidden m) = ''Forbidden: '' @ m"
| "core_error_display (CoreConflict m) = ''Conflict: '' @ m"
| "core_error_display (CoreBadRequest m) = ''Bad request: '' @ m"
| "core_error_display (AnyError m) = ''Any: '' @ m"
| "core_error_display (ServerError m) = ''Server Error: '' @ m"
| "core_error_display AddrParseError = ''Address parse error''"
| "core_error_display (DatabaseError m) = ''Database error: '' @ m"
| "core_error_display (SqlxError m) = ''SQLx error: '' @ m"

fun to_cratestack_error :: "core_error \<Rightarrow> cratestack_error" where
  "to_cratestack_error CoreNotFound = CsNotFound ''not found''"
| "to_cratestack_error (CoreForbidden m) = CsForbidden m"
| "to_cratestack_error (CoreConflict m) = CsConflict m"
| "to_cratestack_error (CoreBadRequest m) = CsBadRequest m"
| "to_cratestack_error other = CsInternal (core_error_display other)"

definition access_token_from_ctx :: "cs_context \<Rightarrow> string option" where
  "access_token_from_ctx ctx =
     (case map_of (extensions ctx) ACCESS_TOKEN_CONTEXT_KEY of Some (CsString s) \<Rightarrow> Some s | _ \<Rightarrow> None)"

subsection \<open>Values\<close>

fun json_to_cratestack_value :: "json \<Rightarrow> cs_value" where
  "json_to_cratestack_value JNull = CsNull"
| "json_to_cratestack_value (JBool b) = CsBool b"
| "json_to_cratestack_value (JNumber n) = (case parse_i64 n of Some i \<Rightarrow> CsInt i | None \<Rightarrow> CsFloat n)"
| "json_to_cratestack_value (JString s) = CsString s"
| "json_to_cratestack_value (JArray items) = CsList (map json_to_cratestack_value items)"
| "json_to_cratestack_value (JObject kvs) = CsMap (map (\<lambda>(k, v). (k, json_to_cratestack_value v)) kvs)"

text \<open>The constructor \<open>Bytes\<close>, which no JSON decodes to, is not among the values.\<close>

fun cratestack_value_to_json :: "cs_value \<Rightarrow> json" where
  "cratestack_value_to_json CsNull = JNull"
| "cratestack_value_to_json (CsBool b) = JBool b"
| "cratestack_value_to_json (CsInt i) = JNumber (dec_of_int i)"
| "cratestack_value_to_json (CsFloat f) = (if f \<in> {''NaN'', ''inf'', ''-inf''} then JNull else JNumber f)"
| "cratestack_value_to_json (CsString s) = JString s"
| "cratestack_value_to_json (CsList items) = JArray (map cratestack_value_to_json items)"
| "cratestack_value_to_json (CsMap kvs) = JObject (map (\<lambda>(k, v). (k, cratestack_value_to_json v)) kvs)"

definition allowed_models_from_json_arg :: "cs_value option \<Rightarrow> string list option" where
  "allowed_models_from_json_arg value =
     Option.bind value (\<lambda>v. case cratestack_value_to_json v of
        JArray items \<Rightarrow> Some (List.map_filter json_as_str items)
      | _ \<Rightarrow> None)"

subsection \<open>Wire types\<close>

type_synonym schema_account = "string account_data"
type_synonym schema_project = "(cs_value, cs_value, string, string) project_data"

record schema_api_key =
  sw_key :: "string api_key_data"
  sw_deleted_at :: "int option"

record schema_api_key_secret =
  sw_api_key :: schema_api_key
  sw_secret :: string
  sw_oauth2_url :: "string option"

record schema_project_member =
  sw_id :: string
  sw_project_id :: string
  sw_account_id :: string
  sw_role :: string
  sw_quota_tier :: "string option"
  sw_created_at :: int

definition to_schema_account :: "account \<Rightarrow> schema_account" where
  "to_schema_account a = \<lparr>ac_id = ac_id a, ac_default_quota = ac_default_quota a,
     ac_status = resource_status_to_string (ac_status a), ac_created_at = ac_created_at a, ac_updated_at = ac_updated_at a\<rparr>"

definition to_schema_api_key :: "api_key \<Rightarrow> schema_api_key" where
  "to_schema_api_key k = \<lparr>sw_key = \<lparr>ak_id = ak_id k, ak_project_id = ak_project_id k, ak_name = ak_name k,
       ak_key_prefix = ak_key_prefix k, ak_key_hash = ak_key_hash k, ak_created_at = ak_created_at k, ak_expires_at = ak_expires_at k,
       ak_status = api_key_status_to_string (ak_status k), ak_last_used_at = ak_last_used_at k, ak_last_ip = ak_last_ip k,
       ak_revoked_at = ak_revoked_at k, ak_billing_plan = ak_billing_plan k, ak_updated_at = ak_updated_at k\<rparr>,
     sw_deleted_at = None\<rparr>"

definition to_schema_api_key_secret :: "api_key_secret \<Rightarrow> schema_api_key_secret" where
  "to_schema_api_key_secret s = \<lparr>sw_api_key = to_schema_api_key (ks_api_key s), sw_secret = ks_secret s, sw_oauth2_url = ks_oauth2_url s\<rparr>"

definition to_schema_project :: "store_repo \<Rightarrow> project \<Rightarrow> schema_project" where
  "to_schema_project self p = \<lparr>pj_id = pj_id p, pj_account_id = pj_account_id p, pj_name = pj_name p,
     pj_allowed_models = map_option (\<lambda>models. json_to_cratestack_value (JArray (map JString models))) (pj_allowed_models p),
     pj_default_limits = json_to_cratestack_value (case pj_default_limits p of
         None \<Rightarrow> JNull | Some l \<Rightarrow> (case limits_to_value self l of None \<Rightarrow> JNull | Some v \<Rightarrow> v)),
     pj_billing_plan = pj_billing_plan p, pj_billing_identity = pj_billing_identity p, pj_project_quota = pj_project_quota p,
     pj_status = resource_status_to_string (pj_status p), pj_is_default = pj_is_default p,
     pj_model_policy = model_policy_to_string (pj_model_policy p), pj_created_at = pj_created_at p, pj_updated_at = pj_updated_at p\<rparr>"

definition to_schema_project_member :: "member_row \<Rightarrow> schema_project_member" where
  "to_schema_project_member m = \<lparr>sw_id = pm_project_id m @ '':'' @ pm_account_id m, sw_project_id = pm_project_id m,
     sw_account_id = pm_account_id m, sw_role = pm_role m, sw_quota_tier = pm_quota_tier m, sw_created_at = pm_created_at m\<rparr>"

text \<open>\<open>revoked_count as i64\<close>, which wraps.\<close>

definition to_schema_session_revocation_result :: "nat \<Rightarrow> int" where
  "to_schema_session_revocation_result revoked_count = (int revoked_count + 2 ^ 63) mod 2 ^ 64 - 2 ^ 63"

text \<open>The catalogues go out as they are configured.\<close>

definition to_schema_billing_plans :: "billing_plan list \<Rightarrow> billing_plan list" where
  "to_schema_billing_plans plans = map (\<lambda>p. \<lparr>bp_id = bp_id p, bp_name = bp_name p, bp_limits = bp_limits p\<rparr>) plans"

definition to_schema_model_catalog :: "model_entry list \<Rightarrow> model_entry list" where
  "to_schema_model_catalog models = map (\<lambda>e. \<lparr>me_id = me_id e, me_name = me_name e\<rparr>) models"

subsection \<open>Procedures\<close>

text \<open>What the procedures share: the caller's subject, the operation, and \<open>.await.map_err(to_cratestack_error)?\<close>.\<close>

definition tenant_procedure :: "cs_context \<Rightarrow> (string \<Rightarrow> 'a store_op) \<Rightarrow> ('a \<Rightarrow> 'b) \<Rightarrow> 'b tenant_rpc" where
  "tenant_procedure ctx operation wire =
     (case subject_from_ctx ctx of
        None \<Rightarrow> Ret (Inl (CsUnauthorized ''missing subject''))
      | Some subject \<Rightarrow> pbind (operation subject) (\<lambda>r. Ret (case r of Inl e \<Rightarrow> Inl (to_cratestack_error e) | Inr a \<Rightarrow> Inr (wire a))))"

definition proc_create_account :: "authz_store \<Rightarrow> cs_context \<Rightarrow> string option \<Rightarrow> schema_account tenant_rpc" where
  "proc_create_account st ctx default_quota =
     tenant_procedure ctx (\<lambda>subject. authz_create_account st subject default_quota) to_schema_account"

definition proc_update_account_default_quota :: "authz_store \<Rightarrow> cs_context \<Rightarrow> string \<Rightarrow> string option \<Rightarrow> schema_account tenant_rpc" where
  "proc_update_account_default_quota st ctx account_id default_quota =
     tenant_procedure ctx (\<lambda>subject. authz_update_account_default_quota st subject account_id default_quota) to_schema_account"

definition proc_rotate_api_key :: "authz_store \<Rightarrow> cs_context \<Rightarrow> string \<Rightarrow> schema_api_key_secret tenant_rpc" where
  "proc_rotate_api_key st ctx key_id =
     tenant_procedure ctx (\<lambda>subject. authz_rotate_api_key st subject (access_token_from_ctx ctx) key_id
         \<lparr>rk_name = None, rk_expires_at = None, rk_grace_period_seconds = None\<rparr>) to_schema_api_key_secret"

definition proc_create_api_key :: "authz_store \<Rightarrow> cs_context \<Rightarrow> string \<Rightarrow> string \<Rightarrow> int \<Rightarrow> string \<Rightarrow> schema_api_key_secret tenant_rpc" where
  "proc_create_api_key st ctx project_id name expires_at billing_plan =
     tenant_procedure ctx (\<lambda>subject. authz_create_api_key st subject (access_token_from_ctx ctx) project_id
         \<lparr>ck_name = name, ck_expires_at = Some expires_at, ck_billing_plan = billing_plan\<rparr>) to_schema_api_key_secret"

definition proc_list_billing_plans :: "authz_store \<Rightarrow> cs_context \<Rightarrow> billing_plan list tenant_rpc" where
  "proc_list_billing_plans st ctx = tenant_procedure ctx (\<lambda>_. cok (as_billing st)) to_schema_billing_plans"

definition proc_list_model_catalog :: "authz_store \<Rightarrow> cs_context \<Rightarrow> model_entry list tenant_rpc" where
  "proc_list_model_catalog st ctx = tenant_procedure ctx (\<lambda>_. cok (as_models st)) to_schema_model_catalog"

definition proc_disable_account :: "cs_context \<Rightarrow> string \<Rightarrow> schema_account tenant_rpc" where
  "proc_disable_account ctx account_id = tenant_procedure ctx (\<lambda>subject. disable_account subject account_id) to_schema_account"

definition proc_enable_account :: "cs_context \<Rightarrow> string \<Rightarrow> schema_account tenant_rpc" where
  "proc_enable_account ctx account_id = tenant_procedure ctx (\<lambda>subject. enable_account subject account_id) to_schema_account"

definition proc_disable_project :: "authz_store \<Rightarrow> cs_context \<Rightarrow> string \<Rightarrow> schema_project tenant_rpc" where
  "proc_disable_project st ctx project_id =
     tenant_procedure ctx (\<lambda>subject. disable_project st subject project_id) (to_schema_project (as_repo st))"

definition proc_enable_project :: "authz_store \<Rightarrow> cs_context \<Rightarrow> string \<Rightarrow> schema_project tenant_rpc" where
  "proc_enable_project st ctx project_id =
     tenant_procedure ctx (\<lambda>subject. enable_project st subject project_id) (to_schema_project (as_repo st))"

definition proc_set_default_project :: "authz_store \<Rightarrow> cs_context \<Rightarrow> string \<Rightarrow> schema_project tenant_rpc" where
  "proc_set_default_project st ctx project_id =
     tenant_procedure ctx (\<lambda>subject. set_default_project (as_repo st) subject project_id) (to_schema_project (as_repo st))"

definition proc_set_project_quota :: "authz_store \<Rightarrow> cs_context \<Rightarrow> string \<Rightarrow> string option \<Rightarrow> schema_project tenant_rpc" where
  "proc_set_project_quota st ctx project_id project_quota =
     tenant_procedure ctx (\<lambda>subject. authz_set_project_quota st subject project_id project_quota) (to_schema_project (as_repo st))"

definition proc_set_project_allowed_models :: "authz_store \<Rightarrow> cs_context \<Rightarrow> string \<Rightarrow> cs_value option \<Rightarrow> schema_project tenant_rpc" where
  "proc_set_project_allowed_models st ctx project_id allowed_models =
     tenant_procedure ctx (\<lambda>subject. authz_set_project_allowed_models st subject project_id (allowed_models_from_json_arg allowed_models))
       (to_schema_project (as_repo st))"

definition proc_set_project_model_policy :: "authz_store \<Rightarrow> cs_context \<Rightarrow> string \<Rightarrow> string \<Rightarrow> schema_project tenant_rpc" where
  "proc_set_project_model_policy st ctx project_id model_policy =
     tenant_procedure ctx (\<lambda>subject. authz_set_project_model_policy st subject project_id model_policy) (to_schema_project (as_repo st))"

definition proc_revoke_api_key :: "cs_context \<Rightarrow> string \<Rightarrow> schema_api_key tenant_rpc" where
  "proc_revoke_api_key ctx key_id = tenant_procedure ctx (\<lambda>subject. authz_revoke_api_key subject key_id) to_schema_api_key"

definition proc_add_project_member :: "authz_store \<Rightarrow> cs_context \<Rightarrow> string \<Rightarrow> string \<Rightarrow> string option \<Rightarrow> schema_project tenant_rpc" where
  "proc_add_project_member st ctx project_id target role =
     tenant_procedure ctx (\<lambda>subject. add_project_member (as_repo st) subject project_id target role) (to_schema_project (as_repo st))"

definition proc_remove_project_member :: "authz_store \<Rightarrow> cs_context \<Rightarrow> string \<Rightarrow> string \<Rightarrow> schema_project tenant_rpc" where
  "proc_remove_project_member st ctx project_id target =
     tenant_procedure ctx (\<lambda>subject. remove_project_member (as_repo st) subject project_id target) (to_schema_project (as_repo st))"

definition proc_set_project_member_role :: "authz_store \<Rightarrow> cs_context \<Rightarrow> string \<Rightarrow> string \<Rightarrow> string \<Rightarrow> schema_project tenant_rpc" where
  "proc_set_project_member_role st ctx project_id target role =
     tenant_procedure ctx (\<lambda>subject. set_project_member_role (as_repo st) subject project_id target role) (to_schema_project (as_repo st))"

definition proc_set_project_member_quota_tier ::
  "authz_store \<Rightarrow> cs_context \<Rightarrow> string \<Rightarrow> string \<Rightarrow> string option \<Rightarrow> schema_project tenant_rpc" where
  "proc_set_project_member_quota_tier st ctx project_id target quota_tier =
     tenant_procedure ctx (\<lambda>subject. authz_set_project_member_quota_tier st subject project_id target quota_tier)
       (to_schema_project (as_repo st))"

definition proc_list_project_roster :: "cs_context \<Rightarrow> string \<Rightarrow> schema_project_member list tenant_rpc" where
  "proc_list_project_roster ctx project_id =
     tenant_procedure ctx (\<lambda>subject. list_project_roster subject project_id) (map to_schema_project_member)"

definition proc_delete_account_permanently :: "cs_context \<Rightarrow> string \<Rightarrow> schema_account tenant_rpc" where
  "proc_delete_account_permanently ctx account_id = tenant_procedure ctx (\<lambda>subject. delete_account subject account_id) to_schema_account"

definition proc_revoke_own_sessions :: "cs_context \<Rightarrow> int tenant_rpc" where
  "proc_revoke_own_sessions ctx = tenant_procedure ctx revoke_sessions to_schema_session_revocation_result"

definition proc_revoke_subject_sessions :: "cs_context \<Rightarrow> string \<Rightarrow> int tenant_rpc" where
  "proc_revoke_subject_sessions ctx target = tenant_procedure ctx (\<lambda>_. revoke_sessions target) to_schema_session_revocation_result"

end
