(* ===== verification/Float64.thy ===== *)
theory Float64
  imports Lb_Prelude "HOL-Library.Log_Nat" Complex_Main
begin

text \<open>
  The operations on \<open>f64\<close> the usage and budget services perform, on the values of IEEE 754 doubles: a finite value is a
  rational number, results are rounded to nearest, ties to even, with gradual underflow. The two zeros are one value.
\<close>

subsection \<open>Values and rounding\<close>

datatype f64 = Finite rat | Infinite bool | NotANumber

definition round_even :: "rat \<Rightarrow> int" where
  "round_even x =
     (let f = \<lfloor>x\<rfloor>; d = x - of_int f in
      if d < 1 / 2 then f else if d > 1 / 2 then f + 1 else if even f then f else f + 1)"

text \<open>The exponent of a positive rational: \<open>2\<^sup>e \<le> x < 2\<^sup>e\<^sup>+\<^sup>1\<close>.\<close>

definition two_to :: "int \<Rightarrow> rat" where
  "two_to e = (if 0 \<le> e then 2 ^ nat e else 1 / 2 ^ nat (- e))"

definition binade :: "rat \<Rightarrow> int" where
  "binade x =
     (let (n, d) = quotient_of x; k = bitlen n - bitlen d in
      if two_to k \<le> x then k else k - 1)"

definition f64_of_rat :: "rat \<Rightarrow> f64" where
  "f64_of_rat x =
     (if x = 0 then Finite 0
      else let ulp = two_to (max (binade \<bar>x\<bar>) (- 1022) - 52);
               y = of_int (round_even (x / ulp)) * ulp in
           if two_to 1024 \<le> \<bar>y\<bar> then Infinite (0 < x) else Finite y)"

definition f64_of_int :: "int \<Rightarrow> f64" where
  "f64_of_int i = f64_of_rat (of_int i)"

fun is_finite :: "f64 \<Rightarrow> bool" where
  "is_finite (Finite _) = True"
| "is_finite _ = False"

fun f64_add :: "f64 \<Rightarrow> f64 \<Rightarrow> f64" where
  "f64_add (Finite x) (Finite y) = f64_of_rat (x + y)"
| "f64_add (Infinite a) (Infinite b) = (if a = b then Infinite a else NotANumber)"
| "f64_add (Infinite a) (Finite _) = Infinite a"
| "f64_add (Finite _) (Infinite b) = Infinite b"
| "f64_add _ _ = NotANumber"

fun f64_mul :: "f64 \<Rightarrow> f64 \<Rightarrow> f64" where
  "f64_mul (Finite x) (Finite y) = f64_of_rat (x * y)"
| "f64_mul (Infinite a) (Infinite b) = Infinite (a = b)"
| "f64_mul (Infinite a) (Finite y) = (if y = 0 then NotANumber else Infinite (a = (0 < y)))"
| "f64_mul (Finite x) (Infinite b) = (if x = 0 then NotANumber else Infinite (b = (0 < x)))"
| "f64_mul _ _ = NotANumber"

fun f64_less :: "f64 \<Rightarrow> f64 \<Rightarrow> bool" where
  "f64_less (Finite x) (Finite y) \<longleftrightarrow> x < y"
| "f64_less (Infinite a) (Infinite b) \<longleftrightarrow> \<not> a \<and> b"
| "f64_less (Infinite a) (Finite _) \<longleftrightarrow> \<not> a"
| "f64_less (Finite _) (Infinite b) \<longleftrightarrow> b"
| "f64_less _ _ \<longleftrightarrow> False"

fun f64_le :: "f64 \<Rightarrow> f64 \<Rightarrow> bool" where
  "f64_le NotANumber _ \<longleftrightarrow> False"
| "f64_le _ NotANumber \<longleftrightarrow> False"
| "f64_le x y \<longleftrightarrow> \<not> f64_less y x"

text \<open>\<open>round\<close>: to the nearest integer, halves away from zero; \<open>as i64\<close>: towards zero, saturating, and zero for NaN.\<close>

definition round_away :: "rat \<Rightarrow> int" where
  "round_away x = (if 0 \<le> x then \<lfloor>x + 1 / 2\<rfloor> else - \<lfloor>- x + 1 / 2\<rfloor>)"

fun f64_round :: "f64 \<Rightarrow> f64" where
  "f64_round (Finite x) = Finite (of_int (round_away x))"
| "f64_round x = x"

definition toward_zero :: "rat \<Rightarrow> int" where
  "toward_zero x = (if 0 \<le> x then \<lfloor>x\<rfloor> else - \<lfloor>- x\<rfloor>)"

fun f64_to_i64 :: "f64 \<Rightarrow> int" where
  "f64_to_i64 (Finite x) = clamp_int (- (2 ^ 63)) (2 ^ 63 - 1) (toward_zero x)"
| "f64_to_i64 (Infinite pos) = (if pos then 2 ^ 63 - 1 else - (2 ^ 63))"
| "f64_to_i64 NotANumber = 0"

subsection \<open>Text\<close>

definition lower_ascii :: "char \<Rightarrow> char" where
  "lower_ascii c = (if 65 \<le> (of_char c :: nat) \<and> (of_char c :: nat) \<le> 90 then char_of ((of_char c :: nat) + 32) else c)"

definition eq_ignore_ascii_case :: "string \<Rightarrow> string \<Rightarrow> bool" where
  "eq_ignore_ascii_case a b \<longleftrightarrow> map lower_ascii a = map lower_ascii b"

text \<open>\<open>[+-]? digits\<close>, the exponent after \<open>e\<close>.\<close>

definition split_sign :: "string \<Rightarrow> bool \<times> string" where
  "split_sign s = (case s of [] \<Rightarrow> (False, [])
     | c # cs \<Rightarrow> if c = CHR ''-'' then (True, cs) else if c = CHR ''+'' then (False, cs) else (False, s))"

definition parse_exponent :: "string \<Rightarrow> int option" where
  "parse_exponent s =
     (case s of
        [] \<Rightarrow> Some 0
      | c # cs \<Rightarrow>
          if lower_ascii c \<noteq> CHR ''e'' then None
          else let (neg, ds) = split_sign cs in
               if ds = [] \<or> \<not> list_all is_digit ds then None
               else Some (if neg then - int (dec_value ds) else int (dec_value ds)))"

definition ten_to :: "int \<Rightarrow> rat" where
  "ten_to e = (if 0 \<le> e then 10 ^ nat e else 1 / 10 ^ nat (- e))"

definition parse_decimal :: "string \<Rightarrow> rat option" where
  "parse_decimal s =
     (let whole = takeWhile is_digit s;
          rest = dropWhile is_digit s;
          dotted = (case rest of c # _ \<Rightarrow> c = CHR ''.'' | [] \<Rightarrow> False);
          frac = (if dotted then takeWhile is_digit (tl rest) else []);
          tail = (if dotted then dropWhile is_digit (tl rest) else rest) in
      if whole = [] \<and> frac = [] then None
      else map_option (\<lambda>e. of_nat (dec_value (whole @ frac)) * ten_to (e - int (length frac))) (parse_exponent tail))"

text \<open>\<open>str::parse::<f64>()\<close>, which rounds correctly.\<close>

definition parse_f64 :: "string \<Rightarrow> f64 option" where
  "parse_f64 s =
     (let (neg, body) = split_sign s in
      if eq_ignore_ascii_case body ''inf'' \<or> eq_ignore_ascii_case body ''infinity'' then Some (Infinite (\<not> neg))
      else if eq_ignore_ascii_case body ''nan'' then Some NotANumber
      else map_option (\<lambda>x. f64_of_rat (if neg then - x else x)) (parse_decimal body))"

subsection \<open>Exact values\<close>

lemma two_to_powi: "two_to e = 2 powi e"
  by (simp add: two_to_def power_int_def power_inverse field_simps)

lemma two_to_pos [simp]: "0 < two_to e"
  by (simp add: two_to_def)

lemma two_to_add: "two_to (a + b) = two_to a * two_to b"
  by (simp add: two_to_powi power_int_add)

lemma two_to_minus: "two_to (a - b) = two_to a / two_to b"
  by (simp add: two_to_powi power_int_diff)

lemma two_to_less: "two_to a < two_to b \<longleftrightarrow> a < b"
proof -
  have "two_to a < two_to b" if "a < b" for a b using that by (simp add: two_to_powi power_int_strict_increasing)
  then show ?thesis by (metis less_asym not_less_iff_gr_or_eq)
qed

lemma two_to_nat: "0 \<le> k \<Longrightarrow> two_to k = of_int (2 ^ nat k)"
  by (simp add: two_to_def)

lemma bitlen_binade:
  assumes "0 < n"
  shows "two_to (bitlen n - 1) \<le> of_int n" "of_int n < two_to (bitlen n)"
proof -
  have "0 < bitlen n" using bitlen_eq_zero_iff [of n] bitlen_nonneg [of n] assms by linarith
  then show "two_to (bitlen n - 1) \<le> of_int n" "of_int n < two_to (bitlen n)"
    using bitlen_bounds [OF assms] two_to_nat [of "bitlen n - 1"] two_to_nat [of "bitlen n"]
    by (simp_all only: of_int_le_iff of_int_less_iff)
qed

lemma binade_bounds:
  assumes "0 < x"
  shows "two_to (binade x) \<le> x" "x < two_to (binade x + 1)"
proof -
  obtain n d where q: "quotient_of x = (n, d)" by (cases "quotient_of x")
  then have x: "x = of_int n / of_int d" and d: "0 < d" using quotient_of_div quotient_of_denom_pos by blast+
  then have n: "0 < n" using assms by (simp add: zero_less_divide_iff)
  let ?k = "bitlen n - bitlen d"
  have split: "two_to (?k - 1) * two_to (bitlen d) = two_to (bitlen n - 1)"
    "two_to (?k + 1) * two_to (bitlen d - 1) = two_to (bitlen n)"
    by (simp_all add: two_to_add [symmetric])
  have "two_to (?k - 1) * of_int d \<le> two_to (?k - 1) * two_to (bitlen d)"
    using bitlen_binade(2) [OF d] by (intro mult_left_mono) (simp_all add: less_imp_le)
  with split have low: "two_to (?k - 1) \<le> x" using bitlen_binade(1) [OF n] d by (simp add: x field_simps)
  have "two_to (?k + 1) * two_to (bitlen d - 1) \<le> two_to (?k + 1) * of_int d"
    using bitlen_binade(1) [OF d] by (intro mult_left_mono) (simp_all add: less_imp_le)
  with split have "x < two_to (?k + 1)" using bitlen_binade(2) [OF n] d by (simp add: x field_simps)
  with low show "two_to (binade x) \<le> x" "x < two_to (binade x + 1)" by (auto simp: binade_def q Let_def)
qed

lemma binade_eqI:
  assumes "two_to e \<le> x" "x < two_to (e + 1)"
  shows "binade x = e"
proof -
  have "0 < x" using assms(1) two_to_pos [of e] by linarith
  then have "two_to e < two_to (binade x + 1)" "two_to (binade x) < two_to (e + 1)"
    using binade_bounds [of x] assms by (linarith, linarith)
  then show ?thesis by (simp add: two_to_less)
qed

lemma round_even_of_int [simp]: "round_even (of_int i) = i"
  by (simp add: round_even_def)

text \<open>A fraction of a 53-bit integer by a power of two, down to \<open>2\<^sup>-\<^sup>1\<^sup>0\<^sup>7\<^sup>4\<close>, is a double: it is not rounded.\<close>

lemma f64_exact:
  assumes "\<bar>i\<bar> < 2 ^ 53" "j \<le> 1074"
  shows "f64_of_rat (of_int i / 2 ^ j) = Finite (of_int i / 2 ^ j)"
proof (cases "i = 0")
  case False
  let ?x = "of_int i / 2 ^ j :: rat"
  let ?u = "max (binade \<bar>?x\<bar>) (- 1022) - 52"
  have x: "?x = of_int i * two_to (- int j)" by (simp add: two_to_def)
  have "of_int \<bar>i\<bar> < (of_int (2 ^ 53) :: rat)" using assms(1) by (simp only: of_int_less_iff)
  then have "\<bar>?x\<bar> < two_to 53 * two_to (- int j)" by (simp add: x abs_mult two_to_def divide_strict_right_mono)
  moreover have "0 < \<bar>?x\<bar>" using False by simp
  ultimately have "two_to (binade \<bar>?x\<bar>) < two_to (53 - int j)"
    using binade_bounds(1) [of "\<bar>?x\<bar>"] two_to_add [of 53 "- int j"] by simp
  then have u: "?u \<le> - int j" using assms(2) by (simp add: two_to_less)
  then have "of_int i * two_to (- int j - ?u) = (of_int (i * 2 ^ nat (- int j - ?u)) :: rat)"
    by (simp add: two_to_nat)
  moreover have "?x / two_to ?u = of_int i * two_to (- int j - ?u)" unfolding x by (simp add: two_to_minus)
  ultimately have "of_int (round_even (?x / two_to ?u)) * two_to ?u = ?x"
    using two_to_pos [of ?u] by (metis nonzero_eq_divide_eq order_less_irrefl round_even_of_int)
  moreover have "\<bar>?x\<bar> < two_to 1024"
    using \<open>\<bar>?x\<bar> < two_to 53 * two_to (- int j)\<close> two_to_add [of 53 "- int j"] two_to_less [of "53 - int j" 1025]
      two_to_less [of "53 - int j" 1024] by simp
  ultimately show ?thesis using False by (simp add: f64_of_rat_def Let_def)
qed (simp add: f64_of_rat_def)

lemma f64_of_int_exact: "\<bar>i\<bar> < 2 ^ 53 \<Longrightarrow> f64_of_int i = Finite (of_int i)"
  using f64_exact [of i 0] by (simp add: f64_of_int_def)

text \<open>The largest \<open>i64\<close> is not a double: \<open>i64::MAX as f64\<close> is \<open>2\<^sup>6\<^sup>3\<close>.\<close>

lemma f64_of_i64_max: "f64_of_int 9223372036854775807 = Finite 9223372036854775808"
proof -
  have "binade 9223372036854775807 = 62" by (rule binade_eqI) (simp_all add: two_to_def)
  moreover have "round_even (9223372036854775807 / 1024) = 9007199254740992"
  proof -
    have "\<lfloor>9223372036854775807 / 1024 :: rat\<rfloor> = 9007199254740991" by (rule floor_unique) simp_all
    then show ?thesis by (simp add: round_even_def)
  qed
  moreover have "two_to 10 = 1024" by (simp add: two_to_def)
  moreover have "9223372036854775808 < two_to 1024" using two_to_less [of 63 1024] by (simp add: two_to_def [of 63])
  ultimately show ?thesis by (simp add: f64_of_int_def f64_of_rat_def Let_def)
qed

end
