(* ===== verification/Mcp_Server.thy ===== *)
theory Mcp_Server
  imports Tenant_Rpc Float64
begin

text \<open>
  app/lightbridge-authz/src/mcp.rs and the middlewares of rest/src/middleware/mod.rs: the doors in front of the MCP and validation
  servers, the permission each tool needs, and the tools. The generated cratestack client, RFC 3339 parsing, URL parsing, base64 and the
  upstream registration endpoint are arguments; a tool answers the value whose JSON it sends. Log events are left out.
\<close>

subsection \<open>The middlewares\<close>

text \<open>\<open>bearer_auth\<close>: the token info it attaches to the request, or 401. The header is absent unless it is visible ASCII.\<close>

definition bearer_token_of :: "string \<Rightarrow> string option" where
  "bearer_token_of h =
     (case (case strip_prefix ''Bearer '' h of Some t \<Rightarrow> Some t | None \<Rightarrow> strip_prefix ''bearer '' h) of
        Some t \<Rightarrow> Some (str_trim t)
      | None \<Rightarrow> if starts_with ''bearer '' (map lower_ascii h) then Some (str_trim (drop 7 h)) else None)"

definition bearer_auth :: "bearer_service \<Rightarrow> string option \<Rightarrow> token_info option" where
  "bearer_auth bearer header =
     Option.bind header (\<lambda>v.
       let h = str_trim v in
       if h = [] then None
       else Option.bind (bearer_token_of h) (\<lambda>token.
         case bearer token of
           Inr info \<Rightarrow> if active_token info then Some info else None
         | Inl _ \<Rightarrow> None))"

text \<open>\<open>basic_auth\<close>: whether the request goes on; \<open>decode\<close> is base64 followed by the check for UTF-8.\<close>

function trim_start_matches :: "string \<Rightarrow> string \<Rightarrow> string" where
  "trim_start_matches pat s = (if pat \<noteq> [] \<and> starts_with pat s then trim_start_matches pat (drop (length pat) s) else s)"
  by pat_completeness auto
termination
proof (relation "measure (\<lambda>(pat, s). length s)", simp, goal_cases)
  case (1 pat s)
  then show ?case by (cases pat; cases s) (auto simp: starts_with_def)
qed

definition splitn_colon :: "string \<Rightarrow> string \<times> string" where
  "splitn_colon s = (takeWhile (\<lambda>c. c \<noteq> CHR '':'') s, drop 1 (dropWhile (\<lambda>c. c \<noteq> CHR '':'') s))"

definition basic_auth :: "(string \<Rightarrow> string option) \<Rightarrow> string \<Rightarrow> string \<Rightarrow> string option \<Rightarrow> bool" where
  "basic_auth decode user pass header =
     (case header of
        None \<Rightarrow> False
      | Some v \<Rightarrow>
          let h = str_trim v in
          if \<not> starts_with ''Basic '' h then False
          else (case decode (trim_start_matches ''Basic '' h) of
              None \<Rightarrow> False
            | Some decoded \<Rightarrow> splitn_colon decoded = (user, pass)))"

subsection \<open>Requests\<close>

record create_project_params =
  pp_account_id :: string
  pp_name :: string
  pp_default_limits :: "default_limits option"
  pp_billing_plan :: string
  pp_billing_identity :: string

datatype tool_call =
    CreateAccountTool "string option"
  | ListAccountsTool nat nat
  | GetAccountTool string
  | UpdateAccountTool string "string option"
  | DeleteAccountTool string
  | DisableAccountTool string
  | EnableAccountTool string
  | ListProjectRosterTool string
  | AddProjectMemberTool string string "string option"
  | RemoveProjectMemberTool string string
  | SetProjectMemberRoleTool string string string
  | SetProjectMemberQuotaTierTool string string "string option"
  | SetProjectQuotaTool string "string option"
  | SetProjectAllowedModelsTool string "string list option"
  | SetProjectModelPolicyTool string string
  | CreateProjectTool create_project_params
  | ListProjectsTool string nat nat
  | GetProjectTool string
  | UpdateProjectTool string "string option" "default_limits option" "string option"
  | DeleteProjectTool string
  | DisableProjectTool string
  | EnableProjectTool string
  | SetDefaultProjectTool string
  | CreateApiKeyTool string string string string
  | ListApiKeysTool string nat nat
  | GetApiKeyTool string
  | UpdateApiKeyTool string "string option"
  | DeleteApiKeyTool string
  | RevokeApiKeyTool string
  | RotateApiKeyTool string "string option" "string option" "int option"
  | ValidateApiKeyTool string "string option"
  | ValidateAuthorinoTool string "string option" "(string \<times> json) list"

fun tool_name :: "tool_call \<Rightarrow> string" where
  "tool_name (CreateAccountTool _) = ''create-account''"
| "tool_name (ListAccountsTool _ _) = ''list-accounts''"
| "tool_name (GetAccountTool _) = ''get-account''"
| "tool_name (UpdateAccountTool _ _) = ''update-account''"
| "tool_name (DeleteAccountTool _) = ''delete-account''"
| "tool_name (DisableAccountTool _) = ''disable-account''"
| "tool_name (EnableAccountTool _) = ''enable-account''"
| "tool_name (ListProjectRosterTool _) = ''list-project-roster''"
| "tool_name (AddProjectMemberTool _ _ _) = ''add-project-member''"
| "tool_name (RemoveProjectMemberTool _ _) = ''remove-project-member''"
| "tool_name (SetProjectMemberRoleTool _ _ _) = ''set-project-member-role''"
| "tool_name (SetProjectMemberQuotaTierTool _ _ _) = ''set-project-member-quota-tier''"
| "tool_name (SetProjectQuotaTool _ _) = ''set-project-quota''"
| "tool_name (SetProjectAllowedModelsTool _ _) = ''set-project-allowed-models''"
| "tool_name (SetProjectModelPolicyTool _ _) = ''set-project-model-policy''"
| "tool_name (CreateProjectTool _) = ''create-project''"
| "tool_name (ListProjectsTool _ _ _) = ''list-projects''"
| "tool_name (GetProjectTool _) = ''get-project''"
| "tool_name (UpdateProjectTool _ _ _ _) = ''update-project''"
| "tool_name (DeleteProjectTool _) = ''delete-project''"
| "tool_name (DisableProjectTool _) = ''disable-project''"
| "tool_name (EnableProjectTool _) = ''enable-project''"
| "tool_name (SetDefaultProjectTool _) = ''set-default-project''"
| "tool_name (CreateApiKeyTool _ _ _ _) = ''create-api-key''"
| "tool_name (ListApiKeysTool _ _ _) = ''list-api-keys''"
| "tool_name (GetApiKeyTool _) = ''get-api-key''"
| "tool_name (UpdateApiKeyTool _ _) = ''update-api-key''"
| "tool_name (DeleteApiKeyTool _) = ''delete-api-key''"
| "tool_name (RevokeApiKeyTool _) = ''revoke-api-key''"
| "tool_name (RotateApiKeyTool _ _ _ _) = ''rotate-api-key''"
| "tool_name (ValidateApiKeyTool _ _) = ''validate-api-key''"
| "tool_name (ValidateAuthorinoTool _ _ _) = ''validate-authorino-api-key''"

definition tool_arms :: "(string \<times> permission) list" where
  "tool_arms =
     [(''create-account'', AccountCreate),
      (''list-accounts'', AccountRead), (''get-account'', AccountRead),
      (''update-account'', AccountUpdate),
      (''delete-account'', AccountDelete),
      (''disable-account'', AccountDisable), (''enable-account'', AccountDisable),
      (''list-project-roster'', ProjectMember), (''add-project-member'', ProjectMember), (''remove-project-member'', ProjectMember),
      (''set-project-member-role'', ProjectMember), (''set-project-member-quota-tier'', ProjectMember),
      (''create-project'', ProjectCreate),
      (''list-projects'', ProjectRead), (''get-project'', ProjectRead),
      (''update-project'', ProjectUpdate), (''set-project-quota'', ProjectUpdate), (''set-project-allowed-models'', ProjectUpdate),
      (''set-project-model-policy'', ProjectUpdate),
      (''delete-project'', ProjectDelete),
      (''disable-project'', ProjectDisable), (''enable-project'', ProjectDisable),
      (''set-default-project'', ProjectUpdate),
      (''create-api-key'', ApiKeyCreate),
      (''list-api-keys'', ApiKeyRead), (''get-api-key'', ApiKeyRead),
      (''update-api-key'', ApiKeyUpdate),
      (''delete-api-key'', ApiKeyDelete),
      (''revoke-api-key'', ApiKeyRevoke),
      (''rotate-api-key'', ApiKeyRotate),
      (''validate-api-key'', ApiKeyValidate), (''validate-authorino-api-key'', ApiKeyValidate)]"

definition required_tool_permission :: "string \<Rightarrow> permission option" where
  "required_tool_permission tool = map_of tool_arms tool"

subsection \<open>Errors\<close>

text \<open>\<open>ErrorData\<close>; the number is the \<open>http_status\<close> of the data of the two validation tools.\<close>

datatype error_data =
    ResourceNotFound string | InvalidRequest string | InvalidParams string "nat option" | InternalError string

fun to_tool_error :: "core_error \<Rightarrow> error_data" where
  "to_tool_error CoreNotFound = ResourceNotFound ''not found''"
| "to_tool_error (CoreForbidden msg) = InvalidRequest msg"
| "to_tool_error (CoreConflict msg) = InvalidParams msg None"
| "to_tool_error (CoreBadRequest msg) = InvalidParams msg None"
| "to_tool_error other = InternalError (core_error_display other)"

text \<open>The errors of the generated client: those of the procedures, and what only the library raises, shown by its \<open>Display\<close>.\<close>

datatype client_error =
    ClientError cratestack_error | CsPreconditionFailed string | CsValidation string | CsNotAcceptable string
  | CsUnsupportedMediaType string | CsOther string

fun cratestack_error_to_tool_error :: "(cratestack_error \<Rightarrow> string) \<Rightarrow> client_error \<Rightarrow> error_data" where
  "cratestack_error_to_tool_error display (ClientError (CsNotFound _)) = ResourceNotFound ''not found''"
| "cratestack_error_to_tool_error display (ClientError (CsForbidden msg)) = InvalidRequest msg"
| "cratestack_error_to_tool_error display (ClientError (CsUnauthorized msg)) = InvalidRequest msg"
| "cratestack_error_to_tool_error display (ClientError (CsConflict msg)) = InvalidParams msg None"
| "cratestack_error_to_tool_error display (CsPreconditionFailed msg) = InvalidParams msg None"
| "cratestack_error_to_tool_error display (ClientError (CsBadRequest msg)) = InvalidParams msg None"
| "cratestack_error_to_tool_error display (CsValidation msg) = InvalidParams msg None"
| "cratestack_error_to_tool_error display (CsNotAcceptable msg) = InvalidParams msg None"
| "cratestack_error_to_tool_error display (CsUnsupportedMediaType msg) = InvalidParams msg None"
| "cratestack_error_to_tool_error display (ClientError (CsInternal m)) = InternalError (display (CsInternal m))"
| "cratestack_error_to_tool_error display (CsOther shown) = InternalError shown"

subsection \<open>The tools\<close>

record mcp_context =
  mc_parts :: "token_info option option"

definition token_info_from_request_context :: "mcp_context \<Rightarrow> (error_data, token_info) result" where
  "token_info_from_request_context ctx =
     (case mc_parts ctx of
        None \<Rightarrow> Inl (InternalError ''missing HTTP request context'')
      | Some None \<Rightarrow> Inl (InternalError ''missing bearer token context'')
      | Some (Some info) \<Rightarrow> Inr info)"

definition subject_from_request_context :: "mcp_context \<Rightarrow> (error_data, string) result" where
  "subject_from_request_context ctx = res_bind (token_info_from_request_context ctx) (\<lambda>info. Inr (sub info))"

definition cratestack_context_from_token_info :: "token_info \<Rightarrow> cs_context" where
  "cratestack_context_from_token_info info = build_context info Crud"

datatype client_query = AccountsQuery nat nat | ProjectsQuery string nat nat | ApiKeysQuery string nat nat
datatype client_model = AccountModel | ProjectModel | ApiKeyModel

datatype client_write =
    CreateProjectInput string string string cs_value string string
  | UpdateProjectInput string "string option" "cs_value option" "string option"
  | DeleteProjectWrite string
  | UpdateApiKeyInput string "string option"
  | DeleteApiKeyWrite string

type_synonym 'a client_op = "(tenancy, (client_error, 'a) result) prog"

record mcp_deps =
  md_issuer :: authz_store
  md_opa :: opa_state
  md_find_many :: "cs_context \<Rightarrow> client_query \<Rightarrow> json list client_op"
  md_find_unique :: "cs_context \<Rightarrow> client_model \<Rightarrow> string \<Rightarrow> json option client_op"
  md_write :: "cs_context \<Rightarrow> client_write \<Rightarrow> json client_op"
  md_rfc3339 :: "string \<Rightarrow> int option"
  md_display :: "cratestack_error \<Rightarrow> string"

record authorino_metadata =
  am_account_id :: string
  am_project_id :: string
  am_api_key_id :: string
  am_api_key_status :: string
  am_extra :: "(string \<times> json) list"

datatype tool_output =
    OutAccount account | OutProject project | OutRoster "member_row list" | OutSecret api_key_secret | OutKey api_key
  | OutRow json | OutRows "json list" | OutValidated api_key project string
  | OutAuthorino api_key project string authorino_metadata

type_synonym tool_op = "(tenancy, (error_data, tool_output) result) prog"

definition with_token :: "mcp_context \<Rightarrow> (token_info \<Rightarrow> tool_op) \<Rightarrow> tool_op" where
  "with_token ctx k = (case token_info_from_request_context ctx of Inl e \<Rightarrow> Ret (Inl e) | Inr info \<Rightarrow> k info)"

text \<open>\<open>.await.map_err(to_tool_error)?\<close> and \<open>to_json_value\<close>.\<close>

definition tool_reply :: "('a \<Rightarrow> tool_output) \<Rightarrow> (core_error, 'a) result \<Rightarrow> (error_data, tool_output) result" where
  "tool_reply out r = (case r of Inl e \<Rightarrow> Inl (to_tool_error e) | Inr a \<Rightarrow> Inr (out a))"

definition issuer_tool :: "mcp_context \<Rightarrow> (string \<Rightarrow> 'a store_op) \<Rightarrow> ('a \<Rightarrow> tool_output) \<Rightarrow> tool_op" where
  "issuer_tool ctx operation out =
     (case subject_from_request_context ctx of
        Inl e \<Rightarrow> Ret (Inl e)
      | Inr subject \<Rightarrow> replied (tool_reply out) (operation subject))"

definition client_tool :: "mcp_deps \<Rightarrow> 'a client_op \<Rightarrow> ('a \<Rightarrow> (error_data, tool_output) result) \<Rightarrow> tool_op" where
  "client_tool d operation out =
     replied (\<lambda>r. case r of Inl e \<Rightarrow> Inl (cratestack_error_to_tool_error (md_display d) e) | Inr a \<Rightarrow> out a) operation"

definition require_found :: "json option \<Rightarrow> (error_data, tool_output) result" where
  "require_found value = (case value of None \<Rightarrow> Inl (ResourceNotFound ''not found'') | Some v \<Rightarrow> Inr (OutRow v))"

definition DEFAULT_LIST_LIMIT :: nat where "DEFAULT_LIST_LIMIT = 50"
definition MAX_LIST_LIMIT :: nat where "MAX_LIST_LIMIT = 100"

definition normalize_list_pagination :: "nat \<Rightarrow> nat \<Rightarrow> nat \<times> nat" where
  "normalize_list_pagination offset limit = (offset, min (max limit 1) MAX_LIST_LIMIT)"

definition invalid_datetime :: "string \<Rightarrow> error_data" where
  "invalid_datetime field = InvalidParams (''invalid RFC3339 datetime for '' @ [CHR 0x60] @ field @ [CHR 0x60]) None"

definition parse_required_datetime :: "mcp_deps \<Rightarrow> string \<Rightarrow> string \<Rightarrow> (error_data, int) result" where
  "parse_required_datetime d v field = (case md_rfc3339 d v of None \<Rightarrow> Inl (invalid_datetime field) | Some t \<Rightarrow> Inr t)"

definition parse_optional_datetime :: "mcp_deps \<Rightarrow> string option \<Rightarrow> string \<Rightarrow> (error_data, int option) result" where
  "parse_optional_datetime d v field = transpose_map (\<lambda>raw. parse_required_datetime d raw field) v"

text \<open>\<open>serde_json::to_value(limits).unwrap_or_else(|_| json!({}))\<close> as a value of the schema.\<close>

definition limits_input :: "mcp_deps \<Rightarrow> default_limits \<Rightarrow> cs_value" where
  "limits_input d limits = json_to_cratestack_value (limits_to_json (as_repo (md_issuer d)) (Some limits))"

definition no_limits :: default_limits where
  "no_limits = \<lparr>requests_per_second = None, requests_per_day = None, concurrent_requests = None\<rparr>"

definition unauthorized_key :: error_data where
  "unauthorized_key = InvalidParams ''unauthorized'' (Some 401)"

definition run_validate_api_key :: "opa_state \<Rightarrow> string \<Rightarrow> string option \<Rightarrow> tool_op" where
  "run_validate_api_key os api_key ip =
     replied (\<lambda>r. case r of
         Inl e \<Rightarrow> Inl (to_tool_error e)
       | Inr None \<Rightarrow> Inl unauthorized_key
       | Inr (Some v) \<Rightarrow> Inr (OutValidated (va_api_key v) (va_project v) (va_account_id v)))
       (validate_api_key_context os api_key ip)"

definition run_validate_authorino :: "opa_state \<Rightarrow> string \<Rightarrow> string option \<Rightarrow> (string \<times> json) list \<Rightarrow> tool_op" where
  "run_validate_authorino os api_key ip metadata =
     replied (\<lambda>r. case r of
         Inl e \<Rightarrow> Inl (to_tool_error e)
       | Inr None \<Rightarrow> Inl unauthorized_key
       | Inr (Some v) \<Rightarrow> Inr (OutAuthorino (va_api_key v) (va_project v) (va_account_id v)
            \<lparr>am_account_id = va_account_id v, am_project_id = pj_id (va_project v), am_api_key_id = ak_id (va_api_key v),
             am_api_key_status = api_key_status_to_string (ak_status (va_api_key v)), am_extra = metadata\<rparr>))
       (validate_api_key_context os api_key ip)"

definition create_account_tool :: "mcp_deps \<Rightarrow> mcp_context \<Rightarrow> string option \<Rightarrow> tool_op" where
  "create_account_tool d ctx quota =
     issuer_tool ctx (\<lambda>subject. authz_create_account (md_issuer d) subject quota) OutAccount"

definition list_accounts_tool :: "mcp_deps \<Rightarrow> mcp_context \<Rightarrow> nat \<Rightarrow> nat \<Rightarrow> tool_op" where
  "list_accounts_tool d ctx offset limit =
     with_token ctx (\<lambda>info.
     let (off, lim) = normalize_list_pagination offset limit in
     client_tool d (md_find_many d (cratestack_context_from_token_info info) (AccountsQuery lim off)) (\<lambda>rows. Inr (OutRows rows)))"

definition get_account_tool :: "mcp_deps \<Rightarrow> mcp_context \<Rightarrow> string \<Rightarrow> tool_op" where
  "get_account_tool d ctx a =
     with_token ctx (\<lambda>info.
     client_tool d (md_find_unique d (cratestack_context_from_token_info info) AccountModel a) require_found)"

definition update_account_tool :: "mcp_deps \<Rightarrow> mcp_context \<Rightarrow> string \<Rightarrow> string option \<Rightarrow> tool_op" where
  "update_account_tool d ctx a quota =
     issuer_tool ctx (\<lambda>subject. authz_update_account_default_quota (md_issuer d) subject a quota) OutAccount"

definition delete_account_tool :: "mcp_deps \<Rightarrow> mcp_context \<Rightarrow> string \<Rightarrow> tool_op" where
  "delete_account_tool d ctx a =
     issuer_tool ctx (\<lambda>subject. delete_account subject a) OutAccount"

definition disable_account_tool :: "mcp_deps \<Rightarrow> mcp_context \<Rightarrow> string \<Rightarrow> tool_op" where
  "disable_account_tool d ctx a =
     issuer_tool ctx (\<lambda>subject. disable_account subject a) OutAccount"

definition enable_account_tool :: "mcp_deps \<Rightarrow> mcp_context \<Rightarrow> string \<Rightarrow> tool_op" where
  "enable_account_tool d ctx a =
     issuer_tool ctx (\<lambda>subject. enable_account subject a) OutAccount"

definition list_project_roster_tool :: "mcp_deps \<Rightarrow> mcp_context \<Rightarrow> string \<Rightarrow> tool_op" where
  "list_project_roster_tool d ctx p =
     issuer_tool ctx (\<lambda>subject. list_project_roster subject p) OutRoster"

definition add_project_member_tool :: "mcp_deps \<Rightarrow> mcp_context \<Rightarrow> string \<Rightarrow> string \<Rightarrow> string option \<Rightarrow> tool_op" where
  "add_project_member_tool d ctx p a role =
     issuer_tool ctx (\<lambda>subject. add_project_member (as_repo (md_issuer d)) subject p a role) OutProject"

definition remove_project_member_tool :: "mcp_deps \<Rightarrow> mcp_context \<Rightarrow> string \<Rightarrow> string \<Rightarrow> tool_op" where
  "remove_project_member_tool d ctx p a =
     issuer_tool ctx (\<lambda>subject. remove_project_member (as_repo (md_issuer d)) subject p a) OutProject"

definition set_project_member_role_tool :: "mcp_deps \<Rightarrow> mcp_context \<Rightarrow> string \<Rightarrow> string \<Rightarrow> string \<Rightarrow> tool_op" where
  "set_project_member_role_tool d ctx p a role =
     issuer_tool ctx (\<lambda>subject. set_project_member_role (as_repo (md_issuer d)) subject p a role) OutProject"

definition set_project_member_quota_tier_tool :: "mcp_deps \<Rightarrow> mcp_context \<Rightarrow> string \<Rightarrow> string \<Rightarrow> string option \<Rightarrow> tool_op" where
  "set_project_member_quota_tier_tool d ctx p a tier =
     issuer_tool ctx (\<lambda>subject. authz_set_project_member_quota_tier (md_issuer d) subject p a tier) OutProject"

definition set_project_quota_tool :: "mcp_deps \<Rightarrow> mcp_context \<Rightarrow> string \<Rightarrow> string option \<Rightarrow> tool_op" where
  "set_project_quota_tool d ctx p quota =
     issuer_tool ctx (\<lambda>subject. authz_set_project_quota (md_issuer d) subject p quota) OutProject"

definition set_project_allowed_models_tool :: "mcp_deps \<Rightarrow> mcp_context \<Rightarrow> string \<Rightarrow> string list option \<Rightarrow> tool_op" where
  "set_project_allowed_models_tool d ctx p models =
     issuer_tool ctx (\<lambda>subject. authz_set_project_allowed_models (md_issuer d) subject p models) OutProject"

definition set_project_model_policy_tool :: "mcp_deps \<Rightarrow> mcp_context \<Rightarrow> string \<Rightarrow> string \<Rightarrow> tool_op" where
  "set_project_model_policy_tool d ctx p policy =
     issuer_tool ctx (\<lambda>subject. authz_set_project_model_policy (md_issuer d) subject p policy) OutProject"

definition create_project_tool :: "mcp_deps \<Rightarrow> mcp_context \<Rightarrow> create_project_params \<Rightarrow> tool_op" where
  "create_project_tool d ctx params =
     with_token ctx (\<lambda>info.
     pbind cuid2 (\<lambda>i. case i of
         Inl e \<Rightarrow> Ret (Inl e)
       | Inr new_id \<Rightarrow> client_tool d (md_write d (cratestack_context_from_token_info info)
           (CreateProjectInput new_id (pp_account_id params) (pp_name params)
              (limits_input d (coalesce (pp_default_limits params) no_limits)) (pp_billing_plan params) (pp_billing_identity params)))
           (\<lambda>row. Inr (OutRow row))))"

definition list_projects_tool :: "mcp_deps \<Rightarrow> mcp_context \<Rightarrow> string \<Rightarrow> nat \<Rightarrow> nat \<Rightarrow> tool_op" where
  "list_projects_tool d ctx a offset limit =
     with_token ctx (\<lambda>info.
     let (off, lim) = normalize_list_pagination offset limit in
     client_tool d (md_find_many d (cratestack_context_from_token_info info) (ProjectsQuery a lim off)) (\<lambda>rows. Inr (OutRows rows)))"

definition get_project_tool :: "mcp_deps \<Rightarrow> mcp_context \<Rightarrow> string \<Rightarrow> tool_op" where
  "get_project_tool d ctx p =
     with_token ctx (\<lambda>info.
     client_tool d (md_find_unique d (cratestack_context_from_token_info info) ProjectModel p) require_found)"

definition update_project_tool :: "mcp_deps \<Rightarrow> mcp_context \<Rightarrow> string \<Rightarrow> string option \<Rightarrow> default_limits option \<Rightarrow> string option \<Rightarrow> tool_op" where
  "update_project_tool d ctx p name limits plan =
     with_token ctx (\<lambda>info.
     client_tool d (md_write d (cratestack_context_from_token_info info)
       (UpdateProjectInput p name (map_option (limits_input d) limits) plan)) (\<lambda>row. Inr (OutRow row)))"

definition delete_project_tool :: "mcp_deps \<Rightarrow> mcp_context \<Rightarrow> string \<Rightarrow> tool_op" where
  "delete_project_tool d ctx p =
     with_token ctx (\<lambda>info.
     client_tool d (md_write d (cratestack_context_from_token_info info) (DeleteProjectWrite p)) (\<lambda>row. Inr (OutRow row)))"

definition disable_project_tool :: "mcp_deps \<Rightarrow> mcp_context \<Rightarrow> string \<Rightarrow> tool_op" where
  "disable_project_tool d ctx p =
     issuer_tool ctx (\<lambda>subject. disable_project (md_issuer d) subject p) OutProject"

definition enable_project_tool :: "mcp_deps \<Rightarrow> mcp_context \<Rightarrow> string \<Rightarrow> tool_op" where
  "enable_project_tool d ctx p =
     issuer_tool ctx (\<lambda>subject. enable_project (md_issuer d) subject p) OutProject"

definition set_default_project_tool :: "mcp_deps \<Rightarrow> mcp_context \<Rightarrow> string \<Rightarrow> tool_op" where
  "set_default_project_tool d ctx p =
     issuer_tool ctx (\<lambda>subject. set_default_project (as_repo (md_issuer d)) subject p) OutProject"

definition create_api_key_tool :: "mcp_deps \<Rightarrow> mcp_context \<Rightarrow> string \<Rightarrow> string \<Rightarrow> string \<Rightarrow> string \<Rightarrow> tool_op" where
  "create_api_key_tool d ctx p name expires_at plan =
     with_token ctx (\<lambda>info.
     case parse_required_datetime d expires_at ''expires_at'' of
       Inl e \<Rightarrow> Ret (Inl e)
     | Inr t \<Rightarrow> replied (tool_reply OutSecret) (authz_create_api_key (md_issuer d) (sub info) (Some (access_token info)) p
         \<lparr>ck_name = name, ck_expires_at = Some t, ck_billing_plan = plan\<rparr>))"

definition list_api_keys_tool :: "mcp_deps \<Rightarrow> mcp_context \<Rightarrow> string \<Rightarrow> nat \<Rightarrow> nat \<Rightarrow> tool_op" where
  "list_api_keys_tool d ctx p offset limit =
     with_token ctx (\<lambda>info.
     let (off, lim) = normalize_list_pagination offset limit in
     client_tool d (md_find_many d (cratestack_context_from_token_info info) (ApiKeysQuery p lim off)) (\<lambda>rows. Inr (OutRows rows)))"

definition get_api_key_tool :: "mcp_deps \<Rightarrow> mcp_context \<Rightarrow> string \<Rightarrow> tool_op" where
  "get_api_key_tool d ctx k =
     with_token ctx (\<lambda>info.
     client_tool d (md_find_unique d (cratestack_context_from_token_info info) ApiKeyModel k) require_found)"

definition update_api_key_tool :: "mcp_deps \<Rightarrow> mcp_context \<Rightarrow> string \<Rightarrow> string option \<Rightarrow> tool_op" where
  "update_api_key_tool d ctx k name =
     with_token ctx (\<lambda>info.
     client_tool d (md_write d (cratestack_context_from_token_info info) (UpdateApiKeyInput k name)) (\<lambda>row. Inr (OutRow row)))"

definition delete_api_key_tool :: "mcp_deps \<Rightarrow> mcp_context \<Rightarrow> string \<Rightarrow> tool_op" where
  "delete_api_key_tool d ctx k =
     with_token ctx (\<lambda>info.
     client_tool d (md_write d (cratestack_context_from_token_info info) (DeleteApiKeyWrite k)) (\<lambda>row. Inr (OutRow row)))"

definition revoke_api_key_tool :: "mcp_deps \<Rightarrow> mcp_context \<Rightarrow> string \<Rightarrow> tool_op" where
  "revoke_api_key_tool d ctx k =
     issuer_tool ctx (\<lambda>subject. authz_revoke_api_key subject k) OutKey"

definition rotate_api_key_tool :: "mcp_deps \<Rightarrow> mcp_context \<Rightarrow> string \<Rightarrow> string option \<Rightarrow> string option \<Rightarrow> int option \<Rightarrow> tool_op" where
  "rotate_api_key_tool d ctx k name expires_at grace =
     with_token ctx (\<lambda>info.
     case parse_optional_datetime d expires_at ''expires_at'' of
       Inl e \<Rightarrow> Ret (Inl e)
     | Inr t \<Rightarrow> replied (tool_reply OutSecret) (authz_rotate_api_key (md_issuer d) (sub info) (Some (access_token info)) k
         \<lparr>rk_name = name, rk_expires_at = t, rk_grace_period_seconds = grace\<rparr>))"

definition validate_api_key_tool :: "mcp_deps \<Rightarrow> mcp_context \<Rightarrow> string \<Rightarrow> string option \<Rightarrow> tool_op" where
  "validate_api_key_tool d ctx k ip =
     run_validate_api_key (md_opa d) k ip"

definition validate_authorino_api_key :: "mcp_deps \<Rightarrow> mcp_context \<Rightarrow> string \<Rightarrow> string option \<Rightarrow> (string \<times> json) list \<Rightarrow> tool_op" where
  "validate_authorino_api_key d ctx k ip metadata =
     run_validate_authorino (md_opa d) k ip metadata"

text \<open>The router's dispatch.\<close>

fun run_tool :: "mcp_deps \<Rightarrow> mcp_context \<Rightarrow> tool_call \<Rightarrow> tool_op" where
  "run_tool d ctx (CreateAccountTool quota) = create_account_tool d ctx quota"
| "run_tool d ctx (ListAccountsTool offset limit) = list_accounts_tool d ctx offset limit"
| "run_tool d ctx (GetAccountTool a) = get_account_tool d ctx a"
| "run_tool d ctx (UpdateAccountTool a quota) = update_account_tool d ctx a quota"
| "run_tool d ctx (DeleteAccountTool a) = delete_account_tool d ctx a"
| "run_tool d ctx (DisableAccountTool a) = disable_account_tool d ctx a"
| "run_tool d ctx (EnableAccountTool a) = enable_account_tool d ctx a"
| "run_tool d ctx (ListProjectRosterTool p) = list_project_roster_tool d ctx p"
| "run_tool d ctx (AddProjectMemberTool p a role) = add_project_member_tool d ctx p a role"
| "run_tool d ctx (RemoveProjectMemberTool p a) = remove_project_member_tool d ctx p a"
| "run_tool d ctx (SetProjectMemberRoleTool p a role) = set_project_member_role_tool d ctx p a role"
| "run_tool d ctx (SetProjectMemberQuotaTierTool p a tier) = set_project_member_quota_tier_tool d ctx p a tier"
| "run_tool d ctx (SetProjectQuotaTool p quota) = set_project_quota_tool d ctx p quota"
| "run_tool d ctx (SetProjectAllowedModelsTool p models) = set_project_allowed_models_tool d ctx p models"
| "run_tool d ctx (SetProjectModelPolicyTool p policy) = set_project_model_policy_tool d ctx p policy"
| "run_tool d ctx (CreateProjectTool params) = create_project_tool d ctx params"
| "run_tool d ctx (ListProjectsTool a offset limit) = list_projects_tool d ctx a offset limit"
| "run_tool d ctx (GetProjectTool p) = get_project_tool d ctx p"
| "run_tool d ctx (UpdateProjectTool p name limits plan) = update_project_tool d ctx p name limits plan"
| "run_tool d ctx (DeleteProjectTool p) = delete_project_tool d ctx p"
| "run_tool d ctx (DisableProjectTool p) = disable_project_tool d ctx p"
| "run_tool d ctx (EnableProjectTool p) = enable_project_tool d ctx p"
| "run_tool d ctx (SetDefaultProjectTool p) = set_default_project_tool d ctx p"
| "run_tool d ctx (CreateApiKeyTool p name expires_at plan) = create_api_key_tool d ctx p name expires_at plan"
| "run_tool d ctx (ListApiKeysTool p offset limit) = list_api_keys_tool d ctx p offset limit"
| "run_tool d ctx (GetApiKeyTool k) = get_api_key_tool d ctx k"
| "run_tool d ctx (UpdateApiKeyTool k name) = update_api_key_tool d ctx k name"
| "run_tool d ctx (DeleteApiKeyTool k) = delete_api_key_tool d ctx k"
| "run_tool d ctx (RevokeApiKeyTool k) = revoke_api_key_tool d ctx k"
| "run_tool d ctx (RotateApiKeyTool k name expires_at grace) = rotate_api_key_tool d ctx k name expires_at grace"
| "run_tool d ctx (ValidateApiKeyTool k ip) = validate_api_key_tool d ctx k ip"
| "run_tool d ctx (ValidateAuthorinoTool k ip metadata) = validate_authorino_api_key d ctx k ip metadata"

lemmas tool_defs = create_account_tool_def list_accounts_tool_def get_account_tool_def update_account_tool_def delete_account_tool_def
  disable_account_tool_def enable_account_tool_def list_project_roster_tool_def add_project_member_tool_def remove_project_member_tool_def
  set_project_member_role_tool_def set_project_member_quota_tier_tool_def set_project_quota_tool_def set_project_allowed_models_tool_def set_project_model_policy_tool_def
  create_project_tool_def list_projects_tool_def get_project_tool_def update_project_tool_def delete_project_tool_def
  disable_project_tool_def enable_project_tool_def set_default_project_tool_def create_api_key_tool_def list_api_keys_tool_def
  get_api_key_tool_def update_api_key_tool_def delete_api_key_tool_def revoke_api_key_tool_def rotate_api_key_tool_def
  validate_api_key_tool_def validate_authorino_api_key_def

text \<open>A request names a tool; the router decodes its arguments, or refuses it with an error of its own.\<close>

datatype tool_request = Calls tool_call | Undecodable string error_data

fun request_name :: "tool_request \<Rightarrow> string" where
  "request_name (Calls c) = tool_name c"
| "request_name (Undecodable name _) = name"

definition call_tool :: "mcp_deps \<Rightarrow> mcp_context \<Rightarrow> tool_request \<Rightarrow> tool_op" where
  "call_tool d ctx request =
     (case token_info_from_request_context ctx of
        Inl e \<Rightarrow> Ret (Inl e)
      | Inr info \<Rightarrow>
          (case required_tool_permission (request_name request) of
             None \<Rightarrow> Ret (Inl (InvalidRequest (''unknown tool: '' @ request_name request)))
           | Some required \<Rightarrow>
               (case token_require info required of
                  Inl e \<Rightarrow> Ret (Inl (to_tool_error e))
                | Inr _ \<Rightarrow> (case request of Calls c \<Rightarrow> run_tool d ctx c | Undecodable _ e \<Rightarrow> Ret (Inl e)))))"

text \<open>A request to \<open>/mcp\<close>: behind \<open>bearer_auth\<close>, which answers 401 itself.\<close>

definition mcp_endpoint :: "mcp_deps \<Rightarrow> bearer_service \<Rightarrow> string option \<Rightarrow> tool_request \<Rightarrow> (tenancy, (error_data, tool_output) result option) prog" where
  "mcp_endpoint d bearer header request =
     (case bearer_auth bearer header of
        None \<Rightarrow> Ret None
      | Some info \<Rightarrow> replied Some (call_tool d \<lparr>mc_parts = Some (Some info)\<rparr> request))"

end
