(* ===== verification/Tenant_Integrity.thy ===== *)
theory Tenant_Integrity
  imports Tenant_Server
begin

text \<open>
  Referential integrity of the tenancy tables as an invariant of the whole server: keys are unique, references are
  not dangling, an account has at most one default project, every API key has an expiry, at most one signing key is active,
  and no row of the budget ledger loses its account or project.
\<close>

subsection \<open>The invariant\<close>

definition account_ids :: "tenancy \<Rightarrow> string set" where
  "account_ids s = ac_id ` set (t_accounts s)"

definition project_ids :: "tenancy \<Rightarrow> string set" where
  "project_ids s = pj_id ` set (t_projects s)"

definition member_key :: "member_row \<Rightarrow> string \<times> string" where
  "member_key m = (pm_project_id m, pm_account_id m)"

definition projects_ok :: "tenancy \<Rightarrow> bool" where
  "projects_ok s \<longleftrightarrow> distinct (map pj_id (t_projects s)) \<and> distinct (map pj_billing_identity (t_projects s)) \<and>
     pj_account_id ` set (t_projects s) \<subseteq> account_ids s \<and>
     distinct (map pj_account_id (filter pj_is_default (t_projects s)))"

definition members_ok :: "tenancy \<Rightarrow> bool" where
  "members_ok s \<longleftrightarrow> distinct (map member_key (t_members s)) \<and> pm_project_id ` set (t_members s) \<subseteq> project_ids s \<and>
     pm_account_id ` set (t_members s) \<subseteq> account_ids s"

definition keys_ok :: "tenancy \<Rightarrow> bool" where
  "keys_ok s \<longleftrightarrow> distinct (map (\<lambda>e. ak_id (ke_row e)) (t_api_keys s)) \<and> distinct (map (\<lambda>e. ak_key_hash (ke_row e)) (t_api_keys s)) \<and>
     (\<lambda>e. ak_project_id (ke_row e)) ` set (t_api_keys s) \<subseteq> project_ids s \<and> ke_owner_account_id ` set (t_api_keys s) \<subseteq> account_ids s \<and>
     (\<forall>e \<in> set (t_api_keys s). ak_expires_at (ke_row e) \<noteq> None)"

definition signing_ok :: "tenancy \<Rightarrow> bool" where
  "signing_ok s \<longleftrightarrow> distinct (map (\<lambda>k. sk_kid (sk_data k)) (t_signing_keys s)) \<and>
     length (filter (\<lambda>k. sk_status k = ''active'') (t_signing_keys s)) \<le> 1"

definition ledger_refs_ok :: "tenancy \<Rightarrow> bool" where
  "ledger_refs_ok s \<longleftrightarrow> Collect (budget_refs_account (t_budget s)) \<subseteq> account_ids s \<and>
     Collect (budget_refs_project (t_budget s)) \<subseteq> project_ids s"

definition integrity :: "tenancy \<Rightarrow> bool" where
  "integrity s \<longleftrightarrow> distinct (map ac_id (t_accounts s)) \<and> projects_ok s \<and> members_ok s \<and> keys_ok s \<and> hashes_unique s \<and>
     signing_ok s \<and> ledger_refs_ok s"

abbreviation keeps :: "tenancy \<Rightarrow> tenancy \<Rightarrow> bool" where
  "keeps s s' \<equiv> integrity s \<longrightarrow> integrity s'"

subsection \<open>Table by table\<close>

lemma map_update_where: "(\<And>r. g (f r) = g r) \<Longrightarrow> map g (update_where P f rows) = map g rows"
  by (simp add: update_where_def)

lemma image_update_where: "(\<And>r. g (f r) = g r) \<Longrightarrow> g ` set (update_where P f rows) = g ` set rows"
  using map_update_where [of g f P rows] by (metis list.set_map)

lemma keeps_accounts_changed:
  assumes "\<And>r. ac_id (f r) = ac_id r"
  shows "keeps s (s\<lparr>t_accounts := update_where P f (t_accounts s)\<rparr>)"
proof -
  have m: "map ac_id (update_where P f (t_accounts s)) = map ac_id (t_accounts s)"
    "ac_id ` set (update_where P f (t_accounts s)) = ac_id ` set (t_accounts s)"
    by (simp_all add: map_update_where image_update_where assms)
  then show ?thesis
    unfolding integrity_def projects_ok_def members_ok_def keys_ok_def signing_ok_def ledger_refs_ok_def account_ids_def project_ids_def
      hashes_unique_def by simp
qed

lemma keeps_accounts:
  assumes "distinct (map ac_id (t_accounts s)) \<Longrightarrow> distinct (map ac_id (t_accounts s'))" "account_ids s \<subseteq> account_ids s'"
    "s' = s\<lparr>t_accounts := as\<rparr>"
  shows "keeps s s'"
proof
  assume ok: "integrity s"
  have same: "t_projects s' = t_projects s" "t_members s' = t_members s" "t_api_keys s' = t_api_keys s"
    "t_refresh_tokens s' = t_refresh_tokens s" "t_signing_keys s' = t_signing_keys s" "t_budget s' = t_budget s"
    by (simp_all add: assms(3))
  have "X \<subseteq> account_ids s'" if "X \<subseteq> account_ids s" for X using that assms(2) by (rule subset_trans)
  with ok assms(1) show "integrity s'"
    unfolding integrity_def projects_ok_def members_ok_def keys_ok_def signing_ok_def ledger_refs_ok_def project_ids_def
      hashes_unique_def same by simp
qed

lemma keeps_account_added:
  assumes "insert_account subj quota now s = Inr (u, s')"
  shows "keeps s s'"
proof -
  have "subj \<notin> account_ids s"
    and s': "s' = s\<lparr>t_accounts := t_accounts s @ [\<lparr>ac_id = subj, ac_default_quota = quota, ac_status = ''active'',
      ac_created_at = now, ac_updated_at = now\<rparr>]\<rparr>"
    using assms by (auto simp: insert_account_def list_ex_iff account_ids_def split: if_splits)
  then show ?thesis unfolding s' by (intro keeps_accounts) (auto simp: account_ids_def)
qed

lemma keeps_projects:
  assumes "projects_ok s \<Longrightarrow> distinct (map ac_id (t_accounts s)) \<Longrightarrow> projects_ok s'" "project_ids s \<subseteq> project_ids s'"
    "s' = s\<lparr>t_projects := ps\<rparr>"
  shows "keeps s s'"
  using assms unfolding integrity_def members_ok_def keys_ok_def ledger_refs_ok_def signing_ok_def hashes_unique_def
  by (auto simp: account_ids_def)

lemma update_where_mem: "q \<in> set (update_where P f rows) \<Longrightarrow> \<exists>r \<in> set rows. q = (if P r then f r else r)"
  unfolding update_where_def by auto

lemma keeps_projects_changed:
  assumes "tame_project g"
  shows "keeps s (s\<lparr>t_projects := update_where Q g (t_projects s)\<rparr>)"
proof (rule keeps_projects)
  have g: "pj_id (g p) = pj_id p" "pj_account_id (g p) = pj_account_id p" "pj_billing_identity (g p) = pj_billing_identity p"
    "pj_is_default (g p) = pj_is_default p" for p using assms by (simp_all add: tame_project_def)
  let ?s = "s\<lparr>t_projects := update_where Q g (t_projects s)\<rparr>"
  show "project_ids s \<subseteq> project_ids ?s" by (simp add: project_ids_def image_update_where g)
  assume ok: "projects_ok s"
  have "map pj_account_id (filter pj_is_default (t_projects ?s)) = map pj_account_id (filter pj_is_default (t_projects s))"
    by (simp add: update_where_def filter_map o_def g if_distrib cong: if_cong)
  then show "projects_ok ?s"
    using ok unfolding projects_ok_def account_ids_def by (simp add: map_update_where image_update_where g)
qed simp

lemma keeps_project_added:
  assumes "insert_project rp acct input new_id now first s = Inr (row, s')"
  shows "keeps s s'"
proof -
  let ?row = "new_project_row rp acct input new_id now first"
  have s': "s' = s\<lparr>t_projects := t_projects s @ [?row]\<rparr>" and idx: "default_uidx (t_projects s @ [?row])"
    and new: "new_id \<notin> pj_id ` set (t_projects s)" "cp_billing_identity input \<notin> pj_billing_identity ` set (t_projects s)"
    "acct \<in> account_ids s"
    using assms by (auto simp: insert_project_def Let_def list_ex_iff account_ids_def split: if_splits)
  have row: "pj_id ?row = new_id" "pj_billing_identity ?row = cp_billing_identity input" "pj_account_id ?row = acct"
    by (simp_all add: new_project_row_def)
  have "projects_ok s'" if "projects_ok s"
    using that idx new unfolding s' by (simp add: projects_ok_def default_uidx_def row account_ids_def)
  then show ?thesis by (rule keeps_projects) (auto simp: s' project_ids_def)
qed

text \<open>The two updates of a reassignment leave keys and owners alone; that one default is left is the index.\<close>

lemma keeps_default_moved:
  assumes "promote_project pid now2 (s\<lparr>t_projects := demoted ds acct pid now1 (t_projects s)\<rparr>) = Inr (p, s')"
  shows "keeps s s'"
proof (rule keeps_projects)
  have s': "s' = s\<lparr>t_projects := t_projects s'\<rparr>" "default_uidx (t_projects s')"
    and rows: "t_projects s' = update_where (\<lambda>p. pj_id p = pid) (\<lambda>p. p\<lparr>pj_is_default := True, pj_updated_at := now2\<rparr>)
      (demoted ds acct pid now1 (t_projects s))"
    using assms by (auto simp: promote_project_def Let_def res_bind_eq_Inr_conv split: if_splits)
  show "s' = s\<lparr>t_projects := t_projects s'\<rparr>" by (rule s'(1))
  have same: "map pj_id (t_projects s') = map pj_id (t_projects s)"
    "map pj_billing_identity (t_projects s') = map pj_billing_identity (t_projects s)"
    "pj_account_id ` set (t_projects s') = pj_account_id ` set (t_projects s)"
    "pj_id ` set (t_projects s') = pj_id ` set (t_projects s)"
    unfolding rows demoted_def by (simp_all add: map_update_where image_update_where)
  then show "project_ids s \<subseteq> project_ids s'" by (simp add: project_ids_def)
  have "account_ids s' = account_ids s" by (subst s'(1)) (simp add: account_ids_def)
  then show "projects_ok s \<Longrightarrow> projects_ok s'"
    using s'(2) by (simp add: projects_ok_def same default_uidx_def)
qed

lemma keeps_members:
  assumes "members_ok s \<Longrightarrow> members_ok s'" "s' = s\<lparr>t_members := ms\<rparr>"
  shows "keeps s s'"
  using assms unfolding integrity_def projects_ok_def keys_ok_def ledger_refs_ok_def signing_ok_def hashes_unique_def
  by (auto simp: account_ids_def project_ids_def)

lemma keeps_member_added:
  assumes "insert_member pid acct role now s = Inr (u, s')"
  shows "keeps s s'"
proof (cases "list_ex (on_roster pid acct) (t_members s)")
  case True
  with assms show ?thesis by (simp add: insert_member_def)
next
  case False
  with assms have "pid \<in> project_ids s" "acct \<in> account_ids s"
    and s': "s' = s\<lparr>t_members := t_members s @ [\<lparr>pm_project_id = pid, pm_account_id = acct, pm_role = role, pm_quota_tier = None,
      pm_created_at = now\<rparr>]\<rparr>"
    by (auto simp: insert_member_def list_ex_iff project_ids_def account_ids_def split: if_splits)
  moreover have "(pid, acct) \<notin> member_key ` set (t_members s)"
    using False by (auto simp: member_key_def on_roster_def list_ex_iff)
  ultimately show ?thesis
    unfolding s' by (intro keeps_members) (auto simp: members_ok_def member_key_def project_ids_def account_ids_def)
qed

lemma keeps_members_changed:
  assumes "\<And>m. pm_project_id (h m) = pm_project_id m \<and> pm_account_id (h m) = pm_account_id m"
  shows "keeps s (s\<lparr>t_members := update_where M h (t_members s)\<rparr>)"
  by (rule keeps_members)
    (auto simp: members_ok_def map_update_where image_update_where member_key_def project_ids_def account_ids_def assms)

lemma keeps_members_removed: "keeps s (s\<lparr>t_members := filter N (t_members s)\<rparr>)"
  by (rule keeps_members) (auto simp: members_ok_def distinct_map_filter project_ids_def account_ids_def)

lemma keeps_keys:
  assumes "keys_ok s \<Longrightarrow> keys_ok s'" "s' = s\<lparr>t_api_keys := ks\<rparr>"
  shows "keeps s s'"
  using assms unfolding integrity_def projects_ok_def members_ok_def ledger_refs_ok_def signing_ok_def hashes_unique_def
  by (auto simp: account_ids_def project_ids_def)

lemma keeps_key_added:
  assumes "insert_api_key owner k now s = Inr (row, s')"
  shows "keeps s s'"
proof -
  let ?e = "inserted_key owner k now"
  have new: "ak_expires_at (ke_row ?e) \<noteq> None" "ak_id (ke_row ?e) \<notin> (\<lambda>e. ak_id (ke_row e)) ` set (t_api_keys s)"
    "ak_key_hash (ke_row ?e) \<notin> (\<lambda>e. ak_key_hash (ke_row e)) ` set (t_api_keys s)"
    "ak_project_id (ke_row ?e) \<in> project_ids s" "ke_owner_account_id ?e \<in> account_ids s"
    and s': "s' = s\<lparr>t_api_keys := t_api_keys s @ [?e]\<rparr>"
    using assms by (auto simp: insert_api_key_def list_ex_iff inserted_key_def project_ids_def account_ids_def split: if_splits)
      (metis imageI)
  have frame: "project_ids (s\<lparr>t_api_keys := ks\<rparr>) = project_ids s" "account_ids (s\<lparr>t_api_keys := ks\<rparr>) = account_ids s" for ks
    by (simp_all add: project_ids_def account_ids_def)
  have "keys_ok s' " if "keys_ok s"
    using that new unfolding keys_ok_def s' frame by simp
  then show ?thesis using s' by (intro keeps_keys)
qed

lemma keeps_key_changed:
  assumes "\<And>r. ak_id (f r) = ak_id r \<and> ak_key_hash (f r) = ak_key_hash r \<and> ak_project_id (f r) = ak_project_id r"
    "\<And>r. ak_expires_at r \<noteq> None \<Longrightarrow> ak_expires_at (f r) \<noteq> None"
  shows "keeps s (s\<lparr>t_api_keys := update_where K (change_row f) (t_api_keys s)\<rparr>)"
proof (rule keeps_keys)
  assume ok: "keys_ok s"
  have "ak_expires_at (ke_row e) \<noteq> None" if "e \<in> set (update_where K (change_row f) (t_api_keys s))" for e
    using update_where_mem [OF that] ok assms(2) by (auto simp: keys_ok_def change_row_def)
  then show "keys_ok (s\<lparr>t_api_keys := update_where K (change_row f) (t_api_keys s)\<rparr>)"
    using ok by (simp add: keys_ok_def map_update_where image_update_where change_row_def project_ids_def account_ids_def assms(1))
qed simp

lemma keeps_signing:
  assumes "signing_ok s \<Longrightarrow> signing_ok s'" "s' = s\<lparr>t_signing_keys := ks\<rparr>"
  shows "keeps s s'"
  using assms unfolding integrity_def projects_ok_def members_ok_def ledger_refs_ok_def keys_ok_def hashes_unique_def
  by (auto simp: account_ids_def project_ids_def)

lemma keeps_signing_added:
  assumes "insert_signing_key sd s = Inr (sk, s')"
  shows "keeps s s'"
proof -
  have new: "sk_kid sd \<notin> (\<lambda>k. sk_kid (sk_data k)) ` set (t_signing_keys s)" "filter (\<lambda>k. sk_status k = ''active'') (t_signing_keys s) = []"
    and s': "s' = s\<lparr>t_signing_keys := t_signing_keys s @ [\<lparr>sk_data = sd, sk_status = ''active'', sk_retired_at = None\<rparr>]\<rparr>"
    using assms by (auto simp: insert_signing_key_def list_ex_iff Let_def filter_empty_conv split: if_splits)
  show ?thesis unfolding s' by (rule keeps_signing) (use new in \<open>simp_all add: signing_ok_def\<close>)
qed

lemma keeps_signing_retired: "keeps s (retire_signing_key skid at s)"
proof (rule keeps_signing)
  have "length (filter (\<lambda>k. sk_status k = ''active'') (update_where (\<lambda>k. sk_kid (sk_data k) = skid)
      (\<lambda>k. k\<lparr>sk_status := ''stale'', sk_retired_at := Some at\<rparr>) ks)) \<le> length (filter (\<lambda>k. sk_status k = ''active'') ks)" for ks
    unfolding update_where_def by (induction ks) auto
  then show "signing_ok s \<Longrightarrow> signing_ok (retire_signing_key skid at s)"
    unfolding signing_ok_def retire_signing_key_def using order_trans by (simp add: map_update_where) blast
qed (simp add: retire_signing_key_def)

lemma keeps_tokens: "token_step s s' \<Longrightarrow> s' = s\<lparr>t_refresh_tokens := ts\<rparr> \<Longrightarrow> keeps s s'"
  using token_step_spent [of s s' undefined] unfolding spent_def integrity_def projects_ok_def members_ok_def ledger_refs_ok_def keys_ok_def signing_ok_def
  by (auto simp: account_ids_def project_ids_def)

interpretation sound: server_rely keeps "\<lambda>_ _. True"
proof unfold_locales
  show "keeps s (revoke_where P s)" for s P
    by (rule keeps_tokens [OF token_step_revoke]) (simp add: revoke_where_def)
  show "keeps s (s\<lparr>t_refresh_tokens := update_where (usable_token h now)
      (\<lambda>r. r\<lparr>rt_status := ''rotated'', rt_last_used_at := t\<rparr>) (t_refresh_tokens s)\<rparr>)" for s h now t
    by (rule keeps_tokens [OF token_step_consume]) simp
  show "keeps s s'" if "insert_refresh_token d s = Inr (r, s')" for d s r s'
    by (rule keeps_tokens [OF token_step_insert [OF that], of "t_refresh_tokens s'"])
      (use that in \<open>auto simp: insert_refresh_token_def Let_def split: if_splits\<close>)
qed (auto intro: keeps_account_added [THEN mp] keeps_accounts_changed [THEN mp] keeps_project_added [THEN mp] keeps_projects_changed [THEN mp]
    keeps_default_moved [THEN mp] keeps_member_added [THEN mp] keeps_members_changed [THEN mp] keeps_members_removed [THEN mp]
    keeps_key_added [THEN mp] keeps_key_changed [THEN mp] keeps_signing_added [THEN mp] keeps_signing_retired [THEN mp]
    simp: status_change_def coalesce_null_def split: option.splits)

subsection \<open>Deleting\<close>

lemma defaults_left: "distinct (map f (filter P xs)) \<Longrightarrow> distinct (map f (filter (\<lambda>x. Q x \<and> P x) xs))"
  by (induction xs) (auto split: if_splits)

lemma keeps_drop_projects:
  assumes "\<And>p. budget_refs_project (t_budget s) p \<Longrightarrow> \<not> gone p"
  shows "keeps s (drop_projects gone s)"
proof
  assume ok: "integrity s"
  let ?s = "drop_projects gone s"
  have fields: "t_accounts ?s = t_accounts s" "t_projects ?s = filter (\<lambda>p. \<not> gone (pj_id p)) (t_projects s)"
    "t_members ?s = filter (\<lambda>m. \<not> gone (pm_project_id m)) (t_members s)"
    "t_api_keys ?s = filter (\<lambda>e. \<not> gone (ak_project_id (ke_row e))) (t_api_keys s)"
    "t_refresh_tokens ?s = t_refresh_tokens s" "t_signing_keys ?s = t_signing_keys s" "t_budget ?s = t_budget s"
    by (simp_all add: drop_projects_def)
  have accts: "account_ids ?s = account_ids s" and projs: "project_ids ?s = {p \<in> project_ids s. \<not> gone p}"
    by (auto simp: account_ids_def project_ids_def fields)
  have "projects_ok ?s" using ok unfolding integrity_def projects_ok_def accts fields by (auto simp: distinct_map_filter defaults_left)
  moreover have "members_ok ?s" using ok unfolding integrity_def members_ok_def accts projs fields by (auto simp: distinct_map_filter)
  moreover have "keys_ok ?s" using ok unfolding integrity_def keys_ok_def accts projs fields by (auto simp: distinct_map_filter)
  moreover have "ledger_refs_ok ?s" using ok assms unfolding integrity_def ledger_refs_ok_def accts projs fields by auto
  ultimately show "integrity ?s"
    using ok unfolding integrity_def hashes_unique_def signing_ok_def fields by simp
qed

lemma keeps_drop_account:
  assumes "\<not> budget_refs_account (t_budget s) a" "\<And>p. budget_refs_project (t_budget s) p \<Longrightarrow> p \<notin> set (projects_of a s)"
  shows "keeps s (drop_account a s)"
proof
  assume "integrity s"
  let ?t = "drop_projects (\<lambda>pid. pid \<in> set (projects_of a s)) s" and ?s = "drop_account a s"
  have ok: "integrity ?t" using keeps_drop_projects [of s "\<lambda>pid. pid \<in> set (projects_of a s)"] assms(2) \<open>integrity s\<close> by blast
  have fields: "t_accounts ?s = filter (\<lambda>r. ac_id r \<noteq> a) (t_accounts ?t)" "t_projects ?s = t_projects ?t"
    "t_members ?s = filter (\<lambda>m. pm_account_id m \<noteq> a) (t_members ?t)"
    "t_api_keys ?s = filter (\<lambda>e. ke_owner_account_id e \<noteq> a) (t_api_keys ?t)"
    "t_refresh_tokens ?s = t_refresh_tokens ?t" "t_signing_keys ?s = t_signing_keys ?t" "t_budget ?s = t_budget ?t"
    "t_budget ?t = t_budget s"
    by (simp_all add: drop_account_def drop_projects_def Let_def)
  have accts: "account_ids ?s = {i \<in> account_ids ?t. i \<noteq> a}" and projs: "project_ids ?s = project_ids ?t"
    by (auto simp: account_ids_def project_ids_def fields)
  have away: "pj_account_id p \<noteq> a" if "p \<in> set (t_projects ?t)" for p
    using that by (auto simp: drop_projects_def projects_of_def)
  have "projects_ok ?s"
    using ok away unfolding integrity_def projects_ok_def accts fields by auto
  moreover have "members_ok ?s" using ok unfolding integrity_def members_ok_def accts projs fields by (auto simp: distinct_map_filter)
  moreover have "keys_ok ?s" using ok unfolding integrity_def keys_ok_def accts projs fields by (auto simp: distinct_map_filter)
  moreover have "ledger_refs_ok ?s" using ok assms(1) unfolding integrity_def ledger_refs_ok_def accts projs fields by auto
  moreover have "distinct (map ac_id (t_accounts ?s))" using ok unfolding integrity_def fields by (simp add: distinct_map_filter)
  ultimately show "integrity ?s"
    using ok unfolding integrity_def hashes_unique_def signing_ok_def fields by simp
qed

lemma keeps_deletes: "guar keeps (delete_account subj a)" "guar keeps (delete_project subj p)"
proof -
  show "guar keeps (delete_account subj a)"
    unfolding delete_account_def
    by (rule sound.guar_obind, rule sound.guar_stmt)
      (auto simp: list_ex_iff or_not_found_def obind_def split: option.splits if_splits intro!: keeps_drop_account [THEN mp])
  show "guar keeps (delete_project subj p)"
    unfolding delete_project_def
    by (rule sound.guar_obind, rule sound.guar_stmt)
      (auto split: option.splits if_splits intro!: keeps_drop_projects [THEN mp])
qed

lemma serve_keeps: "guar keeps (serve_tenant d call)"
proof (cases "deletes call")
  case True
  then show ?thesis by (cases call) (auto simp: replied_def intro!: guar_pbind keeps_deletes)
qed (rule sound.guar_serve_tenant, simp_all)


end
