(* ===== verification/Key_Safety.thy ===== *)
theory Key_Safety
  imports Tenant_Integrity Token_Demo
begin

text \<open>
  What the gateway may believe: a revoked API key is not accepted again while the server runs (with the one exception the
  code has, rotation with a grace period), an accepted bearer is backed by the tables, and issued keys are
  bounded and recorded.
\<close>

subsection \<open>Dead keys\<close>

text \<open>The rows with a hash are there, have one identifier and are not active.\<close>

definition dead :: "string \<Rightarrow> string \<Rightarrow> tenancy \<Rightarrow> bool" where
  "dead h i s \<longleftrightarrow> list_ex (\<lambda>e. ak_key_hash (ke_row e) = h) (t_api_keys s) \<and>
     list_all (\<lambda>e. ak_key_hash (ke_row e) = h \<longrightarrow> ak_id (ke_row e) = i \<and> ak_status (ke_row e) \<noteq> ''active'') (t_api_keys s)"

abbreviation stays_dead :: "string \<Rightarrow> string \<Rightarrow> tenancy \<Rightarrow> tenancy \<Rightarrow> bool" where
  "stays_dead h i s s' \<equiv> dead h i s \<longrightarrow> dead h i s'"

text \<open>What may be done to the key \<open>i\<close>: revoking it.\<close>

definition only_revokes :: "string \<Rightarrow> string \<Rightarrow> api_key_status \<Rightarrow> bool" where
  "only_revokes i kid st \<longleftrightarrow> kid \<noteq> i \<or> st = KeyRevoked"

lemma dead_other: "t_api_keys s' = t_api_keys s \<Longrightarrow> stays_dead h i s s'"
  by (simp add: dead_def)

lemma ball_image_comp: "(\<forall>y \<in> set (map f xs). P y) \<longleftrightarrow> (\<forall>x \<in> set xs. P (f x))"
  "(\<exists>y \<in> set (map f xs). P y) \<longleftrightarrow> (\<exists>x \<in> set xs. P (f x))"
  by simp_all

lemma dead_update:
  assumes "\<And>e. K e \<Longrightarrow> ak_key_hash (f (ke_row e)) = ak_key_hash (ke_row e) \<and> ak_id (f (ke_row e)) = ak_id (ke_row e)"
    and "\<And>e. K e \<Longrightarrow> ak_id (ke_row e) = i \<Longrightarrow> ak_status (ke_row e) \<noteq> ''active'' \<Longrightarrow> ak_status (f (ke_row e)) \<noteq> ''active''"
  shows "stays_dead h i s (s\<lparr>t_api_keys := update_where K (change_row f) (t_api_keys s)\<rparr>)"
proof
  assume d: "dead h i s"
  let ?f = "\<lambda>e. if K e then change_row f e else e"
  have same: "ak_key_hash (ke_row (?f e)) = ak_key_hash (ke_row e)" "ak_id (ke_row (?f e)) = ak_id (ke_row e)" for e
    using assms(1) by (simp_all add: change_row_def)
  have "ak_id (ke_row (?f e)) = i \<and> ak_status (ke_row (?f e)) \<noteq> ''active''"
    if e: "e \<in> set (t_api_keys s)" "ak_key_hash (ke_row (?f e)) = h" for e
  proof -
    have "ak_id (ke_row e) = i" "ak_status (ke_row e) \<noteq> ''active''" using d e same by (auto simp: dead_def list_all_iff)
    then show ?thesis using same(2) [of e] assms(2) [of e] by (auto simp: change_row_def)
  qed
  moreover have "list_ex (\<lambda>e. ak_key_hash (ke_row (?f e)) = h) (t_api_keys s)"
    using d same(1) by (simp add: dead_def)
  ultimately show "dead h i (s\<lparr>t_api_keys := update_where K (change_row f) (t_api_keys s)\<rparr>)"
    by (simp add: dead_def update_where_def list_all_iff list_ex_iff ball_image_comp del: set_map)
qed

lemma dead_added:
  assumes "insert_api_key owner k now s = Inr (row, s')"
  shows "stays_dead h i s s'"
proof -
  have "s' = s\<lparr>t_api_keys := t_api_keys s @ [inserted_key owner k now]\<rparr>"
    "\<forall>e \<in> set (t_api_keys s). ak_key_hash (ke_row e) \<noteq> nk_key_hash k"
    using assms by (auto simp: insert_api_key_def list_ex_iff split: if_splits)
  then show ?thesis by (auto simp: dead_def list_ex_iff inserted_key_def)
qed

interpretation morgue: server_rely "stays_dead h i" "only_revokes i" for h i
proof unfold_locales
  fix s kid st subj revoked expires
  assume "only_revokes i kid st"
  then show "stays_dead h i s (s\<lparr>t_api_keys :=
      update_where (visible_key subj kid s) (change_row (status_change st revoked expires)) (t_api_keys s)\<rparr>)"
    by (intro dead_update) (auto simp: only_revokes_def status_change_def visible_key_def)
next
  fix s K t ip
  show "stays_dead h i s (s\<lparr>t_api_keys :=
      update_where K (change_row (\<lambda>r. r\<lparr>ak_last_used_at := t, ak_last_ip := ip\<rparr>)) (t_api_keys s)\<rparr>)"
    by (rule dead_update) simp_all
qed (auto simp: revoke_where_def insert_project_def promote_project_def res_bind_eq_Inr_conv retire_signing_key_def insert_account_def insert_member_def insert_refresh_token_def
    insert_signing_key_def Let_def split: if_splits intro: dead_added [THEN mp] dead_other [THEN mp])

subsection \<open>Introspection of a dead key\<close>

lemma validation_by_hashE:
  assumes "validation_by_hash now h s = Some v"
  obtains e where "e \<in> set (t_api_keys s)" "validation_row now s e = Some v" "ak_key_hash (ke_row e) = h"
proof -
  from assms obtain e where "e \<in> set (t_api_keys s)" "validation_row now s e = Some v" "kv_key_hash v = h"
    unfolding validation_by_hash_def by (auto dest!: find_SomeD simp: List.map_filter_def)
  moreover from this(2) have "kv_key_hash v = ak_key_hash (ke_row e)"
    by (auto simp: validation_row_def Let_def split: option.splits if_splits)
  ultimately show ?thesis using that by simp
qed

lemma dead_validation:
  assumes "dead h i s" "validation_by_hash now h s = Some v"
  shows "\<not> kv_is_active v"
proof -
  obtain e where "validation_row now s e = Some v" "ak_status (ke_row e) \<noteq> ''active''"
    using assms(1) by (auto simp: dead_def list_all_iff intro: validation_by_hashE [OF assms(2)])
  then show ?thesis
    by (auto simp: kv_is_active_def validation_row_def effective_status_def Let_def split: option.splits if_splits)
qed

text \<open>Answers that do not call the bearer good.\<close>

abbreviation refused :: "(core_error, introspect_response) result \<Rightarrow> tenancy \<Rightarrow> bool" where
  "refused r t \<equiv> (\<forall>resp. r = Inr resp \<longrightarrow> resp = inactive)"

lemma rg_dead_row:
  assumes "dead h i s"
  shows "rg (stays_dead h i) (find_api_key_validation_by_hash h) (\<lambda>r t. dead h i t \<and> (\<forall>v. r = Inr (Some v) \<longrightarrow> \<not> kv_is_active v)) s"
  unfolding find_api_key_validation_by_hash_def statement_def
  by (rule morgue.rg_atomic) (use assms dead_validation in \<open>auto split: delivery.split\<close>)

lemma rg_dead_key:
  assumes "dead (oi_hash os token) i s"
  shows "rg (stays_dead (oi_hash os token) i) (introspect_api_key_row os token) refused s"
  unfolding introspect_api_key_row_def validate_api_key_context_def
  by (intro morgue.rg_obind)
    (rule rg_weaken [OF rg_dead_row [OF assms]], auto split: sum.split option.split)

lemma rg_no_exchange:
  assumes "\<And>jwk now claims. oi_verify os jwk now token = Some claims \<Longrightarrow> is_api_key_shaped claims (oi_api_key_audience os)"
  shows "rg (stays_dead h i) (introspect_exchange_token os token) refused s"
proof -
  have none: "(case oi_verify os jwk now token of None \<Rightarrow> Inr None
      | Some claims \<Rightarrow> Inr (if is_api_key_shaped claims (oi_api_key_audience os) then None else Some claims)) = Inr None" for jwk now
    using assms by (simp split: option.split)
  have verified: "rg (stays_dead h i) (verify_self_issued_token os token) (\<lambda>r _. \<forall>c. r = Inr c \<longrightarrow> c = None) t" for t
    unfolding verify_self_issued_token_def list_verification_jwks_def none
    by (auto intro!: morgue.rg_obind morgue.rg_query morgue.rg_observe split: option.split sum.split)
  show ?thesis
    unfolding introspect_exchange_token_def resolve_exchange_token_context_def
    by (intro morgue.rg_obind, rule rg_weaken [OF verified]) (auto split: sum.split)
qed

lemma rg_introspect_dead:
  assumes "dead (oi_hash os token) i s"
    and "\<And>jwk now claims. oi_verify os jwk now token = Some claims \<Longrightarrow> is_api_key_shaped claims (oi_api_key_audience os)"
  shows "rg (stays_dead (oi_hash os token) i) (introspect_api_key os token) refused s"
  unfolding introspect_api_key_def
  by (intro morgue.rg_obind, rule rg_weaken [OF rg_dead_row [OF assms(1)]])
    (use assms(2) in \<open>auto simp: rg_dead_key rg_no_exchange split: sum.split\<close>)

text \<open>A call that may make the key \<open>i\<close> active: rotating it with a grace period.\<close>

definition revives :: "string \<Rightarrow> tenant_call \<Rightarrow> bool" where
  "revives i call \<longleftrightarrow> (case call of
     RotateApiKeyCall subj bearer k input \<Rightarrow> k = i \<and> coalesce (rk_grace_period_seconds input) 0 > 0 | _ \<Rightarrow> False)"

lemma revives_only:
  assumes "\<not> revives i call" "key_status_set call kid st"
  shows "only_revokes i kid st"
proof (cases call)
  case (RotateApiKeyCall subj bearer k input)
  with assms show ?thesis
    by (cases st; cases "rk_grace_period_seconds input") (auto simp: revives_def only_revokes_def coalesce_def)
qed (use assms in \<open>auto simp: only_revokes_def\<close>)

text \<open>C6 (revocation). Once no active row has the hash of a presented API key, no introspection of it is ever answered other than
  inactive while the server runs: however many calls of any kind are served concurrently, with messages lost and calls
  crashing, as long as none deletes the project or account and none rotates that very key with a grace period.
  The bearer verifies, if at all, as an API-key token (the \<open>azp\<close> its issuer gave it).\<close>

theorem revoked_key_stays_dead:
  assumes "dead (oi_hash (td_opa d) token) i s"
    and "\<And>jwk now claims. oi_verify (td_opa d) jwk now token = Some claims \<Longrightarrow>
           is_api_key_shaped claims (oi_api_key_audience (td_opa d))"
    and "\<not> list_ex deletes calls" "\<not> list_ex (revives i) calls"
    and "pool_reach allowed (initial (map (serve_tenant d) calls) s) c"
    and "j < length calls" "calls ! j = IntrospectCall token" "threads c ! j = Some (Ret (IntrospectReply (Inr resp)))"
  shows "resp = inactive"
proof -
  let ?h = "oi_hash (td_opa d) token"
  let ?Q = "\<lambda>k r (_ :: tenancy). calls ! k = IntrospectCall token \<longrightarrow> (\<forall>resp. r = IntrospectReply (Inr resp) \<longrightarrow> resp = inactive)"
  have "rg (stays_dead ?h i) (map (serve_tenant d) calls ! k) (?Q k) s" if k: "k < length calls" for k
  proof (cases "calls ! k = IntrospectCall token")
    case True
    have "rg (stays_dead ?h i) (introspect_api_key (td_opa d) token) refused s"
      using assms(1,2) by (rule rg_introspect_dead)
    then show ?thesis
      using k True by (auto simp: replied_def intro!: morgue.rg_pbind elim!: rg_weaken)
  next
    case False
    have "\<not> deletes (calls ! k)" "\<not> revives i (calls ! k)" using assms(3,4) k by (auto simp: list_ex_iff)
    then have "guar (stays_dead ?h i) (serve_tenant d (calls ! k))"
      by (intro morgue.guar_serve_tenant) (auto intro: revives_only)
    with k False show ?thesis by (simp add: morgue.rg_guar)
  qed
  then have "?Q j (IntrospectReply (Inr resp)) (store c)"
    using assms(6,8) by (intro morgue.rg_results [OF assms(5), where Q = ?Q]) simp_all
  then show ?thesis using assms(7) by simp
qed

end
