(* ===== verification/Key_Backing.thy ===== *)
theory Key_Backing
  imports Key_Safety
begin

text \<open>
  What stands behind a bearer that introspection calls active: an API key that is neither revoked, expired nor deleted, or a token
  of this service that is not an API key and whose subject still sees its project; in both cases an active project of
  an active account.
\<close>

subsection \<open>Backing\<close>

definition tenant_active :: "tenancy \<Rightarrow> project_row \<Rightarrow> account_row \<Rightarrow> bool" where
  "tenant_active s p a \<longleftrightarrow> p \<in> set (t_projects s) \<and> a \<in> set (t_accounts s) \<and> pj_status p = ''active'' \<and>
     ac_id a = pj_account_id p \<and> ac_status a = ''active''"

definition names_tenant :: "introspect_response \<Rightarrow> project_row \<Rightarrow> account_row \<Rightarrow> bool" where
  "names_tenant resp p a \<longleftrightarrow> ir_project_id resp = Some (pj_id p) \<and> ir_account_id resp = Some (ac_id a)"

definition key_backed :: "opa_state \<Rightarrow> string \<Rightarrow> int \<Rightarrow> tenancy \<Rightarrow> introspect_response \<Rightarrow> bool" where
  "key_backed os token now s resp \<longleftrightarrow> (\<exists>e p a. e \<in> set (t_api_keys s) \<and> ak_key_hash (ke_row e) = oi_hash os token \<and>
     ke_deleted_at e = None \<and> ak_status (ke_row e) = ''active'' \<and> (\<forall>t. ak_expires_at (ke_row e) = Some t \<longrightarrow> now < t) \<and>
     tenant_active s p a \<and> pj_id p = ak_project_id (ke_row e) \<and> names_tenant resp p a \<and>
     ir_api_key_id resp = Some (ak_id (ke_row e)))"

definition session_backed :: "opa_state \<Rightarrow> string \<Rightarrow> int \<Rightarrow> tenancy \<Rightarrow> introspect_response \<Rightarrow> bool" where
  "session_backed os token now s resp \<longleftrightarrow> (\<exists>claims k p a. k \<in> set (t_signing_keys s) \<and>
     oi_verify os (sk_public_jwk (sk_data k)) now token = Some claims \<and> \<not> is_api_key_shaped claims (oi_api_key_audience os) \<and>
     tenant_active s p a \<and> xc_project_id claims = Some (pj_id p) \<and> visible s (xc_sub claims) p \<and> names_tenant resp p a \<and>
     ir_api_key_id resp = None \<and> ir_sub resp = xc_api_key_id claims)"

subsection \<open>The two paths\<close>

lemma validation_activeE:
  assumes "validation_by_hash now h s = Some v" "kv_is_active v"
  obtains e p a where "e \<in> set (t_api_keys s)" "ak_key_hash (ke_row e) = h" "ke_deleted_at e = None"
    "ak_status (ke_row e) = ''active''" "\<And>t. ak_expires_at (ke_row e) = Some t \<Longrightarrow> now < t"
    "tenant_active s p a" "pj_id p = ak_project_id (ke_row e)"
    "kv_api_key_id v = ak_id (ke_row e)" "kv_project_id v = pj_id p" "kv_account_id v = ac_id a"
proof -
  obtain e where e: "e \<in> set (t_api_keys s)" "validation_row now s e = Some v" "ak_key_hash (ke_row e) = h"
    using assms(1) by (rule validation_by_hashE)
  from e(2) obtain p a where pa: "find (\<lambda>p. pj_id p = ak_project_id (ke_row e)) (t_projects s) = Some p"
    "find (\<lambda>a. ac_id a = pj_account_id p) (t_accounts s) = Some a" "ke_deleted_at e = None"
    "kv_api_key_id v = ak_id (ke_row e)" "kv_project_id v = ak_project_id (ke_row e)" "kv_account_id v = pj_account_id p"
    "kv_effective_status v = effective_status now (ke_row e) p a"
    by (auto simp: validation_row_def Let_def split: option.splits if_splits)
  moreover have "ak_status (ke_row e) = ''active''" "\<And>t. ak_expires_at (ke_row e) = Some t \<Longrightarrow> now < t"
    "pj_status p = ''active''" "ac_status a = ''active''"
    using assms(2) pa(7) by (auto simp: kv_is_active_def effective_status_def split: if_splits option.splits)
  ultimately show ?thesis
    using e find_SomeD [OF pa(1)] find_SomeD [OF pa(2)] that [of e p a] by (simp add: tenant_active_def)
qed

lemma usage_keeps_id:
  "run (record_api_key_usage i ip) env n s = (Inr k, n', s') \<Longrightarrow> ak_id k = i \<and> t_projects s' = t_projects s"
  unfolding record_api_key_usage_def Let_def
  by (auto elim!: run_obind_Inr dest!: run_stmt_Inr find_SomeD
      simp: utc_now_def run_observe fetch_one_def res_bind_eq_Inr_conv updated_row_def change_row_def to_api_key_def split: option.splits)

lemma project_by_id_Inr:
  "run (get_project_by_id rp i) env n s = (Inr (Some p), n', s') \<Longrightarrow>
     \<exists>row \<in> set (t_projects s). pj_id row = i \<and> p = to_project rp row \<and> s' = s"
  unfolding get_project_by_id_def by (erule run_obind_Inr) (auto dest!: run_query_Inr find_SomeD)

lemma account_by_id_Inr:
  "run (get_account_by_id i) env n s = (Inr (Some a), n', s') \<Longrightarrow>
     \<exists>row \<in> set (t_accounts s). ac_id row = i \<and> a = to_account row \<and> s' = s"
  unfolding get_account_by_id_def load_account_row_optional_def by (erule run_obind_Inr) (auto dest!: run_query_Inr find_SomeD)

lemma key_path:
  assumes "run (introspect_api_key_row os token) env n s = (Inr resp, n', s')" "ir_active resp"
  shows "\<exists>k. key_backed os token (o_now (env k 0)) s resp"
proof -
  from assms obtain v n1 where v: "run (validate_api_key_context os token None) env n s = (Inr (Some v), n1, s')"
    and resp: "resp = key_response os v"
    unfolding introspect_api_key_row_def by (auto elim!: run_obind_Inr simp: inactive_def split: option.splits)
  from v obtain val n2 n3 s2 k p where val: "validation_by_hash (o_now (env n 0)) (oi_hash os token) s = Some val" "kv_is_active val"
    and usage: "run (record_api_key_usage (kv_api_key_id val) None) env n2 s = (Inr k, n3, s2)"
    and p: "run (get_project_by_id (oi_repo os) (kv_project_id val)) env n3 s2 = (Inr (Some p), n1, s')"
    and fields: "va_api_key v = k" "va_project v = p" "va_account_id v = kv_account_id val"
    unfolding validate_api_key_context_def find_api_key_validation_by_hash_def or_not_found_def
    by (auto elim!: run_obind_Inr dest!: run_stmt_Inr split: option.splits if_splits)
  have "ak_id k = kv_api_key_id val" using usage_keeps_id [OF usage] by simp
  moreover have "pj_id p = kv_project_id val" using p by (auto dest!: project_by_id_Inr simp: to_project_def)
  ultimately have "key_backed os token (o_now (env n 0)) s resp"
    using validation_activeE [OF val] unfolding key_backed_def names_tenant_def resp key_response_def Let_def
    by (simp add: fields) metis
  then show ?thesis ..
qed

lemma verified_Inr:
  assumes "run (verify_self_issued_token os token) env n s = (Inr (Some claims), n', s')"
  shows "s' = s \<and> \<not> is_api_key_shaped claims (oi_api_key_audience os) \<and>
    (\<exists>j. \<exists>k \<in> set (t_signing_keys s). oi_verify os (sk_public_jwk (sk_data k)) (o_now (env j 0)) token = Some claims)"
proof -
  from assms obtain kid where kid: "oi_kid os token = Some (Some kid)"
    unfolding verify_self_issued_token_def by (auto split: option.splits)
  from assms kid obtain jwks n1 s1 where jwks: "run list_verification_jwks env n s = (Inr jwks, n1, s1)"
    and rest: "run (case find (\<lambda>raw. Option.bind (json_get raw ''kid'') json_as_str = Some kid) jwks of
            None \<Rightarrow> cok None
          | Some jwk \<Rightarrow> observe (\<lambda>w _.
              case oi_verify os jwk (o_now (w 0)) token of
                None \<Rightarrow> Inr None
              | Some claims \<Rightarrow> Inr (if is_api_key_shaped claims (oi_api_key_audience os) then None else Some claims))) env n1 s1
         = (Inr (Some claims), n', s')"
    unfolding verify_self_issued_token_def by (auto elim!: run_obind_Inr)
  have s1: "s1 = s" and set: "set jwks = (\<lambda>k. sk_public_jwk (sk_data k)) ` set (t_signing_keys s)"
    using jwks unfolding list_verification_jwks_def by (auto dest!: run_query_Inr simp: order_desc_def)
  from rest obtain jwk where "jwk \<in> set jwks" "oi_verify os jwk (o_now (env n1 0)) token = Some claims"
    "\<not> is_api_key_shaped claims (oi_api_key_audience os)" "s' = s1"
    by (auto simp: run_observe dest!: find_SomeD split: option.splits if_splits)
  then show ?thesis using s1 set by auto
qed

lemma context_Inr:
  "run (resolve_context subj pid) env n s = (Inr ctx, n', s') \<Longrightarrow>
     s' = s \<and> (\<exists>p \<in> set (t_projects s). pj_id p = pid \<and> visible s subj p \<and> ctx = \<lparr>rc_account_id = pj_account_id p, rc_project_id = pid\<rparr>)"
  unfolding resolve_context_def or_not_found_def
  by (auto elim!: run_obind_Inr dest!: run_query_Inr find_SomeD simp: visible_project_def split: option.splits)

lemma exchange_Inr:
  assumes "run (resolve_exchange_token_context os token) env n s = (Inr (Some x), n', s')"
  obtains claims pid ctx p a n2 n3 n4 n5 s2 s3 s4 s5 where
    "run (verify_self_issued_token os token) env n s = (Inr (Some claims), n2, s2)" "xc_project_id claims = Some pid"
    "run (resolve_context (xc_sub claims) pid) env n2 s2 = (Inr ctx, n3, s3)"
    "run (get_project_by_id (oi_repo os) (rc_project_id ctx)) env n3 s3 = (Inr (Some p), n4, s4)" "pj_status p = RsActive"
    "run (get_account_by_id (rc_account_id ctx)) env n4 s4 = (Inr (Some a), n5, s5)" "ac_status a = RsActive"
    "xt_session_id x = xc_api_key_id claims" "xt_account_id x = rc_account_id ctx" "xt_project x = p"
  using assms unfolding resolve_exchange_token_context_def
  by (auto elim!: run_obind_Inr simp: run_pbind split: option.splits if_splits sum.splits prod.splits)

lemma session_path:
  assumes "distinct (map pj_id (t_projects s))"
    and "run (introspect_exchange_token os token) env n s = (Inr resp, n', s')" "ir_active resp"
  shows "\<exists>k. session_backed os token (o_now (env k 0)) s resp"
proof -
  from assms(2,3) obtain x n1 where x: "run (resolve_exchange_token_context os token) env n s = (Inr (Some x), n1, s')"
    and resp: "resp = exchange_response os x"
    unfolding introspect_exchange_token_def by (auto elim!: run_obind_Inr simp: inactive_def split: option.splits)
  from x show ?thesis
  proof (rule exchange_Inr)
    fix claims pid ctx p a n2 n3 n4 n5 s2 s3 s4 s5
    assume c: "run (verify_self_issued_token os token) env n s = (Inr (Some claims), n2, s2)" and pid: "xc_project_id claims = Some pid"
      and ctx: "run (resolve_context (xc_sub claims) pid) env n2 s2 = (Inr ctx, n3, s3)"
      and p: "run (get_project_by_id (oi_repo os) (rc_project_id ctx)) env n3 s3 = (Inr (Some p), n4, s4)" "pj_status p = RsActive"
      and a: "run (get_account_by_id (rc_account_id ctx)) env n4 s4 = (Inr (Some a), n5, s5)" "ac_status a = RsActive"
      and fields: "xt_session_id x = xc_api_key_id claims" "xt_account_id x = rc_account_id ctx" "xt_project x = p"
    from verified_Inr [OF c] obtain j k where s2: "s2 = s" and k: "k \<in> set (t_signing_keys s)"
      "oi_verify os (sk_public_jwk (sk_data k)) (o_now (env j 0)) token = Some claims"
      "\<not> is_api_key_shaped claims (oi_api_key_audience os)" by auto
    from context_Inr [OF ctx] s2 obtain row where row: "row \<in> set (t_projects s)" "pj_id row = pid" "visible s (xc_sub claims) row"
      and ctx': "ctx = \<lparr>rc_account_id = pj_account_id row, rc_project_id = pid\<rparr>" "s3 = s" by auto
    from project_by_id_Inr [OF p(1)] ctx' row assms(1) have p': "p = to_project (oi_repo os) row" "s4 = s"
      by (auto dest: distinct_map [THEN iffD1, THEN conjunct2, THEN inj_onD])
    from account_by_id_Inr [OF a(1)] ctx' p' obtain arow where "arow \<in> set (t_accounts s)" "ac_id arow = pj_account_id row"
      "a = to_account arow" by auto
    then have "tenant_active s row arow" "names_tenant resp row arow"
      using row p(2) p' a(2) ctx'
      by (auto simp: tenant_active_def names_tenant_def resp exchange_response_def Let_def fields to_project_def to_account_def
          resource_status_from_def split: if_splits)
    then have "session_backed os token (o_now (env j 0)) s resp"
      unfolding session_backed_def using k row pid by (intro exI [of _ claims] exI [of _ k] exI [of _ row] exI [of _ arow])
        (simp add: resp exchange_response_def Let_def fields)
    then show ?thesis ..
  qed
qed

text \<open>C14 (what an accepted bearer is backed by). Whatever the weather, when introspection answers active there is a moment of the
  call at which: either an API key with the hash of the bearer is neither deleted, revoked nor expired; or the bearer verifies
  under a key of the signing-key table as a token that is not shaped like an API key, and its subject sees the
  project it names. In both cases the project and its account exist and are not suspended, and the answer names them.\<close>

theorem introspection_active:
  assumes "integrity s" "run (introspect_api_key os token) env n s = (Inr resp, n', s')" "ir_active resp"
  shows "\<exists>k. key_backed os token (o_now (env k 0)) s resp \<or> session_backed os token (o_now (env k 0)) s resp"
proof -
  have ids: "distinct (map pj_id (t_projects s))" using assms(1) by (simp add: integrity_def projects_ok_def)
  from assms(2) consider n1 where "run (introspect_api_key_row os token) env n1 s = (Inr resp, n', s')"
    | n1 where "run (introspect_exchange_token os token) env n1 s = (Inr resp, n', s')"
    unfolding introspect_api_key_def find_api_key_validation_by_hash_def
    by (auto elim!: run_obind_Inr dest!: run_stmt_Inr split: if_splits)
  then show ?thesis
    using key_path [OF _ assms(3)] session_path [OF ids _ assms(3)] by cases blast+
qed

end
