(* ===== verification/Key_Lifecycle.thy ===== *)
theory Key_Lifecycle
  imports Key_Backing
begin

text \<open>
  Creating and rotating API keys, run alone in any weather: who may, what is recorded, and how long the keys
  involved live.
\<close>

subsection \<open>What the parts do\<close>

lemma unchanged_lead: "guar (=) (authorize_project_lead p subj)"
  unfolding authorize_project_lead_def project_account_id_def project_member_role_def
  by (auto intro!: unchanged.guar_obind unchanged.guar_query split: option.split)

lemma unchanged_issue: "guar (=) (issue_api_key_secret st subj bearer p i req)"
  unfolding issue_api_key_secret_def issue_secret_def external_issue_def generate_secret_def sign_def signer_token_manager_def Let_def
    get_project_def get_active_signing_key_def or_not_found_def cuid2_def utc_now_def
  by (auto intro!: unchanged.guar_obind unchanged.guar_observe unchanged.guar_query split: option.split)

text \<open>The owner of a project, and whoever is on its roster as a lead.\<close>

definition leads :: "tenancy \<Rightarrow> string \<Rightarrow> string \<Rightarrow> bool" where
  "leads s project_id subj \<longleftrightarrow> (\<exists>p \<in> set (t_projects s). pj_id p = project_id \<and>
     (pj_account_id p = subj \<or> list_ex (\<lambda>m. on_roster project_id subj m \<and> pm_role m = ''lead'') (t_members s)))"

lemma lead_Inr:
  assumes "run (authorize_project_lead p subj) env n s = (Inr u, n', s')"
  shows "leads s p subj \<and> s' = s"
proof
  show "s' = s" using unchanged.run_guar [OF unchanged_lead assms] by simp
  show "leads s p subj"
    using assms unfolding authorize_project_lead_def project_account_id_def project_member_role_def leads_def list_ex_iff
    by (auto elim!: run_obind_Inr dest!: run_query_Inr find_SomeD split: option.splits if_splits) blast+
qed

text \<open>
  A freshly issued key: recorded under the hash of the secret handed out, for its project, created at \<open>now\<close>, with an expiry no later
  than the requested one, which lies after \<open>now\<close> and within the maximum lifetime.
\<close>

definition issued_as :: "authz_store \<Rightarrow> string \<Rightarrow> string \<Rightarrow> int \<Rightarrow> int \<Rightarrow> api_key_secret \<Rightarrow> api_key_entry \<Rightarrow> bool" where
  "issued_as st subj project_id now requested out e \<longleftrightarrow>
     ks_api_key out = to_api_key (ke_row e) \<and> ak_key_hash (ke_row e) = il_hash (as_lib st) (ks_secret out) \<and>
     ak_project_id (ke_row e) = project_id \<and> ke_owner_account_id e = subj \<and> ke_deleted_at e = None \<and>
     ak_status (ke_row e) = ''active'' \<and> ak_created_at (ke_row e) = now \<and>
     now < requested \<and> requested \<le> now + days (int (as_max_lifetime_days st)) \<and>
     (\<exists>t. ak_expires_at (ke_row e) = Some t \<and> t \<le> requested)"

lemma validated_expiry: "validate_expires_at e now d = Inr t \<Longrightarrow> e = Some t \<and> now < t \<and> t \<le> now + days (int d)"
  by (auto simp: validate_expires_at_def split: option.splits if_splits)

lemma issued_fresh:
  assumes "validate_expires_at x now (as_max_lifetime_days st) = Inr requested"
  shows "issued_as st subj p now requested
    \<lparr>ks_api_key = to_api_key (ke_row (inserted_key subj (fresh_key_row st i p name issued now requested plan) now')),
     ks_secret = is_secret issued, ks_oauth2_url = u\<rparr> (inserted_key subj (fresh_key_row st i p name issued now requested plan) now')"
  using validated_expiry [OF assms]
  by (cases "is_expires_at issued") (auto simp: issued_as_def inserted_key_def fresh_key_row_def)

lemma inserted_Inr: "insert_api_key owner k now s = Inr (row, s') \<Longrightarrow>
   row = ke_row (inserted_key owner k now) \<and> s' = s\<lparr>t_api_keys := t_api_keys s @ [inserted_key owner k now]\<rparr>"
  by (auto simp: insert_api_key_def split: if_splits)

text \<open>C15 (creating a key). Whatever the weather: when a key is handed out, the caller owns or leads the project, the billing plan is
  allowed, the requested expiry lies after the instant the call read off the clock and within the maximum lifetime counted from it, and the
  only change is one new key row, created at that instant, issued as it should be and not outliving the request.\<close>

theorem api_key_created:
  assumes "run (authz_create_api_key st subj bearer p input) env n s = (Inr out, n', s')"
  shows "\<exists>e requested. leads s p subj \<and> billing_is_allowed (as_billing st) (ck_billing_plan input) \<and>
    ck_expires_at input = Some requested \<and> issued_as st subj p (o_now (env n 0)) requested out e \<and>
    ak_billing_plan (ke_row e) = ck_billing_plan input \<and> s' = s\<lparr>t_api_keys := t_api_keys s @ [e]\<rparr>"
proof -
  from assms have allowed: "billing_is_allowed (as_billing st) (ck_billing_plan input)"
    unfolding authz_create_api_key_def by (auto split: if_splits)
  let ?now = "o_now (env n 0)"
  from assms obtain requested i issued k n1 n2 s1 where
    v: "validate_expires_at (ck_expires_at input) ?now (as_max_lifetime_days st) = Inr requested"
    and issue: "run (issue_api_key_secret st subj bearer p i (Some requested)) env n1 s = (Inr issued, n2, s1)"
    and create: "run (create_api_key subj (fresh_key_row st i p (ck_name input) issued ?now requested (ck_billing_plan input))) env n2 s1 =
      (Inr k, n', s')"
    and out: "out = \<lparr>ks_api_key = k, ks_secret = is_secret issued, ks_oauth2_url = is_oauth2_url issued\<rparr>"
    unfolding authz_create_api_key_def
    by (auto elim!: run_obind_Inr simp: utc_now_def cuid2_def run_observe split: if_splits)
  have s1: "s1 = s" using unchanged.run_guar [OF unchanged_issue issue] by simp
  let ?new = "fresh_key_row st i p (ck_name input) issued ?now requested (ck_billing_plan input)"
  from create s1 obtain now' where "leads s p subj" "k = to_api_key (ke_row (inserted_key subj ?new now'))"
    "s' = s\<lparr>t_api_keys := t_api_keys s @ [inserted_key subj ?new now']\<rparr>"
    unfolding create_api_key_def by (auto elim!: run_obind_Inr dest!: run_stmt_Inr lead_Inr inserted_Inr simp: fresh_key_row_def)
  moreover have "issued_as st subj p ?now requested out (inserted_key subj ?new now')"
    using issued_fresh [OF v] out calculation(2) by auto
  ultimately show ?thesis
    using allowed validated_expiry [OF v]
    by (intro exI [of _ "inserted_key subj ?new now'"] exI [of _ requested])
      (simp add: inserted_key_def fresh_key_row_def)
qed

subsection \<open>Rotation\<close>

text \<open>
  What becomes of the old key: revoked at \<open>now\<close>, or kept active until the end of the grace period counted from \<open>now\<close>, or until its old
  expiry if that comes first.
\<close>

definition retires :: "int \<Rightarrow> int option \<Rightarrow> api_key_row \<Rightarrow> api_key_row \<Rightarrow> bool" where
  "retires now grace r r' \<longleftrightarrow> ak_id r' = ak_id r \<and> ak_key_hash r' = ak_key_hash r \<and> ak_project_id r' = ak_project_id r \<and>
     (if \<exists>g. grace = Some g \<and> g > 0
      then ak_status r' = ''active'' \<and> ak_revoked_at r' = ak_revoked_at r \<and>
           ak_expires_at r' = Some (case ak_expires_at r of
             None \<Rightarrow> now + seconds (the grace) | Some old \<Rightarrow> min old (now + seconds (the grace)))
      else ak_status r' = ''revoked'' \<and> ak_revoked_at r' = Some now \<and> ak_expires_at r' = ak_expires_at r)"

lemma retirement_retires:
  "retirement now grace (ak_expires_at r) = (status, revoked, expires) \<Longrightarrow> retires now grace r (status_change status revoked expires r)"
  by (auto simp: retirement_def retires_def status_change_def coalesce_null_def min_def split: option.splits if_splits)

lemma rotate_tx_Inr:
  assumes "run (rotate_api_key_transaction subj kid status revoked expires new) env n s = (Inr k, n', s')"
  obtains now where "k = to_api_key (ke_row (inserted_key subj new now))"
    "s' = s\<lparr>t_api_keys := update_where (visible_key subj kid s) (change_row (status_change status revoked expires)) (t_api_keys s)
        @ [inserted_key subj new now]\<rparr>"
proof -
  let ?s = "s\<lparr>t_api_keys := update_where (visible_key subj kid s) (change_row (status_change status revoked expires)) (t_api_keys s)\<rparr>"
  from assms obtain now where "k = to_api_key (ke_row (inserted_key subj new now))"
    "s' = ?s\<lparr>t_api_keys := t_api_keys ?s @ [inserted_key subj new now]\<rparr>"
    unfolding rotate_api_key_transaction_def update_visible_key_def or_not_found_def
    by (auto elim!: run_transaction_cases run_obind_Inr dest!: run_stmt_Inr inserted_Inr
        simp: res_bind_eq_Inr_conv split: option.splits if_splits)
  then show ?thesis using that by simp
qed

lemma run_query_step: "run (reading fails q) env n s = (Inr a, n', s') \<Longrightarrow> q s = Inr a \<and> s' = s \<and> n' = Suc n"
  by (auto simp: reading_def statement_def run_atomic res_bind_def split: delivery.splits sum.splits)

text \<open>C16 (rotating a key). Whatever the weather: when rotation hands out a key, the caller sees the key it names; that row alone is
  retired as of the instant the call read off the clock, all others are as they were, and one new row is added for the same project and billing
  plan, created at that instant and issued as it should be, for the requested expiry or else that of the old key.\<close>

theorem api_key_rotated:
  assumes "integrity s" "run (authz_rotate_api_key st subj bearer kid input) env n s = (Inr out, n', s')"
  shows "\<exists>e r' new requested. e \<in> set (t_api_keys s) \<and> visible_key subj kid s e \<and>
    retires (o_now (env (Suc n) 0)) (rk_grace_period_seconds input) (ke_row e) r' \<and>
    resolve_rotated_expires_at (rk_expires_at input) (ak_expires_at (ke_row e)) = Some requested \<and>
    issued_as st subj (ak_project_id (ke_row e)) (o_now (env (Suc n) 0)) requested out new \<and> ak_billing_plan (ke_row new) = ak_billing_plan (ke_row e) \<and>
    s' = s\<lparr>t_api_keys := map (\<lambda>k. if ak_id (ke_row k) = kid then e\<lparr>ke_row := r'\<rparr> else k) (t_api_keys s) @ [new]\<rparr>"
proof -
  let ?now = "o_now (env (Suc n) 0)"
  from assms(2) obtain e status revoked expires requested new_id issued k n1 n2 n3 s1 where
    e: "find (visible_key subj kid s) (t_api_keys s) = Some e"
    and ret: "retirement ?now (rk_grace_period_seconds input) (ak_expires_at (ke_row e)) = (status, revoked, expires)"
    and v: "validate_expires_at (resolve_rotated_expires_at (rk_expires_at input) (ak_expires_at (ke_row e))) ?now (as_max_lifetime_days st)
      = Inr requested"
    and issue: "run (issue_api_key_secret st subj bearer (ak_project_id (ke_row e)) new_id (Some requested)) env n1 s = (Inr issued, n2, s1)"
    and rotate: "run (rotate_api_key_transaction subj kid status revoked expires
        (fresh_key_row st new_id (ak_project_id (ke_row e)) (coalesce (rk_name input) (ak_name (ke_row e))) issued ?now requested
           (ak_billing_plan (ke_row e)))) env n2 s1 = (Inr k, n3, s')"
    and out: "out = \<lparr>ks_api_key = k, ks_secret = is_secret issued, ks_oauth2_url = is_oauth2_url issued\<rparr>"
    unfolding authz_rotate_api_key_def get_api_key_def or_not_found_def
    by (auto elim!: run_obind_Inr dest!: run_query_step
        simp: utc_now_def cuid2_def run_observe to_api_key_def split: option.splits prod.splits)
  have s1: "s1 = s" using unchanged.run_guar [OF unchanged_issue issue] by simp
  let ?fresh = "fresh_key_row st new_id (ak_project_id (ke_row e)) (coalesce (rk_name input) (ak_name (ke_row e))) issued ?now requested
    (ak_billing_plan (ke_row e))" and ?r = "status_change status revoked expires (ke_row e)"
  obtain now' where k: "k = to_api_key (ke_row (inserted_key subj ?fresh now'))"
    and s': "s' = s\<lparr>t_api_keys := update_where (visible_key subj kid s) (change_row (status_change status revoked expires)) (t_api_keys s)
        @ [inserted_key subj ?fresh now']\<rparr>"
    using rotate unfolding s1 by (rule rotate_tx_Inr)
  have here: "e \<in> set (t_api_keys s)" "visible_key subj kid s e" using find_SomeD [OF e] by auto
  have only: "x = e" if "x \<in> set (t_api_keys s)" "ak_id (ke_row x) = kid" for x
    using that here assms(1) by (auto simp: integrity_def keys_ok_def visible_key_def distinct_map dest: inj_onD)
  have "update_where (visible_key subj kid s) (change_row (status_change status revoked expires)) (t_api_keys s) =
      map (\<lambda>k. if ak_id (ke_row k) = kid then e\<lparr>ke_row := ?r\<rparr> else k) (t_api_keys s)"
    unfolding update_where_def using here only by (auto simp: visible_key_def change_row_def)
  moreover have "issued_as st subj (ak_project_id (ke_row e)) ?now requested out (inserted_key subj ?fresh now')"
    using issued_fresh [OF v] out k by auto
  ultimately show ?thesis
    using here retirement_retires [OF ret] s' validated_expiry [OF v]
    by (intro exI [of _ e] exI [of _ ?r] exI [of _ "inserted_key subj ?fresh now'"] exI [of _ requested])
      (simp add: inserted_key_def fresh_key_row_def)
qed

end
