(* ===== verification/Key_Demo.thy ===== *)
theory Key_Demo
  imports Key_Lifecycle
begin

text \<open>
  The statements about API keys at a concrete deployment: one key of the project of \<open>Token_Demo\<close>, secrets generated locally,
  hashes the identity, no bearer that verifies as a JWT.
\<close>

subsection \<open>A deployment\<close>

definition demo_lib :: issuance_lib where
  "demo_lib = \<lparr>il_hash = id, il_reader = \<lparr>b64_decode = (\<lambda>_. None), json_parse = (\<lambda>_. None), json_as_i64 = (\<lambda>_. None)\<rparr>,
     il_post = (\<lambda>_ _ _. Inl ''unreachable''), il_new_asymmetric = (\<lambda>_ _ _. Inl ''no key''), il_generate_rs256 = (\<lambda>_ _. Inl CoreNotFound)\<rparr>"

definition demo_authz :: authz_store where
  "demo_authz = \<lparr>as_repo = xs_repo demo_store, as_token_issuer = None, as_jwt_signer = None,
     as_billing = [\<lparr>bp_id = ''free'', bp_name = ''Free'', bp_limits = None\<rparr>], as_quota_tiers = [],
     as_models = [], as_max_lifetime_days = 90, as_lib = demo_lib\<rparr>"

definition demo_opa :: opa_state where
  "demo_opa = \<lparr>oi_repo = xs_repo demo_store, oi_billing = [], oi_api_key_audience = None, oi_hash = id, oi_kid = (\<lambda>_. None),
     oi_verify = (\<lambda>_ _ _. None)\<rparr>"

definition demo_deps :: tenant_deps where
  "demo_deps = \<lparr>td_store = demo_authz, td_opa = demo_opa, td_idp = demo_idp\<rparr>"

definition demo_key :: api_key_row where
  "demo_key = \<lparr>ak_id = ''k1'', ak_project_id = ''proj'', ak_name = ''ci'', ak_key_prefix = ''sk1'', ak_key_hash = ''sk1'', ak_created_at = 0,
     ak_expires_at = Some 1000000000, ak_status = ''active'', ak_last_used_at = None, ak_last_ip = None, ak_revoked_at = None,
     ak_billing_plan = ''free'', ak_updated_at = 0\<rparr>"

definition keyed :: "api_key_row list \<Rightarrow> tenancy" where
  "keyed ks = demo_tenancy\<lparr>t_api_keys := map (\<lambda>k. \<lparr>ke_row = k, ke_owner_account_id = ''alice'', ke_deleted_at = None\<rparr>) ks\<rparr>"

definition revoked_demo :: api_key_row where
  "revoked_demo = demo_key\<lparr>ak_status := ''revoked'', ak_revoked_at := Some 100\<rparr>"

lemmas key_demo_defs = keyed_def demo_key_def revoked_demo_def demo_tenancy_def demo_authz_def demo_lib_def demo_opa_def demo_deps_def

lemma demo_integrity: "integrity (keyed [demo_key])" "integrity (keyed [revoked_demo])"
  by (auto simp: integrity_def projects_ok_def members_ok_def keys_ok_def signing_ok_def ledger_refs_ok_def account_ids_def project_ids_def
      hashes_unique_def member_key_def budget_refs_account_def budget_refs_project_def demo_sys_def key_demo_defs)

lemma demo_revokes: "run (authz_revoke_api_key ''alice'' ''k1'') (fair 100 i) n (keyed [demo_key]) =
   (Inr (to_api_key revoked_demo), Suc (Suc n), keyed [revoked_demo])"
  by (simp add: authz_revoke_api_key_def set_api_key_status_def update_visible_key_def or_not_found_def utc_now_def run_obind run_observe
      run_stmt_calm updated_row_def update_where_def change_row_def status_change_def coalesce_null_def visible_key_def visible_def
      key_demo_defs)

lemmas introspect_defs = introspect_api_key_def introspect_api_key_row_def validate_api_key_context_def
  find_api_key_validation_by_hash_def validation_by_hash_def validation_row_def effective_status_def kv_is_active_def
  record_api_key_usage_def get_project_by_id_def or_not_found_def utc_now_def fetch_one_def res_bind_def updated_row_def update_where_def
  change_row_def List.map_filter_def

lemma demo_refuses:
  "run (introspect_api_key demo_opa ''sk1'') (fair 150 i) n (keyed [revoked_demo]) = (Inr inactive, Suc (Suc n), keyed [revoked_demo])"
  by (simp add: introspect_defs run_obind run_stmt_calm key_demo_defs)

lemma demo_accepts:
  "\<exists>resp n' s'. run (introspect_api_key demo_opa ''sk1'') (fair 150 i) n (keyed [demo_key]) = (Inr resp, n', s') \<and> ir_active resp \<and>
     ir_api_key_id resp = Some ''k1''"
  by (simp add: introspect_defs run_obind run_stmt_calm run_query_calm run_observe key_response_def Let_def to_project_def to_api_key_def key_demo_defs)

lemma demo_creates:
  "\<exists>out n' s'. run (authz_create_api_key demo_authz ''alice'' None ''proj'' \<lparr>ck_name = ''ci'', ck_expires_at = Some 1000000000, ck_billing_plan = ''free''\<rparr>)
     (fair 50 ''k2'') n (keyed [demo_key]) = (Inr out, n', s') \<and> ks_secret out = SECRET_PREFIX @ ''k2''"
  by (simp add: authz_create_api_key_def billing_is_allowed_def billing_get_def validate_expires_at_def days_def seconds_def issue_api_key_secret_def issue_secret_def
      generate_secret_def cuid2_def utc_now_def create_api_key_def authorize_project_lead_def project_account_id_def run_obind run_observe
      run_query_calm run_stmt_calm insert_api_key_def fresh_key_row_def SECRET_PREFIX_def key_demo_defs)

definition with_grace :: "int \<Rightarrow> rotate_api_key_input" where
  "with_grace g = \<lparr>rk_name = None, rk_expires_at = None, rk_grace_period_seconds = Some g\<rparr>"

definition graced_demo :: api_key_row where
  "graced_demo = demo_key\<lparr>ak_expires_at := Some 60000200, ak_revoked_at := Some 100\<rparr>"

lemma fair_within [simp]: "(\<lambda>n i. fair now x m (Suc (n + i))) = fair now x"
  by (simp add: fair_def)

lemma demo_rotates:
  "\<exists>out new n'. run (authz_rotate_api_key demo_authz ''bob'' None ''k1'' (with_grace 60)) (fair 200 ''k2'') n (keyed [revoked_demo]) =
     (Inr out, n', (keyed [graced_demo])\<lparr>t_api_keys := t_api_keys (keyed [graced_demo]) @ [new]\<rparr>) \<and>
     ak_key_hash (ke_row new) = SECRET_PREFIX @ ''k2'' \<and> ks_secret out = SECRET_PREFIX @ ''k2''"
  by (simp add: authz_rotate_api_key_def get_api_key_def or_not_found_def retirement_def resolve_rotated_expires_at_def
      validate_expires_at_def days_def seconds_def issue_api_key_secret_def issue_secret_def generate_secret_def cuid2_def utc_now_def
      rotate_api_key_transaction_def transacted_def update_visible_key_def run_obind run_observe run_atomic run_query_calm run_stmt_calm
      updated_row_def update_where_def change_row_def status_change_def coalesce_null_def coalesce_def visible_key_def visible_def
      on_roster_def visible_project_def insert_api_key_def inserted_key_def fresh_key_row_def res_bind_def to_api_key_def with_grace_def
      graced_demo_def SECRET_PREFIX_def key_demo_defs)

lemma demo_accepts_again:
  "ak_key_hash (ke_row new) = SECRET_PREFIX @ ''k2'' \<Longrightarrow>
   \<exists>resp n' s'. run (introspect_api_key demo_opa ''sk1'') (fair 300 i) n ((keyed [graced_demo])\<lparr>t_api_keys := t_api_keys (keyed [graced_demo]) @ [new]\<rparr>) =
     (Inr resp, n', s') \<and> ir_active resp"
  by (simp add: introspect_defs run_obind run_stmt_calm run_query_calm run_observe key_response_def Let_def to_project_def to_api_key_def
      graced_demo_def key_demo_defs)

text \<open>(rotation revives a revoked key). The owner revokes a key, and introspection refuses it. Any member of the project may rotate that
  revoked key with a grace period: rotation does not look at the status of the key and writes \<open>active\<close>, so the secret that was
  revoked is accepted again until the grace period ends.\<close>

theorem rotation_revives_revoked_key:
  "\<exists>s0 s1 s2 resp. s1 = state_of (serve_tenant demo_deps (RevokeApiKeyCall ''alice'' ''k1'')) (fair 100 ''x'') s0 \<and>
     result_of (serve_tenant demo_deps (IntrospectCall ''sk1'')) (fair 150 ''x'') s1 = IntrospectReply (Inr inactive) \<and>
     s2 = state_of (serve_tenant demo_deps (RotateApiKeyCall ''bob'' None ''k1'' (with_grace 60))) (fair 200 ''k2'') s1 \<and>
     result_of (serve_tenant demo_deps (IntrospectCall ''sk1'')) (fair 300 ''x'') s2 = IntrospectReply (Inr resp) \<and> ir_active resp"
proof -
  obtain out new n' where rot: "run (authz_rotate_api_key demo_authz ''bob'' None ''k1'' (with_grace 60)) (fair 200 ''k2'') 0 (keyed [revoked_demo]) =
     (Inr out, n', (keyed [graced_demo])\<lparr>t_api_keys := t_api_keys (keyed [graced_demo]) @ [new]\<rparr>)"
    "ak_key_hash (ke_row new) = SECRET_PREFIX @ ''k2''" using demo_rotates by blast
  obtain resp n'' s'' where "run (introspect_api_key demo_opa ''sk1'') (fair 300 ''x'') 0
      ((keyed [graced_demo])\<lparr>t_api_keys := t_api_keys (keyed [graced_demo]) @ [new]\<rparr>) = (Inr resp, n'', s'')" "ir_active resp"
    using demo_accepts_again [OF rot(2)] by blast
  then show ?thesis
    by (intro exI [of _ "keyed [demo_key]"] exI [of _ "keyed [revoked_demo]"]
        exI [of _ "(keyed [graced_demo])\<lparr>t_api_keys := t_api_keys (keyed [graced_demo]) @ [new]\<rparr>"] exI [of _ resp])
      (simp add: state_of_def result_of_def replied_def run_pbind demo_deps_def demo_revokes demo_refuses rot(1))
qed

subsection \<open>Racing for the default project\<close>

definition demo_project :: "string \<Rightarrow> bool \<Rightarrow> project_row" where
  "demo_project pid is_default = \<lparr>pj_id = pid, pj_account_id = ''alice'', pj_name = pid, pj_allowed_models = None,
     pj_default_limits = JNull, pj_billing_plan = ''free'', pj_billing_identity = pid, pj_project_quota = None,
     pj_status = ''active'', pj_is_default = is_default, pj_model_policy = ''allow_all'', pj_created_at = 0, pj_updated_at = 0\<rparr>"

definition three_projects :: tenancy where
  "three_projects = demo_tenancy\<lparr>t_projects := [demo_project ''a'' True, demo_project ''b'' False, demo_project ''c'' False]\<rparr>"

definition moved_to_b :: tenancy where
  "moved_to_b = three_projects\<lparr>t_projects := [(demo_project ''a'' False)\<lparr>pj_updated_at := 10\<rparr>,
     (demo_project ''b'' True)\<lparr>pj_updated_at := 10\<rparr>, demo_project ''c'' False]\<rparr>"

definition promoting :: "string \<Rightarrow> string list \<Rightarrow> project store_op" where
  "promoting pid ds = sql_tx (\<lambda>_.
     obind (sql (\<lambda>_ s. Inr ((), s\<lparr>t_projects := demoted ds ''alice'' pid 10 (t_projects s)\<rparr>))) (\<lambda>_.
     obind utc_now (\<lambda>now2.
     obind (sql (\<lambda>_. promote_project pid now2)) (\<lambda>p. cok (to_project (xs_repo demo_store) p)))))"

lemma promoting_runs:
  "\<exists>p. run (promoting ''b'' [''a'']) (fair 10 ''x'') n three_projects = (Inr p, Suc n, moved_to_b)"
  "run (promoting ''c'' [''a'']) (fair 10 ''x'') n moved_to_b = (Inl (SqlxError ''23505''), Suc n, moved_to_b)"
  by (simp_all add: promoting_def transacted_def run_atomic run_obind run_observe run_stmt_calm utc_now_def demoted_def promote_project_def
      update_where_def updated_row_def fetch_one_def res_bind_def default_uidx_def three_projects_def moved_to_b_def demo_project_def)

lemma hop_reads:
  assumes "pid \<in> {''b'', ''c''}" "i < length ts"
    and "pool_reach (orderly delivered) \<lparr>threads = ts[i := Some (promoting pid [''a''])], held = h, store = three_projects\<rparr> c"
  shows "pool_reach (orderly delivered)
    \<lparr>threads = ts[i := Some (set_default_project (xs_repo demo_store) ''alice'' pid)], held = h, store = three_projects\<rparr> c"
proof -
  have 1: "run (sql_query (\<lambda>s. Inr (map_option pj_account_id (visible_project ''alice'' pid s)))) (fair 10 ''x'') 0 three_projects =
      (Inr (Some ''alice''), 1, three_projects)"
    using assms(1) by (auto simp: run_query_calm visible_project_def visible_def three_projects_def demo_project_def)
  have 2: "run (or_not_found (Some ''alice'')) (fair 10 ''x'') 0 three_projects = (Inr ''alice'', 0, three_projects)"
    by (simp add: or_not_found_def)
  have 3: "run utc_now (fair 10 ''x'') 0 three_projects = (Inr 10, 1, three_projects)"
    by (simp add: utc_now_def run_observe)
  have 4: "run (sql_query (\<lambda>s. Inr (map pj_id (filter (\<lambda>p. pj_account_id p = ''alice'' \<and> pj_is_default p \<and> pj_id p \<noteq> pid) (t_projects s)))))
      (fair 10 ''x'') 0 three_projects = (Inr [''a''], 1, three_projects)"
    using assms(1) by (auto simp: run_query_calm three_projects_def demo_project_def)
  have free: "lock_free (or_not_found (Some ''alice''))" "lock_free (utc_now :: int store_op)" by (simp_all add: or_not_found_def utc_now_def)
  show ?thesis
    unfolding set_default_project_def
    by (rule hop_obind [where W = delivered, OF 1 _ _ assms(2)], simp, simp,
        rule hop_obind [where W = delivered, OF 2 free(1) _ assms(2)], simp,
        rule hop_obind [where W = delivered, OF 3 free(2) _ assms(2)], simp,
        rule hop_obind [where W = delivered, OF 4 _ _ assms(2)], simp, simp)
      (use assms(3) in \<open>simp add: promoting_def\<close>)
qed

text \<open>(default project, race). Two reassignments of an account's default project that have both seen the old default: the one that commits second is refused
  by the unique index, as the comment on \<open>set_default_project\<close> promises, and one default project is left.\<close>

theorem racing_reassignments_refused:
  "\<exists>c p. pool_reach (orderly delivered) (initial [set_default_project (xs_repo demo_store) ''alice'' ''b'',
       set_default_project (xs_repo demo_store) ''alice'' ''c''] three_projects) c \<and>
     threads c = [Some (Ret (Inr p)), Some (Ret (Inl (SqlxError ''23505'')))] \<and>
     map pj_id (filter pj_is_default (t_projects (store c))) = [''b'']"
proof -
  let ?p = "\<lambda>pid. set_default_project (xs_repo demo_store) ''alice'' pid"
  obtain p where b: "run (promoting ''b'' [''a'']) (fair 10 ''x'') 0 three_projects = (Inr p, Suc 0, moved_to_b)"
    using promoting_runs(1) by blast
  have free: "lock_free (promoting pid ds)" for pid ds by (simp add: promoting_def)
  have ret: "pbind m Ret = m" for m :: "project store_op" by (induction m) auto
  have 1: "pool_reach (orderly delivered) \<lparr>threads = [Some (Ret (Inr p)), Some (promoting ''c'' [''a''])], held = h, store = moved_to_b\<rparr>
      \<lparr>threads = [Some (Ret (Inr p)), Some (Ret (Inl (SqlxError ''23505'')))], held = h, store = moved_to_b\<rparr>" for h
    using hop_pbind [where W = delivered and i = 1 and ts = "[Some (Ret (Inr p)), None]" and k = Ret, OF promoting_runs(2) [of 0] free _ _ pool_reach.start]
    by (simp add: ret)
  have 2: "pool_reach (orderly delivered) \<lparr>threads = [Some (promoting ''b'' [''a'']), Some (promoting ''c'' [''a''])], held = h, store = three_projects\<rparr>
      \<lparr>threads = [Some (Ret (Inr p)), Some (Ret (Inl (SqlxError ''23505'')))], held = h, store = moved_to_b\<rparr>" for h
    using hop_pbind [where W = delivered and i = 0 and ts = "[None, Some (promoting ''c'' [''a''])]" and k = Ret, OF b free] 1
    by (simp add: ret)
  have 3: "pool_reach (orderly delivered) \<lparr>threads = [Some (promoting ''b'' [''a'']), Some (?p ''c'')], held = h, store = three_projects\<rparr>
      \<lparr>threads = [Some (Ret (Inr p)), Some (Ret (Inl (SqlxError ''23505'')))], held = h, store = moved_to_b\<rparr>" for h
    using hop_reads [of "''c''" 1 "[Some (promoting ''b'' [''a'']), None]"] 2 by simp
  have "pool_reach (orderly delivered) \<lparr>threads = [Some (?p ''b''), Some (?p ''c'')], held = \<lambda>_. None, store = three_projects\<rparr>
      \<lparr>threads = [Some (Ret (Inr p)), Some (Ret (Inl (SqlxError ''23505'')))], held = \<lambda>_. None, store = moved_to_b\<rparr>"
    using hop_reads [of "''b''" 0 "[None, Some (?p ''c'')]"] 3 by simp
  then show ?thesis
    by (intro exI [of _ "\<lparr>threads = [Some (Ret (Inr p)), Some (Ret (Inl (SqlxError ''23505'')))], held = \<lambda>_. None, store = moved_to_b\<rparr>"] exI [of _ p])
      (simp add: initial_def moved_to_b_def demo_project_def)
qed

subsection \<open>The statements at this deployment\<close>

lemma lock_free_revoke: "lock_free (authz_revoke_api_key subj k)"
  unfolding authz_revoke_api_key_def set_api_key_status_def update_visible_key_def or_not_found_def utc_now_def
  by (auto intro!: lock_free_obind split: option.split)

lemma lock_free_introspect: "lock_free (introspect_api_key os token)"
  unfolding introspect_api_key_def introspect_api_key_row_def introspect_exchange_token_def validate_api_key_context_def
    resolve_exchange_token_context_def verify_self_issued_token_def project_member_role_def project_member_quota_tier_def
    find_api_key_validation_by_hash_def record_api_key_usage_def utc_now_def get_project_by_id_def or_not_found_def get_account_by_id_def
    load_account_row_optional_def list_verification_jwks_def resolve_context_def Let_def
  by (auto intro!: lock_free_obind lock_free_pbind split: option.split sum.split)

definition demo_calls :: "tenant_call list" where
  "demo_calls = [RevokeApiKeyCall ''alice'' ''k1'', IntrospectCall ''sk1'']"

lemma demo_calls_in_turn:
  "pool_reach (orderly delivered) (initial (map (serve_tenant demo_deps) demo_calls) (keyed [demo_key]))
     \<lparr>threads = [Some (Ret (KeyReply (Inr (to_api_key revoked_demo)))), Some (Ret (IntrospectReply (Inr inactive)))],
      held = (\<lambda>_. None), store = keyed [revoked_demo]\<rparr>"
proof -
  let ?q = "pbind (introspect_api_key demo_opa ''sk1'') (\<lambda>r. Ret (IntrospectReply r))"
  have "pool_reach (orderly delivered) \<lparr>threads = [t, Some ?q], held = h, store = keyed [revoked_demo]\<rparr>
      \<lparr>threads = [t, Some (Ret (IntrospectReply (Inr inactive)))], held = h, store = keyed [revoked_demo]\<rparr>" for t h
    using hop_pbind [OF demo_refuses [of i 0] lock_free_introspect, of delivered 1 "[t, None]" "\<lambda>r. Ret (IntrospectReply r)",
        OF _ _ pool_reach.start] by simp
  then have "pool_reach (orderly delivered)
      \<lparr>threads = [Some (pbind (authz_revoke_api_key ''alice'' ''k1'') (\<lambda>r. Ret (KeyReply r))), Some ?q], held = h, store = keyed [demo_key]\<rparr>
      \<lparr>threads = [Some (Ret (KeyReply (Inr (to_api_key revoked_demo)))), Some (Ret (IntrospectReply (Inr inactive)))],
       held = h, store = keyed [revoked_demo]\<rparr>" for h
    using hop_pbind [OF demo_revokes [of i 0] lock_free_revoke, of delivered 0 "[None, Some ?q]" "\<lambda>r. Ret (KeyReply r)"] by simp
  then show ?thesis by (simp add: initial_def demo_calls_def replied_def demo_deps_def)
qed


lemma demo_idle:
  "pool_reach (orderly delivered) (initial (map (serve_tenant demo_deps) [IntrospectCall ''sk1'']) (keyed [revoked_demo]))
     \<lparr>threads = [Some (Ret (IntrospectReply (Inr inactive)))], held = (\<lambda>_. None), store = keyed [revoked_demo]\<rparr>"
proof -
  have "run (serve_tenant demo_deps (IntrospectCall ''sk1'')) (fair 150 ''x'') 0 (keyed [revoked_demo]) =
      (IntrospectReply (Inr inactive), 2, keyed [revoked_demo])"
    by (simp add: replied_def run_pbind demo_deps_def demo_refuses)
  then show ?thesis
    using pool_alone [of "serve_tenant demo_deps (IntrospectCall ''sk1'')" "fair 150 ''x''" "keyed [revoked_demo]" _ _ _ delivered]
    by (simp add: replied_def lock_free_pbind lock_free_introspect)
qed

theorem revoked_key_stays_dead_witness:
  "dead (oi_hash (td_opa demo_deps) ''sk1'') ''k1'' (keyed [revoked_demo]) \<and> \<not> list_ex deletes [IntrospectCall ''sk1''] \<and>
   \<not> list_ex (revives ''k1'') [IntrospectCall ''sk1''] \<and>
   (\<exists>c resp. pool_reach (orderly delivered) (initial (map (serve_tenant demo_deps) [IntrospectCall ''sk1'']) (keyed [revoked_demo])) c \<and>
      threads c = [Some (Ret (IntrospectReply (Inr resp)))] \<and> resp = inactive)"
proof (intro conjI exI)
  let ?calls = "[IntrospectCall ''sk1'']"
  show dead: "dead (oi_hash (td_opa demo_deps) ''sk1'') ''k1'' (keyed [revoked_demo])" by (simp add: dead_def key_demo_defs)
  show calls: "\<not> list_ex deletes ?calls" "\<not> list_ex (revives ''k1'') ?calls" by (simp_all add: revives_def)
  show "inactive = inactive"
    by (rule revoked_key_stays_dead [OF dead _ calls demo_idle, of 0]) (simp_all add: key_demo_defs)
qed (rule demo_idle, simp)

theorem introspection_active_witness:
  "\<exists>resp. integrity (keyed [demo_key]) \<and> result_of (introspect_api_key demo_opa ''sk1'') (fair 150 ''x'') (keyed [demo_key]) = Inr resp \<and>
     ir_active resp \<and> ir_api_key_id resp = Some ''k1'' \<and>
     (key_backed demo_opa ''sk1'' 150 (keyed [demo_key]) resp \<or> session_backed demo_opa ''sk1'' 150 (keyed [demo_key]) resp)"
proof -
  obtain resp n' s' where r: "run (introspect_api_key demo_opa ''sk1'') (fair 150 ''x'') 0 (keyed [demo_key]) = (Inr resp, n', s')"
    "ir_active resp" "ir_api_key_id resp = Some ''k1''" using demo_accepts by blast
  with introspection_active [OF demo_integrity(1) r(1,2)] demo_integrity(1) show ?thesis
    by (auto simp: result_of_def)
qed

theorem api_key_created_witness:
  "\<exists>out n' s' e. run (authz_create_api_key demo_authz ''alice'' None ''proj''
       \<lparr>ck_name = ''ci'', ck_expires_at = Some 1000000000, ck_billing_plan = ''free''\<rparr>) (fair 50 ''k2'') 0 (keyed [demo_key]) = (Inr out, n', s') \<and>
     leads (keyed [demo_key]) ''proj'' ''alice'' \<and> ak_key_hash (ke_row e) = SECRET_PREFIX @ ''k2'' \<and> ak_created_at (ke_row e) = 50 \<and>
     t_api_keys s' = t_api_keys (keyed [demo_key]) @ [e]"
proof -
  obtain out n' s' where r: "run (authz_create_api_key demo_authz ''alice'' None ''proj''
       \<lparr>ck_name = ''ci'', ck_expires_at = Some 1000000000, ck_billing_plan = ''free''\<rparr>) (fair 50 ''k2'') 0 (keyed [demo_key]) = (Inr out, n', s')"
    "ks_secret out = SECRET_PREFIX @ ''k2''" using demo_creates by blast
  with api_key_created [OF r(1)] show ?thesis by (auto simp: issued_as_def demo_authz_def demo_lib_def)
qed

theorem api_key_rotated_witness:
  "\<exists>out n' s' r' new. integrity (keyed [revoked_demo]) \<and>
     run (authz_rotate_api_key demo_authz ''bob'' None ''k1'' (with_grace 60)) (fair 200 ''k2'') 0 (keyed [revoked_demo]) = (Inr out, n', s') \<and>
     retires 200 (Some 60) revoked_demo r' \<and> ak_expires_at r' = Some 60000200 \<and>
     ak_key_hash (ke_row (new :: api_key_entry)) = SECRET_PREFIX @ ''k2'' \<and> map ke_row (t_api_keys s') = [r', ke_row new]"
proof -
  obtain out n' s' where r: "run (authz_rotate_api_key demo_authz ''bob'' None ''k1'' (with_grace 60)) (fair 200 ''k2'') 0 (keyed [revoked_demo]) =
     (Inr out, n', s')" "ks_secret out = SECRET_PREFIX @ ''k2''" using demo_rotates by blast
  have id: "ak_id revoked_demo = ''k1''" "ak_expires_at revoked_demo = Some 1000000000" by (simp_all add: revoked_demo_def demo_key_def)
  from api_key_rotated [OF demo_integrity(2) r(1)] obtain e r' new requested where "e \<in> set (t_api_keys (keyed [revoked_demo]))"
    "retires 200 (rk_grace_period_seconds (with_grace 60)) (ke_row e) r'"
    "issued_as demo_authz ''bob'' (ak_project_id (ke_row e)) 200 requested out new"
    "s' = (keyed [revoked_demo])\<lparr>t_api_keys := map (\<lambda>k. if ak_id (ke_row k) = ''k1'' then e\<lparr>ke_row := r'\<rparr> else k)
        (t_api_keys (keyed [revoked_demo])) @ [new]\<rparr>"
    by (auto simp: fair_def)
  then have "retires 200 (Some 60) revoked_demo r'" "ak_key_hash (ke_row new) = SECRET_PREFIX @ ''k2''"
    "map ke_row (t_api_keys s') = [r', ke_row new]"
    using r(2) by (simp_all add: issued_as_def demo_authz_def demo_lib_def with_grace_def keyed_def id)
  moreover from this(1) have "ak_expires_at r' = Some 60000200" by (simp add: retires_def id seconds_def)
  ultimately show ?thesis using r(1) demo_integrity(2) by (intro exI conjI)
qed

end
