(* ===== verification/Mcp_Facts.thy ===== *)
theory Mcp_Facts
  imports Mcp_Server Key_Demo
begin

text \<open>
  What the two surfaces of the tenancy services have in common: a tool does what the RPC procedure its description names does, under
  the same permission, and a tool call that is not authorized does nothing.
\<close>

subsection \<open>Authorization\<close>

text \<open>The token an \<open>Authorization\<close> header carries: what follows the scheme, whose case does not matter.\<close>

definition carried_token :: "string option \<Rightarrow> string option" where
  "carried_token header = Option.bind header (\<lambda>v.
     let h = str_trim v in
     if map lower_ascii (take 7 h) = ''bearer '' then Some (str_trim (drop 7 h)) else None)"

lemma bearer_token_of_eq:
  "bearer_token_of h = (if map lower_ascii (take 7 h) = ''bearer '' then Some (str_trim (drop 7 h)) else None)"
proof -
  have lower: "map lower_ascii ''Bearer '' = ''bearer ''" "map lower_ascii ''bearer '' = ''bearer ''" by code_simp+
  have seven: "length ''Bearer '' = 7" "length ''bearer '' = 7" by simp_all
  have "starts_with ''Bearer '' h \<or> starts_with ''bearer '' h \<Longrightarrow> map lower_ascii (take 7 h) = ''bearer ''"
    unfolding starts_with_def seven using lower by metis
  then show ?thesis
    unfolding bearer_token_of_def strip_prefix_def
    by (cases "starts_with ''Bearer '' h"; cases "starts_with ''bearer '' h")
      (simp_all only: if_True if_False option.case seven starts_with_def [of _ "map lower_ascii h"] take_map simp_thms)
qed

lemma bearer_auth_eq:
  "bearer_auth bearer header = Option.bind (carried_token header) (\<lambda>token.
     case bearer token of Inr info \<Rightarrow> if active_token info then Some info else None | Inl _ \<Rightarrow> None)"
  by (cases header) (auto simp: bearer_auth_def carried_token_def bearer_token_of_eq Let_def)

text \<open>C13 (tools are authorized). A request to the MCP endpoint runs the tool it names, as the subject of the token in its \<open>Authorization\<close>
  header, exactly when the token service accepts that token as active and the token has the permission of the tool; every other request is answered
  at once, without a result and without a statement to the database.\<close>

theorem mcp_call_authorized:
  "if \<exists>token info c p. carried_token header = Some token \<and> bearer token = Inr info \<and> active_token info \<and> request = Calls c \<and>
        required_tool_permission (tool_name c) = Some p \<and> has_permission info p
   then \<exists>token info c. carried_token header = Some token \<and> bearer token = Inr info \<and> request = Calls c \<and>
        mcp_endpoint d bearer header request = replied Some (run_tool d \<lparr>mc_parts = Some (Some info)\<rparr> c)
   else \<exists>answer. mcp_endpoint d bearer header request = Ret answer \<and> (\<forall>out. answer \<noteq> Some (Inr out))"
proof (cases "bearer_auth bearer header")
  case None
  then have "\<not> (\<exists>token info. carried_token header = Some token \<and> bearer token = Inr info \<and> active_token info)"
    by (auto simp: bearer_auth_eq)
  with None show ?thesis by (auto simp: mcp_endpoint_def)
next
  case (Some info)
  then obtain token where carried: "carried_token header = Some token"
    and accepted: "(case bearer token of Inr i \<Rightarrow> if active_token i then Some i else None | Inl _ \<Rightarrow> None) = Some info"
    unfolding bearer_auth_eq bind_eq_Some_conv by blast
  from accepted have "bearer token = Inr info" "active_token info"
    by (cases "bearer token"; auto split: if_splits)+
  note token = carried this
  show ?thesis
    using Some token
    by (cases request)
      (auto simp: mcp_endpoint_def call_tool_def token_info_from_request_context_def token_require_def require_def has_permission_def
        replied_def split: option.splits if_splits sum.splits)
qed

subsection \<open>Agreement with the procedures\<close>

text \<open>What a call answers on the wire, with the text of internal errors left out.\<close>

datatype wire_output =
    WireAccount schema_account | WireProject schema_project | WireRoster "schema_project_member list"
  | WireSecret schema_api_key_secret | WireKey schema_api_key

fun wire_of :: "store_repo \<Rightarrow> tool_output \<Rightarrow> wire_output option" where
  "wire_of repo (OutAccount a) = Some (WireAccount (to_schema_account a))"
| "wire_of repo (OutProject p) = Some (WireProject (to_schema_project repo p))"
| "wire_of repo (OutRoster ms) = Some (WireRoster (map to_schema_project_member ms))"
| "wire_of repo (OutSecret s) = Some (WireSecret (to_schema_api_key_secret s))"
| "wire_of repo (OutKey k) = Some (WireKey (to_schema_api_key k))"
| "wire_of repo _ = None"

fun redacted :: "error_data \<Rightarrow> error_data" where
  "redacted (InternalError _) = InternalError []"
| "redacted e = e"

definition tool_view :: "mcp_deps \<Rightarrow> (error_data, tool_output) result \<Rightarrow> (error_data, wire_output option) result" where
  "tool_view d = map_sum redacted (wire_of (as_repo (md_issuer d)))"

definition rpc_view :: "mcp_deps \<Rightarrow> (cratestack_error, wire_output) result \<Rightarrow> (error_data, wire_output option) result" where
  "rpc_view d = map_sum (\<lambda>e. redacted (cratestack_error_to_tool_error (md_display d) (ClientError e))) Some"

text \<open>The operation the description of a tool names, and its procedure run for a token with the tool's arguments. A rotation with a name,
  an expiry or a grace period has no counterpart: the procedure cannot express it.\<close>

definition answering :: "('a \<Rightarrow> wire_output) \<Rightarrow> 'a tenant_rpc \<Rightarrow> wire_output tenant_rpc" where
  "answering w = replied (map_sum id w)"

fun rpc_twin :: "mcp_deps \<Rightarrow> token_info \<Rightarrow> tool_call \<Rightarrow> (string \<times> wire_output tenant_rpc) option" where
  "rpc_twin d info c =
     (let ctx = build_context info Crud; st = md_issuer d in
      case c of
        CreateAccountTool quota \<Rightarrow> Some (''procedure.createAccount'', answering WireAccount (proc_create_account st ctx quota))
      | UpdateAccountTool a quota \<Rightarrow>
          Some (''procedure.updateAccountDefaultQuota'', answering WireAccount (proc_update_account_default_quota st ctx a quota))
      | DeleteAccountTool a \<Rightarrow> Some (''procedure.deleteAccountPermanently'', answering WireAccount (proc_delete_account_permanently ctx a))
      | DisableAccountTool a \<Rightarrow> Some (''procedure.disableAccount'', answering WireAccount (proc_disable_account ctx a))
      | EnableAccountTool a \<Rightarrow> Some (''procedure.enableAccount'', answering WireAccount (proc_enable_account ctx a))
      | ListProjectRosterTool p \<Rightarrow> Some (''procedure.listProjectRoster'', answering WireRoster (proc_list_project_roster ctx p))
      | AddProjectMemberTool p a role \<Rightarrow>
          Some (''procedure.addProjectMember'', answering WireProject (proc_add_project_member st ctx p a role))
      | RemoveProjectMemberTool p a \<Rightarrow>
          Some (''procedure.removeProjectMember'', answering WireProject (proc_remove_project_member st ctx p a))
      | SetProjectMemberRoleTool p a role \<Rightarrow>
          Some (''procedure.setProjectMemberRole'', answering WireProject (proc_set_project_member_role st ctx p a role))
      | SetProjectMemberQuotaTierTool p a tier \<Rightarrow>
          Some (''procedure.setProjectMemberQuotaTier'', answering WireProject (proc_set_project_member_quota_tier st ctx p a tier))
      | SetProjectQuotaTool p quota \<Rightarrow>
          Some (''procedure.setProjectQuota'', answering WireProject (proc_set_project_quota st ctx p quota))
      | SetProjectAllowedModelsTool p models \<Rightarrow>
          Some (''procedure.setProjectAllowedModels'', answering WireProject (proc_set_project_allowed_models st ctx p
            (map_option (\<lambda>ms. json_to_cratestack_value (JArray (map JString ms))) models)))
      | SetProjectModelPolicyTool p policy \<Rightarrow>
          Some (''procedure.setProjectModelPolicy'', answering WireProject (proc_set_project_model_policy st ctx p policy))
      | DisableProjectTool p \<Rightarrow> Some (''procedure.disableProject'', answering WireProject (proc_disable_project st ctx p))
      | EnableProjectTool p \<Rightarrow> Some (''procedure.enableProject'', answering WireProject (proc_enable_project st ctx p))
      | SetDefaultProjectTool p \<Rightarrow> Some (''procedure.setDefaultProject'', answering WireProject (proc_set_default_project st ctx p))
      | CreateApiKeyTool p name expires_at plan \<Rightarrow>
          map_option (\<lambda>t. (''procedure.createApiKey'', answering WireSecret (proc_create_api_key st ctx p name t plan))) (md_rfc3339 d expires_at)
      | RevokeApiKeyTool k \<Rightarrow> Some (''procedure.revokeApiKey'', answering WireKey (proc_revoke_api_key ctx k))
      | RotateApiKeyTool k name expires_at grace \<Rightarrow>
          if name = None \<and> expires_at = None \<and> grace = None
          then Some (''procedure.rotateApiKey'', answering WireSecret (proc_rotate_api_key st ctx k)) else None
      | _ \<Rightarrow> None)"

lemma replied_replied: "replied f (replied g p) = replied (\<lambda>a. f (g a)) p"
  by (simp add: replied_def pbind_assoc)

lemma context_identity: "subject_from_ctx (build_context info scope) = Some (sub info)"
    "access_token_from_ctx (build_context info scope) = Some (access_token info)"
  by (simp_all add: subject_from_ctx_def auth_field_def build_context_def access_token_from_ctx_def)

lemma models_round_trip:
  "allowed_models_from_json_arg (map_option (\<lambda>ms. json_to_cratestack_value (JArray (map JString ms))) models) = models"
  by (cases models) (simp_all add: allowed_models_from_json_arg_def List.map_filter_def comp_def)

lemma errors_agree: "redacted (cratestack_error_to_tool_error display (ClientError (to_cratestack_error e))) = redacted (to_tool_error e)"
  by (cases e) simp_all

lemma replies_agree:
  assumes "\<And>a. wire_of (as_repo (md_issuer d)) (out a) = Some (w (wire a))"
  shows "replied (rpc_view d) (answering w (tenant_procedure (build_context info scope) operation wire)) =
    replied (tool_view d) (replied (tool_reply out) (operation (sub info)))"
proof -
  have "rpc_view d (map_sum id w (case r of Inl e \<Rightarrow> Inl (to_cratestack_error e) | Inr a \<Rightarrow> Inr (wire a))) = tool_view d (tool_reply out r)" for r
    using assms by (cases r) (simp_all add: rpc_view_def tool_view_def tool_reply_def errors_agree)
  then show ?thesis
    by (simp add: answering_def tenant_procedure_def context_identity replied_replied flip: replied_def)
qed

lemmas procedure_defs = proc_create_account_def proc_update_account_default_quota_def proc_delete_account_permanently_def
  proc_disable_account_def proc_enable_account_def proc_list_project_roster_def proc_add_project_member_def
  proc_remove_project_member_def proc_set_project_member_role_def proc_set_project_member_quota_tier_def proc_set_project_quota_def
  proc_set_project_allowed_models_def proc_set_project_model_policy_def proc_disable_project_def proc_enable_project_def
  proc_set_default_project_def proc_create_api_key_def proc_revoke_api_key_def proc_rotate_api_key_def

lemmas twins_agree =
  replies_agree [where out = OutAccount and w = WireAccount and wire = to_schema_account, simplified]
  replies_agree [where d = d and out = OutProject and w = WireProject and wire = "to_schema_project (as_repo (md_issuer d))" for d, simplified]
  replies_agree [where out = OutRoster and w = WireRoster and wire = "map to_schema_project_member", simplified]
  replies_agree [where out = OutSecret and w = WireSecret and wire = to_schema_api_key_secret, simplified]
  replies_agree [where out = OutKey and w = WireKey and wire = to_schema_api_key, simplified]

lemma tool_runs:
  assumes "rpc_twin d info c = Some (op_id, twin)"
  shows "replied (tool_view d) (run_tool d \<lparr>mc_parts = Some (Some info)\<rparr> c) = replied (rpc_view d) twin"
  using assms
  by (cases c)
    (auto simp: procedure_defs tool_defs twins_agree models_round_trip [simplified] context_identity issuer_tool_def with_token_def
      subject_from_request_context_def token_info_from_request_context_def parse_required_datetime_def parse_optional_datetime_def
      transpose_map_def Let_def split: if_splits)

definition twin_ops :: "(string \<times> string) list" where
  "twin_ops =
     [(''create-account'', ''procedure.createAccount''), (''update-account'', ''procedure.updateAccountDefaultQuota''),
      (''delete-account'', ''procedure.deleteAccountPermanently''), (''disable-account'', ''procedure.disableAccount''),
      (''enable-account'', ''procedure.enableAccount''), (''list-project-roster'', ''procedure.listProjectRoster''),
      (''add-project-member'', ''procedure.addProjectMember''), (''remove-project-member'', ''procedure.removeProjectMember''),
      (''set-project-member-role'', ''procedure.setProjectMemberRole''),
      (''set-project-member-quota-tier'', ''procedure.setProjectMemberQuotaTier''), (''set-project-quota'', ''procedure.setProjectQuota''),
      (''set-project-allowed-models'', ''procedure.setProjectAllowedModels''),
      (''set-project-model-policy'', ''procedure.setProjectModelPolicy''), (''disable-project'', ''procedure.disableProject''),
      (''enable-project'', ''procedure.enableProject''), (''set-default-project'', ''procedure.setDefaultProject''),
      (''create-api-key'', ''procedure.createApiKey''), (''revoke-api-key'', ''procedure.revokeApiKey''),
      (''rotate-api-key'', ''procedure.rotateApiKey'')]"

lemma twin_ops_checked:
  "list_all (\<lambda>(tool, op_id). required_tool_permission tool = required_permission op_id \<and> permits Crud op_id) twin_ops"
  by code_simp

lemma tool_permission:
  assumes "rpc_twin d info c = Some (op_id, twin)"
  shows "required_tool_permission (tool_name c) = required_permission op_id \<and> permits Crud op_id"
proof -
  have "(tool_name c, op_id) \<in> set twin_ops"
    using assms by (cases c) (auto simp: Let_def twin_ops_def split: if_splits)
  then show ?thesis using twin_ops_checked by (auto simp: list_all_iff)
qed

text \<open>C12 (tools do what procedures do). A tool whose description names an RPC procedure needs exactly the permission the RPC gate
  requires for that procedure, which the CRUD scope serves; it takes the same steps on the database, under every interleaving, as
  the procedure called with the same token and arguments, and answers the same row on success and, up to the text of internal
  errors, the error the client of the generated procedures would be shown.\<close>

theorem mcp_agrees_with_rpc:
  assumes "rpc_twin d info c = Some (op_id, twin)"
  shows "required_tool_permission (tool_name c) = required_permission op_id \<and> permits Crud op_id \<and>
    replied (tool_view d) (run_tool d \<lparr>mc_parts = Some (Some info)\<rparr> c) = replied (rpc_view d) twin"
  using tool_runs [OF assms] tool_permission [OF assms] by simp

subsection \<open>A deployment\<close>

definition demo_mcp :: mcp_deps where
  "demo_mcp = \<lparr>md_issuer = demo_authz, md_opa = demo_opa, md_find_many = (\<lambda>_ _. Ret (Inr [])), md_find_unique = (\<lambda>_ _ _. Ret (Inr None)),
     md_write = (\<lambda>_ _. Ret (Inl (CsOther ''none''))), md_rfc3339 = (\<lambda>_. None), md_display = (\<lambda>_. ''internal'')\<rparr>"

definition demo_caller :: token_info where
  "demo_caller = \<lparr>active_token = True, sub = ''alice'', exp_at = 1000, aud = [], roles = [], permissions = {ApiKeyRevoke}, caller_kind = None,
     access_token = ''t''\<rparr>"

lemma demo_revocation_tool:
  "run (run_tool demo_mcp \<lparr>mc_parts = Some (Some demo_caller)\<rparr> (RevokeApiKeyTool ''k1'')) (fair 100 ''x'') 0 (keyed [demo_key]) =
   (Inr (OutKey (to_api_key revoked_demo)), 2, keyed [revoked_demo])"
  by (simp add: tool_defs issuer_tool_def subject_from_request_context_def token_info_from_request_context_def demo_caller_def replied_def run_pbind
      demo_revokes tool_reply_def)

text \<open>The owner revokes a key through either surface.\<close>

theorem mcp_agrees_with_rpc_witness:
  "required_tool_permission ''revoke-api-key'' = required_permission ''procedure.revokeApiKey'' \<and>
   run (replied (rpc_view demo_mcp) (answering WireKey (proc_revoke_api_key (build_context demo_caller Crud) ''k1'')))
     (fair 100 ''x'') 0 (keyed [demo_key]) = (Inr (Some (WireKey (to_schema_api_key (to_api_key revoked_demo)))), 2, keyed [revoked_demo])"
proof -
  have twin: "rpc_twin demo_mcp demo_caller (RevokeApiKeyTool ''k1'') =
      Some (''procedure.revokeApiKey'', answering WireKey (proc_revoke_api_key (build_context demo_caller Crud) ''k1''))"
    by simp
  note agree = mcp_agrees_with_rpc [OF twin]
  have "run (replied (tool_view demo_mcp) (run_tool demo_mcp \<lparr>mc_parts = Some (Some demo_caller)\<rparr> (RevokeApiKeyTool ''k1'')))
      (fair 100 ''x'') 0 (keyed [demo_key]) = (Inr (Some (WireKey (to_schema_api_key (to_api_key revoked_demo)))), 2, keyed [revoked_demo])"
    unfolding replied_def [of "tool_view demo_mcp"] run_pbind demo_revocation_tool by (simp add: tool_view_def)
  with agree show ?thesis by simp
qed

end
