(* ===== verification/Mcp_Discovery.thy ===== *)
theory Mcp_Discovery
  imports Mcp_Facts
begin

text \<open>
  app/lightbridge-authz/src/mcp.rs, the public side of the MCP server: the OAuth endpoints it derives from the configuration, the
  discovery documents and the proxy for client registration; and what the two middlewares let through. URL parsing and the HTTP
  client are arguments. A header that is present but not text is \<open>Some None\<close>.
\<close>

subsection \<open>Endpoints\<close>

record parsed_url =
  pu_scheme :: string
  pu_host :: "string option"
  pu_port :: "nat option"
  pu_path :: string

definition strip_suffix :: "string \<Rightarrow> string \<Rightarrow> string option" where
  "strip_suffix suf s = (if suffix suf s then Some (take (length s - length suf) s) else None)"

definition issuer_from_jwks_url :: "(string \<Rightarrow> parsed_url option) \<Rightarrow> string \<Rightarrow> string option" where
  "issuer_from_jwks_url parse jwks_url =
     Option.bind (parse jwks_url) (\<lambda>u.
     Option.bind (pu_host u) (\<lambda>host.
     Option.bind (strip_suffix ''/protocol/openid-connect/certs'' (pu_path u)) (\<lambda>realm_path.
     Some (pu_scheme u @ ''://'' @ host @ (case pu_port u of None \<Rightarrow> [] | Some port \<Rightarrow> '':'' @ dec_of_nat port) @ realm_path))))"

definition is_slash :: "char \<Rightarrow> bool" where
  "is_slash c \<longleftrightarrow> c = CHR ''/''"

definition trim_end_slashes :: "string \<Rightarrow> string" where
  "trim_end_slashes s = rev (dropWhile is_slash (rev s))"

definition join_issuer_path :: "string \<Rightarrow> string \<Rightarrow> string" where
  "join_issuer_path issuer path = trim_end_slashes issuer @ ''/'' @ dropWhile is_slash path"

record oauth2_urls =
  ou_issuer_url :: "string option"
  ou_jwks_url :: string
  ou_authorization_endpoint :: "string option"
  ou_token_endpoint :: "string option"
  ou_oauth2_url :: "string option"
  ou_registration_endpoint :: "string option"

record resolved_endpoints =
  re_issuer :: string
  re_authorization_endpoint :: string
  re_token_endpoint :: string
  re_registration_endpoint :: string
  re_jwks_uri :: string

definition resolve_oauth2_endpoints :: "(string \<Rightarrow> parsed_url option) \<Rightarrow> oauth2_urls \<Rightarrow> resolved_endpoints option" where
  "resolve_oauth2_endpoints parse cfg =
     map_option (\<lambda>issuer.
       \<lparr>re_issuer = issuer,
        re_authorization_endpoint = coalesce (ou_authorization_endpoint cfg) (join_issuer_path issuer ''protocol/openid-connect/auth''),
        re_token_endpoint = (case ou_token_endpoint cfg of
            Some url \<Rightarrow> url
          | None \<Rightarrow> coalesce (ou_oauth2_url cfg) (join_issuer_path issuer ''protocol/openid-connect/token'')),
        re_registration_endpoint = coalesce (ou_registration_endpoint cfg) (join_issuer_path issuer ''clients-registrations/openid-connect''),
        re_jwks_uri = ou_jwks_url cfg\<rparr>)
       (case ou_issuer_url cfg of Some i \<Rightarrow> Some i | None \<Rightarrow> issuer_from_jwks_url parse (ou_jwks_url cfg))"

definition oauth_metadata_response :: "resolved_endpoints \<Rightarrow> string \<Rightarrow> json" where
  "oauth_metadata_response e registration_endpoint = JObject
     [(''issuer'', JString (re_issuer e)),
      (''authorization_endpoint'', JString (re_authorization_endpoint e)),
      (''token_endpoint'', JString (re_token_endpoint e)),
      (''jwks_uri'', JString (re_jwks_uri e)),
      (''registration_endpoint'', JString registration_endpoint),
      (''response_types_supported'', JArray [JString ''code'']),
      (''grant_types_supported'', JArray [JString ''authorization_code'', JString ''refresh_token'', JString ''client_credentials'']),
      (''token_endpoint_auth_methods_supported'', JArray [JString ''client_secret_basic'', JString ''client_secret_post'']),
      (''code_challenge_methods_supported'', JArray [JString ''S256''])]"

subsection \<open>Requests\<close>

record mcp_headers =
  mh_forwarded_host :: "string option option"
  mh_host :: "string option option"
  mh_forwarded_proto :: "string option option"
  mh_authorization :: "string option option"

definition text_of :: "string option option \<Rightarrow> string option" where
  "text_of h = Option.bind h id"

definition request_origin :: "mcp_headers \<Rightarrow> string option" where
  "request_origin h =
     map_option (\<lambda>host.
       (case text_of (mh_forwarded_proto h) of Some v \<Rightarrow> if is_blank v then ''https'' else v | None \<Rightarrow> ''https'') @ ''://'' @ str_trim host)
       (text_of (if mh_forwarded_host h \<noteq> None then mh_forwarded_host h else mh_host h))"

definition registration_endpoint_for_request :: "mcp_headers \<Rightarrow> string \<Rightarrow> string" where
  "registration_endpoint_for_request h fallback =
     (case request_origin h of Some origin \<Rightarrow> trim_end_slashes origin @ ''/oauth/register'' | None \<Rightarrow> fallback)"

definition fallback_registration_endpoint :: "string \<Rightarrow> nat \<Rightarrow> string" where
  "fallback_registration_endpoint address port = ''https://'' @ address @ '':'' @ dec_of_nat port @ ''/oauth/register''"

record proxy_state =
  ps_endpoints :: "resolved_endpoints option"
  ps_fallback :: string

record http_response =
  rs_status :: nat
  rs_content_type :: "string option"
  rs_body :: "json + string"

definition server_error :: "nat \<Rightarrow> string \<Rightarrow> string \<Rightarrow> http_response" where
  "server_error status code description = \<lparr>rs_status = status, rs_content_type = Some ''application/json'',
     rs_body = Inl (JObject [(''error'', JString code), (''error_description'', JString description)])\<rparr>"

definition oauth_authorization_server_metadata_handler :: "proxy_state \<Rightarrow> mcp_headers \<Rightarrow> http_response" where
  "oauth_authorization_server_metadata_handler st h =
     (case ps_endpoints st of
        None \<Rightarrow> server_error 500 ''server_error'' ''OAuth2 issuer URL could not be derived from configuration''
      | Some e \<Rightarrow> \<lparr>rs_status = 200, rs_content_type = Some ''application/json'',
          rs_body = Inl (oauth_metadata_response e (registration_endpoint_for_request h (ps_fallback st)))\<rparr>)"

text \<open>What the upstream answers: a status, a content type, and the body or an error reading it.\<close>

type_synonym upstream_reply = "(string, nat \<times> string option \<times> (string, string) result) result"

definition oauth_register_handler ::
  "(string \<Rightarrow> string option \<Rightarrow> json \<Rightarrow> upstream_reply) \<Rightarrow> proxy_state \<Rightarrow> mcp_headers \<Rightarrow> json \<Rightarrow> http_response" where
  "oauth_register_handler send st h payload =
     (case ps_endpoints st of
        None \<Rightarrow> server_error 500 ''server_error'' ''OAuth2 registration endpoint could not be derived from configuration''
      | Some e \<Rightarrow>
          (case send (re_registration_endpoint e) (text_of (mh_authorization h)) payload of
             Inl err \<Rightarrow> server_error 502 ''bad_gateway'' (''failed to reach upstream registration endpoint: '' @ err)
           | Inr (status, content_type, Inl err) \<Rightarrow>
               server_error 502 ''bad_gateway'' (''failed to read upstream registration response: '' @ err)
           | Inr (status, content_type, Inr body) \<Rightarrow>
               \<lparr>rs_status = status, rs_content_type = content_type, rs_body = Inr body\<rparr>))"

subsection \<open>What the parts promise\<close>

lemma trim_end_slashes_end: "trim_end_slashes s \<noteq> [] \<Longrightarrow> \<not> is_slash (last (trim_end_slashes s))"
  by (metis dropWhile_eq_Nil_conv hd_dropWhile last_rev rev_is_Nil_conv trim_end_slashes_def)

text \<open>Exactly one slash stands between an issuer and the path joined to it, whatever slashes they came with.\<close>

lemma join_issuer_path_slashes:
  "join_issuer_path (issuer @ replicate n CHR ''/'') (replicate m CHR ''/'' @ path) = join_issuer_path issuer path"
proof -
  have "dropWhile is_slash (replicate k CHR ''/'' @ s) = dropWhile is_slash s" for k s by (induction k) (simp_all add: is_slash_def)
  then show ?thesis by (simp add: join_issuer_path_def trim_end_slashes_def)
qed

text \<open>With a Keycloak JWKS URL and nothing else configured the issuer is the realm's URL.\<close>

lemma keycloak_issuer:
  assumes "parse url = Some \<lparr>pu_scheme = ''https'', pu_host = Some host, pu_port = None, pu_path = realm @ ''/protocol/openid-connect/certs''\<rparr>"
  shows "issuer_from_jwks_url parse url = Some (''https://'' @ host @ realm)"
  using assms by (simp add: issuer_from_jwks_url_def strip_suffix_def suffix_def)

lemma splitn_colon_eq: "splitn_colon s = (u, p) \<longleftrightarrow> CHR '':'' \<notin> set u \<and> (s = u @ CHR '':'' # p \<or> s = u \<and> p = [])"
proof
  assume "splitn_colon s = (u, p)"
  then have u: "u = takeWhile (\<lambda>c. c \<noteq> CHR '':'') s" and p: "p = drop 1 (dropWhile (\<lambda>c. c \<noteq> CHR '':'') s)"
    by (auto simp: splitn_colon_def)
  have "CHR '':'' \<notin> set u" using set_takeWhileD by (fastforce simp: u)
  moreover have "s = u @ CHR '':'' # p \<or> s = u \<and> p = []"
  proof (cases "dropWhile (\<lambda>c. c \<noteq> CHR '':'') s")
    case (Cons c cs)
    then have "c = CHR '':''" by (metis (mono_tags) hd_dropWhile list.sel(1) list.distinct(1))
    then show ?thesis using takeWhile_dropWhile_id [of "\<lambda>c. c \<noteq> CHR '':''" s] Cons by (simp add: u p)
  next
    case Nil
    then have "s = u" unfolding u by (metis append_Nil2 takeWhile_dropWhile_id)
    moreover have "p = []" unfolding p Nil by simp
    ultimately show ?thesis by blast
  qed
  ultimately show "CHR '':'' \<notin> set u \<and> (s = u @ CHR '':'' # p \<or> s = u \<and> p = [])" by blast
next
  assume asm: "CHR '':'' \<notin> set u \<and> (s = u @ CHR '':'' # p \<or> s = u \<and> p = [])"
  then have other: "\<And>c. c \<in> set u \<Longrightarrow> c \<noteq> CHR '':''" by blast
  let ?P = "\<lambda>c. c \<noteq> CHR '':''"
  have all: "takeWhile ?P u = u" "dropWhile ?P u = []" using other by simp_all
  have more: "takeWhile ?P (u @ CHR '':'' # p) = u" "dropWhile ?P (u @ CHR '':'' # p) = CHR '':'' # p"
    using takeWhile_append2 [of u ?P] dropWhile_append2 [of u ?P] other by simp_all
  from asm consider "s = u @ CHR '':'' # p" | "s = u" "p = []" by blast
  then show "splitn_colon s = (u, p)"
    by cases (simp only: splitn_colon_def all more drop_Suc_Cons drop_0 One_nat_def drop_Nil)+
qed

text \<open>Basic authentication lets a request through exactly when its credentials are the configured ones, a user name with a colon never;
  without a configured password the colon may be missing.\<close>

lemma basic_auth_exact:
  "basic_auth decode user pass header \<longleftrightarrow> (\<exists>v credentials. header = Some v \<and> starts_with ''Basic '' (str_trim v) \<and>
     decode (trim_start_matches ''Basic '' (str_trim v)) = Some credentials \<and> CHR '':'' \<notin> set user \<and>
     (credentials = user @ CHR '':'' # pass \<or> credentials = user \<and> pass = []))"
  by (auto simp: basic_auth_def Let_def splitn_colon_eq simp del: trim_start_matches.simps split: option.split)

end
