(* ===== verification/Server_Config.thy ===== *)
theory Server_Config
  imports Mcp_Discovery
begin

text \<open>
  core/src/config/mod.rs, the interpolation of environment variables into the configuration, and from rest/src/lib.rs the parts of
  startup that are more than wiring: the base path of the RPC surface, the mount parameters of the discovery routes, the checks in front
  of the token endpoint and the Redis client. YAML, reading files and the Redis library are arguments.
\<close>

subsection \<open>Interpolation\<close>

text \<open>The expression is \<open>$NAME\<close> or \<open>${NAME}\<close>, \<open>${NAME-default}\<close>, \<open>${NAME:-default}\<close> with a default that has no closing brace.\<close>

definition ident_start :: "char \<Rightarrow> bool" where
  "ident_start c \<longleftrightarrow> (let n = (of_char c :: nat) in 97 \<le> n \<and> n \<le> 122 \<or> 65 \<le> n \<and> n \<le> 90) \<or> c = CHR ''_''"

definition ident_char :: "char \<Rightarrow> bool" where
  "ident_char c \<longleftrightarrow> ident_start c \<or> is_digit c"

definition ident :: "string \<Rightarrow> (string \<times> string) option" where
  "ident s = (case s of [] \<Rightarrow> None
     | c # _ \<Rightarrow> if ident_start c then Some (takeWhile ident_char s, dropWhile ident_char s) else None)"

datatype default_operator = NoDefault | IfUnset string | IfEmpty string

text \<open>What stands between a name and its closing brace, and what follows the brace.\<close>

definition close_brace :: "(string \<Rightarrow> default_operator) \<Rightarrow> string \<Rightarrow> (default_operator \<times> string) option" where
  "close_brace operator s =
     (let body = takeWhile (\<lambda>c. c \<noteq> CHR ''}'') s; rest = dropWhile (\<lambda>c. c \<noteq> CHR ''}'') s in
      if rest = [] then None else Some (operator body, tl rest))"

definition default_part :: "string \<Rightarrow> (default_operator \<times> string) option" where
  "default_part s =
     (case s of
        [] \<Rightarrow> None
      | c # cs \<Rightarrow>
          if c = CHR ''}'' then Some (NoDefault, cs)
          else if starts_with '':-'' s then close_brace IfEmpty (drop 2 s)
          else if c = CHR ''-'' then close_brace IfUnset cs
          else None)"

text \<open>The match at a dollar sign, given what follows it: the name, its default and the rest of the text.\<close>

definition match_variable :: "string \<Rightarrow> (string \<times> default_operator \<times> string) option" where
  "match_variable s =
     (case ident s of
        Some (name, rest) \<Rightarrow> Some (name, NoDefault, rest)
      | None \<Rightarrow>
          (case s of
             [] \<Rightarrow> None
           | c # cs \<Rightarrow>
               if c \<noteq> CHR ''{'' then None
               else Option.bind (ident cs) (\<lambda>(name, t). map_option (\<lambda>(operator, rest). (name, operator, rest)) (default_part t))))"

fun variable_value :: "(string \<Rightarrow> string option) \<Rightarrow> string \<Rightarrow> default_operator \<Rightarrow> string" where
  "variable_value env name NoDefault = coalesce (env name) []"
| "variable_value env name (IfUnset d) = coalesce (env name) d"
| "variable_value env name (IfEmpty d) = (case env name of Some v \<Rightarrow> if v \<noteq> [] then v else d | None \<Rightarrow> d)"

lemma match_variable_shorter: "match_variable s = Some (name, operator, rest) \<Longrightarrow> length rest < length s"
proof -
  have word: "length t < length s" if "ident s = Some (n, t)" for s n t
    using that length_dropWhile_le [of ident_char "tl s"]
    by (auto simp: ident_def ident_char_def split: list.splits if_splits intro: le_imp_less_Suc)
  have close: "length t < length s" if "close_brace f s = Some (operator, t)" for f s t
    using that length_dropWhile_le [of "\<lambda>c. c \<noteq> CHR ''}''" s]
    by (cases "dropWhile (\<lambda>c. c \<noteq> CHR ''}'') s") (auto simp: close_brace_def Let_def)
  have part: "length t < length s" if "default_part s = Some (operator, t)" for s t
    using that close [of IfEmpty "drop 2 s" t] close [of IfUnset "tl s" t]
    by (auto simp: default_part_def split: list.splits if_splits)
  assume "match_variable s = Some (name, operator, rest)"
  then show ?thesis
    using word part by (fastforce simp: match_variable_def bind_eq_Some_conv split: option.splits list.splits if_splits prod.splits)
qed

function interpolate_env_vars :: "(string \<Rightarrow> string option) \<Rightarrow> string \<Rightarrow> string" where
  "interpolate_env_vars env [] = []"
| "interpolate_env_vars env (c # cs) =
     (if c \<noteq> CHR ''$'' then c # interpolate_env_vars env cs
      else case match_variable cs of
        None \<Rightarrow> c # interpolate_env_vars env cs
      | Some (name, operator, rest) \<Rightarrow> variable_value env name operator @ interpolate_env_vars env rest)"
  by pat_completeness auto
termination
  by (relation "measure (\<lambda>(env, s). length s)") (auto dest: match_variable_shorter)

definition load_yaml_from_path ::
  "(string \<Rightarrow> string option) \<Rightarrow> (string \<Rightarrow> string option) \<Rightarrow> (string \<Rightarrow> 'c option) \<Rightarrow> string \<Rightarrow> (core_error, 'c) result" where
  "load_yaml_from_path env read from_str path =
     (case read path of
        None \<Rightarrow> Inl IoError
      | Some content \<Rightarrow> (case from_str (interpolate_env_vars env content) of None \<Rightarrow> Inl YamlError | Some cfg \<Rightarrow> Inr cfg))"

subsection \<open>Startup\<close>

definition normalize_rpc_base_path :: "string option \<Rightarrow> string option" where
  "normalize_rpc_base_path raw =
     Option.bind raw (\<lambda>r.
       let trimmed = trim_end_slashes (str_trim r) in
       if trimmed = [] then None
       else Some (if is_slash (hd trimmed) then trimmed else CHR ''/'' # trimmed))"

record oauth2_server =
  os_self_signed :: bool
  os_signing :: "(string \<times> string option \<times> int) option"
  os_token_exchange :: "exchange_cfg option"
  os_clients :: "oauth_client list"

definition well_known_mount_params :: "oauth2_server \<Rightarrow> string list option \<times> bool" where
  "well_known_mount_params cfg =
     (Option.bind (os_token_exchange cfg) (\<lambda>t. if xc_enabled t then Some (xc_allowed_scopes t) else None),
      list_ex (\<lambda>c. oc_client_type c = Confidential) (os_clients cfg))"

text \<open>\<open>build_redis_client\<close>: \<open>open\<close> for a plain connection, \<open>build\<close> for one that trusts the given root; both may refuse a URL.\<close>

definition build_redis_client ::
  "(string \<Rightarrow> (string, 'c) result) \<Rightarrow> (string \<Rightarrow> string \<Rightarrow> (string, 'c) result) \<Rightarrow> (string \<Rightarrow> (string, string) result) \<Rightarrow>
   string \<Rightarrow> string option \<Rightarrow> (core_error, 'c) result" where
  "build_redis_client open_plain build_tls read url ca_bundle_path =
     (if \<not> starts_with ''rediss://'' url then map_err (\<lambda>e. ServerError (''invalid redis url: '' @ e)) (open_plain url)
      else case ca_bundle_path of
        None \<Rightarrow> Inl (ServerError ''redis.url uses rediss:// but redis.ca_bundle_path is not set'')
      | Some path \<Rightarrow>
          res_bind (map_err (\<lambda>e. ServerError (''failed to read redis.ca_bundle_path: '' @ e)) (read path)) (\<lambda>root.
          map_err (\<lambda>e. ServerError (''failed to build TLS redis client: '' @ e)) (build_tls url root)))"

text \<open>What \<open>build_token_exchange_state\<close> puts together: the signer, the exchange settings and what the discovery names.\<close>

record op_config =
  oc_issuer :: string
  oc_scopes_supported :: "string list"
  oc_access_token_ttl_secs :: nat
  oc_token_exchange_enabled :: bool

record 'c exchange_state =
  te_signer :: jwt_signer
  te_config :: op_config
  te_clients :: "string \<Rightarrow> client_registration option"
  te_assertions :: 'c
  te_exchange :: exchange_cfg

definition build_token_exchange_state :: "(core_error, 'c) result \<Rightarrow> oauth2_server \<Rightarrow> (core_error, 'c exchange_state option) result" where
  "build_token_exchange_state assertions cfg =
     (case os_token_exchange cfg of
        None \<Rightarrow> Inr None
      | Some t \<Rightarrow>
          if \<not> xc_enabled t then Inr None
          else if \<not> os_self_signed cfg then Inl (ServerError ''oauth2.token_exchange is enabled but requires oauth2.type: self'')
          else (case os_signing cfg of
              None \<Rightarrow> Inl (ServerError ''oauth2.token_exchange requires oauth2.signing (type: self)'')
            | Some (issuer, token_audience, ttl) \<Rightarrow>
                if xc_access_ttl_seconds t \<le> 0 \<or> xc_refresh_ttl_seconds t \<le> 0
                then Inl (ServerError ''token_exchange access_ttl_seconds and refresh_ttl_seconds must be positive'')
                else if xc_refresh_absolute_ttl_seconds t \<le> 0
                then Inl (ServerError ''token_exchange refresh_absolute_ttl_seconds must be positive'')
                else if xc_refresh_absolute_ttl_seconds t \<le> xc_refresh_ttl_seconds t
                then Inl (ServerError (''token_exchange refresh_absolute_ttl_seconds must be greater than refresh_ttl_seconds, otherwise the ''
                       @ ''chain'' @ [CHR 0x27] @ ''s absolute cap is reached no later than every individual token'' @ [CHR 0x27]
                       @ ''s own expiry and refresh_ttl_seconds never takes effect''))
                else
                res_bind (signer_from_config issuer token_audience ttl) (\<lambda>signer.
                res_bind assertions (\<lambda>store.
                Inr (Some \<lparr>te_signer = signer,
                  te_config = \<lparr>oc_issuer = issuer, oc_scopes_supported = xc_allowed_scopes t,
                    oc_access_token_ttl_secs = nat (max (xc_access_ttl_seconds t) 0), oc_token_exchange_enabled = xc_enabled t\<rparr>,
                  te_clients = client_store_from_config (os_clients cfg), te_assertions = store, te_exchange = t\<rparr>)))))"

subsection \<open>What startup promises\<close>

text \<open>Text without a dollar sign is left alone, and what precedes one is kept.\<close>

lemma interpolate_plain: "CHR ''$'' \<notin> set pre \<Longrightarrow> interpolate_env_vars env (pre @ s) = pre @ interpolate_env_vars env s"
  by (induction pre) auto

lemma ident_word: "list_all ident_char name \<Longrightarrow> name \<noteq> [] \<Longrightarrow> ident_start (hd name) \<Longrightarrow> (s = [] \<or> \<not> ident_char (hd s)) \<Longrightarrow>
    ident (name @ s) = Some (name, s)"
  by (cases name; cases s) (auto simp: ident_def list_all_iff takeWhile_append dropWhile_append)

text \<open>(a variable is replaced once). A braced variable is replaced by its value, or by its default when it is unset, or empty
  for the operator with a colon; the value is not scanned again, and the text around it is interpolated on its own.\<close>

theorem interpolation_single_pass:
  assumes "CHR ''$'' \<notin> set pre" "list_all ident_char name" "name \<noteq> []" "ident_start (hd name)" "CHR ''}'' \<notin> set d"
  shows "interpolate_env_vars env (pre @ ''${'' @ name @ ''}'' @ post) = pre @ coalesce (env name) [] @ interpolate_env_vars env post \<and>
    interpolate_env_vars env (pre @ ''${'' @ name @ ''-'' @ d @ ''}'' @ post) = pre @ coalesce (env name) d @ interpolate_env_vars env post \<and>
    interpolate_env_vars env (pre @ ''${'' @ name @ '':-'' @ d @ ''}'' @ post) =
      pre @ (if env name = None \<or> env name = Some [] then d else the (env name)) @ interpolate_env_vars env post"
proof -
  have word: "ident (name @ c # t) = Some (name, c # t)" if "\<not> ident_char c" for c t
    using ident_word [of name "c # t"] assms that by simp
  have other: "\<not> ident_char (CHR ''}'')" "\<not> ident_char (CHR ''-'')" "\<not> ident_char (CHR '':'')" "\<not> ident_start (CHR ''{'')" by code_simp+
  have ne: "\<And>c. c \<in> set d \<Longrightarrow> c \<noteq> CHR ''}''" using assms(5) by blast
  have close: "close_brace f (d @ CHR ''}'' # post) = Some (f d, post)" for f
    using takeWhile_append2 [of d "\<lambda>c. c \<noteq> CHR ''}''"] dropWhile_append2 [of d "\<lambda>c. c \<noteq> CHR ''}''"] ne by (simp add: close_brace_def)
  have "match_variable (''{'' @ name @ ''}'' @ post) = Some (name, NoDefault, post)"
    "match_variable (''{'' @ name @ ''-'' @ d @ ''}'' @ post) = Some (name, IfUnset d, post)"
    "match_variable (''{'' @ name @ '':-'' @ d @ ''}'' @ post) = Some (name, IfEmpty d, post)"
    using word other close by (simp_all add: match_variable_def ident_def [of "CHR ''{'' # _"] default_part_def starts_with_def)
  then show ?thesis
    using interpolate_plain [OF assms(1)] by (auto split: option.split)
qed

theorem interpolation_single_pass_witness:
  "interpolate_env_vars [''HOST'' \<mapsto> ''$PORT''] (''url: ${HOST}/$HOST'') = ''url: $PORT/$PORT'' \<and>
   interpolate_env_vars (\<lambda>_. None) ''url: ${HOST:-localhost}'' = ''url: localhost''"
proof -
  have name: "CHR ''$'' \<notin> set ''url: ''" "list_all ident_char ''HOST''" "ident_start (hd ''HOST'')" "CHR ''}'' \<notin> set ''localhost''"
    by code_simp+
  have "interpolate_env_vars [''HOST'' \<mapsto> ''$PORT''] ''/$HOST'' = ''/$PORT''" by code_simp
  then show ?thesis
    using interpolation_single_pass [OF name(1,2) _ name(3,4), of "[''HOST'' \<mapsto> ''$PORT'']" "''/$HOST''"]
      interpolation_single_pass [OF name(1,2) _ name(3,4), of "\<lambda>_. None" "[]"]
    by (simp add: coalesce_def)
qed

text \<open>The base path the router is nested at is not empty, begins with a slash and does not end with one.\<close>

lemma rpc_base_path_safe: "normalize_rpc_base_path raw = Some base \<Longrightarrow> base \<noteq> [] \<and> is_slash (hd base) \<and> \<not> is_slash (last base)"
  using trim_end_slashes_end by (fastforce simp: normalize_rpc_base_path_def Let_def bind_eq_Some_conv is_slash_def split: if_splits)

text \<open>A token endpoint that starts signs with a positive lifetime, and under its settings the first refresh token of a chain
  expires strictly before the chain does.\<close>

lemma exchange_state_sound:
  assumes "build_token_exchange_state assertions cfg = Inr (Some te)" "xs_cfg x = te_exchange te" "born x d"
  shows "0 < js_ttl_seconds (te_signer te) \<and> 0 < oc_access_token_ttl_secs (te_config te) \<and> rt_expires_at d < rt_chain_expires_at d"
  using assms
  by (auto simp: build_token_exchange_state_def signer_from_config_def born_def seconds_def res_bind_eq_Inr_conv
      split: option.splits if_splits prod.splits)

end
