(* ===== verification/Usage_Events.thy ===== *)
theory Usage_Events
  imports Float64 Rpc_Gate "HOL-Library.Word"
begin

text \<open>
  usage/src/handlers/ingest.rs up to the database: how OTLP payloads become usage events. The payload types are those of
  the crate opentelemetry-proto, with the fields this file reads; decoding a body (prost, serde_json, flate2),
  \<open>hex::encode\<close> and the text of a JSON number that is a float are fields of a record of library functions. A \<open>u64\<close> or \<open>i64\<close>
  of the payload is a word, times are nanoseconds. Log events are left out.
\<close>

subsection \<open>Values\<close>

datatype any_value =
    AvNone
  | StringValue string
  | BoolValue bool
  | IntValue "64 word"
  | DoubleValue f64
  | ArrayValue "any_value list"
  | KvlistValue "(string \<times> any_value option) list"
  | BytesValue string
  | StringValueStrindex int

type_synonym key_value = "string \<times> any_value option"

text \<open>A \<open>serde_json::Value\<close> as these functions make it; an object is a \<open>BTreeMap\<close>, sorted by key.\<close>

datatype attr =
    AtNull
  | AtBool bool
  | AtInt int
  | AtFloat f64
  | AtText string
  | AtArray "attr list"
  | AtObject "(string \<times> attr) list"

type_synonym attrs = "string \<rightharpoonup> attr"

record otlp_lib =
  ol_hex :: "string \<Rightarrow> string"
  ol_float_text :: "f64 \<Rightarrow> string"

text \<open>\<open>json!(v)\<close> of a double: a number, or null when it is not finite.\<close>

definition json_of_f64 :: "f64 \<Rightarrow> attr" where
  "json_of_f64 v = (if is_finite v then AtFloat v else AtNull)"

fun bytes_less :: "string \<Rightarrow> string \<Rightarrow> bool" where
  "bytes_less [] [] = False"
| "bytes_less [] (_ # _) = True"
| "bytes_less (_ # _) [] = False"
| "bytes_less (a # as) (b # bs) =
     ((of_char a :: nat) < of_char b \<or> ((of_char a :: nat) = of_char b \<and> bytes_less as bs))"

fun object_insert :: "string \<Rightarrow> attr \<Rightarrow> (string \<times> attr) list \<Rightarrow> (string \<times> attr) list" where
  "object_insert k v [] = [(k, v)]"
| "object_insert k v ((k', v') # rest) =
     (if k = k' then (k, v) # rest else if bytes_less k k' then (k, v) # (k', v') # rest
      else (k', v') # object_insert k v rest)"

fun any_value_to_json :: "otlp_lib \<Rightarrow> any_value \<Rightarrow> attr" where
  "any_value_to_json lib AvNone = AtNull"
| "any_value_to_json lib (StringValue v) = AtText v"
| "any_value_to_json lib (BoolValue v) = AtBool v"
| "any_value_to_json lib (IntValue v) = AtInt (sint v)"
| "any_value_to_json lib (DoubleValue v) = json_of_f64 v"
| "any_value_to_json lib (ArrayValue vs) = AtArray (map (any_value_to_json lib) vs)"
| "any_value_to_json lib (KvlistValue kvs) = AtObject (foldl (\<lambda>obj (k, v). object_insert k v obj) []
     (map (\<lambda>(k, v). (k, case v of None \<Rightarrow> AtNull | Some a \<Rightarrow> any_value_to_json lib a)) kvs))"
| "any_value_to_json lib (BytesValue v) = AtText (ol_hex lib v)"
| "any_value_to_json lib (StringValueStrindex _) = AtNull"

definition key_values_to_map :: "otlp_lib \<Rightarrow> key_value list \<Rightarrow> attrs" where
  "key_values_to_map lib values = foldl (\<lambda>m (k, v).
     m(k \<mapsto> (case v of None \<Rightarrow> AtNull | Some a \<Rightarrow> any_value_to_json lib a))) Map.empty values"

definition merge_attr_maps :: "attrs \<Rightarrow> attrs \<Rightarrow> attrs" where
  "merge_attr_maps base additional = base ++ additional"

subsection \<open>Extraction\<close>

text \<open>\<open>find_map\<close> over the keys.\<close>

fun find_map :: "('a \<Rightarrow> 'b option) \<Rightarrow> 'a list \<Rightarrow> 'b option" where
  "find_map f [] = None"
| "find_map f (x # xs) = (case f x of None \<Rightarrow> find_map f xs | Some y \<Rightarrow> Some y)"

definition attr_string :: "otlp_lib \<Rightarrow> attr \<Rightarrow> string option" where
  "attr_string lib v = (case v of
     AtText t \<Rightarrow> if t = [] then None else Some t
   | AtInt i \<Rightarrow> Some (dec_of_int i)
   | AtFloat x \<Rightarrow> Some (ol_float_text lib x)
   | AtBool b \<Rightarrow> Some (if b then ''true'' else ''false'')
   | _ \<Rightarrow> None)"

definition extract_string :: "otlp_lib \<Rightarrow> attrs \<Rightarrow> string list \<Rightarrow> string option" where
  "extract_string lib m keys = find_map (\<lambda>k. Option.bind (m k) (attr_string lib)) keys"

definition attr_i64 :: "attr \<Rightarrow> int option" where
  "attr_i64 v = (case v of AtInt i \<Rightarrow> Some i | AtText t \<Rightarrow> parse_i64 t | _ \<Rightarrow> None)"

definition extract_i64 :: "attrs \<Rightarrow> string list \<Rightarrow> int option" where
  "extract_i64 m keys = find_map (\<lambda>k. Option.bind (m k) attr_i64) keys"

definition attr_f64 :: "attr \<Rightarrow> f64 option" where
  "attr_f64 v = (case v of
     AtInt i \<Rightarrow> Some (f64_of_int i) | AtFloat x \<Rightarrow> Some x | AtText t \<Rightarrow> parse_f64 t | _ \<Rightarrow> None)"

definition extract_f64 :: "attrs \<Rightarrow> string list \<Rightarrow> f64 option" where
  "extract_f64 m keys = find_map (\<lambda>k. Option.bind (m k) attr_f64) keys"

text \<open>\<open>non_empty\<close> of ingest.rs, which trims.\<close>

definition non_blank :: "string \<Rightarrow> string option" where
  "non_blank v = (let t = str_trim v in if t = [] then None else Some t)"

fun combine_token_total :: "int option \<Rightarrow> int option \<Rightarrow> int option" where
  "combine_token_total (Some prompt) (Some completion) =
     (if fits_i64 (prompt + completion) then Some (prompt + completion) else None)"
| "combine_token_total (Some prompt) None = Some prompt"
| "combine_token_total None (Some completion) = Some completion"
| "combine_token_total None None = None"

definition I64_MAX :: int where
  "I64_MAX = 2 ^ 63 - 1"

definition request_count_from_metric_value :: "f64 \<Rightarrow> int" where
  "request_count_from_metric_value value =
     (if is_finite value \<and> f64_le (f64_of_int 1) value
      then let rounded = f64_round value in
           if f64_less (f64_of_int I64_MAX) rounded then I64_MAX else f64_to_i64 rounded
      else 1)"

definition u64_to_i64 :: "64 word \<Rightarrow> int" where
  "u64_to_i64 value = (if uint value \<le> I64_MAX then uint value else I64_MAX)"

text \<open>Seconds and nanoseconds of a \<open>u64\<close> are always in chrono's range.\<close>

definition nanos_to_datetime :: "int \<Rightarrow> 64 word \<Rightarrow> int" where
  "nanos_to_datetime now nanos =
     (if nanos = 0 then now
      else let secs = uint nanos div 1000000000; sub_nanos = uint nanos mod 1000000000 in secs * 1000000000 + sub_nanos)"

subsection \<open>Payloads\<close>

text \<open>\<open>ResourceLogs\<close>, \<open>ResourceSpans\<close> and \<open>ResourceMetrics\<close>: the attributes of the resource and the records, scope by scope.\<close>

record 'r resource_group =
  rg_resource :: "key_value list option"
  rg_scopes :: "'r list list"

record log_record =
  lr_time_unix_nano :: "64 word"
  lr_observed_time_unix_nano :: "64 word"
  lr_severity_text :: string
  lr_attributes :: "key_value list"

record span =
  sp_name :: string
  sp_start_time_unix_nano :: "64 word"
  sp_end_time_unix_nano :: "64 word"
  sp_attributes :: "key_value list"

datatype number_value = AsDouble f64 | AsInt "64 word"

record number_data_point =
  np_attributes :: "key_value list"
  np_time_unix_nano :: "64 word"
  np_value :: "number_value option"

text \<open>\<open>HistogramDataPoint\<close> and \<open>ExponentialHistogramDataPoint\<close> have the fields read in common.\<close>

record histogram_data_point =
  hp_attributes :: "key_value list"
  hp_time_unix_nano :: "64 word"
  hp_count :: "64 word"
  hp_sum :: "f64 option"

record summary_data_point =
  su_attributes :: "key_value list"
  su_time_unix_nano :: "64 word"
  su_count :: "64 word"
  su_sum :: f64

datatype metric_data =
    DataGauge "number_data_point list"
  | DataSum "number_data_point list"
  | DataHistogram "histogram_data_point list"
  | DataExponentialHistogram "histogram_data_point list"
  | DataSummary "summary_data_point list"

record metric =
  mc_name :: string
  mc_metadata :: "key_value list"
  mc_data :: "metric_data option"

subsection \<open>Events\<close>

record usage_event =
  ue_observed_at :: int
  ue_signal_type :: string
  ue_account_id :: "string option"
  ue_project_id :: "string option"
  ue_api_key_id :: "string option"
  ue_user_id :: "string option"
  ue_user_name :: "string option"
  ue_model :: "string option"
  ue_metric_name :: "string option"
  ue_usage_value :: f64
  ue_request_count :: int
  ue_prompt_tokens :: "int option"
  ue_completion_tokens :: "int option"
  ue_total_tokens :: "int option"
  ue_total_cost :: "f64 option"
  ue_attributes :: attrs

definition ACCOUNT_KEYS :: "string list" where
  "ACCOUNT_KEYS = [''account_id'', ''account.id'', ''x-account-id'', ''authz.account_id'', ''lb.account_id'']"

definition PROJECT_KEYS :: "string list" where
  "PROJECT_KEYS = [''project_id'', ''project.id'', ''x-project-id'', ''authz.project_id'', ''lb.project_id'']"

definition API_KEY_KEYS :: "string list" where
  "API_KEY_KEYS = [''api_key_id'', ''api_key.id'', ''x-api-key-id'', ''authz.api_key_id'', ''lb.api_key_id'']"

definition USER_KEYS :: "string list" where
  "USER_KEYS = [''user_id'', ''user.id'', ''end_user.id'', ''lc_user_id'', ''x-user-id'', ''authz.user_id'']"

definition USER_NAME_KEYS :: "string list" where
  "USER_NAME_KEYS = [''user_name'', ''user.name'', ''end_user.name'', ''lc_user_name'', ''x-user-name'', ''authz.user_name'']"

definition MODEL_KEYS :: "string list" where
  "MODEL_KEYS = [''model'', ''llm.model'', ''ai.model'', ''gen_ai.request.model'', ''genai.request.model'']"

definition PROMPT_TOKENS_KEYS :: "string list" where
  "PROMPT_TOKENS_KEYS = [''prompt_tokens'', ''input_tokens'', ''usage.prompt_tokens'', ''gen_ai.usage.prompt_tokens'', ''genai.usage.prompt_tokens'', ''gen_ai.usage.input_tokens'']"

definition COMPLETION_TOKENS_KEYS :: "string list" where
  "COMPLETION_TOKENS_KEYS = [''completion_tokens'', ''output_tokens'', ''usage.completion_tokens'', ''gen_ai.usage.completion_tokens'', ''genai.usage.completion_tokens'', ''gen_ai.usage.output_tokens'']"

definition TOTAL_TOKENS_KEYS :: "string list" where
  "TOTAL_TOKENS_KEYS = [''total_tokens'', ''usage.total_tokens'', ''tokens'', ''gen_ai.usage.total_tokens'', ''genai.usage.total_tokens'']"

definition USAGE_VALUE_KEYS :: "string list" where
  "USAGE_VALUE_KEYS = [''usage_value'', ''usage'', ''gen_ai.usage.total_tokens'']"

definition COST_KEYS :: "string list" where
  "COST_KEYS = [''io.envoy.ai_gateway.llm_custom_total_cost'', ''custom_total_cost'', ''cost'', ''gen_ai.usage.custom_total_cost'']"

text \<open>The fields every kind of event fills in the same way.\<close>

definition event_of ::
  "otlp_lib \<Rightarrow> attrs \<Rightarrow> int \<Rightarrow> string \<Rightarrow> string option \<Rightarrow> f64 \<Rightarrow> int \<Rightarrow> int option \<Rightarrow> usage_event" where
  "event_of lib m observed signal name value requests tokens = \<lparr>
     ue_observed_at = observed, ue_signal_type = signal,
     ue_account_id = extract_string lib m ACCOUNT_KEYS, ue_project_id = extract_string lib m PROJECT_KEYS,
     ue_api_key_id = extract_string lib m API_KEY_KEYS, ue_user_id = extract_string lib m USER_KEYS,
     ue_user_name = extract_string lib m USER_NAME_KEYS, ue_model = extract_string lib m MODEL_KEYS,
     ue_metric_name = name, ue_usage_value = value, ue_request_count = requests,
     ue_prompt_tokens = extract_i64 m PROMPT_TOKENS_KEYS, ue_completion_tokens = extract_i64 m COMPLETION_TOKENS_KEYS,
     ue_total_tokens = tokens, ue_total_cost = extract_f64 m COST_KEYS, ue_attributes = m\<rparr>"

definition total_tokens_of :: "attrs \<Rightarrow> int option" where
  "total_tokens_of m = (case extract_i64 m TOTAL_TOKENS_KEYS of
     Some t \<Rightarrow> Some t
   | None \<Rightarrow> combine_token_total (extract_i64 m PROMPT_TOKENS_KEYS) (extract_i64 m COMPLETION_TOKENS_KEYS))"

definition usage_value_of :: "attrs \<Rightarrow> f64" where
  "usage_value_of m = (case extract_f64 m USAGE_VALUE_KEYS of
     Some v \<Rightarrow> v
   | None \<Rightarrow> (case total_tokens_of m of Some t \<Rightarrow> f64_of_int t | None \<Rightarrow> f64_of_int 1))"

text \<open>The nested loops over resources and scopes: every record with the attributes of its resource.\<close>

definition resource_attrs :: "otlp_lib \<Rightarrow> 'r resource_group \<Rightarrow> attrs" where
  "resource_attrs lib g = (case rg_resource g of None \<Rightarrow> Map.empty | Some kvs \<Rightarrow> key_values_to_map lib kvs)"

definition with_resources :: "otlp_lib \<Rightarrow> 'r resource_group list \<Rightarrow> (attrs \<times> 'r) list" where
  "with_resources lib payload = concat (map (\<lambda>g. map (Pair (resource_attrs lib g)) (concat (rg_scopes g))) payload)"

text \<open>\<open>clock k\<close> is what \<open>Utc::now()\<close> yields if the event at position \<open>k\<close> asks for it.\<close>

definition numbered :: "(nat \<Rightarrow> 'x \<Rightarrow> 'e) \<Rightarrow> 'x list \<Rightarrow> 'e list" where
  "numbered f xs = map (\<lambda>(k, x). f k x) (enumerate 0 xs)"

definition log_event :: "otlp_lib \<Rightarrow> int \<Rightarrow> attrs \<times> log_record \<Rightarrow> usage_event" where
  "log_event lib now = (\<lambda>(base, r).
     let m = merge_attr_maps base (key_values_to_map lib (lr_attributes r));
         nanos = (if 0 < lr_time_unix_nano r then lr_time_unix_nano r
                  else if 0 < lr_observed_time_unix_nano r then lr_observed_time_unix_nano r else 0) in
     event_of lib m (nanos_to_datetime now nanos) ''log'' (non_blank (lr_severity_text r)) (usage_value_of m) 1 (total_tokens_of m))"

definition extract_log_events :: "otlp_lib \<Rightarrow> (nat \<Rightarrow> int) \<Rightarrow> log_record resource_group list \<Rightarrow> usage_event list" where
  "extract_log_events lib clock payload = numbered (\<lambda>k. log_event lib (clock k)) (with_resources lib payload)"

definition trace_event :: "otlp_lib \<Rightarrow> int \<Rightarrow> attrs \<times> span \<Rightarrow> usage_event" where
  "trace_event lib now = (\<lambda>(base, r).
     let m = merge_attr_maps base (key_values_to_map lib (sp_attributes r));
         nanos = (if 0 < sp_end_time_unix_nano r then sp_end_time_unix_nano r else sp_start_time_unix_nano r) in
     event_of lib m (nanos_to_datetime now nanos) ''trace'' (non_blank (sp_name r)) (usage_value_of m) 1 (total_tokens_of m))"

definition extract_trace_events :: "otlp_lib \<Rightarrow> (nat \<Rightarrow> int) \<Rightarrow> span resource_group list \<Rightarrow> usage_event list" where
  "extract_trace_events lib clock payload = numbered (\<lambda>k. trace_event lib (clock k)) (with_resources lib payload)"

definition number_data_point_to_event ::
  "otlp_lib \<Rightarrow> int \<Rightarrow> attrs \<Rightarrow> string option \<Rightarrow> number_data_point \<Rightarrow> usage_event" where
  "number_data_point_to_event lib now metric_attrs metric_name point =
     (let m = merge_attr_maps metric_attrs (key_values_to_map lib (np_attributes point));
          value = (case np_value point of
             Some (AsDouble v) \<Rightarrow> v | Some (AsInt v) \<Rightarrow> f64_of_int (sint v) | None \<Rightarrow> f64_of_int 0) in
      event_of lib m (nanos_to_datetime now (np_time_unix_nano point)) ''metric'' metric_name value
        (request_count_from_metric_value value) (total_tokens_of m))"

definition histogram_data_point_to_event ::
  "otlp_lib \<Rightarrow> int \<Rightarrow> attrs \<Rightarrow> string option \<Rightarrow> histogram_data_point \<Rightarrow> usage_event" where
  "histogram_data_point_to_event lib now metric_attrs metric_name point =
     (let m = merge_attr_maps metric_attrs (key_values_to_map lib (hp_attributes point));
          count = u64_to_i64 (hp_count point);
          value = (case hp_sum point of Some v \<Rightarrow> v | None \<Rightarrow> f64_of_int count) in
      event_of lib m (nanos_to_datetime now (hp_time_unix_nano point)) ''metric'' metric_name value (max count 1)
        (extract_i64 m TOTAL_TOKENS_KEYS))"

definition summary_data_point_to_event ::
  "otlp_lib \<Rightarrow> int \<Rightarrow> attrs \<Rightarrow> string option \<Rightarrow> summary_data_point \<Rightarrow> usage_event" where
  "summary_data_point_to_event lib now metric_attrs metric_name point =
     (let m = merge_attr_maps metric_attrs (key_values_to_map lib (su_attributes point));
          count = u64_to_i64 (su_count point) in
      event_of lib m (nanos_to_datetime now (su_time_unix_nano point)) ''metric'' metric_name (su_sum point) (max count 1)
        (extract_i64 m TOTAL_TOKENS_KEYS))"

definition metric_events :: "otlp_lib \<Rightarrow> attrs \<times> metric \<Rightarrow> (int \<Rightarrow> usage_event) list" where
  "metric_events lib = (\<lambda>(base, mt).
     let name = non_blank (mc_name mt);
         m = merge_attr_maps base (key_values_to_map lib (mc_metadata mt)) in
     (case mc_data mt of
        None \<Rightarrow> []
      | Some (DataGauge ps) \<Rightarrow> map (\<lambda>p now. number_data_point_to_event lib now m name p) ps
      | Some (DataSum ps) \<Rightarrow> map (\<lambda>p now. number_data_point_to_event lib now m name p) ps
      | Some (DataHistogram ps) \<Rightarrow> map (\<lambda>p now. histogram_data_point_to_event lib now m name p) ps
      | Some (DataExponentialHistogram ps) \<Rightarrow> map (\<lambda>p now. histogram_data_point_to_event lib now m name p) ps
      | Some (DataSummary ps) \<Rightarrow> map (\<lambda>p now. summary_data_point_to_event lib now m name p) ps))"

definition extract_metric_events :: "otlp_lib \<Rightarrow> (nat \<Rightarrow> int) \<Rightarrow> metric resource_group list \<Rightarrow> usage_event list" where
  "extract_metric_events lib clock payload =
     numbered (\<lambda>k f. f (clock k)) (concat (map (metric_events lib) (with_resources lib payload)))"

subsection \<open>Validation\<close>

definition event_problem :: "usage_event \<Rightarrow> string option" where
  "event_problem e =
     (if is_blank (ue_signal_type e) then Some ''signal_type is required''
      else if \<not> is_finite (ue_usage_value e) then Some ''usage_value must be finite''
      else if (case ue_total_cost e of None \<Rightarrow> False | Some v \<Rightarrow> \<not> is_finite v) then Some ''total_cost must be finite''
      else if ue_request_count e < 0 then Some ''request_count cannot be negative''
      else if list_ex (\<lambda>t. case t of None \<Rightarrow> False | Some v \<Rightarrow> v < 0) [ue_prompt_tokens e, ue_completion_tokens e, ue_total_tokens e]
      then Some ''token counts cannot be negative''
      else None)"

definition validate_events :: "usage_event list \<Rightarrow> (core_error, unit) result" where
  "validate_events events = (case find_map event_problem events of Some msg \<Rightarrow> Inl (CoreBadRequest msg) | None \<Rightarrow> Inr ())"

end
