(* ===== verification/Usage_Store.thy ===== *)
theory Usage_Store
  imports Usage_Events Grant_Ledger
begin

text \<open>
  usage/src/repo.rs, models/mod.rs and the handlers of the usage service: the table of usage events, what ingestion adds to it,
  and the two queries on it. The body decoders, the regular expression of a bucket, the cast of text to an interval and
  what a \<open>timestamptz\<close> column keeps of a time are fields of a record. Rows are summed in the order they were inserted.
\<close>

subsection \<open>The table\<close>

record usage_lib =
  ul_otlp :: otlp_lib
  ul_gunzip :: "string \<Rightarrow> (string, string) result"
  ul_logs :: "bool \<Rightarrow> string \<Rightarrow> (string, log_record resource_group list) result"
  ul_traces :: "bool \<Rightarrow> string \<Rightarrow> (string, span resource_group list) result"
  ul_metrics :: "bool \<Rightarrow> string \<Rightarrow> (string, metric resource_group list) result"
  ul_bucket_matches :: "string \<Rightarrow> bool"
  ul_interval :: "string \<Rightarrow> (string, int) result"
  ul_timestamptz :: "int \<Rightarrow> int"

type_synonym usage_db = "usage_event list"
type_synonym 'a usage_op = "(usage_db, (core_error, 'a) result) prog"

abbreviation usage_sql :: "(int \<Rightarrow> usage_db \<Rightarrow> (string, 'a \<times> usage_db) result) \<Rightarrow> 'a usage_op" where
  "usage_sql \<equiv> statement SqlxError"

abbreviation usage_query :: "(usage_db \<Rightarrow> (string, 'a) result) \<Rightarrow> 'a usage_op" where
  "usage_query \<equiv> reading SqlxError"

text \<open>What the row of an event holds: the time in the precision of the column, and a cost that is never null.\<close>

definition stored_event :: "usage_lib \<Rightarrow> usage_event \<Rightarrow> usage_event" where
  "stored_event lib e = e\<lparr>ue_observed_at := ul_timestamptz lib (ue_observed_at e),
     ue_total_cost := Some (case ue_total_cost e of None \<Rightarrow> f64_of_int 0 | Some c \<Rightarrow> c)\<rparr>"

text \<open>Postgres takes no text with a zero byte, in a text column or inside JSON.\<close>

definition has_nul :: "string option \<Rightarrow> bool" where
  "has_nul t = (case t of None \<Rightarrow> False | Some s \<Rightarrow> CHR 0x00 \<in> set s)"

fun attr_has_nul :: "attr \<Rightarrow> bool" where
  "attr_has_nul (AtText s) = (CHR 0x00 \<in> set s)"
| "attr_has_nul (AtArray vs) = list_ex attr_has_nul vs"
| "attr_has_nul (AtObject kvs) = list_ex (\<lambda>(k, v). CHR 0x00 \<in> set k \<or> attr_has_nul v) kvs"
| "attr_has_nul _ = False"

definition storable :: "usage_event \<Rightarrow> bool" where
  "storable e \<longleftrightarrow> \<not> list_ex has_nul [Some (ue_signal_type e), ue_account_id e, ue_project_id e, ue_api_key_id e, ue_user_id e,
       ue_user_name e, ue_model e, ue_metric_name e] \<and>
     (\<forall>(k, v) \<in> Map.graph (ue_attributes e). CHR 0x00 \<notin> set k \<and> \<not> attr_has_nul v)"

text \<open>The statement binds sixteen parameters per event; the protocol counts them in sixteen bits.\<close>

definition insert_usage_events :: "usage_lib \<Rightarrow> usage_event list \<Rightarrow> nat usage_op" where
  "insert_usage_events lib events =
     (if events = [] then Ret (Inr 0)
      else usage_sql (\<lambda>_ db.
        if 16 * length events > 65535 then Inl ''too many parameters''
        else if \<not> list_all storable events then Inl ''22021''
        else Inr (length events, db @ map (stored_event lib) events)))"

subsection \<open>Ingestion\<close>

record headers =
  hd_content_type :: "string option"
  hd_content_encoding :: "string option"

definition is_json_content :: "headers \<Rightarrow> bool" where
  "is_json_content h = (case hd_content_type h of None \<Rightarrow> False
     | Some v \<Rightarrow> list_ex (\<lambda>t. prefix ''json'' t) (suffixes v))"

definition decode_maybe_gzip :: "usage_lib \<Rightarrow> headers \<Rightarrow> string \<Rightarrow> (core_error, string) result" where
  "decode_maybe_gzip lib h body =
     (let encoding = (case hd_content_encoding h of None \<Rightarrow> [] | Some v \<Rightarrow> v) in
      if \<not> list_ex (\<lambda>e. eq_ignore_ascii_case (str_trim e) ''gzip'') (split_on (\<lambda>c. c = CHR '','') [] encoding) then Inr body
      else map_err (\<lambda>e. CoreBadRequest (''invalid gzip body: '' @ e)) (ul_gunzip lib body))"

definition invalid_payload :: "string \<Rightarrow> headers \<Rightarrow> string \<Rightarrow> core_error" where
  "invalid_payload signal h e = CoreBadRequest (''invalid OTLP '' @ signal @ (if is_json_content h then '' JSON'' else '' protobuf'')
     @ '' payload: '' @ e)"

definition decode_logs_request :: "usage_lib \<Rightarrow> headers \<Rightarrow> string \<Rightarrow> (core_error, log_record resource_group list) result" where
  "decode_logs_request lib h body =
     res_bind (decode_maybe_gzip lib h body) (\<lambda>b. map_err (invalid_payload ''logs'' h) (ul_logs lib (is_json_content h) b))"

definition decode_trace_request :: "usage_lib \<Rightarrow> headers \<Rightarrow> string \<Rightarrow> (core_error, span resource_group list) result" where
  "decode_trace_request lib h body = map_err (invalid_payload ''trace'' h) (ul_traces lib (is_json_content h) body)"

definition decode_metrics_request :: "usage_lib \<Rightarrow> headers \<Rightarrow> string \<Rightarrow> (core_error, metric resource_group list) result" where
  "decode_metrics_request lib h body = map_err (invalid_payload ''metrics'' h) (ul_metrics lib (is_json_content h) body)"

definition persist_events :: "usage_lib \<Rightarrow> usage_event list \<Rightarrow> nat usage_op" where
  "persist_events lib events =
     obind (Ret (validate_events events)) (\<lambda>_.
     obind (insert_usage_events lib events) (\<lambda>persisted.
     Ret (Inr (if persisted < length events then length events else persisted))))"

definition ingest :: "usage_lib \<Rightarrow> (core_error, 'p) result \<Rightarrow> (otlp_lib \<Rightarrow> (nat \<Rightarrow> int) \<Rightarrow> 'p \<Rightarrow> usage_event list) \<Rightarrow> nat usage_op" where
  "ingest lib decoded extract =
     obind (Ret decoded) (\<lambda>payload.
     obind (observe (\<lambda>w _. Inr (extract (ul_otlp lib) (\<lambda>k. o_now (w k)) payload))) (\<lambda>events.
     persist_events lib events))"

definition ingest_logs :: "usage_lib \<Rightarrow> headers \<Rightarrow> string \<Rightarrow> nat usage_op" where
  "ingest_logs lib h body = ingest lib (decode_logs_request lib h body) extract_log_events"

definition ingest_traces :: "usage_lib \<Rightarrow> headers \<Rightarrow> string \<Rightarrow> nat usage_op" where
  "ingest_traces lib h body = ingest lib (decode_trace_request lib h body) extract_trace_events"

definition ingest_metrics :: "usage_lib \<Rightarrow> headers \<Rightarrow> string \<Rightarrow> nat usage_op" where
  "ingest_metrics lib h body = ingest lib (decode_metrics_request lib h body) extract_metric_events"

subsection \<open>Spend\<close>

text \<open>\<open>SUM\<close> over doubles: null without rows, an error when adding finite values overflows.\<close>

fun float8_sum :: "f64 \<Rightarrow> f64 list \<Rightarrow> (string, f64) result" where
  "float8_sum acc [] = Inr acc"
| "float8_sum acc (x # xs) =
     (let r = f64_add acc x in
      if (case r of Infinite _ \<Rightarrow> is_finite acc \<and> is_finite x | _ \<Rightarrow> False) then Inl ''22003'' else float8_sum r xs)"

definition sum_doubles :: "f64 list \<Rightarrow> (string, f64 option) result" where
  "sum_doubles xs = (case xs of [] \<Rightarrow> Inr None | y # ys \<Rightarrow> res_bind (float8_sum y ys) (\<lambda>r. Inr (Some r)))"

definition cost_of :: "usage_event \<Rightarrow> f64" where
  "cost_of e = (case ue_total_cost e of None \<Rightarrow> f64_of_int 0 | Some c \<Rightarrow> c)"

definition in_interval :: "usage_lib \<Rightarrow> int \<Rightarrow> int \<Rightarrow> usage_event \<Rightarrow> bool" where
  "in_interval lib start finish e \<longleftrightarrow> ul_timestamptz lib start \<le> ue_observed_at e \<and> ue_observed_at e < ul_timestamptz lib finish"

definition usage_spend_for_account :: "usage_lib \<Rightarrow> string \<Rightarrow> int \<Rightarrow> int \<Rightarrow> f64 option usage_op" where
  "usage_spend_for_account lib account_id start finish = usage_query (\<lambda>db.
     sum_doubles (map cost_of (filter (\<lambda>e. ue_account_id e = Some account_id \<and> in_interval lib start finish e) db)))"

definition query_spend :: "usage_lib \<Rightarrow> string \<Rightarrow> int \<Rightarrow> int \<Rightarrow> f64 option usage_op" where
  "query_spend lib account_id start finish =
     (if is_blank account_id then Ret (Inl (CoreBadRequest ''account_id is required for spend queries''))
      else if finish \<le> start then Ret (Inl (CoreBadRequest ''start must be before end''))
      else usage_spend_for_account lib account_id start finish)"

subsection \<open>Series\<close>

datatype usage_scope = ScopeUser | ScopeApiKey | ScopeProject | ScopeAccount

datatype usage_group_by =
    ByAccountId | ByProjectId | ByApiKeyId | ByUserId | ByUserName | ByModel | ByMetricName | BySignalType

record usage_query_filters =
  uf_account_id :: "string option"
  uf_project_id :: "string option"
  uf_api_key_id :: "string option"
  uf_user_id :: "string option"
  uf_user_name :: "string option"
  uf_model :: "string option"
  uf_metric_name :: "string option"
  uf_signal_type :: "string option"

record usage_query_request =
  uq_scope :: usage_scope
  uq_scope_id :: string
  uq_start_time :: int
  uq_end_time :: int
  uq_bucket :: string
  uq_filters :: usage_query_filters
  uq_group_by :: "usage_group_by list"
  uq_limit :: nat

definition default_bucket :: string where
  "default_bucket = ''1 hour''"

definition default_limit :: nat where
  "default_limit = 1000"

record usage_series_point =
  us_bucket_start :: int
  us_account_id :: "string option"
  us_project_id :: "string option"
  us_api_key_id :: "string option"
  us_user_id :: "string option"
  us_user_name :: "string option"
  us_model :: "string option"
  us_metric_name :: "string option"
  us_signal_type :: "string option"
  us_requests :: int
  us_usage_value :: f64
  us_total_cost :: f64
  us_prompt_tokens :: int
  us_completion_tokens :: int
  us_total_tokens :: int

fun dimension :: "usage_group_by \<Rightarrow> usage_event \<Rightarrow> string option" where
  "dimension ByAccountId e = ue_account_id e"
| "dimension ByProjectId e = ue_project_id e"
| "dimension ByApiKeyId e = ue_api_key_id e"
| "dimension ByUserId e = ue_user_id e"
| "dimension ByUserName e = ue_user_name e"
| "dimension ByModel e = ue_model e"
| "dimension ByMetricName e = ue_metric_name e"
| "dimension BySignalType e = Some (ue_signal_type e)"

fun scope_dimension :: "usage_scope \<Rightarrow> usage_group_by" where
  "scope_dimension ScopeUser = ByUserId"
| "scope_dimension ScopeApiKey = ByApiKeyId"
| "scope_dimension ScopeProject = ByProjectId"
| "scope_dimension ScopeAccount = ByAccountId"

definition filter_conditions :: "usage_query_filters \<Rightarrow> (usage_group_by \<times> string option) list" where
  "filter_conditions f = [(ByAccountId, uf_account_id f), (ByProjectId, uf_project_id f), (ByApiKeyId, uf_api_key_id f),
     (ByUserId, uf_user_id f), (ByUserName, uf_user_name f), (ByModel, uf_model f), (ByMetricName, uf_metric_name f),
     (BySignalType, uf_signal_type f)]"

text \<open>The \<open>WHERE\<close> clause.\<close>

definition usage_matches :: "usage_lib \<Rightarrow> usage_query_request \<Rightarrow> usage_event \<Rightarrow> bool" where
  "usage_matches lib q e \<longleftrightarrow> in_interval lib (uq_start_time q) (uq_end_time q) e \<and>
     dimension (scope_dimension (uq_scope q)) e = Some (uq_scope_id q) \<and>
     list_all (\<lambda>(d, want). case want of None \<Rightarrow> True | Some v \<Rightarrow> dimension d e = Some v) (filter_conditions (uq_filters q))"

definition validate_bucket_interval :: "usage_lib \<Rightarrow> string \<Rightarrow> (core_error, unit) result" where
  "validate_bucket_interval lib bucket =
     (if ul_bucket_matches lib (str_trim bucket) then Inr ()
      else Inl (CoreBadRequest (''bucket must look like '' @ [CHR 0x60] @ ''5 minutes'' @ [CHR 0x60] @ '', '' @ [CHR 0x60] @ ''1 hour''
        @ [CHR 0x60] @ '', or '' @ [CHR 0x60] @ ''1 day'' @ [CHR 0x60])))"

text \<open>\<open>date_bin(CAST($1 AS interval), observed_at, epoch)\<close>, evaluated for a row.\<close>

definition date_bin :: "usage_lib \<Rightarrow> string \<Rightarrow> usage_event \<Rightarrow> (string, int) result" where
  "date_bin lib bucket e = res_bind (ul_interval lib bucket) (\<lambda>stride.
     if stride \<le> 0 then Inl ''22008'' else Inr (ue_observed_at e div stride * stride))"

text \<open>The key a row is grouped under: its bucket, and the columns asked for; \<open>append_dimension\<close> makes the others null.\<close>

definition append_dimension :: "usage_group_by list \<Rightarrow> usage_group_by \<Rightarrow> usage_event \<Rightarrow> string option" where
  "append_dimension group_set d e = (if d \<in> set group_set then dimension d e else None)"

definition all_dimensions :: "usage_group_by list" where
  "all_dimensions = [ByAccountId, ByProjectId, ByApiKeyId, ByUserId, ByUserName, ByModel, ByMetricName, BySignalType]"

type_synonym group_key = "int \<times> string option list"

definition group_key :: "usage_lib \<Rightarrow> usage_query_request \<Rightarrow> usage_event \<Rightarrow> (string, group_key) result" where
  "group_key lib q e = res_bind (date_bin lib (uq_bucket q) e) (\<lambda>b.
     Inr (b, map (\<lambda>d. append_dimension (uq_group_by q) d e) all_dimensions))"

text \<open>\<open>SUM(x)::bigint\<close>, zero when null.\<close>

definition sum_bigint :: "int option list \<Rightarrow> (string, int) result" where
  "sum_bigint xs = (let t = sum_list (map (\<lambda>x. case x of None \<Rightarrow> 0 | Some v \<Rightarrow> v) xs) in
     if fits_i64 t then Inr t else Inl ''22003'')"

definition sum_or_zero :: "f64 list \<Rightarrow> (string, f64) result" where
  "sum_or_zero xs = res_bind (sum_doubles xs) (\<lambda>r. Inr (case r of None \<Rightarrow> f64_of_int 0 | Some v \<Rightarrow> v))"

definition series_point :: "group_key \<Rightarrow> usage_event list \<Rightarrow> (string, usage_series_point) result" where
  "series_point key rows =
     res_bind (sum_bigint (map (\<lambda>e. Some (ue_request_count e)) rows)) (\<lambda>requests.
     res_bind (sum_or_zero (map ue_usage_value rows)) (\<lambda>value.
     res_bind (sum_bigint (map ue_prompt_tokens rows)) (\<lambda>prompt.
     res_bind (sum_bigint (map ue_completion_tokens rows)) (\<lambda>completion.
     res_bind (sum_bigint (map ue_total_tokens rows)) (\<lambda>tokens.
     res_bind (sum_or_zero (map cost_of rows)) (\<lambda>cost.
     Inr (let dim = (\<lambda>i. snd key ! i) in \<lparr>us_bucket_start = fst key, us_account_id = dim 0, us_project_id = dim 1, us_api_key_id = dim 2,
       us_user_id = dim 3, us_user_name = dim 4, us_model = dim 5, us_metric_name = dim 6, us_signal_type = dim 7,
       us_requests = requests, us_usage_value = value, us_total_cost = cost, us_prompt_tokens = prompt,
       us_completion_tokens = completion, us_total_tokens = tokens\<rparr>)))))))"

definition grouped :: "usage_lib \<Rightarrow> usage_query_request \<Rightarrow> usage_db \<Rightarrow> (string, usage_series_point list) result" where
  "grouped lib q rows =
     res_bind (collect_results (map (group_key lib q) rows)) (\<lambda>keys.
     collect_results (map (\<lambda>key. series_point key (map snd (filter (\<lambda>(k, e). k = key) (zip keys rows)))) (remdups keys)))"

definition usage_query_rows :: "usage_lib \<Rightarrow> usage_query_request \<Rightarrow> usage_series_point list usage_op" where
  "usage_query_rows lib q =
     obind (Ret (validate_bucket_interval lib (uq_bucket q))) (\<lambda>_.
     usage_query (\<lambda>db. res_bind (grouped lib q (filter (usage_matches lib q) db)) (\<lambda>points.
       Inr (take (uq_limit q) (sort_key us_bucket_start points)))))"

definition query_usage :: "usage_lib \<Rightarrow> usage_query_request \<Rightarrow> usage_series_point list usage_op" where
  "query_usage lib q =
     (if uq_end_time q \<le> uq_start_time q then Ret (Inl (CoreBadRequest ''start_time must be before end_time''))
      else if is_blank (uq_scope_id q) then Ret (Inl (CoreBadRequest ''scope_id is required for usage queries''))
      else if uq_limit q = 0 then Ret (Inl (CoreBadRequest ''limit must be greater than zero''))
      else usage_query_rows lib q)"

end
