(* ===== verification/Usage_Facts.thy ===== *)
theory Usage_Facts
  imports Usage_Store
begin

text \<open>
  What the usage service promises: events extracted from any payload are well formed, a request is recorded whole or not at all,
  and a grouped series accounts for every matching event exactly once.
\<close>

subsection \<open>Extracted events\<close>

lemma find_map_Some: "find_map f xs = Some y \<Longrightarrow> \<exists>x \<in> set xs. f x = Some y"
  by (induction xs) (auto split: option.splits)

lemma find_map_None: "find_map f xs = None \<longleftrightarrow> (\<forall>x \<in> set xs. f x = None)"
  by (induction xs) (auto split: option.splits)

text \<open>Integers in attributes come from 64-bit fields.\<close>

definition ints_fit :: "attrs \<Rightarrow> bool" where
  "ints_fit m \<longleftrightarrow> (\<forall>k i. m k = Some (AtInt i) \<longrightarrow> fits_i64 i)"

lemma sint_fits: "fits_i64 (sint (w :: 64 word))"
  using sint_range_size [of w] by (simp add: i64_simps word_size)

lemma value_fits: "any_value_to_json lib v = AtInt i \<Longrightarrow> fits_i64 i"
  by (cases v) (auto simp: sint_fits json_of_f64_def split: if_splits)

lemma ints_fit_map: "ints_fit (key_values_to_map lib kvs)"
proof -
  have "ints_fit (foldl (\<lambda>m (k, v). m(k \<mapsto> (case v of None \<Rightarrow> AtNull | Some a \<Rightarrow> any_value_to_json lib a))) m kvs)" if "ints_fit m" for m
    using that
  proof (induction kvs arbitrary: m)
    case (Cons kv kvs)
    obtain k v where kv: "kv = (k, v)" by (cases kv)
    have "ints_fit (m(k \<mapsto> (case v of None \<Rightarrow> AtNull | Some a \<Rightarrow> any_value_to_json lib a)))"
      using Cons.prems by (auto simp: ints_fit_def value_fits split: option.splits if_splits)
    from Cons.IH [OF this] show ?case by (simp add: kv)
  qed simp
  moreover have "ints_fit Map.empty" by (simp add: ints_fit_def)
  ultimately show ?thesis unfolding key_values_to_map_def by blast
qed

lemma ints_fit_merge: "ints_fit a \<Longrightarrow> ints_fit b \<Longrightarrow> ints_fit (merge_attr_maps a b)"
  by (auto simp: ints_fit_def merge_attr_maps_def map_add_def split: option.splits)

lemma parse_i64_fits: "parse_i64 s = Some i \<Longrightarrow> fits_i64 i"
  by (auto simp: parse_i64_def Let_def split: if_splits prod.splits)

lemma extract_i64_fits: "ints_fit m \<Longrightarrow> extract_i64 m keys = Some i \<Longrightarrow> fits_i64 i"
proof -
  assume m: "ints_fit m" and "extract_i64 m keys = Some i"
  then obtain k v where "m k = Some v" "attr_i64 v = Some i"
    unfolding extract_i64_def by (auto dest!: find_map_Some simp: bind_eq_Some_conv)
  with m show "fits_i64 i" by (cases v) (auto simp: attr_i64_def ints_fit_def parse_i64_fits)
qed

lemma combine_fits:
  "combine_token_total p c = Some t \<Longrightarrow> (\<And>i. p = Some i \<Longrightarrow> fits_i64 i) \<Longrightarrow> (\<And>i. c = Some i \<Longrightarrow> fits_i64 i) \<Longrightarrow> fits_i64 t"
  by (cases p; cases c) (auto split: if_splits)

lemma total_tokens_fits: "ints_fit m \<Longrightarrow> total_tokens_of m = Some t \<Longrightarrow> fits_i64 t"
  unfolding total_tokens_of_def by (auto split: option.splits dest: combine_fits intro: extract_i64_fits)

text \<open>The counts of an event are non-negative 64-bit numbers, except for tokens the sender made negative.\<close>

definition counts_ok :: "usage_event \<Rightarrow> bool" where
  "counts_ok e \<longleftrightarrow> 1 \<le> ue_request_count e \<and> ue_request_count e \<le> I64_MAX \<and>
     (\<forall>t \<in> {ue_prompt_tokens e, ue_completion_tokens e, ue_total_tokens e}. \<forall>v. t = Some v \<longrightarrow> fits_i64 v)"

text \<open>What an event can still be refused for.\<close>

definition sound_figures :: "usage_event \<Rightarrow> bool" where
  "sound_figures e \<longleftrightarrow> is_finite (ue_usage_value e) \<and> (\<forall>c. ue_total_cost e = Some c \<longrightarrow> is_finite c) \<and>
     (\<forall>t \<in> {ue_prompt_tokens e, ue_completion_tokens e, ue_total_tokens e}. \<forall>v. t = Some v \<longrightarrow> 0 \<le> v)"

definition event_ok :: "usage_event \<Rightarrow> bool" where
  "event_ok e \<longleftrightarrow> counts_ok e \<and> ue_signal_type e \<in> {''log'', ''trace'', ''metric''} \<and> (event_problem e = None \<longleftrightarrow> sound_figures e)"

lemma event_ok_of:
  assumes "ints_fit m" "1 \<le> hits" "hits \<le> I64_MAX" "\<And>t. tokens = Some t \<Longrightarrow> fits_i64 t"
    "signal \<in> {''log'', ''trace'', ''metric''}"
  shows "event_ok (event_of lib m observed signal name value hits tokens)"
proof -
  let ?e = "event_of lib m observed signal name value hits tokens"
  have "counts_ok ?e"
    using assms extract_i64_fits by (auto simp: counts_ok_def event_of_def)
  moreover have "\<not> is_blank signal" using assms(5) by (auto simp: is_graphic_def)
  then have "event_problem ?e = None \<longleftrightarrow> sound_figures ?e"
    using assms(2) by (auto simp: event_problem_def sound_figures_def event_of_def not_less split: option.splits)
  ultimately show ?thesis using assms(5) by (simp add: event_ok_def event_of_def)
qed

lemma f64_one: "f64_of_int 1 = Finite 1"
  by (simp add: f64_of_int_exact)

lemma request_count_bounds: "1 \<le> request_count_from_metric_value v \<and> request_count_from_metric_value v \<le> I64_MAX"
proof (cases "is_finite v \<and> f64_le (f64_of_int 1) v")
  case True
  then obtain x where v: "v = Finite x" "1 \<le> x" by (cases v) (auto simp: f64_one)
  have "1 \<le> round_away x" using v(2) by (simp add: round_away_def le_floor_iff)
  then have "toward_zero (of_int (round_away x)) = round_away x" "1 \<le> round_away x" by (simp_all add: toward_zero_def)
  then show ?thesis
    using True v by (auto simp: request_count_from_metric_value_def Let_def clamp_int_def I64_MAX_def)
qed (auto simp: request_count_from_metric_value_def I64_MAX_def)

lemma u64_bounds: "0 \<le> u64_to_i64 w \<and> u64_to_i64 w \<le> I64_MAX"
  by (auto simp: u64_to_i64_def I64_MAX_def)

lemma ints_fit_resources: "(base, r :: 'r) \<in> set (with_resources lib payload) \<Longrightarrow> ints_fit base"
proof -
  have "ints_fit (resource_attrs lib g)" for g :: "'r resource_group"
    unfolding resource_attrs_def using ints_fit_map by (auto simp: ints_fit_def split: option.split)
  then show "(base, r) \<in> set (with_resources lib payload) \<Longrightarrow> ints_fit base" for r :: 'r
    by (auto simp: with_resources_def)
qed

lemma numbered_mem: "y \<in> set (numbered f xs) \<Longrightarrow> \<exists>k. \<exists>x \<in> set xs. y = f k x"
  unfolding numbered_def by (auto simp: in_set_enumerate_eq) (metis nth_mem)

lemma event_ok_made:
  assumes "ints_fit base" "1 \<le> hits" "hits \<le> I64_MAX" "signal \<in> {''log'', ''trace'', ''metric''}"
  shows "event_ok (event_of lib (merge_attr_maps base (key_values_to_map lib kvs)) observed signal name value hits
      (total_tokens_of (merge_attr_maps base (key_values_to_map lib kvs))))"
    "event_ok (event_of lib (merge_attr_maps base (key_values_to_map lib kvs)) observed signal name value hits
      (extract_i64 (merge_attr_maps base (key_values_to_map lib kvs)) TOTAL_TOKENS_KEYS))"
proof -
  have m: "ints_fit (merge_attr_maps base (key_values_to_map lib kvs))" by (rule ints_fit_merge [OF assms(1) ints_fit_map])
  show "event_ok (event_of lib (merge_attr_maps base (key_values_to_map lib kvs)) observed signal name value hits
      (total_tokens_of (merge_attr_maps base (key_values_to_map lib kvs))))"
    by (rule event_ok_of [OF m assms(2,3) total_tokens_fits [OF m] assms(4)])
  show "event_ok (event_of lib (merge_attr_maps base (key_values_to_map lib kvs)) observed signal name value hits
      (extract_i64 (merge_attr_maps base (key_values_to_map lib kvs)) TOTAL_TOKENS_KEYS))"
    by (rule event_ok_of [OF m assms(2,3) extract_i64_fits [OF m] assms(4)])
qed

lemma metric_events_ok:
  assumes "ints_fit base" "f \<in> set (metric_events lib (base, mt))"
  shows "event_ok (f now)"
proof -
  let ?m = "merge_attr_maps base (key_values_to_map lib (mc_metadata mt))"
  have m: "ints_fit ?m" by (rule ints_fit_merge [OF assms(1) ints_fit_map])
  have u: "1 \<le> max (u64_to_i64 w) 1" "max (u64_to_i64 w) 1 \<le> I64_MAX" for w
    using u64_bounds [of w] by (auto simp: I64_MAX_def)
  have points: "event_ok (number_data_point_to_event lib now ?m name p)" "event_ok (histogram_data_point_to_event lib now ?m name h)"
    "event_ok (summary_data_point_to_event lib now ?m name z)" for name p h z
    unfolding number_data_point_to_event_def histogram_data_point_to_event_def summary_data_point_to_event_def Let_def
    using m u request_count_bounds by (auto intro!: event_ok_made)
  obtain data where data: "mc_data mt = Some data" using assms(2) by (cases "mc_data mt") (auto simp: metric_events_def)
  show ?thesis
    using assms(2) points by (cases data) (auto simp: metric_events_def Let_def data)
qed

text \<open>C24 (well-formed events). Whatever a sender puts in a payload, every event made of it has a known signal, a request count between one and
  the largest \<open>i64\<close> and token counts that fit \<open>i64\<close>; so an event is refused exactly for a value or a cost that is not
  finite or for tokens the sender made negative.\<close>

theorem extracted_events_ok:
  "set (extract_log_events lib clock logs) \<subseteq> Collect event_ok \<and> set (extract_trace_events lib clock spans) \<subseteq> Collect event_ok \<and>
   set (extract_metric_events lib clock metrics) \<subseteq> Collect event_ok"
proof (intro conjI subsetI CollectI)
  fix e assume "e \<in> set (extract_log_events lib clock logs)"
  then obtain k base r where "(base, r) \<in> set (with_resources lib logs)" "e = log_event lib (clock k) (base, r)"
    unfolding extract_log_events_def by (auto dest!: numbered_mem)
  then show "event_ok e"
    by (auto simp: log_event_def Let_def I64_MAX_def intro!: event_ok_made dest: ints_fit_resources)
next
  fix e assume "e \<in> set (extract_trace_events lib clock spans)"
  then obtain k base r where "(base, r) \<in> set (with_resources lib spans)" "e = trace_event lib (clock k) (base, r)"
    unfolding extract_trace_events_def by (auto dest!: numbered_mem)
  then show "event_ok e"
    by (auto simp: trace_event_def Let_def I64_MAX_def intro!: event_ok_made dest: ints_fit_resources)
next
  fix e assume "e \<in> set (extract_metric_events lib clock metrics)"
  then obtain k base mt f where "(base, mt) \<in> set (with_resources lib metrics)" "f \<in> set (metric_events lib (base, mt))" "e = f (clock k)"
    unfolding extract_metric_events_def by (auto dest!: numbered_mem)
  then show "event_ok e" by (auto intro!: metric_events_ok dest: ints_fit_resources)
qed

subsection \<open>Ingestion\<close>

lemma run_insert_cases:
  assumes "run (insert_usage_events lib events) env n db = (r, n', db')"
  shows "(db' = db \<or> db' = db @ map (stored_event lib) events) \<and> (\<forall>k. r = Inr k \<longrightarrow> k = length events \<and> db' = db @ map (stored_event lib) events)"
  using assms unfolding insert_usage_events_def
  by (auto elim!: run_stmt_cases split: if_splits)

lemma validate_events_ok: "validate_events events = Inr () \<longleftrightarrow> (\<forall>e \<in> set events. event_problem e = None)"
proof (cases "find_map event_problem events")
  case None
  then show ?thesis by (simp add: validate_events_def find_map_None [symmetric])
next
  case (Some msg)
  then show ?thesis by (metis find_map_None option.distinct(1) validate_events_def option.case(2) sum.distinct(1))
qed

text \<open>C22 (a request is recorded whole or not at all). Whatever the weather: ingesting either leaves the table as it was or appends the
  rows of all events of the decoded payload, and then every one of them is valid; a success says how many there are and means
  that all were appended; a payload that does not decode, or has one invalid event, changes nothing.\<close>

theorem ingestion_all_or_nothing:
  "\<exists>clock. let events = (case decoded of Inl _ \<Rightarrow> [] | Inr payload \<Rightarrow> extract (ul_otlp lib) clock payload);
             r = fst (run (ingest lib decoded extract) env n db); db' = snd (snd (run (ingest lib decoded extract) env n db)) in
     (db' = db \<or> db' = db @ map (stored_event lib) events \<and> list_all (\<lambda>e. event_problem e = None) events) \<and>
     (\<forall>k. r = Inr k \<longrightarrow> k = length events \<and> db' = db @ map (stored_event lib) events) \<and>
     (\<forall>e. decoded = Inl e \<longrightarrow> r = Inl e \<and> db' = db)"
proof (cases decoded)
  case (Inl e)
  then show ?thesis by (simp add: ingest_def run_obind)
next
  case (Inr payload)
  let ?clock = "\<lambda>k. o_now (env n k)"
  let ?events = "extract (ul_otlp lib) ?clock payload"
  obtain r n' db' where run: "run (ingest lib decoded extract) env n db = (r, n', db')" by (metis prod_cases3)
  then have persist: "run (persist_events lib ?events) env (Suc n) db = (r, n', db')"
    by (simp add: ingest_def Inr run_obind run_observe)
  have "(db' = db \<or> db' = db @ map (stored_event lib) ?events \<and> list_all (\<lambda>e. event_problem e = None) ?events) \<and>
     (\<forall>k. r = Inr k \<longrightarrow> k = length ?events \<and> db' = db @ map (stored_event lib) ?events)"
  proof (cases "validate_events ?events")
    case (Inl msg)
    with persist show ?thesis by (auto simp: persist_events_def run_obind)
  next
    case (Inr u)
    then have valid: "list_all (\<lambda>e. event_problem e = None) ?events" using validate_events_ok by (simp add: list_all_iff)
    obtain q m db1 where q: "run (insert_usage_events lib ?events) env (Suc n) db = (q, m, db1)" by (metis prod_cases3)
    have "db' = db1" "\<And>k. r = Inr k \<Longrightarrow> \<exists>j. q = Inr j \<and> k = (if j < length ?events then length ?events else j)"
      using persist q Inr by (auto simp: persist_events_def run_obind split: sum.splits)
    with run_insert_cases [OF q] valid show ?thesis by force
  qed
  then show ?thesis using run Inr by (intro exI [of _ ?clock]) (simp add: Let_def)
qed

subsection \<open>Series\<close>

definition part_of :: "'k \<Rightarrow> ('k \<times> 'e) list \<Rightarrow> 'e list" where
  "part_of key kes = map snd (filter (\<lambda>(k, e). k = key) kes)"

text \<open>Summing over the parts of a partition.\<close>

lemma sum_parts_set:
  "finite K \<Longrightarrow> fst ` set kes \<subseteq> K \<Longrightarrow>
     (\<Sum>key \<in> K. sum_list (map f (part_of key kes))) = sum_list (map (\<lambda>(k, e). f e :: int) kes)"
proof (induction kes)
  case (Cons ke kes)
  obtain k e where ke: "ke = (k, e)" by (cases ke)
  have "sum_list (map f (part_of key (ke # kes))) = (if key = k then f e else 0) + sum_list (map f (part_of key kes))" for key
    by (simp add: part_of_def ke)
  then show ?case using Cons by (simp add: sum.distrib ke)
qed (simp add: part_of_def)

lemma sum_parts:
  assumes "length keys = length rows"
  shows "sum_list (map (\<lambda>key. sum_list (map f (part_of key (zip keys rows)))) (remdups keys)) = (sum_list (map f rows) :: int)"
proof -
  have "sum_list (map (\<lambda>key. sum_list (map f (part_of key (zip keys rows)))) (remdups keys)) =
      (\<Sum>key \<in> set keys. sum_list (map f (part_of key (zip keys rows))))"
    by (simp add: sum_list_distinct_conv_sum_set)
  also have "\<dots> = sum_list (map (\<lambda>(k, e). f e) (zip keys rows))"
    by (rule sum_parts_set) (auto dest: set_zip_leftD)
  also have "map (\<lambda>(k, e). f e) (zip keys rows) = map f rows"
    using assms by (induction keys rows rule: list_induct2) simp_all
  finally show ?thesis .
qed

lemma sum_bigint_Inr: "sum_bigint xs = Inr t \<Longrightarrow> t = sum_list (map (\<lambda>x. case x of None \<Rightarrow> 0 | Some v \<Rightarrow> v) xs) \<and> fits_i64 t"
  by (auto simp: sum_bigint_def Let_def split: if_splits)

lemma series_point_Inr:
  assumes "series_point key rows = Inr p"
  shows "us_bucket_start p = fst key" "us_requests p = sum_list (map ue_request_count rows)"
    "us_total_tokens p = sum_list (map (\<lambda>e. case ue_total_tokens e of None \<Rightarrow> 0 | Some v \<Rightarrow> v) rows)"
  using assms unfolding series_point_def
  by (auto simp: res_bind_eq_Inr_conv Let_def comp_def dest!: sum_bigint_Inr)

lemma sum_sort_key: "sum_list (map f (sort_key g xs)) = (sum_list (map f xs) :: int)"
  by (metis mset_map mset_sort sum_mset_sum_list)

lemma map_Inr_map: "map f xs = map Inr ys \<Longrightarrow> (\<And>x y. f x = Inr y \<Longrightarrow> g y = h x) \<Longrightarrow> map g ys = map h xs"
proof (induction xs arbitrary: ys)
  case (Cons x xs)
  then show ?case by (cases ys) auto
qed simp

lemma grouped_sums:
  assumes "grouped lib q rows = Inr points"
  shows "sum_list (map us_requests points) = sum_list (map ue_request_count rows)"
    "sum_list (map us_total_tokens points) = sum_list (map (\<lambda>e. case ue_total_tokens e of None \<Rightarrow> 0 | Some v \<Rightarrow> v) rows)"
proof -
  from assms obtain keys where keys: "map (group_key lib q) rows = map Inr keys"
    and points: "map (\<lambda>key. series_point key (part_of key (zip keys rows))) (remdups keys) = map Inr points"
    unfolding grouped_def part_of_def by (auto simp: res_bind_eq_Inr_conv collect_results_Inr_iff)
  have len: "length keys = length rows" using arg_cong [OF keys, of length] by simp
  have "map us_requests points = map (\<lambda>key. sum_list (map ue_request_count (part_of key (zip keys rows)))) (remdups keys)"
    "map us_total_tokens points =
      map (\<lambda>key. sum_list (map (\<lambda>e. case ue_total_tokens e of None \<Rightarrow> 0 | Some v \<Rightarrow> v) (part_of key (zip keys rows)))) (remdups keys)"
    by (rule map_Inr_map [OF points], simp add: series_point_Inr)+
  then show "sum_list (map us_requests points) = sum_list (map ue_request_count rows)"
    "sum_list (map us_total_tokens points) = sum_list (map (\<lambda>e. case ue_total_tokens e of None \<Rightarrow> 0 | Some v \<Rightarrow> v) rows)"
    by (simp_all add: sum_parts [OF len])
qed

text \<open>C23 (a series accounts for every event). When a query succeeds with fewer points than its limit, its points are in the order of their
  buckets, and the requests and tokens they show add up to those of the events in the interval that match scope and filters, each
  counted once, whatever dimensions it groups by; these totals never wrapped around.\<close>

theorem usage_series_conserves:
  assumes "result_of (query_usage lib q) env db = Inr points" "length points < uq_limit q"
  shows "sorted (map us_bucket_start points) \<and>
    sum_list (map us_requests points) = sum_list (map ue_request_count (filter (usage_matches lib q) db)) \<and>
    sum_list (map us_total_tokens points) =
      sum_list (map (\<lambda>e. case ue_total_tokens e of None \<Rightarrow> 0 | Some v \<Rightarrow> v) (filter (usage_matches lib q) db))"
proof -
  obtain n' db' where "run (query_usage lib q) env 0 db = (Inr points, n', db')"
    using assms(1) by (metis fst_conv prod_cases3 result_of_def)
  then obtain all where all: "grouped lib q (filter (usage_matches lib q) db) = Inr all"
    and points: "points = take (uq_limit q) (sort_key us_bucket_start all)"
    unfolding query_usage_def usage_query_rows_def
    by (auto elim!: run_obind_Inr dest!: run_query_Inr simp: res_bind_eq_Inr_conv split: if_splits)
  have whole: "points = sort_key us_bucket_start all" using points assms(2) by simp
  then show ?thesis
    using grouped_sums [OF all] by (simp add: sum_sort_key)
qed

end
