(* ===== verification/Spend_Reader.thy ===== *)
theory Spend_Reader
  imports Usage_Facts Refill
begin

text \<open>
  budget/src/spend.rs: the reader through which the budget service asks the usage service for the spend of a month. The HTTP client,
  reading and parsing PEM files, serde_json and chrono's calendar are fields of a record. Error messages are short tags.
\<close>

subsection \<open>Micro-dollars\<close>

definition cost_to_micros :: "f64 \<Rightarrow> int bresult" where
  "cost_to_micros total_cost =
     (if \<not> is_finite total_cost then Inl (StorageFailed ''total_cost is not finite'')
      else if f64_less total_cost (f64_of_int 0) then Inl (StorageFailed ''total_cost is negative'')
      else let micros = f64_round (f64_mul total_cost (f64_of_int 1000000)) in
           if f64_less (f64_of_int I64_MAX) micros then Inl (StorageFailed ''total_cost overflows'')
           else Inr (f64_to_i64 micros))"

subsection \<open>Construction\<close>

record spend_query_request =
  sq_account_id :: string
  sq_start :: int
  sq_end :: int

record ('cert, 'identity) client_config =
  cc_insecure_skip_verify :: bool
  cc_roots :: "'cert list"
  cc_identity :: "'identity option"

record ('cert, 'identity) reader_lib =
  rl_midnight :: "nat \<Rightarrow> nat \<Rightarrow> int option"
  rl_post :: "weather \<Rightarrow> string \<Rightarrow> spend_query_request \<Rightarrow> (string, bool \<times> string) result"
  rl_json :: "string \<Rightarrow> (string, f64 option) result"
  rl_read :: "string \<Rightarrow> (string, string) result"
  rl_pem_bundle :: "string \<Rightarrow> (string, 'cert list) result"
  rl_identity :: "string \<Rightarrow> (string, 'identity) result"
  rl_build :: "('cert, 'identity) client_config \<Rightarrow> (string, unit) result"

definition load_client_identity ::
  "('cert, 'identity) reader_lib \<Rightarrow> string option \<Rightarrow> string option \<Rightarrow> 'identity option bresult" where
  "load_client_identity rl client_cert_path client_key_path =
     (case (client_cert_path, client_key_path) of
        (None, None) \<Rightarrow> Inr None
      | (Some cert_path, None) \<Rightarrow> Inl (StorageFailed ''client_key_path is missing'')
      | (None, Some key_path) \<Rightarrow> Inl (StorageFailed ''client_cert_path is missing'')
      | (Some cert_path, Some key_path) \<Rightarrow>
          res_bind (map_err (\<lambda>_. StorageFailed ''failed to read client cert'') (rl_read rl cert_path)) (\<lambda>pem.
          res_bind (map_err (\<lambda>_. StorageFailed ''failed to read client key'') (rl_read rl key_path)) (\<lambda>key_pem.
          res_bind (map_err (\<lambda>_. StorageFailed ''failed to parse client identity'') (rl_identity rl (pem @ [CHR 0x0A] @ key_pem))) (\<lambda>i.
          Inr (Some i)))))"

definition load_roots :: "('cert, 'identity) reader_lib \<Rightarrow> string option \<Rightarrow> 'cert list bresult" where
  "load_roots rl ca_bundle_path =
     (case ca_bundle_path of
        None \<Rightarrow> Inr []
      | Some path \<Rightarrow>
          res_bind (map_err (\<lambda>_. StorageFailed ''failed to read CA bundle'') (rl_read rl path)) (\<lambda>pem.
          res_bind (map_err (\<lambda>_. StorageFailed ''failed to parse CA bundle'') (rl_pem_bundle rl pem)) (\<lambda>certs.
          if certs = [] then Inl (StorageFailed ''CA bundle contains no PEM certificates'') else Inr certs)))"

definition trim_end_slash :: "string \<Rightarrow> string" where
  "trim_end_slash s = rev (dropWhile (\<lambda>c. c = CHR ''/'') (rev s))"

record ('cert, 'identity) spend_client =
  sc_config :: "('cert, 'identity) client_config"
  sc_base_url :: string

definition usage_reader_new ::
  "('cert, 'identity) reader_lib \<Rightarrow> string \<Rightarrow> bool \<Rightarrow> string option \<Rightarrow> string option \<Rightarrow> string option \<Rightarrow>
   ('cert, 'identity) spend_client bresult" where
  "usage_reader_new rl base_url insecure ca_bundle_path client_cert_path client_key_path =
     res_bind (load_roots rl ca_bundle_path) (\<lambda>roots.
     res_bind (load_client_identity rl client_cert_path client_key_path) (\<lambda>i.
     let cfg = \<lparr>cc_insecure_skip_verify = insecure, cc_roots = roots, cc_identity = i\<rparr> in
     res_bind (map_err (\<lambda>_. StorageFailed ''failed to build HTTP client'') (rl_build rl cfg)) (\<lambda>_.
     Inr \<lparr>sc_config = cfg, sc_base_url = trim_end_slash base_url\<rparr>)))"

subsection \<open>Reading\<close>

text \<open>The first instant of the month and of the next one; \<open>None\<close> is a panic.\<close>

definition period_bounds_utc :: "('cert, 'identity) reader_lib \<Rightarrow> period \<Rightarrow> (int \<times> int) option" where
  "period_bounds_utc rl p =
     Option.bind (period_year p) (\<lambda>year.
     Option.bind (period_month p) (\<lambda>month.
     Option.bind (rl_midnight rl year month) (\<lambda>start.
     let (next_year, next_month) = (if month = 12 then (year + 1, 1) else (year, month + 1)) in
     Option.bind (rl_midnight rl next_year next_month) (\<lambda>finish. Some (start, finish)))))"

definition spend_of_reply :: "('cert, 'identity) reader_lib \<Rightarrow> (string, bool \<times> string) result \<Rightarrow> spend" where
  "spend_of_reply rl reply =
     (case reply of
        Inl _ \<Rightarrow> Unavailable
      | Inr (success, body) \<Rightarrow>
          if \<not> success then Unavailable
          else (case rl_json rl body of
              Inl _ \<Rightarrow> Unavailable
            | Inr None \<Rightarrow> Unavailable
            | Inr (Some total_cost) \<Rightarrow> (case cost_to_micros total_cost of Inr micros \<Rightarrow> Known micros | Inl _ \<Rightarrow> Unavailable)))"

definition usage_service_reader :: "('cert, 'identity) reader_lib \<Rightarrow> string \<Rightarrow> spend_reader" where
  "usage_service_reader rl base_url w account_id p =
     (case period_bounds_utc rl p of
        None \<Rightarrow> Inl (StorageFailed ''panic'')
      | Some (start, finish) \<Rightarrow> Inr (spend_of_reply rl (rl_post rl w (base_url @ ''/usage/v1/spend/query'')
          \<lparr>sq_account_id = account_id, sq_start = start, sq_end = finish\<rparr>)))"

definition unavailable_spend_reader :: spend_reader where
  "unavailable_spend_reader w account_id p = Inr Unavailable"

subsection \<open>Conversion\<close>

lemma f64_constants: "f64_of_int 0 = Finite 0" "f64_of_int 1000000 = Finite 1000000" "f64_of_int I64_MAX = Finite 9223372036854775808"
    "f64_of_int 9223372036854775807 = Finite 9223372036854775808"
  by (simp_all add: f64_of_int_exact f64_of_i64_max I64_MAX_def)

lemma round_even_nonneg: "0 \<le> x \<Longrightarrow> 0 \<le> round_even x"
  unfolding round_even_def Let_def by (auto intro: add_nonneg_nonneg)

lemma f64_of_rat_nonneg: "f64_of_rat x = Finite y \<Longrightarrow> 0 \<le> x \<Longrightarrow> 0 \<le> y"
  using two_to_pos by (auto simp: f64_of_rat_def Let_def round_even_nonneg less_imp_le split: if_splits)

lemma round_away_nonneg: "0 \<le> x \<Longrightarrow> 0 \<le> round_away x"
  by (simp add: round_away_def)

lemma toward_zero_int: "toward_zero (of_int i) = i"
  by (simp add: toward_zero_def)

text \<open>(micro-dollars). A cost converts exactly when it is finite and not negative and its product with a million, as a double, rounds to
  at most \<open>2\<^sup>6\<^sup>3\<close>; the result is that integer, or the largest \<open>i64\<close> in the one case where it is \<open>2\<^sup>6\<^sup>3\<close> itself. So it is always
  a non-negative \<open>i64\<close>.\<close>

theorem cost_to_micros_exact:
  "(cost_to_micros c = Inr m) = (\<exists>x y. c = Finite x \<and> 0 \<le> x \<and> f64_of_rat (x * 1000000) = Finite y \<and>
     0 \<le> round_away y \<and> round_away y \<le> 2 ^ 63 \<and> m = min (round_away y) I64_MAX)"
proof (cases c)
  case (Finite x)
  show ?thesis
  proof (cases "f64_of_rat (x * 1000000)")
    case (Finite y)
    have "0 \<le> round_away y" if "0 \<le> x"
      using f64_of_rat_nonneg [OF Finite] round_away_nonneg that by simp
    moreover have "(9223372036854775808 < rat_of_int i) = (9223372036854775808 < i)" for i
      using of_int_less_iff [of 9223372036854775808 i, where 'a = rat] by simp
    ultimately show ?thesis
      using \<open>c = Finite x\<close> Finite
      by (auto simp: cost_to_micros_def f64_constants Let_def toward_zero_int clamp_int_def I64_MAX_def min_def)
  next
    case (Infinite pos)
    have "pos" if "0 \<le> x" using Infinite that by (auto simp: f64_of_rat_def Let_def split: if_splits)
    then show ?thesis using \<open>c = Finite x\<close> Infinite by (auto simp: cost_to_micros_def f64_constants Let_def)
  next
    case NotANumber
    then show ?thesis by (auto simp: f64_of_rat_def Let_def split: if_splits)
  qed
qed (simp_all add: cost_to_micros_def)

subsection \<open>End to end\<close>

lemma f64_of_rat_not_nan: "f64_of_rat x \<noteq> NotANumber"
  by (simp add: f64_of_rat_def Let_def)

lemma float8_sum_finite: "float8_sum a xs = Inr r \<Longrightarrow> is_finite a \<Longrightarrow> list_all is_finite xs \<Longrightarrow> is_finite r"
proof (induction xs arbitrary: a)
  case (Cons x xs)
  then have "is_finite (f64_add a x)"
    by (cases a; cases x) (auto simp: Let_def f64_of_rat_not_nan split: f64.splits if_splits)
  with Cons show ?case by (auto simp: Let_def split: if_splits)
qed simp

lemma sum_doubles_finite: "sum_doubles xs = Inr (Some r) \<Longrightarrow> list_all is_finite xs \<Longrightarrow> is_finite r"
  by (cases xs) (auto simp: sum_doubles_def res_bind_eq_Inr_conv dest: float8_sum_finite)

text \<open>The usage service behind the HTTP client: a success is answered 200 with the sum as JSON, an error with another status.\<close>

definition usage_answers ::
  "usage_lib \<Rightarrow> (f64 option \<Rightarrow> string) \<Rightarrow> usage_db \<Rightarrow> weather \<Rightarrow> string \<Rightarrow> spend_query_request \<Rightarrow> (string, bool \<times> string) result" where
  "usage_answers lib encode db w url q =
     (case result_of (query_spend lib (sq_account_id q) (sq_start q) (sq_end q)) (\<lambda>_. w) db of
        Inr c \<Rightarrow> Inr (True, encode c)
      | Inl e \<Rightarrow> Inr (False, []))"

definition month_costs :: "usage_lib \<Rightarrow> string \<Rightarrow> int \<Rightarrow> int \<Rightarrow> usage_db \<Rightarrow> f64 list" where
  "month_costs lib account_id start finish db =
     map cost_of (filter (\<lambda>e. ue_account_id e = Some account_id \<and> in_interval lib start finish e) db)"

lemma query_spend_result:
  "o_net (w 0) = Delivered \<Longrightarrow> \<not> is_blank a \<Longrightarrow> start < finish \<Longrightarrow>
     result_of (query_spend lib a start finish) (\<lambda>_. w) db = map_err SqlxError (sum_doubles (month_costs lib a start finish db))"
  by (cases "sum_doubles (month_costs lib a start finish db)")
    (auto simp: result_of_def query_spend_def usage_spend_for_account_def reading_def statement_def run_atomic month_costs_def)

text \<open>C21 (spend is known only from events). With the usage service answering and its JSON read back as written: the budget service
  takes the spend of a month to be known exactly when the account has usage events in that month and the sum of their costs
  converts, and then it is that sum; without events it is unavailable, never zero.\<close>

theorem spend_known_iff_summed:
  assumes "rl_post rl = usage_answers lib encode db" "o_net (w 0) = Delivered"
    and "\<And>c. (\<And>x. c = Some x \<Longrightarrow> is_finite x) \<Longrightarrow> rl_json rl (encode c) = Inr c"
    and "list_all is_finite (map cost_of db)" "\<not> is_blank account" "period_bounds_utc rl p = Some (start, finish)" "start < finish"
  shows "(usage_service_reader rl base w account p = Inr (Known m)) =
      (\<exists>c. sum_doubles (month_costs lib account start finish db) = Inr (Some c) \<and> cost_to_micros c = Inr m) \<and>
    (month_costs lib account start finish db = [] \<longrightarrow> usage_service_reader rl base w account p = Inr Unavailable)"
proof -
  let ?sum = "sum_doubles (month_costs lib account start finish db)"
  have reader: "usage_service_reader rl base w account p = Inr (spend_of_reply rl (case ?sum of
      Inr c \<Rightarrow> Inr (True, encode c) | Inl e \<Rightarrow> Inr (False, [])))"
    using query_spend_result [of w account start finish lib db] assms(2,5,7)
    by (cases ?sum) (simp_all add: usage_service_reader_def assms(1,6) usage_answers_def)
  have finite: "list_all is_finite (month_costs lib account start finish db)"
    using assms(4) by (auto simp: month_costs_def list_all_iff)
  show ?thesis
  proof (cases ?sum)
    case (Inl e)
    then have "month_costs lib account start finish db \<noteq> []" by (auto simp: sum_doubles_def)
    with Inl show ?thesis by (simp add: reader spend_of_reply_def)
  next
    case (Inr c)
    have "rl_json rl (encode c) = Inr c" using sum_doubles_finite [of _ _] finite Inr by (intro assms(3)) auto
    moreover have "c = None" if "month_costs lib account start finish db = []" using Inr that by (simp add: sum_doubles_def)
    ultimately show ?thesis
      using Inr by (auto simp: reader spend_of_reply_def split: option.splits sum.splits)
  qed
qed

end
