(* ===== verification/Usage_Demo.thy ===== *)
theory Usage_Demo
  imports Spend_Reader
begin

text \<open>
  The statements about the usage service at a concrete deployment: one account that sends log records with a cost, months that
  begin at the multiples of 31 days, and a table on which retention has run.
\<close>

subsection \<open>A deployment\<close>

definition demo_logs :: "log_record resource_group list" where
  "demo_logs = [\<lparr>rg_resource = Some [(''account_id'', Some (StringValue ''alice''))], rg_scopes = [[
     \<lparr>lr_time_unix_nano = 5000000, lr_observed_time_unix_nano = 0, lr_severity_text = ''INFO'',
      lr_attributes = [(''prompt_tokens'', Some (IntValue 10)), (''completion_tokens'', Some (StringValue ''5'')),
        (''cost'', Some (StringValue ''0.25''))]\<rparr>]]\<rparr>]"

definition demo_usage :: usage_lib where
  "demo_usage = \<lparr>ul_otlp = \<lparr>ol_hex = id, ol_float_text = (\<lambda>_. ''1.0'')\<rparr>, ul_gunzip = Inr,
     ul_logs = (\<lambda>_ _. Inr demo_logs), ul_traces = (\<lambda>_ _. Inl ''none''), ul_metrics = (\<lambda>_ _. Inl ''none''),
     ul_bucket_matches = (\<lambda>b. b = ''1 hour''), ul_interval = (\<lambda>_. Inr 3600000000), ul_timestamptz = (\<lambda>t. t div 1000)\<rparr>"

definition demo_attrs :: attrs where
  "demo_attrs = [''account_id'' \<mapsto> AtText ''alice'', ''prompt_tokens'' \<mapsto> AtInt 10, ''completion_tokens'' \<mapsto> AtText ''5'',
     ''cost'' \<mapsto> AtText ''0.25'']"

definition demo_event :: usage_event where
  "demo_event = \<lparr>ue_observed_at = 5000000, ue_signal_type = ''log'', ue_account_id = Some ''alice'', ue_project_id = None,
     ue_api_key_id = None, ue_user_id = None, ue_user_name = None, ue_model = None, ue_metric_name = Some ''INFO'',
     ue_usage_value = Finite 15, ue_request_count = 1, ue_prompt_tokens = Some 10, ue_completion_tokens = Some 5,
     ue_total_tokens = Some 15, ue_total_cost = Some (Finite (1 / 4)), ue_attributes = demo_attrs\<rparr>"

lemma demo_cost: "parse_f64 ''0.25'' = Some (Finite (1 / 4))"
proof -
  have "split_sign ''0.25'' = (False, ''0.25'')" "\<not> eq_ignore_ascii_case ''0.25'' ''inf''" "\<not> eq_ignore_ascii_case ''0.25'' ''infinity''"
    "\<not> eq_ignore_ascii_case ''0.25'' ''nan''" "parse_decimal ''0.25'' = Some (of_nat 25 * ten_to (- 2))"
    by code_simp+
  then show ?thesis using f64_exact [of 1 2] by (simp add: parse_f64_def ten_to_def)
qed

lemma demo_parses: "parse_i64 ''5'' = Some 5"
    "non_blank ''INFO'' = Some ''INFO''" "\<not> is_blank ''log''" "uint (5000000 :: 64 word) = 5000000" "sint (10 :: 64 word) = 10"
    "0 < (5000000 :: 64 word)" "(5000000 :: 64 word) \<noteq> 0" "fits_i64 15"
  by code_simp+

lemma demo_merged: "merge_attr_maps (key_values_to_map (ul_otlp demo_usage) [(''account_id'', Some (StringValue ''alice''))])
    (key_values_to_map (ul_otlp demo_usage) [(''prompt_tokens'', Some (IntValue 10)), (''completion_tokens'', Some (StringValue ''5'')),
        (''cost'', Some (StringValue ''0.25''))]) = demo_attrs"
  by (simp add: merge_attr_maps_def demo_attrs_def key_values_to_map_def demo_parses)

lemma demo_dimensions:
  "extract_string (ul_otlp demo_usage) demo_attrs ACCOUNT_KEYS = Some ''alice''"
  "extract_string (ul_otlp demo_usage) demo_attrs PROJECT_KEYS = None" "extract_string (ul_otlp demo_usage) demo_attrs API_KEY_KEYS = None"
  "extract_string (ul_otlp demo_usage) demo_attrs USER_KEYS = None" "extract_string (ul_otlp demo_usage) demo_attrs USER_NAME_KEYS = None"
  "extract_string (ul_otlp demo_usage) demo_attrs MODEL_KEYS = None" "extract_i64 demo_attrs PROMPT_TOKENS_KEYS = Some 10"
  "extract_i64 demo_attrs COMPLETION_TOKENS_KEYS = Some 5" "total_tokens_of demo_attrs = Some 15"
  by code_simp+

lemma demo_amounts: "usage_value_of demo_attrs = Finite 15" "extract_f64 demo_attrs COST_KEYS = Some (Finite (1 / 4))"
proof -
  have "extract_f64 demo_attrs USAGE_VALUE_KEYS = None" by (simp add: extract_f64_def demo_attrs_def USAGE_VALUE_KEYS_def)
  then show "usage_value_of demo_attrs = Finite 15" by (simp add: usage_value_of_def demo_dimensions f64_of_int_exact)
  show "extract_f64 demo_attrs COST_KEYS = Some (Finite (1 / 4))" by (simp add: extract_f64_def demo_attrs_def COST_KEYS_def attr_f64_def demo_cost)
qed

lemma demo_extracts: "extract_log_events (ul_otlp demo_usage) clock demo_logs = [demo_event]"
  by (simp add: extract_log_events_def numbered_def with_resources_def demo_logs_def resource_attrs_def log_event_def
      demo_parses demo_merged event_of_def nanos_to_datetime_def demo_dimensions demo_amounts demo_event_def)

lemma demo_valid: "event_problem demo_event = None"
  by (simp add: event_problem_def demo_event_def demo_parses)

lemma demo_storable: "storable demo_event"
  by (auto simp: storable_def demo_event_def has_nul_def demo_attrs_def Map.graph_def split: if_splits)

abbreviation demo_ingest :: "nat usage_op" where
  "demo_ingest \<equiv> ingest demo_usage (decode_logs_request demo_usage \<lparr>hd_content_type = None, hd_content_encoding = None\<rparr> []) extract_log_events"

lemma demo_decodes: "decode_logs_request demo_usage \<lparr>hd_content_type = None, hd_content_encoding = None\<rparr> [] = Inr demo_logs"
  by (simp add: decode_logs_request_def decode_maybe_gzip_def is_json_content_def Let_def eq_ignore_ascii_case_def demo_usage_def
      res_bind_def map_err_def)

lemma demo_ingests: "run demo_ingest (fair 1 ''x'') 0 [] = (Inr 1, 2, [stored_event demo_usage demo_event])"
  by (simp add: ingest_def demo_decodes run_obind run_observe demo_extracts persist_events_def validate_events_def demo_valid
      insert_usage_events_def run_stmt_calm demo_storable)

text \<open>One log record is recorded as one row, and the statement about ingestion holds of it.\<close>

theorem ingestion_all_or_nothing_witness:
  "fst (run demo_ingest (fair 1 ''x'') 0 []) = Inr 1 \<and>
   snd (snd (run demo_ingest (fair 1 ''x'') 0 [])) = [stored_event demo_usage demo_event]"
  using ingestion_all_or_nothing [of extract_log_events demo_usage
      "decode_logs_request demo_usage \<lparr>hd_content_type = None, hd_content_encoding = None\<rparr> []" "fair 1 ''x''" 0 "[]"]
  by (simp add: demo_ingests demo_ingests [unfolded demo_decodes] demo_decodes demo_extracts Let_def)

definition demo_query :: usage_query_request where
  "demo_query = \<lparr>uq_scope = ScopeAccount, uq_scope_id = ''alice'', uq_start_time = 0, uq_end_time = 10000000000, uq_bucket = default_bucket,
     uq_filters = \<lparr>uf_account_id = None, uf_project_id = None, uf_api_key_id = None, uf_user_id = None, uf_user_name = None,
       uf_model = None, uf_metric_name = None, uf_signal_type = None\<rparr>,
     uq_group_by = [BySignalType], uq_limit = default_limit\<rparr>"

definition demo_row :: "int \<Rightarrow> rat \<Rightarrow> usage_event" where
  "demo_row t c = demo_event\<lparr>ue_observed_at := t, ue_total_cost := Some (Finite c)\<rparr>"

definition demo_table :: usage_db where
  "demo_table = [demo_row 5000 (1 / 4), demo_row 6000 (1 / 2), demo_row 99999999999 3]"

lemma demo_row_fields [simp]: "ue_observed_at (demo_row t c) = t" "cost_of (demo_row t c) = Finite c" "ue_account_id (demo_row t c) = Some ''alice''"
    "ue_request_count (demo_row t c) = 1" "ue_total_tokens (demo_row t c) = Some 15" "ue_prompt_tokens (demo_row t c) = Some 10"
    "ue_completion_tokens (demo_row t c) = Some 5" "ue_usage_value (demo_row t c) = Finite 15" "ue_signal_type (demo_row t c) = ''log''"
  by (simp_all add: demo_row_def demo_event_def cost_of_def)

lemma demo_interval: "in_interval demo_usage start finish (demo_row t c) \<longleftrightarrow> start div 1000 \<le> t \<and> t < finish div 1000"
  by (simp add: in_interval_def demo_usage_def)

lemma demo_matching: "filter (usage_matches demo_usage demo_query) demo_table = [demo_row 5000 (1 / 4), demo_row 6000 (1 / 2)]"
  by (simp add: usage_matches_def demo_interval demo_query_def demo_table_def filter_conditions_def)

lemma demo_rounds: "f64_of_rat 30 = Finite 30" "f64_of_rat (3 / 4) = Finite (3 / 4)" "f64_of_rat 750000 = Finite 750000"
  using f64_exact [of 30 0] f64_exact [of 3 2] f64_exact [of 750000 0] by simp_all

lemma demo_bucket: "ul_bucket_matches demo_usage (str_trim default_bucket)"
  by code_simp

lemma demo_series: "\<exists>p. result_of (query_usage demo_usage demo_query) (fair 1 ''x'') demo_table = Inr [p] \<and> us_requests p = 2 \<and>
    us_total_cost p = Finite (3 / 4)"
proof -
  have key: "group_key demo_usage demo_query (demo_row t c) = Inr (0, [None, None, None, None, None, None, None, Some ''log''])"
    if "0 \<le> t" "t < 3600000000" for t c
    using that by (simp add: group_key_def date_bin_def demo_usage_def demo_query_def all_dimensions_def append_dimension_def)
  have grouped: "\<exists>p. grouped demo_usage demo_query [demo_row 5000 (1 / 4), demo_row 6000 (1 / 2)] = Inr [p] \<and> us_requests p = 2 \<and>
      us_total_cost p = Finite (3 / 4)"
    by (simp add: grouped_def key series_point_def sum_bigint_def sum_or_zero_def sum_doubles_def float8_sum.simps demo_rounds i64_simps)
  have q: "\<not> uq_end_time demo_query \<le> uq_start_time demo_query" "\<not> is_blank (uq_scope_id demo_query)" "uq_limit demo_query = 1000"
    "uq_bucket demo_query = default_bucket"
    by (simp_all add: demo_query_def default_limit_def is_graphic_def)
  from grouped obtain p where "grouped demo_usage demo_query [demo_row 5000 (1 / 4), demo_row 6000 (1 / 2)] = Inr [p]"
    "us_requests p = 2" "us_total_cost p = Finite (3 / 4)" by blast
  then show ?thesis
    by (simp add: result_of_def query_usage_def q usage_query_rows_def validate_bucket_interval_def demo_bucket run_obind run_query_calm demo_matching)
qed

theorem usage_series_conserves_witness:
  "\<exists>p. result_of (query_usage demo_usage demo_query) (fair 1 ''x'') demo_table = Inr [p] \<and> us_requests p = 2 \<and> us_total_tokens p = 30"
proof -
  obtain p where p: "result_of (query_usage demo_usage demo_query) (fair 1 ''x'') demo_table = Inr [p]" using demo_series by blast
  have "length [p] < uq_limit demo_query" by (simp add: demo_query_def default_limit_def)
  from usage_series_conserves [OF p this] p show ?thesis by (simp add: demo_matching)
qed

subsection \<open>Spend\<close>

text \<open>A sum on the wire as its numerator and denominator in unary, after a sign; the empty text is \<open>null\<close>.\<close>

fun demo_encode :: "f64 option \<Rightarrow> string" where
  "demo_encode (Some (Finite x)) = (case quotient_of x of (n, d) \<Rightarrow>
     (if n < 0 then CHR ''-'' else CHR ''+'') # replicate (nat \<bar>n\<bar>) CHR ''n'' @ replicate (nat d) CHR ''d'')"
| "demo_encode _ = []"

definition demo_decode :: "string \<Rightarrow> (string, f64 option) result" where
  "demo_decode s = (case s of [] \<Rightarrow> Inr None | c # cs \<Rightarrow>
     let n = int (length (filter (\<lambda>c. c = CHR ''n'') cs)); d = int (length (filter (\<lambda>c. c = CHR ''d'') cs)) in
     Inr (Some (Finite (of_int (if c = CHR ''-'' then - n else n) / of_int d))))"

lemma demo_wire: "(\<And>x. c = Some x \<Longrightarrow> is_finite x) \<Longrightarrow> demo_decode (demo_encode c) = Inr c"
proof (cases c rule: demo_encode.cases)
  case (1 x)
  obtain n d where q: "quotient_of x = (n, d)" by (cases "quotient_of x")
  have "x = of_int n / of_int d" "0 < d" using quotient_of_div [OF q] quotient_of_denom_pos [OF q] by simp_all
  with 1 q show ?thesis by (simp add: demo_decode_def)
qed (auto simp: demo_decode_def)

text \<open>Months of 31 days, the first of them August 2026.\<close>

definition demo_midnight :: "nat \<Rightarrow> nat \<Rightarrow> int option" where
  "demo_midnight y m = Some ((12 * (int y - 2026) + int m - 8) * 2678400000000000)"

definition demo_reader :: "usage_db \<Rightarrow> (unit, unit) reader_lib" where
  "demo_reader db = \<lparr>rl_midnight = demo_midnight, rl_post = usage_answers demo_usage demo_encode db, rl_json = demo_decode,
     rl_read = (\<lambda>_. Inl ''none''), rl_pem_bundle = (\<lambda>_. Inl ''none''), rl_identity = (\<lambda>_. Inl ''none''), rl_build = (\<lambda>_. Inr ())\<rparr>"

lemma demo_bounds: "period_bounds_utc (demo_reader db) aug_2026 = Some (0, 2678400000000000)"
proof -
  have "ym_text 2026 8 = ''2026-08''" by (simp add: ym_text_eval)
  then have "period_year aug_2026 = Some 2026" "period_month aug_2026 = Some 8"
    using ym_text_accessors [of 2026 8] by (simp_all add: aug_2026_def)
  then show ?thesis by (simp add: period_bounds_utc_def demo_reader_def demo_midnight_def)
qed

text \<open>Two events of one month cost a quarter and a half: 750000 micro-dollars. An account without events is not one that spent nothing.\<close>

theorem spend_known_iff_summed_witness:
  "usage_service_reader (demo_reader (take 2 demo_table)) [] (fair 1 ''x'' 0) ''alice'' aug_2026 = Inr (Known 750000) \<and>
   usage_service_reader (demo_reader (take 2 demo_table)) [] (fair 1 ''x'' 0) ''bob'' aug_2026 = Inr Unavailable"
proof -
  let ?db = "take 2 demo_table"
  have finite: "list_all is_finite (map cost_of ?db)" by (simp add: demo_table_def)
  have costs: "month_costs demo_usage ''alice'' 0 2678400000000000 ?db = [Finite (1 / 4), Finite (1 / 2)]"
    "month_costs demo_usage ''bob'' 0 2678400000000000 ?db = []"
    by (simp_all add: month_costs_def demo_table_def demo_interval)
  have "sum_doubles [Finite (1 / 4), Finite (1 / 2)] = Inr (Some (Finite (3 / 4)))"
    by (simp add: sum_doubles_def demo_rounds)
  moreover have "\<lfloor>1500001 / 2 :: rat\<rfloor> = 750000" by (rule floor_unique) simp_all
  then have "cost_to_micros (Finite (3 / 4)) = Inr 750000"
    by (simp add: cost_to_micros_def f64_constants demo_rounds round_away_def toward_zero_def clamp_int_def)
  moreover have "\<not> is_blank ''alice''" "\<not> is_blank ''bob''" by code_simp+
  ultimately show ?thesis
    using spend_known_iff_summed [of "demo_reader ?db" demo_usage demo_encode ?db "fair 1 ''x'' 0" "''alice''" aug_2026 0 2678400000000000 "[]" 750000]
      spend_known_iff_summed [of "demo_reader ?db" demo_usage demo_encode ?db "fair 1 ''x'' 0" "''bob''" aug_2026 0 2678400000000000 "[]" 750000]
      demo_bounds demo_wire finite costs
    by (simp add: demo_reader_def fair_def)
qed

end
