(* ===== verification/Spec2Isabelle.thy ===== *)
theory Spec2Isabelle
  imports Review_Outcomes Paging Policy_Store Rpc_Gate Budget_Service Token_Demo Server_Config Usage_Demo
begin

text \<open>
  lightbridge-authz is the authorization back end of an API gateway, written in Rust over PostgreSQL. This development models its decision logic
  and its effects on the database, and proves what the parts promise each other. Paths below are under src/crates/lightbridge-authz-*/src
  unless they begin with app/ or migrations/.

  \<^bold>\<open>The parts and how they interact.\<close>
  Tenants are accounts, with projects, rosters of project members and API keys (api-key/src/repo.rs, rest/src/handlers). The identity provider
  (rest/src/oauth2_op) exchanges tokens of an upstream provider for tokens of its own and rotates refresh tokens. The gateway asks introspection whether a
  presented bearer is good. An RPC server and an MCP server put these operations, and those of the budget service, behind permissions derived from
  the caller's roles. The budget service (budget/src) keeps an append-only ledger of grants per account and month with a balance per account and
  month beside it, decides self-service refills by a policy document that can be replaced while it runs, and has a queue of requests for human
  review. The usage service (usage/src) turns OTLP telemetry into usage events and answers what an account has spent, which the budget policy reads.
  All tenancy and budget tables are in one database; the usage table is in another, reached over HTTP.

  \<^bold>\<open>Foundations.\<close>
  \<^item> Lb_Prelude: results as sums, Rust string and integer operations on byte lists and bounded integers, generic lemmas, the locale \<open>kept_by\<close> for
    invariants of sequences of steps.
  \<^item> Prog: a call is a program, a tree of atomic actions on the shared state with waiting for and releasing of advisory locks. An action is
    a statement, a transaction or a step of the process; it sees a weather that says whether its request or its reply was lost, what the clock showed and
    what was drawn at random. \<open>run\<close> executes a program alone; \<open>pool_reach\<close> is the reachability of a pool of programs under interleaving, crashes
    and broken lock connections. Locales: \<open>guarantee\<close> (relations every action keeps), lock sections, and rely/guarantee reasoning with one relation.
  \<^item> Contention: calls competing for something only one can have. Ownership: rely and guarantee that differ from call to call, and identifiers of
    one's own (locale \<open>neighbours\<close>).
  \<^item> Float64: \<open>f64\<close> as rationals with IEEE rounding, and decimal text.

  \<^bold>\<open>Budget\<close> (budget/src, and the budget procedures of rest/src/lib.rs).
  \<^item> Budget_Domain and Budget_Period: error.rs, amount.rs, source.rs, tier.rs, period.rs. Periods round-trip (C28).
  \<^item> Rule_Data and Rule_Policy: rule_data.rs, decision.rs, facts.rs: the policy schema, its validation, the evaluator with its step budget and the engine.
    Evaluation against a declarative reading, failing closed, reloading, and what validation accepts (C31 to C34). Locale \<open>policy_engine\<close>.
  \<^item> Budget_Schema: the tables with their constraints and the live engine, the record \<open>sys\<close>. Grant_Ledger: repo.rs, the grant transaction statement by statement, the
    reads, the ledger invariant, retries, and rebuilding balances (C19, C20). Augmentation: augmentation.rs. Paging: the keyset pages of both (C35).
  \<^item> Refill: refill.rs, from the idempotency short circuit to the recorded decision (C25 to C27). Review and Review_Outcomes: review.rs, the locked review
    of a request, retried and interleaved (C29, C30). Policy_Store: policy_store.rs, revisions, the active pointer, restarts (C36).
  \<^item> Spend_Reader: spend.rs, the client of the usage service (C21).
  \<^item> Budget_Rpc, Budget_System, Budget_Service: the sixteen budget procedures as one server on one database and one live engine: every row of the ledger is
    accounted for and permitted, invariants hold under load (C1 to C3), revocation takes effect once and own reads see own rows (C4, C5).

  \<^bold>\<open>Permissions\<close> (core/src/authz.rs, bearer/src/lib.rs, rest/src/rpc_authorize.rs, rest/src/auth_provider.rs, the clauses of api/schema/authz.cstack).
  \<^item> Rbac: compiled role mappings against their declarative reading (C37). Bearer: validation of a token. Rpc_Gate: the middleware, the auth provider with
    the context it builds and the policies of the schema, and that these three agree (C38 to C40).

  \<^bold>\<open>Tenancy, keys and identity\<close> (api-key/src, rest/src/handlers, rest/src/oauth2_op, rest/src/token_exchange.rs, rest/src/signing.rs).
  \<^item> Tenant_Schema, Tenant_Store, Api_Key_Store, Refresh_Tokens: the record \<open>tenancy\<close> and every method of \<open>StoreRepo\<close> with its conditions, constraints and cascades.
  \<^item> Oauth_Tokens, Token_Exchange: clients, scopes, claims, the exchange and refresh grants and the revocation endpoint. Token_Rotation, Token_Chains,
    Token_Grants: single use of refresh tokens, the absolute cap of chains, what each grant implies, reuse detection and an oracle-free revocation
    (C8 to C11, C17, C18). Token_Demo: a deployment at which they are evaluated.
  \<^item> Catalogues, Key_Issuance, Introspection: the operator's catalogues, \<open>AuthzStoreImpl\<close> and introspection. Tenant_Server: all of these as one server, with the
    locale \<open>server_rely\<close> of what its actions do to the tables. Tenant_Integrity: referential integrity under load (C7). Key_Safety, Key_Backing,
    Key_Lifecycle: revoked keys stay dead, an active answer is backed, keys are created and rotated within their bounds (C6, C14 to C16). Key_Demo: a
    deployment, with the races of the default project and the revival of a revoked key.
  \<^item> Tenant_Rpc: the twenty-three tenancy procedures. Mcp_Server, Mcp_Facts, Mcp_Discovery: app/lightbridge-authz/src/mcp.rs and rest/src/middleware: the tools, their gate, and
    that a tool does what the procedure its description names does (C12, C13). Server_Config: configuration interpolation and the checks of startup.

  \<^bold>\<open>Usage\<close> (usage/src).
  \<^item> Usage_Events, Usage_Store, Usage_Facts: OTLP payloads to events, the table and its two queries: events are well formed, recorded whole or not at all, and
    series conserve them (C22 to C24). Usage_Demo: a deployment.

  \<^bold>\<open>How state and operations are represented.\<close>
  Strings are lists of UTF-8 bytes. A \<open>DateTime\<close> is an integer, microseconds since the epoch, in the usage theories nanoseconds; adding durations is unbounded where
  chrono would panic. An \<open>i64\<close> is an integer with the bound \<open>fits_i64\<close> checked where the database or the code checks it, and wrap-around or panic
  written out where the code negates or adds unchecked (\<open>d_checks\<close> says whether the build has overflow checks); the payload integers of OTLP are 64-bit words.
  Database errors carry a short tag or the SQLSTATE in place of the driver's text; a panic is a failed call; log events are left out. \<open>ORDER BY\<close> keeps insertion order among ties and compares text
  bytewise. What is not in this repository is an argument: serde and the \<open>jsonb\<close> cast, JWT signing and verification, SHA-256, base64, RFC 3339 text,
  the calendar, the Redis store of assertion identifiers, HTTP, PEM and RSA, protobuf, gzip, regular expressions, the interval cast, URL parsing, and the client the cratestack macros
  generate. Random values and the clock come from the weather.

  A statement is one action, so it sees one state. \<open>transacted\<close> makes a transaction one action; it is used for transactions that lock what they decide on, or only write. Where the
  code decides on rows it read without a lock, the reads are actions of their own: \<open>create_project\<close>, whose trigger looks for earlier projects, and
  \<open>set_default_project\<close>; that an account has at most one default project rests on the unique index in the model, as it does in the database.

  \<^bold>\<open>What the statements assume.\<close>
  Statements about pools hold for any interleaving, lost messages and crashes unless they say otherwise. They start from consistent tables: keys, references and checks the
  database enforces, balances that add up, and for the budget server a live engine with a validated policy. Nothing is assumed of stored policy revisions: the
  migrations leave one (\<open>budget-refill-v1\<close>) that no longer parses, and \<open>rollback_to_unparsable\<close> shows what rolling back to it does. C9 assumes that identifiers
  drawn at random do not collide. Statements about single calls say whether messages are delivered.

  \<^bold>\<open>Bounds and fuel.\<close>
  No definition needs fuel: loops recurse on their data, or on a measure (\<open>interpolate_env_vars\<close>, \<open>trim_start_matches\<close>). The evaluation budget of the policy engine is the
  code's own and is modelled as such.

  \<^bold>\<open>What is not modelled.\<close>
  Router assembly, TLS and database pools, tracing, command-line parsing, plain configuration structs, the generated CRUD procedures and the CBOR codec, Redis rate limiting, and
  the JWKS and discovery documents assembled by upstream crates: input and output, wiring, or third-party code. Migrations and charts are in other languages; the constraints the code
  relies on are in the schema theories.
\<close>

end
